(* ===== verification/Prelude.thy ===== *)
theory Prelude
  imports Main "HOL-Library.List_Lexorder" "HOL-Library.Char_ord" "HOL-Library.Product_Lexorder"
    "HOL-Library.Sublist"
begin

text \<open>
  Shared vocabulary of the development: the Python values the code stores and passes, its
  dictionaries, the exceptions it raises, the string operations it uses, and computations that
  read and change the outside world. A computation that fails keeps the world it reached, as a
  Python exception does, so partial effects stay visible. The last part is a small calculus of
  weakest preconditions that carries the proofs about such computations.
\<close>

named_theorems py_defs \<open>definitions of the model that proofs unfold\<close>
named_theorems wp_ext \<open>weakest preconditions of the calls that leave the program\<close>

section \<open>Python values\<close>

text \<open>
  A \<open>datetime\<close> is an instant in microseconds, with the offset in minutes when it is aware. The
  difference of a naive and an aware one raises, as in Python. \<open>POther\<close> is a value that JSON cannot
  write, by the name of its type.
\<close>

datatype datetime = Naive int | Aware int int

datatype pyval =
    PNone
  | PBool bool
  | PInt int
  | PStr string
  | PDate datetime
  | PList "pyval list"
  | PDict "(string \<times> pyval) list"
  | POther string

text \<open>A dictionary with string keys, as the table entities are.\<close>

type_synonym entity = "string \<rightharpoonup> pyval"

fun truthy :: "pyval \<Rightarrow> bool" where
  "truthy PNone = False"
| "truthy (PBool b) = b"
| "truthy (PInt i) = (i \<noteq> 0)"
| "truthy (PStr s) = (s \<noteq> [])"
| "truthy (PDate d) = True"
| "truthy (PList xs) = (xs \<noteq> [])"
| "truthy (PDict kvs) = (kvs \<noteq> [])"
| "truthy (POther t) = True"

text \<open>A value \<open>json.dumps\<close> refuses.\<close>

fun has_other :: "pyval \<Rightarrow> bool" where
  "has_other (POther t) = True"
| "has_other (PList vs) = list_ex has_other vs"
| "has_other (PDict kvs) = list_ex (\<lambda>(k, v). has_other v) kvs"
| "has_other v = False"

fun is_str :: "pyval \<Rightarrow> bool" where
  "is_str (PStr s) = True"
| "is_str _ = False"

text \<open>\<open>d.get(k, default)\<close> and \<open>d.get(k)\<close>.\<close>

definition dget :: "entity \<Rightarrow> string \<Rightarrow> pyval \<Rightarrow> pyval" where
  "dget e k d = (case e k of Some v \<Rightarrow> v | None \<Rightarrow> d)"

abbreviation dget0 :: "entity \<Rightarrow> string \<Rightarrow> pyval" where
  "dget0 e k \<equiv> dget e k PNone"

lemma dget_simps [simp]:
  "e k = Some v \<Longrightarrow> dget e k d = v"
  "e k = None \<Longrightarrow> dget e k d = d"
  by (simp_all add: dget_def)

lemma dget_upd [simp]: "dget (e(k \<mapsto> v)) k' d = (if k' = k then v else dget e k' d)"
  by (simp add: dget_def)

text \<open>A Python \<open>int | None\<close> and \<open>datetime | None\<close> as values.\<close>

fun of_int_opt :: "int option \<Rightarrow> pyval" where
  "of_int_opt None = PNone"
| "of_int_opt (Some i) = PInt i"

fun of_date_opt :: "datetime option \<Rightarrow> pyval" where
  "of_date_opt None = PNone"
| "of_date_opt (Some d) = PDate d"

text \<open>A Python \<open>str | None\<close> as a value, and the falsy test of such a value.\<close>

fun of_opt :: "string option \<Rightarrow> pyval" where
  "of_opt None = PNone"
| "of_opt (Some s) = PStr s"

definition opt_truthy :: "string option \<Rightarrow> bool" where
  "opt_truthy x \<longleftrightarrow> (case x of None \<Rightarrow> False | Some s \<Rightarrow> s \<noteq> [])"

lemma opt_truthy_simps [simp]:
  "\<not> opt_truthy None"
  "opt_truthy (Some s) \<longleftrightarrow> s \<noteq> []"
  by (simp_all add: opt_truthy_def)

text \<open>\<open>x or default\<close> for a string that may be \<open>None\<close> or empty.\<close>

definition str_or :: "string option \<Rightarrow> string \<Rightarrow> string" where
  "str_or x d = (case x of None \<Rightarrow> d | Some s \<Rightarrow> if s = [] then d else s)"

lemma str_or_simps [simp]:
  "str_or None d = d"
  "s \<noteq> [] \<Longrightarrow> str_or (Some s) d = s"
  "str_or (Some []) d = d"
  by (simp_all add: str_or_def)

section \<open>Strings\<close>

definition quote :: string where
  "quote = [CHR 0x27]"

text \<open>\<open>s.replace(old, new)\<close> for a non-empty \<open>old\<close>.\<close>

fun replace_all :: "string \<Rightarrow> string \<Rightarrow> string \<Rightarrow> string" where
  "replace_all old new [] = []"
| "replace_all old new (c # s) =
     (if prefix old (c # s) then new @ replace_all old new (drop (length old - 1) s)
      else c # replace_all old new s)"

text \<open>\<open>s.split(c, n)\<close>: at most \<open>n\<close> splits, from the left.\<close>

fun split_max :: "char \<Rightarrow> nat \<Rightarrow> string \<Rightarrow> string list" where
  "split_max c 0 s = [s]"
| "split_max c (Suc n) s =
     (if c \<in> set s
      then takeWhile (\<lambda>x. x \<noteq> c) s # split_max c n (tl (dropWhile (\<lambda>x. x \<noteq> c) s))
      else [s])"

lemma takeWhile_sep: "c \<notin> set a \<Longrightarrow> takeWhile (\<lambda>x. x \<noteq> c) (a @ c # b) = a"
  by (induction a) auto

lemma dropWhile_sep: "c \<notin> set a \<Longrightarrow> dropWhile (\<lambda>x. x \<noteq> c) (a @ c # b) = c # b"
  by (induction a) auto

lemma split_max_sep:
  "c \<notin> set a \<Longrightarrow> split_max c (Suc n) (a @ c # b) = a # split_max c n b"
  by (simp add: takeWhile_sep dropWhile_sep)

lemma split_max_none: "c \<notin> set a \<Longrightarrow> split_max c n a = [a]"
  by (cases n) auto

declare split_max.simps(2) [simp del]

definition startswith :: "string \<Rightarrow> string \<Rightarrow> bool" where
  "startswith s p \<longleftrightarrow> take (length p) s = p"

lemma startswith_prefix: "startswith s p \<longleftrightarrow> prefix p s"
  by (metis append_eq_conv_conj append_take_drop_id prefix_def startswith_def)

lemma startswith_append [simp]: "startswith (p @ s) p"
  by (simp add: startswith_def)

text \<open>\<open>sub in s\<close> for strings.\<close>

definition str_in :: "string \<Rightarrow> string \<Rightarrow> bool" where
  "str_in sub s \<longleftrightarrow> (\<exists>i \<le> length s. startswith (drop i s) sub)"

lemma str_in_sublist: "str_in sub s \<longleftrightarrow> sublist sub s"
proof
  assume "str_in sub s"
  then obtain i where "prefix sub (drop i s)"
    by (auto simp: str_in_def startswith_prefix)
  then show "sublist sub s"
    by (metis append_take_drop_id prefix_def sublist_appendI)
next
  assume "sublist sub s"
  then obtain a b where "s = a @ sub @ b" by (auto simp: sublist_def)
  then show "str_in sub s"
    unfolding str_in_def startswith_prefix by (intro exI [of _ "length a"]) auto
qed

text \<open>White space as \<open>str.strip\<close> removes it (the ASCII part).\<close>

definition is_space :: "char \<Rightarrow> bool" where
  "is_space c \<longleftrightarrow> c \<in> {CHR 0x20, CHR 0x09, CHR 0x0A, CHR 0x0B, CHR 0x0C, CHR 0x0D}"

definition strip :: "string \<Rightarrow> string" where
  "strip s = rev (dropWhile is_space (rev (dropWhile is_space s)))"

text \<open>\<open>str.lower\<close> on ASCII, and \<open>s.split(c)\<close> without a limit.\<close>

definition lower_char :: "char \<Rightarrow> char" where
  "lower_char c = (if CHR ''A'' \<le> c \<and> c \<le> CHR ''Z'' then char_of (of_char c + 32 :: nat) else c)"

definition lower :: "string \<Rightarrow> string" where
  "lower s = map lower_char s"

definition split_all :: "char \<Rightarrow> string \<Rightarrow> string list" where
  "split_all c s = split_max c (length s) s"

lemma split_max_enough:
  assumes "length s \<le> n"
  shows "split_max c n s = split_all c s"
proof -
  have same: "split_max c n s = split_max c m s" if "length s \<le> n" "length s \<le> m" for m
    using that
  proof (induction n arbitrary: m s)
    case (Suc n)
    then show ?case
    proof (cases "c \<in> set s")
      case True
      then obtain a b where s: "s = a @ c # b" "c \<notin> set a" by (metis split_list_first)
      then obtain k where m: "m = Suc k" using Suc.prems by (cases m) auto
      show ?thesis unfolding s m split_max_sep [OF s(2)] using Suc.IH [of b k] Suc.prems s m by simp
    qed (simp add: split_max_none)
  qed (simp add: split_max_none)
  show ?thesis unfolding split_all_def by (rule same [OF assms]) simp
qed

lemma split_all_none: "c \<notin> set s \<Longrightarrow> split_all c s = [s]"
  by (simp add: split_all_def split_max_none)

lemma split_all_sep: "c \<notin> set a \<Longrightarrow> split_all c (a @ c # b) = a # split_all c b"
  using split_max_sep [of c a "length a + length b" b] split_max_enough [of b "length a + length b" c]
  unfolding split_all_def by simp

lemma split_all_append: "split_all c (a @ c # b) = split_all c a @ split_all c b"
proof (induction "length a" arbitrary: a rule: less_induct)
  case less
  show ?case
  proof (cases "c \<in> set a")
    case True
    then obtain u v where a: "a = u @ c # v" "c \<notin> set u" by (metis split_list_first)
    then show ?thesis using less [of v] by (simp add: split_all_sep)
  qed (simp add: split_all_sep split_all_none)
qed

lemma length_split_all: "length (split_all c s) = Suc (length (filter (\<lambda>x. x = c) s))"
proof (induction "length s" arbitrary: s rule: less_induct)
  case less
  show ?case
  proof (cases "c \<in> set s")
    case True
    then obtain u v where s: "s = u @ c # v" "c \<notin> set u" by (metis split_list_first)
    then have "filter (\<lambda>x. x = c) u = []" by (auto simp: filter_empty_conv)
    then show ?thesis using less [of v] s by (simp add: split_all_sep)
  next
    case False
    then have "filter (\<lambda>x. x = c) s = []" by (auto simp: filter_empty_conv)
    then show ?thesis by (simp add: split_all_none False)
  qed
qed

text \<open>\<open>sep.join(xs)\<close>.\<close>

fun join :: "string \<Rightarrow> string list \<Rightarrow> string" where
  "join sep [] = []"
| "join sep [x] = x"
| "join sep (x # y # xs) = x @ sep @ join sep (y # xs)"

lemma join_Cons: "xs \<noteq> [] \<Longrightarrow> join sep (x # xs) = x @ sep @ join sep xs"
  by (cases xs) auto

lemma split_all_nonempty [simp]: "split_all c s \<noteq> []"
  using length_split_all [of c s] by auto

lemma join_split_all: "join [c] (split_all c s) = s"
proof (induction "length s" arbitrary: s rule: less_induct)
  case less
  show ?case
  proof (cases "c \<in> set s")
    case True
    then obtain u v where s: "s = u @ c # v" "c \<notin> set u" by (metis split_list_first)
    then show ?thesis using less [of v] by (simp add: split_all_sep join_Cons)
  qed (simp add: split_all_none)
qed

lemma split_all_no_sep: "p \<in> set (split_all c s) \<Longrightarrow> c \<notin> set p"
proof (induction "length s" arbitrary: s rule: less_induct)
  case less
  show ?case
  proof (cases "c \<in> set s")
    case True
    then obtain u v where s: "s = u @ c # v" "c \<notin> set u" by (metis split_list_first)
    then show ?thesis using less.hyps [of v] less.prems by (auto simp: split_all_sep)
  qed (use less in \<open>simp add: split_all_none\<close>)
qed

text \<open>\<open>str(n)\<close> for an integer.\<close>

fun str_nat :: "nat \<Rightarrow> string" where
  "str_nat n = (if n < 10 then [char_of (48 + n)]
                else str_nat (n div 10) @ [char_of (48 + n mod 10)])"

declare str_nat.simps [simp del]

definition str_int :: "int \<Rightarrow> string" where
  "str_int i = (if i < 0 then ''-'' @ str_nat (nat (- i)) else str_nat (nat i))"

text \<open>The same digits on integers, which evaluate in binary.\<close>

function str_pos :: "int \<Rightarrow> string" where
  "str_pos i = (if i < 10 then [char_of (48 + nat i)] else str_pos (i div 10) @ [char_of (48 + nat (i mod 10))])"
  by auto
termination by (relation "measure nat") auto

declare str_pos.simps [simp del]

lemma str_pos_int: "str_pos (int n) = str_nat n"
proof (induction n rule: str_nat.induct)
  case (1 n)
  have d: "int n div 10 = int (n div 10)" "int n mod 10 = int (n mod 10)"
    by (simp_all add: zdiv_int zmod_int)
  show ?case
    by (subst str_pos.simps, subst str_nat.simps) (use 1 in \<open>simp add: d\<close>)
qed

lemma str_int_code [code]: "str_int i = (if i < 0 then ''-'' @ str_pos (- i) else str_pos i)"
  using str_pos_int [of "nat i"] str_pos_int [of "nat (- i)"] by (auto simp: str_int_def)

text \<open>\<open>int(s)\<close> of a string: white space around it, a sign, digits with single underscores between.\<close>

definition is_letter :: "char \<Rightarrow> bool" where
  "is_letter c \<longleftrightarrow> CHR ''a'' \<le> lower_char c \<and> lower_char c \<le> CHR ''z''"

definition is_digit :: "char \<Rightarrow> bool" where
  "is_digit c \<longleftrightarrow> CHR ''0'' \<le> c \<and> c \<le> CHR ''9''"

definition digit_val :: "char \<Rightarrow> int" where
  "digit_val c = int (of_char c) - 48"

fun int_digits :: "string \<Rightarrow> int \<Rightarrow> int option" where
  "int_digits [] n = Some n"
| "int_digits (c # s) n =
     (if is_digit c then int_digits s (10 * n + digit_val c)
      else if c = CHR ''_'' then
        (case s of [] \<Rightarrow> None
         | d # s' \<Rightarrow> if is_digit d then int_digits s' (10 * n + digit_val d) else None)
      else None)"

definition py_int :: "string \<Rightarrow> int option" where
  "py_int s = (let t = strip s;
                   (neg, u) = (case t of [] \<Rightarrow> (False, [])
                     | c # r \<Rightarrow> if c = CHR ''-'' then (True, r) else if c = CHR ''+'' then (False, r) else (False, t))
               in case u of [] \<Rightarrow> None
                  | c # r \<Rightarrow> if is_digit c then map_option (\<lambda>n. if neg then - n else n) (int_digits u 0) else None)"

text \<open>\<open>xs[:n]\<close>.\<close>

definition py_take :: "int \<Rightarrow> 'a list \<Rightarrow> 'a list" where
  "py_take n xs = (if n < 0 then take (length xs - nat (- n)) xs else take (nat n) xs)"

text \<open>
  The row-key ranges of the code: from a prefix to the prefix followed by \<open>~\<close> or \<open>;\<close>. The
  order is that of the table service, character by character.
\<close>

lemma range_prefix:
  "p \<le> k \<and> k < p @ [c] \<longleftrightarrow> (\<exists>s. k = p @ s \<and> (s = [] \<or> hd s < c))" for k p :: string
proof (induction p arbitrary: k)
  case Nil
  then show ?case by (cases k) auto
next
  case (Cons a p)
  show ?case
  proof (cases k)
    case (Cons b k')
    then show ?thesis using Cons.IH [of k'] by auto
  qed simp
qed

lemma range_between:
  "p @ [c] \<le> k \<and> k < p @ [d] \<longleftrightarrow> (\<exists>x s. k = p @ x # s \<and> c \<le> x \<and> x < d)" for k p :: string
proof (induction p arbitrary: k)
  case Nil
  show ?case by (cases k) auto
next
  case (Cons a p)
  show ?case
  proof (cases k)
    case (Cons b k')
    then show ?thesis using Cons.IH [of k'] by auto
  qed simp
qed

text \<open>Decimal numerals of the same length are ordered as their values are.\<close>

lemma append_less_left: "u < v \<Longrightarrow> length u = length v \<Longrightarrow> u @ x < v @ y" for u v :: string
proof (induction u arbitrary: v)
  case (Cons a u)
  then show ?case by (cases v) auto
qed simp

lemma append_less_same [simp]: "u @ x < u @ y \<longleftrightarrow> x < y" for u :: string
  by (induction u) auto

lemma append_le_same [simp]: "u @ x \<le> u @ y \<longleftrightarrow> x \<le> y" for u :: string
  by (induction u) auto

lemma sorted_map_Pair [simp]: "sorted (map (Pair q) xs) \<longleftrightarrow> sorted xs" for q :: string and xs :: "string list"
  by (induction xs) auto

lemma of_char_char_of_less: "n < 256 \<Longrightarrow> of_char (char_of n :: char) = (n :: nat)"
  by (simp add: of_char_of)

lemma digit_char_less: "a < b \<Longrightarrow> b < 10 \<Longrightarrow> (char_of (48 + a) :: char) < char_of (48 + b)" for a b :: nat
  by (simp add: less_char_def of_char_of)

lemma str_nat_less:
  "m < n \<Longrightarrow> length (str_nat m) = length (str_nat n) \<Longrightarrow> str_nat m < str_nat n"
proof (induction n arbitrary: m rule: str_nat.induct)
  case (1 n)
  have nonempty: "str_nat k \<noteq> []" for k by (subst str_nat.simps) simp
  show ?case
  proof (cases "n < 10")
    case True
    then show ?thesis
      using "1.prems"(1) digit_char_less by (subst (1 2) str_nat.simps) simp
  next
    case n: False
    have m: "\<not> m < 10"
    proof
      assume "m < 10"
      then have "length (str_nat m) = 1" by (subst str_nat.simps) simp
      moreover have "length (str_nat n) = Suc (length (str_nat (n div 10)))"
        using n by (subst str_nat.simps) simp
      ultimately show False using "1.prems"(2) nonempty [of "n div 10"] by simp
    qed
    have len: "length (str_nat (m div 10)) = length (str_nat (n div 10))"
      using "1.prems"(2) n m by (subst (asm) (1 2) str_nat.simps) simp
    have split: "str_nat k = str_nat (k div 10) @ [char_of (48 + k mod 10)]" if "\<not> k < 10" for k
      using that by (subst str_nat.simps) simp
    show ?thesis
    proof (cases "m div 10 < n div 10")
      case True
      then have "str_nat (m div 10) < str_nat (n div 10)"
        using "1.IH" n len by simp
      then show ?thesis
        unfolding split [OF n] split [OF m] by (rule append_less_left) (rule len)
    next
      case False
      have d: "m div 10 = n div 10"
        using False div_le_mono [of m n 10] "1.prems"(1) by linarith
      moreover have "m mod 10 < n mod 10"
        using "1.prems"(1) mult_div_mod_eq [of 10 m] mult_div_mod_eq [of 10 n] unfolding d by linarith
      ultimately show ?thesis
        unfolding split [OF n] split [OF m] by (simp add: digit_char_less)
    qed
  qed
qed

lemma length_str_nat: "10 ^ k \<le> n \<Longrightarrow> n < 10 ^ Suc k \<Longrightarrow> length (str_nat n) = Suc k"
proof (induction k arbitrary: n)
  case 0
  then show ?case by (subst str_nat.simps) simp
next
  case (Suc k)
  have "10 ^ k \<le> n div 10" "n div 10 < 10 ^ Suc k"
    using Suc.prems by (simp_all add: less_eq_div_iff_mult_less_eq div_less_iff_less_mult mult.commute)
  then have "length (str_nat (n div 10)) = Suc k" by (rule Suc.IH)
  moreover have "\<not> n < 10"
  proof -
    have "(1::nat) \<le> 10 ^ k" by simp
    moreover have "10 * 10 ^ k \<le> n" using Suc.prems(1) by simp
    ultimately show ?thesis by linarith
  qed
  ultimately show ?case by (subst str_nat.simps) simp
qed

section \<open>Exceptions and computations\<close>

datatype exn =
    ResourceExistsError
  | ResourceNotFoundError
  | ResourceModifiedError
  | ServiceError string
  | ValueError string
  | PermissionError string
  | KeyError string
  | TypeError string
  | AttributeError string
  | IndexError
  | AppError string string

type_synonym ('w, 'a) py = "'w \<Rightarrow> (exn + 'a) \<times> 'w"

definition ret :: "'a \<Rightarrow> ('w, 'a) py" where
  "ret a = (\<lambda>w. (Inr a, w))"

definition raise :: "exn \<Rightarrow> ('w, 'a) py" where
  "raise e = (\<lambda>w. (Inl e, w))"

definition py_bind :: "('w, 'a) py \<Rightarrow> ('a \<Rightarrow> ('w, 'b) py) \<Rightarrow> ('w, 'b) py" where
  "py_bind m f = (\<lambda>w. case m w of (Inl e, w') \<Rightarrow> (Inl e, w') | (Inr a, w') \<Rightarrow> f a w')"

definition py_then :: "('w, 'a) py \<Rightarrow> ('w, 'b) py \<Rightarrow> ('w, 'b) py" where
  "py_then m n = py_bind m (\<lambda>_. n)"

text \<open>\<open>try: m except Exception as e: h e\<close>.\<close>

definition py_catch :: "('w, 'a) py \<Rightarrow> (exn \<Rightarrow> ('w, 'a) py) \<Rightarrow> ('w, 'a) py" where
  "py_catch m h = (\<lambda>w. case m w of (Inl e, w') \<Rightarrow> h e w' | (Inr a, w') \<Rightarrow> (Inr a, w'))"

text \<open>\<open>try: m finally: c\<close>.\<close>

definition py_finally :: "('w, 'a) py \<Rightarrow> ('w, unit) py \<Rightarrow> ('w, 'a) py" where
  "py_finally m c = (\<lambda>w. case m w of (r, w') \<Rightarrow> (case c w' of (Inl e, w'') \<Rightarrow> (Inl e, w'') | (Inr _, w'') \<Rightarrow> (r, w'')))"

text \<open>A pure result that may be an exception.\<close>

definition lift :: "exn + 'a \<Rightarrow> ('w, 'a) py" where
  "lift r = (\<lambda>w. (r, w))"

text \<open>Pure results in sequence.\<close>

definition ebind :: "exn + 'a \<Rightarrow> ('a \<Rightarrow> exn + 'b) \<Rightarrow> exn + 'b" where
  "ebind x f = (case x of Inl e \<Rightarrow> Inl e | Inr a \<Rightarrow> f a)"

lemma ebind_simps [simp]: "ebind (Inl e) f = Inl e" "ebind (Inr a) f = f a"
  by (simp_all add: ebind_def)

lemma ebind_Inr: "ebind x f = Inr b \<longleftrightarrow> (\<exists>a. x = Inr a \<and> f a = Inr b)"
  by (auto simp: ebind_def split: sum.splits)

text \<open>\<open>str(e)\<close> of an exception that carries a message.\<close>

fun exn_msg :: "exn \<Rightarrow> string" where
  "exn_msg (ServiceError s) = s"
| "exn_msg (ValueError s) = s"
| "exn_msg (PermissionError s) = s"
| "exn_msg (KeyError s) = quote @ s @ quote"
| "exn_msg (TypeError s) = s"
| "exn_msg (AttributeError s) = s"
| "exn_msg (AppError c s) = s"
| "exn_msg _ = []"

text \<open>\<open>int(v)\<close>.\<close>

definition int_of :: "pyval \<Rightarrow> exn + int" where
  "int_of v = (case v of
     PInt i \<Rightarrow> Inr i
   | PBool b \<Rightarrow> Inr (if b then 1 else 0)
   | PStr s \<Rightarrow> (case py_int s of Some i \<Rightarrow> Inr i | None \<Rightarrow> Inl (ValueError ''invalid literal for int()''))
   | _ \<Rightarrow> Inl (TypeError ''int() argument''))"

text \<open>\<open>v.get(k, d)\<close> and \<open>s in v\<close> of a value that should be a dictionary or a list.\<close>

definition pget :: "pyval \<Rightarrow> string \<Rightarrow> pyval \<Rightarrow> exn + pyval" where
  "pget v k d = (case v of
     PDict kvs \<Rightarrow> Inr (case map_of kvs k of Some x \<Rightarrow> x | None \<Rightarrow> d)
   | _ \<Rightarrow> Inl (AttributeError ''get''))"

definition py_contains :: "string \<Rightarrow> pyval \<Rightarrow> exn + bool" where
  "py_contains s v = (case v of
     PList xs \<Rightarrow> Inr (PStr s \<in> set xs)
   | PStr t \<Rightarrow> Inr (str_in s t)
   | PDict kvs \<Rightarrow> Inr (s \<in> fst ` set kvs)
   | _ \<Rightarrow> Inl (TypeError ''argument is not iterable''))"

primrec py_map :: "('a \<Rightarrow> ('w, 'b) py) \<Rightarrow> 'a list \<Rightarrow> ('w, 'b list) py" where
  "py_map f [] = ret []"
| "py_map f (x # xs) = py_bind (f x) (\<lambda>y. py_bind (py_map f xs) (\<lambda>ys. ret (y # ys)))"

primrec py_for :: "'a list \<Rightarrow> ('a \<Rightarrow> ('w, unit) py) \<Rightarrow> ('w, unit) py" where
  "py_for [] f = ret ()"
| "py_for (x # xs) f = py_then (f x) (py_for xs f)"

text \<open>The result as a value, for \<open>gather(..., return_exceptions=True)\<close>.\<close>

definition py_attempt :: "('w, 'a) py \<Rightarrow> ('w, exn + 'a) py" where
  "py_attempt m = (\<lambda>w. case m w of (r, w') \<Rightarrow> (Inr r, w'))"

lemmas py_run_defs = ret_def raise_def py_bind_def py_then_def py_catch_def lift_def py_attempt_def

text \<open>\<open>a - b\<close> of two datetimes, in microseconds.\<close>

fun dt_diff :: "datetime \<Rightarrow> datetime \<Rightarrow> exn + int" where
  "dt_diff (Naive a) (Naive b) = Inr (a - b)"
| "dt_diff (Aware a _) (Aware b _) = Inr (a - b)"
| "dt_diff _ _ = Inl (TypeError ''can't subtract offset-naive and offset-aware datetimes'')"

text \<open>\<open>d + timedelta\<close>, in microseconds.\<close>

fun dt_add :: "datetime \<Rightarrow> int \<Rightarrow> datetime" where
  "dt_add (Naive i) d = Naive (i + d)"
| "dt_add (Aware i z) d = Aware (i + d) z"

section \<open>Weakest preconditions\<close>

definition wp :: "('w, 'a) py \<Rightarrow> ('a \<Rightarrow> 'w \<Rightarrow> bool) \<Rightarrow> (exn \<Rightarrow> 'w \<Rightarrow> bool) \<Rightarrow> 'w \<Rightarrow> bool" where
  "wp m Q R w \<longleftrightarrow> (case m w of (Inl e, w') \<Rightarrow> R e w' | (Inr a, w') \<Rightarrow> Q a w')"

lemma wp_ret [simp]: "wp (ret a) Q R = Q a"
  by (rule ext) (simp add: wp_def ret_def)

lemma wp_raise [simp]: "wp (raise e) Q R = R e"
  by (rule ext) (simp add: wp_def raise_def)

lemma wp_lift [simp]: "wp (lift r) Q R = (case r of Inl e \<Rightarrow> R e | Inr a \<Rightarrow> Q a)"
  by (rule ext) (simp add: wp_def lift_def split: sum.splits)

lemma wp_bind [simp]: "wp (py_bind m f) Q R = wp m (\<lambda>a. wp (f a) Q R) R"
  by (rule ext) (simp add: wp_def py_bind_def split: prod.splits sum.splits)

lemma wp_then [simp]: "wp (py_then m n) Q R = wp m (\<lambda>_. wp n Q R) R"
  by (simp add: py_then_def)

lemma wp_catch [simp]: "wp (py_catch m h) Q R = wp m Q (\<lambda>e. wp (h e) Q R)"
  by (rule ext) (simp add: wp_def py_catch_def split: prod.splits sum.splits)

lemma wp_attempt [simp]:
  "wp (py_attempt m) Q R = wp m (\<lambda>a. Q (Inr a)) (\<lambda>e. Q (Inl e))"
  by (rule ext) (simp add: wp_def py_attempt_def split: prod.splits sum.splits)

lemma wp_finally [simp]:
  "wp (py_finally m c) Q R = wp m (\<lambda>a. wp c (\<lambda>_. Q a) R) (\<lambda>e. wp c (\<lambda>_. R e) R)"
  by (rule ext) (simp add: wp_def py_finally_def split: prod.splits sum.splits)

lemma wp_if [simp]:
  "wp (if b then m else n) Q R = (if b then wp m Q R else wp n Q R)"
  by simp

lemma wp_option [simp]:
  "wp (case x of None \<Rightarrow> m | Some a \<Rightarrow> f a) Q R
     = (case x of None \<Rightarrow> wp m Q R | Some a \<Rightarrow> wp (f a) Q R)"
  by (simp split: option.splits)

lemma wp_sum [simp]:
  "wp (case x of Inl e \<Rightarrow> f e | Inr a \<Rightarrow> g a) Q R
     = (case x of Inl e \<Rightarrow> wp (f e) Q R | Inr a \<Rightarrow> wp (g a) Q R)"
  by (simp split: sum.splits)

lemma wp_prod [simp]:
  "wp (case x of (a, b) \<Rightarrow> f a b) Q R = (case x of (a, b) \<Rightarrow> wp (f a b) Q R)"
  by (simp split: prod.splits)

lemma wp_let [simp]: "wp (let x = a in f x) Q R = (let x = a in wp (f x) Q R)"
  by simp

lemma wp_mono:
  assumes "wp m Q R w"
    and "\<And>a w'. Q a w' \<Longrightarrow> Q' a w'"
    and "\<And>e w'. R e w' \<Longrightarrow> R' e w'"
  shows "wp m Q' R' w"
  using assms by (auto simp: wp_def split: prod.splits sum.splits)

lemma wp_conj:
  assumes "wp m Q R w" and "wp m Q' R' w"
  shows "wp m (\<lambda>a w'. Q a w' \<and> Q' a w') (\<lambda>e w'. R e w' \<and> R' e w') w"
  using assms by (auto simp: wp_def split: prod.splits sum.splits)

lemma wp_Inr: "wp m Q R w \<Longrightarrow> m w = (Inr a, w') \<Longrightarrow> Q a w'"
  by (simp add: wp_def)

lemma wp_Inl: "wp m Q R w \<Longrightarrow> m w = (Inl e, w') \<Longrightarrow> R e w'"
  by (simp add: wp_def)

lemma wp_result: "wp m Q R w \<longleftrightarrow>
    (\<forall>a w'. m w = (Inr a, w') \<longrightarrow> Q a w') \<and> (\<forall>e w'. m w = (Inl e, w') \<longrightarrow> R e w')"
  by (auto simp: wp_def split: prod.splits sum.splits)

text \<open>Loops: an invariant of the body is an invariant of the loop.\<close>

lemma wp_for_inv:
  assumes "\<And>x w. x \<in> set xs \<Longrightarrow> I w \<Longrightarrow> wp (f x) (\<lambda>_. I) R w" and "I w"
  shows "wp (py_for xs f) (\<lambda>_. I) R w"
  using assms
proof (induction xs arbitrary: w)
  case Nil
  then show ?case by simp
next
  case (Cons x xs)
  have "wp (f x) (\<lambda>_. I) R w" using Cons.prems by simp
  moreover have "wp (py_for xs f) (\<lambda>_. I) R w'" if "I w'" for w'
    by (rule Cons.IH) (use Cons.prems(1) that in simp_all)
  ultimately have "wp (f x) (\<lambda>_. wp (py_for xs f) (\<lambda>_. I) R) R w"
    by (rule wp_mono)
  then show ?case by simp
qed

lemma wp_map_inv:
  assumes "\<And>x w. x \<in> set xs \<Longrightarrow> I w \<Longrightarrow> wp (f x) (\<lambda>_. I) R w" and "I w"
  shows "wp (py_map f xs) (\<lambda>_. I) R w"
  using assms
proof (induction xs arbitrary: w)
  case Nil
  then show ?case by simp
next
  case (Cons x xs)
  have "wp (f x) (\<lambda>_. I) R w" using Cons.prems by simp
  moreover have "wp (py_map f xs) (\<lambda>_. I) R w'" if "I w'" for w'
    by (rule Cons.IH) (use Cons.prems(1) that in simp_all)
  ultimately have "wp (f x) (\<lambda>_. wp (py_map f xs) (\<lambda>_. I) R) R w"
    by (rule wp_mono)
  then show ?case by simp
qed

text \<open>What the body establishes for each element, the list of results has element by element.\<close>

lemma wp_map_all2:
  assumes "\<And>x w. x \<in> set xs \<Longrightarrow> I w \<Longrightarrow> wp (f x) (\<lambda>y w'. I w' \<and> P x y) R w" and "I w"
  shows "wp (py_map f xs) (\<lambda>ys w'. I w' \<and> list_all2 P xs ys) R w"
  using assms
proof (induction xs arbitrary: w)
  case Nil
  then show ?case by simp
next
  case (Cons x xs)
  have "wp (f x) (\<lambda>y w'. I w' \<and> P x y) R w" using Cons.prems by simp
  then have "wp (f x) (\<lambda>y. wp (py_map f xs) (\<lambda>ys w'. I w' \<and> list_all2 P (x # xs) (y # ys)) R) R w"
  proof (rule wp_mono)
    fix y w'
    assume y: "I w' \<and> P x y"
    have "wp (py_map f xs) (\<lambda>ys w'. I w' \<and> list_all2 P xs ys) R w'"
      by (rule Cons.IH) (use Cons.prems(1) y in simp_all)
    then show "wp (py_map f xs) (\<lambda>ys w'. I w' \<and> list_all2 P (x # xs) (y # ys)) R w'"
      by (rule wp_mono) (use y in simp_all)
  qed
  then show ?case by simp
qed

subsection \<open>What a computation never breaks\<close>

text \<open>A condition on the world that holds after a computation, whatever it answers, if it held before.\<close>

definition stays :: "('w \<Rightarrow> bool) \<Rightarrow> ('w, 'a) py \<Rightarrow> bool" where
  "stays I m \<longleftrightarrow> (\<forall>w. I w \<longrightarrow> I (snd (m w)))"

named_theorems stays_intros \<open>rules for computations that never break a condition\<close>

lemma staysD: "stays I m \<Longrightarrow> m w = (r, w') \<Longrightarrow> I w \<Longrightarrow> I w'"
  unfolding stays_def by (metis snd_conv)

lemma stays_wp: "stays I m \<Longrightarrow> I w \<Longrightarrow> wp m (\<lambda>_. I) (\<lambda>_. I) w"
  by (auto simp: wp_def dest: staysD split: prod.splits sum.splits)

lemma staysI:
  assumes "\<And>w. I w \<Longrightarrow> wp m (\<lambda>_. I) (\<lambda>_. I) w"
  shows "stays I m"
  unfolding stays_def
proof (intro allI impI)
  fix w
  assume "I w"
  obtain r w' where "m w = (r, w')" by fastforce
  then show "I (snd (m w))" using assms [OF \<open>I w\<close>] by (cases r) (simp_all add: wp_def)
qed

lemma stays_conj: "stays I m \<Longrightarrow> stays J m \<Longrightarrow> stays (\<lambda>w. I w \<and> J w) m"
  by (simp add: stays_def)

lemma stays_ret [stays_intros]: "stays I (ret a)"
  and stays_raise [stays_intros]: "stays I (raise e)"
  and stays_lift [stays_intros]: "stays I (lift r)"
  by (simp_all add: stays_def py_run_defs)

lemma stays_bind [stays_intros]: "stays I m \<Longrightarrow> (\<And>a. stays I (g a)) \<Longrightarrow> stays I (py_bind m g)"
  by (rule staysI) (auto intro: wp_mono [OF stays_wp] stays_wp)

text \<open>The same when the rest only keeps it after the results the first part can have.\<close>

lemma stays_bind_result:
  assumes "\<And>w. I w \<Longrightarrow> wp m (\<lambda>a w'. I w' \<and> P a) (\<lambda>_. I) w" and "\<And>a. P a \<Longrightarrow> stays I (g a)"
  shows "stays I (py_bind m g)"
  by (rule staysI) (auto intro!: wp_mono [OF assms(1)] intro: stays_wp assms(2))

lemma stays_then [stays_intros]: "stays I m \<Longrightarrow> stays I n \<Longrightarrow> stays I (py_then m n)"
  unfolding py_then_def by (rule stays_bind)

lemma stays_catch [stays_intros]: "stays I m \<Longrightarrow> (\<And>e. stays I (h e)) \<Longrightarrow> stays I (py_catch m h)"
  by (rule staysI) (auto intro: wp_mono [OF stays_wp] stays_wp)

lemma stays_finally [stays_intros]: "stays I m \<Longrightarrow> stays I c \<Longrightarrow> stays I (py_finally m c)"
  by (rule staysI) (auto intro: wp_mono [OF stays_wp] stays_wp)

lemma stays_attempt [stays_intros]: "stays I m \<Longrightarrow> stays I (py_attempt m)"
  by (rule staysI) (auto intro: wp_mono [OF stays_wp])

lemma stays_if [stays_intros]: "(b \<Longrightarrow> stays I m) \<Longrightarrow> (\<not> b \<Longrightarrow> stays I n) \<Longrightarrow> stays I (if b then m else n)"
  by simp

lemma stays_let [stays_intros]: "(\<And>x. x = a \<Longrightarrow> stays I (g x)) \<Longrightarrow> stays I (let x = a in g x)"
  by simp

lemma stays_option [stays_intros]:
  "stays I m \<Longrightarrow> (\<And>a. stays I (g a)) \<Longrightarrow> stays I (case x of None \<Rightarrow> m | Some a \<Rightarrow> g a)"
  by (simp split: option.splits)

lemma stays_sum [stays_intros]:
  "(\<And>e. stays I (g e)) \<Longrightarrow> (\<And>a. stays I (h a)) \<Longrightarrow> stays I (case x of Inl e \<Rightarrow> g e | Inr a \<Rightarrow> h a)"
  by (simp split: sum.splits)

lemma stays_prod [stays_intros]: "(\<And>a b. stays I (g a b)) \<Longrightarrow> stays I (case x of (a, b) \<Rightarrow> g a b)"
  by (simp split: prod.splits)

lemma stays_list [stays_intros]:
  "stays I m \<Longrightarrow> (\<And>a b. stays I (g a b)) \<Longrightarrow> stays I (case x of [] \<Rightarrow> m | a # b \<Rightarrow> g a b)"
  by (simp split: list.splits)

lemma stays_map [stays_intros]: "(\<And>x. stays I (g x)) \<Longrightarrow> stays I (py_map g xs)"
  by (induction xs) (auto intro!: stays_intros)

lemma stays_for [stays_intros]: "(\<And>x. stays I (g x)) \<Longrightarrow> stays I (py_for xs g)"
  by (induction xs) (auto intro!: stays_intros)

text \<open>Reading and replacing module-level state that is part of the world.\<close>

definition py_read :: "('w \<Rightarrow> 'a) \<Rightarrow> ('w, 'a) py" where
  "py_read f = (\<lambda>w. (Inr (f w), w))"

definition py_modify :: "('w \<Rightarrow> 'w) \<Rightarrow> ('w, unit) py" where
  "py_modify f = (\<lambda>w. (Inr (), f w))"

lemma wp_read [simp]: "wp (py_read f) Q R = (\<lambda>w. Q (f w) w)"
  by (rule ext) (simp add: wp_def py_read_def)

lemma wp_modify [simp]: "wp (py_modify f) Q R = (\<lambda>w. Q () (f w))"
  by (rule ext) (simp add: wp_def py_modify_def)

lemma stays_read [stays_intros]: "stays I (py_read f)"
  by (simp add: stays_def py_read_def)

lemma stays_modify: "(\<And>w. I w \<Longrightarrow> I (f w)) \<Longrightarrow> stays I (py_modify f)"
  by (simp add: stays_def py_modify_def)

text \<open>A computation that leaves an observation of the world as it is.\<close>

definition keeps :: "('w \<Rightarrow> 'o) \<Rightarrow> ('w, 'a) py \<Rightarrow> bool" where
  "keeps f m \<longleftrightarrow> (\<forall>v. stays (\<lambda>w. f w = v) m)"

lemma keeps_iff: "keeps f m \<longleftrightarrow> (\<forall>w. f (snd (m w)) = f w)"
  by (auto simp: keeps_def stays_def)

lemma keeps_stays: "keeps f m \<Longrightarrow> stays (\<lambda>w. f w = v) m"
  by (simp add: keeps_def)

lemma keepsI: "(\<And>v. stays (\<lambda>w. f w = v) m) \<Longrightarrow> keeps f m"
  by (simp add: keeps_def)

lemma keeps_wp: "keeps f m \<Longrightarrow> wp m (\<lambda>_ w'. f w' = f w) (\<lambda>_ w'. f w' = f w) w"
  by (rule stays_wp [OF keeps_stays]) simp_all

lemma char_between: "CHR '':'' \<le> x \<and> x < CHR '';'' \<longleftrightarrow> x = CHR '':''"
proof
  assume a: "CHR '':'' \<le> x \<and> x < CHR '';''"
  have "of_char CHR '':'' = (58::nat)" "of_char CHR '';'' = (59::nat)" by simp_all
  then have "(of_char x :: nat) = 58"
    using a by (auto simp: less_eq_char_def less_char_def)
  moreover have "char_of (58 :: nat) = CHR '':''" by (simp add: char_of_def bit_iff_odd)
  ultimately show "x = CHR '':''" by (metis char_of_char)
qed (simp add: less_eq_char_def less_char_def)

lemma py_map_map: "py_map f (map g xs) = py_map (\<lambda>x. f (g x)) xs"
  by (induction xs) simp_all

end
