(* ===== verification/Runtime.thy ===== *)
theory Runtime
  imports Prelude
begin

text \<open>
  What the program gets from outside: the clock, fresh identifiers, the date and JSON conversions
  of the standard library, the order in which concurrent requests complete, and the table service
  behind \<open>azure.data.tables.TableClient\<close>. All of it is the parameter \<open>E\<close> of the model. The locales
  state what the code relies on: the documented behaviour of the table operations, seen through
  the stored rows \<open>env_rows\<close>. Requests may fail at any time; a failed write with a service error
  may or may not have been applied.
\<close>

section \<open>Tables\<close>

type_synonym key = "string \<times> string"
type_synonym tables = "string \<Rightarrow> key \<Rightarrow> entity option"

definition entity_key :: "entity \<Rightarrow> key option" where
  "entity_key e = (case (e ''PartitionKey'', e ''RowKey'') of
     (Some (PStr p), Some (PStr r)) \<Rightarrow> Some (p, r)
   | _ \<Rightarrow> None)"

lemma entity_key_Some:
  "entity_key e = Some (p, r) \<longleftrightarrow> e ''PartitionKey'' = Some (PStr p) \<and> e ''RowKey'' = Some (PStr r)"
  by (auto simp: entity_key_def split: option.splits pyval.splits)

text \<open>The service does not persist properties whose value is null.\<close>

definition drop_none :: "entity \<Rightarrow> entity" where
  "drop_none e = (\<lambda>k. case e k of Some PNone \<Rightarrow> None | v \<Rightarrow> v)"

lemma dget0_drop_none [simp]: "dget0 (drop_none e) k = dget0 e k"
  by (auto simp: drop_none_def dget_def split: option.splits pyval.splits)

lemma drop_none_apply: "drop_none e k = (if e k = Some PNone then None else e k)"
  by (auto simp: drop_none_def split: option.splits pyval.splits)

lemma drop_none_str [simp]: "drop_none e k = Some (PStr s) \<longleftrightarrow> e k = Some (PStr s)"
  by (auto simp: drop_none_apply)

lemma entity_key_drop_none [simp]: "entity_key (drop_none e) = entity_key e"
  by (auto simp: entity_key_def drop_none_apply split: option.splits pyval.splits)

definition put_row :: "string \<Rightarrow> key \<Rightarrow> entity option \<Rightarrow> tables \<Rightarrow> tables" where
  "put_row t k r R = R(t := (R t)(k := r))"

lemma put_row_apply: "put_row t k r R t' k' = (if t' = t \<and> k' = k then r else R t' k')"
  by (simp add: put_row_def)

lemma put_row_same [simp]: "put_row t k r R t k = r"
  by (simp add: put_row_def)

lemma put_row_other [simp]: "t' \<noteq> t \<or> k' \<noteq> k \<Longrightarrow> put_row t k r R t' k' = R t' k'"
  by (auto simp: put_row_def)

datatype update_mode = Merge | Replace

definition write_row :: "update_mode \<Rightarrow> entity \<Rightarrow> entity option \<Rightarrow> entity" where
  "write_row m new old = (case m of
     Replace \<Rightarrow> drop_none new
   | Merge \<Rightarrow> (case old of None \<Rightarrow> drop_none new | Some o' \<Rightarrow> o' ++ drop_none new))"

section \<open>Filters\<close>

text \<open>
  The OData filter strings the code builds with f-strings are conjunctions of comparisons;
  \<open>odata\<close> is the string, \<open>sat\<close> what it selects. A string constant is rendered between quotes
  without escaping, as the f-strings do, so it means what it says only when it holds no quote.
\<close>

datatype cmp_op = OEq | OGe | OGt | OLe | OLt
datatype oconst = OStr string | OBool bool

type_synonym clause = "string \<times> cmp_op \<times> oconst"

fun render_op :: "cmp_op \<Rightarrow> string" where
  "render_op OEq = ''eq''"
| "render_op OGe = ''ge''"
| "render_op OGt = ''gt''"
| "render_op OLe = ''le''"
| "render_op OLt = ''lt''"

fun render_const :: "oconst \<Rightarrow> string" where
  "render_const (OStr s) = quote @ s @ quote"
| "render_const (OBool b) = (if b then ''true'' else ''false'')"

fun render_clause :: "clause \<Rightarrow> string" where
  "render_clause (p, c, v) = p @ '' '' @ render_op c @ '' '' @ render_const v"

fun odata :: "clause list \<Rightarrow> string" where
  "odata [] = []"
| "odata [c] = render_clause c"
| "odata (c # cs) = render_clause c @ '' and '' @ odata cs"

fun cmp_str :: "cmp_op \<Rightarrow> string \<Rightarrow> string \<Rightarrow> bool" where
  "cmp_str OEq a b = (a = b)"
| "cmp_str OGe a b = (b \<le> a)"
| "cmp_str OGt a b = (b < a)"
| "cmp_str OLe a b = (a \<le> b)"
| "cmp_str OLt a b = (a < b)"

fun sat_clause :: "entity \<Rightarrow> clause \<Rightarrow> bool" where
  "sat_clause e (p, c, OStr s) = (case e p of Some (PStr a) \<Rightarrow> cmp_str c a s | _ \<Rightarrow> False)"
| "sat_clause e (p, c, OBool b) = (c = OEq \<and> e p = Some (PBool b))"

definition sat :: "clause list \<Rightarrow> entity \<Rightarrow> bool" where
  "sat cs e \<longleftrightarrow> (\<forall>c \<in> set cs. sat_clause e c)"

lemma sat_simps [simp]:
  "sat [] e"
  "sat (c # cs) e \<longleftrightarrow> sat_clause e c \<and> sat cs e"
  by (simp_all add: sat_def)

lemma sat_eq [simp]: "sat_clause e (p, OEq, OStr s) \<longleftrightarrow> e p = Some (PStr s)"
  by (auto split: option.splits pyval.splits)

definition no_quote :: "string \<Rightarrow> bool" where
  "no_quote s \<longleftrightarrow> CHR 0x27 \<notin> set s"

lemma no_quote_simps [simp]:
  "no_quote []"
  "no_quote (a @ b) \<longleftrightarrow> no_quote a \<and> no_quote b"
  "no_quote (c # s) \<longleftrightarrow> c \<noteq> CHR 0x27 \<and> no_quote s"
  by (auto simp: no_quote_def)

fun clean_clause :: "clause \<Rightarrow> bool" where
  "clean_clause (p, c, v) =
     (p \<noteq> [] \<and> CHR '' '' \<notin> set p \<and> (case v of OStr s \<Rightarrow> no_quote s | OBool _ \<Rightarrow> True))"

definition project :: "string list option \<Rightarrow> entity \<Rightarrow> entity" where
  "project sel e = (case sel of None \<Rightarrow> e | Some ps \<Rightarrow> e |` set ps)"

lemma project_None [simp]: "project None e = e"
  by (simp add: project_def)

section \<open>The environment\<close>

text \<open>
  The constructor of a pydantic model, called with keyword arguments, validates and converts
  them: \<open>env_validate\<close> of the model's name. Of a field declared \<open>str\<close> the code relies on the fact
  that a string passes unchanged; \<open>str_fields\<close> lists those fields of the models it concerns.
\<close>

text \<open>
  The module-level caches of the program are part of the world: \<open>env_user_cache\<close> and
  \<open>env_org_cache\<close> read them, the setters replace them.
\<close>

text \<open>
  \<open>env_submodel\<close> is the same for a nested model built from a value, \<open>env_model_dump\<close> is
  \<open>model_dump\<close> with its mode. \<open>env_form_files\<close> are the form files of the workspace in the order
  \<open>rglob\<close> finds them: stem, path and, when the file can be read as a JSON object, its content.
\<close>

definition str_fields :: "string \<Rightarrow> string list" where
  "str_fields m = (if m = ''Role'' then [''id'', ''name'', ''createdBy'']
     else if m = ''User'' then [''id'', ''email'', ''displayName'']
     else if m = ''Organization'' then [''id'', ''name'', ''createdBy'']
     else if m = ''WorkflowExecution'' then [''executionId'', ''workflowName'', ''executedBy'', ''executedByName'', ''status'', ''orgId'']
     else if m = ''Config'' then [''key'', ''value'', ''type'', ''updatedBy'']
     else if m = ''OAuthConnection'' then [''org_id'', ''connection_name'']
     else if m = ''FileContentResponse'' then [''content'', ''encoding'', ''etag'']
     else [])"

text \<open>Optional fields, which \<open>None\<close> passes unchanged.\<close>

definition opt_fields :: "string \<Rightarrow> string list" where
  "opt_fields m = (if m = ''WorkflowExecution'' then [''orgId'', ''formId''] else [])"

record 'w env =
  env_getenv :: "string \<Rightarrow> string option"
  env_utcnow :: "'w \<Rightarrow> datetime \<times> 'w"
  env_uuid4 :: "'w \<Rightarrow> string \<times> 'w"
  env_isoformat :: "datetime \<Rightarrow> string"
  env_fromisoformat :: "string \<Rightarrow> datetime option"
  env_timestamp_ms :: "datetime \<Rightarrow> int"
  env_strftime :: "string \<Rightarrow> datetime \<Rightarrow> string"
  env_b64decode :: "string \<Rightarrow> exn + string"
  env_str :: "pyval \<Rightarrow> string"
  env_dumps :: "pyval \<Rightarrow> exn + string"
  env_loads :: "string \<Rightarrow> pyval option"
  env_validate :: "string \<Rightarrow> entity \<Rightarrow> exn + entity"
  env_submodel :: "string \<Rightarrow> pyval \<Rightarrow> exn + pyval"
  env_model_dump :: "string \<Rightarrow> entity \<Rightarrow> entity"
  env_form_files :: "'w \<Rightarrow> (string \<times> string \<times> entity option) list"
  env_sched :: "'w \<Rightarrow> nat \<Rightarrow> nat list"
  env_user_cache :: "'w \<Rightarrow> string \<rightharpoonup> entity \<times> datetime"
  env_set_user_cache :: "(string \<rightharpoonup> entity \<times> datetime) \<Rightarrow> 'w \<Rightarrow> 'w"
  env_org_cache :: "'w \<Rightarrow> string \<rightharpoonup> string option \<times> datetime"
  env_set_org_cache :: "(string \<rightharpoonup> string option \<times> datetime) \<Rightarrow> 'w \<Rightarrow> 'w"
  env_rows :: "'w \<Rightarrow> tables"
  env_etag :: "'w \<Rightarrow> string \<Rightarrow> key \<Rightarrow> string"
  sdk_create :: "string \<Rightarrow> entity \<Rightarrow> ('w, unit) py"
  sdk_get :: "string \<Rightarrow> string \<Rightarrow> string \<Rightarrow> ('w, entity \<times> string option) py"
  sdk_update :: "string \<Rightarrow> entity \<Rightarrow> update_mode \<Rightarrow> pyval option \<Rightarrow> ('w, unit) py"
  sdk_upsert :: "string \<Rightarrow> entity \<Rightarrow> update_mode \<Rightarrow> ('w, unit) py"
  sdk_delete :: "string \<Rightarrow> string \<Rightarrow> string \<Rightarrow> ('w, unit) py"
  sdk_query :: "string \<Rightarrow> string \<Rightarrow> string list option \<Rightarrow> ('w, entity list) py"
  sdk_query_page :: "string \<Rightarrow> string \<Rightarrow> string list option \<Rightarrow> int \<Rightarrow> pyval
      \<Rightarrow> ('w, (entity list \<times> pyval) option) py"

text \<open>What an f-string makes of a value.\<close>

fun fstr :: "'w env \<Rightarrow> pyval \<Rightarrow> string" where
  "fstr E PNone = ''None''"
| "fstr E (PBool b) = (if b then ''True'' else ''False'')"
| "fstr E (PInt i) = str_int i"
| "fstr E (PStr s) = s"
| "fstr E v = env_str E v"

definition utcnow :: "'w env \<Rightarrow> ('w, datetime) py" where
  "utcnow E = (\<lambda>w. case env_utcnow E w of (d, w') \<Rightarrow> (Inr d, w'))"

text \<open>\<open>datetime.now(UTC)\<close>: the same clock, as an aware datetime.\<close>

definition now_utc :: "'w env \<Rightarrow> ('w, datetime) py" where
  "now_utc E = py_bind (utcnow E) (\<lambda>d. ret (case d of Naive i \<Rightarrow> Aware i 0 | _ \<Rightarrow> d))"

definition uuid4 :: "'w env \<Rightarrow> ('w, string) py" where
  "uuid4 E = (\<lambda>w. case env_uuid4 E w of (s, w') \<Rightarrow> (Inr s, w'))"

subsection \<open>Concurrent requests\<close>

text \<open>
  \<open>asyncio.gather\<close>: every awaitable runs to its end, in an order the event loop decides
  (\<open>env_sched\<close>); each of the awaitables the code gathers makes one request. Without
  \<open>return_exceptions\<close> the first exception in time is raised; with it the results and exceptions
  are returned in the order of the arguments.
\<close>

primrec run_order :: "('w, 'a) py list \<Rightarrow> nat list \<Rightarrow> (nat \<rightharpoonup> exn + 'a) \<Rightarrow> 'w
    \<Rightarrow> (nat \<rightharpoonup> exn + 'a) \<times> 'w" where
  "run_order ts [] acc w = (acc, w)"
| "run_order ts (i # is) acc w = (case (ts ! i) w of (r, w') \<Rightarrow> run_order ts is (acc(i \<mapsto> r)) w')"

fun first_exn :: "(nat \<rightharpoonup> exn + 'a) \<Rightarrow> nat list \<Rightarrow> exn option" where
  "first_exn acc [] = None"
| "first_exn acc (i # is) = (case acc i of Some (Inl e) \<Rightarrow> Some e | _ \<Rightarrow> first_exn acc is)"

definition gather_exceptions :: "'w env \<Rightarrow> ('w, 'a) py list \<Rightarrow> ('w, (exn + 'a) list) py" where
  "gather_exceptions E ts = (\<lambda>w. case run_order ts (env_sched E w (length ts)) Map.empty w of
     (acc, w') \<Rightarrow> (Inr (map (\<lambda>i. the (acc i)) [0..<length ts]), w'))"

definition gather :: "'w env \<Rightarrow> ('w, 'a) py list \<Rightarrow> ('w, 'a list) py" where
  "gather E ts = (\<lambda>w. let order = env_sched E w (length ts) in
     case run_order ts order Map.empty w of (acc, w') \<Rightarrow>
       (case first_exn acc order of
          Some e \<Rightarrow> (Inl e, w')
        | None \<Rightarrow> (Inr (map (\<lambda>i. projr (the (acc i))) [0..<length ts]), w')))"

section \<open>What the code relies on\<close>

text \<open>The clock, identifiers and event loop leave the stored rows alone.\<close>

locale runtime =
  fixes E :: "'w env"
  assumes utcnow_rows: "env_rows E (snd (env_utcnow E w)) = env_rows E w"
    and utcnow_files: "env_form_files E (snd (env_utcnow E w)) = env_form_files E w"
    and set_user_cache_rows: "env_rows E (env_set_user_cache E c w) = env_rows E w"
    and set_org_cache_rows: "env_rows E (env_set_org_cache E d w) = env_rows E w"
    and get_set_org_cache: "env_org_cache E (env_set_org_cache E d w) = d"
    and uuid4_rows: "env_rows E (snd (env_uuid4 E w)) = env_rows E w"
    and sched_distinct: "distinct (env_sched E w n)"
    and sched_set: "set (env_sched E w n) = {..<n}"
    and validate_str: "env_validate E m kw = Inr v \<Longrightarrow> f \<in> set (str_fields m) \<Longrightarrow> kw f = Some (PStr s)
      \<Longrightarrow> v f = Some (PStr s)"
    and validate_none: "env_validate E m kw = Inr v \<Longrightarrow> f \<in> set (opt_fields m) \<Longrightarrow> kw f = Some PNone
      \<Longrightarrow> v f = Some PNone"
begin

lemma wp_utcnow:
  "(\<And>d w'. env_rows E w' = env_rows E w \<Longrightarrow> Q d w') \<Longrightarrow> wp (utcnow E) Q R w"
  using utcnow_rows [of w] by (auto simp: wp_def utcnow_def split: prod.splits)

lemma wp_utcnow_files:
  "(\<And>d w'. env_rows E w' = env_rows E w \<Longrightarrow> env_form_files E w' = env_form_files E w \<Longrightarrow> Q d w')
   \<Longrightarrow> wp (utcnow E) Q R w"
  using utcnow_rows [of w] utcnow_files [of w] by (auto simp: wp_def utcnow_def split: prod.splits)

lemma wp_uuid4:
  "(\<And>s w'. env_rows E w' = env_rows E w \<Longrightarrow> Q s w') \<Longrightarrow> wp (uuid4 E) Q R w"
  using uuid4_rows [of w] by (auto simp: wp_def uuid4_def split: prod.splits)

lemma run_order_done:
  assumes step: "\<And>i w. i \<in> set od \<Longrightarrow> I w \<Longrightarrow> wp (ts ! i) (\<lambda>_ w'. I w' \<and> G i w') (\<lambda>_. I) w"
    and keep: "\<And>i j w. i \<in> set od \<Longrightarrow> j \<noteq> i \<Longrightarrow> I w \<Longrightarrow> G j w \<Longrightarrow> wp (ts ! i) (\<lambda>_. G j) (\<lambda>_. G j) w"
    and dist: "distinct od"
    and start: "I w" "\<forall>j. j \<notin> set od \<longrightarrow> (\<forall>a. acc j = Some (Inr a) \<longrightarrow> G j w)"
      "\<forall>j \<in> set od. acc j = None"
    and run: "run_order ts od acc w = (acc', w')"
  shows "I w' \<and> (\<forall>j a. acc' j = Some (Inr a) \<longrightarrow> G j w')
    \<and> (\<forall>j \<in> set od. acc' j \<noteq> None) \<and> (\<forall>j. j \<notin> set od \<longrightarrow> acc' j = acc j)"
  using assms
proof (induction od arbitrary: acc w)
  case Nil
  then show ?case by auto
next
  case (Cons i js)
  obtain r w1 where r: "(ts ! i) w = (r, w1)" by fastforce
  have st: "I w1 \<and> (\<forall>a. r = Inr a \<longrightarrow> G i w1)"
    using Cons.prems(1) [of i w] Cons.prems(4) r by (auto simp: wp_def split: sum.splits)
  have kp: "G j w1" if "j \<noteq> i" "G j w" for j
    using Cons.prems(2) [of i j w] Cons.prems(4) that r by (auto simp: wp_def split: sum.splits)
  have "I w' \<and> (\<forall>j a. acc' j = Some (Inr a) \<longrightarrow> G j w')
    \<and> (\<forall>j \<in> set js. acc' j \<noteq> None) \<and> (\<forall>j. j \<notin> set js \<longrightarrow> acc' j = (acc(i \<mapsto> r)) j)"
  proof (rule Cons.IH [of w1 "acc(i \<mapsto> r)"])
    show "\<forall>j. j \<notin> set js \<longrightarrow> (\<forall>a. (acc(i \<mapsto> r)) j = Some (Inr a) \<longrightarrow> G j w1)"
      using Cons.prems(5) st kp by auto
    show "\<forall>j \<in> set js. (acc(i \<mapsto> r)) j = None"
      using Cons.prems(3,6) by auto
    show "run_order ts js (acc(i \<mapsto> r)) w1 = (acc', w')"
      using Cons.prems(7) r by simp
  qed (use Cons.prems(1,2,3) st in auto)
  then show ?case using Cons.prems(3) by auto
qed

lemma first_exn_None: "first_exn acc is = None \<Longrightarrow> i \<in> set is \<Longrightarrow> acc i \<noteq> Some (Inl e)"
  by (induction acc "is" rule: first_exn.induct) (auto split: option.splits sum.splits)

lemma run_sched:
  assumes step: "\<And>i w. i < length ts \<Longrightarrow> I w \<Longrightarrow> wp (ts ! i) (\<lambda>_ w'. I w' \<and> G i w') (\<lambda>_. I) w"
    and keep: "\<And>i j w. i < length ts \<Longrightarrow> j \<noteq> i \<Longrightarrow> I w \<Longrightarrow> G j w
      \<Longrightarrow> wp (ts ! i) (\<lambda>_. G j) (\<lambda>_. G j) w"
    and start: "I w"
    and run: "run_order ts (env_sched E w (length ts)) Map.empty w = (acc, w')"
  shows "I w'" and "acc j = Some (Inr a) \<Longrightarrow> G j w'" and "j < length ts \<Longrightarrow> acc j \<noteq> None"
proof -
  let ?o = "env_sched E w (length ts)"
  have "I w' \<and> (\<forall>j a. acc j = Some (Inr a) \<longrightarrow> G j w') \<and> (\<forall>j \<in> set ?o. acc j \<noteq> None)
    \<and> (\<forall>j. j \<notin> set ?o \<longrightarrow> acc j = Map.empty j)"
    using run_order_done [where I = I and G = G and ts = ts and od = ?o and acc = Map.empty
        and w = w and acc' = acc and w' = w'] sched_distinct [of w "length ts"] assms
    by (auto simp: sched_set)
  then show "I w'" and "acc j = Some (Inr a) \<Longrightarrow> G j w'" and "j < length ts \<Longrightarrow> acc j \<noteq> None"
    by (auto simp: sched_set)
qed

text \<open>
  Gathered requests in any order: an invariant they all keep is kept, and on success what each
  of them establishes, and none of the others undoes, holds for all.
\<close>

lemma wp_gather_exceptions:
  assumes step: "\<And>i w. i < length ts \<Longrightarrow> I w \<Longrightarrow> wp (ts ! i) (\<lambda>_ w'. I w' \<and> G i w') (\<lambda>_. I) w"
    and keep: "\<And>i j w. i < length ts \<Longrightarrow> j \<noteq> i \<Longrightarrow> I w \<Longrightarrow> G j w
      \<Longrightarrow> wp (ts ! i) (\<lambda>_. G j) (\<lambda>_. G j) w"
    and start: "I w"
    and post: "\<And>rs w'. I w' \<Longrightarrow> length rs = length ts
      \<Longrightarrow> (\<And>i a. i < length ts \<Longrightarrow> rs ! i = Inr a \<Longrightarrow> G i w') \<Longrightarrow> Q rs w'"
  shows "wp (gather_exceptions E ts) Q R w"
proof -
  obtain acc w' where run: "run_order ts (env_sched E w (length ts)) Map.empty w = (acc, w')"
    by fastforce
  have sched: "I w'" "\<And>i a. acc i = Some (Inr a) \<Longrightarrow> G i w'" "\<And>i. i < length ts \<Longrightarrow> acc i \<noteq> None"
    by (rule run_sched [where I = I and G = G, OF _ _ start run]; blast intro: step keep)+
  have "Q (map (\<lambda>i. the (acc i)) [0..<length ts]) w'"
  proof (rule post [OF sched(1)])
    fix i a
    assume i: "i < length ts" and a: "map (\<lambda>i. the (acc i)) [0..<length ts] ! i = Inr a"
    then have "acc i = Some (Inr a)" using sched(3) [OF i] by auto
    then show "G i w'" by (rule sched(2))
  qed simp
  then show ?thesis by (simp add: wp_def gather_exceptions_def run)
qed

lemma wp_gather:
  assumes step: "\<And>i w. i < length ts \<Longrightarrow> I w \<Longrightarrow> wp (ts ! i) (\<lambda>_ w'. I w' \<and> G i w') (\<lambda>_. I) w"
    and keep: "\<And>i j w. i < length ts \<Longrightarrow> j \<noteq> i \<Longrightarrow> I w \<Longrightarrow> G j w
      \<Longrightarrow> wp (ts ! i) (\<lambda>_. G j) (\<lambda>_. G j) w"
    and start: "I w"
    and ok: "\<And>rs w'. I w' \<Longrightarrow> (\<And>i. i < length ts \<Longrightarrow> G i w') \<Longrightarrow> Q rs w'"
    and err: "\<And>e w'. I w' \<Longrightarrow> R e w'"
  shows "wp (gather E ts) Q R w"
proof -
  let ?o = "env_sched E w (length ts)"
  obtain acc w' where run: "run_order ts ?o Map.empty w = (acc, w')"
    by fastforce
  have sched: "I w'" "\<And>i a. acc i = Some (Inr a) \<Longrightarrow> G i w'" "\<And>i. i < length ts \<Longrightarrow> acc i \<noteq> None"
    by (rule run_sched [where I = I and G = G, OF _ _ start run]; blast intro: step keep)+
  have all: "G i w'" if "first_exn acc ?o = None" and i: "i < length ts" for i
  proof -
    have "acc i \<noteq> Some (Inl e)" for e
      using first_exn_None [OF that(1)] i by (simp add: sched_set)
    then obtain a where "acc i = Some (Inr a)"
      using sched(3) [OF i] by (metis obj_sumE option.exhaust)
    then show ?thesis by (rule sched(2))
  qed
  show ?thesis
  proof (cases "first_exn acc ?o")
    case None
    then show ?thesis using ok [OF sched(1) all] by (simp add: wp_def gather_def run Let_def)
  next
    case (Some e)
    then show ?thesis using err [OF sched(1)] by (simp add: wp_def gather_def run Let_def)
  qed
qed

lemma stays_gather_exceptions [stays_intros]:
  assumes "\<And>t. t \<in> set ts \<Longrightarrow> stays I t"
  shows "stays I (gather_exceptions E ts)"
proof (rule staysI, rule wp_gather_exceptions [where I = I and G = "\<lambda>_ _. True"])
  fix i w
  assume "i < length ts" and "I w"
  then have "wp (ts ! i) (\<lambda>_. I) (\<lambda>_. I) w" by (intro stays_wp assms) auto
  then show "wp (ts ! i) (\<lambda>_ w'. I w' \<and> True) (\<lambda>_. I) w" by simp
qed (auto simp: wp_def split: prod.splits sum.splits)

lemma stays_gather [stays_intros]:
  assumes "\<And>t. t \<in> set ts \<Longrightarrow> stays I t"
  shows "stays I (gather E ts)"
proof (rule staysI, rule wp_gather [where I = I and G = "\<lambda>_ _. True"])
  fix i w
  assume "i < length ts" and "I w"
  then have "wp (ts ! i) (\<lambda>_. I) (\<lambda>_. I) w" by (intro stays_wp assms) auto
  then show "wp (ts ! i) (\<lambda>_ w'. I w' \<and> True) (\<lambda>_. I) w" by simp
qed (auto simp: wp_def split: prod.splits sum.splits)

end

end
