(* ===== verification/Table_Sdk.thy ===== *)
theory Table_Sdk
  imports Runtime
begin

text \<open>
  The contract of the table service, as its documentation states it, over the observed rows:
  a locale with one law per request, and the proof rules its clients use. A request that raises
  leaves the rows as they were, except that a write which raises a service error (a timeout, a
  lost response) may have been applied.
\<close>

definition selects :: "clause list \<Rightarrow> (key \<Rightarrow> entity option) \<Rightarrow> key list \<Rightarrow> bool" where
  "selects cs T ks \<longleftrightarrow> sorted ks \<and> distinct ks \<and> set ks = {k. \<exists>e. T k = Some e \<and> sat cs e}"

definition fetch :: "string list option \<Rightarrow> (key \<Rightarrow> entity option) \<Rightarrow> key list \<Rightarrow> entity list" where
  "fetch sel T ks = map (\<lambda>k. project sel (the (T k))) ks"

lemma selects_unique: "selects cs T ks \<Longrightarrow> selects cs T ks' \<Longrightarrow> ks = ks'"
  unfolding selects_def by (metis sorted_distinct_set_unique)

lemma selects_iff: "selects cs T ks \<Longrightarrow> k \<in> set ks \<longleftrightarrow> (\<exists>e. T k = Some e \<and> sat cs e)"
  by (simp add: selects_def)

text \<open>A selection within one partition is a list of row keys.\<close>

lemma partition_keys:
  assumes sel: "selects cs T ks"
    and sat: "\<And>q rk e. T (q, rk) = Some e \<Longrightarrow> sat cs e \<longleftrightarrow> q = q0 \<and> M rk e"
  shows "\<exists>rks. ks = map (Pair q0) rks \<and> distinct rks \<and> set rks = {rk. \<exists>e. T (q0, rk) = Some e \<and> M rk e}"
proof (intro exI conjI)
  have in_ks: "(q, rk) \<in> set ks \<longleftrightarrow> q = q0 \<and> (\<exists>e. T (q0, rk) = Some e \<and> M rk e)" for q rk
    using selects_iff [OF sel, of "(q, rk)"] sat [of q rk] by auto
  have fst_ks: "fst k = q0" if "k \<in> set ks" for k
    using that in_ks [of "fst k" "snd k"] by simp
  have "map (\<lambda>k. (q0, snd k)) ks = ks"
    by (rule map_idI) (simp add: prod_eq_iff fst_ks)
  then show ks: "ks = map (Pair q0) (map snd ks)"
    by (simp add: comp_def)
  have "inj_on snd (set ks)"
    by (rule inj_onI) (simp add: prod_eq_iff fst_ks)
  then show "distinct (map snd ks)"
    using sel by (simp add: distinct_map selects_def)
  have "rk \<in> set (map snd ks) \<longleftrightarrow> (q0, rk) \<in> set ks" for rk
    by (subst (2) ks) auto
  then show "set (map snd ks) = {rk. \<exists>e. T (q0, rk) = Some e \<and> M rk e}"
    using in_ks by blast
qed

locale table_sdk = runtime E for E :: "'w env" +
  assumes rows_keyed: "env_rows E w t k = Some e \<Longrightarrow> entity_key e = Some k"
    and create_law: "wp (sdk_create E t e)
      (\<lambda>_ w'. \<exists>k. entity_key e = Some k \<and> env_rows E w t k = None
         \<and> env_rows E w' = put_row t k (Some (drop_none e)) (env_rows E w))
      (\<lambda>x w'. (x = ResourceExistsError \<longrightarrow> (\<exists>k. entity_key e = Some k \<and> env_rows E w t k \<noteq> None))
         \<and> (env_rows E w' = env_rows E w
            \<or> (\<exists>k m. x = ServiceError m \<and> entity_key e = Some k \<and> env_rows E w t k = None
                 \<and> env_rows E w' = put_row t k (Some (drop_none e)) (env_rows E w)))) w"
    and get_law: "wp (sdk_get E t p r)
      (\<lambda>res w'. env_rows E w' = env_rows E w \<and> env_rows E w t (p, r) = Some (fst res))
      (\<lambda>x w'. env_rows E w' = env_rows E w
         \<and> (x = ResourceNotFoundError \<longrightarrow> env_rows E w t (p, r) = None)) w"
    and update_law: "wp (sdk_update E t e m et)
      (\<lambda>_ w'. \<exists>k old. entity_key e = Some k \<and> env_rows E w t k = Some old
         \<and> env_rows E w' = put_row t k (Some (write_row m e (Some old))) (env_rows E w))
      (\<lambda>x w'. (x = ResourceNotFoundError \<longrightarrow> (\<exists>k. entity_key e = Some k \<and> env_rows E w t k = None))
         \<and> (env_rows E w' = env_rows E w
            \<or> (\<exists>k old s. x = ServiceError s \<and> entity_key e = Some k \<and> env_rows E w t k = Some old
                 \<and> env_rows E w' = put_row t k (Some (write_row m e (Some old))) (env_rows E w)))) w"
    and upsert_law: "wp (sdk_upsert E t e m)
      (\<lambda>_ w'. \<exists>k. entity_key e = Some k
         \<and> env_rows E w' = put_row t k (Some (write_row m e (env_rows E w t k))) (env_rows E w))
      (\<lambda>x w'. env_rows E w' = env_rows E w
         \<or> (\<exists>k s. x = ServiceError s \<and> entity_key e = Some k
              \<and> env_rows E w' = put_row t k (Some (write_row m e (env_rows E w t k))) (env_rows E w))) w"
    and delete_law: "wp (sdk_delete E t p r)
      (\<lambda>_ w'. env_rows E w' = put_row t (p, r) None (env_rows E w))
      (\<lambda>x w'. (x = ResourceNotFoundError \<longrightarrow> env_rows E w t (p, r) = None)
         \<and> (env_rows E w' = env_rows E w
            \<or> (\<exists>s. x = ServiceError s \<and> env_rows E w' = put_row t (p, r) None (env_rows E w)))) w"
    and query_reads: "wp (sdk_query E t f sel)
      (\<lambda>_ w'. env_rows E w' = env_rows E w) (\<lambda>_ w'. env_rows E w' = env_rows E w) w"
    and query_law: "\<forall>c \<in> set cs. clean_clause c \<Longrightarrow> wp (sdk_query E t (odata cs) sel)
      (\<lambda>es _. \<exists>ks. selects cs (env_rows E w t) ks \<and> es = fetch sel (env_rows E w t) ks)
      (\<lambda>_ _. True) w"
    and page_reads: "wp (sdk_query_page E t f sel n tok)
      (\<lambda>_ w'. env_rows E w' = env_rows E w) (\<lambda>_ w'. env_rows E w' = env_rows E w) w"
    and page_law: "\<forall>c \<in> set cs. clean_clause c \<Longrightarrow> wp (sdk_query_page E t (odata cs) sel n PNone)
      (\<lambda>res _. \<exists>ks. selects cs (env_rows E w t) ks \<and>
         (case res of None \<Rightarrow> ks = []
          | Some (es, next) \<Rightarrow> (\<exists>m. int m \<le> max n 0 \<and> es = take m (fetch sel (env_rows E w t) ks)
               \<and> (next = PNone \<longrightarrow> length ks \<le> m))))
      (\<lambda>_ _. True) w"
begin

lemma wp_sdk_create:
  assumes "\<And>k w'. entity_key e = Some k \<Longrightarrow> env_rows E w t k = None
      \<Longrightarrow> env_rows E w' = put_row t k (Some (drop_none e)) (env_rows E w) \<Longrightarrow> Q () w'"
    and "\<And>x w'. env_rows E w' = env_rows E w \<Longrightarrow> R x w'"
    and "\<And>x k w'. entity_key e = Some k \<Longrightarrow> env_rows E w t k = None
      \<Longrightarrow> env_rows E w' = put_row t k (Some (drop_none e)) (env_rows E w) \<Longrightarrow> R x w'"
  shows "wp (sdk_create E t e) Q R w"
  by (rule wp_mono [OF create_law]) (use assms in auto)

lemma wp_sdk_get:
  assumes "\<And>e et w'. env_rows E w' = env_rows E w \<Longrightarrow> env_rows E w t (p, r) = Some e \<Longrightarrow> Q (e, et) w'"
    and "\<And>w'. env_rows E w' = env_rows E w \<Longrightarrow> env_rows E w t (p, r) = None \<Longrightarrow> R ResourceNotFoundError w'"
    and "\<And>x w'. env_rows E w' = env_rows E w \<Longrightarrow> x \<noteq> ResourceNotFoundError \<Longrightarrow> R x w'"
  shows "wp (sdk_get E t p r) Q R w"
proof (rule wp_mono [OF get_law])
  fix x w'
  assume "env_rows E w' = env_rows E w
      \<and> (x = ResourceNotFoundError \<longrightarrow> env_rows E w t (p, r) = None)"
  then show "R x w'" by (cases "x = ResourceNotFoundError") (use assms(2,3) in auto)
qed (use assms(1) in auto)

lemma wp_sdk_update:
  assumes "\<And>k old w'. entity_key e = Some k \<Longrightarrow> env_rows E w t k = Some old
      \<Longrightarrow> env_rows E w' = put_row t k (Some (write_row m e (Some old))) (env_rows E w) \<Longrightarrow> Q () w'"
    and "\<And>x w'. env_rows E w' = env_rows E w \<Longrightarrow> R x w'"
    and "\<And>x k old w'. entity_key e = Some k \<Longrightarrow> env_rows E w t k = Some old
      \<Longrightarrow> env_rows E w' = put_row t k (Some (write_row m e (Some old))) (env_rows E w) \<Longrightarrow> R x w'"
  shows "wp (sdk_update E t e m et) Q R w"
  by (rule wp_mono [OF update_law]) (use assms in auto)

lemma wp_sdk_upsert:
  assumes "\<And>k w'. entity_key e = Some k
      \<Longrightarrow> env_rows E w' = put_row t k (Some (write_row m e (env_rows E w t k))) (env_rows E w) \<Longrightarrow> Q () w'"
    and "\<And>x w'. env_rows E w' = env_rows E w \<Longrightarrow> R x w'"
    and "\<And>x k w'. entity_key e = Some k
      \<Longrightarrow> env_rows E w' = put_row t k (Some (write_row m e (env_rows E w t k))) (env_rows E w) \<Longrightarrow> R x w'"
  shows "wp (sdk_upsert E t e m) Q R w"
  by (rule wp_mono [OF upsert_law]) (use assms in auto)

lemma wp_sdk_delete:
  assumes "\<And>w'. env_rows E w' = put_row t (p, r) None (env_rows E w) \<Longrightarrow> Q () w'"
    and "\<And>w'. env_rows E w' = env_rows E w \<Longrightarrow> env_rows E w t (p, r) = None \<Longrightarrow> R ResourceNotFoundError w'"
    and "\<And>x w'. env_rows E w' = env_rows E w \<Longrightarrow> x \<noteq> ResourceNotFoundError \<Longrightarrow> R x w'"
    and "\<And>m w'. env_rows E w' = put_row t (p, r) None (env_rows E w) \<Longrightarrow> R (ServiceError m) w'"
  shows "wp (sdk_delete E t p r) Q R w"
proof (rule wp_mono [OF delete_law])
  fix x w'
  assume "(x = ResourceNotFoundError \<longrightarrow> env_rows E w t (p, r) = None)
         \<and> (env_rows E w' = env_rows E w
            \<or> (\<exists>s. x = ServiceError s \<and> env_rows E w' = put_row t (p, r) None (env_rows E w)))"
  then show "R x w'" by (cases "x = ResourceNotFoundError") (use assms(2,3,4) in auto)
qed (use assms(1) in auto)

lemma wp_sdk_query:
  assumes "\<forall>c \<in> set cs. clean_clause c"
    and "\<And>ks w'. env_rows E w' = env_rows E w \<Longrightarrow> selects cs (env_rows E w t) ks
      \<Longrightarrow> Q (fetch sel (env_rows E w t) ks) w'"
    and "\<And>x w'. env_rows E w' = env_rows E w \<Longrightarrow> R x w'"
  shows "wp (sdk_query E t (odata cs) sel) Q R w"
  by (rule wp_mono [OF wp_conj [OF query_reads query_law [OF assms(1)]]]) (use assms(2,3) in auto)

lemma wp_sdk_query_page:
  assumes "\<forall>c \<in> set cs. clean_clause c"
    and "\<And>w'. env_rows E w' = env_rows E w \<Longrightarrow> selects cs (env_rows E w t) [] \<Longrightarrow> Q None w'"
    and "\<And>ks m next w'. env_rows E w' = env_rows E w \<Longrightarrow> selects cs (env_rows E w t) ks
      \<Longrightarrow> int m \<le> max n 0 \<Longrightarrow> (next = PNone \<longrightarrow> length ks \<le> m)
      \<Longrightarrow> Q (Some (take m (fetch sel (env_rows E w t) ks), next)) w'"
    and "\<And>x w'. env_rows E w' = env_rows E w \<Longrightarrow> R x w'"
  shows "wp (sdk_query_page E t (odata cs) sel n PNone) Q R w"
proof (rule wp_mono [OF wp_conj [OF page_reads page_law [OF assms(1)]]])
  fix res w'
  assume "env_rows E w' = env_rows E w \<and> (\<exists>ks. selects cs (env_rows E w t) ks \<and>
         (case res of None \<Rightarrow> ks = []
          | Some (es, next) \<Rightarrow> (\<exists>m. int m \<le> max n 0 \<and> es = take m (fetch sel (env_rows E w t) ks)
               \<and> (next = PNone \<longrightarrow> length ks \<le> m))))"
  then show "Q res w'" using assms(2,3) by (cases res) auto
qed (use assms(4) in auto)

end

section \<open>Available service\<close>

text \<open>
  The same service while it is available: from a world that is \<open>ok\<close> no request fails but for its
  documented cause, and the worlds it leads to are \<open>ok\<close>.
\<close>

locale available_sdk = table_sdk E for E :: "'w env" +
  fixes ok :: "'w \<Rightarrow> bool"
  assumes utcnow_ok: "ok w \<Longrightarrow> ok (snd (env_utcnow E w))"
    and uuid4_ok: "ok w \<Longrightarrow> ok (snd (env_uuid4 E w))"
    and create_ok: "ok w \<Longrightarrow> wp (sdk_create E t e) (\<lambda>_. ok)
      (\<lambda>x w'. ok w' \<and> env_rows E w' = env_rows E w
         \<and> (case entity_key e of None \<Rightarrow> True | Some k \<Rightarrow> env_rows E w t k \<noteq> None)) w"
    and get_ok: "ok w \<Longrightarrow> wp (sdk_get E t p r) (\<lambda>_. ok)
      (\<lambda>x w'. ok w' \<and> x = ResourceNotFoundError) w"
    and update_ok: "ok w \<Longrightarrow> wp (sdk_update E t e m None) (\<lambda>_. ok)
      (\<lambda>x w'. ok w' \<and> env_rows E w' = env_rows E w
         \<and> (case entity_key e of None \<Rightarrow> True | Some k \<Rightarrow> env_rows E w t k = None)) w"
    and upsert_ok: "ok w \<Longrightarrow> wp (sdk_upsert E t e m) (\<lambda>_. ok)
      (\<lambda>x w'. ok w' \<and> env_rows E w' = env_rows E w \<and> entity_key e = None) w"
    and delete_ok: "ok w \<Longrightarrow> wp (sdk_delete E t p r) (\<lambda>_. ok)
      (\<lambda>x w'. ok w' \<and> x = ResourceNotFoundError) w"
    and query_ok: "ok w \<Longrightarrow> \<forall>c \<in> set cs. clean_clause c
      \<Longrightarrow> wp (sdk_query E t (odata cs) sel) (\<lambda>_. ok) (\<lambda>_ _. False) w"
    and page_ok: "ok w \<Longrightarrow> \<forall>c \<in> set cs. clean_clause c
      \<Longrightarrow> wp (sdk_query_page E t (odata cs) sel n PNone) (\<lambda>_. ok) (\<lambda>_ _. False) w"
begin

lemma wp_utcnow_ok:
  "ok w \<Longrightarrow> (\<And>d w'. ok w' \<Longrightarrow> env_rows E w' = env_rows E w \<Longrightarrow> Q d w') \<Longrightarrow> wp (utcnow E) Q R w"
  using utcnow_rows [of w] utcnow_ok [of w] by (auto simp: wp_def utcnow_def split: prod.splits)

lemma wp_utcnow_now:
  "ok w \<Longrightarrow> (\<And>w'. ok w' \<Longrightarrow> env_rows E w' = env_rows E w \<Longrightarrow> Q (fst (env_utcnow E w)) w') \<Longrightarrow> wp (utcnow E) Q R w"
  using utcnow_rows [of w] utcnow_ok [of w] by (auto simp: wp_def utcnow_def split: prod.splits)

lemma wp_uuid4_ok:
  "ok w \<Longrightarrow> (\<And>s w'. ok w' \<Longrightarrow> env_rows E w' = env_rows E w \<Longrightarrow> Q s w') \<Longrightarrow> wp (uuid4 E) Q R w"
  using uuid4_rows [of w] uuid4_ok [of w] by (auto simp: wp_def uuid4_def split: prod.splits)

lemma wp_create_ok:
  assumes "ok w" "entity_key e = Some k" "env_rows E w t k = None"
    and "\<And>w'. ok w' \<Longrightarrow> env_rows E w' = put_row t k (Some (drop_none e)) (env_rows E w) \<Longrightarrow> Q () w'"
  shows "wp (sdk_create E t e) Q R w"
  by (rule wp_mono [OF wp_conj [OF create_law create_ok [OF assms(1)]]]) (use assms in auto)

lemma wp_create_ok_best:
  assumes "ok w" "entity_key e = Some k"
    and "\<And>w'. ok w' \<Longrightarrow> env_rows E w t k = None
      \<Longrightarrow> env_rows E w' = put_row t k (Some (drop_none e)) (env_rows E w) \<Longrightarrow> Q () w'"
    and "\<And>x w'. ok w' \<Longrightarrow> env_rows E w t k \<noteq> None \<Longrightarrow> env_rows E w' = env_rows E w \<Longrightarrow> R x w'"
  shows "wp (sdk_create E t e) Q R w"
  by (rule wp_mono [OF wp_conj [OF create_law create_ok [OF assms(1)]]]) (use assms in auto)

lemma wp_get_ok:
  assumes "ok w"
    and "\<And>e et w'. ok w' \<Longrightarrow> env_rows E w' = env_rows E w \<Longrightarrow> env_rows E w t (p, r) = Some e \<Longrightarrow> Q (e, et) w'"
    and "\<And>w'. ok w' \<Longrightarrow> env_rows E w' = env_rows E w \<Longrightarrow> env_rows E w t (p, r) = None \<Longrightarrow> R ResourceNotFoundError w'"
  shows "wp (sdk_get E t p r) Q R w"
  by (rule wp_mono [OF wp_conj [OF get_law get_ok [OF assms(1)]]]) (use assms in auto)

lemma wp_update_ok:
  assumes "ok w" "entity_key e = Some k" "env_rows E w t k = Some old"
    and "\<And>w'. ok w' \<Longrightarrow> env_rows E w' = put_row t k (Some (write_row m e (Some old))) (env_rows E w) \<Longrightarrow> Q () w'"
  shows "wp (sdk_update E t e m None) Q R w"
  by (rule wp_mono [OF wp_conj [OF update_law update_ok [OF assms(1)]]]) (use assms in auto)

lemma wp_delete_ok:
  assumes "ok w"
    and "\<And>w'. ok w' \<Longrightarrow> env_rows E w' = put_row t (p, r) None (env_rows E w) \<Longrightarrow> Q () w'"
    and "\<And>w'. ok w' \<Longrightarrow> env_rows E w' = env_rows E w \<Longrightarrow> env_rows E w t (p, r) = None
      \<Longrightarrow> R ResourceNotFoundError w'"
  shows "wp (sdk_delete E t p r) Q R w"
  by (rule wp_mono [OF wp_conj [OF delete_law delete_ok [OF assms(1)]]]) (use assms in auto)

lemma wp_query_ok:
  assumes "ok w" "\<forall>c \<in> set cs. clean_clause c"
    and "\<And>ks w'. ok w' \<Longrightarrow> env_rows E w' = env_rows E w \<Longrightarrow> selects cs (env_rows E w t) ks
      \<Longrightarrow> Q (fetch sel (env_rows E w t) ks) w'"
  shows "wp (sdk_query E t (odata cs) sel) Q R w"
  by (rule wp_mono [OF wp_conj [OF wp_conj [OF query_reads query_law [OF assms(2)]] query_ok [OF assms(1,2)]]])
    (use assms(3) in auto)

text \<open>While the service is available it stays so.\<close>

lemma stays_ok [stays_intros]:
  "stays ok (utcnow E)" "stays ok (uuid4 E)" "stays ok (sdk_create E t e)" "stays ok (sdk_get E t p r)"
  "stays ok (sdk_update E t e m None)" "stays ok (sdk_upsert E t e m)" "stays ok (sdk_delete E t p r)"
  by (rule staysI, erule wp_utcnow_ok wp_uuid4_ok wp_mono [OF create_ok] wp_mono [OF get_ok]
      wp_mono [OF update_ok] wp_mono [OF upsert_ok] wp_mono [OF delete_ok]; simp)+

lemma stays_ok_query [stays_intros]: "\<forall>c \<in> set cs. clean_clause c \<Longrightarrow> stays ok (sdk_query E t (odata cs) sel)"
  by (rule staysI) (erule wp_mono [OF query_ok]; simp)

end

end
