(* ===== verification/Memory_Env.thy ===== *)
theory Memory_Env
  imports Table_Sdk
begin

text \<open>
  An environment that keeps its tables in a list, with a parser for the filter strings and a list
  of faults to inject. It satisfies the contract of \<open>Table_Sdk\<close>, so that contract can hold, and
  the closed examples of the development run on it. No property is about it.
\<close>

section \<open>Parsing the filters\<close>

fun parse_op :: "string \<Rightarrow> cmp_op" where
  "parse_op s = (if s = ''eq'' then OEq else if s = ''ge'' then OGe else if s = ''gt'' then OGt
     else if s = ''le'' then OLe else OLt)"

definition parse_const :: "string \<Rightarrow> oconst \<times> string" where
  "parse_const s = (if s \<noteq> [] \<and> hd s = CHR 0x27
     then (OStr (takeWhile (\<lambda>c. c \<noteq> CHR 0x27) (tl s)), tl (dropWhile (\<lambda>c. c \<noteq> CHR 0x27) (tl s)))
     else (OBool (takeWhile (\<lambda>c. c \<noteq> CHR '' '') s = ''true''), dropWhile (\<lambda>c. c \<noteq> CHR '' '') s))"

fun parse_odata :: "nat \<Rightarrow> string \<Rightarrow> clause list" where
  "parse_odata 0 s = []"
| "parse_odata (Suc n) s = (if s = [] then [] else
     (let p = takeWhile (\<lambda>c. c \<noteq> CHR '' '') s;
          s1 = tl (dropWhile (\<lambda>c. c \<noteq> CHR '' '') s);
          c = takeWhile (\<lambda>c. c \<noteq> CHR '' '') s1;
          s2 = tl (dropWhile (\<lambda>c. c \<noteq> CHR '' '') s1)
      in (case parse_const s2 of (v, s3) \<Rightarrow>
            (p, parse_op c, v) # (if s3 = [] then [] else parse_odata n (drop 5 s3)))))"

lemma parse_const_render:
  assumes "case v of OStr s \<Rightarrow> no_quote s | OBool _ \<Rightarrow> True" and "r = [] \<or> hd r = CHR '' ''"
  shows "parse_const (render_const v @ r) = (v, r)"
proof (cases v)
  case (OStr s)
  with assms(1) have "CHR 0x27 \<notin> set s" by (simp add: no_quote_def)
  then show ?thesis using OStr
    by (simp add: parse_const_def quote_def takeWhile_sep dropWhile_sep)
next
  case (OBool b)
  with assms(2) show ?thesis by (cases r) (auto simp: parse_const_def)
qed

lemma parse_op_render [simp]: "parse_op (render_op c) = c"
  by (cases c) auto

lemma render_op_no_space [simp]: "CHR '' '' \<notin> set (render_op c)"
  by (cases c) auto

lemma parse_odata_clause:
  assumes "clean_clause (p, c, v)" and "r = [] \<or> hd r = CHR '' ''"
  shows "parse_odata (Suc n) (render_clause (p, c, v) @ r)
    = (p, c, v) # (if r = [] then [] else parse_odata n (drop 5 r))"
proof -
  have p: "p \<noteq> []" "CHR '' '' \<notin> set p" and v: "case v of OStr s \<Rightarrow> no_quote s | OBool _ \<Rightarrow> True"
    using assms(1) by auto
  have s: "render_clause (p, c, v) @ r = p @ CHR '' '' # render_op c @ CHR '' '' # render_const v @ r"
    by simp
  show ?thesis
    unfolding s using p parse_const_render [OF v assms(2)]
    by (simp add: takeWhile_sep dropWhile_sep del: parse_op.simps)
qed

lemma parse_odata_render:
  "\<forall>c \<in> set cs. clean_clause c \<Longrightarrow> length cs \<le> n \<Longrightarrow> parse_odata n (odata cs) = cs"
proof (induction cs arbitrary: n rule: odata.induct)
  case 1
  then show ?case by (cases n) auto
next
  case (2 c)
  obtain p q v where c: "c = (p, q, v)" by (cases c)
  from 2 obtain m where "n = Suc m" by (cases n) auto
  then show ?case
    using parse_odata_clause [of p q v "[]" m] 2(1) by (simp add: c del: parse_odata.simps render_clause.simps clean_clause.simps)
next
  case (3 c d cs)
  obtain p q v where c: "c = (p, q, v)" by (cases c)
  from 3(3) obtain m where n: "n = Suc m" by (cases n) auto
  have "parse_odata m (odata (d # cs)) = d # cs"
    using 3 n by simp
  then show ?case
    using parse_odata_clause [of p q v "'' and '' @ odata (d # cs)" m] 3(2)
    by (simp add: c n del: parse_odata.simps render_clause.simps clean_clause.simps)
qed

section \<open>JSON\<close>

text \<open>
  A reader of JSON documents without fractions, exponents and \<open>\\u\<close> escapes. The fuel is the length
  of the document: every call of \<open>json_value\<close> takes a character at least.
\<close>

definition skip_ws :: "string \<Rightarrow> string" where
  "skip_ws s = dropWhile is_space s"

fun json_string :: "string \<Rightarrow> string \<Rightarrow> (string \<times> string) option" where
  "json_string [] acc = None"
| "json_string (c # s) acc =
     (if c = CHR 0x22 then Some (rev acc, s)
      else if c = CHR 0x5C then
        (case s of [] \<Rightarrow> None
         | d # s' \<Rightarrow>
            (if d = CHR 0x22 \<or> d = CHR 0x5C \<or> d = CHR ''/'' then json_string s' (d # acc)
             else if d = CHR ''n'' then json_string s' (CHR 0x0A # acc)
             else if d = CHR ''t'' then json_string s' (CHR 0x09 # acc)
             else if d = CHR ''r'' then json_string s' (CHR 0x0D # acc)
             else None))
      else json_string s (c # acc))"

definition json_int :: "string \<Rightarrow> (pyval \<times> string) option" where
  "json_int s = (let digits = takeWhile is_digit s in
     case (if digits = [] then None else int_digits digits 0) of
       None \<Rightarrow> None | Some i \<Rightarrow> Some (PInt i, dropWhile is_digit s))"

fun json_value :: "nat \<Rightarrow> string \<Rightarrow> (pyval \<times> string) option"
  and json_items :: "nat \<Rightarrow> string \<Rightarrow> (pyval list \<times> string) option"
  and json_fields :: "nat \<Rightarrow> string \<Rightarrow> ((string \<times> pyval) list \<times> string) option" where
  "json_value 0 s = None"
| "json_value (Suc n) s = (case skip_ws s of
     [] \<Rightarrow> None
   | c # r \<Rightarrow>
      (if c = CHR 0x22 then map_option (\<lambda>(x, t). (PStr x, t)) (json_string r [])
       else if c = CHR ''{'' then
         (if startswith (skip_ws r) ''}'' then Some (PDict [], tl (skip_ws r))
          else map_option (\<lambda>(x, t). (PDict x, t)) (json_fields n r))
       else if c = CHR ''['' then
         (if startswith (skip_ws r) '']'' then Some (PList [], tl (skip_ws r))
          else map_option (\<lambda>(x, t). (PList x, t)) (json_items n r))
       else if c = CHR ''-'' then (case json_int r of Some (PInt i, t) \<Rightarrow> Some (PInt (- i), t) | _ \<Rightarrow> None)
       else if startswith (c # r) ''true'' then Some (PBool True, drop 3 r)
       else if startswith (c # r) ''false'' then Some (PBool False, drop 4 r)
       else if startswith (c # r) ''null'' then Some (PNone, drop 3 r)
       else json_int (c # r)))"
| "json_items 0 s = None"
| "json_items (Suc n) s = (case json_value n s of
     None \<Rightarrow> None
   | Some (v, t) \<Rightarrow> (case skip_ws t of
        [] \<Rightarrow> None
      | c # r \<Rightarrow> (if c = CHR '','' then map_option (\<lambda>(vs, u). (v # vs, u)) (json_items n r)
                 else if c = CHR '']'' then Some ([v], r) else None)))"
| "json_fields 0 s = None"
| "json_fields (Suc n) s = (case skip_ws s of
     [] \<Rightarrow> None
   | c # r \<Rightarrow> (if c \<noteq> CHR 0x22 then None else (case json_string r [] of
        None \<Rightarrow> None
      | Some (k, t) \<Rightarrow> (case skip_ws t of
           [] \<Rightarrow> None
         | d # r' \<Rightarrow> (if d \<noteq> CHR '':'' then None else (case json_value n r' of
              None \<Rightarrow> None
            | Some (v, u) \<Rightarrow> (case skip_ws u of
                 [] \<Rightarrow> None
               | b # r'' \<Rightarrow> (if b = CHR '','' then map_option (\<lambda>(kvs, z). ((k, v) # kvs, z)) (json_fields n r'')
                            else if b = CHR ''}'' then Some ([(k, v)], r'') else None))))))))"

definition mem_loads :: "string \<Rightarrow> pyval option" where
  "mem_loads s = (case json_value (Suc (length s)) s of
     Some (v, t) \<Rightarrow> if skip_ws t = [] then Some v else None | None \<Rightarrow> None)"

section \<open>The environment\<close>

record mem =
  mem_rows :: "((string \<times> key) \<times> entity) list"
  mem_clock :: int
  mem_ids :: nat
  mem_faults :: "bool list"
  mem_files :: "(string \<times> string \<times> entity option) list"
  mem_users :: "string \<rightharpoonup> entity \<times> datetime"
  mem_orgs :: "string \<rightharpoonup> string option \<times> datetime"

definition mem_view :: "'z mem_scheme \<Rightarrow> tables" where
  "mem_view w t k = (case map_of (mem_rows w) (t, k) of
     Some e \<Rightarrow> (if entity_key e = Some k then Some e else None)
   | None \<Rightarrow> None)"

definition mem_fault :: "('z mem_scheme, unit) py" where
  "mem_fault w = (case mem_faults w of
     [] \<Rightarrow> (Inr (), w)
   | b # bs \<Rightarrow> (if b then Inl (ServiceError ''unavailable'') else Inr (), w\<lparr>mem_faults := bs\<rparr>))"

definition mem_put :: "string \<Rightarrow> key \<Rightarrow> entity \<Rightarrow> ('z mem_scheme, unit) py" where
  "mem_put t k e w = (Inr (), w\<lparr>mem_rows := ((t, k), e) # mem_rows w\<rparr>)"

definition mem_create :: "string \<Rightarrow> entity \<Rightarrow> ('z mem_scheme, unit) py" where
  "mem_create t e = py_then mem_fault (\<lambda>w. case entity_key e of
     None \<Rightarrow> (Inl (ValueError ''key''), w)
   | Some k \<Rightarrow> if mem_view w t k = None then mem_put t k (drop_none e) w
               else (Inl ResourceExistsError, w))"

definition mem_get :: "string \<Rightarrow> string \<Rightarrow> string \<Rightarrow> ('z mem_scheme, entity \<times> string option) py" where
  "mem_get t p r = py_then mem_fault (\<lambda>w. case mem_view w t (p, r) of
     None \<Rightarrow> (Inl ResourceNotFoundError, w)
   | Some e \<Rightarrow> (Inr (e, Some ''etag''), w))"

definition mem_update :: "string \<Rightarrow> entity \<Rightarrow> update_mode \<Rightarrow> pyval option \<Rightarrow> ('z mem_scheme, unit) py" where
  "mem_update t e m et = py_then mem_fault (\<lambda>w. case entity_key e of
     None \<Rightarrow> (Inl (ValueError ''key''), w)
   | Some k \<Rightarrow> (case mem_view w t k of
       None \<Rightarrow> (Inl ResourceNotFoundError, w)
     | Some old \<Rightarrow> mem_put t k (write_row m e (Some old)) w))"

definition mem_upsert :: "string \<Rightarrow> entity \<Rightarrow> update_mode \<Rightarrow> ('z mem_scheme, unit) py" where
  "mem_upsert t e m = py_then mem_fault (\<lambda>w. case entity_key e of
     None \<Rightarrow> (Inl (ValueError ''key''), w)
   | Some k \<Rightarrow> mem_put t k (write_row m e (mem_view w t k)) w)"

definition mem_delete :: "string \<Rightarrow> string \<Rightarrow> string \<Rightarrow> ('z mem_scheme, unit) py" where
  "mem_delete t p r = py_then mem_fault (\<lambda>w. 
     (Inr (), w\<lparr>mem_rows := filter (\<lambda>x. fst x \<noteq> (t, (p, r))) (mem_rows w)\<rparr>))"

definition mem_select :: "'z mem_scheme \<Rightarrow> string \<Rightarrow> clause list \<Rightarrow> key list" where
  "mem_select w t cs = sort (remdups (map (snd \<circ> fst) (filter (\<lambda>x. fst (fst x) = t \<and>
     (case mem_view w t (snd (fst x)) of None \<Rightarrow> False | Some e \<Rightarrow> sat cs e)) (mem_rows w))))"

definition mem_query :: "string \<Rightarrow> string \<Rightarrow> string list option \<Rightarrow> ('z mem_scheme, entity list) py" where
  "mem_query t f sel = py_then mem_fault (\<lambda>w. 
     (Inr (fetch sel (mem_view w t) (mem_select w t (parse_odata (length f) f))), w))"

definition mem_query_page :: "string \<Rightarrow> string \<Rightarrow> string list option \<Rightarrow> int \<Rightarrow> pyval
    \<Rightarrow> ('z mem_scheme, (entity list \<times> pyval) option) py" where
  "mem_query_page t f sel n tok = py_bind (mem_query t f sel) (\<lambda>es.
     ret (Some (take (nat n) es, if length es \<le> nat n then PNone else PStr ''next'')))"

definition mem_env :: "'z mem_scheme env" where
  "mem_env = \<lparr>
     env_getenv = (\<lambda>n. if n = ''AzureWebJobsStorage'' then Some ''memory''
       else if n = ''AZURE_KEY_VAULT_URL'' then Some ''https://vault''
       else if n = ''BIFROST_WORKSPACE_LOCATION'' then Some ''/ws'' else None),
     env_utcnow = (\<lambda>w. (Naive (mem_clock w), w\<lparr>mem_clock := mem_clock w + 1\<rparr>)),
     env_uuid4 = (\<lambda>w. (str_nat (mem_ids w), w\<lparr>mem_ids := Suc (mem_ids w)\<rparr>)),
     env_isoformat = (\<lambda>d. case d of Naive i \<Rightarrow> str_int i | Aware i z \<Rightarrow> str_int i @ ''+'' @ str_int z),
     env_fromisoformat = (\<lambda>s. None),
     env_timestamp_ms = (\<lambda>d. case d of Naive i \<Rightarrow> i div 1000 | Aware i z \<Rightarrow> i div 1000),
     env_strftime = (\<lambda>_ d. case d of Naive i \<Rightarrow> str_int (i div 86400000000) | Aware i z \<Rightarrow> str_int (i div 86400000000)),
     env_b64decode = Inr,
     env_str = (\<lambda>_. []),
     env_dumps = (\<lambda>_. Inr ''{}''),
     env_loads = mem_loads,
     env_validate = (\<lambda>_ kw. Inr kw),
     env_submodel = (\<lambda>_. Inr),
     env_model_dump = (\<lambda>_ m. m),
     env_form_files = mem_files,
     env_sched = (\<lambda>_ n. [0..<n]),
     env_user_cache = mem_users,
     env_set_user_cache = (\<lambda>c w. w\<lparr>mem_users := c\<rparr>),
     env_org_cache = mem_orgs,
     env_set_org_cache = (\<lambda>c w. w\<lparr>mem_orgs := c\<rparr>),
     env_rows = mem_view,
     env_etag = (\<lambda>_ _ _. ''etag''),
     sdk_create = mem_create,
     sdk_get = mem_get,
     sdk_update = mem_update,
     sdk_upsert = mem_upsert,
     sdk_delete = mem_delete,
     sdk_query = mem_query,
     sdk_query_page = mem_query_page\<rparr>"

lemma mem_env_rows [simp]: "env_rows mem_env = mem_view"
  by (simp add: mem_env_def)

lemma mem_env_isoformat [simp]: "env_isoformat mem_env (Naive i) = str_int i"
  by (simp add: mem_env_def)

lemmas mem_defs = mem_env_def mem_create_def mem_get_def mem_update_def mem_upsert_def
  mem_delete_def mem_query_def mem_query_page_def mem_put_def mem_fault_def

section \<open>The environment meets the contract\<close>

lemma wp_mem_fault:
  "wp mem_fault Q R w =
     (case mem_faults w of [] \<Rightarrow> Q () w
      | b # bs \<Rightarrow> if b then R (ServiceError ''unavailable'') (w\<lparr>mem_faults := bs\<rparr>)
                 else Q () (w\<lparr>mem_faults := bs\<rparr>))"
  by (simp add: wp_def mem_fault_def split: list.splits)

lemma mem_view_faults [simp]: "mem_view (w\<lparr>mem_faults := bs\<rparr>) = mem_view w"
  by (rule ext)+ (simp add: mem_view_def)

lemma mem_view_clock [simp]: "mem_view (w\<lparr>mem_clock := c\<rparr>) = mem_view w"
  by (rule ext)+ (simp add: mem_view_def)

lemma mem_view_ids [simp]: "mem_view (w\<lparr>mem_ids := c\<rparr>) = mem_view w"
  by (rule ext)+ (simp add: mem_view_def)

lemma mem_view_users [simp]: "mem_view (w\<lparr>mem_users := c\<rparr>) = mem_view w"
  by (rule ext)+ (simp add: mem_view_def)

lemma mem_view_orgs [simp]: "mem_view (w\<lparr>mem_orgs := d\<rparr>) = mem_view w"
  by (rule ext)+ (simp add: mem_view_def)

lemma mem_view_put:
  "entity_key e = Some k \<Longrightarrow>
   mem_view (w\<lparr>mem_rows := ((t, k), e) # mem_rows w\<rparr>) = put_row t k (Some e) (mem_view w)"
  by (rule ext)+ (auto simp: mem_view_def put_row_apply)

lemma map_of_filter_key:
  "map_of (filter (\<lambda>x. fst x \<noteq> a) xs) b = (if b = a then None else map_of xs b)"
  by (induction xs) auto

lemma mem_view_delete:
  "mem_view (w\<lparr>mem_rows := filter (\<lambda>x. fst x \<noteq> (t, k)) (mem_rows w)\<rparr>) = put_row t k None (mem_view w)"
  by (rule ext)+ (auto simp: mem_view_def put_row_apply map_of_filter_key)

lemma mem_view_keyed: "mem_view w t k = Some e \<Longrightarrow> entity_key e = Some k"
  by (auto simp: mem_view_def split: option.splits if_splits)

lemma entity_key_write:
  "entity_key e = Some k \<Longrightarrow> (\<And>o'. old = Some o' \<Longrightarrow> entity_key o' = Some k)
   \<Longrightarrow> entity_key (write_row m e old) = Some k"
  by (cases k) (auto simp: write_row_def entity_key_Some map_add_def drop_none_apply
      split: update_mode.splits option.splits)

lemma mem_view_write:
  "entity_key e = Some k \<Longrightarrow> mem_view w t k = Some x \<Longrightarrow>
   mem_view (w\<lparr>mem_rows := ((t, k), write_row m e (Some x)) # mem_rows w\<rparr>)
     = put_row t k (Some (write_row m e (Some x))) (mem_view w)"
  by (rule mem_view_put) (auto intro: entity_key_write mem_view_keyed)

lemma mem_select: "selects cs (mem_view w t) (mem_select w t cs)"
proof -
  have "\<exists>x \<in> set (mem_rows w). fst x = (t, k)" if "mem_view w t k = Some e" for k e
    using that by (auto simp: mem_view_def dest!: map_of_SomeD split: option.splits if_splits)
      (erule bexI [rotated], simp)
  then show ?thesis
    unfolding selects_def mem_select_def
    by (auto simp: image_iff split: option.splits) (force split: option.splits)+
qed

lemma mem_select_of: "mem_view v = mem_view w \<Longrightarrow> selects cs (mem_view w t) (mem_select v t cs)"
  using mem_select [of cs v t] by simp

lemma page_take:
  "selects cs T ks \<Longrightarrow> \<exists>ks'. selects cs T ks' \<and> (\<exists>m. int m \<le> max n 0
     \<and> take (nat n) (fetch sel T ks) = take m (fetch sel T ks')
     \<and> ((if length (fetch sel T ks) \<le> nat n then PNone else PStr ''next'') = PNone \<longrightarrow> length ks' \<le> m))"
  by (rule exI [of _ ks], intro conjI exI [of _ "nat n"]) (auto simp: fetch_def split: if_splits)

lemma length_odata: "length cs \<le> length (odata cs)"
  by (induction cs rule: odata.induct) auto

lemma mem_faulty:
  assumes "\<And>w. mem_view w = mem_view w0 \<Longrightarrow> wp m Q R w"
    and "\<And>w. mem_view w = mem_view w0 \<Longrightarrow> R (ServiceError ''unavailable'') w"
  shows "wp (py_then mem_fault m) Q R w0"
  by (simp add: wp_mem_fault split: list.splits) (use assms in auto)

lemmas mem_rules = mem_put_def mem_view_put mem_view_write mem_view_delete entity_key_write mem_view_keyed

interpretation mem: table_sdk mem_env
proof (unfold_locales, goal_cases)
  case (12 t e w)
  show ?case
    by (simp only: mem_env_def env.select_convs mem_create_def, rule mem_faulty)
      (auto simp: wp_def mem_rules split: option.splits)
next
  case (13 t p r w)
  show ?case
    by (simp only: mem_env_def env.select_convs mem_get_def, rule mem_faulty)
      (auto simp: wp_def split: option.splits)
next
  case (14 t e m et w)
  show ?case
    by (simp only: mem_env_def env.select_convs mem_update_def, rule mem_faulty)
      (auto simp: wp_def mem_rules split: option.splits)
next
  case (15 t e m w)
  show ?case
    by (simp only: mem_env_def env.select_convs mem_upsert_def, rule mem_faulty)
      (auto simp: wp_def mem_rules split: option.splits)
next
  case (16 t p r w)
  show ?case
    by (simp only: mem_env_def env.select_convs mem_delete_def, rule mem_faulty)
      (auto simp: wp_def mem_rules)
next
  case (17 t f sel w)
  show ?case
    by (simp only: mem_env_def env.select_convs mem_query_def, rule mem_faulty)
      (auto simp: wp_def)
next
  case (18 cs t sel w)
  have "wp (mem_query t (odata cs) sel)
      (\<lambda>es _. \<exists>ks. selects cs (mem_view w t) ks \<and> es = fetch sel (mem_view w t) ks) (\<lambda>_ _. True) w"
    unfolding mem_query_def
    by (rule mem_faulty)
      (use 18 mem_select_of in \<open>fastforce simp: wp_def parse_odata_render length_odata\<close>)+
  then show ?case by (simp add: mem_env_def)
next
  case (19 t f sel n tok w)
  show ?case
    by (simp only: mem_env_def env.select_convs mem_query_page_def mem_query_def wp_bind, rule mem_faulty)
      (auto simp: wp_def)
next
  case (20 cs t sel n w)
  have "wp (mem_query t (odata cs) sel)
      (\<lambda>es _. \<exists>ks. selects cs (mem_view w t) ks \<and> es = fetch sel (mem_view w t) ks) (\<lambda>_ _. True) w"
    unfolding mem_query_def
    by (rule mem_faulty)
      (use 20 mem_select_of in \<open>fastforce simp: wp_def parse_odata_render length_odata\<close>)+
  then have "wp (mem_query_page t (odata cs) sel n PNone)
      (\<lambda>res _. \<exists>ks. selects cs (mem_view w t) ks \<and>
         (case res of None \<Rightarrow> ks = []
          | Some (es, next) \<Rightarrow> (\<exists>m. int m \<le> max n 0 \<and> es = take m (fetch sel (mem_view w t) ks)
               \<and> (next = PNone \<longrightarrow> length ks \<le> m))))
      (\<lambda>_ _. True) w"
    unfolding mem_query_page_def wp_bind
    by (rule wp_mono) (auto simp only: wp_ret option.case prod.case intro: page_take)
  then show ?case by (simp only: mem_env_def env.select_convs)
qed (simp_all add: mem_env_def mem_view_keyed lessThan_atLeast0)

text \<open>Without faults left it is available.\<close>

lemma mem_no_fault: "mem_faults w = [] \<Longrightarrow> wp (py_then mem_fault m) Q R w = wp m Q R w"
  by (simp add: wp_mem_fault)

interpretation mem: available_sdk mem_env "\<lambda>w. mem_faults w = []"
  by unfold_locales
    (simp_all add: mem_defs py_run_defs wp_def split: option.splits)

text \<open>The world before anything happened.\<close>

definition empty_world :: mem where
  "empty_world = \<lparr>mem_rows = [], mem_clock = 0, mem_ids = 0, mem_faults = [], mem_files = [], mem_users = Map.empty, mem_orgs = Map.empty\<rparr>"

end
