(* ===== verification/Context.thy ===== *)
theory Context
  imports Memory_Env
begin

text \<open>
  The execution context of \<open>shared/context.py\<close>: who calls, in which scope, with which rights.
  Repositories read its scope, handlers its identity and rights. The integration calls a
  workflow makes are recorded in it.
\<close>

record organization =
  o_id :: string
  o_name :: string
  o_is_active :: pyval

record caller =
  caller_user_id :: string
  caller_email :: string
  caller_name :: string

record exec_context =
  ctx_user_id :: string
  ctx_email :: string
  ctx_name :: string
  ctx_scope :: string
  ctx_organization :: "organization option"
  ctx_is_platform_admin :: bool
  ctx_is_function_key :: bool
  ctx_execution_id :: string
  ctx_config :: entity
  ctx_integration_calls :: "entity list"

definition ctx_org_id :: "exec_context \<Rightarrow> string option" where
  "ctx_org_id c = map_option o_id (ctx_organization c)"

definition ctx_org_name :: "exec_context \<Rightarrow> string option" where
  "ctx_org_name c = map_option o_name (ctx_organization c)"

definition is_global_scope :: "exec_context \<Rightarrow> bool" where
  "is_global_scope c \<longleftrightarrow> ctx_scope c = ''GLOBAL''"

definition track_integration_call ::
  "'w env \<Rightarrow> exec_context \<Rightarrow> string \<Rightarrow> string \<Rightarrow> string \<Rightarrow> int \<Rightarrow> int \<Rightarrow> string option
    \<Rightarrow> ('w, exec_context) py" where
  "track_integration_call E c integration meth endpoint status_code duration_ms err =
     py_bind (utcnow E) (\<lambda>now.
       ret (c\<lparr>ctx_integration_calls := ctx_integration_calls c @
         [[''timestamp'' \<mapsto> PStr (env_isoformat E now), ''integration'' \<mapsto> PStr integration,
           ''method'' \<mapsto> PStr meth, ''endpoint'' \<mapsto> PStr endpoint,
           ''status_code'' \<mapsto> PInt status_code, ''duration_ms'' \<mapsto> PInt duration_ms,
           ''error'' \<mapsto> of_opt err,
           ''success'' \<mapsto> PBool (status_code < 400 \<and> \<not> opt_truthy err)]]\<rparr>))"

definition finalize_execution :: "exec_context \<Rightarrow> string \<rightharpoonup> entity list" where
  "finalize_execution c = [''integration_calls'' \<mapsto> ctx_integration_calls c]"

end
