(* ===== verification/Table_Storage.thy ===== *)
theory Table_Storage
  imports Context
begin

text \<open>
  \<open>shared/async_storage.py\<close> and \<open>shared/repositories/base.py\<close>: the service object every
  repository goes through. It decides the partition key of an entity from the table's scoping
  rules, converts datetimes to strings and back, and turns a missing entity into \<open>None\<close>.
\<close>

section \<open>The service\<close>

definition SCOPED_TABLES :: "string list" where
  "SCOPED_TABLES = [''Config'', ''Entities'']"

definition GLOBAL_TABLES :: "string list" where
  "GLOBAL_TABLES = [''Relationships'']"

definition CUSTOM_TABLES :: "string \<rightharpoonup> string" where
  "CUSTOM_TABLES = Map.empty"

definition EXPLICIT_PARTITION_TABLES :: "string list" where
  "EXPLICIT_PARTITION_TABLES = []"

record table_service =
  svc_table :: string
  svc_context :: "exec_context option"

text \<open>\<open>AsyncTableStorageService.__init__\<close>: the connection string is the argument or the
  environment's, and must not be empty.\<close>

definition async_table_storage_service ::
  "'w env \<Rightarrow> string \<Rightarrow> string option \<Rightarrow> exec_context option \<Rightarrow> exn + table_service" where
  "async_table_storage_service E t conn ctx =
     (let c = (case conn of None \<Rightarrow> env_getenv E ''AzureWebJobsStorage'' | Some s \<Rightarrow> Some s)
      in if opt_truthy c then Inr \<lparr>svc_table = t, svc_context = ctx\<rparr>
         else Inl (ValueError ''AzureWebJobsStorage environment variable not set''))"

definition apply_partition_key :: "table_service \<Rightarrow> entity \<Rightarrow> exn + entity" where
  "apply_partition_key s e =
     (if e ''PartitionKey'' \<noteq> None then Inr e
      else if svc_table s \<in> set SCOPED_TABLES then
        (case svc_context s of
           Some c \<Rightarrow> Inr (e(''PartitionKey'' \<mapsto> PStr (ctx_scope c)))
         | None \<Rightarrow> Inl (ValueError (''Table '' @ quote @ svc_table s @ quote
             @ '' requires context for automatic scoping. Either provide context or set PartitionKey explicitly.'')))
      else if svc_table s \<in> set GLOBAL_TABLES then Inr (e(''PartitionKey'' \<mapsto> PStr ''GLOBAL''))
      else if svc_table s \<in> set EXPLICIT_PARTITION_TABLES then
        Inl (ValueError (''Table '' @ quote @ svc_table s @ quote
          @ '' requires explicit PartitionKey. This table does not support automatic partition key assignment.''))
      else if opt_truthy (CUSTOM_TABLES (svc_table s)) then
        Inl (ValueError (''Table '' @ quote @ svc_table s @ quote @ '' uses custom partitioning (''
          @ quote @ str_or (CUSTOM_TABLES (svc_table s)) [] @ quote @ ''). Must explicitly set PartitionKey.''))
      else Inl (ValueError (''Table '' @ quote @ svc_table s @ quote
          @ '' not in scoping rules. Must explicitly set PartitionKey.'')))"

definition serialize_datetime_fields :: "'w env \<Rightarrow> entity \<Rightarrow> entity" where
  "serialize_datetime_fields E e =
     (\<lambda>k. case e k of Some (PDate d) \<Rightarrow> Some (PStr (env_isoformat E d)) | v \<Rightarrow> v)"

definition datetime_fields :: "string list" where
  "datetime_fields = [''CreatedAt'', ''UpdatedAt'', ''GrantedAt'', ''LastLogin'', ''StartedAt'',
     ''CompletedAt'', ''Timestamp'']"

definition replace_Z :: "string \<Rightarrow> string" where
  "replace_Z s = concat (map (\<lambda>c. if c = CHR ''Z'' then ''+00:00'' else [c]) s)"

definition deserialize_datetime_fields :: "'w env \<Rightarrow> entity \<Rightarrow> entity" where
  "deserialize_datetime_fields E e = (\<lambda>k. case e k of
     Some (PStr s) \<Rightarrow> (if k \<in> set datetime_fields then
         (case env_fromisoformat E (replace_Z s) of Some d \<Rightarrow> Some (PDate d) | None \<Rightarrow> Some (PStr s))
       else Some (PStr s))
   | v \<Rightarrow> v)"

definition mode_of :: "string \<Rightarrow> update_mode" where
  "mode_of mode = (if mode = ''replace'' then Replace else Merge)"

text \<open>What every write does first: the partition key, then the check of both keys.\<close>

definition keyed_entity :: "table_service \<Rightarrow> entity \<Rightarrow> exn + entity" where
  "keyed_entity s e = (case apply_partition_key s e of
     Inl x \<Rightarrow> Inl x
   | Inr e' \<Rightarrow> if e' ''PartitionKey'' = None \<or> e' ''RowKey'' = None
       then Inl (ValueError ''Entity must have PartitionKey and RowKey'') else Inr e')"

definition insert_entity :: "'w env \<Rightarrow> table_service \<Rightarrow> entity \<Rightarrow> ('w, entity) py" where
  "insert_entity E s e = py_bind (lift (keyed_entity s e)) (\<lambda>e'.
     let e'' = serialize_datetime_fields E e' in
     py_then (sdk_create E (svc_table s) e'') (ret e''))"

definition update_entity :: "'w env \<Rightarrow> table_service \<Rightarrow> entity \<Rightarrow> string \<Rightarrow> ('w, entity) py" where
  "update_entity E s e mode = py_bind (lift (keyed_entity s e)) (\<lambda>e'.
     let e'' = serialize_datetime_fields E e' in
     py_then (sdk_update E (svc_table s) e'' (mode_of mode) None) (ret e''))"

definition update_entity_with_etag ::
  "'w env \<Rightarrow> table_service \<Rightarrow> entity \<Rightarrow> string \<Rightarrow> ('w, entity) py" where
  "update_entity_with_etag E s e mode = py_bind (lift (keyed_entity s e)) (\<lambda>e'.
     case e' ''etag'' of
       None \<Rightarrow> raise (ValueError (''Entity must have '' @ quote @ ''etag'' @ quote
          @ '' field for optimistic concurrency. Use get_entity() first.''))
     | Some etag \<Rightarrow>
        let e'' = serialize_datetime_fields E (e'(''etag'' := None)) in
        py_then (sdk_update E (svc_table s) e'' (mode_of mode) (Some etag)) (ret e''))"

definition upsert_entity :: "'w env \<Rightarrow> table_service \<Rightarrow> entity \<Rightarrow> string \<Rightarrow> ('w, entity) py" where
  "upsert_entity E s e mode = py_bind (lift (keyed_entity s e)) (\<lambda>e'.
     let e'' = serialize_datetime_fields E e' in
     py_then (sdk_upsert E (svc_table s) e'' (mode_of mode)) (ret e''))"

definition get_entity ::
  "'w env \<Rightarrow> table_service \<Rightarrow> string \<Rightarrow> string \<Rightarrow> ('w, entity option) py" where
  "get_entity E s partition_key row_key =
     py_catch
       (py_bind (sdk_get E (svc_table s) partition_key row_key) (\<lambda>(e, etag).
          let d = deserialize_datetime_fields E e in
          ret (Some (case etag of Some t \<Rightarrow> d(''etag'' \<mapsto> PStr t) | None \<Rightarrow> d))))
       (\<lambda>x. if x = ResourceNotFoundError then ret None else raise x)"

definition query_entities ::
  "'w env \<Rightarrow> table_service \<Rightarrow> string option \<Rightarrow> string list option \<Rightarrow> ('w, entity list) py" where
  "query_entities E s f sel =
     py_bind (sdk_query E (svc_table s) (str_or f []) sel) (\<lambda>es.
       ret (map (deserialize_datetime_fields E) es))"

definition query_entities_paged ::
  "'w env \<Rightarrow> table_service \<Rightarrow> string option \<Rightarrow> string list option \<Rightarrow> int \<Rightarrow> pyval
     \<Rightarrow> ('w, entity list \<times> pyval) py" where
  "query_entities_paged E s f sel results_per_page token =
     py_bind (sdk_query_page E (svc_table s) (str_or f []) sel (min results_per_page 1000) token) (\<lambda>page.
       case page of
         None \<Rightarrow> ret ([], PNone)
       | Some p \<Rightarrow> ret (map (deserialize_datetime_fields E) (fst p), snd p))"

definition delete_entity ::
  "'w env \<Rightarrow> table_service \<Rightarrow> string \<Rightarrow> string \<Rightarrow> ('w, bool) py" where
  "delete_entity E s partition_key row_key =
     py_catch (py_then (sdk_delete E (svc_table s) partition_key row_key) (ret True))
       (\<lambda>x. if x = ResourceNotFoundError then ret False else raise x)"

definition succ_char :: "char \<Rightarrow> char" where
  "succ_char c = char_of (Suc (of_char c))"

definition org_filter :: "string \<Rightarrow> string option \<Rightarrow> clause list" where
  "org_filter org_id row_key_prefix =
     (''PartitionKey'', OEq, OStr org_id) #
     (if opt_truthy row_key_prefix then
        let p = str_or row_key_prefix [] in
        [(''RowKey'', OGe, OStr p), (''RowKey'', OLt, OStr (butlast p @ [succ_char (last p)]))]
      else [])"

definition query_by_org ::
  "'w env \<Rightarrow> table_service \<Rightarrow> string \<Rightarrow> string option \<Rightarrow> string list option \<Rightarrow> ('w, entity list) py" where
  "query_by_org E s org_id row_key_prefix sel =
     query_entities E s (Some (odata (org_filter org_id row_key_prefix))) sel"

definition insert_dual_indexed ::
  "'w env \<Rightarrow> entity \<Rightarrow> entity \<Rightarrow> string \<Rightarrow> string \<Rightarrow> ('w, entity \<times> entity) py" where
  "insert_dual_indexed E e1 e2 t1 t2 =
     (let e1' = serialize_datetime_fields E e1 in
      py_then (sdk_create E t1 e1')
        (let e2' = serialize_datetime_fields E e2 in
         py_then (sdk_create E t2 e2') (ret (e1', e2'))))"

section \<open>BaseRepository\<close>

record repo =
  repo_table :: string
  repo_context :: "exec_context option"

definition repo_service :: "repo \<Rightarrow> table_service" where
  "repo_service r = \<lparr>svc_table = repo_table r, svc_context = repo_context r\<rparr>"

definition get_by_id :: "'w env \<Rightarrow> repo \<Rightarrow> string \<Rightarrow> string \<Rightarrow> ('w, entity option) py" where
  "get_by_id E r partition_key row_key = get_entity E (repo_service r) partition_key row_key"

definition repo_query :: "'w env \<Rightarrow> repo \<Rightarrow> string \<Rightarrow> string list option \<Rightarrow> ('w, entity list) py" where
  "repo_query E r filter_query sel = query_entities E (repo_service r) (Some filter_query) sel"

definition repo_query_paged ::
  "'w env \<Rightarrow> repo \<Rightarrow> string \<Rightarrow> string list option \<Rightarrow> int \<Rightarrow> pyval \<Rightarrow> ('w, entity list \<times> pyval) py" where
  "repo_query_paged E r filter_query sel results_per_page token =
     query_entities_paged E (repo_service r) (Some filter_query) sel results_per_page token"

definition repo_insert :: "'w env \<Rightarrow> repo \<Rightarrow> entity \<Rightarrow> ('w, entity) py" where
  "repo_insert E r e = insert_entity E (repo_service r) e"

definition repo_update :: "'w env \<Rightarrow> repo \<Rightarrow> entity \<Rightarrow> string \<Rightarrow> ('w, entity) py" where
  "repo_update E r e mode = update_entity E (repo_service r) e mode"

definition repo_upsert :: "'w env \<Rightarrow> repo \<Rightarrow> entity \<Rightarrow> string \<Rightarrow> ('w, entity) py" where
  "repo_upsert E r e mode = upsert_entity E (repo_service r) e mode"

definition repo_delete :: "'w env \<Rightarrow> repo \<Rightarrow> string \<Rightarrow> string \<Rightarrow> ('w, bool) py" where
  "repo_delete E r partition_key row_key = delete_entity E (repo_service r) partition_key row_key"

definition get_partition_key_for_scope :: "repo \<Rightarrow> string option \<Rightarrow> string" where
  "get_partition_key_for_scope r s = (case s of
     Some p \<Rightarrow> p
   | None \<Rightarrow> (case repo_context r of Some c \<Rightarrow> ctx_scope c | None \<Rightarrow> ''GLOBAL''))"

definition parse_datetime :: "'w env \<Rightarrow> pyval \<Rightarrow> datetime option \<Rightarrow> datetime option" where
  "parse_datetime E v d0 = (case v of
     PNone \<Rightarrow> d0
   | PDate d \<Rightarrow> Some d
   | PStr s \<Rightarrow> (case env_fromisoformat E s of Some d \<Rightarrow> Some d | None \<Rightarrow> d0)
   | _ \<Rightarrow> d0)"

lemmas repo_defs [py_defs] = repo_service_def get_by_id_def repo_query_def repo_query_paged_def
  repo_insert_def repo_update_def repo_upsert_def repo_delete_def

section \<open>Lemmas\<close>

lemma serialize_str [simp]: "e k = Some (PStr s) \<Longrightarrow> serialize_datetime_fields E e k = Some (PStr s)"
  by (simp add: serialize_datetime_fields_def)

lemma serialize_None [simp]: "serialize_datetime_fields E e k = None \<longleftrightarrow> e k = None"
  by (auto simp: serialize_datetime_fields_def split: option.splits pyval.splits)

lemma serialize_id:
  "(\<And>k d. e k \<noteq> Some (PDate d)) \<Longrightarrow> serialize_datetime_fields E e = e"
  by (rule ext) (auto simp: serialize_datetime_fields_def split: option.splits pyval.splits)

lemma serialize_upd [simp]:
  "serialize_datetime_fields E (e(k \<mapsto> v))
     = (serialize_datetime_fields E e)(k \<mapsto> (case v of PDate d \<Rightarrow> PStr (env_isoformat E d) | _ \<Rightarrow> v))"
  by (rule ext) (auto simp: serialize_datetime_fields_def split: pyval.splits)

lemma serialize_empty [simp]: "serialize_datetime_fields E Map.empty = Map.empty"
  by (rule ext) (simp add: serialize_datetime_fields_def)

lemma entity_key_serialize: "entity_key e = Some k \<Longrightarrow> entity_key (serialize_datetime_fields E e) = Some k"
  by (cases k) (simp add: entity_key_Some)

lemma deserialize_other [simp]:
  "k \<notin> set datetime_fields \<Longrightarrow> deserialize_datetime_fields E e k = e k"
  by (auto simp: deserialize_datetime_fields_def split: option.splits pyval.splits)

lemma keys_not_datetime [simp]:
  "''PartitionKey'' \<notin> set datetime_fields" "''RowKey'' \<notin> set datetime_fields"
  "''etag'' \<notin> set datetime_fields" "''Status'' \<notin> set datetime_fields"
  "''ExecutionId'' \<notin> set datetime_fields" "''WorkflowName'' \<notin> set datetime_fields"
  "''FormId'' \<notin> set datetime_fields"
  by (simp_all add: datetime_fields_def)

lemma entity_key_deserialize: "entity_key (deserialize_datetime_fields E e) = entity_key e"
  by (simp add: entity_key_def)

lemma keyed_entity_key [simp]: "entity_key e = Some k \<Longrightarrow> keyed_entity s e = Inr e"
  by (cases k) (simp add: keyed_entity_def apply_partition_key_def entity_key_Some)

lemma keyed_entity_Inr_RowKey: "keyed_entity s e = Inr e' \<Longrightarrow> e' ''RowKey'' = e ''RowKey''"
  by (auto simp: keyed_entity_def apply_partition_key_def split: sum.splits if_splits option.splits)

definition stored :: "'w env \<Rightarrow> entity \<Rightarrow> entity" where
  "stored E e = drop_none (serialize_datetime_fields E e)"

lemma entity_key_stored: "entity_key e = Some k \<Longrightarrow> entity_key (stored E e) = Some k"
  by (simp add: stored_def entity_key_serialize)

lemma stored_str [simp]: "e k = Some (PStr s) \<Longrightarrow> stored E e k = Some (PStr s)"
  by (simp add: stored_def)

section \<open>The contract of the service\<close>

text \<open>
  What a repository relies on, whatever stands behind it: an insertion adds exactly the row of
  its entity and never replaces one, a deletion removes exactly one row, both may fail, and a
  failure has no other effect than the one asked for.
\<close>

definition grows :: "string \<Rightarrow> key set \<Rightarrow> tables \<Rightarrow> tables \<Rightarrow> bool" where
  "grows t K R R' \<longleftrightarrow> (\<forall>t' k. (R t' k \<noteq> None \<longrightarrow> R' t' k = R t' k)
     \<and> (t' \<noteq> t \<or> k \<notin> K \<longrightarrow> R' t' k = R t' k))"

lemma grows_refl [simp]: "grows t K R R"
  by (simp add: grows_def)

lemma grows_insert: "grows t K R S \<Longrightarrow> k \<in> K \<Longrightarrow> S t k = None \<Longrightarrow> grows t K R (put_row t k r S)"
  unfolding grows_def put_row_apply by (metis (no_types, lifting))

lemma grows_keep: "grows t K R S \<Longrightarrow> R t' k = Some e \<Longrightarrow> S t' k = Some e"
  unfolding grows_def by (metis option.distinct(1))

lemma grows_frame: "grows t K R S \<Longrightarrow> t' \<noteq> t \<or> k \<notin> K \<Longrightarrow> S t' k = R t' k"
  unfolding grows_def by metis

locale entity_store =
  fixes view :: "'w \<Rightarrow> tables" and t :: string and st :: "entity \<Rightarrow> entity"
    and ins :: "entity \<Rightarrow> ('w, entity) py" and del :: "string \<Rightarrow> string \<Rightarrow> ('w, bool) py"
  assumes insert_law: "entity_key e = Some k \<Longrightarrow> wp (ins e)
      (\<lambda>_ w'. view w t k = None \<and> view w' = put_row t k (Some (st e)) (view w))
      (\<lambda>_ w'. view w' = view w \<or> (view w t k = None \<and> view w' = put_row t k (Some (st e)) (view w))) w"
    and delete_law: "wp (del p r)
      (\<lambda>_ w'. view w' = put_row t (p, r) None (view w))
      (\<lambda>_ w'. view w' = view w \<or> view w' = put_row t (p, r) None (view w)) w"
begin

text \<open>A loop of insertions that logs failures and goes on never replaces a row.\<close>

lemma best_effort_inserts:
  assumes "\<And>x. x \<in> set xs \<Longrightarrow> entity_key (f x) = Some (key x)"
  shows "wp (py_for xs (\<lambda>x. py_catch (py_then (ins (f x)) (ret ())) (\<lambda>_. ret ())))
    (\<lambda>_ w'. grows t (key ` set xs) (view w) (view w')) (\<lambda>_ _. False) w"
proof (rule wp_for_inv)
  fix x v
  assume x: "x \<in> set xs" and v: "grows t (key ` set xs) (view w) (view v)"
  let ?P = "\<lambda>w'. grows t (key ` set xs) (view w) (view w')"
  have put: "view v t (key x) = None \<Longrightarrow> grows t (key ` set xs) (view w) (put_row t (key x) r (view v))" for r
    using v x by (auto intro: grows_insert)
  from insert_law [OF assms [OF x], of v]
  have "wp (ins (f x)) (\<lambda>_. ?P) (\<lambda>_. ?P) v"
    by (rule wp_mono) (use v put in auto)
  then show "wp (py_catch (py_then (ins (f x)) (ret ())) (\<lambda>_. ret ())) (\<lambda>_. ?P) (\<lambda>_ _. False) v"
    by simp
qed simp

end

section \<open>The service on the table contract\<close>

lemmas svc_defs = insert_entity_def update_entity_def upsert_entity_def get_entity_def
  delete_entity_def query_entities_def query_entities_paged_def

context table_sdk
begin

lemma deserialize_RowKey:
  "env_rows E w t (q, rk) = Some e \<Longrightarrow> deserialize_datetime_fields E e ''RowKey'' = Some (PStr rk)"
  by (drule rows_keyed) (simp add: entity_key_Some)

lemma wp_insert_entity:
  assumes k: "entity_key e = Some k"
    and "\<And>w'. env_rows E w (svc_table s) k = None
      \<Longrightarrow> env_rows E w' = put_row (svc_table s) k (Some (stored E e)) (env_rows E w)
      \<Longrightarrow> Q (serialize_datetime_fields E e) w'"
    and "\<And>x w'. env_rows E w' = env_rows E w \<Longrightarrow> R x w'"
    and "\<And>x w'. env_rows E w (svc_table s) k = None
      \<Longrightarrow> env_rows E w' = put_row (svc_table s) k (Some (stored E e)) (env_rows E w) \<Longrightarrow> R x w'"
  shows "wp (insert_entity E s e) Q R w"
  unfolding insert_entity_def using k entity_key_serialize [OF k, of E] assms(2-4)
  by (auto simp: stored_def Let_def intro!: wp_sdk_create)

lemma wp_update_entity:
  assumes k: "entity_key e = Some k"
    and "\<And>old w'. env_rows E w (svc_table s) k = Some old
      \<Longrightarrow> env_rows E w' = put_row (svc_table s) k
            (Some (write_row (mode_of mode) (serialize_datetime_fields E e) (Some old))) (env_rows E w)
      \<Longrightarrow> Q (serialize_datetime_fields E e) w'"
    and "\<And>x w'. env_rows E w' = env_rows E w \<Longrightarrow> R x w'"
    and "\<And>x old w'. env_rows E w (svc_table s) k = Some old
      \<Longrightarrow> env_rows E w' = put_row (svc_table s) k
            (Some (write_row (mode_of mode) (serialize_datetime_fields E e) (Some old))) (env_rows E w)
      \<Longrightarrow> R x w'"
  shows "wp (update_entity E s e mode) Q R w"
  unfolding update_entity_def using k entity_key_serialize [OF k, of E] assms(2-4)
  by (auto simp: Let_def intro!: wp_sdk_update)

lemma wp_upsert_entity:
  assumes k: "entity_key e = Some k"
    and "\<And>w'. env_rows E w' = put_row (svc_table s) k
          (Some (write_row (mode_of mode) (serialize_datetime_fields E e) (env_rows E w (svc_table s) k))) (env_rows E w)
      \<Longrightarrow> Q (serialize_datetime_fields E e) w'"
    and "\<And>x w'. env_rows E w' = env_rows E w \<Longrightarrow> R x w'"
    and "\<And>x w'. env_rows E w' = put_row (svc_table s) k
          (Some (write_row (mode_of mode) (serialize_datetime_fields E e) (env_rows E w (svc_table s) k))) (env_rows E w)
      \<Longrightarrow> R x w'"
  shows "wp (upsert_entity E s e mode) Q R w"
  unfolding upsert_entity_def using k entity_key_serialize [OF k, of E] assms(2-4)
  by (auto simp: Let_def intro!: wp_sdk_upsert)

lemma wp_get_entity:
  assumes "\<And>e d w'. env_rows E w' = env_rows E w \<Longrightarrow> env_rows E w (svc_table s) (p, r) = Some e
      \<Longrightarrow> (\<And>k. k \<noteq> ''etag'' \<Longrightarrow> d k = deserialize_datetime_fields E e k) \<Longrightarrow> Q (Some d) w'"
    and "\<And>w'. env_rows E w' = env_rows E w \<Longrightarrow> env_rows E w (svc_table s) (p, r) = None \<Longrightarrow> Q None w'"
    and "\<And>x w'. env_rows E w' = env_rows E w \<Longrightarrow> R x w'"
  shows "wp (get_entity E s p r) Q R w"
  unfolding get_entity_def wp_catch wp_bind
  by (rule wp_sdk_get) (use assms in \<open>auto simp: Let_def split: option.splits\<close>)

lemma wp_delete_entity:
  assumes "\<And>w'. env_rows E w' = put_row (svc_table s) (p, r) None (env_rows E w) \<Longrightarrow> Q True w'"
    and "\<And>w'. env_rows E w' = env_rows E w \<Longrightarrow> env_rows E w (svc_table s) (p, r) = None \<Longrightarrow> Q False w'"
    and "\<And>x w'. env_rows E w' = env_rows E w \<Longrightarrow> R x w'"
    and "\<And>x w'. env_rows E w' = put_row (svc_table s) (p, r) None (env_rows E w) \<Longrightarrow> R x w'"
  shows "wp (delete_entity E s p r) Q R w"
  unfolding delete_entity_def wp_catch wp_then
  by (rule wp_sdk_delete) (use assms in auto)

lemma wp_query_entities:
  assumes "\<forall>c \<in> set cs. clean_clause c" "odata cs \<noteq> []"
    and "\<And>ks w'. env_rows E w' = env_rows E w \<Longrightarrow> selects cs (env_rows E w (svc_table s)) ks
      \<Longrightarrow> Q (map (deserialize_datetime_fields E) (fetch sel (env_rows E w (svc_table s)) ks)) w'"
    and "\<And>x w'. env_rows E w' = env_rows E w \<Longrightarrow> R x w'"
  shows "wp (query_entities E s (Some (odata cs)) sel) Q R w"
  unfolding query_entities_def wp_bind using assms
  by (auto intro!: wp_sdk_query)

lemma wp_query_entities_reads:
  "wp (query_entities E s f sel)
     (\<lambda>_ w'. env_rows E w' = env_rows E w) (\<lambda>_ w'. env_rows E w' = env_rows E w) w"
  unfolding query_entities_def wp_bind by (rule wp_mono [OF query_reads]) simp_all

lemma wp_query_entities_paged:
  assumes "\<forall>c \<in> set cs. clean_clause c" "odata cs \<noteq> []"
    and "\<And>ks m next w'. env_rows E w' = env_rows E w \<Longrightarrow> selects cs (env_rows E w (svc_table s)) ks
      \<Longrightarrow> int m \<le> max (min n 1000) 0 \<Longrightarrow> (next = PNone \<longrightarrow> length ks \<le> m)
      \<Longrightarrow> Q (map (deserialize_datetime_fields E)
              (take m (fetch sel (env_rows E w (svc_table s)) ks)), next) w'"
    and "\<And>x w'. env_rows E w' = env_rows E w \<Longrightarrow> R x w'"
  shows "wp (query_entities_paged E s (Some (odata cs)) sel n PNone) Q R w"
proof -
  have e: "Q ([], PNone) w'" if "env_rows E w' = env_rows E w"
    "selects cs (env_rows E w (svc_table s)) []" for w'
    using assms(3) [OF that, of 0 PNone] by (simp add: fetch_def)
  show ?thesis
    unfolding query_entities_paged_def wp_bind using assms e
    by (auto intro!: wp_sdk_query_page)
qed

end

sublocale table_sdk \<subseteq> store: entity_store "env_rows E" t "stored E"
    "insert_entity E \<lparr>svc_table = t, svc_context = c\<rparr>" "delete_entity E \<lparr>svc_table = t, svc_context = c\<rparr>"
  for t c
proof unfold_locales
  fix e k w
  assume "entity_key e = Some k"
  then show "wp (insert_entity E \<lparr>svc_table = t, svc_context = c\<rparr> e)
      (\<lambda>_ w'. env_rows E w t k = None \<and> env_rows E w' = put_row t k (Some (stored E e)) (env_rows E w))
      (\<lambda>_ w'. env_rows E w' = env_rows E w \<or> (env_rows E w t k = None
         \<and> env_rows E w' = put_row t k (Some (stored E e)) (env_rows E w))) w"
    by (rule wp_insert_entity) simp_all
next
  fix p r w
  show "wp (delete_entity E \<lparr>svc_table = t, svc_context = c\<rparr> p r)
      (\<lambda>_ w'. env_rows E w' = put_row t (p, r) None (env_rows E w))
      (\<lambda>_ w'. env_rows E w' = env_rows E w \<or> env_rows E w' = put_row t (p, r) None (env_rows E w)) w"
    by (rule wp_delete_entity) (simp_all add: put_row_def fun_upd_idem)
qed

text \<open>The same rules while the service is available.\<close>

context available_sdk
begin

lemma wp_insert_entity_ok:
  assumes "ok w" and k: "entity_key e = Some k"
    and "\<And>w'. ok w' \<Longrightarrow> env_rows E w (svc_table s) k = None
      \<Longrightarrow> env_rows E w' = put_row (svc_table s) k (Some (stored E e)) (env_rows E w)
      \<Longrightarrow> Q (serialize_datetime_fields E e) w'"
    and "\<And>x w'. ok w' \<Longrightarrow> env_rows E w (svc_table s) k \<noteq> None \<Longrightarrow> env_rows E w' = env_rows E w \<Longrightarrow> R x w'"
  shows "wp (insert_entity E s e) Q R w"
  unfolding insert_entity_def using assms(1,3,4) k entity_key_serialize [OF k, of E]
  by (auto simp: stored_def Let_def intro!: wp_create_ok_best)

lemma wp_update_entity_ok:
  assumes "ok w" and k: "entity_key e = Some k" and "env_rows E w (svc_table s) k = Some old"
    and "\<And>w'. ok w' \<Longrightarrow> env_rows E w' = put_row (svc_table s) k
            (Some (write_row (mode_of mode) (serialize_datetime_fields E e) (Some old))) (env_rows E w)
      \<Longrightarrow> Q (serialize_datetime_fields E e) w'"
  shows "wp (update_entity E s e mode) Q R w"
  unfolding update_entity_def using assms(1,3,4) k entity_key_serialize [OF k, of E]
  by (auto simp: Let_def intro!: wp_update_ok)

lemma wp_get_entity_ok:
  assumes "ok w"
    and "\<And>e d w'. ok w' \<Longrightarrow> env_rows E w' = env_rows E w \<Longrightarrow> env_rows E w (svc_table s) (p, r) = Some e
      \<Longrightarrow> (\<And>k. k \<noteq> ''etag'' \<Longrightarrow> d k = deserialize_datetime_fields E e k) \<Longrightarrow> Q (Some d) w'"
    and "\<And>w'. ok w' \<Longrightarrow> env_rows E w' = env_rows E w \<Longrightarrow> env_rows E w (svc_table s) (p, r) = None \<Longrightarrow> Q None w'"
  shows "wp (get_entity E s p r) Q R w"
  unfolding get_entity_def wp_catch wp_bind
  by (rule wp_get_ok) (use assms in \<open>auto simp: Let_def split: option.splits\<close>)

lemma wp_delete_entity_ok:
  assumes "ok w"
    and "\<And>b w'. ok w' \<Longrightarrow> env_rows E w' = put_row (svc_table s) (p, r) None (env_rows E w) \<Longrightarrow> Q b w'"
  shows "wp (delete_entity E s p r) Q R w"
proof -
  have "put_row (svc_table s) (p, r) None (env_rows E w) = env_rows E w"
    if "env_rows E w (svc_table s) (p, r) = None"
    using that by (simp add: put_row_def fun_upd_idem)
  then show ?thesis
    unfolding delete_entity_def wp_catch wp_then
    by (intro wp_delete_ok) (use assms in auto)
qed

lemma wp_query_entities_ok:
  assumes "ok w" "\<forall>c \<in> set cs. clean_clause c" "odata cs \<noteq> []"
    and "\<And>ks w'. ok w' \<Longrightarrow> env_rows E w' = env_rows E w \<Longrightarrow> selects cs (env_rows E w (svc_table s)) ks
      \<Longrightarrow> Q (map (deserialize_datetime_fields E) (fetch sel (env_rows E w (svc_table s)) ks)) w'"
  shows "wp (query_entities E s (Some (odata cs)) sel) Q R w"
  unfolding query_entities_def wp_bind using assms
  by (auto intro!: wp_query_ok)

end

end
