(* ===== verification/Scoped_Repository.thy ===== *)
theory Scoped_Repository
  imports Table_Storage
begin

text \<open>
  \<open>shared/repositories/scoped_repository.py\<close>: reads that look in the partition of the caller's
  scope first and fall back to the \<open>GLOBAL\<close> partition. The specification is \<open>visible\<close>: the row of
  the scope if it matches, otherwise the global row.
\<close>

section \<open>The repository\<close>

record scoped_repo =
  sr_repo :: repo
  sr_org_id :: string
  sr_scope :: string

definition scoped_repository :: "string \<Rightarrow> exec_context option \<Rightarrow> exn + scoped_repo" where
  "scoped_repository t ctx = (case ctx of
     None \<Rightarrow> Inl (ValueError ''ScopedRepository requires a ExecutionContext for scoping'')
   | Some c \<Rightarrow> Inr \<lparr>sr_repo = \<lparr>repo_table = t, repo_context = Some c\<rparr>,
                     sr_org_id = str_or (ctx_org_id c) ''GLOBAL'', sr_scope = ctx_scope c\<rparr>)"

definition get_with_fallback :: "'w env \<Rightarrow> scoped_repo \<Rightarrow> string \<Rightarrow> ('w, entity option) py" where
  "get_with_fallback E r row_key =
     py_bind (get_by_id E (sr_repo r) (sr_scope r) row_key) (\<lambda>res. case res of
       Some e \<Rightarrow> ret (Some e)
     | None \<Rightarrow> if sr_scope r \<noteq> ''GLOBAL'' then get_by_id E (sr_repo r) ''GLOBAL'' row_key
               else ret None)"

definition prefix_clauses :: "string \<Rightarrow> clause list" where
  "prefix_clauses p = [(''RowKey'', OGe, OStr p), (''RowKey'', OLt, OStr (p @ ''~''))]"

definition scoped_filter :: "string \<Rightarrow> string \<Rightarrow> string option \<Rightarrow> string" where
  "scoped_filter pk p additional_filter =
     odata ((''PartitionKey'', OEq, OStr pk) # prefix_clauses p)
     @ (if opt_truthy additional_filter then '' and '' @ str_or additional_filter [] else [])"

fun add_unseen :: "entity list \<Rightarrow> entity list \<Rightarrow> pyval list \<Rightarrow> exn + (entity list \<times> pyval list)" where
  "add_unseen [] results seen = Inr (results, seen)"
| "add_unseen (e # es) results seen = (case e ''RowKey'' of
     None \<Rightarrow> Inl (KeyError ''RowKey'')
   | Some k \<Rightarrow> if k \<in> set seen then add_unseen es results seen
               else add_unseen es (results @ [e]) (k # seen))"

definition query_with_fallback ::
  "'w env \<Rightarrow> scoped_repo \<Rightarrow> string \<Rightarrow> string option \<Rightarrow> string list option \<Rightarrow> ('w, entity list) py" where
  "query_with_fallback E r row_key_prefix additional_filter sel =
     py_bind (repo_query E (sr_repo r) (scoped_filter (sr_scope r) row_key_prefix additional_filter) sel) (\<lambda>org.
     py_bind (lift (add_unseen org [] [])) (\<lambda>(results, seen).
       if sr_scope r \<noteq> ''GLOBAL'' then
         py_bind (repo_query E (sr_repo r) (scoped_filter ''GLOBAL'' row_key_prefix additional_filter) sel) (\<lambda>glob.
         py_bind (lift (add_unseen glob results seen)) (\<lambda>(results', seen'). ret results'))
       else ret results))"

definition query_org_only ::
  "'w env \<Rightarrow> scoped_repo \<Rightarrow> string \<Rightarrow> string option \<Rightarrow> string list option \<Rightarrow> ('w, entity list) py" where
  "query_org_only E r row_key_prefix additional_filter sel =
     repo_query E (sr_repo r) (scoped_filter (sr_scope r) row_key_prefix additional_filter) sel"

definition query_global_only ::
  "'w env \<Rightarrow> scoped_repo \<Rightarrow> string \<Rightarrow> string option \<Rightarrow> string list option \<Rightarrow> ('w, entity list) py" where
  "query_global_only E r row_key_prefix additional_filter sel =
     repo_query E (sr_repo r) (scoped_filter ''GLOBAL'' row_key_prefix additional_filter) sel"

section \<open>Specification\<close>

definition visible :: "string \<Rightarrow> (entity \<Rightarrow> bool) \<Rightarrow> (key \<Rightarrow> entity option) \<Rightarrow> string \<Rightarrow> entity option" where
  "visible sc P T rk = (case T (sc, rk) of
     Some e \<Rightarrow> if P e then Some e
               else (case T (''GLOBAL'', rk) of Some g \<Rightarrow> if P g then Some g else None | None \<Rightarrow> None)
   | None \<Rightarrow> (case T (''GLOBAL'', rk) of Some g \<Rightarrow> if P g then Some g else None | None \<Rightarrow> None))"

text \<open>What the range of a row-key prefix selects, and an additional filter.\<close>

definition in_range :: "string \<Rightarrow> clause list \<Rightarrow> entity \<Rightarrow> bool" where
  "in_range p cs e \<longleftrightarrow> (\<exists>s. e ''RowKey'' = Some (PStr (p @ s)) \<and> (s = [] \<or> hd s < CHR ''~'')) \<and> sat cs e"

text \<open>A stored row as the repository returns it, and the row keys a range selects.\<close>

definition row_at :: "'w env \<Rightarrow> 'w \<Rightarrow> string \<Rightarrow> string \<Rightarrow> string \<Rightarrow> entity" where
  "row_at E w t q rk = deserialize_datetime_fields E (the (env_rows E w t (q, rk)))"

definition matching :: "'w env \<Rightarrow> 'w \<Rightarrow> string \<Rightarrow> string \<Rightarrow> (entity \<Rightarrow> bool) \<Rightarrow> string set" where
  "matching E w t q P = {rk. \<exists>e. env_rows E w t (q, rk) = Some e \<and> P e}"

text \<open>What a query with fallback promises: the visible rows, one per row key.\<close>

definition fallback_post :: "'w env \<Rightarrow> scoped_repo \<Rightarrow> (entity \<Rightarrow> bool) \<Rightarrow> 'w \<Rightarrow> entity list \<Rightarrow> 'w \<Rightarrow> bool" where
  "fallback_post E r P w es w' \<longleftrightarrow> env_rows E w' = env_rows E w \<and> (\<exists>rks. distinct rks
     \<and> set rks = {rk. visible (sr_scope r) P (env_rows E w (repo_table (sr_repo r))) rk \<noteq> None}
     \<and> es = map (\<lambda>rk. deserialize_datetime_fields E
                    (the (visible (sr_scope r) P (env_rows E w (repo_table (sr_repo r))) rk))) rks)"

section \<open>Lemmas\<close>

lemma odata_append: "a \<noteq> [] \<Longrightarrow> b \<noteq> [] \<Longrightarrow> odata (a @ b) = odata a @ '' and '' @ odata b"
proof (induction a rule: odata.induct)
  case (2 c)
  then show ?case by (cases b) auto
qed auto

lemma odata_nonempty: "cs \<noteq> [] \<Longrightarrow> odata cs \<noteq> []"
  by (cases cs rule: odata.cases) auto

definition add_filter :: "clause list \<Rightarrow> string option" where
  "add_filter cs = (if cs = [] then None else Some (odata cs))"

lemma scoped_filter_odata:
  "scoped_filter part p (add_filter cs)
     = odata ((''PartitionKey'', OEq, OStr part) # prefix_clauses p @ cs)"
  using odata_append [of "(''PartitionKey'', OEq, OStr part) # prefix_clauses p" cs]
  by (auto simp: scoped_filter_def add_filter_def odata_nonempty)

lemma sat_prefix:
  assumes "entity_key e = Some (part, rk)"
  shows "sat ((''PartitionKey'', OEq, OStr q) # prefix_clauses p @ cs) e \<longleftrightarrow> part = q \<and> in_range p cs e"
  using assms range_prefix [of p rk "CHR ''~''"]
  by (auto simp: entity_key_Some prefix_clauses_def in_range_def sat_def)

lemma clean_prefix:
  "no_quote q \<Longrightarrow> no_quote p \<Longrightarrow> \<forall>c \<in> set cs. clean_clause c \<Longrightarrow>
   \<forall>c \<in> set ((''PartitionKey'', OEq, OStr q) # prefix_clauses p @ cs). clean_clause c"
  by (auto simp: prefix_clauses_def)

text \<open>The loop keeps the entities whose row key was not seen, in order, and remembers them.\<close>

lemma add_unseen_rows:
  assumes "\<And>rk. rk \<in> set rks \<Longrightarrow> g rk ''RowKey'' = Some (PStr rk)" and "distinct rks"
  shows "add_unseen (map g rks) results (map PStr seen)
    = Inr (results @ map g (filter (\<lambda>rk. rk \<notin> set seen) rks),
           map PStr (rev (filter (\<lambda>rk. rk \<notin> set seen) rks) @ seen))"
  using assms
proof (induction rks arbitrary: results seen)
  case (Cons rk rks)
  have "filter (\<lambda>x. x \<noteq> rk \<and> x \<notin> set seen) rks = filter (\<lambda>x. x \<notin> set seen) rks"
    using Cons.prems(2) by (intro filter_cong) auto
  then show ?case using Cons.prems Cons.IH [of _ "rk # seen"] Cons.IH [of _ seen] by auto
qed simp

lemma selects_partition:
  assumes sel: "selects ((''PartitionKey'', OEq, OStr q) # prefix_clauses p @ cs) T ks"
    and keyed: "\<And>k e. T k = Some e \<Longrightarrow> entity_key e = Some k"
  shows "\<exists>rks. ks = map (Pair q) rks \<and> distinct rks
    \<and> set rks = {rk. \<exists>e. T (q, rk) = Some e \<and> in_range p cs e}"
  by (rule partition_keys [OF sel]) (rule sat_prefix [OF keyed])

lemma visible_cases:
  assumes "sc \<noteq> ''GLOBAL''"
  shows "visible sc P T rk =
    (if \<exists>e. T (sc, rk) = Some e \<and> P e then T (sc, rk)
     else if \<exists>e. T (''GLOBAL'', rk) = Some e \<and> P e then T (''GLOBAL'', rk) else None)"
  by (auto simp: visible_def split: option.splits)

lemma visible_global: "visible ''GLOBAL'' P T rk = (if \<exists>e. T (''GLOBAL'', rk) = Some e \<and> P e then T (''GLOBAL'', rk) else None)"
  by (auto simp: visible_def split: option.splits)

lemma row_at_cong: "env_rows E w' = env_rows E w \<Longrightarrow> row_at E w' = row_at E w"
  by (rule ext)+ (simp add: row_at_def)

lemma matching_cong: "env_rows E w' = env_rows E w \<Longrightarrow> matching E w' = matching E w"
  by (rule ext)+ (simp add: matching_def)

text \<open>The rows of the scope followed by the global rows they do not hide are the visible rows.\<close>

lemma visible_union:
  fixes E :: "'w env" and sc P t w
  defines "V \<equiv> visible sc P (env_rows E w t)"
  assumes "distinct rks" "set rks = matching E w t sc P"
    and "distinct rks'" "set rks' = matching E w t ''GLOBAL'' P" and sc: "sc \<noteq> ''GLOBAL''"
  defines "r \<equiv> rks @ filter (\<lambda>rk. rk \<notin> set rks) rks'"
  shows "distinct r" and "set r = {rk. V rk \<noteq> None}"
    and "map (row_at E w t sc) rks @ map (row_at E w t ''GLOBAL'') (filter (\<lambda>rk. rk \<notin> set rks) rks')
      = map (\<lambda>rk. deserialize_datetime_fields E (the (V rk))) r"
  using assms(2-5) unfolding V_def r_def
  by (auto simp: visible_cases [OF sc] matching_def row_at_def)

context table_sdk
begin

lemma row_at_RowKey:
  "rk \<in> matching E w t q P \<Longrightarrow> row_at E w t q rk ''RowKey'' = Some (PStr rk)"
  using rows_keyed by (fastforce simp: matching_def row_at_def entity_key_Some)

text \<open>One query of a partition, as the list of its row keys.\<close>

lemma wp_partition_query:
  assumes "no_quote q" "no_quote p" "\<forall>c \<in> set cs. clean_clause c"
    and "\<And>rks w'. env_rows E w' = env_rows E w \<Longrightarrow> distinct rks
      \<Longrightarrow> set rks = matching E w (repo_table r) q (in_range p cs)
      \<Longrightarrow> Q (map (row_at E w (repo_table r) q) rks) w'"
    and "\<And>x w'. env_rows E w' = env_rows E w \<Longrightarrow> R x w'"
  shows "wp (repo_query E r (scoped_filter q p (add_filter cs)) None) Q R w"
  unfolding scoped_filter_odata repo_query_def
proof (rule wp_query_entities, goal_cases)
  case 1
  show ?case using assms(1-3) by (rule clean_prefix)
next
  case 2
  show ?case by (simp add: odata_nonempty del: odata.simps)
next
  case (3 ks w')
  from selects_partition [OF 3(2)] rows_keyed obtain rks where "ks = map (Pair q) rks" "distinct rks"
    "set rks = matching E w (repo_table r) q (in_range p cs)"
    by (auto simp: repo_service_def matching_def)
  then show ?case
    using assms(4) [OF 3(1)] by (simp add: fetch_def repo_service_def comp_def row_at_def [abs_def])
qed (use assms(5) in auto)

lemma wp_query_with_fallback:
  assumes clean: "no_quote (sr_scope r)" "no_quote p" "\<forall>c \<in> set cs. clean_clause c"
  shows "wp (query_with_fallback E r p (add_filter cs) None)
    (fallback_post E r (in_range p cs) w) (\<lambda>_ w'. env_rows E w' = env_rows E w) w"
  unfolding query_with_fallback_def wp_bind
proof (rule wp_partition_query [OF clean], goal_cases)
  case (1 rks w1)
  let ?t = "repo_table (sr_repo r)"
  have org: "add_unseen (map (row_at E w ?t (sr_scope r)) rks) [] []
      = Inr (map (row_at E w ?t (sr_scope r)) rks, map PStr (rev rks))"
    using add_unseen_rows [of rks "row_at E w ?t (sr_scope r)" "[]" "[]"] 1(2,3) row_at_RowKey by auto
  show ?case
  proof (cases "sr_scope r = ''GLOBAL''")
    case True
    then have "fallback_post E r (in_range p cs) w (map (row_at E w ?t (sr_scope r)) rks) w1"
      using 1 by (auto simp: fallback_post_def visible_global matching_def row_at_def intro!: exI [of _ rks])
    then show ?thesis using True org by simp
  next
    case False
    have "wp (repo_query E (sr_repo r) (scoped_filter ''GLOBAL'' p (add_filter cs)) None)
      (\<lambda>glob. wp (lift (add_unseen glob (map (row_at E w ?t (sr_scope r)) rks) (map PStr (rev rks))))
        (\<lambda>x. fallback_post E r (in_range p cs) w (fst x)) (\<lambda>_ w'. env_rows E w' = env_rows E w))
      (\<lambda>_ w'. env_rows E w' = env_rows E w) w1"
    proof (rule wp_partition_query [OF _ clean(2,3)], goal_cases)
      case (2 rks' w2)
      have rks': "set rks' = matching E w ?t ''GLOBAL'' (in_range p cs)"
        using 2(3) 1(1) by (simp add: matching_cong [OF 1(1)])
      have glob: "add_unseen (map (row_at E w ?t ''GLOBAL'') rks') (map (row_at E w ?t (sr_scope r)) rks)
          (map PStr (rev rks))
        = Inr (map (row_at E w ?t (sr_scope r)) rks
            @ map (row_at E w ?t ''GLOBAL'') (filter (\<lambda>rk. rk \<notin> set rks) rks'),
            map PStr (rev (filter (\<lambda>rk. rk \<notin> set rks) rks') @ rev rks))"
        using add_unseen_rows [of rks' "row_at E w ?t ''GLOBAL''" _ "rev rks"] 2(2) rks' row_at_RowKey
        by auto
      have "fallback_post E r (in_range p cs) w (map (row_at E w ?t (sr_scope r)) rks
            @ map (row_at E w ?t ''GLOBAL'') (filter (\<lambda>rk. rk \<notin> set rks) rks')) w2"
        unfolding fallback_post_def
        using 1(1) 2(1) visible_union [OF 1(2,3) 2(2) rks' False]
        by (intro conjI exI [of _ "rks @ filter (\<lambda>rk. rk \<notin> set rks) rks'"]) simp_all
      then show ?case using glob by (simp add: row_at_cong [OF 1(1)] 1(1))
    qed (simp_all add: 1(1))
    then show ?thesis using False org by (simp add: case_prod_unfold)
  qed
qed simp

lemma wp_get_with_fallback:
  fixes w r rk
  defines "V \<equiv> visible (sr_scope r) (\<lambda>_. True) (env_rows E w (repo_table (sr_repo r))) rk"
  shows "wp (get_with_fallback E r rk)
    (\<lambda>res w'. env_rows E w' = env_rows E w \<and> (case V of None \<Rightarrow> res = None
       | Some e \<Rightarrow> \<exists>d. res = Some d \<and> (\<forall>k. k \<noteq> ''etag'' \<longrightarrow> d k = deserialize_datetime_fields E e k)))
    (\<lambda>_ w'. env_rows E w' = env_rows E w) w"
  unfolding get_with_fallback_def wp_bind get_by_id_def V_def
  by (rule wp_get_entity)
    (auto simp: visible_def repo_service_def intro!: wp_get_entity split: option.splits)

end

section \<open>Properties\<close>

definition example_rows :: mem where
  "example_rows = \<lparr>mem_rows =
     [((''Entities'', (''acme'', ''form:1'')),
         [''PartitionKey'' \<mapsto> PStr ''acme'', ''RowKey'' \<mapsto> PStr ''form:1'', ''Name'' \<mapsto> PStr ''ours'']),
      ((''Entities'', (''GLOBAL'', ''form:1'')),
         [''PartitionKey'' \<mapsto> PStr ''GLOBAL'', ''RowKey'' \<mapsto> PStr ''form:1'', ''Name'' \<mapsto> PStr ''hidden'']),
      ((''Entities'', (''GLOBAL'', ''form:2'')),
         [''PartitionKey'' \<mapsto> PStr ''GLOBAL'', ''RowKey'' \<mapsto> PStr ''form:2'', ''Name'' \<mapsto> PStr ''shared'']),
      ((''Entities'', (''other'', ''form:3'')),
         [''PartitionKey'' \<mapsto> PStr ''other'', ''RowKey'' \<mapsto> PStr ''form:3'', ''Name'' \<mapsto> PStr ''foreign''])],
     mem_clock = 0, mem_ids = 0, mem_faults = [], mem_files = [], mem_users = Map.empty, mem_orgs = Map.empty\<rparr>"

definition example_scoped :: scoped_repo where
  "example_scoped = \<lparr>sr_repo = \<lparr>repo_table = ''Entities'', repo_context = None\<rparr>,
     sr_org_id = ''acme'', sr_scope = ''acme''\<rparr>"

lemma example_query_runs:
  "\<exists>es w'. query_with_fallback mem_env example_scoped ''form:'' (add_filter []) None example_rows = (Inr es, w')
     \<and> map (\<lambda>e. e ''Name'') es = [Some (PStr ''ours''), Some (PStr ''shared'')]"
proof -
  have "(case query_with_fallback mem_env example_scoped ''form:'' (add_filter []) None example_rows of
      (Inr es, _) \<Rightarrow> map (\<lambda>e. e ''Name'') es = [Some (PStr ''ours''), Some (PStr ''shared'')] | _ \<Rightarrow> False)"
    by code_simp
  then show ?thesis by (auto split: prod.splits sum.splits)
qed

text \<open>
  C2: a listing with fallback returns, for every row key in the prefix range that matches the
  filter, exactly one row: the one of the caller's scope if it matches, else the global one, and
  nothing else; it changes no row. The scope, prefix and filter hold no quote.
\<close>

theorem query_with_fallback_visible:
  assumes "table_sdk E" and "no_quote (sr_scope r)" "no_quote p" "\<forall>c \<in> set cs. clean_clause c"
    and "query_with_fallback E r p (add_filter cs) None w = (Inr es, w')"
  shows "fallback_post E r (in_range p cs) w es w'"
  using wp_Inr [OF table_sdk.wp_query_with_fallback [OF assms(1-4)] assms(5)] .

theorem query_with_fallback_visible_witness:
  "\<exists>es w'. map (\<lambda>e. e ''Name'') es = [Some (PStr ''ours''), Some (PStr ''shared'')]
     \<and> fallback_post mem_env example_scoped (in_range ''form:'' []) example_rows es w'"
proof -
  obtain es w' where run: "query_with_fallback mem_env example_scoped ''form:'' (add_filter []) None
      example_rows = (Inr es, w')"
    and names: "map (\<lambda>e. e ''Name'') es = [Some (PStr ''ours''), Some (PStr ''shared'')]"
    using example_query_runs by (elim exE conjE) (rule that)
  have "fallback_post mem_env example_scoped (in_range ''form:'' []) example_rows es w'"
    by (rule query_with_fallback_visible [OF mem.table_sdk_axioms _ _ _ run])
      (simp_all add: example_scoped_def)
  then show ?thesis using names by - (intro exI conjI)
qed

text \<open>
  Looking a row key up with fallback returns the row of the caller's scope if there is one,
  else the global row, else \<open>None\<close>, up to the added \<open>etag\<close>; it changes no row.
\<close>

theorem get_with_fallback_visible:
  assumes "table_sdk E" and "get_with_fallback E r rk w = (Inr res, w')"
  shows "env_rows E w' = env_rows E w
    \<and> (case visible (sr_scope r) (\<lambda>_. True) (env_rows E w (repo_table (sr_repo r))) rk of
         None \<Rightarrow> res = None
       | Some e \<Rightarrow> \<exists>d. res = Some d \<and> (\<forall>k. k \<noteq> ''etag'' \<longrightarrow> d k = deserialize_datetime_fields E e k))"
  using wp_Inr [OF table_sdk.wp_get_with_fallback [OF assms(1)] assms(2)] .

theorem get_with_fallback_visible_witness:
  "\<exists>res w'. get_with_fallback mem_env example_scoped ''form:2'' example_rows = (Inr (Some res), w')
     \<and> res ''Name'' = Some (PStr ''shared'') \<and> mem_view w' = mem_view example_rows"
proof -
  have "(case get_with_fallback mem_env example_scoped ''form:2'' example_rows of
      (Inr (Some res), _) \<Rightarrow> res ''Name'' = Some (PStr ''shared'') | _ \<Rightarrow> False)"
    by code_simp
  then obtain res w' where run: "get_with_fallback mem_env example_scoped ''form:2'' example_rows = (Inr (Some res), w')"
    and name: "res ''Name'' = Some (PStr ''shared'')"
    by (auto split: prod.splits sum.splits option.splits)
  from get_with_fallback_visible [OF mem.table_sdk_axioms run]
  show ?thesis using run name by (simp add: mem_env_def)
qed

end
