(* ===== verification/Role_Repository.thy ===== *)
theory Role_Repository
  imports Scoped_Repository
begin

text \<open>
  \<open>shared/repositories/roles.py\<close>: roles in the \<open>Entities\<close> table, and the assignments of users
  and forms to roles in the \<open>Relationships\<close> table, under the row keys \<open>userrole:{user}:{role}\<close>
  and \<open>formrole:{form}:{role}\<close>. The model of a role is the
  pydantic model's fields, as the constructor returns them.
\<close>

section \<open>Data\<close>

type_synonym model = entity

record create_role_request =
  crr_name :: string
  crr_description :: "string option"

record update_role_request =
  urr_name :: "string option"
  urr_description :: "string option"

definition role_repo :: "exec_context option \<Rightarrow> repo" where
  "role_repo ctx = \<lparr>repo_table = ''Entities'', repo_context = ctx\<rparr>"

definition relationships_service :: table_service where
  "relationships_service = \<lparr>svc_table = ''Relationships'', svc_context = None\<rparr>"

definition generate_entity_id :: "'w env \<Rightarrow> ('w, string) py" where
  "generate_entity_id E = uuid4 E"

text \<open>\<open>entity["RowKey"].split(":", n)[n]\<close>.\<close>

definition row_key_part :: "nat \<Rightarrow> entity \<Rightarrow> exn + string" where
  "row_key_part n e = (case e ''RowKey'' of
     None \<Rightarrow> Inl (KeyError ''RowKey'')
   | Some (PStr s) \<Rightarrow> (let parts = split_max CHR '':'' n s
                      in if n < length parts then Inr (parts ! n) else Inl IndexError)
   | Some _ \<Rightarrow> Inl (AttributeError ''split''))"

fun map_exn :: "('a \<Rightarrow> exn + 'b) \<Rightarrow> 'a list \<Rightarrow> exn + 'b list" where
  "map_exn f [] = Inr []"
| "map_exn f (x # xs) = (case f x of Inl e \<Rightarrow> Inl e | Inr y \<Rightarrow>
     (case map_exn f xs of Inl e \<Rightarrow> Inl e | Inr ys \<Rightarrow> Inr (y # ys)))"

text \<open>\<open>_entity_to_model\<close>: each date falls back to the time of its own reading of the clock.\<close>

definition role_entity_to_model :: "'w env \<Rightarrow> entity \<Rightarrow> string \<Rightarrow> ('w, model) py" where
  "role_entity_to_model E e rid =
     py_bind (utcnow E) (\<lambda>n1. py_bind (utcnow E) (\<lambda>n2.
       lift (env_validate E ''Role'' [''id'' \<mapsto> PStr rid, ''name'' \<mapsto> dget e ''Name'' (PStr []),
            ''description'' \<mapsto> dget0 e ''Description'',
            ''isActive'' \<mapsto> dget e ''IsActive'' (PBool True),
            ''createdBy'' \<mapsto> dget e ''CreatedBy'' (PStr []),
            ''createdAt'' \<mapsto> PDate (the (parse_datetime E (dget0 e ''CreatedAt'') (Some n1))),
            ''updatedAt'' \<mapsto> PDate (the (parse_datetime E (dget0 e ''UpdatedAt'') (Some n2)))])))"

section \<open>Roles\<close>

definition role_key :: "string \<Rightarrow> string" where
  "role_key rid = ''role:'' @ rid"

definition create_role ::
  "'w env \<Rightarrow> repo \<Rightarrow> create_role_request \<Rightarrow> string \<Rightarrow> string \<Rightarrow> ('w, model) py" where
  "create_role E r req org_id created_by =
     py_bind (generate_entity_id E) (\<lambda>rid.
     py_bind (utcnow E) (\<lambda>now.
     let e = [''PartitionKey'' \<mapsto> PStr org_id, ''RowKey'' \<mapsto> PStr (role_key rid),
              ''Name'' \<mapsto> PStr (crr_name req), ''Description'' \<mapsto> of_opt (crr_description req),
              ''IsActive'' \<mapsto> PBool True, ''CreatedBy'' \<mapsto> PStr created_by,
              ''CreatedAt'' \<mapsto> PStr (env_isoformat E now), ''UpdatedAt'' \<mapsto> PStr (env_isoformat E now)]
     in py_then (repo_insert E r e) (role_entity_to_model E e rid)))"

definition get_role :: "'w env \<Rightarrow> repo \<Rightarrow> string \<Rightarrow> string \<Rightarrow> ('w, model option) py" where
  "get_role E r rid org_id = py_bind (get_by_id E r org_id (role_key rid)) (\<lambda>res. case res of
     Some e \<Rightarrow> py_bind (role_entity_to_model E e rid) (\<lambda>m. ret (Some m))
   | None \<Rightarrow> ret None)"

definition list_roles_filter :: "string \<Rightarrow> bool \<Rightarrow> clause list" where
  "list_roles_filter org_id active_only =
     [(''PartitionKey'', OEq, OStr org_id), (''RowKey'', OGe, OStr ''role:''), (''RowKey'', OLt, OStr ''role;'')]
     @ (if active_only then [(''IsActive'', OEq, OBool True)] else [])"

definition list_roles :: "'w env \<Rightarrow> repo \<Rightarrow> string \<Rightarrow> bool \<Rightarrow> ('w, model list) py" where
  "list_roles E r org_id active_only =
     py_bind (repo_query E r (odata (list_roles_filter org_id active_only)) None) (\<lambda>es.
       py_map (\<lambda>e. py_bind (lift (row_key_part 1 e)) (\<lambda>rid. role_entity_to_model E e rid)) es)"

definition update_role ::
  "'w env \<Rightarrow> repo \<Rightarrow> string \<Rightarrow> string \<Rightarrow> update_role_request \<Rightarrow> ('w, model) py" where
  "update_role E r rid org_id updates =
     py_bind (get_by_id E r org_id (role_key rid)) (\<lambda>res. case res of
       None \<Rightarrow> raise (ValueError (''Role '' @ rid @ '' not found in organization '' @ org_id))
     | Some e \<Rightarrow> py_bind (utcnow E) (\<lambda>now.
         let e1 = (case urr_name updates of None \<Rightarrow> e | Some n \<Rightarrow> e(''Name'' \<mapsto> PStr n));
             e2 = (case urr_description updates of None \<Rightarrow> e1 | Some d \<Rightarrow> e1(''Description'' \<mapsto> PStr d));
             e3 = e2(''UpdatedAt'' \<mapsto> PStr (env_isoformat E now))
         in py_then (repo_update E r e3 ''merge'') (role_entity_to_model E e3 rid)))"

definition delete_role :: "'w env \<Rightarrow> repo \<Rightarrow> string \<Rightarrow> string \<Rightarrow> ('w, bool) py" where
  "delete_role E r rid org_id =
     py_bind (get_by_id E r org_id (role_key rid)) (\<lambda>res. case res of
       None \<Rightarrow> ret False
     | Some e \<Rightarrow> py_bind (utcnow E) (\<lambda>now.
         let e1 = e(''IsActive'' \<mapsto> PBool False, ''UpdatedAt'' \<mapsto> PStr (env_isoformat E now))
         in py_then (repo_update E r e1 ''merge'') (ret True)))"

section \<open>Assignments\<close>

definition user_role_key :: "string \<Rightarrow> string \<Rightarrow> string" where
  "user_role_key uid rid = ''userrole:'' @ uid @ '':'' @ rid"

definition form_role_key :: "string \<Rightarrow> string \<Rightarrow> string" where
  "form_role_key fid rid = ''formrole:'' @ fid @ '':'' @ rid"

definition user_role_entity :: "string \<Rightarrow> string \<Rightarrow> string \<Rightarrow> string \<Rightarrow> entity" where
  "user_role_entity rid by at uid =
     [''PartitionKey'' \<mapsto> PStr ''GLOBAL'', ''RowKey'' \<mapsto> PStr (user_role_key uid rid),
      ''UserId'' \<mapsto> PStr uid, ''RoleId'' \<mapsto> PStr rid, ''AssignedBy'' \<mapsto> PStr by, ''AssignedAt'' \<mapsto> PStr at]"

definition form_role_entity :: "string \<Rightarrow> string \<Rightarrow> string \<Rightarrow> string \<Rightarrow> entity" where
  "form_role_entity rid by at fid =
     [''PartitionKey'' \<mapsto> PStr ''GLOBAL'', ''RowKey'' \<mapsto> PStr (form_role_key fid rid),
      ''FormId'' \<mapsto> PStr fid, ''RoleId'' \<mapsto> PStr rid, ''AssignedBy'' \<mapsto> PStr by, ''AssignedAt'' \<mapsto> PStr at]"

definition assign_users_to_role ::
  "'w env \<Rightarrow> string \<Rightarrow> string list \<Rightarrow> string \<Rightarrow> ('w, unit) py" where
  "assign_users_to_role E rid user_ids assigned_by = py_bind (utcnow E) (\<lambda>now.
     py_for user_ids (\<lambda>uid. py_catch
       (py_then (insert_entity E relationships_service
          (user_role_entity rid assigned_by (env_isoformat E now) uid)) (ret ()))
       (\<lambda>_. ret ())))"

definition assign_forms_to_role ::
  "'w env \<Rightarrow> string \<Rightarrow> string list \<Rightarrow> string \<Rightarrow> ('w, unit) py" where
  "assign_forms_to_role E rid form_ids assigned_by = py_bind (utcnow E) (\<lambda>now.
     py_for form_ids (\<lambda>fid. py_catch
       (py_then (insert_entity E relationships_service
          (form_role_entity rid assigned_by (env_isoformat E now) fid)) (ret ()))
       (\<lambda>_. ret ())))"

definition assignment_filter :: "string \<Rightarrow> clause list" where
  "assignment_filter p = [(''PartitionKey'', OEq, OStr ''GLOBAL''),
     (''RowKey'', OGe, OStr (p @ '':'')), (''RowKey'', OLt, OStr (p @ ''~''))]"

definition repo_get_user_role_ids :: "'w env \<Rightarrow> string \<Rightarrow> ('w, string list) py" where
  "repo_get_user_role_ids E user_id =
     py_bind (query_entities E relationships_service
        (Some (odata (assignment_filter (''userrole:'' @ user_id)))) None)
       (\<lambda>es. lift (map_exn (row_key_part 2) es))"

definition repo_get_form_role_ids :: "'w env \<Rightarrow> string \<Rightarrow> ('w, string list) py" where
  "repo_get_form_role_ids E form_id =
     py_bind (query_entities E relationships_service
        (Some (odata (assignment_filter (''formrole:'' @ form_id)))) None)
       (\<lambda>es. lift (map_exn (row_key_part 2) es))"

definition reverse_filter :: "string \<Rightarrow> string \<Rightarrow> clause list" where
  "reverse_filter kind rid = [(''PartitionKey'', OEq, OStr ''GLOBAL''),
     (''RowKey'', OGe, OStr (kind @ '':'')), (''RowKey'', OLt, OStr (kind @ ''~'')), (''RoleId'', OEq, OStr rid)]"

definition truthy_fields :: "string \<Rightarrow> entity list \<Rightarrow> pyval list" where
  "truthy_fields f es = map (\<lambda>e. dget0 e f) (filter (\<lambda>e. truthy (dget0 e f)) es)"

definition get_role_user_ids :: "'w env \<Rightarrow> string \<Rightarrow> ('w, pyval list) py" where
  "get_role_user_ids E rid =
     py_bind (query_entities E relationships_service (Some (odata (reverse_filter ''userrole'' rid))) None)
       (\<lambda>es. ret (truthy_fields ''UserId'' es))"

definition get_role_form_ids :: "'w env \<Rightarrow> string \<Rightarrow> ('w, pyval list) py" where
  "get_role_form_ids E rid =
     py_bind (query_entities E relationships_service (Some (odata (reverse_filter ''formrole'' rid))) None)
       (\<lambda>es. ret (truthy_fields ''FormId'' es))"

text \<open>Both removals delete a forward and a reverse key, and note that no exception came.\<close>

definition delete_quietly :: "'w env \<Rightarrow> string \<Rightarrow> bool \<Rightarrow> ('w, bool) py" where
  "delete_quietly E k deleted = py_catch
     (py_then (delete_entity E relationships_service ''GLOBAL'' k) (ret True)) (\<lambda>_. ret deleted)"

definition remove_user_from_role :: "'w env \<Rightarrow> string \<Rightarrow> string \<Rightarrow> ('w, bool) py" where
  "remove_user_from_role E rid user_id =
     py_bind (delete_quietly E (user_role_key user_id rid) False) (\<lambda>deleted.
       delete_quietly E (''roleuser:'' @ rid @ '':'' @ user_id) deleted)"

definition remove_form_from_role :: "'w env \<Rightarrow> string \<Rightarrow> string \<Rightarrow> ('w, bool) py" where
  "remove_form_from_role E rid form_id =
     py_bind (delete_quietly E (form_role_key form_id rid) False) (\<lambda>deleted.
       delete_quietly E (''roleform:'' @ rid @ '':'' @ form_id) deleted)"

section \<open>Lemmas\<close>

definition key_part :: "nat \<Rightarrow> string \<Rightarrow> exn + string" where
  "key_part n s = (let parts = split_max CHR '':'' n s in if n < length parts then Inr (parts ! n) else Inl IndexError)"

lemma row_key_part_key: "e ''RowKey'' = Some (PStr s) \<Longrightarrow> row_key_part n e = key_part n s"
  by (simp add: row_key_part_def key_part_def)

lemma key_part_user [simp]: "CHR '':'' \<notin> set uid \<Longrightarrow> key_part 2 (user_role_key uid rid) = Inr rid"
  using split_max_sep [of "CHR '':''" "''userrole''" 1 "uid @ '':'' @ rid"] split_max_sep [of "CHR '':''" uid 0 rid]
  by (simp add: key_part_def user_role_key_def numeral_2_eq_2)

lemma key_part_form [simp]: "CHR '':'' \<notin> set fid \<Longrightarrow> key_part 2 (form_role_key fid rid) = Inr rid"
  using split_max_sep [of "CHR '':''" "''formrole''" 1 "fid @ '':'' @ rid"] split_max_sep [of "CHR '':''" fid 0 rid]
  by (simp add: key_part_def form_role_key_def numeral_2_eq_2)

lemma key_part_role [simp]: "key_part (Suc 0) (role_key rid) = Inr rid"
  using split_max_sep [of "CHR '':''" "''role''" 0 rid] by (simp add: key_part_def role_key_def)

lemma map_exn_Inr: "map_exn f xs = Inr ys \<longleftrightarrow> map f xs = map Inr ys"
proof (induction xs arbitrary: ys)
  case (Cons x xs)
  show ?case
  proof (cases "map_exn f xs")
    case (Inl e)
    then have "map f xs \<noteq> map Inr zs" for zs using Cons.IH [of zs] by simp
    then show ?thesis using Inl by (cases ys) (auto split: sum.splits)
  next
    case (Inr zs)
    then have "map f xs = map Inr zs" using Cons.IH by simp
    then show ?thesis using Inr by (cases ys) (auto split: sum.splits simp: inj_map_eq_map)
  qed
qed auto

lemma map_exn_map: "map_exn f (map g xs) = map_exn (\<lambda>x. f (g x)) xs"
  by (induction xs) (auto split: sum.splits)

lemma map_exn_cong: "(\<And>x. x \<in> set xs \<Longrightarrow> f x = g x) \<Longrightarrow> map_exn f xs = map_exn g xs"
  by (induction xs) (simp_all cong: sum.case_cong)

lemma map_exn_total: "(\<And>x. x \<in> set xs \<Longrightarrow> \<exists>y. f x = Inr y) \<Longrightarrow> \<exists>ys. map_exn f xs = Inr ys"
proof (induction xs)
  case (Cons x xs)
  then obtain y ys where "f x = Inr y" "map_exn f xs = Inr ys" by fastforce
  then show ?case by simp
qed simp

text \<open>Row keys of a table that start with \<open>p\<close> and go on with a character from \<open>:\<close> up to \<open>}\<close>.\<close>

definition assigned_keys :: "string \<Rightarrow> (key \<Rightarrow> entity option) \<Rightarrow> string set" where
  "assigned_keys p T = {rk. T (''GLOBAL'', rk) \<noteq> None
     \<and> (\<exists>x s. rk = p @ x # s \<and> CHR '':'' \<le> x \<and> x < CHR ''~'')}"

lemma sat_assignment:
  assumes "entity_key e = Some (q, rk)"
  shows "sat (assignment_filter p) e
    \<longleftrightarrow> q = ''GLOBAL'' \<and> (\<exists>x s. rk = p @ x # s \<and> CHR '':'' \<le> x \<and> x < CHR ''~'')"
  using assms range_between [of p "CHR '':''" rk "CHR ''~''"]
  by (auto simp: assignment_filter_def entity_key_Some)

lemma assignment_keys:
  assumes sel: "selects (assignment_filter p) T ks" and keyed: "\<And>k e. T k = Some e \<Longrightarrow> entity_key e = Some k"
  shows "\<exists>rks. ks = map (Pair ''GLOBAL'') rks \<and> distinct rks \<and> set rks = assigned_keys p T"
proof -
  have "\<exists>rks. ks = map (Pair ''GLOBAL'') rks \<and> distinct rks \<and> set rks = {rk. \<exists>e. T (''GLOBAL'', rk) = Some e
      \<and> (\<exists>x s. rk = p @ x # s \<and> CHR '':'' \<le> x \<and> x < CHR ''~'')}"
    by (rule partition_keys [OF sel]) (rule sat_assignment [OF keyed])
  then show ?thesis by (simp add: assigned_keys_def)
qed

lemma clean_assignment: "no_quote p \<Longrightarrow> \<forall>c \<in> set (assignment_filter p). clean_clause c"
  by (simp add: assignment_filter_def)

lemma assignment_nonempty: "odata (assignment_filter p) \<noteq> []"
  by (simp add: assignment_filter_def odata_nonempty del: odata.simps)

lemma user_role_entity_key [simp]:
  "entity_key (user_role_entity rid by at uid) = Some (''GLOBAL'', user_role_key uid rid)"
  by (simp add: user_role_entity_def entity_key_Some)

lemma form_role_entity_key [simp]:
  "entity_key (form_role_entity rid by at fid) = Some (''GLOBAL'', form_role_key fid rid)"
  by (simp add: form_role_entity_def entity_key_Some)

context table_sdk
begin

lemma fetched_parts:
  assumes "set rks = assigned_keys p (env_rows E w t)"
  shows "map_exn (row_key_part n) (map (deserialize_datetime_fields E)
           (fetch None (env_rows E w t) (map (Pair ''GLOBAL'') rks))) = map_exn (key_part n) rks"
proof -
  have "row_key_part n (deserialize_datetime_fields E (the (env_rows E w t (''GLOBAL'', rk)))) = key_part n rk"
    if "rk \<in> set rks" for rk
    using that assms deserialize_RowKey by (intro row_key_part_key) (auto simp: assigned_keys_def)
  then show ?thesis
    by (simp add: fetch_def map_exn_map) (rule map_exn_cong, simp)
qed

lemma wp_assignments:
  assumes "no_quote p"
  shows "wp (py_bind (query_entities E relationships_service (Some (odata (assignment_filter p))) None)
       (\<lambda>es. lift (map_exn (row_key_part n) es)))
    (\<lambda>ids w'. env_rows E w' = env_rows E w \<and> (\<exists>rks. distinct rks
       \<and> set rks = assigned_keys p (env_rows E w ''Relationships'') \<and> map (key_part n) rks = map Inr ids))
    (\<lambda>_ w'. env_rows E w' = env_rows E w) w"
  unfolding wp_bind
proof (rule wp_query_entities [OF clean_assignment [OF assms] assignment_nonempty], goal_cases)
  case (1 ks w')
  have t: "svc_table relationships_service = ''Relationships''" by (simp add: relationships_service_def)
  obtain rks where rks: "ks = map (Pair ''GLOBAL'') rks" "distinct rks"
    "set rks = assigned_keys p (env_rows E w ''Relationships'')"
    using assignment_keys [OF 1(2)] rows_keyed t by auto
  show ?case
    using 1(1) rks(2,3) fetched_parts [OF rks(3), of n]
    by (auto simp: t rks(1) map_exn_Inr split: sum.splits)
qed

end

text \<open>
  The assignment keys of a kind, \<open>{kind}:{subject}:{role}\<close>, are well formed when no subject holds
  a colon.
\<close>

definition kind_key :: "string \<Rightarrow> string \<Rightarrow> string \<Rightarrow> string" where
  "kind_key kind u r = kind @ '':'' @ u @ '':'' @ r"

lemma user_role_key_kind: "user_role_key u r = kind_key ''userrole'' u r"
  by (simp add: user_role_key_def kind_key_def)

lemma form_role_key_kind: "form_role_key u r = kind_key ''formrole'' u r"
  by (simp add: form_role_key_def kind_key_def)

lemma key_part_kind [simp]:
  "CHR '':'' \<notin> set kind \<Longrightarrow> CHR '':'' \<notin> set u \<Longrightarrow> key_part 2 (kind_key kind u r) = Inr r"
  using split_max_sep [of "CHR '':''" kind 1 "u @ '':'' @ r"] split_max_sep [of "CHR '':''" u 0 r]
  by (simp add: key_part_def kind_key_def numeral_2_eq_2)

definition keys_wf :: "string \<Rightarrow> (key \<Rightarrow> entity option) \<Rightarrow> bool" where
  "keys_wf kind T \<longleftrightarrow> (\<forall>s. T (''GLOBAL'', kind @ '':'' @ s) \<noteq> None \<longrightarrow>
     (\<exists>u r. s = u @ '':'' @ r \<and> CHR '':'' \<notin> set u))"

text \<open>The subjects whose assignments a lookup for \<open>uid\<close> reads.\<close>

definition read_for :: "string \<Rightarrow> string \<Rightarrow> bool" where
  "read_for uid u \<longleftrightarrow> u = uid \<or> (\<exists>x s. u = uid @ x # s \<and> CHR '':'' < x \<and> x < CHR ''~'')"

lemma split_at_colon:
  assumes "uid @ x # s = u @ CHR '':'' # r" "CHR '':'' \<notin> set u" "CHR '':'' \<notin> set uid"
  shows "(x = CHR '':'' \<and> u = uid \<and> s = r) \<or> (x \<noteq> CHR '':'' \<and> (\<exists>t. u = uid @ x # t \<and> s = t @ CHR '':'' # r))"
  using assms by (auto simp: append_eq_append_conv2 append_eq_Cons_conv Cons_eq_append_conv)

lemma assigned_kind_keys:
  assumes wf: "keys_wf kind T" and uid: "CHR '':'' \<notin> set uid"
  shows "assigned_keys (kind @ '':'' @ uid) T = {kind_key kind u r | u r.
    T (''GLOBAL'', kind_key kind u r) \<noteq> None \<and> CHR '':'' \<notin> set u \<and> read_for uid u}" (is "?A = ?B")
proof
  show "?A \<subseteq> ?B"
  proof
    fix rk
    assume "rk \<in> ?A"
    then obtain x s where rk: "rk = kind @ '':'' @ uid @ x # s" "CHR '':'' \<le> x" "x < CHR ''~''"
      and T: "T (''GLOBAL'', kind @ '':'' @ uid @ x # s) \<noteq> None"
      by (auto simp: assigned_keys_def)
    from T wf obtain u r where u: "uid @ x # s = u @ CHR '':'' # r" "CHR '':'' \<notin> set u"
      using wf [unfolded keys_wf_def, rule_format, of "uid @ x # s"] by auto
    then have "read_for uid u"
      using split_at_colon [OF u uid] rk(2,3) by (auto simp: read_for_def)
    then show "rk \<in> ?B" using u T rk(1) by (auto simp: kind_key_def)
  qed
  show "?B \<subseteq> ?A"
  proof
    fix rk
    assume "rk \<in> ?B"
    then obtain u r where rk: "rk = kind_key kind u r" "T (''GLOBAL'', rk) \<noteq> None" and u: "read_for uid u"
      by auto
    from u consider "u = uid" | x s where "u = uid @ x # s" "CHR '':'' < x" "x < CHR ''~''"
      unfolding read_for_def by blast
    then show "rk \<in> ?A"
    proof cases
      case 1
      then have "rk = (kind @ '':'' @ uid) @ CHR '':'' # r" using rk(1) by (simp add: kind_key_def)
      moreover have "CHR '':'' < CHR ''~''" by simp
      ultimately show ?thesis using rk(2) unfolding assigned_keys_def by blast
    next
      case (2 x s)
      then have "rk = (kind @ '':'' @ uid) @ x # (s @ CHR '':'' # r)"
        using rk(1) by (simp add: kind_key_def)
      moreover have "CHR '':'' \<le> x" using 2(2) by simp
      ultimately show ?thesis using rk(2) 2(3) unfolding assigned_keys_def by blast
    qed
  qed
qed

lemma assigned_user_keys:
  assumes "keys_wf ''userrole'' T" and "CHR '':'' \<notin> set uid"
  shows "assigned_keys (''userrole:'' @ uid) T = {user_role_key u r | u r.
    T (''GLOBAL'', user_role_key u r) \<noteq> None \<and> CHR '':'' \<notin> set u \<and> read_for uid u}"
  using assigned_kind_keys [OF assms] by (simp add: user_role_key_kind)

context table_sdk
begin

lemma wp_assign_users:
  "wp (assign_users_to_role E rid uids by)
    (\<lambda>_ w'. grows ''Relationships'' ((\<lambda>u. (''GLOBAL'', user_role_key u rid)) ` set uids) (env_rows E w) (env_rows E w'))
    (\<lambda>_ _. False) w"
  unfolding assign_users_to_role_def wp_bind
proof (rule wp_utcnow)
  fix d v
  assume v: "env_rows E v = env_rows E w"
  show "wp (py_for uids (\<lambda>uid. py_catch (py_then (insert_entity E relationships_service
        (user_role_entity rid by (env_isoformat E d) uid)) (ret ())) (\<lambda>_. ret ())))
    (\<lambda>_ w'. grows ''Relationships'' ((\<lambda>u. (''GLOBAL'', user_role_key u rid)) ` set uids) (env_rows E w) (env_rows E w'))
    (\<lambda>_ _. False) v"
    using store.best_effort_inserts [of uids "user_role_entity rid by (env_isoformat E d)"
        "\<lambda>u. (''GLOBAL'', user_role_key u rid)" "''Relationships''" None v]
    by (simp add: relationships_service_def v)
qed

end

lemma grows_user_keys_wf:
  assumes "grows ''Relationships'' ((\<lambda>u. (''GLOBAL'', user_role_key u rid)) ` set uids) R R'"
    and "keys_wf ''userrole'' (R ''Relationships'')" and "\<forall>u \<in> set uids. CHR '':'' \<notin> set u"
  shows "keys_wf ''userrole'' (R' ''Relationships'')"
  unfolding keys_wf_def
proof (intro allI impI)
  fix s
  assume "R' ''Relationships'' (''GLOBAL'', ''userrole'' @ '':'' @ s) \<noteq> None"
  then have s: "R' ''Relationships'' (''GLOBAL'', ''userrole:'' @ s) \<noteq> None" by simp
  show "\<exists>u r. s = u @ '':'' @ r \<and> CHR '':'' \<notin> set u"
  proof (cases "(''GLOBAL'', ''userrole:'' @ s) \<in> (\<lambda>u. (''GLOBAL'', user_role_key u rid)) ` set uids")
    case True
    then obtain u where "u \<in> set uids" "s = u @ '':'' @ rid" by (auto simp: user_role_key_def)
    then show ?thesis using assms(3) by blast
  next
    case False
    then have "R ''Relationships'' (''GLOBAL'', ''userrole:'' @ s) \<noteq> None"
      using grows_frame [OF assms(1), of "''Relationships''"] s by simp
    then show ?thesis
      by (intro assms(2) [unfolded keys_wf_def, rule_format]) simp
  qed
qed

context table_sdk
begin

lemma wp_kind_role_ids:
  assumes "CHR '':'' \<notin> set kind" "no_quote kind" "no_quote uid" and "CHR '':'' \<notin> set uid"
    and "keys_wf kind (env_rows E w ''Relationships'')"
  shows "wp (py_bind (query_entities E relationships_service
        (Some (odata (assignment_filter (kind @ '':'' @ uid)))) None) (\<lambda>es. lift (map_exn (row_key_part 2) es)))
    (\<lambda>ids w'. env_rows E w' = env_rows E w
      \<and> set ids = {rid. \<exists>u. CHR '':'' \<notin> set u \<and> read_for uid u
         \<and> env_rows E w ''Relationships'' (''GLOBAL'', kind_key kind u rid) \<noteq> None})
    (\<lambda>_ w'. env_rows E w' = env_rows E w) w"
proof (rule wp_mono [OF wp_assignments], goal_cases)
  case (2 ids w')
  then obtain rks where rks: "set rks = assigned_keys (kind @ '':'' @ uid) (env_rows E w ''Relationships'')"
    and parts: "map (key_part 2) rks = map Inr ids"
    by auto
  have "Inr ` set ids = key_part 2 ` set rks"
    using arg_cong [OF parts, of set] by simp
  also have "\<dots> = Inr ` {rid. \<exists>u. CHR '':'' \<notin> set u \<and> read_for uid u
         \<and> env_rows E w ''Relationships'' (''GLOBAL'', kind_key kind u rid) \<noteq> None}"
    unfolding rks assigned_kind_keys [OF assms(5,4)]
    by (auto simp: image_iff) (metis key_part_kind assms(1))+
  finally show ?case using 2 by (simp add: inj_image_eq_iff)
qed (use assms(2,3) in simp_all)

lemma wp_user_role_ids:
  assumes "no_quote uid" and "CHR '':'' \<notin> set uid" and "keys_wf ''userrole'' (env_rows E w ''Relationships'')"
  shows "wp (repo_get_user_role_ids E uid) (\<lambda>ids w'. env_rows E w' = env_rows E w
    \<and> set ids = {rid. \<exists>u. CHR '':'' \<notin> set u \<and> read_for uid u
         \<and> env_rows E w ''Relationships'' (''GLOBAL'', user_role_key u rid) \<noteq> None})
    (\<lambda>_ w'. env_rows E w' = env_rows E w) w"
  using wp_kind_role_ids [of "''userrole''" uid w] assms
  by (simp add: repo_get_user_role_ids_def user_role_key_kind)

lemma wp_form_role_ids:
  assumes "no_quote fid" and "CHR '':'' \<notin> set fid" and "keys_wf ''formrole'' (env_rows E w ''Relationships'')"
  shows "wp (repo_get_form_role_ids E fid) (\<lambda>ids w'. env_rows E w' = env_rows E w
    \<and> set ids = {rid. \<exists>u. CHR '':'' \<notin> set u \<and> read_for fid u
         \<and> env_rows E w ''Relationships'' (''GLOBAL'', form_role_key u rid) \<noteq> None})
    (\<lambda>_ w'. env_rows E w' = env_rows E w) w"
  using wp_kind_role_ids [of "''formrole''" fid w] assms
  by (simp add: repo_get_form_role_ids_def form_role_key_kind)

end

lemma sat_list_roles:
  assumes "entity_key e = Some (q, rk)"
  shows "sat (list_roles_filter org active) e
    \<longleftrightarrow> q = org \<and> (\<exists>rid. rk = role_key rid) \<and> (active \<longrightarrow> e ''IsActive'' = Some (PBool True))"
proof -
  have "''role:'' \<le> rk \<and> rk < ''role;'' \<longleftrightarrow> (\<exists>rid. rk = role_key rid)"
    using range_between [of "''role''" "CHR '':''" rk "CHR '';''"] char_between
    by (auto simp: role_key_def)
  then show ?thesis
    using assms by (auto simp: list_roles_filter_def entity_key_Some)
qed

definition ids_of :: "model list \<Rightarrow> string set" where
  "ids_of ms = {rid. \<exists>m \<in> set ms. m ''id'' = Some (PStr rid)}"

lemma role_ids_of:
  assumes rks: "set rks = {rk. \<exists>e. T rk = Some e \<and> (\<exists>rid. rk = role_key rid) \<and> A e}"
    and ms: "list_all2 (\<lambda>rk m. \<exists>rid. rk = role_key rid \<and> m ''id'' = Some (PStr rid)) rks ms"
  shows "ids_of ms = {rid. \<exists>e. T (role_key rid) = Some e \<and> A e}"
proof -
  have "ids_of ms = {rid. role_key rid \<in> set rks}"
    using ms
  proof (induction rule: list_all2_induct)
    case (Cons rk rks m ms)
    then show ?case by (auto simp: ids_of_def role_key_def)
  qed (simp add: ids_of_def)
  then show ?thesis using rks by auto
qed

lemma list_roles_keys:
  assumes sel: "selects (list_roles_filter org active) T ks" and keyed: "\<And>k e. T k = Some e \<Longrightarrow> entity_key e = Some k"
  shows "\<exists>rks. ks = map (Pair org) rks \<and> distinct rks \<and> set rks = {rk. \<exists>e. T (org, rk) = Some e
      \<and> (\<exists>rid. rk = role_key rid) \<and> (active \<longrightarrow> e ''IsActive'' = Some (PBool True))}"
  by (rule partition_keys [OF sel]) (rule sat_list_roles [OF keyed])

context table_sdk
begin

lemma wp_role_model:
  assumes "env_rows E w = T"
  shows "wp (role_entity_to_model E e rid)
    (\<lambda>m w'. env_rows E w' = T \<and> m ''id'' = Some (PStr rid)) (\<lambda>_ w'. env_rows E w' = T) w"
  unfolding role_entity_to_model_def wp_bind
  by (rule wp_utcnow, rule wp_utcnow)
    (use assms in \<open>auto simp: str_fields_def split: sum.splits elim!: validate_str\<close>)

lemma wp_list_roles:
  assumes "no_quote org"
  shows "wp (list_roles E r org active)
    (\<lambda>ms w'. env_rows E w' = env_rows E w \<and> ids_of ms = {rid. \<exists>e.
        env_rows E w (repo_table r) (org, role_key rid) = Some e \<and> (active \<longrightarrow> e ''IsActive'' = Some (PBool True))})
    (\<lambda>_ w'. env_rows E w' = env_rows E w) w"
  unfolding list_roles_def wp_bind repo_query_def
proof (rule wp_query_entities, goal_cases)
  case (3 ks w1)
  let ?T = "env_rows E w (repo_table r)"
  obtain rks where ks: "ks = map (Pair org) rks" and rks: "set rks = {rk. \<exists>e. ?T (org, rk) = Some e
      \<and> (\<exists>rid. rk = role_key rid) \<and> (active \<longrightarrow> e ''IsActive'' = Some (PBool True))}"
    using list_roles_keys [OF 3(2)] rows_keyed by (auto simp: repo_service_def)
  let ?g = "\<lambda>rk. deserialize_datetime_fields E (the (?T (org, rk)))"
  let ?I = "\<lambda>w'. env_rows E w' = env_rows E w"
  have "wp (py_map (\<lambda>rk. py_bind (lift (row_key_part 1 (?g rk))) (role_entity_to_model E (?g rk))) rks)
      (\<lambda>ms w'. ?I w' \<and> list_all2 (\<lambda>rk m. \<exists>rid. rk = role_key rid \<and> m ''id'' = Some (PStr rid)) rks ms) (\<lambda>_. ?I) w1"
  proof (rule wp_map_all2)
    fix rk v
    assume "rk \<in> set rks" and v: "?I v"
    then obtain rid e where rk: "rk = role_key rid" "?T (org, rk) = Some e"
      using rks by auto
    have "e ''RowKey'' = Some (PStr rk)"
      using rows_keyed [OF rk(2)] by (auto simp: entity_key_Some)
    then have "row_key_part 1 (?g rk) = Inr rid"
      using rk by (simp add: row_key_part_key [where s = "role_key rid"] deserialize_RowKey)
    then show "wp (py_bind (lift (row_key_part 1 (?g rk))) (role_entity_to_model E (?g rk)))
        (\<lambda>m w'. ?I w' \<and> (\<exists>rid. rk = role_key rid \<and> m ''id'' = Some (PStr rid))) (\<lambda>_. ?I) v"
      using wp_role_model [OF v, of "?g rk" rid] rk(1) by (auto elim!: wp_mono)
  qed (simp add: 3(1))
  then have "wp (py_map (\<lambda>rk. py_bind (lift (row_key_part 1 (?g rk))) (role_entity_to_model E (?g rk))) rks)
      (\<lambda>ms w'. ?I w' \<and> ids_of ms = {rid. \<exists>e.
        ?T (org, role_key rid) = Some e \<and> (active \<longrightarrow> e ''IsActive'' = Some (PBool True))}) (\<lambda>_. ?I) w1"
    by (rule wp_mono) (use role_ids_of [OF rks] in blast)+
  then show ?case
    by (simp add: ks fetch_def py_map_map repo_service_def del: One_nat_def)
qed (use assms in \<open>simp_all add: list_roles_filter_def odata_nonempty del: odata.simps\<close>)

end

context table_sdk
begin

lemma wp_delete_role:
  "wp (delete_role E r rid org)
    (\<lambda>b w'. let k = (org, role_key rid); t = repo_table r in
       (if b then env_rows E w t k \<noteq> None \<and> (\<exists>e. env_rows E w' = put_row t k (Some e) (env_rows E w)
            \<and> e ''IsActive'' = Some (PBool False))
        else env_rows E w t k = None \<and> env_rows E w' = env_rows E w))
    (\<lambda>_ _. True) w"
  unfolding delete_role_def wp_bind get_by_id_def
proof (rule wp_get_entity, goal_cases)
  case (1 e d v)
  let ?k = "(org, role_key rid)" and ?t = "repo_table r"
  have old: "env_rows E w ?t ?k = Some e" using 1(2) by (simp add: repo_service_def)
  have key: "entity_key d = Some ?k"
    using rows_keyed [OF old] 1(3) by (simp add: entity_key_Some)
  show ?case
    unfolding option.case wp_bind
  proof (rule wp_utcnow, simp add: Let_def repo_update_def, rule wp_update_entity [where k = ?k], goal_cases)
    case (1 n v')
    then show ?case using key by (simp add: entity_key_Some)
  next
    case (2 n v' old' u)
    then show ?case
      using old \<open>env_rows E v = env_rows E w\<close>
      by (auto simp: repo_service_def mode_of_def write_row_def drop_none_apply map_add_def)
  qed simp_all
qed (simp_all add: repo_service_def Let_def)

end

text \<open>While the service is available every assignment is there after the loop.\<close>

context available_sdk
begin

lemma wp_for_each_ok:
  assumes "\<And>x w. x \<in> set xs \<Longrightarrow> ok w \<Longrightarrow> wp (f x) (\<lambda>_ w'. ok w' \<and> G x w') (\<lambda>_ _. False) w"
    and "\<And>x y w. x \<in> set xs \<Longrightarrow> ok w \<Longrightarrow> G y w \<Longrightarrow> wp (f x) (\<lambda>_. G y) (\<lambda>_ _. False) w"
    and "ok w" and "\<forall>y \<in> S. G y w"
  shows "wp (py_for xs f) (\<lambda>_ w'. ok w' \<and> (\<forall>y \<in> S \<union> set xs. G y w')) (\<lambda>_ _. False) w"
  using assms
proof (induction xs arbitrary: w S)
  case (Cons x xs)
  have "wp (f x) (\<lambda>_ w'. (ok w' \<and> G x w') \<and> (\<forall>y \<in> S. G y w')) (\<lambda>_ _. False) w"
  proof -
    obtain r w1 where r: "f x w = (r, w1)" by fastforce
    have "wp (f x) (\<lambda>_ w'. ok w' \<and> G x w') (\<lambda>_ _. False) w"
      by (rule Cons.prems(1)) (use Cons.prems(3) in simp_all)
    moreover have "wp (f x) (\<lambda>_. G y) (\<lambda>_ _. False) w" if "y \<in> S" for y
      by (rule Cons.prems(2)) (use Cons.prems(3,4) that in simp_all)
    ultimately show ?thesis by (auto simp: wp_def r split: sum.splits)
  qed
  then have "wp (f x) (\<lambda>_. wp (py_for xs f) (\<lambda>_ w'. ok w' \<and> (\<forall>y \<in> insert x S \<union> set xs. G y w'))
      (\<lambda>_ _. False)) (\<lambda>_ _. False) w"
    by (rule wp_mono) (rule Cons.IH, use Cons.prems in auto)
  then show ?case by simp
qed simp

lemma wp_assign_users_ok:
  assumes "ok w"
  shows "wp (assign_users_to_role E rid uids by)
    (\<lambda>_ w'. ok w' \<and> (\<forall>u \<in> set uids. env_rows E w' ''Relationships'' (''GLOBAL'', user_role_key u rid) \<noteq> None))
    (\<lambda>_ _. False) w"
  unfolding assign_users_to_role_def wp_bind
proof (rule wp_utcnow_ok [OF assms])
  fix d v
  assume v: "ok v"
  let ?G = "\<lambda>u w'. env_rows E w' ''Relationships'' (''GLOBAL'', user_role_key u rid) \<noteq> None"
  have t: "svc_table relationships_service = ''Relationships''" by (simp add: relationships_service_def)
  have "wp (py_for uids (\<lambda>uid. py_catch (py_then (insert_entity E relationships_service
          (user_role_entity rid by (env_isoformat E d) uid)) (ret ())) (\<lambda>_. ret ())))
      (\<lambda>_ w'. ok w' \<and> (\<forall>y \<in> {} \<union> set uids. ?G y w')) (\<lambda>_ _. False) v"
    by (rule wp_for_each_ok)
      (auto simp: v t put_row_apply
        intro!: wp_insert_entity_ok [where k = "(''GLOBAL'', user_role_key _ rid)"])
  then show "wp (py_for uids (\<lambda>uid. py_catch (py_then (insert_entity E relationships_service
          (user_role_entity rid by (env_isoformat E d) uid)) (ret ())) (\<lambda>_. ret ())))
      (\<lambda>_ w'. ok w' \<and> (\<forall>u \<in> set uids. ?G u w')) (\<lambda>_ _. False) v"
    by simp
qed

lemma wp_remove_user_ok:
  assumes "ok w"
  shows "wp (remove_user_from_role E rid uid)
    (\<lambda>b w'. b \<and> env_rows E w' = put_row ''Relationships'' (''GLOBAL'', ''roleuser:'' @ rid @ '':'' @ uid) None
        (put_row ''Relationships'' (''GLOBAL'', user_role_key uid rid) None (env_rows E w)))
    (\<lambda>_ _. False) w"
  unfolding remove_user_from_role_def delete_quietly_def wp_bind wp_catch wp_then
  by (rule wp_delete_entity_ok [OF assms], simp, rule wp_delete_entity_ok, assumption,
      simp add: relationships_service_def)

lemma wp_assignments_ok:
  assumes "ok w" "no_quote p" "\<And>rk. rk \<in> assigned_keys p (env_rows E w ''Relationships'') \<Longrightarrow> \<exists>y. key_part n rk = Inr y"
  shows "wp (py_bind (query_entities E relationships_service (Some (odata (assignment_filter p))) None)
       (\<lambda>es. lift (map_exn (row_key_part n) es))) (\<lambda>_. ok) (\<lambda>_ _. False) w"
  unfolding wp_bind
proof (rule wp_query_entities_ok [OF assms(1) clean_assignment [OF assms(2)] assignment_nonempty], goal_cases)
  case (1 ks w')
  have t: "svc_table relationships_service = ''Relationships''" by (simp add: relationships_service_def)
  obtain rks where rks: "ks = map (Pair ''GLOBAL'') rks"
    "set rks = assigned_keys p (env_rows E w ''Relationships'')"
    using assignment_keys [OF 1(3)] rows_keyed t by auto
  have "\<exists>ys. map_exn (key_part n) rks = Inr ys"
    by (rule map_exn_total) (use assms(3) rks(2) in simp)
  then show ?case
    using 1(1) fetched_parts [OF rks(2), of n] by (auto simp: t rks(1))
qed

end

section \<open>Properties\<close>

definition bob_world :: mem where
  "bob_world = \<lparr>mem_rows = [((''Relationships'', (''GLOBAL'', user_role_key ''bobby'' ''admins'')),
     user_role_entity ''admins'' ''root'' ''0'' ''bobby'')], mem_clock = 0, mem_ids = 0, mem_faults = [], mem_files = [], mem_users = Map.empty, mem_orgs = Map.empty\<rparr>"

lemma bob_world_rows:
  "mem_view bob_world ''Relationships'' = [(''GLOBAL'', user_role_key ''bobby'' ''admins'')
     \<mapsto> user_role_entity ''admins'' ''root'' ''0'' ''bobby'']"
  by (rule ext) (auto simp: mem_view_def bob_world_def)

lemma bob_world_wf: "keys_wf ''userrole'' (mem_view bob_world ''Relationships'')"
  unfolding keys_wf_def
proof (intro allI impI)
  fix s
  assume "mem_view bob_world ''Relationships'' (''GLOBAL'', ''userrole'' @ '':'' @ s) \<noteq> None"
  then have "s = ''bobby'' @ '':'' @ ''admins''"
    by (auto simp: bob_world_rows user_role_key_def split: if_splits)
  moreover have "CHR '':'' \<notin> set ''bobby''" by simp
  ultimately show "\<exists>u r. s = u @ '':'' @ r \<and> CHR '':'' \<notin> set u" by blast
qed

text \<open>
  The role ids looked up for a user are those of every assignment whose user id is the given
  one, or goes on from it with a character after the colon and before the tilde: the row-key range
  from \<open>userrole:{id}:\<close> up to \<open>userrole:{id}~\<close> is wider than the prefix \<open>userrole:{id}:\<close>.
\<close>

theorem get_user_role_ids_exact:
  assumes "table_sdk E" and "no_quote uid" and "CHR '':'' \<notin> set uid"
    and "keys_wf ''userrole'' (env_rows E w ''Relationships'')"
    and "repo_get_user_role_ids E uid w = (Inr ids, w')"
  shows "env_rows E w' = env_rows E w
    \<and> set ids = {rid. \<exists>u. CHR '':'' \<notin> set u \<and> read_for uid u
         \<and> env_rows E w ''Relationships'' (''GLOBAL'', user_role_key u rid) \<noteq> None}"
  using wp_Inr [OF table_sdk.wp_user_role_ids [OF assms(1-4)] assms(5)] .

theorem get_user_role_ids_exact_witness:
  "\<exists>ids w'. repo_get_user_role_ids mem_env ''bob'' bob_world = (Inr ids, w') \<and> ''admins'' \<in> set ids
     \<and> mem_view bob_world ''Relationships'' (''GLOBAL'', user_role_key ''bob'' ''admins'') = None"
proof -
  have "(case repo_get_user_role_ids mem_env ''bob'' bob_world of (Inr ids, _) \<Rightarrow> True | _ \<Rightarrow> False)"
    by code_simp
  then obtain ids w' where run: "repo_get_user_role_ids mem_env ''bob'' bob_world = (Inr ids, w')"
    by (auto split: prod.splits sum.splits)
  have "\<exists>u. CHR '':'' \<notin> set u \<and> read_for ''bob'' u
      \<and> env_rows mem_env bob_world ''Relationships'' (''GLOBAL'', user_role_key u ''admins'') \<noteq> None"
  proof (intro exI [of _ "''bobby''"] conjI)
    show "read_for ''bob'' ''bobby''"
      unfolding read_for_def by (intro disjI2 exI [of _ "CHR ''b''"] exI [of _ "''y''"]) simp
  qed (simp_all add: mem_env_def bob_world_rows)
  then have "''admins'' \<in> set ids"
    using get_user_role_ids_exact [OF mem.table_sdk_axioms _ _ _ run] bob_world_wf by simp
  then show ?thesis using run by (simp add: bob_world_rows user_role_key_def)
qed

text \<open>
  Assigning users to a role only ever adds rows, under the row keys of those users and that
  role: no stored row of any table is changed or removed, whatever requests fail, and no
  exception leaves the loop.
\<close>

theorem assign_users_to_role_only_adds:
  assumes "table_sdk E" and "assign_users_to_role E rid uids by w = (res, w')"
  shows "res = Inr () \<and> grows ''Relationships'' ((\<lambda>u. (''GLOBAL'', user_role_key u rid)) ` set uids)
    (env_rows E w) (env_rows E w')"
  using table_sdk.wp_assign_users [OF assms(1), of rid uids "by" w] assms(2)
  by (auto simp: wp_def split: sum.splits)

theorem assign_users_to_role_only_adds_witness:
  "grows ''Relationships'' ((\<lambda>u. (''GLOBAL'', user_role_key u ''ops'')) ` set [''ann'', ''bob''])
     (mem_view bob_world) (mem_view (snd (assign_users_to_role mem_env ''ops'' [''ann'', ''bob''] ''root'' bob_world)))"
  using assign_users_to_role_only_adds [OF mem.table_sdk_axioms, of "''ops''" "[''ann'', ''bob'']" "''root''" bob_world
      "fst (assign_users_to_role mem_env ''ops'' [''ann'', ''bob''] ''root'' bob_world)"
      "snd (assign_users_to_role mem_env ''ops'' [''ann'', ''bob''] ''root'' bob_world)"]
  by simp

text \<open>
  While the table service is available, a role assigned to users is among the role ids looked
  up for each of them afterwards (user keys well formed, no quote or colon in the user id).
\<close>

theorem assigned_role_is_found:
  assumes "available_sdk E ok" and "ok w" and "uid \<in> set uids" and "no_quote uid"
    and colons: "\<forall>u \<in> set uids. CHR '':'' \<notin> set u"
    and "keys_wf ''userrole'' (env_rows E w ''Relationships'')"
    and run1: "assign_users_to_role E rid uids by w = (res, w1)"
  shows "\<exists>ids w2. repo_get_user_role_ids E uid w1 = (Inr ids, w2) \<and> rid \<in> set ids"
proof -
  note sdk = available_sdk.axioms(1) [OF assms(1)]
  have ok1: "ok w1" and row: "env_rows E w1 ''Relationships'' (''GLOBAL'', user_role_key uid rid) \<noteq> None"
    using available_sdk.wp_assign_users_ok [OF assms(1,2), of rid uids "by"] assms(3) run1
    by (auto simp: wp_def split: sum.splits)
  have wf1: "keys_wf ''userrole'' (env_rows E w1 ''Relationships'')"
    using table_sdk.wp_assign_users [OF sdk, of rid uids "by" w] run1 colons assms(6)
    by (auto simp: wp_def split: sum.splits intro: grows_user_keys_wf)
  have nq: "no_quote (''userrole:'' @ uid)" and colon: "CHR '':'' \<notin> set uid"
    using assms(3,4) colons by simp_all
  have "wp (repo_get_user_role_ids E uid) (\<lambda>_. ok) (\<lambda>_ _. False) w1"
    unfolding repo_get_user_role_ids_def
    by (rule available_sdk.wp_assignments_ok [OF assms(1) ok1 nq])
      (use assigned_user_keys [OF wf1 colon] in auto)
  then obtain ids w2 where run: "repo_get_user_role_ids E uid w1 = (Inr ids, w2)"
    by (cases "repo_get_user_role_ids E uid w1") (auto simp: wp_def split: sum.splits)
  have "rid \<in> set ids"
    using wp_Inr [OF table_sdk.wp_user_role_ids [OF sdk assms(4) colon wf1] run] row colon
    by (auto simp: read_for_def)
  then show ?thesis using run by blast
qed

theorem assigned_role_is_found_witness:
  "\<exists>ids w2. repo_get_user_role_ids mem_env ''ann''
     (snd (assign_users_to_role mem_env ''ops'' [''ann''] ''root'' bob_world)) = (Inr ids, w2) \<and> ''ops'' \<in> set ids"
  by (rule assigned_role_is_found [OF mem.available_sdk_axioms, of bob_world "''ann''" "[''ann'']" "''ops''" "''root''"
        "fst (assign_users_to_role mem_env ''ops'' [''ann''] ''root'' bob_world)"])
    (simp_all add: bob_world_wf, simp add: bob_world_def)

text \<open>
  the roles listed for an organization are exactly its stored \<open>role:\<close> rows, the ones whose
  \<open>IsActive\<close> is true when only active roles are asked for, whatever else the table holds.
\<close>

theorem list_roles_exact:
  assumes "table_sdk E" and "no_quote org_id" and "list_roles E r org_id active_only w = (Inr ms, w')"
  shows "ids_of ms = {rid. \<exists>e. env_rows E w (repo_table r) (org_id, role_key rid) = Some e
    \<and> (active_only \<longrightarrow> e ''IsActive'' = Some (PBool True))}"
  using wp_Inr [OF table_sdk.wp_list_roles [OF assms(1,2)] assms(3)] by simp

definition roles_world :: mem where
  "roles_world = \<lparr>mem_rows = [((''Entities'', (''acme'', role_key ''r1'')),
       [''PartitionKey'' \<mapsto> PStr ''acme'', ''RowKey'' \<mapsto> PStr (role_key ''r1''), ''IsActive'' \<mapsto> PBool False]),
     ((''Entities'', (''acme'', role_key ''r2'')),
       [''PartitionKey'' \<mapsto> PStr ''acme'', ''RowKey'' \<mapsto> PStr (role_key ''r2''), ''IsActive'' \<mapsto> PBool True])],
     mem_clock = 0, mem_ids = 0, mem_faults = [], mem_files = [], mem_users = Map.empty, mem_orgs = Map.empty\<rparr>"

theorem list_roles_exact_witness:
  "\<exists>ms w'. list_roles mem_env (role_repo None) ''acme'' True roles_world = (Inr ms, w')
     \<and> ids_of ms = {rid. \<exists>e. mem_view roles_world ''Entities'' (''acme'', role_key rid) = Some e
         \<and> e ''IsActive'' = Some (PBool True)}"
proof -
  have "case list_roles mem_env (role_repo None) ''acme'' True roles_world of (Inr ms, _) \<Rightarrow> True | _ \<Rightarrow> False"
    by code_simp
  then obtain ms w' where run: "list_roles mem_env (role_repo None) ''acme'' True roles_world = (Inr ms, w')"
    by (auto split: prod.splits sum.splits)
  then show ?thesis
    using list_roles_exact [OF mem.table_sdk_axioms _ run] by (auto simp: role_repo_def)
qed

text \<open>
  Deleting a role never removes its row: when it answers \<open>True\<close> the row is still there with
  \<open>IsActive\<close> false, and no other row of any table has changed; when it answers \<open>False\<close> there was
  no such role and nothing has changed.
\<close>

theorem delete_role_soft:
  assumes "table_sdk E" and "delete_role E r rid org_id w = (Inr b, w')"
  shows "if b then env_rows E w (repo_table r) (org_id, role_key rid) \<noteq> None
      \<and> (\<exists>e. env_rows E w' = put_row (repo_table r) (org_id, role_key rid) (Some e) (env_rows E w)
            \<and> e ''IsActive'' = Some (PBool False))
    else env_rows E w (repo_table r) (org_id, role_key rid) = None \<and> env_rows E w' = env_rows E w"
  using wp_Inr [OF table_sdk.wp_delete_role [OF assms(1)] assms(2)] by (simp add: Let_def)

theorem delete_role_soft_witness:
  "\<exists>w'. delete_role mem_env (role_repo None) ''r2'' ''acme'' roles_world = (Inr True, w')
     \<and> (\<exists>e. mem_view w' ''Entities'' (''acme'', role_key ''r2'') = Some e \<and> e ''IsActive'' = Some (PBool False))"
proof -
  have "case delete_role mem_env (role_repo None) ''r2'' ''acme'' roles_world of (Inr b, _) \<Rightarrow> b | _ \<Rightarrow> False"
    by code_simp
  then obtain w' where run: "delete_role mem_env (role_repo None) ''r2'' ''acme'' roles_world = (Inr True, w')"
    by (auto split: prod.splits sum.splits)
  then show ?thesis
    using delete_role_soft [OF mem.table_sdk_axioms run] by (auto simp: role_repo_def)
qed

text \<open>
  While the table service is available, removing a user from a role deletes the assignment and
  the reverse row and answers \<open>True\<close>, also when the user never had the role.
\<close>

theorem remove_user_from_role_answers_True:
  assumes "available_sdk E ok" and "ok w"
  shows "\<exists>w'. remove_user_from_role E rid user_id w = (Inr True, w')
    \<and> env_rows E w' = put_row ''Relationships'' (''GLOBAL'', ''roleuser:'' @ rid @ '':'' @ user_id) None
        (put_row ''Relationships'' (''GLOBAL'', user_role_key user_id rid) None (env_rows E w))"
  using available_sdk.wp_remove_user_ok [OF assms, of rid user_id]
  by (cases "remove_user_from_role E rid user_id w") (auto simp: wp_def split: sum.splits)

theorem remove_user_from_role_answers_True_witness:
  "fst (remove_user_from_role mem_env ''ops'' ''nobody'' bob_world) = Inr True
     \<and> mem_view bob_world ''Relationships'' (''GLOBAL'', user_role_key ''nobody'' ''ops'') = None"
  using remove_user_from_role_answers_True [OF mem.available_sdk_axioms, of bob_world "''ops''" "''nobody''"]
  by (auto simp: bob_world_rows user_role_key_def) (auto simp: bob_world_def)

end
