(* ===== verification/Execution_Repository.thy ===== *)
theory Execution_Repository
  imports Role_Repository
begin

text \<open>
  \<open>shared/repositories/executions.py\<close>: an execution is one row of the \<open>Entities\<close> table and up to
  four index rows in \<open>Relationships\<close>, which carry the fields shown in lists. The indexes are
  written and updated concurrently, after the primary row.
\<close>

section \<open>Data\<close>

datatype execution_status = PENDING | RUNNING | SUCCESS | FAILED | TIMEOUT
  | COMPLETED_WITH_ERRORS | CANCELLING | CANCELLED

fun status_value :: "execution_status \<Rightarrow> string" where
  "status_value PENDING = ''Pending''"
| "status_value RUNNING = ''Running''"
| "status_value SUCCESS = ''Success''"
| "status_value FAILED = ''Failed''"
| "status_value TIMEOUT = ''Timeout''"
| "status_value COMPLETED_WITH_ERRORS = ''CompletedWithErrors''"
| "status_value CANCELLING = ''Cancelling''"
| "status_value CANCELLED = ''Cancelled''"

definition all_statuses :: "execution_status list" where
  "all_statuses = [PENDING, RUNNING, SUCCESS, FAILED, TIMEOUT, COMPLETED_WITH_ERRORS, CANCELLING, CANCELLED]"

text \<open>\<open>ExecutionStatus(v)\<close>: the member with this value, or a \<open>ValueError\<close>.\<close>

definition status_of :: "pyval \<Rightarrow> exn + execution_status" where
  "status_of v = (case find (\<lambda>s. v = PStr (status_value s)) all_statuses of
     Some s \<Rightarrow> Inr s | None \<Rightarrow> Inl (ValueError ''is not a valid ExecutionStatus''))"

text \<open>\<open>ExecutionStatus(s) if s else PENDING\<close>, of the \<open>Status\<close> field.\<close>

definition entity_status :: "entity \<Rightarrow> exn + execution_status" where
  "entity_status e = (let s = dget e ''Status'' (PStr ''Pending'')
                      in if truthy s then status_of s else Inr PENDING)"

section \<open>Keys and models\<close>

definition execution_repo :: "exec_context option \<Rightarrow> repo" where
  "execution_repo ctx = \<lparr>repo_table = ''Entities'', repo_context = ctx\<rparr>"

definition reverse_timestamp :: "'w env \<Rightarrow> datetime \<Rightarrow> string" where
  "reverse_timestamp E dt = str_int (9999999999999 - env_timestamp_ms E dt)"

definition partition_of :: "string option \<Rightarrow> string" where
  "partition_of org_id = str_or org_id ''GLOBAL''"

definition execution_key :: "string \<Rightarrow> string \<Rightarrow> string" where
  "execution_key reverse_ts xid = ''execution:'' @ reverse_ts @ ''_'' @ xid"

definition user_index_key :: "string \<Rightarrow> string \<Rightarrow> string" where
  "user_index_key uid xid = ''userexec:'' @ uid @ '':'' @ xid"

definition workflow_index_key :: "string \<Rightarrow> string \<Rightarrow> string \<Rightarrow> string" where
  "workflow_index_key name p xid = ''workflowexec:'' @ name @ '':'' @ p @ '':'' @ xid"

definition form_index_key :: "string \<Rightarrow> string \<Rightarrow> string" where
  "form_index_key fid xid = ''formexec:'' @ fid @ '':'' @ xid"

definition status_index_key :: "string \<Rightarrow> string \<Rightarrow> string" where
  "status_index_key st xid = ''status:'' @ st @ '':'' @ xid"

definition input_data_of :: "'w env \<Rightarrow> entity \<Rightarrow> pyval" where
  "input_data_of E e = (let v = dget0 e ''InputData'' in
     if truthy v \<and> is_str v then
       (case v of PStr s \<Rightarrow> (case env_loads E s of Some j \<Rightarrow> j | None \<Rightarrow> PDict []) | _ \<Rightarrow> v)
     else if \<not> truthy v then PDict [] else v)"

definition result_of :: "'w env \<Rightarrow> entity \<Rightarrow> pyval \<times> pyval" where
  "result_of E e =
     (if \<not> truthy (dget0 e ''ResultInBlob'') \<and> truthy (dget0 e ''Result'') then
        (case dget0 e ''Result'' of
           PStr s \<Rightarrow> (case env_loads E s of
               Some j \<Rightarrow> (j, PStr ''json'')
             | None \<Rightarrow> (let t = strip s in
                 (PStr s, if startswith t ''<'' \<and> str_in ''>'' t then PStr ''html'' else PStr ''text'')))
         | v \<Rightarrow> (v, PStr ''json''))
      else (PNone, PNone))"

definition duration_of :: "entity \<Rightarrow> pyval" where
  "duration_of e = (case dget0 e ''DurationMs'' of PStr s \<Rightarrow> of_int_opt (py_int s) | v \<Rightarrow> v)"

definition execution_entity_to_model :: "'w env \<Rightarrow> entity \<Rightarrow> ('w, model) py" where
  "execution_entity_to_model E e = py_bind (utcnow E) (\<lambda>now. py_bind (lift (entity_status e)) (\<lambda>st.
     let (result, result_type) = result_of E e in
     lift (env_validate E ''WorkflowExecution''
       [''executionId'' \<mapsto> dget e ''ExecutionId'' (PStr []), ''workflowName'' \<mapsto> dget e ''WorkflowName'' (PStr []),
        ''orgId'' \<mapsto> dget0 e ''PartitionKey'', ''formId'' \<mapsto> dget0 e ''FormId'',
        ''executedBy'' \<mapsto> dget e ''ExecutedBy'' (PStr []), ''executedByName'' \<mapsto> dget e ''ExecutedByName'' (PStr []),
        ''status'' \<mapsto> PStr (status_value st), ''inputData'' \<mapsto> input_data_of E e,
        ''result'' \<mapsto> result, ''resultType'' \<mapsto> result_type, ''errorMessage'' \<mapsto> dget0 e ''ErrorMessage'',
        ''durationMs'' \<mapsto> duration_of e,
        ''startedAt'' \<mapsto> of_date_opt (parse_datetime E (dget0 e ''StartedAt'') (Some now)),
        ''completedAt'' \<mapsto> of_date_opt (parse_datetime E (dget0 e ''CompletedAt'') None),
        ''logs'' \<mapsto> PNone])))"

section \<open>Creation\<close>

definition execution_entity :: "string \<Rightarrow> string \<Rightarrow> string \<Rightarrow> string \<Rightarrow> string \<Rightarrow> string \<Rightarrow> string
    \<Rightarrow> string option \<Rightarrow> string \<Rightarrow> entity" where
  "execution_entity xid p rts uid uname wname input fid now =
     [''PartitionKey'' \<mapsto> PStr p, ''RowKey'' \<mapsto> PStr (execution_key rts xid), ''ExecutionId'' \<mapsto> PStr xid,
      ''WorkflowName'' \<mapsto> PStr wname, ''FormId'' \<mapsto> of_opt fid, ''ExecutedBy'' \<mapsto> PStr uid,
      ''ExecutedByName'' \<mapsto> PStr uname, ''Status'' \<mapsto> PStr (status_value RUNNING),
      ''InputData'' \<mapsto> PStr input, ''StartedAt'' \<mapsto> PStr now, ''CompletedAt'' \<mapsto> PNone,
      ''DurationMs'' \<mapsto> PNone, ''Result'' \<mapsto> PNone, ''ResultInBlob'' \<mapsto> PBool False, ''ErrorMessage'' \<mapsto> PNone]"

definition user_index_entity :: "string \<Rightarrow> string option \<Rightarrow> string \<Rightarrow> string \<Rightarrow> string
    \<Rightarrow> string option \<Rightarrow> string \<Rightarrow> entity" where
  "user_index_entity xid org uid uname wname fid now =
     [''PartitionKey'' \<mapsto> PStr ''GLOBAL'', ''RowKey'' \<mapsto> PStr (user_index_key uid xid),
      ''ExecutionId'' \<mapsto> PStr xid, ''OrganizationId'' \<mapsto> of_opt org, ''WorkflowName'' \<mapsto> PStr wname,
      ''FormId'' \<mapsto> of_opt fid, ''Status'' \<mapsto> PStr (status_value RUNNING), ''StartedAt'' \<mapsto> PStr now,
      ''CompletedAt'' \<mapsto> PNone, ''DurationMs'' \<mapsto> PNone, ''ErrorMessage'' \<mapsto> PNone,
      ''ExecutedByName'' \<mapsto> PStr uname]"

definition workflow_index_entity :: "string \<Rightarrow> string option \<Rightarrow> string \<Rightarrow> string \<Rightarrow> string
    \<Rightarrow> string option \<Rightarrow> string \<Rightarrow> entity" where
  "workflow_index_entity xid org uid uname wname fid now =
     [''PartitionKey'' \<mapsto> PStr ''GLOBAL'', ''RowKey'' \<mapsto> PStr (workflow_index_key wname (partition_of org) xid),
      ''ExecutionId'' \<mapsto> PStr xid, ''OrganizationId'' \<mapsto> of_opt org, ''ExecutedBy'' \<mapsto> PStr uid,
      ''ExecutedByName'' \<mapsto> PStr uname, ''FormId'' \<mapsto> of_opt fid,
      ''Status'' \<mapsto> PStr (status_value RUNNING), ''StartedAt'' \<mapsto> PStr now,
      ''CompletedAt'' \<mapsto> PNone, ''DurationMs'' \<mapsto> PNone, ''ErrorMessage'' \<mapsto> PNone]"

definition form_index_entity :: "string \<Rightarrow> string option \<Rightarrow> string \<Rightarrow> string \<Rightarrow> string
    \<Rightarrow> string \<Rightarrow> string \<Rightarrow> entity" where
  "form_index_entity xid org uid uname wname fid now =
     [''PartitionKey'' \<mapsto> PStr ''GLOBAL'', ''RowKey'' \<mapsto> PStr (form_index_key fid xid),
      ''ExecutionId'' \<mapsto> PStr xid, ''OrganizationId'' \<mapsto> of_opt org, ''WorkflowName'' \<mapsto> PStr wname,
      ''ExecutedBy'' \<mapsto> PStr uid, ''ExecutedByName'' \<mapsto> PStr uname,
      ''Status'' \<mapsto> PStr (status_value RUNNING), ''StartedAt'' \<mapsto> PStr now,
      ''CompletedAt'' \<mapsto> PNone, ''DurationMs'' \<mapsto> PNone, ''ErrorMessage'' \<mapsto> PNone]"

definition status_index_entity :: "string \<Rightarrow> string option \<Rightarrow> string \<Rightarrow> string \<Rightarrow> string \<Rightarrow> string \<Rightarrow> entity" where
  "status_index_entity xid org uid uname wname now =
     [''PartitionKey'' \<mapsto> PStr ''GLOBAL'', ''RowKey'' \<mapsto> PStr (status_index_key (status_value RUNNING) xid),
      ''ExecutionId'' \<mapsto> PStr xid, ''OrganizationId'' \<mapsto> of_opt org, ''WorkflowName'' \<mapsto> PStr wname,
      ''ExecutedBy'' \<mapsto> PStr uid, ''ExecutedByName'' \<mapsto> PStr uname,
      ''Status'' \<mapsto> PStr (status_value RUNNING), ''StartedAt'' \<mapsto> PStr now, ''UpdatedAt'' \<mapsto> PStr now]"

definition index_entities :: "string \<Rightarrow> string option \<Rightarrow> string \<Rightarrow> string \<Rightarrow> string
    \<Rightarrow> string option \<Rightarrow> string \<Rightarrow> entity list" where
  "index_entities xid org uid uname wname fid now =
     [user_index_entity xid org uid uname wname fid now,
      workflow_index_entity xid org uid uname wname fid now,
      status_index_entity xid org uid uname wname now]
     @ (if opt_truthy fid then [form_index_entity xid org uid uname wname (str_or fid []) now] else [])"

definition create_execution :: "'w env \<Rightarrow> repo \<Rightarrow> string \<Rightarrow> string option \<Rightarrow> string \<Rightarrow> string
    \<Rightarrow> string \<Rightarrow> pyval \<Rightarrow> string option \<Rightarrow> ('w, model) py" where
  "create_execution E r xid org uid uname wname input_data fid =
     py_bind (utcnow E) (\<lambda>now.
     py_bind (lift (env_dumps E input_data)) (\<lambda>input.
     let iso = env_isoformat E now;
         e = execution_entity xid (partition_of org) (reverse_timestamp E now) uid uname wname input fid iso
     in py_then (repo_insert E r e)
          (py_then (gather E (map (insert_entity E relationships_service)
                      (index_entities xid org uid uname wname fid iso)))
             (execution_entity_to_model E e))))"

section \<open>Update\<close>

definition terminal_fields :: "execution_status \<Rightarrow> string \<Rightarrow> int option \<Rightarrow> entity \<Rightarrow> entity" where
  "terminal_fields st now duration_ms e =
     (if st \<notin> {PENDING, RUNNING}
      then e(''CompletedAt'' \<mapsto> PStr now, ''DurationMs'' \<mapsto> of_int_opt duration_ms) else e)"

definition updated_execution :: "execution_status \<Rightarrow> string \<Rightarrow> int option \<Rightarrow> string option \<Rightarrow> bool
    \<Rightarrow> entity \<Rightarrow> entity" where
  "updated_execution st now duration_ms err in_blob e =
     (terminal_fields st now duration_ms (e(''Status'' \<mapsto> PStr (status_value st))))
       (''ErrorMessage'' \<mapsto> of_opt err, ''ResultInBlob'' \<mapsto> PBool in_blob)"

definition with_result :: "'w env \<Rightarrow> pyval \<Rightarrow> bool \<Rightarrow> entity \<Rightarrow> exn + entity" where
  "with_result E res in_blob e =
     (if truthy res \<and> \<not> in_blob then
        (if is_str res then Inr (e(''Result'' \<mapsto> res))
         else (case env_dumps E res of Inl x \<Rightarrow> Inl x | Inr s \<Rightarrow> Inr (e(''Result'' \<mapsto> PStr s))))
      else Inr e)"

definition updated_index :: "execution_status \<Rightarrow> string \<Rightarrow> int option \<Rightarrow> string option \<Rightarrow> entity \<Rightarrow> entity" where
  "updated_index st now duration_ms err e =
     (terminal_fields st now duration_ms (e(''Status'' \<mapsto> PStr (status_value st))))
       (''ErrorMessage'' \<mapsto> of_opt err)"

definition index_keys :: "'w env \<Rightarrow> string \<Rightarrow> string \<Rightarrow> string \<Rightarrow> pyval \<Rightarrow> pyval \<Rightarrow> string list" where
  "index_keys E xid p uid workflow_name form_id =
     [user_index_key uid xid, workflow_index_key (fstr E workflow_name) p xid]
     @ (if truthy form_id then [form_index_key (fstr E form_id) xid] else [])"

text \<open>The index rows that could be fetched; a failed fetch and a missing row are both left out.\<close>

definition found_indexes :: "(exn + entity option) list \<Rightarrow> entity list" where
  "found_indexes rs = concat (map (\<lambda>x. case x of Inr (Some e) \<Rightarrow> [e] | _ \<Rightarrow> []) rs)"

definition active_statuses :: "execution_status list" where
  "active_statuses = [PENDING, RUNNING, CANCELLING]"

definition new_status_index :: "string \<Rightarrow> string option \<Rightarrow> string \<Rightarrow> pyval \<Rightarrow> execution_status \<Rightarrow> string
    \<Rightarrow> entity \<Rightarrow> entity" where
  "new_status_index xid org uid workflow_name st now e =
     [''PartitionKey'' \<mapsto> PStr ''GLOBAL'', ''RowKey'' \<mapsto> PStr (status_index_key (status_value st) xid),
      ''ExecutionId'' \<mapsto> PStr xid, ''OrganizationId'' \<mapsto> of_opt org, ''WorkflowName'' \<mapsto> workflow_name,
      ''ExecutedBy'' \<mapsto> PStr uid, ''ExecutedByName'' \<mapsto> dget e ''ExecutedByName'' (PStr []),
      ''Status'' \<mapsto> PStr (status_value st), ''StartedAt'' \<mapsto> dget0 e ''StartedAt'',
      ''UpdatedAt'' \<mapsto> PStr now]"

definition old_status_key :: "pyval \<Rightarrow> string \<Rightarrow> string option" where
  "old_status_key old_status xid =
     (case find (\<lambda>s. old_status = PStr (status_value s)) active_statuses of
        Some s \<Rightarrow> Some (status_index_key (status_value s) xid) | None \<Rightarrow> None)"

text \<open>The status index: the old row goes, a new one comes for an active status; failures are logged.\<close>

definition update_status_index :: "'w env \<Rightarrow> pyval \<Rightarrow> string \<Rightarrow> execution_status \<Rightarrow> entity \<Rightarrow> ('w, unit) py" where
  "update_status_index E old_status xid st idx = py_catch
     (py_then
        (case old_status_key old_status xid of
           None \<Rightarrow> ret ()
         | Some k \<Rightarrow> py_catch (py_then (delete_entity E relationships_service ''GLOBAL'' k) (ret ())) (\<lambda>_. ret ()))
        (if st \<in> set active_statuses
         then py_then (insert_entity E relationships_service idx) (ret ()) else ret ()))
     (\<lambda>_. ret ())"

definition execution_filter :: "string \<Rightarrow> string \<Rightarrow> clause list" where
  "execution_filter p xid = [(''PartitionKey'', OEq, OStr p), (''ExecutionId'', OEq, OStr xid)]"

definition update_execution :: "'w env \<Rightarrow> repo \<Rightarrow> string \<Rightarrow> string option \<Rightarrow> string \<Rightarrow> execution_status
    \<Rightarrow> pyval \<Rightarrow> string option \<Rightarrow> int option \<Rightarrow> bool \<Rightarrow> ('w, model) py" where
  "update_execution E r xid org uid st res err duration_ms in_blob =
     py_bind (utcnow E) (\<lambda>n.
     let now = env_isoformat E n; p = partition_of org in
     py_bind (repo_query E r (odata (execution_filter p xid)) None) (\<lambda>results.
     case results of
       [] \<Rightarrow> raise (ValueError (''Execution '' @ xid @ '' not found in partition '' @ p))
     | e0 # _ \<Rightarrow>
       (let workflow_name = dget0 e0 ''WorkflowName''; form_id = dget0 e0 ''FormId'';
            old_status = dget e0 ''Status'' (PStr []) in
        py_bind (lift (with_result E res in_blob (updated_execution st now duration_ms err in_blob e0))) (\<lambda>e.
        py_then (repo_update E r e ''merge'')
        (py_bind (gather_exceptions E (map (get_entity E relationships_service ''GLOBAL'')
                    (index_keys E xid p uid workflow_name form_id))) (\<lambda>fetched.
         py_then (gather_exceptions E (map (\<lambda>i. update_entity E relationships_service
                    (updated_index st now duration_ms err i) ''merge'') (found_indexes fetched)))
         (py_then (update_status_index E old_status xid st (new_status_index xid org uid workflow_name st now e))
           (execution_entity_to_model E e))))))))"

section \<open>Reading\<close>

definition find_execution :: "'w env \<Rightarrow> repo \<Rightarrow> string \<Rightarrow> string option \<Rightarrow> ('w, entity list) py" where
  "find_execution E r xid org =
     py_bind (repo_query E r (odata (execution_filter (partition_of org) xid)) None) (\<lambda>results.
       if results = [] \<and> opt_truthy org
       then repo_query E r (odata (execution_filter ''GLOBAL'' xid)) None else ret results)"

definition get_execution :: "'w env \<Rightarrow> repo \<Rightarrow> string \<Rightarrow> string option \<Rightarrow> ('w, model option) py" where
  "get_execution E r xid org = py_bind (find_execution E r xid org) (\<lambda>results.
     case results of [] \<Rightarrow> ret None
     | e # _ \<Rightarrow> py_bind (execution_entity_to_model E e) (\<lambda>m. ret (Some m)))"

definition get_execution_status :: "'w env \<Rightarrow> repo \<Rightarrow> string \<Rightarrow> string option \<Rightarrow> ('w, pyval) py" where
  "get_execution_status E r xid org = py_bind (find_execution E r xid org) (\<lambda>results.
     case results of [] \<Rightarrow> ret PNone | e # _ \<Rightarrow> ret (dget0 e ''Status''))"

text \<open>A row of an index as a model: the fields \<open>own\<close> come from the query or the row.\<close>

definition index_to_model :: "'w env \<Rightarrow> entity \<Rightarrow> entity \<Rightarrow> ('w, model) py" where
  "index_to_model E own e = py_bind (utcnow E) (\<lambda>now. py_bind (lift (entity_status e)) (\<lambda>st.
     lift (env_validate E ''WorkflowExecution''
       ([''executionId'' \<mapsto> dget e ''ExecutionId'' (PStr []), ''orgId'' \<mapsto> dget0 e ''OrganizationId'',
         ''status'' \<mapsto> PStr (status_value st),
         ''startedAt'' \<mapsto> of_date_opt (parse_datetime E (dget0 e ''StartedAt'') (Some now)),
         ''completedAt'' \<mapsto> of_date_opt (parse_datetime E (dget0 e ''CompletedAt'') None),
         ''durationMs'' \<mapsto> dget0 e ''DurationMs'', ''errorMessage'' \<mapsto> dget0 e ''ErrorMessage'',
         ''inputData'' \<mapsto> PDict [], ''result'' \<mapsto> PNone, ''resultType'' \<mapsto> PNone, ''logs'' \<mapsto> PNone] ++ own))))"

definition index_filter :: "string \<Rightarrow> clause list" where
  "index_filter p = assignment_filter p"

definition user_row_fields :: "string \<Rightarrow> entity \<Rightarrow> entity" where
  "user_row_fields uid e =
     [''workflowName'' \<mapsto> dget e ''WorkflowName'' (PStr []), ''formId'' \<mapsto> dget0 e ''FormId'',
      ''executedBy'' \<mapsto> PStr uid, ''executedByName'' \<mapsto> dget e ''ExecutedByName'' (PStr uid)]"

definition list_executions_by_user :: "'w env \<Rightarrow> string \<Rightarrow> int \<Rightarrow> ('w, model list) py" where
  "list_executions_by_user E uid limit =
     py_bind (query_entities_paged E relationships_service (Some (odata (index_filter (''userexec:'' @ uid))))
        None limit PNone) (\<lambda>(es, _).
       py_map (\<lambda>e. index_to_model E (user_row_fields uid e) e) es)"

definition list_executions_by_user_paged ::
  "'w env \<Rightarrow> string \<Rightarrow> int \<Rightarrow> pyval \<Rightarrow> ('w, model list \<times> pyval) py" where
  "list_executions_by_user_paged E uid results_per_page token =
     py_bind (query_entities_paged E relationships_service (Some (odata (index_filter (''userexec:'' @ uid))))
        None results_per_page token) (\<lambda>(es, next).
       py_bind (py_map (\<lambda>e. index_to_model E (user_row_fields uid e) e) es) (\<lambda>ms. ret (ms, next)))"

definition workflow_row_fields :: "string \<Rightarrow> entity \<Rightarrow> entity" where
  "workflow_row_fields wname e =
     [''workflowName'' \<mapsto> PStr wname, ''formId'' \<mapsto> dget0 e ''FormId'',
      ''executedBy'' \<mapsto> dget e ''ExecutedBy'' (PStr []), ''executedByName'' \<mapsto> dget e ''ExecutedByName'' (PStr [])]"

definition list_executions_by_workflow ::
  "'w env \<Rightarrow> string \<Rightarrow> string option \<Rightarrow> int \<Rightarrow> ('w, model list) py" where
  "list_executions_by_workflow E wname org limit =
     py_bind (query_entities E relationships_service
        (Some (odata (index_filter (''workflowexec:'' @ wname @ '':'' @ partition_of org)))) None) (\<lambda>es.
       py_map (\<lambda>e. index_to_model E (workflow_row_fields wname e) e) (py_take limit es))"

definition form_row_fields :: "string \<Rightarrow> entity \<Rightarrow> entity" where
  "form_row_fields fid e =
     [''workflowName'' \<mapsto> dget e ''WorkflowName'' (PStr []), ''formId'' \<mapsto> PStr fid,
      ''executedBy'' \<mapsto> dget e ''ExecutedBy'' (PStr []), ''executedByName'' \<mapsto> dget e ''ExecutedByName'' (PStr [])]"

definition list_executions_by_form :: "'w env \<Rightarrow> string \<Rightarrow> int \<Rightarrow> ('w, model list) py" where
  "list_executions_by_form E fid limit =
     py_bind (query_entities E relationships_service
        (Some (odata (index_filter (''formexec:'' @ fid)))) None) (\<lambda>es.
       py_map (\<lambda>e. index_to_model E (form_row_fields fid e) e) (py_take limit es))"

definition org_executions_filter :: "string \<Rightarrow> clause list" where
  "org_executions_filter p = [(''PartitionKey'', OEq, OStr p),
     (''RowKey'', OGe, OStr ''execution:''), (''RowKey'', OLt, OStr ''execution;'')]"

definition list_executions_for_org :: "'w env \<Rightarrow> repo \<Rightarrow> string \<Rightarrow> int \<Rightarrow> ('w, entity list) py" where
  "list_executions_for_org E r org limit =
     py_bind (repo_query E r (odata (org_executions_filter org)) None) (\<lambda>es. ret (py_take limit es))"

definition list_executions :: "'w env \<Rightarrow> repo \<Rightarrow> string option \<Rightarrow> int \<Rightarrow> ('w, model list) py" where
  "list_executions E r org limit =
     py_bind (repo_query_paged E r (odata (org_executions_filter (partition_of org))) None limit PNone)
       (\<lambda>(es, _). py_map (execution_entity_to_model E) es)"

definition list_executions_paged ::
  "'w env \<Rightarrow> repo \<Rightarrow> string option \<Rightarrow> int \<Rightarrow> pyval \<Rightarrow> ('w, model list \<times> pyval) py" where
  "list_executions_paged E r org results_per_page token =
     py_bind (repo_query_paged E r (odata (org_executions_filter (partition_of org))) None results_per_page token)
       (\<lambda>(es, next). py_bind (py_map (execution_entity_to_model E) es) (\<lambda>ms. ret (ms, next)))"

section \<open>Stuck executions\<close>

text \<open>
  One row of the status index: \<open>None\<close> when it is skipped or young enough, the model when it is
  older than the timeout, an exception (which the loop logs) otherwise. Ages are in microseconds.
\<close>

definition stuck_execution :: "'w env \<Rightarrow> datetime \<Rightarrow> execution_status \<Rightarrow> int \<Rightarrow> entity \<Rightarrow> exn + model option" where
  "stuck_execution E now st timeout_minutes e =
     (let v = (if truthy (dget0 e ''StartedAt'') then dget0 e ''StartedAt'' else dget0 e ''UpdatedAt'') in
      if \<not> truthy v then Inr None
      else (case parse_datetime E v (Some now) of
          None \<Rightarrow> Inr None
        | Some started \<Rightarrow> (case dt_diff now started of
            Inl x \<Rightarrow> Inl x
          | Inr age \<Rightarrow>
            (if timeout_minutes * 60000000 < age then
              (case env_validate E ''WorkflowExecution''
                 [''executionId'' \<mapsto> dget e ''ExecutionId'' (PStr []),
                  ''workflowName'' \<mapsto> dget e ''WorkflowName'' (PStr []),
                  ''orgId'' \<mapsto> dget0 e ''OrganizationId'', ''formId'' \<mapsto> PNone,
                  ''status'' \<mapsto> PStr (status_value st),
                  ''executedBy'' \<mapsto> dget e ''ExecutedBy'' (PStr []),
                  ''executedByName'' \<mapsto> dget e ''ExecutedByName'' (PStr []),
                  ''startedAt'' \<mapsto> PDate started, ''completedAt'' \<mapsto> PNone, ''durationMs'' \<mapsto> PNone,
                  ''errorMessage'' \<mapsto> PNone, ''inputData'' \<mapsto> PDict [], ''result'' \<mapsto> PNone,
                  ''resultType'' \<mapsto> PNone, ''logs'' \<mapsto> PNone] of
                 Inl x \<Rightarrow> Inl x | Inr m \<Rightarrow> Inr (Some m))
             else Inr None))))"

definition stuck_in :: "'w env \<Rightarrow> datetime \<Rightarrow> execution_status \<Rightarrow> int \<Rightarrow> entity list \<Rightarrow> model list" where
  "stuck_in E now st timeout_minutes es = concat (map (\<lambda>e.
     case stuck_execution E now st timeout_minutes e of Inr (Some m) \<Rightarrow> [m] | _ \<Rightarrow> []) es)"

definition get_stuck_executions :: "'w env \<Rightarrow> int \<Rightarrow> int \<Rightarrow> int \<Rightarrow> ('w, model list) py" where
  "get_stuck_executions E pending_timeout running_timeout cancelling_timeout =
     py_bind (utcnow E) (\<lambda>now.
     py_bind (py_map (\<lambda>(st, timeout). py_catch
         (py_bind (query_entities E relationships_service
             (Some (odata (index_filter (''status:'' @ status_value st)))) None)
           (\<lambda>es. ret (stuck_in E now st timeout es)))
         (\<lambda>_. ret []))
       [(PENDING, pending_timeout), (RUNNING, running_timeout), (CANCELLING, cancelling_timeout)]) (\<lambda>mss.
     ret (concat mss)))"

section \<open>Lemmas\<close>

lemma status_of_value [simp]: "status_of (PStr (status_value s)) = Inr s"
  by (cases s) (simp_all add: status_of_def all_statuses_def)

lemma status_value_inject [simp]: "status_value s = status_value t \<longleftrightarrow> s = t"
  by (cases s; cases t) simp_all

text \<open>Thirteen digits, as long as the time is before the year 2255.\<close>

lemma reverse_timestamp_less:
  assumes "0 \<le> env_timestamp_ms E d1" "env_timestamp_ms E d1 < env_timestamp_ms E d2"
    and "env_timestamp_ms E d2 \<le> 8999999999999"
  shows "reverse_timestamp E d2 < reverse_timestamp E d1"
    and "length (reverse_timestamp E d2) = length (reverse_timestamp E d1)"
proof -
  let ?n = "\<lambda>d. nat (9999999999999 - env_timestamp_ms E d)"
  have digits: "length (str_nat (?n d)) = 13"
    if "0 \<le> env_timestamp_ms E d" "env_timestamp_ms E d \<le> 8999999999999" for d
    using length_str_nat [of 12 "?n d"] that by simp
  have str: "reverse_timestamp E d = str_nat (?n d)" if "env_timestamp_ms E d \<le> 8999999999999" for d
    using that by (simp add: reverse_timestamp_def str_int_def)
  have len: "length (str_nat (?n d2)) = length (str_nat (?n d1))"
    using digits [of d1] digits [of d2] assms by simp
  then show "length (reverse_timestamp E d2) = length (reverse_timestamp E d1)"
    using assms by (simp add: str)
  have "?n d2 < ?n d1" using assms by linarith
  then show "reverse_timestamp E d2 < reverse_timestamp E d1"
    using str_nat_less [OF _ len] assms by (simp add: str)
qed

lemma index_entity_keys [simp]:
  "entity_key (execution_entity xid p rts uid uname wname input fid now) = Some (p, execution_key rts xid)"
  "entity_key (user_index_entity xid org uid uname wname fid now) = Some (''GLOBAL'', user_index_key uid xid)"
  "entity_key (workflow_index_entity xid org uid uname wname fid now)
     = Some (''GLOBAL'', workflow_index_key wname (partition_of org) xid)"
  "entity_key (form_index_entity xid org uid uname wname f now) = Some (''GLOBAL'', form_index_key f xid)"
  "entity_key (status_index_entity xid org uid uname wname now)
     = Some (''GLOBAL'', status_index_key (status_value RUNNING) xid)"
  by (simp_all add: entity_key_Some execution_entity_def user_index_entity_def workflow_index_entity_def
      form_index_entity_def status_index_entity_def)

definition index_row_keys :: "string \<Rightarrow> string option \<Rightarrow> string \<Rightarrow> string \<Rightarrow> string option \<Rightarrow> key set" where
  "index_row_keys xid org uid wname fid = Pair ''GLOBAL'' `
     ({user_index_key uid xid, workflow_index_key wname (partition_of org) xid,
       status_index_key (status_value RUNNING) xid}
      \<union> (if opt_truthy fid then {form_index_key (str_or fid []) xid} else {}))"

lemma index_entities_keyed:
  "e \<in> set (index_entities xid org uid uname wname fid now) \<Longrightarrow> entity_key e = Some (the (entity_key e))"
  by (auto simp: index_entities_def split: if_splits)

lemma index_entities_keys:
  "(the \<circ> entity_key) ` set (index_entities xid org uid uname wname fid now) = index_row_keys xid org uid wname fid"
  by (auto simp: index_entities_def index_row_keys_def)

text \<open>The primary row was inserted, and nothing else was done but adding index rows.\<close>

definition begun :: "tables \<Rightarrow> string \<Rightarrow> string \<Rightarrow> key set \<Rightarrow> tables \<Rightarrow> bool" where
  "begun R p xid K R' \<longleftrightarrow> (\<exists>k row. R ''Entities'' (p, k) = None
     \<and> row ''ExecutionId'' = Some (PStr xid) \<and> row ''Status'' = Some (PStr ''Running'')
     \<and> grows ''Relationships'' K (put_row ''Entities'' (p, k) (Some row) R) R')"

context table_sdk
begin

text \<open>Concurrent insertions: nothing is replaced, and when none fails every row is there.\<close>

lemma wp_gather_inserts:
  assumes keyed: "\<And>e. e \<in> set es \<Longrightarrow> entity_key e = Some (the (entity_key e))"
    and Q: "\<And>w' x. grows (svc_table s) ((the \<circ> entity_key) ` set es) (env_rows E w) (env_rows E w')
      \<Longrightarrow> (\<And>e. e \<in> set es \<Longrightarrow> env_rows E w' (svc_table s) (the (entity_key e)) = Some (stored E e)) \<Longrightarrow> Q x w'"
    and R: "\<And>w' x. grows (svc_table s) ((the \<circ> entity_key) ` set es) (env_rows E w) (env_rows E w') \<Longrightarrow> R x w'"
  shows "wp (gather E (map (insert_entity E s) es)) Q R w"
proof (rule wp_gather [where
      I = "\<lambda>v. grows (svc_table s) ((the \<circ> entity_key) ` set es) (env_rows E w) (env_rows E v)"
      and G = "\<lambda>i v. env_rows E v (svc_table s) (the (entity_key (es ! i))) = Some (stored E (es ! i))"])
  fix i v
  assume "i < length (map (insert_entity E s) es)"
    and v: "grows (svc_table s) ((the \<circ> entity_key) ` set es) (env_rows E w) (env_rows E v)"
  then have i: "i < length es" "es ! i \<in> set es" by simp_all
  then have k: "the (entity_key (es ! i)) \<in> (the \<circ> entity_key) ` set es" by auto
  show "wp (map (insert_entity E s) es ! i)
      (\<lambda>_ w'. grows (svc_table s) ((the \<circ> entity_key) ` set es) (env_rows E w) (env_rows E w')
         \<and> env_rows E w' (svc_table s) (the (entity_key (es ! i))) = Some (stored E (es ! i)))
      (\<lambda>_ w'. grows (svc_table s) ((the \<circ> entity_key) ` set es) (env_rows E w) (env_rows E w')) v"
    unfolding nth_map [OF i(1)]
    by (rule wp_insert_entity [OF keyed [OF i(2)]]) (use v k in \<open>auto intro: grows_insert\<close>)
next
  fix i j v
  assume "i < length (map (insert_entity E s) es)"
    and g: "env_rows E v (svc_table s) (the (entity_key (es ! j))) = Some (stored E (es ! j))"
  then have i: "i < length es" "es ! i \<in> set es" by simp_all
  show "wp (map (insert_entity E s) es ! i)
      (\<lambda>_ w'. env_rows E w' (svc_table s) (the (entity_key (es ! j))) = Some (stored E (es ! j)))
      (\<lambda>_ w'. env_rows E w' (svc_table s) (the (entity_key (es ! j))) = Some (stored E (es ! j))) v"
    unfolding nth_map [OF i(1)]
    by (rule wp_insert_entity [OF keyed [OF i(2)]]) (use g in \<open>auto simp: put_row_apply\<close>)
next
  fix rs v
  assume "grows (svc_table s) ((the \<circ> entity_key) ` set es) (env_rows E w) (env_rows E v)"
    and "\<And>i. i < length (map (insert_entity E s) es)
      \<Longrightarrow> env_rows E v (svc_table s) (the (entity_key (es ! i))) = Some (stored E (es ! i))"
  then show "Q rs v" by (intro Q) (auto simp: in_set_conv_nth)
qed (simp_all add: R)

lemma wp_execution_model:
  assumes "env_rows E w = T"
  shows "wp (execution_entity_to_model E e) (\<lambda>_ w'. env_rows E w' = T) (\<lambda>_ w'. env_rows E w' = T) w"
  unfolding execution_entity_to_model_def wp_bind
  by (rule wp_utcnow) (use assms in \<open>auto split: sum.splits prod.splits simp: Let_def\<close>)

lemma wp_create_execution:
  assumes r: "repo_table r = ''Entities''"
  shows "wp (create_execution E r xid org uid uname wname input fid)
    (\<lambda>_ w'. begun (env_rows E w) (partition_of org) xid (index_row_keys xid org uid wname fid) (env_rows E w')
       \<and> (\<forall>k \<in> index_row_keys xid org uid wname fid. \<exists>row. env_rows E w' ''Relationships'' k = Some row
            \<and> row ''ExecutionId'' = Some (PStr xid) \<and> row ''Status'' = Some (PStr ''Running'')))
    (\<lambda>_ w'. env_rows E w' = env_rows E w
       \<or> begun (env_rows E w) (partition_of org) xid (index_row_keys xid org uid wname fid) (env_rows E w')) w"
  unfolding create_execution_def wp_bind
proof (rule wp_utcnow, goal_cases)
  case (1 now w1)
  show ?case
  proof (cases "env_dumps E input")
  case (Inr inp)
  let ?p = "partition_of org" and ?K = "index_row_keys xid org uid wname fid"
  let ?e = "execution_entity xid ?p (reverse_timestamp E now) uid uname wname inp fid (env_isoformat E now)"
  let ?es = "index_entities xid org uid uname wname fid (env_isoformat E now)"
  let ?k = "execution_key (reverse_timestamp E now) xid"
  have begun: "begun (env_rows E w) ?p xid ?K (env_rows E w')"
    if "env_rows E w ''Entities'' (?p, ?k) = None"
      "grows ''Relationships'' ?K (put_row ''Entities'' (?p, ?k) (Some (stored E ?e)) (env_rows E w)) (env_rows E w')" for w'
    unfolding begun_def by (intro exI conjI) (use that in \<open>auto simp: execution_entity_def\<close>)
  show ?thesis
    unfolding repo_insert_def Let_def wp_then wp_lift Inr sum.case
  proof (rule wp_insert_entity [where k = "(?p, ?k)"], goal_cases)
    case (2 w2)
    have p: "env_rows E w ''Entities'' (?p, ?k) = None"
      "env_rows E w2 = put_row ''Entities'' (?p, ?k) (Some (stored E ?e)) (env_rows E w)"
      using 2 \<open>env_rows E w1 = env_rows E w\<close> r by (simp_all add: repo_service_def)
    show ?case
    proof (rule wp_gather_inserts, goal_cases)
      case (1 e)
      then show ?case by (rule index_entities_keyed)
    next
      case (2 w3 rs)
      then have g: "begun (env_rows E w) ?p xid ?K (env_rows E w3)"
        by (intro begun) (simp_all add: p index_entities_keys [unfolded comp_def] relationships_service_def)
      have rows: "\<exists>row. env_rows E w3 ''Relationships'' k = Some row
            \<and> row ''ExecutionId'' = Some (PStr xid) \<and> row ''Status'' = Some (PStr ''Running'')" if k: "k \<in> ?K" for k
      proof -
        obtain e where e: "e \<in> set ?es" "k = the (entity_key e)"
          using k unfolding index_entities_keys [symmetric, of xid org uid wname fid uname "env_isoformat E now"]
          by auto
        moreover have "e ''ExecutionId'' = Some (PStr xid)" "e ''Status'' = Some (PStr ''Running'')"
          using e(1) by (auto simp: index_entities_def user_index_entity_def workflow_index_entity_def
              form_index_entity_def status_index_entity_def split: if_splits)
        ultimately show ?thesis
          using 2(2) [OF e(1)] by (auto simp: relationships_service_def)
      qed
      show ?case
        by (rule wp_mono [OF wp_execution_model [OF refl]]) (use g rows in auto)
    next
      case (3 w3 x)
      then show ?case
        by (intro disjI2 begun) (simp_all add: p index_entities_keys [unfolded comp_def] relationships_service_def)
    qed
  next
    case (4 x w2)
    then show ?case using \<open>env_rows E w1 = env_rows E w\<close> r
      by (intro disjI2 begun) (simp_all add: repo_service_def)
  qed (use \<open>env_rows E w1 = env_rows E w\<close> in simp_all)
  qed (use 1 in simp)
qed

end

text \<open>
  The life cycle of an execution: one primary row, whose \<open>Status\<close> is \<open>s\<close>, and a row in the status
  index exactly for \<open>s\<close>, when \<open>s\<close> is one of the statuses the cleanup looks for.
\<close>

definition primary_row :: "tables \<Rightarrow> string \<Rightarrow> string \<Rightarrow> execution_status \<Rightarrow> string \<Rightarrow> bool" where
  "primary_row R p xid s k \<longleftrightarrow>
     (\<exists>e. R ''Entities'' (p, k) = Some e \<and> e ''ExecutionId'' = Some (PStr xid)
        \<and> e ''Status'' = Some (PStr (status_value s)))
     \<and> (\<forall>k' e'. R ''Entities'' (p, k') = Some e' \<and> e' ''ExecutionId'' = Some (PStr xid) \<longrightarrow> k' = k)"

definition status_indexed :: "tables \<Rightarrow> string \<Rightarrow> execution_status \<Rightarrow> bool" where
  "status_indexed R xid s \<longleftrightarrow> (\<forall>s'. R ''Relationships'' (''GLOBAL'', status_index_key (status_value s') xid) = None
     \<longleftrightarrow> s' \<noteq> s \<or> s \<notin> set active_statuses)"

definition in_status :: "tables \<Rightarrow> string \<Rightarrow> string \<Rightarrow> execution_status \<Rightarrow> bool" where
  "in_status R p xid s \<longleftrightarrow> (\<exists>k. primary_row R p xid s k) \<and> status_indexed R xid s"

text \<open>Only values of rows of \<open>Relationships\<close> have changed.\<close>

definition same_rows :: "tables \<Rightarrow> tables \<Rightarrow> bool" where
  "same_rows R R' \<longleftrightarrow> R' ''Entities'' = R ''Entities''
     \<and> (\<forall>k. R' ''Relationships'' k \<noteq> None \<longleftrightarrow> R ''Relationships'' k \<noteq> None)"

lemma same_rows_refl [simp]: "same_rows R R"
  by (simp add: same_rows_def)

lemma same_rows_trans: "same_rows R S \<Longrightarrow> same_rows S T \<Longrightarrow> same_rows R T"
  by (simp add: same_rows_def)

lemma same_rows_put: "R ''Relationships'' k = Some old \<Longrightarrow> same_rows R (put_row ''Relationships'' k (Some e) R)"
  by (auto simp: same_rows_def put_row_def)

lemma status_indexed_same:
  assumes "same_rows R R'" and "status_indexed R xid s"
  shows "status_indexed R' xid s"
proof -
  have "R' ''Relationships'' k = None \<longleftrightarrow> R ''Relationships'' k = None" for k
    using assms(1) unfolding same_rows_def by blast
  then show ?thesis using assms(2) by (simp add: status_indexed_def)
qed

lemma primary_row_updated:
  assumes "primary_row R p xid s k" and "e ''ExecutionId'' = Some (PStr xid)"
    and "e ''Status'' = Some (PStr (status_value st))"
  shows "primary_row (put_row ''Entities'' (p, k) (Some (write_row Merge e (Some old))) R) p xid st k"
  using assms by (auto simp: primary_row_def put_row_apply write_row_def map_add_def drop_none_apply)

lemma with_result_fields:
  assumes "with_result E res b (updated_execution st now ms err b d) = Inr e"
  shows "e ''PartitionKey'' = d ''PartitionKey''" "e ''RowKey'' = d ''RowKey''"
    "e ''ExecutionId'' = d ''ExecutionId''" "e ''Status'' = Some (PStr (status_value st))"
  using assms by (auto simp: with_result_def updated_execution_def terminal_fields_def split: if_splits sum.splits)

lemma in_statusI:
  "primary_row R p xid s k \<Longrightarrow> status_indexed R' xid s \<Longrightarrow> R' ''Entities'' = R ''Entities''
   \<Longrightarrow> in_status R' p xid s"
  unfolding in_status_def primary_row_def by metis

lemma old_status_key_value:
  "old_status_key (PStr (status_value s)) xid
     = (if s \<in> set active_statuses then Some (status_index_key (status_value s) xid) else None)"
  by (cases s) (simp_all add: old_status_key_def active_statuses_def)

lemma status_index_key_inject [simp]: "status_index_key (status_value s) x = status_index_key (status_value t) x \<longleftrightarrow> s = t"
  by (simp add: status_index_key_def)

lemma new_status_index_key [simp]:
  "entity_key (new_status_index xid org uid wn st now e) = Some (''GLOBAL'', status_index_key (status_value st) xid)"
  by (simp add: new_status_index_def entity_key_Some)

context available_sdk
begin

lemma wp_update_keeps_rows:
  assumes "ok w"
  shows "wp (update_entity E relationships_service e mode)
    (\<lambda>_ w'. ok w' \<and> same_rows (env_rows E w) (env_rows E w'))
    (\<lambda>_ w'. ok w' \<and> same_rows (env_rows E w) (env_rows E w')) w"
proof -
  have upd: "wp (sdk_update E ''Relationships'' e' m None)
    (\<lambda>_ w'. ok w' \<and> same_rows (env_rows E w) (env_rows E w'))
    (\<lambda>_ w'. ok w' \<and> same_rows (env_rows E w) (env_rows E w')) w" for e' m
    by (rule wp_mono [OF wp_conj [OF update_law update_ok [OF assms]]]) (auto intro: same_rows_put)
  show ?thesis
    unfolding update_entity_def relationships_service_def
    using assms upd by (auto simp: Let_def split: sum.splits)
qed

lemma wp_get_reads_ok:
  assumes "ok w"
  shows "wp (get_entity E s p r) (\<lambda>_ w'. ok w' \<and> same_rows (env_rows E w) (env_rows E w'))
    (\<lambda>_ w'. ok w' \<and> same_rows (env_rows E w) (env_rows E w')) w"
  by (rule wp_get_entity_ok [OF assms]) simp_all

lemma wp_gather_keeps:
  assumes "ok w"
    and "\<And>t v. t \<in> set ts \<Longrightarrow> ok v \<Longrightarrow> wp t (\<lambda>_ w'. ok w' \<and> same_rows (env_rows E v) (env_rows E w'))
      (\<lambda>_ w'. ok w' \<and> same_rows (env_rows E v) (env_rows E w')) v"
    and "\<And>rs w'. ok w' \<Longrightarrow> same_rows (env_rows E w) (env_rows E w') \<Longrightarrow> Q rs w'"
  shows "wp (gather_exceptions E ts) Q R w"
proof (rule wp_gather_exceptions [where I = "\<lambda>v. ok v \<and> same_rows (env_rows E w) (env_rows E v)" and G = "\<lambda>_ _. True"])
  fix i v
  assume i: "i < length ts" and v: "ok v \<and> same_rows (env_rows E w) (env_rows E v)"
  then have "wp (ts ! i) (\<lambda>_ w'. ok w' \<and> same_rows (env_rows E v) (env_rows E w'))
      (\<lambda>_ w'. ok w' \<and> same_rows (env_rows E v) (env_rows E w')) v"
    by (intro assms(2)) simp_all
  then show "wp (ts ! i) (\<lambda>_ w'. (ok w' \<and> same_rows (env_rows E w) (env_rows E w')) \<and> True)
      (\<lambda>_ w'. ok w' \<and> same_rows (env_rows E w) (env_rows E w')) v"
    by (rule wp_mono) (use v in \<open>auto intro: same_rows_trans\<close>)
qed (use assms(1,3) in \<open>auto simp: wp_def split: prod.splits sum.splits\<close>)

text \<open>The status index after the update: the old row is gone, that of an active status is there.\<close>

lemma wp_update_status_index:
  assumes "ok w" and "entity_key idx = Some (''GLOBAL'', status_index_key (status_value st) xid)"
    and "status_indexed (env_rows E w) xid s"
  shows "wp (update_status_index E (PStr (status_value s)) xid st idx)
    (\<lambda>_ w'. ok w' \<and> status_indexed (env_rows E w') xid st
       \<and> env_rows E w' ''Entities'' = env_rows E w ''Entities'') (\<lambda>_ _. False) w"
proof -
  let ?P = "\<lambda>v. ok v \<and> (\<forall>s'. env_rows E v ''Relationships'' (''GLOBAL'', status_index_key (status_value s') xid) = None)
    \<and> env_rows E v ''Entities'' = env_rows E w ''Entities''"
  let ?Q = "\<lambda>_ w'. ok w' \<and> status_indexed (env_rows E w') xid st
       \<and> env_rows E w' ''Entities'' = env_rows E w ''Entities''"
  have t: "svc_table relationships_service = ''Relationships''" by (simp add: relationships_service_def)
  have ins: "wp (if st \<in> set active_statuses then py_then (insert_entity E relationships_service idx) (ret ()) else ret ())
      ?Q (\<lambda>_ _. False) v" if "?P v" for v
    using that assms(2)
    by (auto simp: t status_indexed_def put_row_apply intro!: wp_insert_entity_ok split: if_splits)
  have "wp (case old_status_key (PStr (status_value s)) xid of None \<Rightarrow> ret ()
      | Some k \<Rightarrow> py_catch (py_then (delete_entity E relationships_service ''GLOBAL'' k) (ret ())) (\<lambda>_. ret ()))
      (\<lambda>_. ?P) (\<lambda>_ _. False) w"
  proof (cases "s \<in> set active_statuses")
    case True
    have "?P v" if "ok v" "env_rows E v = put_row ''Relationships''
        (''GLOBAL'', status_index_key (status_value s) xid) None (env_rows E w)" for v
      using that assms(3) by (simp add: status_indexed_def put_row_apply put_row_def)
    then show ?thesis
      using True assms(1) by (simp add: old_status_key_value) (rule wp_delete_entity_ok, simp_all add: t)
  qed (use assms(1,3) in \<open>simp add: old_status_key_value status_indexed_def\<close>)
  then have "wp (py_then (case old_status_key (PStr (status_value s)) xid of None \<Rightarrow> ret ()
      | Some k \<Rightarrow> py_catch (py_then (delete_entity E relationships_service ''GLOBAL'' k) (ret ())) (\<lambda>_. ret ()))
      (if st \<in> set active_statuses then py_then (insert_entity E relationships_service idx) (ret ()) else ret ()))
      ?Q (\<lambda>_ _. False) w"
    unfolding wp_then by (rule wp_mono) (use ins in auto)
  then show ?thesis
    unfolding update_status_index_def wp_catch by (rule wp_mono) auto
qed

lemma stays_entities_ok [stays_intros]:
  "stays ok (insert_entity E s e)" "stays ok (update_entity E s e mode)" "stays ok (get_entity E s p k)"
  "stays ok (delete_entity E s p k)" "stays ok (execution_entity_to_model E e)"
  unfolding insert_entity_def update_entity_def get_entity_def delete_entity_def execution_entity_to_model_def
  by (intro stays_intros)+

lemma stays_find_ok:
  "no_quote xid \<Longrightarrow> no_quote p \<Longrightarrow> stays ok (repo_query E r (odata (execution_filter p xid)) None)"
  unfolding repo_query_def query_entities_def execution_filter_def
  by (simp add: odata_nonempty del: odata.simps) (intro stays_intros, simp)

lemma stays_update_execution:
  assumes "no_quote xid" and "no_quote (partition_of org)"
  shows "stays ok (update_execution E r xid org uid st res err ms in_blob)"
  unfolding update_execution_def update_status_index_def repo_update_def Let_def
  by (intro stays_intros stays_find_ok assms) (auto intro: stays_intros)

lemma stays_create_execution: "stays ok (create_execution E r xid org uid uname wname input fid)"
  unfolding create_execution_def repo_insert_def Let_def by (intro stays_intros) (auto intro: stays_intros)

lemma wp_update_execution:
  assumes "ok w" and r: "repo_table r = ''Entities''"
    and "no_quote xid" "no_quote (partition_of org)"
    and st0: "in_status (env_rows E w) (partition_of org) xid s"
  shows "wp (update_execution E r xid org uid st res err ms in_blob)
    (\<lambda>_ w'. in_status (env_rows E w') (partition_of org) xid st)
    (\<lambda>_ w'. \<exists>s' \<in> {s, st}. in_status (env_rows E w') (partition_of org) xid s') w"
proof -
  let ?p = "partition_of org" and ?R = "env_rows E w"
  obtain k0 where prim: "primary_row ?R ?p xid s k0" using st0 by (auto simp: in_status_def)
  obtain e0 where e0: "?R ''Entities'' (?p, k0) = Some e0" "e0 ''ExecutionId'' = Some (PStr xid)"
    "e0 ''Status'' = Some (PStr (status_value s))"
    using prim by (auto simp: primary_row_def)
  have key0: "entity_key e0 = Some (?p, k0)" by (rule rows_keyed [OF e0(1)])
  let ?d = "deserialize_datetime_fields E e0"
  show ?thesis
    unfolding update_execution_def wp_bind
  proof (rule wp_utcnow_ok [OF assms(1)], goal_cases)
    case (1 n w1)
    note w1 = 1
    show ?case
      unfolding Let_def repo_query_def wp_bind
    proof (rule wp_query_entities_ok [OF w1(1)], goal_cases)
      case 1
      show ?case using assms(3,4) by (simp add: execution_filter_def)
    next
      case 2
      show ?case by (simp add: execution_filter_def odata_nonempty del: odata.simps)
    next
      case (3 ks w2)
      have "(q, k) \<in> set ks \<longleftrightarrow> (q, k) = (?p, k0)" for q k
      proof -
        have "(q, k) \<in> set ks \<longleftrightarrow> (\<exists>e. ?R ''Entities'' (q, k) = Some e \<and> sat (execution_filter ?p xid) e)"
          using selects_iff [OF 3(3), of "(q, k)"] w1(2) r by (simp add: repo_service_def)
        also have "\<dots> \<longleftrightarrow> (q, k) = (?p, k0)"
          using prim e0 key0 rows_keyed [of w "''Entities''" "(q, k)"]
          by (auto simp: execution_filter_def primary_row_def entity_key_Some simp del: sat_clause.simps(1))
        finally show ?thesis .
      qed
      then have "set ks = {(?p, k0)}" by auto
      moreover have "distinct ks" using 3(3) by (simp add: selects_def)
      ultimately have ks: "ks = [(?p, k0)]"
        by (cases ks; cases "tl ks") auto
      have res: "map (deserialize_datetime_fields E) (fetch None (env_rows E w1 (svc_table (repo_service r))) ks) = [?d]"
        using w1(2) r e0 by (simp add: ks fetch_def repo_service_def)
      have old: "dget ?d ''Status'' (PStr []) = PStr (status_value s)"
        using e0(3) by simp
      have w2: "ok w2" "env_rows E w2 = ?R" using 3 w1 by simp_all
      let ?u = "updated_execution st (env_isoformat E n) ms err in_blob ?d"
      show ?case
      proof (cases "with_result E res in_blob ?u")
        case (Inl x)
        show ?thesis
          unfolding res list.case old wp_bind wp_lift Inl sum.case using st0 w2 by simp
      next
        case (Inr e)
        note e = with_result_fields [OF Inr]
        have key: "entity_key e = Some (?p, k0)"
          using e key0 by (simp add: entity_key_Some)
        show ?thesis
          unfolding res list.case old wp_bind wp_lift Inr sum.case wp_then repo_update_def
        proof (rule wp_update_entity_ok [OF w2(1) key, where old = e0], goal_cases)
          case 1
          show ?case using w2(2) e0(1) r by (simp add: repo_service_def)
        next
          case (2 w3)
          have R3: "env_rows E w3 = put_row ''Entities'' (?p, k0)
              (Some (write_row Merge (serialize_datetime_fields E e) (Some e0))) ?R"
            using 2 w2(2) r by (simp add: repo_service_def mode_of_def)
          have prim3: "primary_row (env_rows E w3) ?p xid st k0"
            unfolding R3 by (rule primary_row_updated [OF prim]) (use e e0 in simp_all)
          have ind3: "status_indexed (env_rows E w3) xid s"
            using st0 unfolding R3 by (simp add: in_status_def status_indexed_def put_row_def)
          show ?case
            unfolding wp_bind
          proof (rule wp_gather_keeps [OF 2(1)], goal_cases)
            case (1 t v)
            then show ?case
              by (auto intro: wp_get_reads_ok)
          next
            case (2 rs w4)
            show ?case
            proof (rule wp_gather_keeps [OF 2(1)], goal_cases)
              case (1 t v)
              then show ?case by (auto intro: wp_update_keeps_rows)
            next
              case (2 rs' w5)
              have same: "same_rows (env_rows E w3) (env_rows E w5)"
                by (rule same_rows_trans) fact+
              have prim5: "primary_row (env_rows E w5) ?p xid st k0"
                using prim3 same by (simp add: primary_row_def same_rows_def)
              have "status_indexed (env_rows E w5) xid s"
                by (rule status_indexed_same [OF same ind3])
              from wp_update_status_index [OF 2(1) new_status_index_key this]
              show ?case
                by (rule wp_mono)
                  (auto intro!: wp_mono [OF wp_execution_model [OF refl]] in_statusI [OF prim5])
            qed
          qed
        qed
      qed
    qed
  qed
qed

end

subsection \<open>Reading one execution\<close>

definition has_execution :: "(key \<Rightarrow> entity option) \<Rightarrow> string \<Rightarrow> string \<Rightarrow> entity \<Rightarrow> bool" where
  "has_execution T p xid e \<longleftrightarrow> (\<exists>k. T (p, k) = Some e) \<and> e ''ExecutionId'' = Some (PStr xid)"

lemma clean_execution_filter:
  "no_quote p \<Longrightarrow> no_quote xid \<Longrightarrow> \<forall>c \<in> set (execution_filter p xid). clean_clause c"
  "odata (execution_filter p xid) \<noteq> []"
  by (simp_all add: execution_filter_def odata_nonempty del: odata.simps)

context table_sdk
begin

lemma wp_query_execution:
  assumes "no_quote p" "no_quote xid"
  shows "wp (repo_query E r (odata (execution_filter p xid)) None)
    (\<lambda>es w'. env_rows E w' = env_rows E w \<and> set es = deserialize_datetime_fields E
       ` {e. has_execution (env_rows E w (repo_table r)) p xid e}) (\<lambda>_ _. True) w"
  unfolding repo_query_def
proof (rule wp_query_entities [OF clean_execution_filter], goal_cases)
  case (3 ks w')
  let ?T = "env_rows E w (repo_table r)"
  have T: "svc_table (repo_service r) = repo_table r" by (simp add: repo_service_def)
  have key: "entity_key e = Some k" if "?T k = Some e" for k e
    by (rule rows_keyed [OF that])
  have "k \<in> set ks \<longleftrightarrow> (\<exists>e. ?T k = Some e \<and> fst k = p \<and> e ''ExecutionId'' = Some (PStr xid))" for k
    using selects_iff [OF 3(2), of k] key [of k] T
    by (cases k) (auto simp: execution_filter_def entity_key_Some simp del: sat_clause.simps(1))
  note in_ks = this
  have "(\<lambda>k. the (?T k)) ` set ks = {e. has_execution ?T p xid e}"
  proof (intro set_eqI iffI, goal_cases)
    case (1 x)
    then obtain k where "k \<in> set ks" "x = the (?T k)" by auto
    moreover from this obtain e where "?T k = Some e" "fst k = p" "e ''ExecutionId'' = Some (PStr xid)"
      using in_ks by blast
    ultimately have "?T (p, snd k) = Some x" "x ''ExecutionId'' = Some (PStr xid)" by auto
    then show ?case unfolding has_execution_def by blast
  next
    case (2 x)
    then obtain k where "?T (p, k) = Some x" "(p, k) \<in> set ks"
      using in_ks by (auto simp: has_execution_def)
    then show ?case by force
  qed
  then have "(\<lambda>k. deserialize_datetime_fields E (the (?T k))) ` set ks
      = deserialize_datetime_fields E ` {e. has_execution ?T p xid e}"
    by (metis image_image)
  then show ?case using 3(1) T by (simp add: fetch_def image_image)
qed (use assms in simp_all)

lemma wp_find_execution:
  assumes "no_quote (partition_of org)" "no_quote xid"
  shows "wp (find_execution E r xid org)
    (\<lambda>es w'. env_rows E w' = env_rows E w \<and>
       (let T = env_rows E w (repo_table r); here = {e. has_execution T (partition_of org) xid e} in
        set es = deserialize_datetime_fields E
          ` (if here \<noteq> {} then here else {e. has_execution T ''GLOBAL'' xid e}))) (\<lambda>_ _. True) w"
proof -
  have global: "partition_of org = ''GLOBAL''" if "\<not> opt_truthy org"
    using that by (cases org) (auto simp: partition_of_def)
  have g: "no_quote ''GLOBAL''" by simp
  show ?thesis
    unfolding find_execution_def wp_bind
    by (rule wp_mono [OF wp_query_execution [OF assms]])
      (use global in \<open>auto simp: Let_def intro!: wp_mono [OF wp_query_execution [OF g assms(2)]]\<close>)
qed

lemma wp_get_execution_status:
  assumes "no_quote (partition_of org)" "no_quote xid"
  shows "wp (get_execution_status E r xid org)
    (\<lambda>v w'. env_rows E w' = env_rows E w \<and>
       (let T = env_rows E w (repo_table r); here = {e. has_execution T (partition_of org) xid e};
            rows = (if here \<noteq> {} then here else {e. has_execution T ''GLOBAL'' xid e}) in
        if rows = {} then v = PNone else \<exists>e \<in> rows. v = dget0 e ''Status'')) (\<lambda>_ _. True) w"
  unfolding get_execution_status_def wp_bind
proof (rule wp_mono [OF wp_find_execution [OF assms]], goal_cases)
  case (1 es w')
  have "dget0 (deserialize_datetime_fields E e) ''Status'' = dget0 e ''Status''" for e
    by (simp add: dget_def)
  then have first: "dget0 a ''Status'' = dget0 e ''Status''" if "a = deserialize_datetime_fields E e" for a e
    using that by simp
  let ?T = "env_rows E w (repo_table r)"
  define S where "S = (if {e. has_execution ?T (partition_of org) xid e} \<noteq> {}
    then {e. has_execution ?T (partition_of org) xid e} else {e. has_execution ?T ''GLOBAL'' xid e})"
  have rows: "env_rows E w' = env_rows E w" "set es = deserialize_datetime_fields E ` S"
    using 1 unfolding S_def Let_def by simp_all
  show ?case
    unfolding Let_def S_def [symmetric]
  proof (cases es)
    case Nil
    then show "wp (case es of [] \<Rightarrow> ret PNone | e # _ \<Rightarrow> ret (dget0 e ''Status''))
        (\<lambda>v w'. env_rows E w' = env_rows E w \<and> (if S = {} then v = PNone else \<exists>e\<in>S. v = dget0 e ''Status''))
        (\<lambda>_ _. True) w'"
      using rows by simp
  next
    case (Cons a as)
    then have "a \<in> deserialize_datetime_fields E ` S" using rows by (metis list.set_intros(1))
    then show "wp (case es of [] \<Rightarrow> ret PNone | e # _ \<Rightarrow> ret (dget0 e ''Status''))
        (\<lambda>v w'. env_rows E w' = env_rows E w \<and> (if S = {} then v = PNone else \<exists>e\<in>S. v = dget0 e ''Status''))
        (\<lambda>_ _. True) w'"
      using rows Cons by (auto intro: first)
  qed
qed simp

end

subsection \<open>Stuck executions\<close>

text \<open>What the cleanup reports for one status: the rows of its index that are old enough.\<close>

definition stuck_rows :: "'w env \<Rightarrow> datetime \<Rightarrow> (key \<Rightarrow> entity option) \<Rightarrow> execution_status \<Rightarrow> int \<Rightarrow> model set" where
  "stuck_rows E now T st timeout = {m. \<exists>rk e. rk \<in> assigned_keys (''status:'' @ status_value st) T
     \<and> T (''GLOBAL'', rk) = Some e
     \<and> stuck_execution E now st timeout (deserialize_datetime_fields E e) = Inr (Some m)}"

lemma set_stuck_in: "set (stuck_in E now st t es) = {m. \<exists>e \<in> set es. stuck_execution E now st t e = Inr (Some m)}"
  by (auto simp: stuck_in_def split: sum.splits option.splits)

lemma no_quote_status [simp]: "no_quote (status_value st)"
  by (cases st) simp_all

context available_sdk
begin

lemma wp_stuck_status:
  assumes "ok w"
  shows "wp (py_catch
         (py_bind (query_entities E relationships_service
             (Some (odata (index_filter (''status:'' @ status_value st)))) None)
           (\<lambda>es. ret (stuck_in E now st t es))) (\<lambda>_. ret []))
    (\<lambda>ms w'. ok w' \<and> env_rows E w' = env_rows E w
       \<and> set ms = stuck_rows E now (env_rows E w ''Relationships'') st t) (\<lambda>_ _. False) w"
  unfolding wp_catch wp_bind index_filter_def
proof (rule wp_query_entities_ok [OF assms clean_assignment assignment_nonempty], goal_cases)
  case 1
  show ?case by simp
next
  case (2 ks w')
  let ?T = "env_rows E w ''Relationships''" and ?p = "''status:'' @ status_value st"
  have svc: "svc_table relationships_service = ''Relationships''" by (simp add: relationships_service_def)
  obtain rks where rks: "ks = map (Pair ''GLOBAL'') rks" "set rks = assigned_keys ?p ?T"
    using assignment_keys [OF 2(3)] rows_keyed svc by auto
  have "(\<exists>rk \<in> set rks. stuck_execution E now st t (deserialize_datetime_fields E (the (?T (''GLOBAL'', rk)))) = Inr (Some m))
      \<longleftrightarrow> m \<in> stuck_rows E now ?T st t" for m
    unfolding stuck_rows_def rks(2) by (auto simp: assigned_keys_def)
  then show ?case
    using 2(1,2) by (auto simp: svc rks(1) fetch_def set_stuck_in)
qed

lemma wp_stuck_executions:
  assumes "ok w"
  shows "wp (get_stuck_executions E tp tr tc)
    (\<lambda>ms w'. set ms = stuck_rows E (fst (env_utcnow E w)) (env_rows E w ''Relationships'') PENDING tp
       \<union> stuck_rows E (fst (env_utcnow E w)) (env_rows E w ''Relationships'') RUNNING tr
       \<union> stuck_rows E (fst (env_utcnow E w)) (env_rows E w ''Relationships'') CANCELLING tc)
    (\<lambda>_ _. False) w"
proof -
  let ?now = "fst (env_utcnow E w)" and ?T = "env_rows E w ''Relationships''"
  let ?q = "\<lambda>st t. py_catch
         (py_bind (query_entities E relationships_service
             (Some (odata (index_filter (''status:'' @ status_value st)))) None)
           (\<lambda>es. ret (stuck_in E ?now st t es))) (\<lambda>_. ret [])"
  have step: "wp (?q st t) Q (\<lambda>_ _. False) v"
    if "ok v" "env_rows E v = env_rows E w"
      "\<And>ms v'. ok v' \<Longrightarrow> env_rows E v' = env_rows E w \<Longrightarrow> set ms = stuck_rows E ?now ?T st t \<Longrightarrow> Q ms v'" for st t Q v
    by (rule wp_mono [OF wp_stuck_status [OF that(1)]]) (use that(2,3) in auto)
  show ?thesis
    unfolding get_stuck_executions_def wp_bind
  proof (rule wp_utcnow_now [OF assms])
    fix w1
    assume "ok w1" "env_rows E w1 = env_rows E w"
    then show "wp (py_map (\<lambda>(st, t). ?q st t) [(PENDING, tp), (RUNNING, tr), (CANCELLING, tc)])
        (\<lambda>mss. wp (ret (concat mss)) (\<lambda>ms w'. set ms = stuck_rows E ?now ?T PENDING tp
          \<union> stuck_rows E ?now ?T RUNNING tr \<union> stuck_rows E ?now ?T CANCELLING tc) (\<lambda>_ _. False))
        (\<lambda>_ _. False) w1"
      unfolding py_map.simps prod.case wp_bind
      by - (rule step; (assumption | (rule step; (assumption | (rule step; (assumption | simp add: Un_assoc))))))
  qed
qed

end

section \<open>Properties\<close>

text \<open>
  Executions sort newest first: of two executions of the same partition started within the
  range of thirteen-digit times, the row key of the later one is the smaller one, whatever their
  identifiers are.
\<close>

theorem execution_keys_newest_first:
  assumes "0 \<le> env_timestamp_ms E d1" and "env_timestamp_ms E d1 < env_timestamp_ms E d2"
    and "env_timestamp_ms E d2 \<le> 8999999999999"
  shows "execution_key (reverse_timestamp E d2) x2 < execution_key (reverse_timestamp E d1) x1"
  unfolding execution_key_def append_less_same
  by (rule append_less_left) (rule reverse_timestamp_less [OF assms])+

theorem execution_keys_newest_first_witness:
  "execution_key (reverse_timestamp (mem_env :: mem env) (Naive 2000)) ''a''
     < execution_key (reverse_timestamp (mem_env :: mem env) (Naive 1000)) ''b''"
  by (rule execution_keys_newest_first) (simp_all add: mem_env_def)

text \<open>
  C3: when creating an execution answers with a model, the primary row is new, has the identifier
  and the status \<open>Running\<close>, and every index row is there with the same identifier and status;
  nothing else of any table has changed, and no row was replaced.
\<close>

theorem create_execution_complete:
  assumes "table_sdk E" and "repo_table r = ''Entities''"
    and "create_execution E r xid org uid uname wname input fid w = (Inr m, w')"
  shows "\<exists>k row. env_rows E w ''Entities'' (partition_of org, k) = None
     \<and> row ''ExecutionId'' = Some (PStr xid) \<and> row ''Status'' = Some (PStr ''Running'')
     \<and> grows ''Relationships'' (index_row_keys xid org uid wname fid)
         (put_row ''Entities'' (partition_of org, k) (Some row) (env_rows E w)) (env_rows E w')
     \<and> (\<forall>i \<in> index_row_keys xid org uid wname fid. \<exists>x. env_rows E w' ''Relationships'' i = Some x
          \<and> x ''ExecutionId'' = Some (PStr xid) \<and> x ''Status'' = Some (PStr ''Running''))"
  using wp_Inr [OF table_sdk.wp_create_execution [OF assms(1,2)] assms(3)] by (fastforce simp: begun_def)

theorem create_execution_complete_witness:
  "\<exists>m w'. create_execution mem_env (execution_repo None) ''x1'' (Some ''acme'') ''ann'' ''Ann'' ''sync'' (PDict []) (Some ''f'')
       empty_world = (Inr m, w')
     \<and> (\<exists>x. mem_view w' ''Relationships'' (''GLOBAL'', form_index_key ''f'' ''x1'') = Some x
          \<and> x ''Status'' = Some (PStr ''Running''))"
proof -
  have "case create_execution mem_env (execution_repo None) ''x1'' (Some ''acme'') ''ann'' ''Ann'' ''sync'' (PDict []) (Some ''f'')
       empty_world of (Inr m, _) \<Rightarrow> True | _ \<Rightarrow> False"
    by code_simp
  then obtain m w' where run: "create_execution mem_env (execution_repo None) ''x1'' (Some ''acme'') ''ann'' ''Ann'' ''sync''
      (PDict []) (Some ''f'') empty_world = (Inr m, w')"
    by (auto split: prod.splits sum.splits)
  have "(''GLOBAL'', form_index_key ''f'' ''x1'') \<in> index_row_keys ''x1'' (Some ''acme'') ''ann'' ''sync'' (Some ''f'')"
    by (simp add: index_row_keys_def)
  then show ?thesis
    using create_execution_complete [OF mem.table_sdk_axioms _ run] run
    by (auto simp: execution_repo_def)
qed

text \<open>
  Creating an execution is not atomic. When it fails, either no row has changed, or the primary
  row stays behind with the status \<open>Running\<close>, with some of the index rows; nothing is undone.
\<close>

theorem create_execution_failure:
  assumes "table_sdk E" and "repo_table r = ''Entities''"
    and "create_execution E r xid org uid uname wname input fid w = (Inl x, w')"
  shows "env_rows E w' = env_rows E w \<or> (\<exists>k row. env_rows E w ''Entities'' (partition_of org, k) = None
     \<and> row ''ExecutionId'' = Some (PStr xid) \<and> row ''Status'' = Some (PStr ''Running'')
     \<and> grows ''Relationships'' (index_row_keys xid org uid wname fid)
         (put_row ''Entities'' (partition_of org, k) (Some row) (env_rows E w)) (env_rows E w'))"
  using wp_Inl [OF table_sdk.wp_create_execution [OF assms(1,2)] assms(3)] by (simp add: begun_def)

definition failing_world :: mem where
  "failing_world = \<lparr>mem_rows = [], mem_clock = 0, mem_ids = 0, mem_faults = [False, True], mem_files = [], mem_users = Map.empty, mem_orgs = Map.empty\<rparr>"

theorem create_execution_failure_witness:
  "\<exists>x w'. create_execution mem_env (execution_repo None) ''x1'' None ''ann'' ''Ann'' ''sync'' (PDict []) None
       failing_world = (Inl x, w')
     \<and> (\<exists>k row. row ''Status'' = Some (PStr ''Running'') \<and> mem_view w' ''Entities'' (''GLOBAL'', k) = Some row)"
proof -
  let ?run = "create_execution mem_env (execution_repo None) ''x1'' None ''ann'' ''Ann'' ''sync'' (PDict []) None failing_world"
  have "case ?run of (Inl x, w') \<Rightarrow> \<not> Option.is_none (mem_view w' ''Entities'' (''GLOBAL'',
      ''execution:9999999999999_x1'')) | _ \<Rightarrow> False"
    by code_simp
  then obtain x w' where run: "?run = (Inl x, w')"
    and row: "mem_view w' ''Entities'' (''GLOBAL'', ''execution:9999999999999_x1'') \<noteq> None"
    by (auto split: prod.splits sum.splits simp: Option.is_none_def)
  have "mem_view failing_world = (\<lambda>_ _. None)" by (rule ext)+ (simp add: mem_view_def failing_world_def)
  then have "mem_view w' \<noteq> mem_view failing_world" using row by auto
  then obtain k r where "r ''Status'' = Some (PStr ''Running'')"
    and g: "grows ''Relationships'' (index_row_keys ''x1'' None ''ann'' ''sync'' None)
         (put_row ''Entities'' (partition_of None, k) (Some r) (mem_view failing_world)) (mem_view w')"
    using create_execution_failure [OF mem.table_sdk_axioms _ run] by (auto simp: execution_repo_def)
  moreover have "mem_view w' ''Entities'' (''GLOBAL'', k) = Some r"
    using grows_frame [OF g, of "''Entities''"] by (simp add: partition_of_def)
  ultimately show ?thesis using run by blast
qed

text \<open>
  C1: the life cycle of an execution keeps the status index right. While the table service is
  available, an update takes an execution whose primary row has the status \<open>s\<close>, with a row in the
  status index exactly when the cleanup looks for \<open>s\<close>, to the same situation for the new status;
  when it raises, the old or the new situation holds.
\<close>

theorem update_execution_status:
  assumes "available_sdk E ok" and "ok w" and "repo_table r = ''Entities''"
    and "no_quote xid" and "no_quote (partition_of org)"
    and "in_status (env_rows E w) (partition_of org) xid s"
    and "update_execution E r xid org uid st res err ms in_blob w = (out, w')"
  shows "case out of Inr _ \<Rightarrow> in_status (env_rows E w') (partition_of org) xid st
    | Inl _ \<Rightarrow> \<exists>s' \<in> {s, st}. in_status (env_rows E w') (partition_of org) xid s'"
  using available_sdk.wp_update_execution [OF assms(1-6), of uid st res err ms in_blob] assms(7)
  by (simp add: wp_def split: sum.splits)

definition running_world :: mem where
  "running_world = \<lparr>mem_rows = [((''Entities'', (''GLOBAL'', ''execution:9_x1'')),
       [''PartitionKey'' \<mapsto> PStr ''GLOBAL'', ''RowKey'' \<mapsto> PStr ''execution:9_x1'', ''ExecutionId'' \<mapsto> PStr ''x1'',
        ''Status'' \<mapsto> PStr ''Running'']),
     ((''Relationships'', (''GLOBAL'', ''status:Running:x1'')),
       [''PartitionKey'' \<mapsto> PStr ''GLOBAL'', ''RowKey'' \<mapsto> PStr ''status:Running:x1'', ''Status'' \<mapsto> PStr ''Running''])],
     mem_clock = 0, mem_ids = 0, mem_faults = [], mem_files = [], mem_users = Map.empty, mem_orgs = Map.empty\<rparr>"

lemma running_world_status: "in_status (mem_view running_world) ''GLOBAL'' ''x1'' RUNNING"
proof -
  have "mem_view running_world ''Relationships'' (''GLOBAL'', status_index_key (status_value s') ''x1'') = None
      \<longleftrightarrow> s' \<noteq> RUNNING" for s'
    by (cases s') (simp_all add: mem_view_def running_world_def status_index_key_def entity_key_def)
  moreover have "primary_row (mem_view running_world) ''GLOBAL'' ''x1'' RUNNING ''execution:9_x1''"
    by (auto simp: primary_row_def mem_view_def running_world_def entity_key_def split: if_splits)
  ultimately show ?thesis
    by (auto simp: in_status_def status_indexed_def active_statuses_def)
qed

theorem update_execution_status_witness:
  "case update_execution mem_env (execution_repo None) ''x1'' None ''ann'' SUCCESS PNone None (Some 5) False running_world of
     (Inr _, w') \<Rightarrow> in_status (mem_view w') ''GLOBAL'' ''x1'' SUCCESS | _ \<Rightarrow> False"
proof -
  let ?run = "update_execution mem_env (execution_repo None) ''x1'' None ''ann'' SUCCESS PNone None (Some 5) False running_world"
  have "case ?run of (Inr m, _) \<Rightarrow> True | _ \<Rightarrow> False" by code_simp
  then obtain m w' where run: "?run = (Inr m, w')" by (auto split: prod.splits sum.splits)
  have "in_status (mem_view w') ''GLOBAL'' ''x1'' SUCCESS"
    using update_execution_status [OF mem.available_sdk_axioms _ _ _ _ _ run, of RUNNING] running_world_status
    by (simp add: execution_repo_def partition_of_def running_world_def)
  then show ?thesis using run by simp
qed

text \<open>
  While the table service is available, the cleanup reports exactly the rows of the status
  index of the three active statuses that are older than the timeout of their status at the time
  the search began, and the search never raises: a row that cannot be read is left out.
\<close>

theorem get_stuck_executions_exact:
  assumes "available_sdk E ok" and "ok w"
  shows "\<exists>ms w'. get_stuck_executions E tp tr tc w = (Inr ms, w')
    \<and> set ms = {m. \<exists>(st, t) \<in> {(PENDING, tp), (RUNNING, tr), (CANCELLING, tc)}. \<exists>x s e.
        env_rows E w ''Relationships'' (''GLOBAL'', ''status:'' @ status_value st @ x # s) = Some e
        \<and> CHR '':'' \<le> x \<and> x < CHR ''~''
        \<and> stuck_execution E (fst (env_utcnow E w)) st t (deserialize_datetime_fields E e) = Inr (Some m)}"
proof -
  have rows: "stuck_rows E now T st t = {m. \<exists>x s e. T (''GLOBAL'', ''status:'' @ status_value st @ x # s) = Some e
      \<and> CHR '':'' \<le> x \<and> x < CHR ''~''
      \<and> stuck_execution E now st t (deserialize_datetime_fields E e) = Inr (Some m)}" for now T st t
    unfolding stuck_rows_def assigned_keys_def by auto
  obtain res w' where run: "get_stuck_executions E tp tr tc w = (res, w')" by fastforce
  show ?thesis
    using available_sdk.wp_stuck_executions [OF assms, of tp tr tc] unfolding wp_def run rows
    by (cases res) auto
qed

definition stuck_world :: mem where
  "stuck_world = \<lparr>mem_rows = [((''Relationships'', (''GLOBAL'', ''status:Running:x1'')),
       [''PartitionKey'' \<mapsto> PStr ''GLOBAL'', ''RowKey'' \<mapsto> PStr ''status:Running:x1'', ''ExecutionId'' \<mapsto> PStr ''x1'',
        ''StartedAt'' \<mapsto> PDate (Naive 0)])],
     mem_clock = 1800000001, mem_ids = 0, mem_faults = [], mem_files = [], mem_users = Map.empty, mem_orgs = Map.empty\<rparr>"

theorem get_stuck_executions_exact_witness:
  "\<exists>ms w'. get_stuck_executions mem_env 10 30 3 stuck_world = (Inr ms, w') \<and> ms \<noteq> []"
proof -
  obtain ms w' where run: "get_stuck_executions mem_env 10 30 3 stuck_world = (Inr ms, w')"
    and ms: "set ms = {m. \<exists>(st, t) \<in> {(PENDING, 10), (RUNNING, 30), (CANCELLING, 3)}. \<exists>x s e.
        env_rows mem_env stuck_world ''Relationships'' (''GLOBAL'', ''status:'' @ status_value st @ x # s) = Some e
        \<and> CHR '':'' \<le> x \<and> x < CHR ''~''
        \<and> stuck_execution (mem_env :: mem env) (fst (env_utcnow mem_env stuck_world)) st t (deserialize_datetime_fields (mem_env :: mem env) e)
            = Inr (Some m)}"
    using get_stuck_executions_exact [OF mem.available_sdk_axioms, of stuck_world 10 30 3]
    by (auto simp: stuck_world_def)
  let ?e = "[''PartitionKey'' \<mapsto> PStr ''GLOBAL'', ''RowKey'' \<mapsto> PStr ''status:Running:x1'', ''ExecutionId'' \<mapsto> PStr ''x1'',
        ''StartedAt'' \<mapsto> PDate (Naive 0)]"
  have "\<exists>m. stuck_execution (mem_env :: mem env) (Naive 1800000001) RUNNING 30 (deserialize_datetime_fields (mem_env :: mem env) ?e) = Inr (Some m)"
    by (simp add: stuck_execution_def deserialize_datetime_fields_def parse_datetime_def mem_env_def Let_def)
  then obtain m where m: "stuck_execution (mem_env :: mem env) (Naive 1800000001) RUNNING 30
      (deserialize_datetime_fields (mem_env :: mem env) ?e) = Inr (Some m)" by blast
  have "m \<in> set ms"
    unfolding ms mem_Collect_eq
    by (rule bexI [of _ "(RUNNING, 30)"], simp only: prod.case,
        intro exI [of _ "CHR '':''"] exI [of _ "''x1''"] exI [of _ ?e])
      (use m in \<open>auto simp: mem_view_def stuck_world_def entity_key_def mem_env_def\<close>)
  then show ?thesis using run by auto
qed

text \<open>
  The status of an execution comes from a row with its identifier in the organization's own
  partition when there is one, and only otherwise from the global one; no other organization's
  partition is ever read from, and without any such row the answer is \<open>None\<close>.
\<close>

theorem get_execution_status_scoped:
  assumes "table_sdk E" and "no_quote (partition_of org)" and "no_quote xid"
    and "get_execution_status E r xid org w = (Inr v, w')"
  shows "if \<exists>e. has_execution (env_rows E w (repo_table r)) (partition_of org) xid e
     then \<exists>e. has_execution (env_rows E w (repo_table r)) (partition_of org) xid e \<and> v = dget0 e ''Status''
     else if \<exists>e. has_execution (env_rows E w (repo_table r)) ''GLOBAL'' xid e
     then \<exists>e. has_execution (env_rows E w (repo_table r)) ''GLOBAL'' xid e \<and> v = dget0 e ''Status''
     else v = PNone"
  using wp_Inr [OF table_sdk.wp_get_execution_status [OF assms(1-3)] assms(4)]
  by (auto simp: Let_def split: if_splits)

theorem get_execution_status_scoped_witness:
  "fst (get_execution_status mem_env (execution_repo None) ''x1'' (Some ''acme'') running_world) = Inr (PStr ''Running'')"
proof -
  let ?run = "get_execution_status mem_env (execution_repo None) ''x1'' (Some ''acme'') running_world"
  have "case ?run of (Inr m, _) \<Rightarrow> True | _ \<Rightarrow> False" by code_simp
  then obtain v w' where run: "?run = (Inr v, w')" by (auto split: prod.splits sum.splits)
  have g: "has_execution (mem_view running_world ''Entities'') ''GLOBAL'' ''x1'' e \<longleftrightarrow>
      e = [''PartitionKey'' \<mapsto> PStr ''GLOBAL'', ''RowKey'' \<mapsto> PStr ''execution:9_x1'', ''ExecutionId'' \<mapsto> PStr ''x1'',
        ''Status'' \<mapsto> PStr ''Running'']" for e
    by (auto simp: has_execution_def mem_view_def running_world_def entity_key_def)
  have a: "\<not> has_execution (mem_view running_world ''Entities'') ''acme'' ''x1'' e" for e
    by (auto simp: has_execution_def mem_view_def running_world_def entity_key_def)
  have "v = PStr ''Running''"
    using get_execution_status_scoped [OF mem.table_sdk_axioms _ _ run]
    by (simp add: execution_repo_def partition_of_def a)
      (auto simp: execution_repo_def g dget_def split: if_splits)
  then show ?thesis using run by simp
qed

end
