(* ===== verification/Form_Repository.thy ===== *)
theory Form_Repository
  imports Execution_Repository
begin

text \<open>
  Forms: the discovery of \<open>*.form.json\<close> files in the workspace (\<open>shared/discovery.py\<close>) and the
  reading side of \<open>shared/repositories/forms_file.py\<close>, which filters them by the scope of the
  context. The metadata of a form comes from one scan, its content from a second one.
\<close>

section \<open>Discovery\<close>

record form_metadata =
  fm_id :: pyval
  fm_name :: pyval
  fm_linked_workflow :: pyval
  fm_org_id :: pyval
  fm_is_active :: pyval
  fm_is_global :: pyval
  fm_access_level :: pyval
  fm_file_path :: string
  fm_created_at :: datetime
  fm_updated_at :: datetime
  fm_launch_workflow_id :: pyval

definition file_form_id :: "string \<Rightarrow> entity \<Rightarrow> pyval" where
  "file_form_id stem data = (if truthy (dget0 data ''id'') then dget0 data ''id'' else PStr (''workspace-'' @ stem))"

text \<open>\<open>datetime.fromisoformat(v.replace('Z', '+00:00'))\<close>.\<close>

definition parse_iso :: "'w env \<Rightarrow> pyval \<Rightarrow> exn + datetime" where
  "parse_iso E v = (case v of
     PStr s \<Rightarrow> (case env_fromisoformat E (replace_Z s) of
         Some d \<Rightarrow> Inr d | None \<Rightarrow> Inl (ValueError ''Invalid isoformat string''))
   | _ \<Rightarrow> Inl (AttributeError ''replace''))"

definition metadata_date :: "'w env \<Rightarrow> datetime \<Rightarrow> entity \<Rightarrow> string \<Rightarrow> exn + datetime" where
  "metadata_date E now data k = (if truthy (dget0 data k) then parse_iso E (dget0 data k) else Inr now)"

definition required :: "entity \<Rightarrow> string \<Rightarrow> exn + pyval" where
  "required data k = (case data k of Some v \<Rightarrow> Inr v | None \<Rightarrow> Inl (KeyError k))"

definition form_metadata_of :: "'w env \<Rightarrow> string \<Rightarrow> string \<Rightarrow> entity \<Rightarrow> ('w, form_metadata) py" where
  "form_metadata_of E stem path data =
     py_bind (utcnow E) (\<lambda>now.
     py_bind (lift (metadata_date E now data ''createdAt'')) (\<lambda>created.
     py_bind (lift (metadata_date E now data ''updatedAt'')) (\<lambda>updated.
     py_bind (lift (required data ''name'')) (\<lambda>name.
     py_bind (lift (required data ''linkedWorkflow'')) (\<lambda>linked.
       ret \<lparr>fm_id = file_form_id stem data, fm_name = name, fm_linked_workflow = linked,
            fm_org_id = dget data ''orgId''
              (PStr (if truthy (dget data ''isGlobal'' (PBool False)) then ''GLOBAL'' else [])),
            fm_is_active = dget data ''isActive'' (PBool True),
            fm_is_global = dget data ''isGlobal'' (PBool False),
            fm_access_level = dget0 data ''accessLevel'', fm_file_path = path,
            fm_created_at = created, fm_updated_at = updated,
            fm_launch_workflow_id = dget0 data ''launchWorkflowId''\<rparr>)))))"

definition form_files :: "'w env \<Rightarrow> ('w, (string \<times> string \<times> entity option) list) py" where
  "form_files E = (\<lambda>w. (Inr (env_form_files E w), w))"

text \<open>A file that cannot be read, or whose content does not do, is logged and left out.\<close>

definition scan_form_file :: "'w env \<Rightarrow> string \<times> string \<times> entity option \<Rightarrow> ('w, form_metadata list) py" where
  "scan_form_file E f = (case f of (stem, path, content) \<Rightarrow> (case content of
       None \<Rightarrow> ret []
     | Some data \<Rightarrow> py_catch (py_bind (form_metadata_of E stem path data) (\<lambda>m. ret [m])) (\<lambda>_. ret [])))"

definition scan_all_forms :: "'w env \<Rightarrow> ('w, form_metadata list) py" where
  "scan_all_forms E = py_bind (form_files E) (\<lambda>fs.
     py_bind (py_map (scan_form_file E) fs) (\<lambda>mss. ret (concat mss)))"

fun find_form :: "pyval \<Rightarrow> (string \<times> string \<times> entity option) list \<Rightarrow> entity option" where
  "find_form fid [] = None"
| "find_form fid ((stem, path, content) # fs) = (case content of
     None \<Rightarrow> find_form fid fs
   | Some data \<Rightarrow> if file_form_id stem data = fid then Some (data(''id'' \<mapsto> file_form_id stem data))
                 else find_form fid fs)"

definition load_form :: "'w env \<Rightarrow> pyval \<Rightarrow> ('w, entity option) py" where
  "load_form E fid = py_bind (form_files E) (\<lambda>fs. ret (find_form fid fs))"

definition get_form_metadata :: "'w env \<Rightarrow> pyval \<Rightarrow> ('w, form_metadata option) py" where
  "get_form_metadata E fid = py_bind (scan_all_forms E) (\<lambda>ms. ret (find (\<lambda>m. fm_id m = fid) ms))"

definition get_forms_by_workflow :: "'w env \<Rightarrow> pyval \<Rightarrow> ('w, form_metadata list) py" where
  "get_forms_by_workflow E wname =
     py_bind (scan_all_forms E) (\<lambda>ms. ret (filter (\<lambda>m. fm_linked_workflow m = wname) ms))"

section \<open>Form models\<close>

datatype form_access_level = PUBLIC | AUTHENTICATED | ROLE_BASED

fun access_value :: "form_access_level \<Rightarrow> string" where
  "access_value PUBLIC = ''public''"
| "access_value AUTHENTICATED = ''authenticated''"
| "access_value ROLE_BASED = ''role_based''"

definition access_level_of :: "string \<Rightarrow> exn + form_access_level" where
  "access_level_of s = (case find (\<lambda>a. s = access_value a) [PUBLIC, AUTHENTICATED, ROLE_BASED] of
     Some a \<Rightarrow> Inr a | None \<Rightarrow> Inl (ValueError ''is not a valid FormAccessLevel''))"

definition model_date :: "'w env \<Rightarrow> datetime \<Rightarrow> pyval \<Rightarrow> exn + pyval" where
  "model_date E now v = (case v of
     PStr s \<Rightarrow> (case parse_iso E (PStr s) of Inl x \<Rightarrow> Inl x | Inr d \<Rightarrow> Inr (PDate d))
   | PNone \<Rightarrow> Inr (PDate now)
   | _ \<Rightarrow> Inr v)"

definition model_access :: "pyval \<Rightarrow> exn + pyval" where
  "model_access v = (case v of
     PStr s \<Rightarrow> (if s = [] then Inr v
       else (case access_level_of s of Inl x \<Rightarrow> Inl x | Inr a \<Rightarrow> Inr (PStr (access_value a))))
   | _ \<Rightarrow> Inr v)"

definition dict_to_form :: "'w env \<Rightarrow> entity \<Rightarrow> ('w, model) py" where
  "dict_to_form E data =
     py_bind (utcnow E) (\<lambda>now.
     py_bind (lift (model_date E now (dget0 data ''createdAt''))) (\<lambda>created.
     py_bind (lift (model_date E now (dget0 data ''updatedAt''))) (\<lambda>updated.
     let schema = dget data ''formSchema'' (PDict []) in
     py_bind (lift (if truthy schema then env_submodel E ''FormSchema'' schema else Inr PNone)) (\<lambda>form_schema.
     py_bind (lift (model_access (dget0 data ''accessLevel''))) (\<lambda>access_level.
     py_bind (lift (required data ''id'')) (\<lambda>fid.
     py_bind (lift (required data ''name'')) (\<lambda>name.
     py_bind (lift (required data ''linkedWorkflow'')) (\<lambda>linked.
     lift (env_validate E ''Form''
       [''id'' \<mapsto> fid, ''orgId'' \<mapsto> dget data ''orgId'' (PStr ''GLOBAL''), ''name'' \<mapsto> name,
        ''description'' \<mapsto> dget0 data ''description'', ''linkedWorkflow'' \<mapsto> linked,
        ''formSchema'' \<mapsto> form_schema, ''isActive'' \<mapsto> dget data ''isActive'' (PBool True),
        ''isGlobal'' \<mapsto> dget data ''isGlobal'' (PBool False), ''accessLevel'' \<mapsto> access_level,
        ''createdBy'' \<mapsto> dget data ''createdBy'' (PStr ''system''), ''createdAt'' \<mapsto> created,
        ''updatedAt'' \<mapsto> updated, ''launchWorkflowId'' \<mapsto> dget0 data ''launchWorkflowId'',
        ''allowedQueryParams'' \<mapsto> dget0 data ''allowedQueryParams'',
        ''defaultLaunchParams'' \<mapsto> dget0 data ''defaultLaunchParams''])))))))))"

section \<open>Reading forms in the scope of a context\<close>

definition in_form_scope :: "exec_context \<Rightarrow> pyval \<Rightarrow> bool" where
  "in_form_scope ctx org \<longleftrightarrow> org = PStr ''GLOBAL'' \<or> org = of_opt (ctx_org_id ctx)"

definition get_form :: "'w env \<Rightarrow> exec_context \<Rightarrow> string \<Rightarrow> ('w, model option) py" where
  "get_form E ctx form_id = py_bind (get_form_metadata E (PStr form_id)) (\<lambda>res. case res of
     None \<Rightarrow> ret None
   | Some m \<Rightarrow>
      (if \<not> ctx_is_platform_admin ctx \<and> \<not> in_form_scope ctx (fm_org_id m) then ret None
       else py_bind (load_form E (PStr form_id)) (\<lambda>res. case res of
           None \<Rightarrow> ret None
         | Some data \<Rightarrow> py_bind (dict_to_form E data) (\<lambda>f. ret (Some f)))))"

text \<open>The full forms of some metadata; those whose file is gone are left out.\<close>

definition load_forms :: "'w env \<Rightarrow> form_metadata list \<Rightarrow> ('w, model list) py" where
  "load_forms E ms = py_bind (py_map (\<lambda>m. py_bind (load_form E (fm_id m)) (\<lambda>res. case res of
       None \<Rightarrow> ret []
     | Some data \<Rightarrow> py_bind (dict_to_form E data) (\<lambda>f. ret [f]))) ms) (\<lambda>fss. ret (concat fss))"

definition list_forms :: "'w env \<Rightarrow> exec_context \<Rightarrow> bool \<Rightarrow> bool \<Rightarrow> ('w, model list) py" where
  "list_forms E ctx active_only include_global = py_bind (scan_all_forms E) (\<lambda>ms.
     let scoped = filter (\<lambda>m. fm_org_id m = of_opt (ctx_org_id ctx)
           \<or> (include_global \<and> fm_org_id m = PStr ''GLOBAL'')) ms;
         active = (if active_only then filter (\<lambda>m. truthy (fm_is_active m)) scoped else scoped)
     in load_forms E active)"

definition list_forms_by_workflow :: "'w env \<Rightarrow> exec_context \<Rightarrow> string \<Rightarrow> bool \<Rightarrow> ('w, model list) py" where
  "list_forms_by_workflow E ctx wname active_only =
     py_bind (get_forms_by_workflow E (PStr wname)) (\<lambda>ms.
     let active = (if active_only then filter (\<lambda>m. truthy (fm_is_active m)) ms else ms)
     in load_forms E (filter (\<lambda>m. fm_org_id m = of_opt (ctx_org_id ctx) \<or> fm_org_id m = PStr ''GLOBAL'') active))"

section \<open>Lemmas\<close>

text \<open>What is known of a form in a file, without looking at its dates.\<close>

definition form_file :: "'w env \<Rightarrow> 'w \<Rightarrow> pyval \<Rightarrow> entity \<Rightarrow> bool" where
  "form_file E w fid data \<longleftrightarrow>
     (\<exists>stem path. (stem, path, Some data) \<in> set (env_form_files E w) \<and> file_form_id stem data = fid)"

definition file_org :: "entity \<Rightarrow> pyval" where
  "file_org data = dget data ''orgId'' (PStr (if truthy (dget data ''isGlobal'' (PBool False)) then ''GLOBAL'' else []))"

definition metadata_from :: "'w env \<Rightarrow> 'w \<Rightarrow> form_metadata \<Rightarrow> bool" where
  "metadata_from E w m \<longleftrightarrow> (\<exists>data. form_file E w (fm_id m) data \<and> fm_org_id m = file_org data
     \<and> fm_is_active m = dget data ''isActive'' (PBool True))"

abbreviation unchanged :: "'w env \<Rightarrow> 'w \<Rightarrow> 'w \<Rightarrow> bool" where
  "unchanged E w w' \<equiv> env_rows E w' = env_rows E w \<and> env_form_files E w' = env_form_files E w"

lemma wp_form_files [simp]: "wp (form_files E) Q R w = Q (env_form_files E w) w"
  by (simp add: wp_def form_files_def)

lemma find_form_Some:
  "find_form fid fs = Some data \<Longrightarrow>
   \<exists>stem path d. (stem, path, Some d) \<in> set fs \<and> file_form_id stem d = fid \<and> data = d(''id'' \<mapsto> fid)"
  by (induction fid fs rule: find_form.induct) (auto split: option.splits if_splits)

lemma filter_keep_list_all2: "list_all2 P xs ys \<Longrightarrow> y \<in> set ys \<Longrightarrow> \<exists>x \<in> set xs. P x y"
  by (induction rule: list_all2_induct) auto

context runtime
begin

lemma wp_scan_form_file:
  assumes "f \<in> set (env_form_files E w0)" and "unchanged E w0 w"
  shows "wp (scan_form_file E f) (\<lambda>ms w'. unchanged E w0 w' \<and> (\<forall>m \<in> set ms. metadata_from E w0 m)) R w"
proof -
  obtain stem path content where f: "f = (stem, path, content)" by (cases f)
  show ?thesis
  proof (cases content)
    case None
    then show ?thesis using assms by (simp add: scan_form_file_def f)
  next
    case (Some data)
    have in_file: "form_file E w0 (file_form_id stem data) data"
      using assms(1) unfolding form_file_def f Some by blast
    show ?thesis
      unfolding scan_form_file_def f Some prod.case option.case wp_catch wp_bind form_metadata_of_def
      by (rule wp_utcnow_files)
        (use assms(2) in_file in \<open>auto simp: metadata_from_def file_org_def split: sum.splits\<close>)
  qed
qed

lemma wp_scan_all_forms:
  "wp (scan_all_forms E) (\<lambda>ms w'. unchanged E w w' \<and> (\<forall>m \<in> set ms. metadata_from E w m)) R w"
proof -
  have "wp (py_map (scan_form_file E) (env_form_files E w))
      (\<lambda>mss w'. unchanged E w w' \<and> list_all2 (\<lambda>f ms. \<forall>m \<in> set ms. metadata_from E w m) (env_form_files E w) mss) R w"
    by (rule wp_map_all2, rule wp_scan_form_file) simp_all
  then have "wp (py_map (scan_form_file E) (env_form_files E w))
      (\<lambda>mss w'. unchanged E w w' \<and> (\<forall>m \<in> set (concat mss). metadata_from E w m)) R w"
    by (rule wp_mono) (auto dest: filter_keep_list_all2)
  then show ?thesis
    by (simp add: scan_all_forms_def)
qed

lemma wp_dict_to_form:
  assumes "unchanged E w0 w"
  shows "wp (dict_to_form E data) (\<lambda>_. unchanged E w0) (\<lambda>_. unchanged E w0) w"
  unfolding dict_to_form_def wp_bind Let_def
  by (rule wp_utcnow_files) (use assms in \<open>auto split: sum.splits\<close>)

text \<open>A form that is found, for a caller who is not an administrator, is in the caller's scope.\<close>

lemma wp_get_form:
  "wp (get_form E ctx fid)
    (\<lambda>res w'. unchanged E w w' \<and> (res \<noteq> None \<longrightarrow> (\<exists>data. form_file E w (PStr fid) data
        \<and> (ctx_is_platform_admin ctx \<or> in_form_scope ctx (file_org data)))))
    (\<lambda>_. unchanged E w) w"
proof -
  have load: "wp (load_form E (PStr fid)) (\<lambda>res. wp (case res of
           None \<Rightarrow> ret None
         | Some data \<Rightarrow> py_bind (dict_to_form E data) (\<lambda>f. ret (Some f))) Q (\<lambda>_. unchanged E w)) (\<lambda>_. unchanged E w) v"
    if "unchanged E w v" "\<And>x v'. unchanged E w v' \<Longrightarrow> Q x v'" for Q v
    using that by (auto simp: load_form_def split: option.splits intro!: wp_mono [OF wp_dict_to_form])
  show ?thesis
    unfolding get_form_def get_form_metadata_def wp_bind
  proof (rule wp_mono [OF wp_scan_all_forms], goal_cases)
    case (1 ms v)
    show ?case
    proof (cases "find (\<lambda>m. fm_id m = PStr fid) ms")
      case None
      then show ?thesis using 1 by simp
    next
      case (Some m)
      then have "m \<in> set ms" "fm_id m = PStr fid"
        by (auto simp: find_Some_iff)
      then have from_file: "\<exists>data. form_file E w (PStr fid) data \<and> fm_org_id m = file_org data"
        using 1 unfolding metadata_from_def by metis
      have u: "unchanged E w v" using 1 by simp
      show ?thesis
      proof (cases "\<not> ctx_is_platform_admin ctx \<and> \<not> in_form_scope ctx (fm_org_id m)")
        case True
        then show ?thesis using u Some by simp
      next
        case False
        then show ?thesis
          unfolding Some option.case wp_ret wp_if if_not_P [OF False] wp_bind
          by - (rule load [OF u], use from_file False in auto)
      qed
    qed
  qed
qed

end

end
