(* ===== verification/Authorization.thy ===== *)
theory Authorization
  imports Form_Repository
begin

text \<open>
  \<open>shared/authorization.py\<close>: who may see and execute a form, and which executions a caller sees.
  A form is the model the form repository answers with; roles come from the role repository.
\<close>

section \<open>Roles\<close>

definition get_user_role_ids :: "'w env \<Rightarrow> string \<Rightarrow> ('w, string list) py" where
  "get_user_role_ids E user_id = repo_get_user_role_ids E user_id"

definition get_form_role_ids :: "'w env \<Rightarrow> string \<Rightarrow> ('w, string list) py" where
  "get_form_role_ids E form_id = repo_get_form_role_ids E form_id"

definition shares_role :: "string list \<Rightarrow> string list \<Rightarrow> bool" where
  "shares_role user_roles form_roles \<longleftrightarrow> list_ex (\<lambda>r. r \<in> set form_roles) user_roles"

section \<open>Forms\<close>

text \<open>\<open>form.accessLevel or "role_based"\<close>.\<close>

definition form_access :: "model \<Rightarrow> pyval" where
  "form_access f = (if truthy (dget0 f ''accessLevel'') then dget0 f ''accessLevel'' else PStr ''role_based'')"

definition can_user_view_form :: "'w env \<Rightarrow> exec_context \<Rightarrow> string \<Rightarrow> ('w, bool) py" where
  "can_user_view_form E ctx form_id = py_bind (get_form E ctx form_id) (\<lambda>res. case res of
     None \<Rightarrow> ret False
   | Some f \<Rightarrow>
      (if ctx_is_platform_admin ctx then ret True
       else if \<not> truthy (dget0 f ''isActive'') then ret False
       else if form_access f = PStr ''authenticated'' then ret True
       else if form_access f = PStr ''role_based'' then
         py_bind (get_user_role_ids E (ctx_user_id ctx)) (\<lambda>user_roles.
         py_bind (get_form_role_ids E form_id) (\<lambda>form_roles.
           ret (shares_role user_roles form_roles)))
       else ret False))"

definition can_user_execute_form :: "'w env \<Rightarrow> exec_context \<Rightarrow> string \<Rightarrow> ('w, bool) py" where
  "can_user_execute_form E ctx form_id = can_user_view_form E ctx form_id"

text \<open>The identifier of a form model is a string, as its declaration says.\<close>

definition form_id_of :: "model \<Rightarrow> string" where
  "form_id_of f = (case dget0 f ''id'' of PStr s \<Rightarrow> s | _ \<Rightarrow> [])"

definition visible_form :: "'w env \<Rightarrow> string list \<Rightarrow> model \<Rightarrow> ('w, model list) py" where
  "visible_form E user_role_ids f =
     (if form_access f = PStr ''authenticated'' then ret [f]
      else if form_access f = PStr ''role_based'' then
        py_bind (get_form_role_ids E (form_id_of f)) (\<lambda>form_role_ids.
          ret (if shares_role user_role_ids form_role_ids then [f] else []))
      else ret [])"

definition get_user_visible_forms :: "'w env \<Rightarrow> exec_context \<Rightarrow> ('w, model list) py" where
  "get_user_visible_forms E ctx =
     (if ctx_is_platform_admin ctx then
        py_bind (list_forms E ctx False True) (\<lambda>fs. ret (map (env_model_dump E ''json'') fs))
      else
        py_bind (list_forms E ctx True True) (\<lambda>fs.
        py_bind (get_user_role_ids E (ctx_user_id ctx)) (\<lambda>user_role_ids.
        py_bind (py_map (visible_form E user_role_ids) fs) (\<lambda>vs.
          ret (map (env_model_dump E ''json'') (concat vs))))))"

section \<open>Executions\<close>

definition can_user_view_execution :: "exec_context \<Rightarrow> entity \<Rightarrow> bool" where
  "can_user_view_execution ctx e \<longleftrightarrow>
     ctx_is_platform_admin ctx \<or> dget0 e ''ExecutedBy'' = PStr (ctx_user_id ctx)"

text \<open>\<open>limit or n\<close>.\<close>

definition limit_or :: "int option \<Rightarrow> int \<Rightarrow> int" where
  "limit_or limit n = (case limit of None \<Rightarrow> n | Some l \<Rightarrow> if l = 0 then n else l)"

definition get_user_executions :: "'w env \<Rightarrow> exec_context \<Rightarrow> int option \<Rightarrow> ('w, model list) py" where
  "get_user_executions E ctx limit = py_bind
     (if ctx_is_platform_admin ctx
      then list_executions E (execution_repo (Some ctx)) None (limit_or limit 1000)
      else list_executions_by_user E (ctx_user_id ctx) (limit_or limit 50))
     (\<lambda>ms. ret (map (env_model_dump E ''python'') ms))"

section \<open>Lemmas\<close>

lemma py_bind_run:
  assumes "py_bind m f w = (Inr b, w')"
  obtains a w1 where "m w = (Inr a, w1)" "f a w1 = (Inr b, w')"
  using assms by (auto simp: py_bind_def split: prod.splits sum.splits)

lemma shares_role_iff: "shares_role us fs \<longleftrightarrow> set us \<inter> set fs \<noteq> {}"
  by (auto simp: shares_role_def list_ex_iff)

text \<open>What the role tables say: a role read for the user and read for the form.\<close>

definition role_shared :: "(key \<Rightarrow> entity option) \<Rightarrow> string \<Rightarrow> string \<Rightarrow> bool" where
  "role_shared T uid fid \<longleftrightarrow> (\<exists>r u f. read_for uid u \<and> CHR '':'' \<notin> set u \<and> T (''GLOBAL'', user_role_key u r) \<noteq> None
     \<and> read_for fid f \<and> CHR '':'' \<notin> set f \<and> T (''GLOBAL'', form_role_key f r) \<noteq> None)"

context table_sdk
begin

lemma shared_roles_run:
  assumes keys: "keys_wf ''userrole'' (env_rows E w ''Relationships'')" "keys_wf ''formrole'' (env_rows E w ''Relationships'')"
    and ids: "no_quote uid" "CHR '':'' \<notin> set uid" "no_quote fid" "CHR '':'' \<notin> set fid"
    and run: "get_user_role_ids E uid w = (Inr us, w1)" "get_form_role_ids E fid w1 = (Inr fs, w2)"
  shows "shares_role us fs \<longleftrightarrow> role_shared (env_rows E w ''Relationships'') uid fid"
proof -
  have us: "set us = {rid. \<exists>u. CHR '':'' \<notin> set u \<and> read_for uid u
         \<and> env_rows E w ''Relationships'' (''GLOBAL'', user_role_key u rid) \<noteq> None}"
    and rows: "env_rows E w1 = env_rows E w"
    using wp_Inr [OF wp_user_role_ids [OF ids(1,2) keys(1)] run(1) [unfolded get_user_role_ids_def]] by simp_all
  have fs: "set fs = {rid. \<exists>u. CHR '':'' \<notin> set u \<and> read_for fid u
         \<and> env_rows E w ''Relationships'' (''GLOBAL'', form_role_key u rid) \<noteq> None}"
    using wp_Inr [OF wp_form_role_ids [OF ids(3,4)] run(2) [unfolded get_form_role_ids_def]] keys(2) rows by simp
  show ?thesis
    unfolding shares_role_iff us fs role_shared_def by blast
qed

lemma can_user_view_run:
  assumes keys: "keys_wf ''userrole'' (env_rows E w ''Relationships'')" "keys_wf ''formrole'' (env_rows E w ''Relationships'')"
    and ids: "no_quote (ctx_user_id ctx)" "CHR '':'' \<notin> set (ctx_user_id ctx)"
      "no_quote form_id" "CHR '':'' \<notin> set form_id"
    and form: "get_form E ctx form_id w = (Inr (Some f), w1)"
    and run: "can_user_view_form E ctx form_id w = (Inr b, w')"
  shows "b \<longleftrightarrow> ctx_is_platform_admin ctx \<or> (truthy (dget0 f ''isActive'')
    \<and> (form_access f = PStr ''authenticated''
       \<or> form_access f = PStr ''role_based'' \<and> role_shared (env_rows E w ''Relationships'') (ctx_user_id ctx) form_id))"
proof -
  have rows: "env_rows E w1 = env_rows E w"
    using wp_Inr [OF wp_get_form form] by simp
  from run have step: "(if ctx_is_platform_admin ctx then ret True
       else if \<not> truthy (dget0 f ''isActive'') then ret False
       else if form_access f = PStr ''authenticated'' then ret True
       else if form_access f = PStr ''role_based'' then
         py_bind (get_user_role_ids E (ctx_user_id ctx)) (\<lambda>user_roles.
         py_bind (get_form_role_ids E form_id) (\<lambda>form_roles.
           ret (shares_role user_roles form_roles)))
       else ret False) w1 = (Inr b, w')"
    by (simp add: can_user_view_form_def py_bind_def [of "get_form E ctx form_id"] form)
  show ?thesis
  proof (cases "\<not> ctx_is_platform_admin ctx \<and> truthy (dget0 f ''isActive'') \<and> form_access f = PStr ''role_based''")
    case True
    then have "py_bind (get_user_role_ids E (ctx_user_id ctx)) (\<lambda>user_roles.
         py_bind (get_form_role_ids E form_id) (\<lambda>form_roles.
           ret (shares_role user_roles form_roles))) w1 = (Inr b, w')"
      using step by simp
    then obtain us w2 fs w3 where "get_user_role_ids E (ctx_user_id ctx) w1 = (Inr us, w2)"
      "get_form_role_ids E form_id w2 = (Inr fs, w3)" "b = shares_role us fs"
      by (elim py_bind_run) (simp add: ret_def)
    then show ?thesis
      using shared_roles_run [of w1 "ctx_user_id ctx" form_id us w2 fs w3] keys ids True by (simp add: rows)
  next
    case False
    then show ?thesis using step by (auto simp: ret_def split: if_splits)
  qed
qed

end

section \<open>Properties\<close>

text \<open>
  A form is only ever found, for a caller who is no platform administrator, when a form file
  with its identifier belongs to the caller's organization or to all of them; finding it changes
  nothing.
\<close>

theorem get_form_in_scope:
  assumes "runtime E" and "\<not> ctx_is_platform_admin ctx" and "get_form E ctx form_id w = (Inr (Some f), w')"
  shows "env_rows E w' = env_rows E w
    \<and> (\<exists>data. form_file E w (PStr form_id) data
         \<and> (file_org data = PStr ''GLOBAL'' \<or> file_org data = of_opt (ctx_org_id ctx)))"
  using wp_Inr [OF runtime.wp_get_form [OF assms(1)] assms(3)] assms(2) by (auto simp: in_form_scope_def)

definition member_ctx :: "string \<Rightarrow> exec_context" where
  "member_ctx org = \<lparr>ctx_user_id = ''ann'', ctx_email = ''ann'', ctx_name = ''Ann'', ctx_scope = org,
     ctx_organization = Some \<lparr>o_id = org, o_name = org, o_is_active = PBool True\<rparr>,
     ctx_is_platform_admin = False, ctx_is_function_key = False, ctx_execution_id = ''x'',
     ctx_config = Map.empty, ctx_integration_calls = []\<rparr>"

definition form_world :: mem where
  "form_world = \<lparr>mem_rows = [], mem_clock = 0, mem_ids = 0, mem_faults = [],
     mem_files = [(''hello'', ''/ws/hello.form.json'', Some [''id'' \<mapsto> PStr ''f1'', ''orgId'' \<mapsto> PStr ''acme'',
       ''name'' \<mapsto> PStr ''Hello'', ''linkedWorkflow'' \<mapsto> PStr ''hello'', ''accessLevel'' \<mapsto> PStr ''authenticated''])], mem_users = Map.empty, mem_orgs = Map.empty\<rparr>"

theorem get_form_in_scope_witness:
  "\<exists>f w'. get_form mem_env (member_ctx ''acme'') ''f1'' form_world = (Inr (Some f), w')
     \<and> (\<exists>data. form_file mem_env form_world (PStr ''f1'') data \<and> file_org data = PStr ''acme'')"
proof -
  let ?run = "get_form mem_env (member_ctx ''acme'') ''f1'' form_world"
  have "case ?run of (Inr (Some f), _) \<Rightarrow> True | _ \<Rightarrow> False" by code_simp
  then obtain f w' where run: "?run = (Inr (Some f), w')"
    by (auto split: prod.splits sum.splits option.splits)
  have admin: "\<not> ctx_is_platform_admin (member_ctx ''acme'')" by (simp add: member_ctx_def)
  obtain data where "form_file mem_env form_world (PStr ''f1'') data"
    using get_form_in_scope [OF mem.runtime_axioms admin run] by blast
  moreover from this have "file_org data = PStr ''acme''"
    by (auto simp: form_file_def form_world_def mem_env_def file_org_def)
  ultimately show ?thesis using run by blast
qed


text \<open>A world where the form \<open>f2\<close> is restricted to the role \<open>ops\<close>, which ann has.\<close>

definition ops_world :: mem where
  "ops_world = \<lparr>mem_rows =
       [((''Relationships'', (''GLOBAL'', user_role_key ''ann'' ''ops'')), user_role_entity ''ops'' ''root'' ''0'' ''ann''),
        ((''Relationships'', (''GLOBAL'', form_role_key ''f2'' ''ops'')), form_role_entity ''ops'' ''root'' ''0'' ''f2'')],
     mem_clock = 0, mem_ids = 0, mem_faults = [],
     mem_files = [(''ops'', ''/ws/ops.form.json'', Some [''id'' \<mapsto> PStr ''f2'', ''orgId'' \<mapsto> PStr ''acme'',
       ''name'' \<mapsto> PStr ''Ops'', ''linkedWorkflow'' \<mapsto> PStr ''ops''])], mem_users = Map.empty, mem_orgs = Map.empty\<rparr>"

lemma ops_world_rows: "mem_view ops_world ''Relationships''
  = [(''GLOBAL'', user_role_key ''ann'' ''ops'') \<mapsto> user_role_entity ''ops'' ''root'' ''0'' ''ann'',
     (''GLOBAL'', form_role_key ''f2'' ''ops'') \<mapsto> form_role_entity ''ops'' ''root'' ''0'' ''f2'']"
  by (rule ext) (auto simp: mem_view_def ops_world_def user_role_key_def form_role_key_def
      user_role_entity_def form_role_entity_def entity_key_def)

lemma ops_world_wf:
  "keys_wf ''userrole'' (mem_view ops_world ''Relationships'')"
  "keys_wf ''formrole'' (mem_view ops_world ''Relationships'')"
  unfolding keys_wf_def ops_world_rows
  by (auto simp: user_role_key_def form_role_key_def split: if_splits
      intro: exI [of _ "''ann''"] exI [of _ "''f2''"])


end
