(* ===== verification/Organization_Repository.thy ===== *)
theory Organization_Repository
  imports Authorization
begin

text \<open>
  \<open>shared/repositories/organizations.py\<close>: organizations are rows \<open>org:{id}\<close> of the global partition
  of the \<open>Entities\<close> table.
\<close>

record create_organization_request =
  cor_name :: string
  cor_domain :: "string option"

record update_organization_request =
  uor_name :: "string option"
  uor_domain :: "string option"
  uor_is_active :: "bool option"

definition organization_repo :: "exec_context option \<Rightarrow> repo" where
  "organization_repo ctx = \<lparr>repo_table = ''Entities'', repo_context = ctx\<rparr>"

definition org_key :: "string \<Rightarrow> string" where
  "org_key oid = ''org:'' @ oid"

definition organization_entity_to_model :: "'w env \<Rightarrow> entity \<Rightarrow> string \<Rightarrow> ('w, model) py" where
  "organization_entity_to_model E e oid =
     py_bind (utcnow E) (\<lambda>n1. py_bind (utcnow E) (\<lambda>n2.
       lift (env_validate E ''Organization'' [''id'' \<mapsto> PStr oid, ''name'' \<mapsto> dget e ''Name'' (PStr []),
            ''domain'' \<mapsto> dget0 e ''Domain'', ''isActive'' \<mapsto> dget e ''IsActive'' (PBool True),
            ''createdAt'' \<mapsto> of_date_opt (parse_datetime E (dget0 e ''CreatedAt'') (Some n1)),
            ''createdBy'' \<mapsto> dget e ''CreatedBy'' (PStr []),
            ''updatedAt'' \<mapsto> of_date_opt (parse_datetime E (dget0 e ''UpdatedAt'') (Some n2))])))"

definition create_organization ::
  "'w env \<Rightarrow> repo \<Rightarrow> create_organization_request \<Rightarrow> string \<Rightarrow> ('w, model) py" where
  "create_organization E r req created_by =
     py_bind (generate_entity_id E) (\<lambda>oid.
     py_bind (utcnow E) (\<lambda>now.
     let iso = PStr (env_isoformat E now) in
     py_then (repo_insert E r [''PartitionKey'' \<mapsto> PStr ''GLOBAL'', ''RowKey'' \<mapsto> PStr (org_key oid),
         ''Name'' \<mapsto> PStr (cor_name req), ''Domain'' \<mapsto> of_opt (cor_domain req), ''IsActive'' \<mapsto> PBool True,
         ''CreatedAt'' \<mapsto> iso, ''CreatedBy'' \<mapsto> PStr created_by, ''UpdatedAt'' \<mapsto> iso])
       (lift (env_validate E ''Organization'' [''id'' \<mapsto> PStr oid, ''name'' \<mapsto> PStr (cor_name req),
         ''domain'' \<mapsto> of_opt (cor_domain req), ''isActive'' \<mapsto> PBool True, ''createdAt'' \<mapsto> PDate now,
         ''createdBy'' \<mapsto> PStr created_by, ''updatedAt'' \<mapsto> PDate now]))))"

definition get_organization :: "'w env \<Rightarrow> repo \<Rightarrow> string \<Rightarrow> ('w, model option) py" where
  "get_organization E r oid = py_bind (get_by_id E r ''GLOBAL'' (org_key oid)) (\<lambda>res. case res of
     Some e \<Rightarrow> py_bind (organization_entity_to_model E e oid) (\<lambda>m. ret (Some m))
   | None \<Rightarrow> ret None)"

definition domain_filter :: "string \<Rightarrow> clause list" where
  "domain_filter domain = [(''PartitionKey'', OEq, OStr ''GLOBAL''), (''RowKey'', OGe, OStr ''org:''),
     (''RowKey'', OLt, OStr ''org;''), (''Domain'', OEq, OStr (lower domain)), (''IsActive'', OEq, OBool True)]"

definition get_organization_by_domain :: "'w env \<Rightarrow> repo \<Rightarrow> string \<Rightarrow> ('w, model option) py" where
  "get_organization_by_domain E r domain =
     py_bind (repo_query E r (odata (domain_filter domain)) None) (\<lambda>results. case results of
       [] \<Rightarrow> ret None
     | e # _ \<Rightarrow> py_bind (lift (row_key_part 1 e)) (\<lambda>oid.
         py_bind (organization_entity_to_model E e oid) (\<lambda>m. ret (Some m))))"

definition organizations_filter :: "bool \<Rightarrow> clause list" where
  "organizations_filter active_only =
     [(''PartitionKey'', OEq, OStr ''GLOBAL''), (''RowKey'', OGe, OStr ''org:''), (''RowKey'', OLt, OStr ''org;'')]
     @ (if active_only then [(''IsActive'', OEq, OBool True)] else [])"

definition list_organizations :: "'w env \<Rightarrow> repo \<Rightarrow> bool \<Rightarrow> ('w, model list) py" where
  "list_organizations E r active_only =
     py_bind (repo_query E r (odata (organizations_filter active_only)) None) (\<lambda>es.
       py_map (\<lambda>e. py_bind (lift (row_key_part 1 e)) (\<lambda>oid. organization_entity_to_model E e oid)) es)"

definition update_organization ::
  "'w env \<Rightarrow> repo \<Rightarrow> string \<Rightarrow> update_organization_request \<Rightarrow> ('w, model) py" where
  "update_organization E r oid updates =
     py_bind (get_by_id E r ''GLOBAL'' (org_key oid)) (\<lambda>res. case res of
       None \<Rightarrow> raise (ValueError (''Organization '' @ oid @ '' not found''))
     | Some e \<Rightarrow> py_bind (utcnow E) (\<lambda>now.
         let e1 = (case uor_name updates of None \<Rightarrow> e | Some n \<Rightarrow> e(''Name'' \<mapsto> PStr n));
             e2 = (case uor_domain updates of None \<Rightarrow> e1 | Some d \<Rightarrow> e1(''Domain'' \<mapsto> PStr d));
             e3 = (case uor_is_active updates of None \<Rightarrow> e2 | Some b \<Rightarrow> e2(''IsActive'' \<mapsto> PBool b));
             e4 = e3(''UpdatedAt'' \<mapsto> PStr (env_isoformat E now))
         in py_then (repo_update E r e4 ''merge'') (organization_entity_to_model E e4 oid)))"

definition soft_delete_organization :: "'w env \<Rightarrow> repo \<Rightarrow> string \<Rightarrow> ('w, bool) py" where
  "soft_delete_organization E r oid =
     py_bind (get_by_id E r ''GLOBAL'' (org_key oid)) (\<lambda>res. case res of
       None \<Rightarrow> ret False
     | Some e \<Rightarrow> py_bind (utcnow E) (\<lambda>now.
         py_then (repo_update E r (e(''IsActive'' \<mapsto> PBool False, ''UpdatedAt'' \<mapsto> PStr (env_isoformat E now))) ''merge'')
           (ret True)))"

definition delete_organization :: "'w env \<Rightarrow> repo \<Rightarrow> string \<Rightarrow> ('w, bool) py" where
  "delete_organization E r oid =
     py_bind (get_by_id E r ''GLOBAL'' (org_key oid)) (\<lambda>res. case res of
       None \<Rightarrow> ret False
     | Some e \<Rightarrow> py_catch (py_then (repo_delete E r ''GLOBAL'' (org_key oid)) (ret True)) (\<lambda>_. ret False))"

end
