(* ===== verification/User_Repository.thy ===== *)
theory User_Repository
  imports Organization_Repository
begin

text \<open>
  \<open>shared/repositories/users.py\<close>: users are rows \<open>user:{email}\<close> of the global partition of the
  \<open>Entities\<close> table; the organization of a user is a pair of rows of \<open>Relationships\<close>,
  \<open>userperm:{email}:{org}\<close> and \<open>orgperm:{org}:{email}\<close>.
\<close>

section \<open>Data\<close>

datatype user_type = PLATFORM | ORG

fun user_type_value :: "user_type \<Rightarrow> string" where
  "user_type_value PLATFORM = ''PLATFORM''"
| "user_type_value ORG = ''ORG''"

definition user_type_of :: "pyval \<Rightarrow> exn + user_type" where
  "user_type_of v = (if v = PStr ''PLATFORM'' then Inr PLATFORM else if v = PStr ''ORG'' then Inr ORG
     else Inl (ValueError ''is not a valid UserType''))"

definition user_repo :: "exec_context option \<Rightarrow> repo" where
  "user_repo ctx = \<lparr>repo_table = ''Entities'', repo_context = ctx\<rparr>"

definition user_key :: "string \<Rightarrow> string" where
  "user_key email = ''user:'' @ email"

definition userperm_key :: "string \<Rightarrow> string \<Rightarrow> string" where
  "userperm_key email oid = ''userperm:'' @ email @ '':'' @ oid"

definition orgperm_key :: "string \<Rightarrow> string \<Rightarrow> string" where
  "orgperm_key oid email = ''orgperm:'' @ oid @ '':'' @ email"

definition user_entity_to_model :: "'w env \<Rightarrow> entity \<Rightarrow> ('w, model) py" where
  "user_entity_to_model E e = py_bind (utcnow E) (\<lambda>now.
     py_bind (lift (user_type_of (dget e ''UserType'' (PStr ''ORG'')))) (\<lambda>ut.
     lift (env_validate E ''User'' [''id'' \<mapsto> dget e ''Email'' (PStr []), ''email'' \<mapsto> dget e ''Email'' (PStr []),
       ''displayName'' \<mapsto> dget e ''DisplayName'' (PStr []), ''userType'' \<mapsto> PStr (user_type_value ut),
       ''isPlatformAdmin'' \<mapsto> dget e ''IsPlatformAdmin'' (PBool False),
       ''isActive'' \<mapsto> dget e ''IsActive'' (PBool True),
       ''lastLogin'' \<mapsto> of_date_opt (parse_datetime E (dget0 e ''LastLogin'') None),
       ''createdAt'' \<mapsto> of_date_opt (parse_datetime E (dget0 e ''CreatedAt'') (Some now)),
       ''entraUserId'' \<mapsto> dget0 e ''EntraUserId'',
       ''lastEntraIdSync'' \<mapsto> of_date_opt (parse_datetime E (dget0 e ''LastEntraIdSync'') None)])))"

section \<open>Users\<close>

definition users_filter :: "clause list" where
  "users_filter = [(''PartitionKey'', OEq, OStr ''GLOBAL''), (''RowKey'', OGe, OStr ''user:''),
     (''RowKey'', OLt, OStr ''user;'')]"

definition has_any_users :: "'w env \<Rightarrow> repo \<Rightarrow> ('w, bool) py" where
  "has_any_users E r = py_bind (query_entities E (repo_service r) (Some (odata users_filter)) (Some [''RowKey'']))
     (\<lambda>es. ret (es \<noteq> []))"

definition get_user :: "'w env \<Rightarrow> repo \<Rightarrow> string \<Rightarrow> ('w, model option) py" where
  "get_user E r email = py_bind (get_by_id E r ''GLOBAL'' (user_key email)) (\<lambda>res. case res of
     Some e \<Rightarrow> py_bind (user_entity_to_model E e) (\<lambda>m. ret (Some m))
   | None \<Rightarrow> ret None)"

definition get_user_by_entra_id :: "'w env \<Rightarrow> repo \<Rightarrow> string \<Rightarrow> ('w, model option) py" where
  "get_user_by_entra_id E r entra_user_id =
     py_bind (query_entities E (repo_service r)
        (Some (odata (users_filter @ [(''EntraUserId'', OEq, OStr entra_user_id)]))) None) (\<lambda>es. case es of
       [] \<Rightarrow> ret None
     | e # _ \<Rightarrow> py_bind (user_entity_to_model E e) (\<lambda>m. ret (Some m)))"

definition create_user :: "'w env \<Rightarrow> repo \<Rightarrow> string \<Rightarrow> string \<Rightarrow> user_type \<Rightarrow> bool \<Rightarrow> string option
    \<Rightarrow> ('w, model) py" where
  "create_user E r email display_name ut is_admin entra_user_id = py_bind (utcnow E) (\<lambda>now.
     let iso = PStr (env_isoformat E now);
         e = [''PartitionKey'' \<mapsto> PStr ''GLOBAL'', ''RowKey'' \<mapsto> PStr (user_key email), ''Email'' \<mapsto> PStr email,
              ''DisplayName'' \<mapsto> PStr display_name, ''UserType'' \<mapsto> PStr (user_type_value ut),
              ''IsPlatformAdmin'' \<mapsto> PBool is_admin, ''IsActive'' \<mapsto> PBool True, ''CreatedAt'' \<mapsto> iso,
              ''LastLogin'' \<mapsto> iso];
         e' = (if opt_truthy entra_user_id
               then e(''EntraUserId'' \<mapsto> of_opt entra_user_id, ''LastEntraIdSync'' \<mapsto> iso) else e)
     in py_then (repo_insert E r e') (user_entity_to_model E e'))"

definition update_last_login :: "'w env \<Rightarrow> repo \<Rightarrow> string \<Rightarrow> ('w, unit) py" where
  "update_last_login E r email = py_bind (get_by_id E r ''GLOBAL'' (user_key email)) (\<lambda>res. case res of
     None \<Rightarrow> ret ()
   | Some e \<Rightarrow> py_bind (utcnow E) (\<lambda>now.
       py_then (repo_update E r (e(''LastLogin'' \<mapsto> PStr (env_isoformat E now))) ''merge'') (ret ())))"

definition update_user_entra_id :: "'w env \<Rightarrow> repo \<Rightarrow> string \<Rightarrow> string \<Rightarrow> ('w, unit) py" where
  "update_user_entra_id E r email entra_user_id =
     py_bind (get_by_id E r ''GLOBAL'' (user_key email)) (\<lambda>res. case res of
     None \<Rightarrow> ret ()
   | Some e \<Rightarrow> py_bind (utcnow E) (\<lambda>now.
       py_then (repo_update E r (e(''EntraUserId'' \<mapsto> PStr entra_user_id,
           ''LastEntraIdSync'' \<mapsto> PStr (env_isoformat E now))) ''merge'') (ret ())))"

section \<open>Organizations of users\<close>

definition get_user_org_id :: "'w env \<Rightarrow> string \<Rightarrow> ('w, string option) py" where
  "get_user_org_id E email =
     py_bind (query_entities E relationships_service
        (Some (odata (assignment_filter (''userperm:'' @ email)))) None) (\<lambda>es. case es of
       [] \<Rightarrow> ret None
     | e # _ \<Rightarrow> (case dget0 e ''RowKey'' of
          PStr s \<Rightarrow> (let parts = split_max CHR '':'' 2 s
                    in ret (if s \<noteq> [] \<and> 3 \<le> length parts then Some (parts ! 2) else None))
        | _ \<Rightarrow> ret None))"

definition userperm_entity :: "string \<Rightarrow> string \<Rightarrow> string \<Rightarrow> string \<Rightarrow> entity" where
  "userperm_entity email oid by at = [''PartitionKey'' \<mapsto> PStr ''GLOBAL'', ''RowKey'' \<mapsto> PStr (userperm_key email oid),
     ''UserId'' \<mapsto> PStr email, ''OrganizationId'' \<mapsto> PStr oid, ''CreatedAt'' \<mapsto> PStr at, ''CreatedBy'' \<mapsto> PStr by]"

definition orgperm_entity :: "string \<Rightarrow> string \<Rightarrow> string \<Rightarrow> string \<Rightarrow> entity" where
  "orgperm_entity email oid by at = [''PartitionKey'' \<mapsto> PStr ''GLOBAL'', ''RowKey'' \<mapsto> PStr (orgperm_key oid email),
     ''UserId'' \<mapsto> PStr email, ''OrganizationId'' \<mapsto> PStr oid, ''CreatedAt'' \<mapsto> PStr at, ''CreatedBy'' \<mapsto> PStr by]"

definition assign_user_to_org :: "'w env \<Rightarrow> string \<Rightarrow> string \<Rightarrow> string \<Rightarrow> ('w, unit) py" where
  "assign_user_to_org E email oid assigned_by = py_bind (utcnow E) (\<lambda>now.
     let at = env_isoformat E now in
     py_then (insert_entity E relationships_service (userperm_entity email oid assigned_by at))
     (py_then (insert_entity E relationships_service (orgperm_entity email oid assigned_by at)) (ret ())))"

definition list_org_users :: "'w env \<Rightarrow> string \<Rightarrow> ('w, string list) py" where
  "list_org_users E oid =
     py_bind (query_entities E relationships_service
        (Some (odata (assignment_filter (''orgperm:'' @ oid)))) None)
       (\<lambda>es. lift (map_exn (row_key_part 2) es))"

definition remove_user_from_org :: "'w env \<Rightarrow> string \<Rightarrow> string \<Rightarrow> ('w, unit) py" where
  "remove_user_from_org E email oid =
     py_then (py_catch (py_then (delete_entity E relationships_service ''GLOBAL'' (userperm_key email oid)) (ret ()))
        (\<lambda>_. ret ()))
     (py_catch (py_then (delete_entity E relationships_service ''GLOBAL'' (orgperm_key oid email)) (ret ()))
        (\<lambda>_. ret ()))"

text \<open>The clock is read once for the login and once for the synchronisation.\<close>

definition migrated_user :: "string \<Rightarrow> string \<Rightarrow> entity \<Rightarrow> string \<Rightarrow> string \<Rightarrow> entity" where
  "migrated_user new_email display_name e login sync =
     [''PartitionKey'' \<mapsto> PStr ''GLOBAL'', ''RowKey'' \<mapsto> PStr (user_key new_email), ''Email'' \<mapsto> PStr new_email,
      ''DisplayName'' \<mapsto> PStr display_name, ''UserType'' \<mapsto> dget0 e ''UserType'',
      ''IsPlatformAdmin'' \<mapsto> dget e ''IsPlatformAdmin'' (PBool False),
      ''IsActive'' \<mapsto> dget e ''IsActive'' (PBool True), ''CreatedAt'' \<mapsto> dget0 e ''CreatedAt'',
      ''LastLogin'' \<mapsto> PStr login, ''EntraUserId'' \<mapsto> dget0 e ''EntraUserId'', ''LastEntraIdSync'' \<mapsto> PStr sync]"

definition update_user_profile :: "'w env \<Rightarrow> repo \<Rightarrow> string \<Rightarrow> string \<Rightarrow> string \<Rightarrow> ('w, model option) py" where
  "update_user_profile E r old_email new_email display_name =
     py_bind (get_by_id E r ''GLOBAL'' (user_key old_email)) (\<lambda>res. case res of
       None \<Rightarrow> ret None
     | Some e \<Rightarrow>
        (if old_email = new_email then
           py_bind (utcnow E) (\<lambda>now.
           let e' = e(''DisplayName'' \<mapsto> PStr display_name, ''LastEntraIdSync'' \<mapsto> PStr (env_isoformat E now))
           in py_then (repo_update E r e' ''merge'') (py_bind (user_entity_to_model E e') (\<lambda>m. ret (Some m))))
         else
           py_bind (utcnow E) (\<lambda>n1. py_bind (utcnow E) (\<lambda>n2.
           let e' = migrated_user new_email display_name e (env_isoformat E n1) (env_isoformat E n2)
           in py_then (repo_insert E r e')
             (py_then (delete_entity E (repo_service r) ''GLOBAL'' (user_key old_email))
             (py_bind (get_user_org_id E old_email) (\<lambda>org.
               py_then
                 (if opt_truthy org then
                    py_then (delete_entity E relationships_service ''GLOBAL'' (userperm_key old_email (the org)))
                    (py_then (delete_entity E relationships_service ''GLOBAL'' (orgperm_key (the org) old_email))
                      (assign_user_to_org E new_email (the org) ''system''))
                  else ret ())
                 (py_bind (user_entity_to_model E e') (\<lambda>m. ret (Some m))))))))))"

definition set_if :: "string \<Rightarrow> pyval option \<Rightarrow> entity \<Rightarrow> entity" where
  "set_if k v e = (case v of None \<Rightarrow> e | Some x \<Rightarrow> e(k \<mapsto> x))"

text \<open>The change of the administrator's role, with what it does to the organizations.\<close>

definition change_admin :: "'w env \<Rightarrow> string \<Rightarrow> bool option \<Rightarrow> bool \<Rightarrow> string option \<Rightarrow> string \<Rightarrow> entity
    \<Rightarrow> ('w, entity) py" where
  "change_admin E email is_admin current org_id updated_by e = (case is_admin of
     None \<Rightarrow> ret e
   | Some b \<Rightarrow>
      (if current \<and> \<not> b then
         (if \<not> opt_truthy org_id
          then raise (ValueError ''org_id is required when demoting user to org user'')
          else py_then (assign_user_to_org E email (the org_id) updated_by)
            (ret (e(''IsPlatformAdmin'' \<mapsto> PBool False, ''UserType'' \<mapsto> PStr ''ORG''))))
       else if \<not> current \<and> b then
         py_bind (get_user_org_id E email) (\<lambda>old.
           py_then (if opt_truthy old then remove_user_from_org E email (the old) else ret ())
             (ret (e(''IsPlatformAdmin'' \<mapsto> PBool True, ''UserType'' \<mapsto> PStr ''PLATFORM''))))
       else ret e))"

definition update_user :: "'w env \<Rightarrow> repo \<Rightarrow> string \<Rightarrow> string option \<Rightarrow> bool option \<Rightarrow> bool option
    \<Rightarrow> string option \<Rightarrow> string \<Rightarrow> ('w, model option) py" where
  "update_user E r email display_name is_active is_admin org_id updated_by =
     py_bind (get_by_id E r ''GLOBAL'' (user_key email)) (\<lambda>res. case res of
       None \<Rightarrow> ret None
     | Some e \<Rightarrow>
        (let current = truthy (dget e ''IsPlatformAdmin'' (PBool False));
             e1 = set_if ''IsActive'' (map_option PBool is_active) (set_if ''DisplayName'' (map_option PStr display_name) e)
         in py_bind (change_admin E email is_admin current org_id updated_by e1) (\<lambda>e2.
              py_then (repo_update E r e2 ''merge'') (py_bind (user_entity_to_model E e2) (\<lambda>m. ret (Some m))))))"

section \<open>Lemmas\<close>

lemma userperm_key_kind: "userperm_key email oid = kind_key ''userperm'' email oid"
  by (simp add: userperm_key_def kind_key_def)

lemma split_kind_key:
  "CHR '':'' \<notin> set kind \<Longrightarrow> CHR '':'' \<notin> set u \<Longrightarrow> split_max CHR '':'' 2 (kind_key kind u r) = [kind, u, r]"
  using split_max_sep [of "CHR '':''" kind 1 "u @ '':'' @ r"] split_max_sep [of "CHR '':''" u 0 r]
  by (simp add: kind_key_def numeral_2_eq_2)

text \<open>Of the keys a lookup reads, those of the subject itself come first.\<close>

lemma own_key_first:
  assumes "kind_key kind u r \<le> kind_key kind uid o'" and "read_for uid u"
  shows "u = uid"
proof (rule ccontr)
  assume "u \<noteq> uid"
  then obtain x s where u: "u = uid @ x # s" "CHR '':'' < x"
    using assms(2) by (auto simp: read_for_def)
  have "x # s @ '':'' @ r \<le> '':'' @ o'"
    using assms(1) by (simp add: kind_key_def u(1))
  then show False using u(2) by auto
qed

definition own_orgs :: "(key \<Rightarrow> entity option) \<Rightarrow> string \<Rightarrow> string set" where
  "own_orgs T email = {oid. T (''GLOBAL'', userperm_key email oid) \<noteq> None}"

context table_sdk
begin

lemma wp_user_org_id:
  assumes "no_quote email" and "CHR '':'' \<notin> set email" and "keys_wf ''userperm'' (env_rows E w ''Relationships'')"
  shows "wp (get_user_org_id E email)
    (\<lambda>res w'. env_rows E w' = env_rows E w \<and> (let T = env_rows E w ''Relationships'' in
        case res of
          None \<Rightarrow> \<forall>u. CHR '':'' \<notin> set u \<and> read_for email u \<longrightarrow> own_orgs T u = {}
        | Some oid \<Rightarrow> if own_orgs T email \<noteq> {} then oid \<in> own_orgs T email
            else \<exists>u. CHR '':'' \<notin> set u \<and> read_for email u \<and> oid \<in> own_orgs T u))
    (\<lambda>_ w'. env_rows E w' = env_rows E w) w"
  unfolding get_user_org_id_def wp_bind
proof (rule wp_query_entities [OF clean_assignment assignment_nonempty], goal_cases)
  case 1
  show ?case using assms(1) by simp
next
  case (2 ks w')
  let ?T = "env_rows E w ''Relationships''"
  have t: "svc_table relationships_service = ''Relationships''" by (simp add: relationships_service_def)
  obtain rks where rks: "ks = map (Pair ''GLOBAL'') rks" "set rks = assigned_keys (''userperm:'' @ email) ?T"
    using assignment_keys [OF 2(2)] rows_keyed t by auto
  have sorted: "sorted rks" using 2(2) by (simp add: selects_def rks(1))
  have keys: "set rks = {kind_key ''userperm'' u r | u r.
      ?T (''GLOBAL'', kind_key ''userperm'' u r) \<noteq> None \<and> CHR '':'' \<notin> set u \<and> read_for email u}"
    using assigned_kind_keys [OF assms(3,2)] rks(2) by simp
  show ?case
  proof (cases rks)
    case Nil
    then have "own_orgs ?T u = {}" if "CHR '':'' \<notin> set u" "read_for email u" for u
      using keys that by (auto simp: own_orgs_def userperm_key_kind)
    then show ?thesis using 2(1) Nil by (simp add: t rks(1) fetch_def)
  next
    case (Cons rk rest)
    then have "rk \<in> set rks" by simp
    then obtain u r where rk: "rk = kind_key ''userperm'' u r" "?T (''GLOBAL'', rk) \<noteq> None"
      "CHR '':'' \<notin> set u" "read_for email u"
      unfolding keys by blast
    then obtain e where e: "?T (''GLOBAL'', rk) = Some e" by blast
    have row: "dget0 (deserialize_datetime_fields E e) ''RowKey'' = PStr rk"
      using deserialize_RowKey [OF e] by (simp add: dget_def)
    have parts: "split_max CHR '':'' 2 rk = [''userperm'', u, r]"
      unfolding rk(1) by (rule split_kind_key) (use rk(3) in simp_all)
    have nonempty: "rk \<noteq> []" unfolding rk(1) by (simp add: kind_key_def)
    have own: "u = email" if some: "own_orgs ?T email \<noteq> {}"
    proof -
      obtain oid where "?T (''GLOBAL'', kind_key ''userperm'' email oid) \<noteq> None"
        using some by (auto simp: own_orgs_def userperm_key_kind)
      then have "kind_key ''userperm'' email oid \<in> set rks"
        unfolding keys using assms(2) by (auto simp: read_for_def)
      then have "rk \<le> kind_key ''userperm'' email oid"
        using sorted Cons by auto
      then show ?thesis using own_key_first rk(1,4) by blast
    qed
    have "r \<in> own_orgs ?T u" using rk(1,2) by (simp add: own_orgs_def userperm_key_kind)
    then have "if own_orgs ?T email \<noteq> {} then r \<in> own_orgs ?T email
        else \<exists>u. CHR '':'' \<notin> set u \<and> read_for email u \<and> r \<in> own_orgs ?T u"
      using own rk(3,4) by auto
    then show ?thesis
      using 2(1) nonempty by (simp add: t rks(1) fetch_def Cons e row parts Let_def)
  qed
qed simp

end

section \<open>Properties\<close>

text \<open>
  The organization looked up for a user is one the user is assigned to, when there is one.
  When there is none the answer need not be \<open>None\<close>: it may be the organization of another user
  whose email goes on from the given one with a character between the colon and the tilde, since the
  row-key range is wider than the prefix \<open>userperm:{email}:\<close>.
\<close>

theorem get_user_org_id_exact:
  assumes "table_sdk E" and "no_quote email" and "CHR '':'' \<notin> set email"
    and "keys_wf ''userperm'' (env_rows E w ''Relationships'')"
    and "get_user_org_id E email w = (Inr res, w')"
  shows "case res of
      None \<Rightarrow> \<forall>u. CHR '':'' \<notin> set u \<and> read_for email u \<longrightarrow> own_orgs (env_rows E w ''Relationships'') u = {}
    | Some oid \<Rightarrow> if own_orgs (env_rows E w ''Relationships'') email \<noteq> {}
        then oid \<in> own_orgs (env_rows E w ''Relationships'') email
        else \<exists>u. CHR '':'' \<notin> set u \<and> read_for email u \<and> oid \<in> own_orgs (env_rows E w ''Relationships'') u"
  using wp_Inr [OF table_sdk.wp_user_org_id [OF assms(1-4)] assms(5)] by (simp add: Let_def)

definition two_emails_world :: mem where
  "two_emails_world = \<lparr>mem_rows = [((''Relationships'', (''GLOBAL'', userperm_key ''ann@acme.com'' ''acme'')),
     userperm_entity ''ann@acme.com'' ''acme'' ''root'' ''0'')], mem_clock = 0, mem_ids = 0, mem_faults = [], mem_files = [], mem_users = Map.empty, mem_orgs = Map.empty\<rparr>"

lemma two_emails_rows: "mem_view two_emails_world ''Relationships'' =
    [(''GLOBAL'', userperm_key ''ann@acme.com'' ''acme'') \<mapsto> userperm_entity ''ann@acme.com'' ''acme'' ''root'' ''0'']"
  by (rule ext) (auto simp: mem_view_def two_emails_world_def userperm_key_def userperm_entity_def entity_key_def)

lemma two_emails_wf: "keys_wf ''userperm'' (mem_view two_emails_world ''Relationships'')"
  unfolding keys_wf_def two_emails_rows
  by (auto simp: userperm_key_def split: if_splits intro: exI [of _ "''ann@acme.com''"])

theorem get_user_org_id_exact_witness:
  "\<exists>w'. get_user_org_id mem_env ''ann@acme.co'' two_emails_world = (Inr (Some ''acme''), w')
     \<and> own_orgs (mem_view two_emails_world ''Relationships'') ''ann@acme.co'' = {}"
proof -
  let ?run = "get_user_org_id mem_env ''ann@acme.co'' two_emails_world"
  have "case ?run of (Inr (Some o'), _) \<Rightarrow> True | _ \<Rightarrow> False" by code_simp
  then obtain oid w' where run: "?run = (Inr (Some oid), w')"
    by (auto split: prod.splits sum.splits option.splits)
  have none: "own_orgs (mem_view two_emails_world ''Relationships'') ''ann@acme.co'' = {}"
    by (auto simp: own_orgs_def two_emails_rows userperm_key_def split: if_splits)
  then obtain u where "oid \<in> own_orgs (mem_view two_emails_world ''Relationships'') u" "CHR '':'' \<notin> set u"
    using get_user_org_id_exact [OF mem.table_sdk_axioms _ _ _ run] two_emails_wf by auto
  then have "userperm_key u oid = userperm_key ''ann@acme.com'' ''acme''"
    by (auto simp: own_orgs_def two_emails_rows split: if_splits)
  then have "split_max CHR '':'' 2 (userperm_key u oid) = split_max CHR '':'' 2 (userperm_key ''ann@acme.com'' ''acme'')"
    by simp
  then have "oid = ''acme''"
    using \<open>CHR '':'' \<notin> set u\<close> by (simp add: userperm_key_kind split_kind_key)
  then show ?thesis using run none by blast
qed

end
