(* ===== verification/User_Provisioning.thy ===== *)
theory User_Provisioning
  imports User_Repository
begin

text \<open>
  \<open>shared/user_provisioning.py\<close>, which creates a user on the first login and finds the
  organization by the domain of the email, and \<open>shared/user_lookup.py\<close>, which answers from
  caches that are thirty seconds old at most. Emails and identifiers of models are strings, as the
  models declare them.
\<close>

section \<open>Provisioning\<close>

record provisioning_result =
  pr_user_type :: pyval
  pr_is_platform_admin :: pyval
  pr_org_id :: "string option"
  pr_was_created :: bool

definition provisioned_roles :: "provisioning_result \<Rightarrow> string list" where
  "provisioned_roles p = ''authenticated''
     # (if truthy (pr_is_platform_admin p) then [''PlatformAdmin''] else [''OrgUser''])"

definition model_str :: "string \<Rightarrow> model \<Rightarrow> string" where
  "model_str f m = (case dget0 m f of PStr s \<Rightarrow> s | _ \<Rightarrow> [])"

text \<open>\<open>email.split("@")[1].lower()\<close>.\<close>

definition domain_of :: "string \<Rightarrow> exn + string" where
  "domain_of email = (let parts = split_all CHR ''@'' email
     in if 1 < length parts then Inr (lower (parts ! 1)) else Inl IndexError)"

definition no_domain_error :: "string \<Rightarrow> exn" where
  "no_domain_error domain = ValueError (''No organization configured for domain: '' @ domain
     @ ''. Contact your administrator to be added manually.'')"

definition provision_org_relationship_by_domain :: "'w env \<Rightarrow> string \<Rightarrow> ('w, string) py" where
  "provision_org_relationship_by_domain E email =
     py_bind (lift (domain_of email)) (\<lambda>domain.
     py_bind (get_user_org_id E email) (\<lambda>existing.
       if opt_truthy existing then ret (the existing)
       else py_bind (get_organization_by_domain E (organization_repo None) domain) (\<lambda>res. case res of
           None \<Rightarrow> raise (no_domain_error domain)
         | Some org \<Rightarrow> py_then (assign_user_to_org E email (model_str ''id'' org) ''system'')
             (ret (model_str ''id'' org)))))"

definition create_first_platform_admin ::
  "'w env \<Rightarrow> string \<Rightarrow> string option \<Rightarrow> string option \<Rightarrow> ('w, provisioning_result) py" where
  "create_first_platform_admin E email entra_user_id display_name =
     py_then (create_user E (user_repo None) email (str_or display_name (split_all CHR ''@'' email ! 0))
        PLATFORM True entra_user_id)
     (ret \<lparr>pr_user_type = PStr ''PLATFORM'', pr_is_platform_admin = PBool True, pr_org_id = None,
        pr_was_created = True\<rparr>)"

definition provision_user_by_domain ::
  "'w env \<Rightarrow> string \<Rightarrow> string option \<Rightarrow> string option \<Rightarrow> ('w, provisioning_result) py" where
  "provision_user_by_domain E email entra_user_id display_name =
     py_bind (lift (domain_of email)) (\<lambda>domain.
     py_bind (get_organization_by_domain E (organization_repo None) domain) (\<lambda>res. case res of
       None \<Rightarrow> raise (no_domain_error domain)
     | Some org \<Rightarrow>
        py_then (create_user E (user_repo None) email (str_or display_name (split_all CHR ''@'' email ! 0))
           ORG False entra_user_id)
        (py_then (assign_user_to_org E email (model_str ''id'' org) ''system'')
        (ret \<lparr>pr_user_type = PStr ''ORG'', pr_is_platform_admin = PBool False,
           pr_org_id = Some (model_str ''id'' org), pr_was_created = True\<rparr>))))"

text \<open>What both ways of finding a user end with: the login is noted, the organization found.\<close>

definition existing_user_result :: "'w env \<Rightarrow> string \<Rightarrow> model \<Rightarrow> ('w, provisioning_result) py" where
  "existing_user_result E email user =
     py_then (py_catch (update_last_login E (user_repo None) email) (\<lambda>_. ret ()))
     (py_bind (if dget0 user ''userType'' = PStr ''ORG'' then
          py_bind (get_user_org_id E email) (\<lambda>org.
            if opt_truthy org then ret org
            else py_bind (provision_org_relationship_by_domain E email) (\<lambda>oid. ret (Some oid)))
        else ret None) (\<lambda>org_id.
      ret \<lparr>pr_user_type = dget0 user ''userType'', pr_is_platform_admin = dget0 user ''isPlatformAdmin'',
           pr_org_id = org_id, pr_was_created = False\<rparr>))"

definition refresh_profile :: "'w env \<Rightarrow> string \<Rightarrow> string option \<Rightarrow> model \<Rightarrow> ('w, model) py" where
  "refresh_profile E email display_name user =
     (let email_changed = (model_str ''email'' user \<noteq> email);
          name_changed = (opt_truthy display_name \<and> PStr (the display_name) \<noteq> dget0 user ''displayName'')
      in if email_changed \<or> name_changed then
           py_bind (update_user_profile E (user_repo None) (model_str ''email'' user) email
               (str_or display_name (model_str ''displayName'' user))) (\<lambda>updated.
             ret (case updated of None \<Rightarrow> user | Some u \<Rightarrow> u))
         else ret user)"

definition provision_by_email ::
  "'w env \<Rightarrow> string \<Rightarrow> string option \<Rightarrow> string option \<Rightarrow> ('w, provisioning_result) py" where
  "provision_by_email E email entra_user_id display_name =
     py_bind (get_user E (user_repo None) email) (\<lambda>res. case res of
       Some user \<Rightarrow>
         py_then (if opt_truthy entra_user_id \<and> \<not> truthy (dget0 user ''entraUserId'')
             then update_user_entra_id E (user_repo None) email (the entra_user_id) else ret ())
           (existing_user_result E email user)
     | None \<Rightarrow> py_bind (has_any_users E (user_repo None)) (\<lambda>has_users.
         if \<not> has_users then create_first_platform_admin E email entra_user_id display_name
         else provision_user_by_domain E email entra_user_id display_name))"

definition ensure_user_provisioned ::
  "'w env \<Rightarrow> string \<Rightarrow> string option \<Rightarrow> string option \<Rightarrow> ('w, provisioning_result) py" where
  "ensure_user_provisioned E email entra_user_id display_name =
     (if email = [] \<or> CHR ''@'' \<notin> set email then raise (ValueError (''Invalid email format: '' @ email))
      else if opt_truthy entra_user_id then
        py_bind (get_user_by_entra_id E (user_repo None) (the entra_user_id)) (\<lambda>res. case res of
          Some user \<Rightarrow> py_bind (refresh_profile E email display_name user) (\<lambda>user'.
             existing_user_result E (model_str ''email'' user') user')
        | None \<Rightarrow> provision_by_email E email entra_user_id display_name)
      else provision_by_email E email entra_user_id display_name)"

section \<open>Lookup with caches\<close>

text \<open>Thirty seconds.\<close>

definition cache_ttl :: int where
  "cache_ttl = 30000000"

definition get_cached_user :: "'w env \<Rightarrow> string \<Rightarrow> ('w, entity option) py" where
  "get_cached_user E email = (\<lambda>w. case env_user_cache E w email of
     None \<Rightarrow> (Inr None, w)
   | Some (user, at) \<Rightarrow> py_bind (utcnow E) (\<lambda>now. py_bind (lift (dt_diff now at)) (\<lambda>age.
       if age < cache_ttl then ret (Some user)
       else (\<lambda>w. (Inr None, env_set_user_cache E ((env_user_cache E w)(email := None)) w)))) w)"

definition cache_user :: "'w env \<Rightarrow> string \<Rightarrow> entity \<Rightarrow> ('w, unit) py" where
  "cache_user E email user = py_bind (utcnow E) (\<lambda>now w.
     (Inr (), env_set_user_cache E ((env_user_cache E w)(email \<mapsto> (user, now))) w))"

definition ensure_user_exists_in_db :: "'w env \<Rightarrow> string \<Rightarrow> bool \<Rightarrow> ('w, unit) py" where
  "ensure_user_exists_in_db E email is_admin = py_bind (get_cached_user E email) (\<lambda>cached. case cached of
     Some u \<Rightarrow> ret ()
   | None \<Rightarrow> py_bind (get_user E (user_repo None) email) (\<lambda>res. case res of
       Some user \<Rightarrow> py_then (cache_user E email user)
          (py_catch (update_last_login E (user_repo None) email) (\<lambda>_. ret ()))
     | None \<Rightarrow>
        py_bind (create_user E (user_repo None) email (split_all CHR ''@'' email ! 0)
           (if is_admin then PLATFORM else ORG) is_admin None) (\<lambda>user.
        py_then (cache_user E email user)
          (if is_admin then ret ()
           else py_catch (py_then (provision_org_relationship_by_domain E email) (ret ()))
             (\<lambda>x. case x of ValueError s \<Rightarrow> ret () | _ \<Rightarrow> raise x)))))"

text \<open>The organization from the cache: the stored answer while it is young, an expired one goes.\<close>

definition cached_org :: "'w env \<Rightarrow> string \<Rightarrow> ('w, string option option) py" where
  "cached_org E email = (\<lambda>w. case env_org_cache E w email of
     None \<Rightarrow> (Inr None, w)
   | Some (org, at) \<Rightarrow> py_bind (utcnow E) (\<lambda>now. py_bind (lift (dt_diff now at)) (\<lambda>age.
       if age < cache_ttl then ret (Some org)
       else (\<lambda>w. (Inr None, env_set_org_cache E ((env_org_cache E w)(email := None)) w)))) w)"

definition store_org :: "'w env \<Rightarrow> string \<Rightarrow> string option \<Rightarrow> ('w, unit) py" where
  "store_org E email org = py_bind (utcnow E) (\<lambda>now w.
     (Inr (), env_set_org_cache E ((env_org_cache E w)(email \<mapsto> (org, now))) w))"

definition get_user_organization :: "'w env \<Rightarrow> string \<Rightarrow> ('w, string option) py" where
  "get_user_organization E email = py_bind (cached_org E email) (\<lambda>cached. case cached of
     Some org \<Rightarrow> ret org
   | None \<Rightarrow> py_catch (py_bind (get_user_org_id E email) (\<lambda>org.
       py_then (store_org E email org) (ret org))) (\<lambda>_. ret None))"

section \<open>Lemmas\<close>

lemma wp_top [simp]: "wp m (\<lambda>_ _. True) (\<lambda>_ _. True) w"
  by (simp add: wp_def split: prod.splits sum.splits)

lemma wp_weaken:
  "wp m Q (\<lambda>_ _. True) w \<Longrightarrow> (\<And>a w'. Q a w' \<Longrightarrow> Q' a w') \<Longrightarrow> wp m Q' (\<lambda>_ _. True) w"
  by (rule wp_mono)

text \<open>No user row is stored.\<close>

definition no_users :: "tables \<Rightarrow> bool" where
  "no_users R \<longleftrightarrow> (\<forall>email. R ''Entities'' (''GLOBAL'', user_key email) = None)"

lemma sat_users:
  assumes "entity_key e = Some (q, rk)"
  shows "sat users_filter e \<longleftrightarrow> q = ''GLOBAL'' \<and> (\<exists>email. rk = user_key email)"
proof -
  have "''user:'' \<le> rk \<and> rk < ''user;'' \<longleftrightarrow> (\<exists>email. rk = user_key email)"
    using range_between [of "''user''" "CHR '':''" rk "CHR '';''"] char_between
    by (auto simp: user_key_def)
  then show ?thesis using assms by (auto simp: users_filter_def entity_key_Some)
qed

lemma users_keys:
  assumes sel: "selects users_filter T ks" and keyed: "\<And>k e. T k = Some e \<Longrightarrow> entity_key e = Some k"
  shows "\<exists>rks. ks = map (Pair ''GLOBAL'') rks \<and> distinct rks
    \<and> set rks = {rk. \<exists>e. T (''GLOBAL'', rk) = Some e \<and> (\<exists>email. rk = user_key email)}"
  by (rule partition_keys [OF sel]) (rule sat_users [OF keyed])

lemma wp_existing_user: "wp (existing_user_result E email user) (\<lambda>p _. \<not> pr_was_created p) (\<lambda>_ _. True) w"
  unfolding existing_user_result_def wp_then wp_bind wp_ret
  by (rule wp_weaken [OF wp_top], rule wp_weaken [OF wp_top]) simp

context table_sdk
begin

lemma wp_has_any_users:
  "wp (has_any_users E (user_repo None))
    (\<lambda>b w'. env_rows E w' = env_rows E w \<and> (b \<longleftrightarrow> \<not> no_users (env_rows E w))) (\<lambda>_ _. True) w"
  unfolding has_any_users_def wp_bind
proof (rule wp_query_entities, goal_cases)
  case (3 ks w')
  have t: "svc_table (repo_service (user_repo None)) = ''Entities''"
    by (simp add: repo_service_def user_repo_def)
  obtain rks where rks: "ks = map (Pair ''GLOBAL'') rks"
    "set rks = {rk. \<exists>e. env_rows E w ''Entities'' (''GLOBAL'', rk) = Some e \<and> (\<exists>email. rk = user_key email)}"
    using users_keys [OF 3(2)] rows_keyed t by auto
  have "set rks = {} \<longleftrightarrow> no_users (env_rows E w)"
    unfolding rks(2) no_users_def by auto
  then have "ks = [] \<longleftrightarrow> no_users (env_rows E w)" by (simp add: rks(1))
  then show ?case using 3(1) by (simp add: fetch_def)
qed (simp_all add: users_filter_def odata_nonempty del: odata.simps)

lemma wp_user_model_rows:
  "wp (user_entity_to_model E e) (\<lambda>_ w'. env_rows E w' = env_rows E w) (\<lambda>_ _. True) w"
  unfolding user_entity_to_model_def wp_bind
  by (rule wp_utcnow) (auto split: sum.splits)

lemma wp_get_user_rows:
  "wp (get_user E r email) (\<lambda>_ w'. env_rows E w' = env_rows E w) (\<lambda>_ _. True) w"
  unfolding get_user_def wp_bind get_by_id_def
  by (rule wp_get_entity) (auto intro: wp_mono [OF wp_user_model_rows])

lemma wp_get_user_by_entra_rows:
  "wp (get_user_by_entra_id E r x) (\<lambda>_ w'. env_rows E w' = env_rows E w) (\<lambda>_ _. True) w"
  unfolding get_user_by_entra_id_def wp_bind
  by (rule wp_mono [OF wp_query_entities_reads]) (auto intro: wp_mono [OF wp_user_model_rows] split: list.splits)

lemma wp_provision_by_email:
  "wp (provision_by_email E email x name)
    (\<lambda>p _. pr_was_created p \<and> pr_is_platform_admin p = PBool True \<longrightarrow> no_users (env_rows E w)) (\<lambda>_ _. True) w"
  unfolding provision_by_email_def wp_bind
proof (rule wp_weaken [OF wp_get_user_rows], goal_cases)
  case (1 res v)
  show ?case
  proof (cases res)
    case (Some user)
    show ?thesis
      unfolding Some option.case wp_then
      by (rule wp_weaken [OF wp_top], rule wp_weaken [OF wp_existing_user]) simp
  next
    case None
    have "wp (provision_user_by_domain E email x name)
        (\<lambda>p _. pr_was_created p \<longrightarrow> pr_is_platform_admin p \<noteq> PBool True) (\<lambda>_ _. True) u" for u
      unfolding provision_user_by_domain_def wp_bind wp_then wp_lift
      by (auto split: sum.splits option.splits intro!: wp_weaken [OF wp_top])
    moreover have "wp (create_first_platform_admin E email x name) (\<lambda>_ _. True) (\<lambda>_ _. True) u" for u
      by simp
    ultimately show ?thesis
      unfolding None option.case wp_bind
      by (intro wp_weaken [OF wp_has_any_users]) (auto simp: 1 intro: wp_weaken)
  qed
qed

lemma wp_ensure_user_provisioned:
  "wp (ensure_user_provisioned E email x name)
    (\<lambda>p _. pr_was_created p \<and> pr_is_platform_admin p = PBool True \<longrightarrow> no_users (env_rows E w)) (\<lambda>_ _. True) w"
proof -
  have "wp (py_bind (get_user_by_entra_id E (user_repo None) y) (\<lambda>res. case res of
          Some user \<Rightarrow> py_bind (refresh_profile E email name user) (\<lambda>user'.
             existing_user_result E (model_str ''email'' user') user')
        | None \<Rightarrow> provision_by_email E email x name))
    (\<lambda>p _. pr_was_created p \<and> pr_is_platform_admin p = PBool True \<longrightarrow> no_users (env_rows E w)) (\<lambda>_ _. True) w" for y
    unfolding wp_bind
  proof (rule wp_weaken [OF wp_get_user_by_entra_rows], goal_cases)
    case (1 res v)
    show ?case
    proof (cases res)
      case (Some user)
      show ?thesis
        unfolding Some option.case wp_bind
        by (rule wp_weaken [OF wp_top], rule wp_weaken [OF wp_existing_user]) simp
    next
      case None
      then show ?thesis
        using wp_provision_by_email [of email x name v] 1 by simp
    qed
  qed
  then show ?thesis
    unfolding ensure_user_provisioned_def using wp_provision_by_email by simp
qed

text \<open>The organization of a user: the cached answer while it is young, else what is stored.\<close>

lemma wp_get_user_organization:
  assumes "env_org_cache E w email = None"
    and "no_quote email" and "CHR '':'' \<notin> set email" and "keys_wf ''userperm'' (env_rows E w ''Relationships'')"
    and "own_orgs (env_rows E w ''Relationships'') email \<noteq> {}"
  shows "wp (get_user_organization E email)
    (\<lambda>res w'. env_rows E w' = env_rows E w
       \<and> (res = None \<or> (\<exists>oid \<in> own_orgs (env_rows E w ''Relationships'') email. res = Some oid)))
    (\<lambda>_ _. False) w"
proof -
  have miss: "wp (cached_org E email) Q R w = Q None w" for Q R
    using assms(1) by (simp add: cached_org_def wp_def)
  have store: "wp (store_org E email x) (\<lambda>_ w'. env_rows E w' = env_rows E v) (\<lambda>_ _. False) v" for x v
    unfolding store_org_def wp_bind
    by (rule wp_utcnow) (simp add: wp_def set_org_cache_rows)
  show ?thesis
    unfolding get_user_organization_def wp_bind miss option.case wp_catch wp_then
  proof (rule wp_mono [OF wp_user_org_id [OF assms(2-4)]], goal_cases)
    case (1 res v)
    show ?case
    proof (rule wp_mono [OF store], goal_cases)
      case (1 u v')
      then show ?case
        using \<open>env_rows E v = env_rows E w \<and> _\<close> assms(5) by (cases res) (auto simp: Let_def read_for_def assms(3))
    qed simp
  qed simp
qed

end

section \<open>Properties\<close>



text \<open>
  an email that is not in the cache and has an organization assigned is answered with one of
  its own organizations or, when a request fails, with none; looking it up raises nothing and
  changes no row.
\<close>

theorem get_user_organization_own:
  assumes "table_sdk E" and "env_org_cache E w email = None"
    and "no_quote email" and "CHR '':'' \<notin> set email"
    and "keys_wf ''userperm'' (env_rows E w ''Relationships'')"
    and "own_orgs (env_rows E w ''Relationships'') email \<noteq> {}"
  shows "\<exists>res w'. get_user_organization E email w = (Inr res, w') \<and> env_rows E w' = env_rows E w
    \<and> (res = None \<or> (\<exists>oid \<in> own_orgs (env_rows E w ''Relationships'') email. res = Some oid))"
  using table_sdk.wp_get_user_organization [OF assms]
  by (cases "get_user_organization E email w") (auto simp: wp_def split: sum.splits)

theorem get_user_organization_own_witness:
  "\<exists>res w'. get_user_organization mem_env ''ann@acme.com'' two_emails_world = (Inr res, w')
     \<and> (res = None \<or> res = Some ''acme'')"
proof -
  have own: "own_orgs (mem_view two_emails_world ''Relationships'') ''ann@acme.com'' = {''acme''}"
    by (auto simp: own_orgs_def two_emails_rows userperm_key_def split: if_splits)
  then show ?thesis
    using get_user_organization_own [OF mem.table_sdk_axioms, of two_emails_world "''ann@acme.com''"] two_emails_wf
    by (auto simp: mem_env_def two_emails_world_def)
qed

end
