(* ===== verification/Audit_Log.thy ===== *)
theory Audit_Log
  imports User_Provisioning
begin

text \<open>
  \<open>shared/repositories/audit.py\<close> and \<open>shared/audit.py\<close>: audit events are rows of the \<open>AuditLog\<close>
  table, partitioned by day, newest first within a day; the logger around the repository never
  lets a failure reach the request.
\<close>

section \<open>Repository\<close>

definition audit_repo :: repo where
  "audit_repo = \<lparr>repo_table = ''AuditLog'', repo_context = None\<rparr>"

text \<open>\<open>uuid.uuid4().hex\<close> is the identifier without its dashes.\<close>

definition uuid_hex :: "'w env \<Rightarrow> ('w, string) py" where
  "uuid_hex E = py_bind (uuid4 E) (\<lambda>s. ret (filter (\<lambda>c. c \<noteq> CHR ''-'') s))"

definition audit_entity :: "'w env \<Rightarrow> string \<Rightarrow> datetime \<Rightarrow> string \<Rightarrow> entity \<Rightarrow> entity" where
  "audit_entity E event_type at hex data =
     [''PartitionKey'' \<mapsto> PStr (env_strftime E ''%Y-%m-%d'' at),
      ''RowKey'' \<mapsto> PStr (str_int (9999999999999 - env_timestamp_ms E at) @ ''_'' @ hex),
      ''EventType'' \<mapsto> PStr event_type, ''Timestamp'' \<mapsto> PStr (env_isoformat E at)] ++ data"

definition log_event :: "'w env \<Rightarrow> string \<Rightarrow> entity \<Rightarrow> ('w, unit) py" where
  "log_event E event_type data = py_bind (now_utc E) (\<lambda>now. py_bind (uuid_hex E) (\<lambda>hex.
     py_then (repo_insert E audit_repo (audit_entity E event_type now hex data)) (ret ())))"

text \<open>\<open>json.dumps(details) if details else None\<close>.\<close>

definition dump_details :: "'w env \<Rightarrow> pyval \<Rightarrow> exn + pyval" where
  "dump_details E details = (if truthy details
     then (case env_dumps E details of Inl x \<Rightarrow> Inl x | Inr s \<Rightarrow> Inr (PStr s)) else Inr PNone)"

definition repo_log_function_key_access :: "'w env \<Rightarrow> string \<Rightarrow> string \<Rightarrow> string \<Rightarrow> string \<Rightarrow> string
    \<Rightarrow> string \<Rightarrow> string \<Rightarrow> int \<Rightarrow> pyval \<Rightarrow> ('w, unit) py" where
  "repo_log_function_key_access E key_id key_name org_id endpoint meth remote_addr user_agent status details =
     py_bind (lift (dump_details E details)) (\<lambda>d.
     log_event E ''function_key_access''
       [''KeyId'' \<mapsto> PStr key_id, ''KeyName'' \<mapsto> PStr key_name, ''OrgId'' \<mapsto> PStr org_id,
        ''Endpoint'' \<mapsto> PStr endpoint, ''Method'' \<mapsto> PStr meth, ''RemoteAddr'' \<mapsto> PStr remote_addr,
        ''UserAgent'' \<mapsto> PStr user_agent, ''StatusCode'' \<mapsto> PInt status, ''Details'' \<mapsto> d])"

definition repo_log_cross_org_access :: "'w env \<Rightarrow> string \<Rightarrow> string \<Rightarrow> string \<Rightarrow> string \<Rightarrow> string
    \<Rightarrow> int \<Rightarrow> pyval \<Rightarrow> ('w, unit) py" where
  "repo_log_cross_org_access E user_id target_org_id endpoint meth remote_addr status details =
     py_bind (lift (dump_details E details)) (\<lambda>d.
     log_event E ''cross_org_access''
       [''UserId'' \<mapsto> PStr user_id, ''OrgId'' \<mapsto> PStr target_org_id, ''Endpoint'' \<mapsto> PStr endpoint,
        ''Method'' \<mapsto> PStr meth, ''RemoteAddr'' \<mapsto> PStr remote_addr, ''StatusCode'' \<mapsto> PInt status,
        ''Details'' \<mapsto> d])"

definition repo_log_import_violation_attempt ::
  "'w env \<Rightarrow> string \<Rightarrow> string \<Rightarrow> string list option \<Rightarrow> ('w, unit) py" where
  "repo_log_import_violation_attempt E blocked_module workspace_file stack_trace =
     py_bind (lift (env_dumps E (PDict [(''stack_trace'', PList (map PStr
        (case stack_trace of None \<Rightarrow> [] | Some ls \<Rightarrow> ls)))]))) (\<lambda>d.
     log_event E ''engine_violation_attempt''
       [''BlockedModule'' \<mapsto> PStr blocked_module, ''WorkspaceFile'' \<mapsto> PStr workspace_file, ''Details'' \<mapsto> PStr d])"

text \<open>Days are counted from the epoch; a day is named by the date of its start.\<close>

definition day_us :: int where
  "day_us = 86400000000"

fun date_of :: "datetime \<Rightarrow> int" where
  "date_of (Naive i) = i div day_us"
| "date_of (Aware i z) = (i + z * 60000000) div day_us"

definition day_filter :: "'w env \<Rightarrow> string option \<Rightarrow> int \<Rightarrow> clause list" where
  "day_filter E event_type day =
     (''PartitionKey'', OEq, OStr (env_strftime E ''%Y-%m-%d'' (Naive (day * day_us))))
     # (if opt_truthy event_type then [(''EventType'', OEq, OStr (the event_type))] else [])"

definition query_by_date_range ::
  "'w env \<Rightarrow> datetime \<Rightarrow> datetime \<Rightarrow> string option \<Rightarrow> ('w, entity list) py" where
  "query_by_date_range E start_date end_date event_type =
     py_bind (py_map (\<lambda>day. repo_query E audit_repo (odata (day_filter E event_type day)) None)
        [date_of start_date..date_of end_date]) (\<lambda>ess. ret (concat ess))"

section \<open>Logger\<close>

definition audit_enabled :: "'w env \<Rightarrow> bool" where
  "audit_enabled E \<longleftrightarrow> opt_truthy (env_getenv E ''AzureWebJobsStorage'')"

text \<open>Every logging method: nothing when disabled, and failures are noted only.\<close>

definition audited :: "'w env \<Rightarrow> ('w, unit) py \<Rightarrow> ('w, unit) py" where
  "audited E m = (if audit_enabled E then py_catch m (\<lambda>_. ret ()) else ret ())"

definition log_function_key_access :: "'w env \<Rightarrow> string \<Rightarrow> string \<Rightarrow> string \<Rightarrow> string \<Rightarrow> string
    \<Rightarrow> string \<Rightarrow> string \<Rightarrow> int \<Rightarrow> pyval \<Rightarrow> ('w, unit) py" where
  "log_function_key_access E key_id key_name org_id endpoint meth remote_addr user_agent status details =
     audited E (repo_log_function_key_access E key_id key_name org_id endpoint meth remote_addr user_agent
       status details)"

definition log_cross_org_access :: "'w env \<Rightarrow> string \<Rightarrow> string \<Rightarrow> string \<Rightarrow> string \<Rightarrow> string
    \<Rightarrow> int \<Rightarrow> pyval \<Rightarrow> ('w, unit) py" where
  "log_cross_org_access E user_id target_org_id endpoint meth remote_addr status details =
     audited E (repo_log_cross_org_access E user_id target_org_id endpoint meth remote_addr status details)"

definition log_import_violation_attempt ::
  "'w env \<Rightarrow> string \<Rightarrow> string \<Rightarrow> string list option \<Rightarrow> ('w, unit) py" where
  "log_import_violation_attempt E blocked_module workspace_file stack_trace =
     audited E (repo_log_import_violation_attempt E blocked_module workspace_file stack_trace)"

section \<open>Lemmas\<close>

text \<open>The event-specific fields never name a key of the row.\<close>

lemma audit_entity_key:
  assumes "data ''PartitionKey'' = None" and "data ''RowKey'' = None"
  shows "\<exists>k. entity_key (audit_entity E t at hex data) = Some k"
  using assms by (auto simp: audit_entity_def entity_key_def map_add_def)

context table_sdk
begin

lemma wp_log_event:
  assumes "data ''PartitionKey'' = None" and "data ''RowKey'' = None"
  shows "wp (log_event E t data) (\<lambda>_ w'. grows ''AuditLog'' UNIV (env_rows E w) (env_rows E w'))
    (\<lambda>_ w'. grows ''AuditLog'' UNIV (env_rows E w) (env_rows E w')) w"
  unfolding log_event_def now_utc_def uuid_hex_def wp_bind wp_ret
proof (rule wp_utcnow, rule wp_uuid4, goal_cases)
  case (1 d v hex u)
  obtain k where k: "entity_key (audit_entity E t (case d of Naive i \<Rightarrow> Aware i 0 | Aware x y \<Rightarrow> d)
      (filter (\<lambda>c. c \<noteq> CHR ''-'') hex) data) = Some k"
    using audit_entity_key [OF assms] by blast
  show ?case
    unfolding repo_insert_def wp_then wp_ret
    by (rule wp_insert_entity [OF k]) (use 1 in \<open>auto simp: repo_service_def audit_repo_def intro!: grows_insert\<close>)
qed

lemma wp_audited:
  assumes "wp m (\<lambda>_ w'. grows ''AuditLog'' UNIV (env_rows E w) (env_rows E w'))
    (\<lambda>_ w'. grows ''AuditLog'' UNIV (env_rows E w) (env_rows E w')) w"
  shows "wp (audited E m) (\<lambda>_ w'. grows ''AuditLog'' UNIV (env_rows E w) (env_rows E w')) (\<lambda>_ _. False) w"
  using assms by (auto simp: audited_def elim: wp_mono)

lemma wp_log_function_key_access:
  "wp (log_function_key_access E a b c d e f g n x)
     (\<lambda>_ w'. grows ''AuditLog'' UNIV (env_rows E w) (env_rows E w')) (\<lambda>_ _. False) w"
  unfolding log_function_key_access_def repo_log_function_key_access_def
  by (rule wp_audited) (auto split: sum.splits intro!: wp_log_event)

end

section \<open>Properties\<close>

text \<open>
  Recording the use of a function key never raises, and whatever requests fail it does nothing
  but add rows to the \<open>AuditLog\<close> table: no stored row of any table is changed or removed.
\<close>

theorem audit_never_disturbs:
  assumes "table_sdk E"
  shows "\<exists>w'. log_function_key_access E key_id key_name org_id endpoint meth remote_addr user_agent status details w
      = (Inr (), w') \<and> (\<forall>t k. env_rows E w t k \<noteq> None \<longrightarrow> env_rows E w' t k = env_rows E w t k)
    \<and> (\<forall>t. t \<noteq> ''AuditLog'' \<longrightarrow> env_rows E w' t = env_rows E w t)"
proof -
  obtain res w' where run: "log_function_key_access E key_id key_name org_id endpoint meth remote_addr user_agent
      status details w = (res, w')" by fastforce
  have "grows ''AuditLog'' UNIV (env_rows E w) (env_rows E w') \<and> res = Inr ()"
    using table_sdk.wp_log_function_key_access [OF assms, of key_id key_name org_id endpoint meth remote_addr
        user_agent status details w] run by (cases res) (auto simp: wp_def)
  then show ?thesis using run by (auto simp: grows_def intro!: exI [of _ w'] ext)
qed

theorem audit_never_disturbs_witness:
  "fst (log_function_key_access mem_env ''k'' ''default'' ''unknown'' ''/api'' ''GET'' ''unknown'' ''unknown'' 0 PNone
     (running_world\<lparr>mem_faults := [True]\<rparr>)) = Inr ()"
  using audit_never_disturbs [OF mem.table_sdk_axioms, of "''k''" "''default''" "''unknown''" "''/api''" "''GET''"
      "''unknown''" "''unknown''" 0 PNone "running_world\<lparr>mem_faults := [True]\<rparr>"]
  by auto

end
