(* ===== verification/Request_Context.thy ===== *)
theory Request_Context
  imports Audit_Log
begin

text \<open>
  Who is calling and in which organization: \<open>shared/auth.py\<close> (principals, the organization
  context of old handlers) and \<open>shared/request_context.py\<close> (the context of all endpoints). A
  request is what the code reads of it. The fields of an Easy Auth principal are JSON values.
\<close>

section \<open>Requests and principals\<close>

record http_request =
  req_headers :: "string \<Rightarrow> string option"
  req_params :: "string \<Rightarrow> string option"
  req_route :: "string \<Rightarrow> string option"
  req_url :: string
  req_method :: string

record user_principal =
  up_user_id :: pyval
  up_email :: pyval
  up_name :: pyval
  up_roles :: pyval
  up_identity_provider :: pyval

datatype principal =
    FunctionKeyPrincipal string string
  | UserPrincipal user_principal

fun is_function_key :: "principal \<Rightarrow> bool" where
  "is_function_key (FunctionKeyPrincipal k n) = True"
| "is_function_key (UserPrincipal u) = False"

text \<open>\<open>json.loads(base64.b64decode(header).decode('utf-8'))\<close>.\<close>

definition decode_principal :: "'w env \<Rightarrow> string \<Rightarrow> exn + pyval" where
  "decode_principal E h = ebind (env_b64decode E h) (\<lambda>s. case env_loads E s of
     Some v \<Rightarrow> Inr v | None \<Rightarrow> Inl (ValueError ''JSONDecodeError''))"

text \<open>\<open>email.split('@')[0] if email else user_id\<close>.\<close>

definition display_name_of :: "pyval \<Rightarrow> pyval \<Rightarrow> exn + pyval" where
  "display_name_of email user_id = (if \<not> truthy email then Inr user_id
     else (case email of PStr s \<Rightarrow> Inr (PStr (split_all CHR ''@'' s ! 0)) | _ \<Rightarrow> Inl (AttributeError ''split'')))"

definition easy_auth_identity :: "'w env \<Rightarrow> exn \<Rightarrow> string \<Rightarrow> exn + user_principal" where
  "easy_auth_identity E missing h =
     ebind (decode_principal E h) (\<lambda>data.
     ebind (pget data ''userId'' PNone) (\<lambda>user_id.
     ebind (pget data ''userDetails'' (PStr [])) (\<lambda>email.
     ebind (if truthy user_id then Inr user_id else if truthy email then Inr email else Inl missing) (\<lambda>uid.
     ebind (display_name_of email uid) (\<lambda>name.
     ebind (pget data ''userRoles'' (PList [])) (\<lambda>roles.
     ebind (pget data ''identityProvider'' (PStr ''aad'')) (\<lambda>idp.
       Inr \<lparr>up_user_id = uid, up_email = email, up_name = name, up_roles = roles,
            up_identity_provider = idp\<rparr>)))))))"

section \<open>Authentication service\<close>

definition missing_identity :: string where
  "missing_identity = ''X-MS-CLIENT-PRINCIPAL missing both userId and userDetails''"

definition authentication_error :: "string \<Rightarrow> exn" where
  "authentication_error s = AppError ''AuthenticationError'' s"

definition is_production :: "'w env \<Rightarrow> bool" where
  "is_production E \<longleftrightarrow> opt_truthy (env_getenv E ''WEBSITE_SITE_NAME'')
     \<or> lower (case env_getenv E ''AZURE_FUNCTIONS_ENVIRONMENT'' of Some s \<Rightarrow> s | None \<Rightarrow> []) = ''production''"

definition header_or :: "http_request \<Rightarrow> string \<Rightarrow> string \<Rightarrow> string" where
  "header_or req h d = (case req_headers req h of Some s \<Rightarrow> s | None \<Rightarrow> d)"

definition audit_key_usage :: "'w env \<Rightarrow> http_request \<Rightarrow> string \<Rightarrow> string \<Rightarrow> ('w, unit) py" where
  "audit_key_usage E req key_id key_name = py_catch
     (log_function_key_access E (take 8 key_id @ ''...'') key_name
        (header_or req ''X-Organization-Id'' ''unknown'') (req_url req) (req_method req)
        (header_or req ''X-Forwarded-For'' ''unknown'') (header_or req ''User-Agent'' ''unknown'') 0 PNone)
     (\<lambda>_. ret ())"

text \<open>\<open>key = headers.get(...)\<close>, then \<open>params.get('code')\<close> when that is missing or empty.\<close>

definition function_key :: "http_request \<Rightarrow> string option" where
  "function_key req = (if opt_truthy (req_headers req ''x-functions-key'')
     then req_headers req ''x-functions-key'' else req_params req ''code'')"

definition try_function_key :: "'w env \<Rightarrow> http_request \<Rightarrow> ('w, principal option) py" where
  "try_function_key E req = (case function_key req of
     None \<Rightarrow> ret None
   | Some key \<Rightarrow> (if strip key = [] then ret None
       else py_then (audit_key_usage E req (strip key) ''default'')
         (ret (Some (FunctionKeyPrincipal (strip key) ''default'')))))"

definition try_easy_auth :: "'w env \<Rightarrow> http_request \<Rightarrow> exn + principal option" where
  "try_easy_auth E req =
     (if \<not> opt_truthy (req_headers req ''X-MS-CLIENT-PRINCIPAL'') then Inr None
      else (case easy_auth_identity E (authentication_error missing_identity)
                   (the (req_headers req ''X-MS-CLIENT-PRINCIPAL'')) of
          Inl x \<Rightarrow> Inl (authentication_error (''Failed to decode Easy Auth principal: '' @ exn_msg x))
        | Inr u \<Rightarrow> Inr (Some (UserPrincipal u))))"

definition authenticate :: "'w env \<Rightarrow> http_request \<Rightarrow> ('w, principal) py" where
  "authenticate E req = py_bind (try_function_key E req) (\<lambda>p1. case p1 of
     Some p \<Rightarrow> ret p
   | None \<Rightarrow> py_bind (lift (try_easy_auth E req)) (\<lambda>p2. case p2 of
       Some p \<Rightarrow> ret p
     | None \<Rightarrow>
        (if \<not> is_production E then ret (FunctionKeyPrincipal ''local-dev'' ''local-development'')
         else raise (authentication_error
           (''Authentication required. Provide x-functions-key header, ?code query param, ''
            @ ''or X-MS-CLIENT-PRINCIPAL header from Azure Easy Auth.'')))))"

section \<open>Organization context\<close>

definition is_platform_admin :: "'w env \<Rightarrow> string \<Rightarrow> ('w, bool) py" where
  "is_platform_admin E user_id = py_catch
     (py_bind (get_user E (user_repo None) user_id) (\<lambda>res. ret (case res of
        None \<Rightarrow> False
      | Some u \<Rightarrow> truthy (dget0 u ''isPlatformAdmin'') \<and> dget0 u ''userType'' = PStr ''PLATFORM'')))
     (\<lambda>_. ret False)"

definition auth_get_user_org_id :: "'w env \<Rightarrow> string \<Rightarrow> ('w, string option) py" where
  "auth_get_user_org_id E user_id = py_catch (get_user_org_id E user_id) (\<lambda>_. ret None)"

text \<open>The answer: organization, user, and the status of an error response when there is one.\<close>

definition get_org_context ::
  "'w env \<Rightarrow> principal option \<Rightarrow> http_request \<Rightarrow> ('w, string option \<times> string \<times> int option) py" where
  "get_org_context E pr req = (case pr of
     None \<Rightarrow> ret (None, [], Some 401)
   | Some (FunctionKeyPrincipal k n) \<Rightarrow> ret (req_headers req ''X-Organization-Id'', ''function-key'', None)
   | Some (UserPrincipal u) \<Rightarrow>
      (let user_id = fstr E (up_user_id u); provided = req_headers req ''X-Organization-Id'' in
       py_bind (is_platform_admin E user_id) (\<lambda>is_admin.
         if is_admin then ret (provided, user_id, None)
         else if opt_truthy provided then ret (None, [], Some 403)
         else py_bind (auth_get_user_org_id E user_id) (\<lambda>org.
           if \<not> opt_truthy org then ret (None, [], Some 404) else ret (org, user_id, None)))))"

section \<open>Request context\<close>

record request_context =
  rc_user_id :: pyval
  rc_email :: pyval
  rc_name :: pyval
  rc_org_id :: "string option"
  rc_is_platform_admin :: bool
  rc_is_function_key :: bool

definition rc_scope :: "request_context \<Rightarrow> string" where
  "rc_scope c = str_or (rc_org_id c) ''GLOBAL''"

definition get_request_context :: "'w env \<Rightarrow> http_request \<Rightarrow> ('w, request_context) py" where
  "get_request_context E req =
     (if opt_truthy (function_key req) then
        ret \<lparr>rc_user_id = PStr ''system'', rc_email = PStr ''system@local'',
             rc_name = PStr ''System (Function Key)'', rc_org_id = req_headers req ''X-Organization-Id'',
             rc_is_platform_admin = True, rc_is_function_key = True\<rparr>
      else if \<not> opt_truthy (req_headers req ''X-MS-CLIENT-PRINCIPAL'') then
        raise (ValueError (''Authentication required. ''
          @ ''Ensure you'' @ quote @ ''re using SWA with GetRoles configured, or provide a function key.''))
      else (case easy_auth_identity E (ValueError missing_identity)
                   (the (req_headers req ''X-MS-CLIENT-PRINCIPAL'')) of
          Inl x \<Rightarrow> raise (ValueError (''Invalid authentication: '' @ exn_msg x))
        | Inr u \<Rightarrow> py_bind (lift (py_contains ''PlatformAdmin'' (up_roles u))) (\<lambda>is_admin.
            let provided = req_headers req ''X-Organization-Id'' in
            if is_admin then
              ret \<lparr>rc_user_id = up_user_id u, rc_email = up_email u, rc_name = up_name u, rc_org_id = provided,
                   rc_is_platform_admin = True, rc_is_function_key = False\<rparr>
            else if opt_truthy provided then
              raise (PermissionError ''Only platform administrators can override organization context'')
            else py_bind (get_user_organization E (fstr E (up_email u))) (\<lambda>org.
              if \<not> opt_truthy org then
                raise (ValueError (''User '' @ fstr E (up_email u) @ '' has no organization assignment. ''
                  @ ''Please contact your administrator to assign you to an organization.''))
              else ret \<lparr>rc_user_id = up_user_id u, rc_email = up_email u, rc_name = up_name u, rc_org_id = org,
                   rc_is_platform_admin = False, rc_is_function_key = False\<rparr>))))"

section \<open>Properties\<close>

text \<open>
  C16: the organization of a request. A context without administrator rights comes from an Easy Auth
  principal without the role, never from a function key and never with an organization header; its
  organization is the one looked up for the principal's email. Every other context that is answered
  has the organization of the header, administrator rights, and either a function key or the role.
\<close>

theorem request_context_scope:
  assumes "get_request_context E req w = (Inr c, w')"
  shows "if rc_is_platform_admin c
     then rc_org_id c = req_headers req ''X-Organization-Id''
       \<and> (rc_is_function_key c \<longleftrightarrow> opt_truthy (function_key req))
       \<and> (rc_is_function_key c \<or> (\<exists>u. easy_auth_identity E (ValueError missing_identity)
             (the (req_headers req ''X-MS-CLIENT-PRINCIPAL'')) = Inr u
           \<and> py_contains ''PlatformAdmin'' (up_roles u) = Inr True))
     else \<not> rc_is_function_key c \<and> \<not> opt_truthy (function_key req)
       \<and> \<not> opt_truthy (req_headers req ''X-Organization-Id'')
       \<and> opt_truthy (rc_org_id c)
       \<and> (\<exists>u. easy_auth_identity E (ValueError missing_identity)
             (the (req_headers req ''X-MS-CLIENT-PRINCIPAL'')) = Inr u
           \<and> py_contains ''PlatformAdmin'' (up_roles u) = Inr False
           \<and> get_user_organization E (fstr E (up_email u)) w = (Inr (rc_org_id c), w'))"
  using assms unfolding get_request_context_def
  by (auto simp: py_run_defs Let_def split: if_splits sum.splits prod.splits)

definition request_with :: "(string \<times> string) list \<Rightarrow> http_request" where
  "request_with hs = \<lparr>req_headers = map_of hs, req_params = Map.empty, req_route = Map.empty,
     req_url = ''/api'', req_method = ''GET''\<rparr>"

text \<open>The header of a member without roles, as a JSON document.\<close>

definition quoted :: "string \<Rightarrow> string" where
  "quoted s = [CHR 0x22] @ s @ [CHR 0x22]"

definition member_header :: "string \<Rightarrow> string" where
  "member_header email = ''{'' @ quoted ''userDetails'' @ '':'' @ quoted email @ '','' @ quoted ''userRoles''
     @ '':['' @ quoted ''authenticated'' @ '']}''"

definition member_request :: http_request where
  "member_request = request_with [(''X-MS-CLIENT-PRINCIPAL'', member_header ''ann@acme.com'')]"

theorem request_context_scope_witness:
  "\<exists>c w'. get_request_context mem_env member_request two_emails_world = (Inr c, w')
     \<and> \<not> rc_is_platform_admin c \<and> opt_truthy (rc_org_id c)"
proof -
  let ?run = "get_request_context mem_env member_request two_emails_world"
  have "case ?run of (Inr c, _) \<Rightarrow> \<not> rc_is_platform_admin c | _ \<Rightarrow> False" by code_simp
  then obtain c w' where run: "?run = (Inr c, w')" and c: "\<not> rc_is_platform_admin c"
    by (auto split: prod.splits sum.splits)
  then show ?thesis using request_context_scope [OF run] by auto
qed

end
