(* ===== verification/Form_Validation.thy ===== *)
theory Form_Validation
  imports Prelude "HOL-Library.AList"
begin

text \<open>
  \<open>shared/validators.py\<close>: which fields of a form the inputs of its data providers refer to, the
  depth-first search for circular references, and the check that references point to earlier
  fields. A Python set has no order of its own: the order in which a loop visits it is the
  parameter \<open>ord\<close>.
\<close>

section \<open>Fields\<close>

datatype input_mode = STATIC | FIELD_REF | EXPRESSION

record input_config =
  ic_mode :: input_mode
  ic_value :: "string option"
  ic_field_name :: "string option"
  ic_expression :: "string option"

datatype field_type =
    TEXT | EMAIL | NUMBER | SELECT | CHECKBOX | TEXTAREA | RADIO | DATETIME | MARKDOWN | HTML | FILE

fun field_type_value :: "field_type \<Rightarrow> string" where
  "field_type_value TEXT = ''text''"
| "field_type_value EMAIL = ''email''"
| "field_type_value NUMBER = ''number''"
| "field_type_value SELECT = ''select''"
| "field_type_value CHECKBOX = ''checkbox''"
| "field_type_value TEXTAREA = ''textarea''"
| "field_type_value RADIO = ''radio''"
| "field_type_value DATETIME = ''datetime''"
| "field_type_value MARKDOWN = ''markdown''"
| "field_type_value HTML = ''html''"
| "field_type_value FILE = ''file''"

text \<open>\<open>FormField\<close>; dictionaries are association lists in the order of their items.\<close>

record form_field =
  ff_name :: string
  ff_label :: "string option"
  ff_type :: field_type
  ff_required :: bool
  ff_validation :: "(string \<times> pyval) list option"
  ff_data_provider :: "string option"
  ff_inputs :: "(string \<times> input_config) list option"
  ff_default_value :: "pyval option"
  ff_placeholder :: "string option"
  ff_help_text :: "string option"
  ff_visibility_expression :: "string option"
  ff_options :: "(string \<times> string) list list option"
  ff_allowed_types :: "string list option"
  ff_multiple :: "bool option"
  ff_max_size_mb :: "int option"
  ff_content :: "string option"
  ff_allow_as_query_param :: "bool option"

text \<open>\<open>DataProviderInputConfig.validate_mode_data\<close>: exactly the member of the mode is set.\<close>

definition validate_mode_data :: "input_config \<Rightarrow> exn + input_config" where
  "validate_mode_data c =
     (case ic_mode c of
        STATIC \<Rightarrow>
          if \<not> opt_truthy (ic_value c) then Inl (ValueError ''value required for static mode'')
          else if opt_truthy (ic_field_name c) \<or> opt_truthy (ic_expression c)
          then Inl (ValueError ''only value should be set for static mode'')
          else Inr c
      | FIELD_REF \<Rightarrow>
          if \<not> opt_truthy (ic_field_name c) then Inl (ValueError ''fieldName required for fieldRef mode'')
          else if opt_truthy (ic_value c) \<or> opt_truthy (ic_expression c)
          then Inl (ValueError ''only fieldName should be set for fieldRef mode'')
          else Inr c
      | EXPRESSION \<Rightarrow>
          if \<not> opt_truthy (ic_expression c) then Inl (ValueError ''expression required for expression mode'')
          else if opt_truthy (ic_value c) \<or> opt_truthy (ic_field_name c)
          then Inl (ValueError ''only expression should be set for expression mode'')
          else Inr c)"

definition validate_field_requirements :: "form_field \<Rightarrow> exn + form_field" where
  "validate_field_requirements f =
     (if ff_inputs f \<noteq> None \<and> ff_inputs f \<noteq> Some [] \<and> \<not> opt_truthy (ff_data_provider f)
      then Inl (ValueError ''dataProviderInputs requires dataProvider to be set'')
      else if ff_type f \<notin> {MARKDOWN, HTML} \<and> \<not> opt_truthy (ff_label f)
      then Inl (ValueError (''label is required for '' @ field_type_value (ff_type f) @ '' fields''))
      else if ff_type f \<in> {MARKDOWN, HTML} \<and> \<not> opt_truthy (ff_content f)
      then Inl (ValueError (''content is required for '' @ field_type_value (ff_type f) @ '' fields''))
      else Inr f)"

definition validate_unique_names :: "form_field list \<Rightarrow> exn + form_field list" where
  "validate_unique_names fs =
     (let names = map ff_name fs
      in if length names \<noteq> card (set names) then Inl (ValueError ''Field names must be unique'') else Inr fs)"

section \<open>References in expressions\<close>

text \<open>
  \<open>re.findall\<close> with one group: matches from the left that do not overlap. A matcher answers
  the group and the length of the match at the start of a string; neither pattern matches the
  empty string.
\<close>

fun findall :: "(string \<Rightarrow> (string \<times> nat) option) \<Rightarrow> string \<Rightarrow> string list" where
  "findall m [] = []"
| "findall m (c # s) = (case m (c # s) of
     None \<Rightarrow> findall m s
   | Some (g, n) \<Rightarrow> g # findall m (drop (n - 1) s))"

definition ident_start :: "char \<Rightarrow> bool" where
  "ident_start c \<longleftrightarrow> is_letter c \<or> c = CHR ''_''"

definition ident_char :: "char \<Rightarrow> bool" where
  "ident_char c \<longleftrightarrow> ident_start c \<or> is_digit c"

definition is_quote :: "char \<Rightarrow> bool" where
  "is_quote c \<longleftrightarrow> c = CHR 0x22 \<or> c = CHR 0x27"

text \<open>\<open>context\.field\.([a-zA-Z_][a-zA-Z0-9_]*)\<close>\<close>

definition dot_pattern :: "string \<Rightarrow> (string \<times> nat) option" where
  "dot_pattern s =
     (if startswith s ''context.field.'' then
        (let r = drop 14 s; g = takeWhile ident_char r
         in if r \<noteq> [] \<and> ident_start (hd r) then Some (g, 14 + length g) else None)
      else None)"

text \<open>\<open>context\.field\[["\']([^"\']+)["\']\]\<close>\<close>

definition bracket_pattern :: "string \<Rightarrow> (string \<times> nat) option" where
  "bracket_pattern s =
     (if startswith s ''context.field['' \<and> length s > 14 \<and> is_quote (s ! 14) then
        (let r = drop 15 s; g = takeWhile (\<lambda>c. \<not> is_quote c) r; t = drop (length g) r
         in if g \<noteq> [] \<and> length t \<ge> 2 \<and> t ! 1 = CHR '']'' then Some (g, 15 + length g + 2) else None)
      else None)"

definition extract_field_references :: "string \<Rightarrow> string set" where
  "extract_field_references e = set (findall dot_pattern e) \<union> set (findall bracket_pattern e)"

section \<open>The dependency graph\<close>

text \<open>A dictionary keeps the order of its insertions; \<open>AList.update\<close> is \<open>d[k] = v\<close>.\<close>

type_synonym graph = "(string \<times> string set) list"

definition input_refs :: "input_config \<Rightarrow> string set" where
  "input_refs c = (case ic_mode c of
     STATIC \<Rightarrow> {}
   | FIELD_REF \<Rightarrow> (if opt_truthy (ic_field_name c) then {the (ic_field_name c)} else {})
   | EXPRESSION \<Rightarrow> (if opt_truthy (ic_expression c)
                   then extract_field_references (the (ic_expression c)) else {}))"

definition inputs_of :: "form_field \<Rightarrow> (string \<times> input_config) list" where
  "inputs_of f = (case ff_inputs f of None \<Rightarrow> [] | Some cs \<Rightarrow> cs)"

definition field_deps :: "form_field \<Rightarrow> string set" where
  "field_deps f = (\<Union>(p, c) \<in> set (inputs_of f). input_refs c)"

definition build_dependency_graph :: "form_field list \<Rightarrow> graph" where
  "build_dependency_graph fs =
     fold (\<lambda>f g. if inputs_of f = [] then g else AList.update (ff_name f) (field_deps f) g) fs
       (fold (\<lambda>f g. AList.update (ff_name f) {} g) fs [])"

section \<open>The search for cycles\<close>

record dfs_state =
  visited :: "string set"
  rec_stack :: "string set"
  current_path :: "string list"
  cycle_errors :: "string list"

text \<open>The arrow between the names is one character of Unicode, here in its UTF-8 encoding.\<close>

definition arrow :: string where
  "arrow = '' '' @ [CHR 0xE2, CHR 0x86, CHR 0x92] @ '' ''"

definition cycle_message :: "string list \<Rightarrow> string" where
  "cycle_message c = ''Circular dependency detected: '' @ join arrow c"

definition enter :: "string \<Rightarrow> dfs_state \<Rightarrow> dfs_state" where
  "enter n st = st\<lparr>visited := insert n (visited st), rec_stack := insert n (rec_stack st),
     current_path := current_path st @ [n]\<rparr>"

definition cycle_from :: "string \<Rightarrow> string list \<Rightarrow> string list" where
  "cycle_from n path = dropWhile (\<lambda>x. x \<noteq> n) path @ [n]"

definition report_cycle :: "string \<Rightarrow> dfs_state \<Rightarrow> (exn + bool) \<times> dfs_state" where
  "report_cycle n st =
     (if n \<in> set (current_path st)
      then (Inr True, st\<lparr>cycle_errors := cycle_errors st @ [cycle_message (cycle_from n (current_path st))]\<rparr>)
      else (Inl (ValueError ''not in list''), st))"

definition backtrack :: "string \<Rightarrow> dfs_state \<Rightarrow> (exn + bool) \<times> dfs_state" where
  "backtrack n st =
     (if current_path st = [] then (Inl IndexError, st)
      else let st' = st\<lparr>current_path := butlast (current_path st)\<rparr>
           in if n \<in> rec_stack st' then (Inr False, st'\<lparr>rec_stack := rec_stack st' - {n}\<rparr>)
              else (Inl (KeyError n), st'))"

definition deps_of :: "graph \<Rightarrow> string \<Rightarrow> string set" where
  "deps_of g n = (case map_of g n of None \<Rightarrow> {} | Some s \<Rightarrow> s)"

text \<open>
  \<open>dfs_loop\<close> is the loop over the neighbours in the body of \<open>dfs(node)\<close> with the backtracking
  after it; a call \<open>dfs(neighbor)\<close> enters the neighbour and runs its own loop.
\<close>

function (sequential) dfs_loop :: "graph \<Rightarrow> (string set \<Rightarrow> string list) \<Rightarrow> string \<Rightarrow> string list
    \<Rightarrow> dfs_state \<Rightarrow> (exn + bool) \<times> dfs_state" where
  "dfs_loop g ord node [] st = backtrack node st"
| "dfs_loop g ord node (n # ns) st =
     (if map_of g n = None then dfs_loop g ord node ns st
      else if n \<notin> visited st then
        (case dfs_loop g ord n (ord (deps_of g n)) (enter n st) of
           (Inl e, st') \<Rightarrow> (Inl e, st')
         | (Inr found, st') \<Rightarrow> if found then (Inr True, st') else dfs_loop g ord node ns st')
      else if n \<in> rec_stack st then report_cycle n st
      else dfs_loop g ord node ns st)"
  by pat_completeness auto

lemma visited_backtrack: "backtrack n st = (r, st') \<Longrightarrow> visited st' = visited st"
  by (auto simp: backtrack_def Let_def split: if_splits)

lemma visited_report: "report_cycle n st = (r, st') \<Longrightarrow> visited st' = visited st"
  by (auto simp: report_cycle_def split: if_splits)

lemma visited_enter [simp]: "visited (enter n st) = insert n (visited st)"
  by (simp add: enter_def)

lemma dfs_loop_visited_p:
  "dfs_loop_dom (g, ord, node, ns, st) \<Longrightarrow> dfs_loop g ord node ns st = (r, st') \<Longrightarrow> visited st \<subseteq> visited st'"
proof (induction g ord node ns st arbitrary: r st' rule: dfs_loop.pinduct)
  case (2 g ord node n ns st)
  from "2.prems" show ?case
    by (simp only: dfs_loop.psimps(2) [OF "2.hyps"] split: if_splits prod.splits sum.splits)
      (use "2.IH" in \<open>force dest: visited_report\<close>)+
qed (simp add: dfs_loop.psimps visited_backtrack)

termination dfs_loop
proof (relation "measures [\<lambda>(g, ord, node, ns, st). card (dom (map_of g) - visited st), \<lambda>(g, ord, node, ns, st). length ns]",
    goal_cases)
  case (3 g ord node n ns st)
  then have "dom (map_of g) - insert n (visited st) \<subset> dom (map_of g) - visited st" by auto
  then show ?case by (simp add: psubset_card_mono finite_dom_map_of)
next
  case (4 g ord node n ns st r st')
  then have "visited st \<subseteq> visited st'"
    using dfs_loop_visited_p [OF 4(6) 4(3) [symmetric]] by auto
  then have "card (dom (map_of g) - visited st') \<le> card (dom (map_of g) - visited st)"
    by (intro card_mono) (auto simp: finite_dom_map_of)
  then show ?case by auto
qed auto

definition dfs :: "graph \<Rightarrow> (string set \<Rightarrow> string list) \<Rightarrow> string \<Rightarrow> dfs_state \<Rightarrow> (exn + bool) \<times> dfs_state" where
  "dfs g ord n st = dfs_loop g ord n (ord (deps_of g n)) (enter n st)"

primrec search_fields :: "graph \<Rightarrow> (string set \<Rightarrow> string list) \<Rightarrow> form_field list \<Rightarrow> dfs_state
    \<Rightarrow> (exn + unit) \<times> dfs_state" where
  "search_fields g ord [] st = (Inr (), st)"
| "search_fields g ord (f # fs) st =
     (if ff_name f \<notin> visited st
      then (case dfs g ord (ff_name f) st of
              (Inl e, st') \<Rightarrow> (Inl e, st')
            | (Inr _, st') \<Rightarrow> search_fields g ord fs st')
      else search_fields g ord fs st)"

definition dfs_start :: dfs_state where
  "dfs_start = \<lparr>visited = {}, rec_stack = {}, current_path = [], cycle_errors = []\<rparr>"

definition detect_circular_dependencies ::
  "(string set \<Rightarrow> string list) \<Rightarrow> form_field list \<Rightarrow> exn + string list" where
  "detect_circular_dependencies ord fs =
     (case search_fields (build_dependency_graph fs) ord fs dfs_start of
        (Inl e, st) \<Rightarrow> Inl e
      | (Inr _, st) \<Rightarrow> Inr (cycle_errors st))"

section \<open>The check of the order of fields\<close>

text \<open>
  \<open>field_positions\<close> maps a name to the last position it has. The loop over the references of one
  input is again over a set.
\<close>

definition field_positions :: "form_field list \<Rightarrow> (string \<times> nat) list" where
  "field_positions fs = fold (\<lambda>(i, f). AList.update (ff_name f) i) (enumerate 0 fs) []"

definition missing_message :: "string \<Rightarrow> string \<Rightarrow> string \<Rightarrow> string" where
  "missing_message f r p = ''Field '' @ quote @ f @ quote @ '' references non-existent field '' @ quote @ r @ quote
     @ '' in data provider input '' @ quote @ p @ quote"

definition forward_message :: "string \<Rightarrow> string \<Rightarrow> string" where
  "forward_message f r = ''Field '' @ quote @ f @ quote @ '' references field '' @ quote @ r @ quote
     @ '' which appears later in the form (forward reference not allowed)''"

definition reference_errors :: "form_field list \<Rightarrow> nat \<Rightarrow> string \<Rightarrow> string \<Rightarrow> string \<Rightarrow> string list" where
  "reference_errors fs pos f p r =
     (if r \<notin> ff_name ` set fs then [missing_message f r p]
      else case map_of (field_positions fs) r of
             None \<Rightarrow> []
           | Some q \<Rightarrow> if pos \<le> q then [forward_message f r] else [])"

definition field_errors :: "(string set \<Rightarrow> string list) \<Rightarrow> form_field list \<Rightarrow> form_field \<Rightarrow> exn + string list" where
  "field_errors ord fs f =
     (if inputs_of f = [] then Inr []
      else case map_of (field_positions fs) (ff_name f) of
             None \<Rightarrow> Inl (KeyError (ff_name f))
           | Some pos \<Rightarrow> Inr (concat (map (\<lambda>(p, c). concat (map (reference_errors fs pos (ff_name f) p)
                             (ord (input_refs c)))) (inputs_of f))))"

primrec errors_of_fields :: "(string set \<Rightarrow> string list) \<Rightarrow> form_field list \<Rightarrow> form_field list \<Rightarrow> exn + string list" where
  "errors_of_fields ord fs [] = Inr []"
| "errors_of_fields ord fs (f # rest) =
     ebind (field_errors ord fs f) (\<lambda>es. ebind (errors_of_fields ord fs rest) (\<lambda>es'. Inr (es @ es')))"

definition validate_field_references ::
  "(string set \<Rightarrow> string list) \<Rightarrow> form_field list \<Rightarrow> exn + string list" where
  "validate_field_references ord fs = errors_of_fields ord fs fs"

section \<open>The state of the search\<close>

definition edges :: "graph \<Rightarrow> (string \<times> string) set" where
  "edges g = {(a, b). b \<in> deps_of g a \<and> map_of g b \<noteq> None}"

definition cycle_in :: "graph \<Rightarrow> string list \<Rightarrow> bool" where
  "cycle_in g c \<longleftrightarrow> 2 \<le> length c \<and> hd c = last c \<and> successively (\<lambda>a b. (a, b) \<in> edges g) c"

lemma chain_trancl: "successively (\<lambda>a b. (a, b) \<in> r) (x # xs) \<Longrightarrow> xs \<noteq> [] \<Longrightarrow> (x, last xs) \<in> r\<^sup>+"
proof (induction xs arbitrary: x)
  case (Cons y ys)
  then have "(x, y) \<in> r" by simp
  with Cons show ?case by (cases ys) (auto intro: trancl_into_trancl2)
qed simp

lemma cycle_in_trancl:
  assumes "cycle_in g c"
  shows "\<exists>x. (x, x) \<in> (edges g)\<^sup>+"
proof -
  obtain x xs where c: "c = x # xs" "xs \<noteq> []"
    using assms by (cases c) (auto simp: cycle_in_def Suc_le_eq)
  with assms show ?thesis
    using chain_trancl [of "edges g" x xs] by (auto simp: cycle_in_def)
qed

text \<open>The path and the recursion stack hold the same nodes, all of them visited.\<close>

definition stacked :: "dfs_state \<Rightarrow> bool" where
  "stacked st \<longleftrightarrow> set (current_path st) = rec_stack st \<and> distinct (current_path st) \<and> rec_stack st \<subseteq> visited st"

lemma stacked_start [simp]: "stacked dfs_start"
  by (simp add: stacked_def dfs_start_def)

lemma stacked_enter: "stacked st \<Longrightarrow> n \<notin> visited st \<Longrightarrow> stacked (enter n st)"
  by (auto simp: stacked_def enter_def)

lemma stacked_backtrack:
  assumes "stacked st" and "current_path st = p @ [n]"
  shows "\<exists>st'. backtrack n st = (Inr False, st') \<and> stacked st' \<and> current_path st' = p
    \<and> rec_stack st' = rec_stack st - {n} \<and> visited st' = visited st \<and> cycle_errors st' = cycle_errors st"
  using assms by (auto simp: backtrack_def stacked_def Let_def)

lemma stacked_report:
  assumes "stacked st" and "n \<in> rec_stack st"
  shows "\<exists>st'. report_cycle n st = (Inr True, st') \<and> stacked st'
    \<and> cycle_errors st' = cycle_errors st @ [cycle_message (cycle_from n (current_path st))]"
  using assms by (auto simp: report_cycle_def stacked_def)

text \<open>
  The search never raises: a call that finds no cycle leaves path, stack and errors as it found
  them, a call that finds one has added an error.
\<close>

lemma dfs_loop_total:
  assumes "dfs_loop g ord node ns st = (r, st')" and "stacked st" and "current_path st = p @ [node]"
  shows "\<exists>found. r = Inr found \<and> stacked st'
    \<and> (if found then \<exists>m. cycle_errors st' = cycle_errors st @ [m]
       else cycle_errors st' = cycle_errors st \<and> current_path st' = p)"
  using assms
proof (induction g ord node ns st arbitrary: r st' p rule: dfs_loop.induct)
  case (1 g ord node st)
  then show ?case using stacked_backtrack [of st p node] by auto
next
  case (2 g ord node n ns st)
  consider (absent) "map_of g n = None" | (new) "map_of g n \<noteq> None" "n \<notin> visited st"
    | (cycle) "map_of g n \<noteq> None" "n \<in> visited st" "n \<in> rec_stack st"
    | (finished) "map_of g n \<noteq> None" "n \<in> visited st" "n \<notin> rec_stack st" by blast
  then show ?case
  proof cases
    case absent
    with 2 show ?thesis by auto
  next
    case new
    obtain r1 st1 where call: "dfs_loop g ord n (ord (deps_of g n)) (enter n st) = (r1, st1)" by fastforce
    have e: "cycle_errors (enter n st) = cycle_errors st" "current_path (enter n st) = current_path st @ [n]"
      by (simp_all add: enter_def)
    obtain found where f: "r1 = Inr found" "stacked st1"
      "if found then \<exists>m. cycle_errors st1 = cycle_errors st @ [m]
       else cycle_errors st1 = cycle_errors st \<and> current_path st1 = current_path st"
      using "2.IH"(2) [OF new call stacked_enter [OF "2.prems"(2) new(2)] e(2)] unfolding e(1) by blast
    show ?thesis
    proof (cases found)
      case True
      have "(r, st') = (Inr True, st1)"
        using "2.prems"(1) new call f(1) True by simp
      then show ?thesis using f(2,3) True by (intro exI [of _ True]) simp
    next
      case False
      have e: "cycle_errors st1 = cycle_errors st" "current_path st1 = p @ [node]"
        using f(3) False "2.prems"(3) by simp_all
      have "dfs_loop g ord node ns st1 = (r, st')"
        using "2.prems"(1) new call f(1) False by simp
      from "2.IH"(3) [OF new call [symmetric] f(1) False this f(2) e(2)]
      show ?thesis unfolding e(1) .
    qed
  next
    case cycle
    with 2 stacked_report [of st n] show ?thesis by auto
  next
    case finished
    with 2 show ?thesis by auto
  qed
qed

text \<open>
  As long as no cycle has been found, the path is a path of the graph, and the nodes left behind
  (visited and no longer on the stack) are closed under edges and lie on no cycle.
\<close>

definition left_behind :: "dfs_state \<Rightarrow> string set" where
  "left_behind st = visited st - rec_stack st"

definition explored :: "graph \<Rightarrow> dfs_state \<Rightarrow> bool" where
  "explored g st \<longleftrightarrow> successively (\<lambda>a b. (a, b) \<in> edges g) (current_path st)
     \<and> edges g `` left_behind st \<subseteq> left_behind st
     \<and> (\<forall>x \<in> left_behind st. (x, x) \<notin> (edges g)\<^sup>+)"

lemma closed_trancl: "(x, y) \<in> r\<^sup>+ \<Longrightarrow> r `` S \<subseteq> S \<Longrightarrow> x \<in> S \<Longrightarrow> y \<in> S"
  by (induction rule: trancl_induct) auto

lemma explored_enter:
  assumes "explored g st" and "stacked st" and "n \<notin> visited st"
    and "current_path st = [] \<or> (last (current_path st), n) \<in> edges g"
  shows "explored g (enter n st)" and "left_behind (enter n st) = left_behind st"
proof -
  show l: "left_behind (enter n st) = left_behind st"
    using assms(2,3) by (auto simp: left_behind_def enter_def stacked_def)
  show "explored g (enter n st)"
    using assms(1,4) unfolding explored_def l by (auto simp: enter_def successively_append_iff)
qed

lemma explored_backtrack:
  assumes "explored g st" and "stacked st" and "current_path st = p @ [n]"
    and "edges g `` {n} \<subseteq> left_behind st"
    and st': "backtrack n st = (r, st')"
  shows "explored g st'" and "left_behind st' = insert n (left_behind st)"
proof -
  obtain st'' where b: "backtrack n st = (Inr False, st'')" "current_path st'' = p"
    "rec_stack st'' = rec_stack st - {n}" "visited st'' = visited st"
    using stacked_backtrack [OF assms(2,3)] by blast
  then have [simp]: "st'' = st'" using st' by simp
  have n: "n \<in> rec_stack st" "n \<in> visited st" "n \<notin> left_behind st"
    using assms(2,3) by (auto simp: stacked_def left_behind_def)
  show l: "left_behind st' = insert n (left_behind st)"
    using b(3,4) n(1,2) by (auto simp: left_behind_def)
  have "(n, n) \<notin> (edges g)\<^sup>+"
  proof
    assume "(n, n) \<in> (edges g)\<^sup>+"
    then obtain b where b: "(n, b) \<in> edges g" "b = n \<or> (b, n) \<in> (edges g)\<^sup>+"
      by (metis tranclD rtranclD)
    then have "b \<in> left_behind st" using assms(4) by auto
    with b n(3) show False
      using closed_trancl [of b n "edges g" "left_behind st"] assms(1) by (auto simp: explored_def)
  qed
  then show "explored g st'"
    using assms(1,3,4) b(2) unfolding explored_def l by (auto simp: successively_append_iff)
qed

lemma cycle_from_path:
  assumes "successively (\<lambda>a b. (a, b) \<in> edges g) p" and "n \<in> set p" and "(last p, n) \<in> edges g"
  shows "cycle_in g (cycle_from n p)"
proof -
  have ne: "dropWhile (\<lambda>x. x \<noteq> n) p \<noteq> []" using assms(2) by (auto simp: dropWhile_eq_Nil_conv)
  have "hd (dropWhile (\<lambda>x. x \<noteq> n) p) = n" using hd_dropWhile [OF ne] by simp
  then obtain q where q: "dropWhile (\<lambda>x. x \<noteq> n) p = n # q"
    using ne by (cases "dropWhile (\<lambda>x. x \<noteq> n) p") auto
  have "p = takeWhile (\<lambda>x. x \<noteq> n) p @ n # q" by (metis q takeWhile_dropWhile_id)
  then obtain u where p: "p = u @ n # q" ..
  have c: "cycle_from n p = (n # q) @ [n]" by (simp add: cycle_from_def q)
  have e: "successively (\<lambda>a b. (a, b) \<in> edges g) (n # q)" "(last (n # q), n) \<in> edges g"
    using assms(1,3) p by (simp_all add: successively_append_iff)
  show ?thesis
    unfolding cycle_in_def c successively_append_iff using e by simp
qed

lemma dfs_loop_explored:
  assumes "dfs_loop g ord node ns st = (Inr found, st')" and "stacked st"
    and "current_path st = p @ [node]" and "explored g st"
    and "set ns \<subseteq> deps_of g node" and "edges g `` {node} \<subseteq> left_behind st \<union> set ns"
    and "\<And>n. set (ord (deps_of g n)) = deps_of g n"
  shows "if found then \<exists>c. cycle_errors st' = cycle_errors st @ [cycle_message c] \<and> cycle_in g c
     else explored g st' \<and> insert node (left_behind st) \<subseteq> left_behind st'"
  using assms
proof (induction g ord node ns st arbitrary: found st' p rule: dfs_loop.induct)
  case (1 g ord node st)
  have b: "backtrack node st = (Inr found, st')" using "1.prems"(1) by simp
  have "\<not> found" using b stacked_backtrack [OF "1.prems"(2,3)] by auto
  then show ?case
    using explored_backtrack [OF "1.prems"(4,2,3) _ b] "1.prems"(6) by simp
next
  case (2 g ord node n ns st)
  have edge: "(node, n) \<in> edges g" if "map_of g n \<noteq> None"
    using "2.prems"(5) that by (simp add: edges_def)
  have skip: "edges g `` {node} \<subseteq> left_behind st \<union> set ns" if "map_of g n = None \<or> n \<in> left_behind st"
    using "2.prems"(6) that by (auto simp: edges_def)
  have ns: "set ns \<subseteq> deps_of g node" using "2.prems"(5) by simp
  consider (absent) "map_of g n = None" | (new) "map_of g n \<noteq> None" "n \<notin> visited st"
    | (cycle) "map_of g n \<noteq> None" "n \<in> visited st" "n \<in> rec_stack st"
    | (finished) "map_of g n \<noteq> None" "\<not> n \<notin> visited st" "n \<notin> rec_stack st" by blast
  then show ?case
  proof cases
    case absent
    then show ?thesis
      using "2.IH"(1) [OF absent _ "2.prems"(2,3,4) ns skip "2.prems"(7)] "2.prems"(1) by simp
  next
    case finished
    then have "n \<in> left_behind st" by (simp add: left_behind_def)
    then show ?thesis
      using "2.IH"(4) [OF finished _ "2.prems"(2,3,4) ns skip "2.prems"(7)] "2.prems"(1) finished by simp
  next
    case cycle
    obtain st1 where r: "report_cycle n st = (Inr True, st1)"
      "cycle_errors st1 = cycle_errors st @ [cycle_message (cycle_from n (current_path st))]"
      using stacked_report [OF "2.prems"(2) cycle(3)] by blast
    have "cycle_in g (cycle_from n (current_path st))"
      using cycle_from_path [of g "current_path st" n] "2.prems"(2,3,4) cycle(3) edge [OF cycle(1)]
      by (auto simp: explored_def stacked_def)
    moreover have "found" "st1 = st'" using "2.prems"(1) cycle r(1) by simp_all
    ultimately show ?thesis using r(2) by auto
  next
    case new
    obtain r1 st1 where call: "dfs_loop g ord n (ord (deps_of g n)) (enter n st) = (r1, st1)" by fastforce
    have sn: "stacked (enter n st)" by (rule stacked_enter [OF "2.prems"(2) new(2)])
    have e: "cycle_errors (enter n st) = cycle_errors st" "current_path (enter n st) = current_path st @ [n]"
      by (simp_all add: enter_def)
    have x: "explored g (enter n st)" and l: "left_behind (enter n st) = left_behind st"
      by (rule explored_enter [OF "2.prems"(4,2) new(2)]; use edge [OF new(1)] "2.prems"(3) in simp)+
    obtain found1 where f: "r1 = Inr found1" "stacked st1"
      "if found1 then \<exists>m. cycle_errors st1 = cycle_errors st @ [m]
       else cycle_errors st1 = cycle_errors st \<and> current_path st1 = p @ [node]"
      using dfs_loop_total [OF call sn e(2)] unfolding e(1) "2.prems"(3) by blast
    have sub: "set (ord (deps_of g n)) \<subseteq> deps_of g n"
      "edges g `` {n} \<subseteq> left_behind (enter n st) \<union> set (ord (deps_of g n))"
      using "2.prems"(7) [of n] by (auto simp: edges_def)
    have ih: "if found1 then \<exists>c. cycle_errors st1 = cycle_errors st @ [cycle_message c] \<and> cycle_in g c
       else explored g st1 \<and> insert n (left_behind st) \<subseteq> left_behind st1"
      using "2.IH"(2) [OF new call [unfolded f(1)] sn e(2) x sub "2.prems"(7)] unfolding e(1) l .
    show ?thesis
    proof (cases found1)
      case True
      have "(Inr found, st') = (Inr True :: exn + bool, st1)"
        using "2.prems"(1) new call f(1) True by simp
      then show ?thesis using ih True by simp
    next
      case False
      have c: "current_path st1 = p @ [node]" "cycle_errors st1 = cycle_errors st" "explored g st1"
        "insert n (left_behind st) \<subseteq> left_behind st1"
        using f(3) ih False by simp_all
      have run: "dfs_loop g ord node ns st1 = (Inr found, st')"
        using "2.prems"(1) new call f(1) False by simp
      have "edges g `` {node} \<subseteq> left_behind st1 \<union> set ns"
        using "2.prems"(6) c(4) by auto
      from "2.IH"(3) [OF new call [symmetric] f(1) False run f(2) c(1,3) ns this "2.prems"(7)]
      show ?thesis using c(2,4) by (cases found) auto
    qed
  qed
qed

section \<open>The whole search\<close>

text \<open>
  Until a cycle is found the search is at rest between its top-level calls: the path is empty.
  Once a call has found one, the path and the stack it leaves are stale, but errors only grow.
\<close>

lemma search_grows:
  assumes "search_fields g ord fs st = (r, st')" and "stacked st"
  shows "r = Inr () \<and> (\<exists>ms. cycle_errors st' = cycle_errors st @ ms)"
  using assms
proof (induction fs arbitrary: st)
  case (Cons f fs)
  show ?case
  proof (cases "ff_name f \<in> visited st")
    case True
    with Cons show ?thesis by simp
  next
    case False
    obtain r1 st1 where call: "dfs_loop g ord (ff_name f) (ord (deps_of g (ff_name f))) (enter (ff_name f) st) = (r1, st1)"
      by fastforce
    have sn: "stacked (enter (ff_name f) st)" by (rule stacked_enter [OF Cons.prems(2) False])
    have e: "cycle_errors (enter (ff_name f) st) = cycle_errors st"
      "current_path (enter (ff_name f) st) = current_path st @ [ff_name f]" by (simp_all add: enter_def)
    obtain found where f: "r1 = Inr found" "stacked st1" "\<exists>ms. cycle_errors st1 = cycle_errors st @ ms"
      using dfs_loop_total [OF call sn e(2)] unfolding e(1) by (metis append_Nil2)
    have "search_fields g ord fs st1 = (r, st')"
      using Cons.prems(1) False call f(1) by (simp add: dfs_def)
    from Cons.IH [OF this f(2)] f(3) show ?thesis by auto
  qed
qed simp

lemma search_explored:
  assumes "search_fields g ord fs st = (r, st')" and "stacked st" and "explored g st"
    and "current_path st = []" and "cycle_errors st = []"
    and "\<And>n. set (ord (deps_of g n)) = deps_of g n"
  shows "(\<exists>c ms. cycle_errors st' = cycle_message c # ms \<and> cycle_in g c)
    \<or> cycle_errors st' = [] \<and> explored g st' \<and> ff_name ` set fs \<union> left_behind st \<subseteq> left_behind st'"
  using assms
proof (induction fs arbitrary: st)
  case (Cons f fs)
  let ?n = "ff_name f"
  show ?case
  proof (cases "?n \<in> visited st")
    case True
    then have "?n \<in> left_behind st"
      using Cons.prems(2,4) by (auto simp: left_behind_def stacked_def)
    with True Cons show ?thesis by auto
  next
    case False
    obtain r1 st1 where call: "dfs_loop g ord ?n (ord (deps_of g ?n)) (enter ?n st) = (r1, st1)"
      by fastforce
    have sn: "stacked (enter ?n st)" by (rule stacked_enter [OF Cons.prems(2) False])
    have e: "cycle_errors (enter ?n st) = []" "current_path (enter ?n st) = [] @ [?n]"
      using Cons.prems(4,5) by (simp_all add: enter_def)
    have x: "explored g (enter ?n st)" and l: "left_behind (enter ?n st) = left_behind st"
      by (rule explored_enter [OF Cons.prems(3,2) False]; use Cons.prems(4) in simp)+
    obtain found where f: "r1 = Inr found" "stacked st1" "\<not> found \<longrightarrow> current_path st1 = []"
      using dfs_loop_total [OF call sn e(2)] by metis
    have sub: "set (ord (deps_of g ?n)) \<subseteq> deps_of g ?n"
      "edges g `` {?n} \<subseteq> left_behind (enter ?n st) \<union> set (ord (deps_of g ?n))"
      using Cons.prems(6) [of ?n] by (auto simp: edges_def)
    have ih: "if found then \<exists>c. cycle_errors st1 = [cycle_message c] \<and> cycle_in g c
       else explored g st1 \<and> insert ?n (left_behind st) \<subseteq> left_behind st1"
      using dfs_loop_explored [OF call [unfolded f(1)] sn e(2) x sub Cons.prems(6)] unfolding e(1) l append_Nil .
    have run: "search_fields g ord fs st1 = (r, st')"
      using Cons.prems(1) False call f(1) by (simp add: dfs_def)
    show ?thesis
    proof (cases found)
      case True
      then obtain c where "cycle_errors st1 = [cycle_message c]" "cycle_in g c" using ih by auto
      then show ?thesis using search_grows [OF run f(2)] by auto
    next
      case False
      have e1: "cycle_errors st1 = []"
        using dfs_loop_total [OF call sn e(2)] f(1) False unfolding e(1) by auto
      from Cons.IH [OF run f(2) _ _ e1 Cons.prems(6)] ih f(3) False show ?thesis by auto
    qed
  qed
qed auto

section \<open>The graph of a form\<close>

lemma map_of_fold_empty:
  "map_of (fold (\<lambda>f g. AList.update (ff_name f) {} g) fs g) =
     (\<lambda>n. if n \<in> ff_name ` set fs then Some {} else map_of g n)"
  by (induction fs arbitrary: g) (auto simp: update_conv' fun_eq_iff)

lemma map_of_fold_deps:
  "ff_name ` set fs \<subseteq> dom (map_of g) \<Longrightarrow>
   dom (map_of (fold (\<lambda>f g. if inputs_of f = [] then g else AList.update (ff_name f) (field_deps f) g) fs g)) = dom (map_of g)"
proof (induction fs arbitrary: g)
  case (Cons f fs)
  show ?case
  proof (cases "inputs_of f = []")
    case False
    have "dom (map_of (AList.update (ff_name f) (field_deps f) g)) = dom (map_of g)"
      using Cons.prems by (auto simp: update_conv')
    with Cons False show ?thesis by simp
  qed (use Cons in simp)
qed simp

lemma dom_graph: "dom (map_of (build_dependency_graph fs)) = ff_name ` set fs"
  unfolding build_dependency_graph_def by (subst map_of_fold_deps) (auto simp: map_of_fold_empty dom_def)

lemma deps_fold:
  "b \<in> deps_of (fold (\<lambda>f g. if inputs_of f = [] then g else AList.update (ff_name f) (field_deps f) g) fs g) a
   \<Longrightarrow> b \<in> deps_of g a \<or> (\<exists>f \<in> set fs. ff_name f = a \<and> b \<in> field_deps f)"
proof (induction fs arbitrary: g)
  case (Cons f fs)
  let ?g = "if inputs_of f = [] then g else AList.update (ff_name f) (field_deps f) g"
  have "b \<in> deps_of ?g a \<or> (\<exists>f \<in> set fs. ff_name f = a \<and> b \<in> field_deps f)"
    by (rule Cons.IH) (use Cons.prems in simp)
  moreover have "b \<in> deps_of ?g a \<Longrightarrow> b \<in> deps_of g a \<or> ff_name f = a \<and> b \<in> field_deps f"
    by (auto simp: deps_of_def update_conv' split: if_splits)
  ultimately show ?case by auto
qed simp

lemma deps_start: "deps_of (fold (\<lambda>f g. AList.update (ff_name f) {} g) fs []) a = {}"
  by (simp add: deps_of_def map_of_fold_empty)

lemma deps_graph:
  "b \<in> deps_of (build_dependency_graph fs) a \<Longrightarrow> \<exists>f \<in> set fs. ff_name f = a \<and> b \<in> field_deps f"
  using deps_fold deps_start unfolding build_dependency_graph_def by fastforce

lemma deps_fold_other:
  "a \<notin> ff_name ` set fs \<Longrightarrow>
   deps_of (fold (\<lambda>f g. if inputs_of f = [] then g else AList.update (ff_name f) (field_deps f) g) fs g) a = deps_of g a"
  by (induction fs arbitrary: g) (auto simp: deps_of_def update_conv')

lemma deps_fold_distinct:
  assumes "distinct (map ff_name fs)" and "f \<in> set fs" and "deps_of g (ff_name f) = {}"
  shows "deps_of (fold (\<lambda>f g. if inputs_of f = [] then g else AList.update (ff_name f) (field_deps f) g) fs g) (ff_name f)
    = field_deps f"
  using assms
proof (induction fs arbitrary: g)
  case (Cons h fs)
  let ?g = "if inputs_of h = [] then g else AList.update (ff_name h) (field_deps h) g"
  show ?case
  proof (cases "f = h")
    case True
    have "deps_of ?g (ff_name f) = field_deps f"
      using Cons.prems(3) True by (auto simp: deps_of_def update_conv' field_deps_def)
    then show ?thesis
      using deps_fold_other [of "ff_name f" fs ?g] Cons.prems(1) True by simp
  next
    case False
    then have f: "f \<in> set fs" using Cons.prems(2) by simp
    then have "ff_name h \<noteq> ff_name f" using Cons.prems(1) by auto
    then have "deps_of ?g (ff_name f) = {}"
      using Cons.prems(3) by (simp add: deps_of_def update_conv')
    from Cons.IH [OF _ f this] Cons.prems(1) show ?thesis by simp
  qed
qed simp

text \<open>What a form says: field \<open>a\<close> depends on field \<open>b\<close>.\<close>

definition depends_on :: "form_field list \<Rightarrow> (string \<times> string) set" where
  "depends_on fs = {(ff_name f, b) | f b. f \<in> set fs \<and> b \<in> field_deps f \<and> b \<in> ff_name ` set fs}"

lemma map_of_graph_iff: "map_of (build_dependency_graph fs) b \<noteq> None \<longleftrightarrow> b \<in> ff_name ` set fs"
  using dom_graph [of fs] by (auto simp: dom_def)

lemma edges_depends: "edges (build_dependency_graph fs) \<subseteq> depends_on fs"
  using deps_graph [of _ fs] unfolding edges_def depends_on_def map_of_graph_iff by blast

lemma edges_graph:
  assumes "distinct (map ff_name fs)"
  shows "edges (build_dependency_graph fs) = depends_on fs"
proof
  show "depends_on fs \<subseteq> edges (build_dependency_graph fs)"
  proof
    fix e
    assume "e \<in> depends_on fs"
    then obtain f b where f: "e = (ff_name f, b)" "f \<in> set fs" "b \<in> field_deps f" "b \<in> ff_name ` set fs"
      by (auto simp: depends_on_def)
    have "deps_of (build_dependency_graph fs) (ff_name f) = field_deps f"
      unfolding build_dependency_graph_def by (rule deps_fold_distinct [OF assms f(2)]) (rule deps_start)
    with f(1,3,4) show "e \<in> edges (build_dependency_graph fs)"
      unfolding edges_def map_of_graph_iff by simp
  qed
qed (rule edges_depends)

lemma finite_refs: "finite (input_refs c)"
  by (cases "ic_mode c") (auto simp: input_refs_def extract_field_references_def)

lemma finite_deps: "finite (deps_of (build_dependency_graph fs) a)"
proof (rule finite_subset)
  show "deps_of (build_dependency_graph fs) a \<subseteq> (\<Union>f \<in> set fs. field_deps f)"
    using deps_graph by fastforce
  show "finite (\<Union>f \<in> set fs. field_deps f)"
    by (auto simp: field_deps_def finite_refs)
qed

lemma detect_graph:
  assumes "\<And>S. finite S \<Longrightarrow> set (ord S) = S"
  shows "\<exists>errs. detect_circular_dependencies ord fs = Inr errs
    \<and> (errs = [] \<longleftrightarrow> acyclic (edges (build_dependency_graph fs)))
    \<and> (errs \<noteq> [] \<longrightarrow> (\<exists>c. cycle_in (build_dependency_graph fs) c \<and> hd errs = cycle_message c))"
proof -
  let ?g = "build_dependency_graph fs"
  obtain r st where run: "search_fields ?g ord fs dfs_start = (r, st)" by fastforce
  have r: "r = Inr ()" using search_grows [OF run] by simp
  have ord: "set (ord (deps_of ?g n)) = deps_of ?g n" for n by (rule assms) (rule finite_deps)
  have start: "explored ?g dfs_start" "current_path dfs_start = []" "cycle_errors dfs_start = []"
    by (simp_all add: explored_def dfs_start_def left_behind_def)
  have d: "detect_circular_dependencies ord fs = Inr (cycle_errors st)"
    by (simp add: detect_circular_dependencies_def run r)
  from search_explored [OF run stacked_start start ord] show ?thesis
  proof (elim disjE exE conjE)
    fix c ms
    assume c: "cycle_errors st = cycle_message c # ms" "cycle_in ?g c"
    then have "\<not> acyclic (edges ?g)" using cycle_in_trancl by (auto simp: acyclic_def)
    with c d show ?thesis by auto
  next
    assume e: "cycle_errors st = []" "explored ?g st" "ff_name ` set fs \<union> left_behind dfs_start \<subseteq> left_behind st"
    have "acyclic (edges ?g)" unfolding acyclic_def
    proof (intro allI notI)
      fix x
      assume x: "(x, x) \<in> (edges ?g)\<^sup>+"
      then obtain y where "(y, x) \<in> edges ?g" by (metis tranclE)
      then have "x \<in> left_behind st"
        using e(3) unfolding edges_def map_of_graph_iff by auto
      with x e(2) show False by (simp add: explored_def)
    qed
    with d e(1) show ?thesis by simp
  qed
qed

lemma unique_names: "validate_unique_names fs = Inr fs \<Longrightarrow> distinct (map ff_name fs)"
  by (simp add: validate_unique_names_def Let_def card_distinct split: if_splits)

section \<open>Properties\<close>

text \<open>
  C18: the search for circular references is exact. Whatever the order in which sets are visited, it
  ends without an exception, it reports nothing exactly when the fields (with unique names, as \<open>FormSchema\<close> demands) do not
  depend on themselves through any chain of references, and the first cycle it reports is one.
\<close>

theorem detect_circular_dependencies_exact:
  assumes "validate_unique_names fs = Inr fs" and "\<And>S. finite S \<Longrightarrow> set (ord S) = S"
  shows "\<exists>errs. detect_circular_dependencies ord fs = Inr errs \<and> (errs = [] \<longleftrightarrow> acyclic (depends_on fs))
    \<and> (errs \<noteq> [] \<longrightarrow> (\<exists>c. 2 \<le> length c \<and> hd c = last c \<and> successively (\<lambda>a b. (a, b) \<in> depends_on fs) c
         \<and> hd errs = cycle_message c))"
  using detect_graph [OF assms(2), of fs] unfolding edges_graph [OF unique_names [OF assms(1)]] cycle_in_def conj_assoc .

definition ref_input :: "string \<Rightarrow> input_config" where
  "ref_input f = \<lparr>ic_mode = FIELD_REF, ic_value = None, ic_field_name = Some f, ic_expression = None\<rparr>"

definition expression_input :: "string \<Rightarrow> input_config" where
  "expression_input e = \<lparr>ic_mode = EXPRESSION, ic_value = None, ic_field_name = None, ic_expression = Some e\<rparr>"

definition field_with :: "string \<Rightarrow> input_config list \<Rightarrow> form_field" where
  "field_with n cs = \<lparr>ff_name = n, ff_label = Some n, ff_type = TEXT, ff_required = False, ff_validation = None,
     ff_data_provider = Some ''options'', ff_inputs = Some (map (Pair ''p'') cs), ff_default_value = None,
     ff_placeholder = None, ff_help_text = None, ff_visibility_expression = None, ff_options = None,
     ff_allowed_types = None, ff_multiple = None, ff_max_size_mb = None, ff_content = None,
     ff_allow_as_query_param = None\<rparr>"

definition cyclic_form :: "form_field list" where
  "cyclic_form = [field_with ''a'' [expression_input ''context.field.b + 1''], field_with ''b'' [ref_input ''a'']]"

theorem detect_circular_dependencies_exact_witness:
  "validate_unique_names cyclic_form = Inr cyclic_form \<and> \<not> acyclic (depends_on cyclic_form)"
proof -
  have "detect_circular_dependencies sorted_list_of_set cyclic_form
     = Inr [cycle_message [''a'', ''b'', ''a'']]" by code_simp
  moreover have d: "validate_unique_names cyclic_form = Inr cyclic_form" by code_simp
  ultimately show ?thesis
    using detect_circular_dependencies_exact [OF d, of sorted_list_of_set] by auto
qed

lemma position_of:
  assumes "map_of (field_positions fs) n = None"
  shows "n \<notin> ff_name ` set fs"
proof -
  have "dom (map_of (fold (\<lambda>(i, f). AList.update (ff_name f) i) (enumerate k fs) ps))
      = dom (map_of ps) \<union> ff_name ` set fs" for k ps
    by (induction fs arbitrary: k ps) (auto simp: update_conv')
  from this [of 0 "[]"] assms show ?thesis by (auto simp: field_positions_def domIff)
qed

lemma errors_of_fields_none:
  "errors_of_fields ord fs gs = Inr [] \<Longrightarrow> f \<in> set gs \<Longrightarrow> field_errors ord fs f = Inr []"
  by (induction gs) (auto simp: ebind_Inr)

text \<open>
  a form that passes the check of its references has no circular reference: the search then
  reports nothing, whatever the orders in which the two checks visit sets.
\<close>

theorem validated_fields_are_acyclic:
  assumes "validate_field_references ord fs = Inr []"
    and "\<And>S. finite S \<Longrightarrow> set (ord S) = S" and "\<And>S. finite S \<Longrightarrow> set (ord' S) = S"
  shows "acyclic (depends_on fs) \<and> detect_circular_dependencies ord' fs = Inr []"
proof -
  let ?pos = "\<lambda>n. the (map_of (field_positions fs) n)"
  have "?pos b < ?pos a" if "(a, b) \<in> depends_on fs" for a b
  proof -
    from that obtain f where f: "f \<in> set fs" "a = ff_name f" "b \<in> field_deps f" "b \<in> ff_name ` set fs"
      by (auto simp: depends_on_def)
    then obtain p c where c: "(p, c) \<in> set (inputs_of f)" "b \<in> input_refs c" by (auto simp: field_deps_def)
    obtain i j where ij: "map_of (field_positions fs) a = Some i" "map_of (field_positions fs) b = Some j"
      using position_of [of fs] f by blast
    have "field_errors ord fs f = Inr []"
      using errors_of_fields_none [OF _ f(1)] assms(1) by (simp add: validate_field_references_def)
    then have "reference_errors fs i a p b = []"
      using c ij(1) f(2) assms(2) [OF finite_refs] by (auto simp: field_errors_def split: if_splits)
    then show ?thesis using ij f(4) by (auto simp: reference_errors_def split: if_splits)
  qed
  then have "depends_on fs \<subseteq> (inv_image less_than ?pos)\<inverse>" by auto
  then have ac: "acyclic (depends_on fs)"
    by (rule acyclic_subset [rotated]) (metis acyclic_converse wf_acyclic wf_inv_image wf_less_than)
  then have "acyclic (edges (build_dependency_graph fs))"
    by (rule acyclic_subset) (rule edges_depends)
  then show ?thesis using ac detect_graph [OF assms(3), of fs] by auto
qed

definition ordered_form :: "form_field list" where
  "ordered_form = [field_with ''a'' [], field_with ''b'' [ref_input ''a''],
     field_with ''c'' [expression_input ''context.field[\"a\"]'', ref_input ''b'']]"

theorem validated_fields_are_acyclic_witness:
  "validate_field_references sorted_list_of_set ordered_form = Inr [] \<and> acyclic (depends_on ordered_form)"
proof -
  have "validate_field_references sorted_list_of_set ordered_form = Inr []" by code_simp
  then show ?thesis
    using validated_fields_are_acyclic [of sorted_list_of_set ordered_form sorted_list_of_set] by simp
qed

definition stale_form :: "form_field list" where
  "stale_form = [field_with ''a'' [ref_input ''a''], field_with ''b'' [ref_input ''a'']]"

text \<open>
  After a first cycle the search goes on with the path it was on. Here only \<open>a\<close> refers to itself
  and \<open>b\<close> refers to \<open>a\<close>; the second message names a chain in which \<open>a\<close> would depend on \<open>b\<close>.
\<close>

theorem detect_reports_stale_path:
  "detect_circular_dependencies sorted_list_of_set stale_form
     = Inr [cycle_message [''a'', ''a''], cycle_message [''a'', ''b'', ''a'']]
   \<and> (''a'', ''b'') \<notin> depends_on stale_form"
proof
  show "detect_circular_dependencies sorted_list_of_set stale_form
     = Inr [cycle_message [''a'', ''a''], cycle_message [''a'', ''b'', ''a'']]" by code_simp
  have "\<forall>f \<in> set stale_form. ff_name f = ''a'' \<longrightarrow> ''b'' \<notin> field_deps f" by code_simp
  then show "(''a'', ''b'') \<notin> depends_on stale_form" by (auto simp: depends_on_def)
qed

end
