(* ===== verification/Secret_Naming.thy ===== *)
theory Secret_Naming
  imports Memory_Env
begin

text \<open>
  \<open>shared/secret_naming.py\<close>: the names under which secrets are kept in the key vault, and the test
  whether a configuration value is such a name. \<open>$\<close> in the regular expressions also matches before
  a final newline.
\<close>

section \<open>Names\<close>

definition max_secret_name_length :: nat where
  "max_secret_name_length = 127"

definition lower_alnum :: "char \<Rightarrow> bool" where
  "lower_alnum c \<longleftrightarrow> CHR ''a'' \<le> c \<and> c \<le> CHR ''z'' \<or> is_digit c"

definition name_char :: "char \<Rightarrow> bool" where
  "name_char c \<longleftrightarrow> lower_alnum c \<or> c = CHR ''-''"

text \<open>\<open>re.sub(r"-+", "-", s)\<close> and \<open>s.strip("-")\<close>\<close>

fun collapse_dashes :: "string \<Rightarrow> string" where
  "collapse_dashes (c # d # s) =
     (if c = CHR ''-'' \<and> d = CHR ''-'' then collapse_dashes (d # s) else c # collapse_dashes (d # s))"
| "collapse_dashes s = s"

definition strip_dashes :: "string \<Rightarrow> string" where
  "strip_dashes s = rev (dropWhile (\<lambda>c. c = CHR ''-'') (rev (dropWhile (\<lambda>c. c = CHR ''-'') s)))"

definition sanitize_scope :: "string \<Rightarrow> string" where
  "sanitize_scope scope =
     strip_dashes (collapse_dashes (map (\<lambda>c. if name_char c then c else CHR ''-'') (lower scope)))"

definition sanitize_name_component :: "string \<Rightarrow> string" where
  "sanitize_name_component component =
     strip_dashes (collapse_dashes (map (\<lambda>c. if name_char c then c else CHR ''-'') (lower component)))"

definition invalid_component :: "string \<Rightarrow> string \<Rightarrow> exn" where
  "invalid_component what v = AppError ''InvalidSecretComponentError''
     (what @ '' '' @ quote @ v @ quote @ '' contains only invalid characters'')"

definition too_long :: "string \<Rightarrow> nat \<Rightarrow> string \<Rightarrow> exn" where
  "too_long what n hint = AppError ''SecretNameTooLongError''
     (''Generated '' @ what @ '' is '' @ str_nat n @ '' characters, exceeds maximum of ''
      @ str_nat max_secret_name_length @ ''. Try using shorter '' @ hint)"

definition generate_secret_name :: "'w env \<Rightarrow> string \<Rightarrow> string \<Rightarrow> string \<Rightarrow> ('w, string) py" where
  "generate_secret_name E scope name_component pre =
     (let clean_scope = sanitize_scope scope; clean_component = sanitize_name_component name_component;
          clean_prefix = lower pre
      in if clean_scope = [] then raise (invalid_component ''Scope'' scope)
         else if clean_component = [] then raise (invalid_component ''Name component'' name_component)
         else py_bind (uuid4 E) (\<lambda>uuid_suffix.
           let secret_name = clean_prefix @ ''-'' @ clean_scope @ ''-'' @ clean_component @ ''-'' @ uuid_suffix
           in if length secret_name > max_secret_name_length
              then raise (too_long ''secret name'' (length secret_name) ''scope or component names.'')
              else ret secret_name))"

definition generate_oauth_secret_name :: "'w env \<Rightarrow> string \<Rightarrow> string \<Rightarrow> string \<Rightarrow> ('w, string) py" where
  "generate_oauth_secret_name E scope connection_name secret_type =
     (let clean_scope = sanitize_scope scope; clean_connection = sanitize_name_component connection_name;
          clean_type = sanitize_name_component secret_type
      in if clean_scope = [] then raise (invalid_component ''Scope'' scope)
         else if clean_connection = [] then raise (invalid_component ''Connection name'' connection_name)
         else if clean_type = [] then raise (invalid_component ''Secret type'' secret_type)
         else py_bind (uuid4 E) (\<lambda>uuid_suffix.
           let secret_name = ''bifrost-'' @ clean_scope @ ''-oauth-'' @ clean_connection @ ''-'' @ clean_type
                 @ ''-'' @ uuid_suffix
           in if length secret_name > max_secret_name_length
              then raise (too_long ''OAuth secret name'' (length secret_name) ''scope, connection, or type names.'')
              else ret secret_name))"

section \<open>References\<close>

definition chomp :: "string \<Rightarrow> string" where
  "chomp s = (if s \<noteq> [] \<and> last s = CHR 0x0A then butlast s else s)"

definition hex_char :: "char \<Rightarrow> bool" where
  "hex_char c \<longleftrightarrow> is_digit c \<or> CHR ''a'' \<le> c \<and> c \<le> CHR ''f''"

text \<open>\<open>[a-f0-9]{8}-[a-f0-9]{4}-[a-f0-9]{4}-[a-f0-9]{4}-[a-f0-9]{12}\<close>\<close>

definition uuid_text :: "string \<Rightarrow> bool" where
  "uuid_text s \<longleftrightarrow> map length (split_all CHR ''-'' s) = [8, 4, 4, 4, 12]
     \<and> (\<forall>p \<in> set (split_all CHR ''-'' s). \<forall>c \<in> set p. hex_char c)"

definition valid_name :: "string \<Rightarrow> bool" where
  "valid_name s \<longleftrightarrow> chomp s \<noteq> [] \<and> (\<forall>c \<in> set (chomp s). is_letter c \<or> is_digit c
     \<or> c = CHR ''_'' \<or> c = CHR ''-'')"

text \<open>\<open>value.split("--")\<close>\<close>

fun split_double_dash :: "string \<Rightarrow> string \<Rightarrow> string list" where
  "split_double_dash acc (c # d # s) =
     (if c = CHR ''-'' \<and> d = CHR ''-'' then rev acc # split_double_dash [] s
      else split_double_dash (c # acc) (d # s))"
| "split_double_dash acc s = [rev acc @ s]"

definition legacy_reference :: "string \<Rightarrow> bool" where
  "legacy_reference v =
     (if str_in ''--'' v
      then (let parts = split_double_dash [] v
            in if length parts = 2 then valid_name (parts ! 0) \<and> valid_name (parts ! 1) else False)
      else False)"

definition is_secret_reference :: "string \<Rightarrow> bool" where
  "is_secret_reference v =
     (let parts = split_all CHR ''-'' v
      in if startswith v ''bifrost-'' \<and> 9 \<le> length parts
         then uuid_text (chomp (join ''-'' (drop (length parts - 5) parts)))
         else legacy_reference v)"

section \<open>Sanitized text\<close>

text \<open>Characters of a name, no two dashes in a row, none at the ends.\<close>

abbreviation no_double_dash :: "string \<Rightarrow> bool" where
  "no_double_dash s \<equiv> successively (\<lambda>c d. \<not> (c = CHR ''-'' \<and> d = CHR ''-'')) s"

definition clean :: "string \<Rightarrow> bool" where
  "clean s \<longleftrightarrow> (\<forall>c \<in> set s. name_char c) \<and> no_double_dash s
     \<and> (s \<noteq> [] \<longrightarrow> hd s \<noteq> CHR ''-'' \<and> last s \<noteq> CHR ''-'')"

lemma collapse_hd: "s \<noteq> [] \<Longrightarrow> collapse_dashes s \<noteq> [] \<and> hd (collapse_dashes s) = hd s"
  by (induction s rule: collapse_dashes.induct) auto

lemma collapse_no_double: "no_double_dash (collapse_dashes s)"
proof (induction s rule: collapse_dashes.induct)
  case (1 c d s)
  then show ?case using collapse_hd [of "d # s"] by (auto simp: successively_Cons)
qed auto

lemma collapse_set: "set (collapse_dashes s) \<subseteq> set s"
  by (induction s rule: collapse_dashes.induct) auto

lemma collapse_id: "no_double_dash s \<Longrightarrow> collapse_dashes s = s"
  by (induction s rule: collapse_dashes.induct) auto

lemma drop_tail: "u = rev (dropWhile P (rev u)) @ rev (takeWhile P (rev u))"
  by (metis rev_append rev_rev_ident takeWhile_dropWhile_id)

lemma dropWhile_id: "s = [] \<or> \<not> P (hd s) \<Longrightarrow> dropWhile P s = s"
  by (cases s) auto

lemma strip_dashes_infix: "\<exists>a b. s = a @ strip_dashes s @ b"
proof -
  let ?t = "dropWhile (\<lambda>c. c = CHR ''-'') s"
  have "s = takeWhile (\<lambda>c. c = CHR ''-'') s @ ?t" by simp
  moreover have "?t = rev (dropWhile (\<lambda>c. c = CHR ''-'') (rev ?t)) @ rev (takeWhile (\<lambda>c. c = CHR ''-'') (rev ?t))"
    by (rule drop_tail)
  ultimately show ?thesis unfolding strip_dashes_def by (metis append_assoc)
qed

lemma strip_dashes_ends:
  assumes "strip_dashes s \<noteq> []"
  shows "hd (strip_dashes s) \<noteq> CHR ''-''" and "last (strip_dashes s) \<noteq> CHR ''-''"
proof -
  let ?t = "dropWhile (\<lambda>c. c = CHR ''-'') s"
  have ne: "dropWhile (\<lambda>c. c = CHR ''-'') (rev ?t) \<noteq> []" using assms by (simp add: strip_dashes_def)
  then show "last (strip_dashes s) \<noteq> CHR ''-''"
    using hd_dropWhile [OF ne] by (simp add: strip_dashes_def last_rev)
  have t: "?t \<noteq> []" using ne by (metis dropWhile.simps(1) rev.simps(1))
  have tail: "?t = strip_dashes s @ rev (takeWhile (\<lambda>c. c = CHR ''-'') (rev ?t))"
    unfolding strip_dashes_def by (rule drop_tail)
  have "hd (strip_dashes s) = hd (strip_dashes s @ rev (takeWhile (\<lambda>c. c = CHR ''-'') (rev ?t)))"
    by (rule hd_append2 [OF assms, symmetric])
  also have "\<dots> = hd ?t" using tail by (rule arg_cong [OF sym])
  finally have "hd (strip_dashes s) = hd ?t" .
  then show "hd (strip_dashes s) \<noteq> CHR ''-''" using hd_dropWhile [OF t] by simp
qed

lemma strip_dashes_id: "s = [] \<or> hd s \<noteq> CHR ''-'' \<and> last s \<noteq> CHR ''-'' \<Longrightarrow> strip_dashes s = s"
  by (auto simp: strip_dashes_def dropWhile_id hd_rev)

lemma clean_sanitize: "clean (sanitize_scope s)"
proof -
  let ?t = "collapse_dashes (map (\<lambda>c. if name_char c then c else CHR ''-'') (lower s))"
  obtain a b where t: "?t = a @ strip_dashes ?t @ b" using strip_dashes_infix by blast
  have "set ?t \<subseteq> Collect name_char"
    by (rule order_trans [OF collapse_set]) (auto simp: name_char_def)
  then have "\<forall>c \<in> set (strip_dashes ?t). name_char c" by (subst (asm) t) auto
  moreover have "no_double_dash (strip_dashes ?t)"
    using collapse_no_double [of "map (\<lambda>c. if name_char c then c else CHR ''-'') (lower s)"]
    by (subst (asm) t) (auto simp: successively_append_iff)
  ultimately show ?thesis
    using strip_dashes_ends [of ?t] by (auto simp: clean_def sanitize_scope_def)
qed

lemma sanitize_component_scope: "sanitize_name_component = sanitize_scope"
  by (rule ext) (simp add: sanitize_name_component_def sanitize_scope_def)

lemma sanitize_id: "clean s \<Longrightarrow> lower s = s \<Longrightarrow> sanitize_scope s = s"
proof -
  assume c: "clean s" and l: "lower s = s"
  then have "map (\<lambda>c. if name_char c then c else CHR ''-'') s = s"
    by (auto simp: clean_def intro: map_idI)
  then show ?thesis using c l by (auto simp: sanitize_scope_def clean_def collapse_id strip_dashes_id)
qed

section \<open>Generated names\<close>

lemma uuid_parts:
  assumes "uuid_text u"
  shows "length (split_all CHR ''-'' u) = 5" and "chomp u = u" and "\<forall>c \<in> set u. name_char c"
    and "no_double_dash u" and "u \<noteq> []" and "hd u \<noteq> CHR ''-''"
proof -
  let ?ps = "split_all CHR ''-'' u"
  have len: "map length ?ps = [8, 4, 4, 4, 12]" and hex: "\<forall>p \<in> set ?ps. \<forall>c \<in> set p. hex_char c"
    using assms by (simp_all add: uuid_text_def)
  have "length (map length ?ps) = 5" unfolding len by simp
  then show l5: "length ?ps = 5" by simp
  from len obtain a b c d e where ps: "?ps = [a, b, c, d, e]"
    and lens: "length a = 8" "length b = 4" "length c = 4" "length d = 4" "length e = 12"
    by (auto simp: map_eq_Cons_conv)
  have ne: "a \<noteq> []" "b \<noteq> []" "c \<noteq> []" "d \<noteq> []" "e \<noteq> []" using lens by auto
  have u: "u = a @ ''-'' @ b @ ''-'' @ c @ ''-'' @ d @ ''-'' @ e"
    using join_split_all [of "CHR ''-''" u] by (simp add: ps)
  have nd: "\<forall>p \<in> set ?ps. CHR ''-'' \<notin> set p" using split_all_no_sep by blast
  note nd = nd [unfolded ps, simplified] and hex = hex [unfolded ps, simplified]
  have nn: "c \<noteq> CHR 0x0A" "name_char c" if "hex_char c" for c
    using that by (auto simp: hex_char_def is_digit_def name_char_def lower_alnum_def less_eq_char_def)
  have one: "no_double_dash p" if "CHR ''-'' \<notin> set p" for p
    using that by (induction p rule: induct_list012) auto
  have ends: "hd p \<noteq> CHR ''-''" "last p \<noteq> CHR ''-''" if "CHR ''-'' \<notin> set p" "p \<noteq> []" for p
    using that by (auto dest: hd_in_set last_in_set)
  show "\<forall>c \<in> set u. name_char c"
    using hex nn(2) unfolding u by (simp add: ball_Un) (simp add: name_char_def)
  show "u \<noteq> []" using u by simp
  show "hd u \<noteq> CHR ''-''" using u ne nd ends by simp
  show "chomp u = u"
    using u ne hex nn(1) last_in_set [OF ne(5)] unfolding chomp_def by auto
  show "no_double_dash u"
    unfolding u using nd ne ends one by (simp add: successively_append_iff successively_Cons)
qed

text \<open>A name of at least three parts before the identifier is one of the current format.\<close>

lemma name_recognised:
  assumes "uuid_text u" and "clean v" and "v \<noteq> []" and "startswith (v @ ''-'' @ u) ''bifrost-''"
  shows "is_secret_reference (v @ ''-'' @ u) \<longleftrightarrow> 3 \<le> length (filter (\<lambda>c. c = CHR ''-'') v)"
    and "\<forall>c \<in> set (v @ ''-'' @ u). name_char c" and "no_double_dash (v @ ''-'' @ u)"
proof -
  note u = uuid_parts [OF assms(1)]
  show "\<forall>c \<in> set (v @ ''-'' @ u). name_char c"
    using assms(2) u(3) by (auto simp: clean_def name_char_def)
  show nd: "no_double_dash (v @ ''-'' @ u)"
    using assms(2,3) u(4-6) by (auto simp: clean_def successively_append_iff successively_Cons)
  have "\<not> sublist ''--'' s" if "no_double_dash s" for s
    using that by (auto simp: sublist_def successively_append_iff)
  from this [OF nd] have legacy: "\<not> legacy_reference (v @ ''-'' @ u)"
    by (simp add: legacy_reference_def str_in_sublist)
  have parts: "split_all CHR ''-'' (v @ ''-'' @ u) = split_all CHR ''-'' v @ split_all CHR ''-'' u"
    using split_all_append [of "CHR ''-''" v u] by simp
  have l: "length (split_all CHR ''-'' (v @ ''-'' @ u)) = 6 + length (filter (\<lambda>c. c = CHR ''-'') v)"
    using length_split_all [of "CHR ''-''" v] u(1) unfolding parts by simp
  have "drop (length (split_all CHR ''-'' (v @ ''-'' @ u)) - 5) (split_all CHR ''-'' (v @ ''-'' @ u)) = split_all CHR ''-'' u"
    unfolding parts using u(1) by simp
  then have last5: "join ''-'' (drop (length (split_all CHR ''-'' (v @ ''-'' @ u)) - 5) (split_all CHR ''-'' (v @ ''-'' @ u))) = u"
    using join_split_all [of "CHR ''-''" u] by simp
  show "is_secret_reference (v @ ''-'' @ u) \<longleftrightarrow> 3 \<le> length (filter (\<lambda>c. c = CHR ''-'') v)"
    unfolding is_secret_reference_def Let_def l last5 [unfolded l] u(2) using assms(1,4) legacy by simp
qed

lemma clean_dash: "clean a \<Longrightarrow> a \<noteq> [] \<Longrightarrow> clean b \<Longrightarrow> b \<noteq> [] \<Longrightarrow> clean (a @ ''-'' @ b)"
  by (auto simp: clean_def name_char_def successively_append_iff successively_Cons)

lemma dash_count: "CHR ''-'' \<in> set s \<longleftrightarrow> 1 \<le> length (filter (\<lambda>c. c = CHR ''-'') s)"
  by (induction s) auto

section \<open>Properties\<close>

text \<open>
  C19: the names generated with the default prefix. They have at most 127 characters, only lower-case
  letters, digits and dashes, and no two dashes in a row. They are recognised as secret references
  exactly when the sanitized scope or the sanitized component contains a dash: the test asks for nine
  parts, a name like \<open>bifrost-global-token-\<close> with its identifier has eight.
\<close>

theorem generated_secret_name:
  assumes "\<And>w. uuid_text (fst (env_uuid4 E w))"
    and "generate_secret_name E scope component ''bifrost'' w = (Inr name, w')"
  shows "length name \<le> 127 \<and> (\<forall>c \<in> set name. name_char c) \<and> no_double_dash name
    \<and> (is_secret_reference name \<longleftrightarrow>
         CHR ''-'' \<in> set (sanitize_scope scope) \<or> CHR ''-'' \<in> set (sanitize_name_component component))"
proof -
  let ?s = "sanitize_scope scope" and ?c = "sanitize_name_component component"
  obtain u where u: "u = fst (env_uuid4 E w)" and ne: "?s \<noteq> []" "?c \<noteq> []"
    and name: "name = (''bifrost-'' @ ?s @ ''-'' @ ?c) @ ''-'' @ u" and len: "length name \<le> 127"
    using assms(2) by (auto simp: generate_secret_name_def Let_def raise_def ret_def py_bind_def uuid4_def
        max_secret_name_length_def lower_def lower_char_def less_eq_char_def split: if_splits prod.splits)
  have uuid: "uuid_text u" unfolding u by (rule assms(1))
  define v where "v = ''bifrost-'' @ ?s @ ''-'' @ ?c"
  have "clean ''bifrost''" by code_simp
  then have "clean (''bifrost'' @ ''-'' @ ?s @ ''-'' @ ?c)"
    by (intro clean_dash) (use ne clean_sanitize in \<open>simp_all add: sanitize_component_scope\<close>)
  then have cl: "clean v" "v \<noteq> []" and st: "startswith (v @ ''-'' @ u) ''bifrost-''"
    by (simp_all add: v_def startswith_def)
  have "length (filter (\<lambda>c. c = CHR ''-'') v) = 2 + length (filter (\<lambda>c. c = CHR ''-'') ?s)
      + length (filter (\<lambda>c. c = CHR ''-'') ?c)" by (simp add: v_def)
  then show ?thesis
    using name_recognised [OF uuid cl st] len unfolding name v_def [symmetric] dash_count by auto
qed

definition uuid_env :: "mem env" where
  "uuid_env = mem_env\<lparr>env_uuid4 := \<lambda>w. (''a1b2c3d4-e5f6-7890-abcd-ef1234567890'', w)\<rparr>"

lemma uuid_env_text: "uuid_text (fst (env_uuid4 uuid_env w))"
proof -
  have "uuid_text ''a1b2c3d4-e5f6-7890-abcd-ef1234567890''" by code_simp
  then show ?thesis by (simp add: uuid_env_def)
qed

lemma generated_run:
  "s \<noteq> [] \<and> c \<noteq> [] \<and> length (''bifrost-'' @ s @ ''-'' @ c) \<le> 90 \<Longrightarrow> sanitize_scope scope = s
   \<Longrightarrow> sanitize_name_component component = c
   \<Longrightarrow> generate_secret_name uuid_env scope component ''bifrost'' w
     = (Inr (''bifrost-'' @ s @ ''-'' @ c @ ''-a1b2c3d4-e5f6-7890-abcd-ef1234567890''), w)"
  by (simp add: generate_secret_name_def uuid4_def uuid_env_def py_bind_def ret_def max_secret_name_length_def
      lower_def lower_char_def less_eq_char_def)

theorem generated_secret_name_witness:
  "\<not> is_secret_reference ''bifrost-global-token-a1b2c3d4-e5f6-7890-abcd-ef1234567890''
   \<and> is_secret_reference ''bifrost-global-api-key-a1b2c3d4-e5f6-7890-abcd-ef1234567890''"
proof -
  have s: "sanitize_scope ''GLOBAL'' = ''global''" by code_simp
  have t: "sanitize_name_component ''token'' = ''token''" "sanitize_name_component ''api_key'' = ''api-key''"
    by code_simp+
  have run: "generate_secret_name uuid_env ''GLOBAL'' ''token'' ''bifrost'' empty_world
      = (Inr ''bifrost-global-token-a1b2c3d4-e5f6-7890-abcd-ef1234567890'', empty_world)"
    "generate_secret_name uuid_env ''GLOBAL'' ''api_key'' ''bifrost'' empty_world
      = (Inr ''bifrost-global-api-key-a1b2c3d4-e5f6-7890-abcd-ef1234567890'', empty_world)"
    by (subst generated_run [OF _ s t(1)] generated_run [OF _ s t(2)]; simp)+
  show ?thesis
    using generated_secret_name [OF uuid_env_text run(1)] generated_secret_name [OF uuid_env_text run(2)]
    unfolding s t by simp
qed

text \<open>
  every generated name of an OAuth secret is recognised as a secret reference; it has at most 127
  characters, only lower-case letters, digits and dashes.
\<close>

theorem generated_oauth_secret_name:
  assumes "\<And>w. uuid_text (fst (env_uuid4 E w))"
    and "generate_oauth_secret_name E scope connection kind w = (Inr name, w')"
  shows "is_secret_reference name \<and> length name \<le> 127 \<and> (\<forall>c \<in> set name. name_char c)"
proof -
  let ?s = "sanitize_scope scope" and ?c = "sanitize_name_component connection" and ?k = "sanitize_name_component kind"
  obtain u where u: "u = fst (env_uuid4 E w)" and ne: "?s \<noteq> []" "?c \<noteq> []" "?k \<noteq> []"
    and name: "name = (''bifrost-'' @ ?s @ ''-oauth-'' @ ?c @ ''-'' @ ?k) @ ''-'' @ u" and len: "length name \<le> 127"
    using assms(2) by (auto simp: generate_oauth_secret_name_def Let_def raise_def ret_def py_bind_def uuid4_def
        max_secret_name_length_def split: if_splits prod.splits)
  have uuid: "uuid_text u" unfolding u by (rule assms(1))
  define v where "v = ''bifrost-'' @ ?s @ ''-oauth-'' @ ?c @ ''-'' @ ?k"
  have "clean ''bifrost''" "clean ''oauth''" by code_simp+
  then have "clean (''bifrost'' @ ''-'' @ ?s @ ''-'' @ ''oauth'' @ ''-'' @ ?c @ ''-'' @ ?k)"
    by (intro clean_dash) (use ne clean_sanitize in \<open>simp_all add: sanitize_component_scope\<close>)
  then have cl: "clean v" "v \<noteq> []" and st: "startswith (v @ ''-'' @ u) ''bifrost-''"
    by (simp_all add: v_def startswith_def)
  have "3 \<le> length (filter (\<lambda>c. c = CHR ''-'') v)" by (simp add: v_def)
  then show ?thesis
    using name_recognised [OF uuid cl st] len unfolding name v_def [symmetric] by simp
qed

theorem generated_oauth_secret_name_witness:
  "\<exists>name. generate_oauth_secret_name uuid_env ''acme'' ''hub'' ''response'' empty_world = (Inr name, empty_world)
     \<and> is_secret_reference name"
proof -
  have s: "sanitize_scope ''acme'' = ''acme''" "sanitize_name_component ''hub'' = ''hub''"
    "sanitize_name_component ''response'' = ''response''" by code_simp+
  have run: "generate_oauth_secret_name uuid_env ''acme'' ''hub'' ''response'' empty_world
      = (Inr ''bifrost-acme-oauth-hub-response-a1b2c3d4-e5f6-7890-abcd-ef1234567890'', empty_world)"
    by (simp add: generate_oauth_secret_name_def s uuid4_def uuid_env_def py_bind_def ret_def max_secret_name_length_def)
  then show ?thesis using generated_oauth_secret_name [OF uuid_env_text run] by auto
qed

end
