(* ===== verification/Cloud.thy ===== *)
theory Cloud
  imports Execution_Repository
begin

text \<open>
  The other services around the tables: queues, blob containers and Web PubSub, as the record
  \<open>services\<close> over an environment, with the locale \<open>cloud\<close> that states what the code relies on: an
  operation of one of them leaves the others as they are, a blob that was uploaded is read back,
  a message that was sent is in the queue. A request that raises may still have been carried out.
\<close>

section \<open>Services\<close>

type_synonym blobs = "string \<times> string \<Rightarrow> string option"
type_synonym queues = "string \<Rightarrow> string list"

text \<open>
  \<open>sv_blobs\<close> and \<open>sv_queue\<close> observe the blobs by container and path and the messages sent to a
  queue; \<open>sv_connection_string\<close> is the setting \<open>AzureWebJobsStorage\<close>, \<open>sv_account_name\<close>, \<open>sv_blob_url\<close> and
  \<open>sv_generate_sas\<close> are what the client library makes of it; \<open>sv_initialized\<close> is the attribute \<open>_initialized_containers\<close> of the blob service,
  \<open>sv_log_counters\<close> is \<open>_sequence_counters\<close> of the log repository.
  \<open>sv_pubsub_client\<close> is whether the client of Web PubSub can be made, \<open>sv_dumps_indent\<close> is
  \<open>json.dumps(v, indent=2)\<close>.
\<close>

record 'w services =
  sv_env :: "'w env"
  sv_blobs :: "'w \<Rightarrow> blobs"
  sv_queue :: "'w \<Rightarrow> queues"
  sv_connection_string :: "string option"
  sv_account_name :: "string option"
  sv_blob_url :: "string \<times> string \<Rightarrow> string"
  sv_generate_sas :: "string \<Rightarrow> string \<times> string \<Rightarrow> string option \<Rightarrow> string list \<Rightarrow> datetime \<Rightarrow> exn + string"
  sv_dumps_indent :: "pyval \<Rightarrow> exn + string"
  sv_initialized :: "'w \<Rightarrow> string set"
  sv_mark_initialized :: "string \<Rightarrow> 'w \<Rightarrow> 'w"
  sv_log_counters :: "'w \<Rightarrow> string \<Rightarrow> nat"
  sv_set_log_counters :: "(string \<Rightarrow> nat) \<Rightarrow> 'w \<Rightarrow> 'w"
  sv_container_exists :: "string \<Rightarrow> ('w, bool) py"
  sv_create_container :: "string \<Rightarrow> ('w, unit) py"
  sv_blob_exists :: "string \<times> string \<Rightarrow> ('w, bool) py"
  sv_upload :: "string \<times> string \<Rightarrow> string \<Rightarrow> ('w, unit) py"
  sv_download :: "string \<times> string \<Rightarrow> ('w, string) py"
  sv_delete_blob :: "string \<times> string \<Rightarrow> ('w, unit) py"
  sv_create_queue :: "string \<Rightarrow> ('w, unit) py"
  sv_send_message :: "string \<Rightarrow> string \<Rightarrow> ('w, unit) py"
  sv_pubsub_client :: "('w, bool) py"
  sv_send_to_group :: "string \<Rightarrow> pyval \<Rightarrow> ('w, unit) py"

section \<open>What the code relies on\<close>

locale cloud = table_sdk "sv_env S" for S :: "'w services" +
  assumes tables_keep:
    "keeps (\<lambda>w. (sv_blobs S w, sv_queue S w)) (sdk_create (sv_env S) t e)"
    "keeps (\<lambda>w. (sv_blobs S w, sv_queue S w)) (sdk_get (sv_env S) t p r)"
    "keeps (\<lambda>w. (sv_blobs S w, sv_queue S w)) (sdk_update (sv_env S) t e m et)"
    "keeps (\<lambda>w. (sv_blobs S w, sv_queue S w)) (sdk_upsert (sv_env S) t e m)"
    "keeps (\<lambda>w. (sv_blobs S w, sv_queue S w)) (sdk_delete (sv_env S) t p r)"
    "keeps (\<lambda>w. (sv_blobs S w, sv_queue S w)) (sdk_query (sv_env S) t f sel)"
    "keeps (\<lambda>w. (sv_blobs S w, sv_queue S w)) (utcnow (sv_env S))"
    "keeps (\<lambda>w. (sv_blobs S w, sv_queue S w)) (uuid4 (sv_env S))"
  and pubsub_keeps:
    "keeps (\<lambda>w. (env_rows (sv_env S) w, sv_blobs S w, sv_queue S w)) (sv_pubsub_client S)"
    "keeps (\<lambda>w. (env_rows (sv_env S) w, sv_blobs S w, sv_queue S w)) (sv_send_to_group S g v)"
  and counters_keep: "(env_rows (sv_env S) (sv_set_log_counters S n w), sv_blobs S (sv_set_log_counters S n w),
      sv_queue S (sv_set_log_counters S n w)) = (env_rows (sv_env S) w, sv_blobs S w, sv_queue S w)"
  and pubsub_answers: "wp (sv_pubsub_client S) (\<lambda>_ _. True) (\<lambda>_ _. False) w"
  and containers_keep:
    "keeps (\<lambda>w. (env_rows (sv_env S) w, sv_blobs S w, sv_queue S w)) (sv_container_exists S c)"
    "keeps (\<lambda>w. (env_rows (sv_env S) w, sv_blobs S w, sv_queue S w)) (sv_create_container S c)"
    "keeps (\<lambda>w. (env_rows (sv_env S) w, sv_blobs S w, sv_queue S w)) (sv_blob_exists S b)"
    "keeps (\<lambda>w. (env_rows (sv_env S) w, sv_blobs S w, sv_queue S w)) (sv_download S b)"
    "(env_rows (sv_env S) (sv_mark_initialized S c w), sv_blobs S (sv_mark_initialized S c w),
      sv_queue S (sv_mark_initialized S c w)) = (env_rows (sv_env S) w, sv_blobs S w, sv_queue S w)"
  and blobs_keep_others:
    "keeps (\<lambda>w. (env_rows (sv_env S) w, sv_queue S w)) (sv_upload S b d)"
    "keeps (\<lambda>w. (env_rows (sv_env S) w, sv_queue S w)) (sv_delete_blob S b)"
  and queues_keep_others:
    "keeps (\<lambda>w. (env_rows (sv_env S) w, sv_blobs S w, sv_queue S w)) (sv_create_queue S q)"
    "keeps (\<lambda>w. (env_rows (sv_env S) w, sv_blobs S w)) (sv_send_message S q d)"
  and exists_law: "wp (sv_blob_exists S b) (\<lambda>x _. x \<longleftrightarrow> sv_blobs S w b \<noteq> None) (\<lambda>_ _. True) w"
  and download_law: "wp (sv_download S b) (\<lambda>d _. sv_blobs S w b = Some d) (\<lambda>_ _. True) w"
  and upload_law: "wp (sv_upload S b d) (\<lambda>_ w'. sv_blobs S w' = (sv_blobs S w)(b := Some d))
    (\<lambda>_ w'. sv_blobs S w' \<in> {sv_blobs S w, (sv_blobs S w)(b := Some d)}) w"
  and delete_blob_law: "wp (sv_delete_blob S b) (\<lambda>_ w'. sv_blobs S w' = (sv_blobs S w)(b := None))
    (\<lambda>_ w'. sv_blobs S w' \<in> {sv_blobs S w, (sv_blobs S w)(b := None)}) w"
  and send_law: "wp (sv_send_message S q d) (\<lambda>_ w'. sv_queue S w' = (sv_queue S w)(q := sv_queue S w q @ [d]))
    (\<lambda>_ w'. sv_queue S w' \<in> {sv_queue S w, (sv_queue S w)(q := sv_queue S w q @ [d])}) w"
begin

abbreviation rows :: "'w \<Rightarrow> tables" where
  "rows \<equiv> env_rows (sv_env S)"

lemma stays_clock [stays_intros]:
  "stays (\<lambda>w. rows w = v) (utcnow (sv_env S))" "stays (\<lambda>w. rows w = v) (uuid4 (sv_env S))"
  using utcnow_rows uuid4_rows
  by (auto simp: stays_def utcnow_def uuid4_def split: prod.splits) (metis snd_conv)+

lemma keeps_fst: "keeps (\<lambda>w. (f w, g w)) m \<Longrightarrow> stays (\<lambda>w. f w = v) m"
  and keeps_snd: "keeps (\<lambda>w. (f w, g w)) m \<Longrightarrow> stays (\<lambda>w. g w = v1) m"
  and keeps_mid: "keeps (\<lambda>w. (f w, h w, k w)) m \<Longrightarrow> stays (\<lambda>w. h w = v2) m"
  and keeps_last: "keeps (\<lambda>w. (f w, h w, k w)) m \<Longrightarrow> stays (\<lambda>w. k w = v3) m"
  by (simp_all add: keeps_iff stays_def)

lemmas stays_tables [stays_intros] = tables_keep [THEN keeps_fst] tables_keep [THEN keeps_snd]

lemmas stays_stored [stays_intros] =
  pubsub_keeps [THEN keeps_fst] pubsub_keeps [THEN keeps_mid] pubsub_keeps [THEN keeps_last]
  containers_keep(1-4) [THEN keeps_fst] containers_keep(1-4) [THEN keeps_mid] containers_keep(1-4) [THEN keeps_last]
  queues_keep_others(1) [THEN keeps_fst] queues_keep_others(1) [THEN keeps_mid] queues_keep_others(1) [THEN keeps_last]
  blobs_keep_others [THEN keeps_fst] blobs_keep_others [THEN keeps_snd]
  queues_keep_others(2) [THEN keeps_fst] queues_keep_others(2) [THEN keeps_snd]

end

text \<open>The same services while they are available.\<close>

locale available_cloud = cloud S + available_sdk "sv_env S" ok for S :: "'w services" and ok :: "'w \<Rightarrow> bool" +
  assumes pubsub_ok: "ok w \<Longrightarrow> ok (snd (sv_pubsub_client S w))" "ok w \<Longrightarrow> ok (snd (sv_send_to_group S g v w))"
    and containers_ok: "ok w \<Longrightarrow> wp (sv_container_exists S c) (\<lambda>_. ok) (\<lambda>_ _. False) w"
      "ok w \<Longrightarrow> wp (sv_create_container S c) (\<lambda>_. ok) (\<lambda>_ _. False) w"
      "ok w \<Longrightarrow> ok (sv_mark_initialized S c w)" "ok w \<Longrightarrow> ok (sv_set_log_counters S n w)"
    and blobs_ok: "ok w \<Longrightarrow> wp (sv_blob_exists S b) (\<lambda>_. ok) (\<lambda>_ _. False) w"
      "ok w \<Longrightarrow> sv_blobs S w b \<noteq> None \<Longrightarrow> wp (sv_download S b) (\<lambda>_. ok) (\<lambda>_ _. False) w"
      "ok w \<Longrightarrow> wp (sv_upload S b d) (\<lambda>_. ok) (\<lambda>_ _. False) w"
      "ok w \<Longrightarrow> wp (sv_delete_blob S b) (\<lambda>_. ok) (\<lambda>_ _. False) w"
    and queue_ok: "ok w \<Longrightarrow> wp (sv_create_queue S q) (\<lambda>_. ok) (\<lambda>_. ok) w"
      "ok w \<Longrightarrow> wp (sv_send_message S q d) (\<lambda>_. ok) (\<lambda>_ _. False) w"

section \<open>Services in memory\<close>

record cloud_mem = mem +
  cm_blobs :: blobs
  cm_queue :: queues
  cm_ready :: "string set"
  cm_counters :: "string \<Rightarrow> nat"
  cm_sent :: "(string \<times> pyval) list"

definition mem_cloud :: "'z cloud_mem_scheme services" where
  "mem_cloud = \<lparr>
     sv_env = mem_env,
     sv_blobs = cm_blobs,
     sv_queue = cm_queue,
     sv_connection_string = Some ''AccountName=dev;AccountKey=abc=='',
     sv_account_name = Some ''dev'',
     sv_blob_url = (\<lambda>(c, n). ''http://azurite:10000/dev/'' @ c @ ''/'' @ n),
     sv_generate_sas = (\<lambda>_ _ _ _ _. Inr ''sig''),
     sv_dumps_indent = (\<lambda>v. if has_other v then Inl (TypeError ''not JSON serializable'') else Inr ''{}''),
     sv_initialized = cm_ready,
     sv_mark_initialized = (\<lambda>c w. w\<lparr>cm_ready := insert c (cm_ready w)\<rparr>),
     sv_log_counters = cm_counters,
     sv_set_log_counters = (\<lambda>c w. w\<lparr>cm_counters := c\<rparr>),
     sv_container_exists = (\<lambda>c. py_then mem_fault (ret True)),
     sv_create_container = (\<lambda>c. mem_fault),
     sv_blob_exists = (\<lambda>b. py_then mem_fault (\<lambda>w. (Inr (cm_blobs w b \<noteq> None), w))),
     sv_upload = (\<lambda>b d. py_then mem_fault (\<lambda>w. (Inr (), w\<lparr>cm_blobs := (cm_blobs w)(b := Some d)\<rparr>))),
     sv_download = (\<lambda>b. py_then mem_fault (\<lambda>w. (case cm_blobs w b of
        None \<Rightarrow> Inl ResourceNotFoundError | Some d \<Rightarrow> Inr d, w))),
     sv_delete_blob = (\<lambda>b. py_then mem_fault (\<lambda>w. (Inr (), w\<lparr>cm_blobs := (cm_blobs w)(b := None)\<rparr>))),
     sv_create_queue = (\<lambda>q. mem_fault),
     sv_send_message = (\<lambda>q d. py_then mem_fault (\<lambda>w.
        (Inr (), w\<lparr>cm_queue := (cm_queue w)(q := cm_queue w q @ [d])\<rparr>))),
     sv_pubsub_client = ret True,
     sv_send_to_group = (\<lambda>g v w. (Inr (), w\<lparr>cm_sent := cm_sent w @ [(g, v)]\<rparr>))\<rparr>"

lemma mem_cloud_env [simp]: "sv_env mem_cloud = mem_env"
  by (simp add: mem_cloud_def)

lemma mem_view_cloud [simp]:
  "mem_view (w\<lparr>cm_blobs := b\<rparr>) = mem_view w" "mem_view (w\<lparr>cm_queue := q\<rparr>) = mem_view w"
  "mem_view (w\<lparr>cm_ready := r\<rparr>) = mem_view w" "mem_view (w\<lparr>cm_counters := n\<rparr>) = mem_view w" "mem_view (w\<lparr>cm_sent := x\<rparr>) = mem_view w"
  by (rule ext, rule ext, simp add: mem_view_def)+

interpretation mem_cloud: cloud mem_cloud
  by (rule cloud.intro, simp add: mem.table_sdk_axioms, unfold_locales)
    (auto simp: mem_cloud_def keeps_iff wp_def mem_defs py_run_defs utcnow_def uuid4_def
       split: option.splits list.splits if_splits)

interpretation mem_cloud: available_cloud mem_cloud "\<lambda>w. mem_faults w = []"
  by (rule available_cloud.intro, rule mem_cloud.cloud_axioms, simp add: mem.available_sdk_axioms, unfold_locales)
    (auto simp: mem_cloud_def wp_def mem_fault_def py_run_defs split: option.splits)

end
