(* ===== verification/Blob_Storage.thy ===== *)
theory Blob_Storage
  imports Cloud
begin

text \<open>
  \<open>shared/blob_storage.py\<close>: the data of executions that is too large for a table, kept as blobs, and
  the upload and download of files. A blob holds text here; the encoding to bytes and back is left out.
\<close>

definition EXECUTION_CONTAINER :: string where
  "EXECUTION_CONTAINER = ''execution-data''"

definition make_url_browser_accessible :: "string \<Rightarrow> string" where
  "make_url_browser_accessible url = replace_all ''azurite:10000'' ''localhost:10000'' url"

definition ensure_container_exists :: "'w services \<Rightarrow> string \<Rightarrow> ('w, unit) py" where
  "ensure_container_exists S container_name =
     py_bind (py_read (sv_initialized S)) (\<lambda>ready.
     if container_name \<in> ready then ret () else
     py_bind (sv_container_exists S container_name) (\<lambda>exists.
     py_then
       (if exists then ret ()
        else py_catch (sv_create_container S container_name)
          (\<lambda>x. if x = ResourceExistsError then ret () else raise x))
       (py_modify (sv_mark_initialized S container_name))))"

section \<open>Data of executions\<close>

definition execution_blob :: "string \<Rightarrow> string \<Rightarrow> string \<times> string" where
  "execution_blob xid name = (EXECUTION_CONTAINER, xid @ ''/'' @ name)"

definition upload_json :: "'w services \<Rightarrow> string \<Rightarrow> string \<Rightarrow> pyval \<Rightarrow> ('w, string) py" where
  "upload_json S name xid v =
     py_then (ensure_container_exists S EXECUTION_CONTAINER)
       (py_bind (lift (sv_dumps_indent S v)) (\<lambda>text.
          py_then (sv_upload S (execution_blob xid name) text) (ret (xid @ ''/'' @ name))))"

definition download_json :: "'w services \<Rightarrow> string \<times> string \<Rightarrow> ('w, pyval) py" where
  "download_json S b = py_bind (sv_download S b) (\<lambda>text. case env_loads (sv_env S) text of
     None \<Rightarrow> raise (ValueError ''Expecting value'') | Some v \<Rightarrow> ret v)"

text \<open>\<open>None\<close> when the blob is absent, and also after any error.\<close>

definition get_json :: "'w services \<Rightarrow> string \<Rightarrow> string \<Rightarrow> ('w, pyval) py" where
  "get_json S name xid =
     py_catch
       (py_then (ensure_container_exists S EXECUTION_CONTAINER)
         (py_bind (sv_blob_exists S (execution_blob xid name)) (\<lambda>exists.
            if \<not> exists then ret PNone else download_json S (execution_blob xid name))))
       (\<lambda>_. ret PNone)"

definition upload_logs :: "'w services \<Rightarrow> string \<Rightarrow> pyval \<Rightarrow> ('w, string) py" where
  "upload_logs S = upload_json S ''logs.json''"

definition get_blob_logs :: "'w services \<Rightarrow> string \<Rightarrow> ('w, pyval) py" where
  "get_blob_logs S = get_json S ''logs.json''"

definition upload_snapshot :: "'w services \<Rightarrow> string \<Rightarrow> pyval \<Rightarrow> ('w, string) py" where
  "upload_snapshot S = upload_json S ''snapshot.json''"

definition get_snapshot :: "'w services \<Rightarrow> string \<Rightarrow> ('w, pyval) py" where
  "get_snapshot S = get_json S ''snapshot.json''"

definition upload_variables :: "'w services \<Rightarrow> string \<Rightarrow> pyval \<Rightarrow> ('w, string) py" where
  "upload_variables S = upload_json S ''variables.json''"

definition get_variables :: "'w services \<Rightarrow> string \<Rightarrow> ('w, pyval) py" where
  "get_variables S = get_json S ''variables.json''"

text \<open>The file of a result and its content.\<close>

definition result_file :: "'w services \<Rightarrow> pyval \<Rightarrow> exn + string \<times> string" where
  "result_file S v = (case v of
     PStr s \<Rightarrow> Inr (if startswith (strip s) ''<'' \<and> str_in ''>'' s then ''result.html'' else ''result.txt'', s)
   | _ \<Rightarrow> (case sv_dumps_indent S v of Inl x \<Rightarrow> Inl x | Inr text \<Rightarrow> Inr (''result.json'', text)))"

definition upload_result :: "'w services \<Rightarrow> string \<Rightarrow> pyval \<Rightarrow> ('w, string) py" where
  "upload_result S xid result =
     py_bind (lift (result_file S result)) (\<lambda>(name, content).
     py_then (ensure_container_exists S EXECUTION_CONTAINER)
       (py_then (sv_upload S (execution_blob xid name) content) (ret (xid @ ''/'' @ name))))"

text \<open>One turn of the loop over the formats: \<open>None\<close> is \<open>continue\<close>.\<close>

definition read_result :: "'w services \<Rightarrow> string \<Rightarrow> string \<Rightarrow> ('w, pyval option) py" where
  "read_result S xid ext =
     (let b = execution_blob xid (''result.'' @ ext) in
      py_catch
        (py_bind (sv_blob_exists S b) (\<lambda>exists.
           if \<not> exists then ret None
           else if ext = ''json'' then py_bind (download_json S b) (\<lambda>v. ret (Some v))
           else py_bind (sv_download S b) (\<lambda>text. ret (Some (PStr text)))))
        (\<lambda>_. ret None))"

primrec first_result :: "'w services \<Rightarrow> string \<Rightarrow> string list \<Rightarrow> ('w, pyval) py" where
  "first_result S xid [] = ret PNone"
| "first_result S xid (ext # exts) = py_bind (read_result S xid ext) (\<lambda>r. case r of
     Some v \<Rightarrow> ret v | None \<Rightarrow> first_result S xid exts)"

definition get_result :: "'w services \<Rightarrow> string \<Rightarrow> ('w, pyval) py" where
  "get_result S xid =
     py_then (ensure_container_exists S EXECUTION_CONTAINER) (first_result S xid [''json'', ''html'', ''txt''])"

section \<open>Files\<close>

definition minutes :: "int \<Rightarrow> int" where
  "minutes n = n * 60000000"

text \<open>\<open>conn_parts.get('AccountKey')\<close>: the last of the settings wins, as in a dictionary.\<close>

definition conn_parts :: "string \<Rightarrow> (string \<times> string) list" where
  "conn_parts conn = map (\<lambda>item. case split_max CHR ''='' 1 item of [k, v] \<Rightarrow> (k, v) | _ \<Rightarrow> ([], []))
     (filter (\<lambda>item. CHR ''='' \<in> set item) (split_all CHR '';'' conn))"

definition account_key :: "string \<Rightarrow> string option" where
  "account_key conn = map_of (rev (conn_parts conn)) ''AccountKey''"

definition check_upload :: "string \<Rightarrow> int option \<Rightarrow> int \<Rightarrow> string list option \<Rightarrow> exn + unit" where
  "check_upload content_type file_size max_size_bytes allowed_types =
     (if (case allowed_types of None \<Rightarrow> False | Some ts \<Rightarrow> ts \<noteq> [] \<and> content_type \<notin> set ts)
      then Inl (ValueError (''File type '' @ content_type @ '' is not allowed''))
      else if (case file_size of None \<Rightarrow> False | Some n \<Rightarrow> n \<noteq> 0 \<and> n > max_size_bytes)
      then Inl (ValueError ''File exceeds maximum size'') else Inr ())"

definition generate_upload_url :: "'w services \<Rightarrow> string \<Rightarrow> string \<Rightarrow> int option \<Rightarrow> int
    \<Rightarrow> string list option \<Rightarrow> ('w, entity) py" where
  "generate_upload_url S file_name content_type file_size max_size_bytes allowed_types =
     py_then (lift (check_upload content_type file_size max_size_bytes allowed_types))
     (py_bind (uuid4 (sv_env S)) (\<lambda>uuid.
      let blob_name = filter (\<lambda>c. c \<noteq> CHR ''-'') uuid @ ''_'' @ file_name; b = (''uploads'', blob_name) in
      py_then (ensure_container_exists S ''uploads'')
      (if \<not> opt_truthy (sv_account_name S) then raise (ValueError ''Blob storage account name not available'') else
       py_bind (utcnow (sv_env S)) (\<lambda>now.
       py_bind (lift (sv_generate_sas S (str_or (sv_account_name S) []) b
          (account_key (str_or (sv_connection_string S) [])) [''write'', ''create''] (dt_add now (minutes 15)))) (\<lambda>token.
       py_bind (utcnow (sv_env S)) (\<lambda>later.
       let url = make_url_browser_accessible (sv_blob_url S b) in
       ret [''upload_url'' \<mapsto> PStr (url @ ''?'' @ token), ''blob_uri'' \<mapsto> PStr url, ''blob_name'' \<mapsto> PStr blob_name,
            ''expires_at'' \<mapsto> PStr (env_isoformat (sv_env S) (dt_add later (minutes 15))),
            ''file_name'' \<mapsto> PStr file_name, ''content_type'' \<mapsto> PStr content_type]))))))"

definition upload_blob :: "'w services \<Rightarrow> string \<Rightarrow> string \<Rightarrow> string \<Rightarrow> ('w, string) py" where
  "upload_blob S container_name blob_name data =
     py_then (ensure_container_exists S container_name)
       (py_then (sv_upload S (container_name, blob_name) data)
         (ret (make_url_browser_accessible (sv_blob_url S (container_name, blob_name)))))"

definition blob_not_found :: "string \<Rightarrow> string \<Rightarrow> exn" where
  "blob_not_found container_name blob_name =
     AppError ''FileNotFoundError'' (''Blob not found: '' @ container_name @ ''/'' @ blob_name)"

definition download_blob :: "'w services \<Rightarrow> string \<Rightarrow> string \<Rightarrow> ('w, string) py" where
  "download_blob S container_name blob_name =
     py_then (ensure_container_exists S container_name)
       (py_bind (sv_blob_exists S (container_name, blob_name)) (\<lambda>exists.
          if \<not> exists then raise (blob_not_found container_name blob_name)
          else sv_download S (container_name, blob_name)))"

definition generate_sas_url :: "'w services \<Rightarrow> string \<Rightarrow> string \<Rightarrow> int \<Rightarrow> ('w, string) py" where
  "generate_sas_url S container_name blob_name expiry_hours =
     (let b = (container_name, blob_name); key = account_key (str_or (sv_connection_string S) []) in
      py_then (ensure_container_exists S container_name)
       (py_bind (sv_blob_exists S b) (\<lambda>exists.
          if \<not> exists then raise (blob_not_found container_name blob_name)
          else if \<not> opt_truthy (sv_account_name S) then raise (ValueError ''Blob storage account name not available'')
          else if \<not> opt_truthy key
          then raise (ValueError ''Blob storage account key not available in connection string'')
          else py_bind (utcnow (sv_env S)) (\<lambda>now.
            py_bind (lift (sv_generate_sas S (str_or (sv_account_name S) []) b key [''read'']
               (dt_add now (minutes (60 * expiry_hours))))) (\<lambda>token.
            ret (make_url_browser_accessible (sv_blob_url S b @ ''?'' @ token)))))))"

definition delete_blob :: "'w services \<Rightarrow> string \<Rightarrow> string \<Rightarrow> ('w, bool) py" where
  "delete_blob S container_name blob_name =
     py_then (ensure_container_exists S container_name)
       (py_bind (sv_blob_exists S (container_name, blob_name)) (\<lambda>exists.
          if \<not> exists then ret False
          else py_then (sv_delete_blob S (container_name, blob_name)) (ret True)))"

section \<open>Reading back what was stored\<close>

context cloud
begin

lemma stays_mark [stays_intros]:
  "stays (\<lambda>w. rows w = v1) (py_modify (sv_mark_initialized S c))"
  "stays (\<lambda>w. sv_blobs S w = v2) (py_modify (sv_mark_initialized S c))"
  "stays (\<lambda>w. sv_queue S w = v3) (py_modify (sv_mark_initialized S c))"
  using containers_keep(5) by (auto intro!: stays_modify)

lemma stays_container [stays_intros]:
  "stays (\<lambda>w. rows w = v1) (ensure_container_exists S c)"
  "stays (\<lambda>w. sv_blobs S w = v2) (ensure_container_exists S c)"
  "stays (\<lambda>w. sv_queue S w = v3) (ensure_container_exists S c)"
  unfolding ensure_container_exists_def by (intro stays_intros)+

lemma stays_read_result [stays_intros]:
  "stays (\<lambda>w. rows w = v1) (get_result S xid)"
  "stays (\<lambda>w. sv_blobs S w = v2) (get_result S xid)"
  "stays (\<lambda>w. sv_queue S w = v3) (get_result S xid)"
  unfolding get_result_def first_result.simps read_result_def download_json_def
  by (intro stays_intros)+

lemma stays_get_json [stays_intros]:
  "stays (\<lambda>w. rows w = v1) (get_json S n xid)"
  "stays (\<lambda>w. sv_blobs S w = v2) (get_json S n xid)"
  "stays (\<lambda>w. sv_queue S w = v3) (get_json S n xid)"
  unfolding get_json_def download_json_def by (intro stays_intros)+

lemma stays_uploads [stays_intros]:
  "stays (\<lambda>w. rows w = v1) (upload_json S n xid v)" "stays (\<lambda>w. sv_queue S w = v3) (upload_json S n xid v)"
  "stays (\<lambda>w. rows w = v1) (upload_result S xid v)" "stays (\<lambda>w. sv_queue S w = v3) (upload_result S xid v)"
  unfolding upload_json_def upload_result_def by (intro stays_intros)+

end

text \<open>\<open>json.loads\<close> gives back what \<open>json.dumps(v, indent=2)\<close> wrote.\<close>

definition json_safe :: "'w services \<Rightarrow> pyval \<Rightarrow> bool" where
  "json_safe S v \<longleftrightarrow> (case sv_dumps_indent S v of Inl _ \<Rightarrow> False | Inr s \<Rightarrow> env_loads (sv_env S) s = Some v)"

text \<open>The formats \<open>get_result\<close> tries before the one \<open>upload_result\<close> chose.\<close>

definition earlier_formats :: "pyval \<Rightarrow> string list" where
  "earlier_formats v = (case v of
     PStr s \<Rightarrow> if startswith (strip s) ''<'' \<and> str_in ''>'' s then [''json''] else [''json'', ''html'']
   | _ \<Rightarrow> [])"

context available_cloud
begin

lemma wp_container_ok:
  assumes "ok w" and "\<And>w'. ok w' \<Longrightarrow> sv_blobs S w' = sv_blobs S w \<Longrightarrow> rows w' = rows w \<Longrightarrow> Q () w'"
  shows "wp (ensure_container_exists S c) Q R w"
proof -
  have "wp (ensure_container_exists S c) (\<lambda>_. ok) (\<lambda>_ _. False) w"
  proof (cases "c \<in> sv_initialized S w")
    case False
    have create: "wp (sv_create_container S c) (\<lambda>_ w'. ok (sv_mark_initialized S c w')) R' w'" if "ok w'" for R' w'
      by (rule wp_mono [OF containers_ok(2) [OF that]]) (simp_all add: containers_ok(3))
    show ?thesis
      unfolding ensure_container_exists_def wp_bind wp_read
      by (simp add: False, rule wp_mono [OF containers_ok(1) [OF assms(1)]])
        (use create containers_ok(3) in \<open>simp_all split: if_splits\<close>)
  qed (simp add: ensure_container_exists_def assms(1))
  from wp_conj [OF wp_conj [OF this stays_wp [OF stays_container(2) refl]] stays_wp [OF stays_container(1) refl]]
  show ?thesis by (rule wp_mono) (use assms(2) in auto)
qed

lemma wp_blob_exists_ok:
  assumes "ok w" and "\<And>w'. ok w' \<Longrightarrow> sv_blobs S w' = sv_blobs S w \<Longrightarrow> rows w' = rows w
    \<Longrightarrow> Q (sv_blobs S w b \<noteq> None) w'"
  shows "wp (sv_blob_exists S b) Q R w"
proof -
  have k: "stays (\<lambda>w. sv_blobs S w = v) (sv_blob_exists S b)" "stays (\<lambda>w. rows w = v') (sv_blob_exists S b)" for v v'
    by (intro stays_intros)+
  show ?thesis
    by (rule wp_mono [OF wp_conj [OF wp_conj [OF wp_conj [OF blobs_ok(1) [OF assms(1)] exists_law]
        stays_wp [OF k(1) refl]] stays_wp [OF k(2) refl]]]) (use assms(2) in auto)
qed

lemma wp_download_ok:
  assumes "ok w" and "sv_blobs S w b = Some d"
    and "\<And>w'. ok w' \<Longrightarrow> sv_blobs S w' = sv_blobs S w \<Longrightarrow> rows w' = rows w \<Longrightarrow> Q d w'"
  shows "wp (sv_download S b) Q R w"
proof -
  have k: "stays (\<lambda>w. sv_blobs S w = v) (sv_download S b)" "stays (\<lambda>w. rows w = v') (sv_download S b)" for v v'
    by (intro stays_intros)+
  show ?thesis
    by (rule wp_mono [OF wp_conj [OF wp_conj [OF wp_conj [OF blobs_ok(2) [OF assms(1)] download_law]
        stays_wp [OF k(1) refl]] stays_wp [OF k(2) refl]]]) (use assms(2,3) in auto)
qed

lemma wp_upload_ok:
  assumes "ok w" and "\<And>w'. ok w' \<Longrightarrow> sv_blobs S w' = (sv_blobs S w)(b := Some d) \<Longrightarrow> rows w' = rows w \<Longrightarrow> Q () w'"
  shows "wp (sv_upload S b d) Q R w"
proof -
  have k: "stays (\<lambda>w. rows w = v') (sv_upload S b d)" for v' by (intro stays_intros)
  show ?thesis
    by (rule wp_mono [OF wp_conj [OF wp_conj [OF blobs_ok(3) [OF assms(1)] upload_law] stays_wp [OF k refl]]])
      (use assms(2) in auto)
qed

lemma wp_read_absent:
  assumes "ok w" and "sv_blobs S w (execution_blob xid (''result.'' @ ext)) = None"
    and "\<And>w'. ok w' \<Longrightarrow> sv_blobs S w' = sv_blobs S w \<Longrightarrow> rows w' = rows w \<Longrightarrow> Q None w'"
  shows "wp (read_result S xid ext) Q R w"
  unfolding read_result_def Let_def wp_catch wp_bind
  by (rule wp_blob_exists_ok [OF assms(1)]) (use assms(2,3) in simp)

lemma wp_read_present:
  assumes "ok w" and "sv_blobs S w (execution_blob xid (''result.'' @ ext)) = Some d"
    and "if ext = ''json'' then env_loads (sv_env S) d = Some v else v = PStr d"
    and "\<And>w'. ok w' \<Longrightarrow> sv_blobs S w' = sv_blobs S w \<Longrightarrow> rows w' = rows w \<Longrightarrow> Q (Some v) w'"
  shows "wp (read_result S xid ext) Q R w"
  unfolding read_result_def Let_def wp_catch wp_bind download_json_def
proof (rule wp_blob_exists_ok [OF assms(1)])
  fix w1
  assume w1: "ok w1" "sv_blobs S w1 = sv_blobs S w" "rows w1 = rows w"
  have "wp (sv_download S (execution_blob xid (''result.'' @ ext)))
      (\<lambda>d' w'. d' = d \<and> ok w' \<and> sv_blobs S w' = sv_blobs S w \<and> rows w' = rows w) (\<lambda>_ _. False) w1"
    by (rule wp_download_ok [OF w1(1)]) (use w1 assms(2) in auto)
  then show "wp (if \<not> sv_blobs S w (execution_blob xid (''result.'' @ ext)) \<noteq> None then ret None
       else if ext = ''json'' then py_bind (py_bind (sv_download S (execution_blob xid (''result.'' @ ext)))
          (\<lambda>text. case env_loads (sv_env S) text of None \<Rightarrow> raise (ValueError ''Expecting value'') | Some v \<Rightarrow> ret v))
          (\<lambda>v. ret (Some v))
       else py_bind (sv_download S (execution_blob xid (''result.'' @ ext))) (\<lambda>text. ret (Some (PStr text))))
     Q (\<lambda>e. wp (ret None) Q R) w1"
    using assms(2,3,4) by (auto elim!: wp_mono split: if_splits)
qed

lemma wp_first_absent:
  assumes "ok w" and "sv_blobs S w (execution_blob xid (''result.'' @ ext)) = None"
    and "\<And>w'. ok w' \<Longrightarrow> sv_blobs S w' = sv_blobs S w \<Longrightarrow> rows w' = rows w \<Longrightarrow> wp (first_result S xid exts) Q R w'"
  shows "wp (first_result S xid (ext # exts)) Q R w"
  unfolding first_result.simps wp_bind by (rule wp_read_absent [OF assms(1,2)]) (use assms(3) in simp)

lemma wp_first_present:
  assumes "ok w" and "sv_blobs S w (execution_blob xid (''result.'' @ ext)) = Some d"
    and "if ext = ''json'' then env_loads (sv_env S) d = Some v else v = PStr d"
    and "\<And>w'. ok w' \<Longrightarrow> sv_blobs S w' = sv_blobs S w \<Longrightarrow> rows w' = rows w \<Longrightarrow> Q v w'"
  shows "wp (first_result S xid (ext # exts)) Q R w"
  unfolding first_result.simps wp_bind by (rule wp_read_present [OF assms(1-3)]) (use assms(4) in simp)

lemma wp_get_result_stored:
  assumes "ok w" and "result_file S v = Inr (name, content)" and "is_str v \<or> json_safe S v"
    and "sv_blobs S w (execution_blob xid name) = Some content"
    and "\<forall>ext \<in> set (earlier_formats v). sv_blobs S w (execution_blob xid (''result.'' @ ext)) = None"
  shows "wp (get_result S xid) (\<lambda>r w'. r = v \<and> ok w' \<and> sv_blobs S w' = sv_blobs S w \<and> rows w' = rows w) (\<lambda>_ _. False) w"
  unfolding get_result_def wp_then
proof (rule wp_container_ok [OF assms(1)], goal_cases)
  case (1 w1)
  have json: "env_loads (sv_env S) content = Some v \<and> name = ''result.json''" if "\<not> is_str v"
    using that assms(2,3) by (cases v) (auto simp: result_file_def json_safe_def split: sum.splits)
  have w1: "sv_blobs S w1 (execution_blob xid name) = Some content"
    "\<forall>ext \<in> set (earlier_formats v). sv_blobs S w1 (execution_blob xid (''result.'' @ ext)) = None"
    using 1 assms(4,5) by simp_all
  have html: ?case if v: "v = PStr s" "startswith (strip s) ''<'' \<and> str_in ''>'' s" for s
  proof (rule wp_first_absent [OF 1(1)], goal_cases)
    case (2 w2)
    then show ?case
      by (intro wp_first_present [where d = s and v = v]) (use w1(1) v 1 assms(2) in \<open>auto simp: result_file_def\<close>)
  qed (use w1(2) v in \<open>simp add: earlier_formats_def\<close>)
  have plain: ?case if v: "v = PStr s" "\<not> (startswith (strip s) ''<'' \<and> str_in ''>'' s)" for s
  proof (rule wp_first_absent [OF 1(1)], goal_cases)
    case (2 w2)
    note w2 = 2
    show ?case
    proof (rule wp_first_absent [OF w2(1)], goal_cases)
      case (2 w3)
      then show ?case
        by (intro wp_first_present [where d = s and v = v]) (use w1(1) v w2 1 assms(2) in \<open>auto simp: result_file_def\<close>)
    qed (use w1(2) w2 v in \<open>simp add: earlier_formats_def\<close>)
  qed (use w1(2) v in \<open>simp add: earlier_formats_def\<close>)
  have other: ?case if "\<not> is_str v"
    by (rule wp_first_present [OF 1(1), where d = content and v = v]) (use w1(1) json [OF that] 1 in auto)
  show ?case
  proof (cases "is_str v")
    case True
    then obtain s where "v = PStr s" by (cases v) auto
    then show ?thesis using html plain by blast
  qed (rule other)
qed

lemma wp_upload_result_ok:
  assumes "ok w"
  shows "wp (upload_result S xid v)
    (\<lambda>_ w'. ok w' \<and> rows w' = rows w \<and> (\<exists>name content. result_file S v = Inr (name, content)
       \<and> sv_blobs S w' = (sv_blobs S w)(execution_blob xid name := Some content)))
    (\<lambda>_ w'. w' = w) w"
proof (cases "result_file S v")
  case (Inr nc)
  obtain name content where nc: "nc = (name, content)" by fastforce
  show ?thesis
    unfolding upload_result_def wp_bind wp_lift Inr nc sum.case prod.case wp_then
    by (rule wp_container_ok [OF assms], rule wp_upload_ok) simp_all
qed (simp add: upload_result_def)

lemma wp_upload_json_ok:
  assumes "ok w"
  shows "wp (upload_json S name xid v)
    (\<lambda>_ w'. ok w' \<and> rows w' = rows w) (\<lambda>_ w'. ok w' \<and> rows w' = rows w) w"
  unfolding upload_json_def wp_then
proof (rule wp_container_ok [OF assms], goal_cases)
  case (1 w1)
  then show ?case
    by (cases "sv_dumps_indent S v") (auto intro!: wp_upload_ok)
qed

end

section \<open>Properties\<close>

text \<open>
  C24: a result that was uploaded is read back as it was, while blob storage is available: a string
  always, another value when JSON gives it back. The reader tries the formats in a fixed order, so
  this needs that no blob of an earlier format is there, as one left by another run of the same
  execution would be.
\<close>

theorem uploaded_result_read_back:
  assumes "available_cloud S ok" and "ok w" and "is_str v \<or> json_safe S v"
    and "\<forall>ext \<in> set (earlier_formats v). sv_blobs S w (execution_blob xid (''result.'' @ ext)) = None"
    and "upload_result S xid v w = (Inr path, w1)"
  shows "\<exists>w2. get_result S xid w1 = (Inr v, w2) \<and> sv_blobs S w2 = sv_blobs S w1"
proof -
  obtain name content where content: "result_file S v = Inr (name, content)" and ok1: "ok w1"
    and blobs: "sv_blobs S w1 = (sv_blobs S w)(execution_blob xid name := Some content)"
    using wp_Inr [OF available_cloud.wp_upload_result_ok [OF assms(1,2)] assms(5)] by blast
  have "\<forall>ext \<in> set (earlier_formats v). sv_blobs S w1 (execution_blob xid (''result.'' @ ext)) = None"
    using assms(4) content unfolding blobs
    by (auto simp: earlier_formats_def result_file_def execution_blob_def split: pyval.splits if_splits)
  from available_cloud.wp_get_result_stored [OF assms(1) ok1 content assms(3) _ this]
  show ?thesis unfolding blobs by (auto simp: wp_def split: prod.splits sum.splits)
qed

definition cloud_world :: cloud_mem where
  "cloud_world = \<lparr>mem_rows = [], mem_clock = 0, mem_ids = 0, mem_faults = [], mem_files = [], mem_users = Map.empty,
     mem_orgs = Map.empty, cm_blobs = Map.empty, cm_queue = (\<lambda>_. []), cm_ready = {}, cm_counters = (\<lambda>_. 0), cm_sent = []\<rparr>"

theorem uploaded_result_read_back_witness:
  "\<exists>w1 w2. upload_result mem_cloud ''x1'' (PStr '' <b>done</b>'') cloud_world = (Inr ''x1/result.html'', w1)
     \<and> get_result mem_cloud ''x1'' w1 = (Inr (PStr '' <b>done</b>''), w2)"
proof -
  have "fst (upload_result mem_cloud ''x1'' (PStr '' <b>done</b>'') cloud_world) = Inr ''x1/result.html''"
    by code_simp
  then obtain w1 where run: "upload_result mem_cloud ''x1'' (PStr '' <b>done</b>'') cloud_world = (Inr ''x1/result.html'', w1)"
    by (metis prod.collapse)
  show ?thesis
    using uploaded_result_read_back [OF mem_cloud.available_cloud_axioms _ _ _ run] run
    by (auto simp: cloud_world_def mem_cloud_def)
qed

end
