(* ===== verification/Execution_Logger.thy ===== *)
theory Execution_Logger
  imports Blob_Storage
begin

text \<open>
  \<open>shared/execution_logger.py\<close> and \<open>shared/webpubsub_broadcaster.py\<close>: every change of an execution
  goes through the logger, which stores large data as blobs, lets the repository write the rows and
  tells the listeners. Broadcasts never raise.
\<close>

section \<open>Broadcasts\<close>

record broadcaster =
  bc_endpoint :: "string option"
  bc_connection_string :: "string option"

definition make_broadcaster :: "'w env \<Rightarrow> broadcaster" where
  "make_broadcaster E = \<lparr>bc_endpoint = env_getenv E ''AZURE_WEBPUBSUB_ENDPOINT'',
     bc_connection_string = env_getenv E ''WebPubSubConnectionString''\<rparr>"

definition bc_enabled :: "broadcaster \<Rightarrow> bool" where
  "bc_enabled b \<longleftrightarrow> opt_truthy (bc_endpoint b) \<or> opt_truthy (bc_connection_string b)"

definition last_items :: "nat \<Rightarrow> 'a list \<Rightarrow> 'a list" where
  "last_items n xs = drop (length xs - n) xs"

definition if_connected :: "'w services \<Rightarrow> broadcaster \<Rightarrow> ('w, unit) py \<Rightarrow> ('w, unit) py" where
  "if_connected S b m = (if \<not> bc_enabled b then ret ()
     else py_bind (sv_pubsub_client S) (\<lambda>connected. if connected then py_catch m (\<lambda>_. ret ()) else ret ()))"

definition broadcast_execution_update :: "'w services \<Rightarrow> broadcaster \<Rightarrow> string \<Rightarrow> string \<Rightarrow> pyval list option
    \<Rightarrow> bool \<Rightarrow> ('w, unit) py" where
  "broadcast_execution_update S b xid st latest_logs is_complete = if_connected S b
     (py_bind (utcnow (sv_env S)) (\<lambda>now.
       let message = [(''executionId'', PStr xid), (''status'', PStr st), (''isComplete'', PBool is_complete),
                      (''timestamp'', PStr (env_isoformat (sv_env S) now))]
             @ (case latest_logs of None \<Rightarrow> [] | Some ls \<Rightarrow> if ls = [] then []
                  else [(''latestLogs'', PList (last_items 50 ls))])
       in sv_send_to_group S (''execution:'' @ xid)
            (PDict [(''target'', PStr ''executionUpdate''), (''data'', PDict message)])))"

text \<open>\<open>v.isoformat()\<close> of an attribute that should be a datetime.\<close>

definition attr_isoformat :: "'w env \<Rightarrow> pyval \<Rightarrow> exn + pyval" where
  "attr_isoformat E v = (case v of PDate d \<Rightarrow> Inr (PStr (env_isoformat E d))
     | _ \<Rightarrow> Inl (AttributeError ''isoformat''))"

definition broadcast_execution_to_history :: "'w services \<Rightarrow> broadcaster \<Rightarrow> string \<Rightarrow> pyval \<Rightarrow> pyval \<Rightarrow> string
    \<Rightarrow> pyval \<Rightarrow> string \<Rightarrow> pyval \<Rightarrow> pyval \<Rightarrow> int option \<Rightarrow> ('w, unit) py" where
  "broadcast_execution_to_history S b xid workflow_name st executed_by executed_by_name scope
     started_at completed_at duration_ms = if_connected S b
     (py_bind (lift (attr_isoformat (sv_env S) started_at)) (\<lambda>started.
      py_bind (utcnow (sv_env S)) (\<lambda>now.
      py_bind (if truthy completed_at
               then lift (map_sum id (\<lambda>v. [(''completedAt'', v)]) (attr_isoformat (sv_env S) completed_at)) else ret [])
        (\<lambda>completed.
      let message = [(''executionId'', PStr xid), (''workflowName'', workflow_name), (''status'', st),
             (''executedBy'', PStr executed_by), (''executedByName'', executed_by_name), (''startedAt'', started),
             (''timestamp'', PStr (env_isoformat (sv_env S) now))] @ completed
             @ (case duration_ms of None \<Rightarrow> [] | Some n \<Rightarrow> [(''durationMs'', PInt n)])
      in sv_send_to_group S (''history:'' @ scope)
           (PDict [(''target'', PStr ''executionHistoryUpdate''), (''data'', PDict message)])))))"

section \<open>The logger\<close>

definition BLOB_THRESHOLD_BYTES :: nat where
  "BLOB_THRESHOLD_BYTES = 1024"

text \<open>\<open>len(s.encode('utf-8'))\<close>, for characters up to 255.\<close>

definition utf8_length :: "string \<Rightarrow> nat" where
  "utf8_length s = sum_list (map (\<lambda>c. if (of_char c :: nat) < 128 then 1 else 2) s)"

definition log_create_execution :: "'w services \<Rightarrow> repo \<Rightarrow> string \<Rightarrow> string option \<Rightarrow> string \<Rightarrow> string \<Rightarrow> string
    \<Rightarrow> pyval \<Rightarrow> string option \<Rightarrow> broadcaster option \<Rightarrow> ('w, entity) py" where
  "log_create_execution S r xid org uid uname wname input_data fid bc =
     py_bind (create_execution (sv_env S) r xid org uid uname wname input_data fid) (\<lambda>m.
     py_then (case bc of None \<Rightarrow> ret ()
       | Some b \<Rightarrow> broadcast_execution_to_history S b xid (PStr wname) (dget0 m ''status'') uid (PStr uname)
           (str_or org ''GLOBAL'') (dget0 m ''startedAt'') PNone None)
     (ret (env_model_dump (sv_env S) ''python'' m)))"

text \<open>The result to write inline, and whether it went to a blob.\<close>

definition store_result :: "'w services \<Rightarrow> string \<Rightarrow> pyval \<Rightarrow> ('w, pyval \<times> bool) py" where
  "store_result S xid result =
     (if result = PNone then ret (PNone, False)
      else py_bind (lift (case result of PStr s \<Rightarrow> Inr s | _ \<Rightarrow> env_dumps (sv_env S) result)) (\<lambda>result_json.
        if utf8_length result_json > BLOB_THRESHOLD_BYTES
        then py_then (upload_result S xid result) (ret (PNone, True))
        else ret (result, False)))"

definition completes :: "execution_status \<Rightarrow> bool" where
  "completes st \<longleftrightarrow> st \<in> {SUCCESS, FAILED, TIMEOUT, COMPLETED_WITH_ERRORS}"

definition log_update_execution :: "'w services \<Rightarrow> repo \<Rightarrow> string \<Rightarrow> string option \<Rightarrow> string \<Rightarrow> execution_status
    \<Rightarrow> pyval \<Rightarrow> string option \<Rightarrow> int option \<Rightarrow> pyval \<Rightarrow> pyval \<Rightarrow> broadcaster option \<Rightarrow> ('w, entity) py" where
  "log_update_execution S r xid org uid st result err duration_ms logs variables bc =
     py_bind (store_result S xid result) (\<lambda>(inline, in_blob).
     py_then (if truthy logs then py_then (upload_logs S xid logs) (ret ()) else ret ())
     (py_then (if truthy variables then py_then (upload_variables S xid variables) (ret ()) else ret ())
     (py_bind (update_execution (sv_env S) r xid org uid st inline err duration_ms in_blob) (\<lambda>m.
      py_then (case bc of None \<Rightarrow> ret ()
        | Some b \<Rightarrow> py_then
            (broadcast_execution_update S b xid (status_value st) None (completes st))
            (broadcast_execution_to_history S b xid (dget0 m ''workflowName'') (PStr (status_value st)) uid
               (dget0 m ''executedByName'') (str_or org ''GLOBAL'') (dget0 m ''startedAt'') (dget0 m ''completedAt'')
               duration_ms))
      (ret (env_model_dump (sv_env S) ''python'' m))))))"

section \<open>What the logger leaves alone\<close>

context cloud
begin

lemma stays_broadcasts [stays_intros]:
  "stays (\<lambda>w. rows w = v1) (broadcast_execution_update S b xid st ls c)"
  "stays (\<lambda>w. sv_blobs S w = v2) (broadcast_execution_update S b xid st ls c)"
  "stays (\<lambda>w. sv_queue S w = v3) (broadcast_execution_update S b xid st ls c)"
  "stays (\<lambda>w. rows w = v1) (broadcast_execution_to_history S b xid wn stv uid un sc sa ca ms)"
  "stays (\<lambda>w. sv_blobs S w = v2) (broadcast_execution_to_history S b xid wn stv uid un sc sa ca ms)"
  "stays (\<lambda>w. sv_queue S w = v3) (broadcast_execution_to_history S b xid wn stv uid un sc sa ca ms)"
  unfolding broadcast_execution_update_def broadcast_execution_to_history_def if_connected_def
  by (intro stays_intros)+

lemma wp_if_connected:
  assumes "stays I (if_connected S b m)" and "I w"
  shows "wp (if_connected S b m) (\<lambda>_. I) (\<lambda>_ _. False) w"
proof -
  have "wp (if_connected S b m) (\<lambda>_ _. True) (\<lambda>_ _. False) w"
  proof (cases "bc_enabled b")
    case True
    have caught: "wp (py_catch m (\<lambda>_. ret ())) (\<lambda>_ _. True) (\<lambda>_ _. False) w'" for w'
      unfolding wp_catch wp_ret by (auto simp: wp_def split: prod.splits sum.splits)
    show ?thesis
      unfolding if_connected_def wp_bind using True
      by (simp del: wp_catch, intro wp_mono [OF pubsub_answers]) (use caught in auto)
  qed (simp add: if_connected_def)
  from wp_conj [OF this stays_wp [OF assms]] show ?thesis by simp
qed

lemma stays_store_result [stays_intros]:
  "stays (\<lambda>w. rows w = v1) (store_result S xid res)" "stays (\<lambda>w. sv_queue S w = v3) (store_result S xid res)"
  unfolding store_result_def by (intro stays_intros)+

lemma stays_upload_named [stays_intros]:
  "stays (\<lambda>w. rows w = v1) (upload_logs S xid v)" "stays (\<lambda>w. sv_queue S w = v3) (upload_logs S xid v)"
  "stays (\<lambda>w. rows w = v1) (upload_variables S xid v)" "stays (\<lambda>w. sv_queue S w = v3) (upload_variables S xid v)"
  unfolding upload_logs_def upload_variables_def by (intro stays_intros)+

end

context available_cloud
begin

lemma stays_pubsub_ok [stays_intros]: "stays ok (sv_pubsub_client S)" "stays ok (sv_send_to_group S g v)"
  using pubsub_ok by (simp_all add: stays_def)

lemma stays_broadcasts_ok [stays_intros]:
  "stays ok (broadcast_execution_update S b xid st ls c)"
  "stays ok (broadcast_execution_to_history S b xid wn stv uid un sc sa ca ms)"
  unfolding broadcast_execution_update_def broadcast_execution_to_history_def if_connected_def
  by (intro stays_intros)+

lemma wp_broadcasts_ok:
  assumes "ok w" and "\<And>w'. ok w' \<Longrightarrow> rows w' = rows w \<Longrightarrow> Q () w'"
  shows "wp (broadcast_execution_update S b xid st ls c) Q R w"
    and "wp (broadcast_execution_to_history S b xid wn stv uid un sc sa ca ms) Q R w"
proof -
  have st: "stays (\<lambda>v. ok v \<and> rows v = rows w) (broadcast_execution_update S b xid st ls c)"
      "stays (\<lambda>v. ok v \<and> rows v = rows w) (broadcast_execution_to_history S b xid wn stv uid un sc sa ca ms)"
    by (intro stays_conj stays_broadcasts stays_broadcasts_ok)+
  show "wp (broadcast_execution_update S b xid st ls c) Q R w"
    unfolding broadcast_execution_update_def
    by (rule wp_mono [OF wp_if_connected [OF st(1) [unfolded broadcast_execution_update_def]]]) (use assms in simp_all)
  show "wp (broadcast_execution_to_history S b xid wn stv uid un sc sa ca ms) Q R w"
    unfolding broadcast_execution_to_history_def
    by (rule wp_mono [OF wp_if_connected [OF st(2) [unfolded broadcast_execution_to_history_def]]]) (use assms in simp_all)
qed

text \<open>
  Through the logger an execution moves from its status to the new one, or keeps its own when the
  call raises.
\<close>

lemma wp_store_result_ok:
  assumes "ok w"
  shows "wp (store_result S xid res) (\<lambda>_ w'. ok w' \<and> rows w' = rows w) (\<lambda>_ w'. ok w' \<and> rows w' = rows w) w"
  unfolding store_result_def
  by (auto simp: assms split: pyval.splits sum.splits intro!: wp_mono [OF wp_upload_result_ok [OF assms]])

lemma wp_log_update_execution:
  assumes "ok w" and "repo_table r = ''Entities''" and "no_quote xid" "no_quote (partition_of org)"
    and "in_status (rows w) (partition_of org) xid s"
  shows "wp (log_update_execution S r xid org uid st res err ms logs vars bc)
    (\<lambda>_ w'. ok w' \<and> in_status (rows w') (partition_of org) xid st)
    (\<lambda>_ w'. ok w' \<and> (\<exists>s' \<in> {s, st}. in_status (rows w') (partition_of org) xid s')) w"
proof -
  let ?same = "\<lambda>w'. ok w' \<and> rows w' = rows w"
  have raised: "ok w' \<and> (\<exists>s' \<in> {s, st}. in_status (rows w') (partition_of org) xid s')" if "?same w'" for w'
    using that assms(5) by auto
  have upl: "wp (if truthy v then py_then (f S xid v) (ret ()) else ret ()) (\<lambda>_. ?same) (\<lambda>_. ?same) w'"
    if "?same w'" "f = upload_logs \<or> f = upload_variables" for f v w'
    using that by (auto simp: upload_logs_def upload_variables_def intro!: wp_mono [OF wp_upload_json_ok])
  show ?thesis
    unfolding log_update_execution_def wp_bind wp_prod wp_then
  proof (rule wp_mono [OF wp_store_result_ok [OF assms(1)]], goal_cases)
    case (1 x w1)
    obtain inline in_blob where x: "x = (inline, in_blob)" by fastforce
    show ?case
      unfolding x prod.case
    proof (rule wp_mono [OF upl [OF 1]], simp, goal_cases)
      case (1 _ w2)
      show ?case
      proof (rule wp_mono [OF upl [OF 1]], simp, goal_cases)
        case (1 _ w3)
        have upd: "wp (update_execution (sv_env S) r xid org uid st inline err ms in_blob)
            (\<lambda>_ w'. ok w' \<and> in_status (rows w') (partition_of org) xid st)
            (\<lambda>_ w'. ok w' \<and> (\<exists>s' \<in> {s, st}. in_status (rows w') (partition_of org) xid s')) w3"
          using wp_conj [OF stays_wp [OF stays_update_execution [OF assms(3,4)]] wp_update_execution] 1 assms(2-5)
          by simp
        show ?case
        proof (rule wp_mono [OF upd], goal_cases)
          case (1 m w4)
          then show ?case
            by (cases bc) (auto intro!: wp_broadcasts_ok)
        qed simp
      next
        case (2 e w3)
        then show ?case by (rule raised)
      qed
    next
      case (2 e w2)
      then show ?case by (rule raised)
    qed
  next
    case (2 e w1)
    then show ?case by (rule raised)
  qed
qed

end

end
