(* ===== verification/Async_Executor.thy ===== *)
theory Async_Executor
  imports Execution_Logger Context
begin

text \<open>
  \<open>shared/async_executor.py\<close>: an execution is recorded as pending before its message goes to the queue
  the worker listens to.
\<close>

definition QUEUE_NAME :: string where
  "QUEUE_NAME = ''workflow-executions''"

text \<open>Entering the context manager of the queue client creates the queue; a failure is logged.\<close>

definition get_queue_client :: "'w services \<Rightarrow> ('w, unit) py" where
  "get_queue_client S = py_catch (sv_create_queue S QUEUE_NAME) (\<lambda>_. ret ())"

definition queue_message :: "exec_context \<Rightarrow> string \<Rightarrow> string \<Rightarrow> pyval \<Rightarrow> string option \<Rightarrow> string option \<Rightarrow> pyval" where
  "queue_message ctx xid workflow_name parameters form_id code_base64 =
     PDict [(''execution_id'', PStr xid), (''workflow_name'', PStr workflow_name),
            (''org_id'', of_opt (ctx_org_id ctx)), (''user_id'', PStr (ctx_user_id ctx)),
            (''user_name'', PStr (ctx_name ctx)), (''user_email'', PStr (ctx_email ctx)),
            (''parameters'', parameters), (''form_id'', of_opt form_id), (''code'', of_opt code_base64)]"

definition enqueue_workflow_execution :: "'w services \<Rightarrow> exec_context \<Rightarrow> string \<Rightarrow> pyval \<Rightarrow> string option
    \<Rightarrow> string option \<Rightarrow> ('w, string) py" where
  "enqueue_workflow_execution S ctx workflow_name parameters form_id code_base64 =
     py_bind (uuid4 (sv_env S)) (\<lambda>xid.
     let r = execution_repo None; bc = Some (make_broadcaster (sv_env S)) in
     py_then (log_create_execution S r xid (ctx_org_id ctx) (ctx_user_id ctx) (ctx_name ctx) workflow_name
        parameters form_id bc)
     (py_then (log_update_execution S r xid (ctx_org_id ctx) (ctx_user_id ctx) PENDING PNone None None PNone PNone bc)
     (py_then (get_queue_client S)
     (py_bind (lift (env_dumps (sv_env S) (queue_message ctx xid workflow_name parameters form_id code_base64))) (\<lambda>text.
      py_then (sv_send_message S QUEUE_NAME text) (ret xid))))))"

section \<open>The record before the message\<close>

text \<open>No row of the partition and no row of the status index carries the identifier.\<close>

definition fresh_execution :: "tables \<Rightarrow> string \<Rightarrow> string \<Rightarrow> bool" where
  "fresh_execution R p xid \<longleftrightarrow>
     (\<forall>k e. R ''Entities'' (p, k) = Some e \<longrightarrow> e ''ExecutionId'' \<noteq> Some (PStr xid))
     \<and> (\<forall>s. R ''Relationships'' (''GLOBAL'', status_index_key (status_value s) xid) = None)"

lemma status_key_not_index:
  "(''GLOBAL'', status_index_key (status_value s) xid) \<in> index_row_keys xid org uid wname fid \<Longrightarrow> s = RUNNING"
  by (cases s) (auto simp: index_row_keys_def user_index_key_def workflow_index_key_def form_index_key_def
      status_index_key_def split: if_splits)

lemma created_in_status:
  assumes "begun R p xid (index_row_keys xid org uid wname fid) R'" and "fresh_execution R p xid"
    and "\<forall>k \<in> index_row_keys xid org uid wname fid. \<exists>row. R' ''Relationships'' k = Some row"
  shows "in_status R' p xid RUNNING"
proof -
  obtain k row where k: "R ''Entities'' (p, k) = None" "row ''ExecutionId'' = Some (PStr xid)"
    "row ''Status'' = Some (PStr ''Running'')"
    and g: "grows ''Relationships'' (index_row_keys xid org uid wname fid)
      (put_row ''Entities'' (p, k) (Some row) R) R'"
    using assms(1) by (auto simp: begun_def)
  have ent: "R' ''Entities'' k' = put_row ''Entities'' (p, k) (Some row) R ''Entities'' k'" for k'
    using grows_frame [OF g, of "''Entities''"] by simp
  have "primary_row R' p xid RUNNING k"
    using k assms(2) by (auto simp: primary_row_def ent put_row_apply fresh_execution_def split: if_splits)
  moreover have "R' ''Relationships'' (''GLOBAL'', status_index_key (status_value s) xid) = None \<longleftrightarrow> s \<noteq> RUNNING" for s
  proof (cases "s = RUNNING")
    case True
    then show ?thesis using assms(3) by (force simp: index_row_keys_def)
  next
    case False
    then have "(''GLOBAL'', status_index_key (status_value s) xid) \<notin> index_row_keys xid org uid wname fid"
      using status_key_not_index by blast
    then show ?thesis
      using g assms(2) False by (simp add: grows_def put_row_apply fresh_execution_def)
  qed
  ultimately show ?thesis by (auto simp: in_status_def status_indexed_def active_statuses_def)
qed

context available_cloud
begin

lemma stays_entities [stays_intros]:
  "stays (\<lambda>w. sv_queue S w = v) (insert_entity (sv_env S) s e)"
  "stays (\<lambda>w. sv_queue S w = v) (update_entity (sv_env S) s e mode)"
  "stays (\<lambda>w. sv_queue S w = v) (get_entity (sv_env S) s p k)"
  "stays (\<lambda>w. sv_queue S w = v) (delete_entity (sv_env S) s p k)"
  "stays (\<lambda>w. sv_queue S w = v) (query_entities (sv_env S) s f sel)"
  "stays (\<lambda>w. sv_queue S w = v) (execution_entity_to_model (sv_env S) e)"
  unfolding insert_entity_def update_entity_def get_entity_def delete_entity_def execution_entity_to_model_def
    query_entities_def
  by (intro stays_intros)+

lemma stays_executions [stays_intros]:
  "stays (\<lambda>w. sv_queue S w = v) (create_execution (sv_env S) r xid org uid uname wname input fid)"
  "stays (\<lambda>w. sv_queue S w = v) (update_execution (sv_env S) r xid org uid st res err ms in_blob)"
  unfolding create_execution_def update_execution_def update_status_index_def repo_insert_def repo_update_def
    repo_query_def Let_def
  by (intro stays_intros; auto intro: stays_intros)+

lemma stays_logger [stays_intros]:
  "stays (\<lambda>w. sv_queue S w = v) (log_create_execution S r xid org uid uname wname input fid bc)"
  "stays (\<lambda>w. sv_queue S w = v) (log_update_execution S r xid org uid st res err ms logs vars bc)"
  unfolding log_create_execution_def log_update_execution_def by (intro stays_intros)+

lemma wp_log_create_execution:
  assumes "ok w" and "fresh_execution (rows w) (partition_of org) xid" and "repo_table r = ''Entities''"
  shows "wp (log_create_execution S r xid org uid uname wname input fid bc)
    (\<lambda>_ w'. ok w' \<and> in_status (rows w') (partition_of org) xid RUNNING) (\<lambda>_ _. True) w"
  unfolding log_create_execution_def wp_bind
proof (rule wp_mono [OF wp_conj [OF wp_create_execution [OF assms(3)] stays_wp [OF stays_create_execution assms(1)]]],
    goal_cases)
  case (1 m w1)
  then have "ok w1" "in_status (rows w1) (partition_of org) xid RUNNING"
    using created_in_status [OF _ assms(2)] by blast+
  then show ?case by (cases bc) (auto intro!: wp_broadcasts_ok)
qed simp

lemma wp_enqueue:
  assumes "ok w" and "fresh_execution (rows w) (partition_of (ctx_org_id ctx)) (fst (env_uuid4 (sv_env S) w))"
    and "no_quote (fst (env_uuid4 (sv_env S) w))" and "no_quote (partition_of (ctx_org_id ctx))"
  shows "wp (enqueue_workflow_execution S ctx wname params fid code)
    (\<lambda>xid w'. xid = fst (env_uuid4 (sv_env S) w) \<and> in_status (rows w') (partition_of (ctx_org_id ctx)) xid PENDING
       \<and> (\<exists>text. env_dumps (sv_env S) (queue_message ctx xid wname params fid code) = Inr text
            \<and> sv_queue S w' = (sv_queue S w)(QUEUE_NAME := sv_queue S w QUEUE_NAME @ [text])))
    (\<lambda>_ w'. sv_queue S w' = sv_queue S w) w"
proof -
  let ?x = "fst (env_uuid4 (sv_env S) w)" and ?q = "sv_queue S w"
  have uuid: "wp (uuid4 (sv_env S)) (\<lambda>x w'. x = ?x \<and> ok w' \<and> rows w' = rows w \<and> sv_queue S w' = ?q) (\<lambda>_ _. False) w"
    using stays_wp [OF stays_ok(2) assms(1)] stays_wp [OF stays_clock(2) refl, of w]
      stays_wp [of "\<lambda>w. sv_queue S w = ?q" "uuid4 (sv_env S)" w] stays_tables
    by (auto simp: wp_def uuid4_def split: prod.splits intro: stays_intros)
  show ?thesis
    unfolding enqueue_workflow_execution_def wp_bind Let_def
  proof (rule wp_mono [OF uuid], goal_cases)
    case (1 x w1)
    then have w1: "x = ?x" "ok w1" "rows w1 = rows w" "sv_queue S w1 = ?q" by simp_all
    have r: "repo_table (execution_repo None) = ''Entities''" by (simp add: execution_repo_def)
    show ?case
      unfolding wp_then
    proof (rule wp_mono [OF wp_conj [OF wp_log_create_execution stays_wp [OF stays_logger(1) w1(4)]]], goal_cases)
      case (4 m w2)
      then have w2: "ok w2" "in_status (rows w2) (partition_of (ctx_org_id ctx)) ?x RUNNING" "sv_queue S w2 = ?q"
        using w1(1) by simp_all
      show ?case
        unfolding w1(1)
      proof (rule wp_mono [OF wp_conj [OF wp_log_update_execution [OF w2(1) r assms(3,4) w2(2)]
            stays_wp [OF stays_logger(2) w2(3)]]], goal_cases)
        case (1 m w3)
        then have w3: "ok w3" "in_status (rows w3) (partition_of (ctx_org_id ctx)) ?x PENDING" "sv_queue S w3 = ?q"
          by simp_all
        have qc: "stays (\<lambda>w. ok w \<and> rows w = rows w3 \<and> sv_queue S w = ?q) (get_queue_client S)"
          unfolding get_queue_client_def
          by (intro stays_conj stays_intros) (auto intro: staysI queue_ok)
        have "wp (get_queue_client S) (\<lambda>_ w'. ok w' \<and> rows w' = rows w3 \<and> sv_queue S w' = ?q) (\<lambda>_ _. False) w3"
          using stays_wp [OF qc, of w3] w3 unfolding get_queue_client_def wp_catch by (auto elim!: wp_mono)
        then show ?case
        proof (rule wp_mono, goal_cases)
          case (1 _ w4)
          then have w4: "ok w4" "rows w4 = rows w3" "sv_queue S w4 = ?q" by simp_all
          show ?case
          proof (cases "env_dumps (sv_env S) (queue_message ctx ?x wname params fid code)")
            case (Inr t)
            have "stays (\<lambda>w. rows w = rows w3) (sv_send_message S QUEUE_NAME t)" by (intro stays_intros)
            from wp_conj [OF wp_conj [OF queue_ok(2) [OF w4(1)] send_law] stays_wp [OF this w4(2)]]
            have "wp (sv_send_message S QUEUE_NAME t)
                (\<lambda>_ w'. rows w' = rows w3 \<and> sv_queue S w' = ?q(QUEUE_NAME := ?q QUEUE_NAME @ [t])) (\<lambda>_ _. False) w4"
              unfolding w4(3) by (rule wp_mono) auto
            then show ?thesis
              unfolding Inr wp_bind wp_lift sum.case wp_then by (rule wp_mono) (use w3(2) Inr in auto)
          qed (use w4 in simp)
        qed simp
      qed simp
    qed (use w1 assms(2) r in simp_all)
  qed simp
qed

end

section \<open>Properties\<close>

text \<open>
  C20: while the services are available, an execution is recorded before it is queued. When the call
  answers, it answers the fresh identifier, the execution has the status \<open>Pending\<close> in its row and in the status
  index, and exactly one message, which carries the identifier, has been added to the worker's queue;
  when it raises, no message was sent.
\<close>

theorem enqueued_execution_recorded:
  assumes "available_cloud S ok" and "ok w"
    and "fresh_execution (env_rows (sv_env S) w) (partition_of (ctx_org_id ctx)) (fst (env_uuid4 (sv_env S) w))"
    and "no_quote (fst (env_uuid4 (sv_env S) w))" and "no_quote (partition_of (ctx_org_id ctx))"
    and "enqueue_workflow_execution S ctx wname params fid code w = (out, w')"
  shows "case out of
      Inl _ \<Rightarrow> sv_queue S w' = sv_queue S w
    | Inr xid \<Rightarrow> xid = fst (env_uuid4 (sv_env S) w)
        \<and> in_status (env_rows (sv_env S) w') (partition_of (ctx_org_id ctx)) xid PENDING
        \<and> (\<exists>text. env_dumps (sv_env S) (queue_message ctx xid wname params fid code) = Inr text
             \<and> sv_queue S w' = (sv_queue S w)(QUEUE_NAME := sv_queue S w QUEUE_NAME @ [text]))"
  using available_cloud.wp_enqueue [OF assms(1-5), of wname params fid code] assms(6)
  by (simp add: wp_def split: sum.splits)

definition ann :: exec_context where
  "ann = \<lparr>ctx_user_id = ''ann'', ctx_email = ''ann@acme.com'', ctx_name = ''Ann'', ctx_scope = ''acme'',
     ctx_organization = Some \<lparr>o_id = ''acme'', o_name = ''Acme'', o_is_active = PBool True\<rparr>,
     ctx_is_platform_admin = False, ctx_is_function_key = False, ctx_execution_id = ''r1'', ctx_config = Map.empty,
     ctx_integration_calls = []\<rparr>"

theorem enqueued_execution_recorded_witness:
  "\<exists>w'. enqueue_workflow_execution mem_cloud ann ''sync'' (PDict []) None None cloud_world = (Inr ''0'', w')
     \<and> in_status (mem_view w') ''acme'' ''0'' PENDING"
proof -
  let ?run = "enqueue_workflow_execution mem_cloud ann ''sync'' (PDict []) None None cloud_world"
  have "case ?run of (Inr x, _) \<Rightarrow> x = ''0'' | _ \<Rightarrow> False" by code_simp
  then obtain w' where run: "?run = (Inr ''0'', w')" by (auto split: prod.splits sum.splits)
  have id: "fst (env_uuid4 mem_env cloud_world) = ''0''"
    by code_simp
  have "fresh_execution (mem_view cloud_world) ''acme'' ''0''"
    by (simp add: fresh_execution_def mem_view_def cloud_world_def)
  then show ?thesis
    using enqueued_execution_recorded [OF mem_cloud.available_cloud_axioms _ _ _ _ run] run
    by (simp add: id ann_def ctx_org_id_def partition_of_def) (simp add: cloud_world_def)
qed

end
