(* ===== verification/Execution_Logs.thy ===== *)
theory Execution_Logs
  imports Execution_Logger
begin

text \<open>
  \<open>shared/repositories/execution_logs.py\<close>: one row per log line, in the partition of its execution,
  under a key made of the time and a number that separates the lines of one instant.
\<close>

definition logs_service :: table_service where
  "logs_service = \<lparr>svc_table = ''ExecutionLogs'', svc_context = None\<rparr>"

text \<open>\<open>f"{n:04d}"\<close> of a number that is not negative.\<close>

definition pad4 :: "nat \<Rightarrow> string" where
  "pad4 n = (let s = str_nat n in replicate (4 - length s) CHR ''0'' @ s)"

definition upper :: "string \<Rightarrow> string" where
  "upper s = map (\<lambda>c. if CHR ''a'' \<le> c \<and> c \<le> CHR ''z'' then char_of ((of_char c :: nat) - 32) else c) s"

definition get_next_sequence :: "'w services \<Rightarrow> string \<Rightarrow> string \<Rightarrow> ('w, nat) py" where
  "get_next_sequence S xid timestamp =
     (let key = xid @ '':'' @ timestamp in
      py_bind (py_read (sv_log_counters S)) (\<lambda>counters.
      py_then (py_modify (sv_set_log_counters S (counters(key := counters key + 1)))) (ret (counters key + 1))))"

definition log_row_key :: "string \<Rightarrow> nat \<Rightarrow> string" where
  "log_row_key timestamp_iso n = timestamp_iso @ ''-'' @ pad4 n"

definition append_log :: "'w services \<Rightarrow> string \<Rightarrow> string \<Rightarrow> string \<Rightarrow> string \<Rightarrow> ('w, entity) py" where
  "append_log S xid level message source =
     py_bind (utcnow (sv_env S)) (\<lambda>now.
     let timestamp_iso = env_isoformat (sv_env S) now @ ''Z'' in
     py_bind (get_next_sequence S xid timestamp_iso) (\<lambda>n.
     py_bind (uuid4 (sv_env S)) (\<lambda>log_id.
     let e = [''PartitionKey'' \<mapsto> PStr xid, ''RowKey'' \<mapsto> PStr (log_row_key timestamp_iso n),
              ''ExecutionLogId'' \<mapsto> PStr log_id, ''Timestamp'' \<mapsto> PStr timestamp_iso,
              ''Level'' \<mapsto> PStr (upper level), ''Message'' \<mapsto> PStr message, ''Source'' \<mapsto> PStr source,
              ''CreatedAt'' \<mapsto> PStr timestamp_iso]
     in py_then (sdk_upsert (sv_env S) ''ExecutionLogs'' e Merge) (ret e))))"

definition logs_filter :: "string \<Rightarrow> clause list" where
  "logs_filter xid = [(''PartitionKey'', OEq, OStr xid)]"

definition get_logs :: "'w env \<Rightarrow> string \<Rightarrow> string option \<Rightarrow> int \<Rightarrow> ('w, entity list) py" where
  "get_logs E xid since limit =
     py_bind (query_entities E logs_service
        (Some (odata (if opt_truthy since then logs_filter xid @ [(''RowKey'', OGt, OStr (str_or since []))]
                      else logs_filter xid))) None)
       (\<lambda>es. ret (py_take limit es))"

definition get_latest_logs :: "'w env \<Rightarrow> string \<Rightarrow> nat \<Rightarrow> ('w, entity list) py" where
  "get_latest_logs E xid n = py_bind (query_entities E logs_service (Some (odata (logs_filter xid))) None)
     (\<lambda>es. ret (if length es > n then (if n = 0 then es else last_items n es) else es))"

definition count_logs :: "'w env \<Rightarrow> string \<Rightarrow> ('w, nat) py" where
  "count_logs E xid = py_bind (query_entities E logs_service (Some (odata (logs_filter xid))) None)
     (\<lambda>es. ret (length es))"

end
