(* ===== verification/Variable_Capture.thy ===== *)
theory Variable_Capture
  imports Prelude "HOL-Library.AList"
begin

text \<open>
  The capture of variables in \<open>_execute_workflow_with_trace\<close> of \<open>shared/engine.py\<close>: the locals of the
  workflow's frames are copied with \<open>remove_circular_refs\<close>, so that they can be stored as JSON. Python
  objects are the cells of a heap, so that they can refer to each other in cycles; the identity of
  an object is its position.
\<close>

section \<open>Objects\<close>

text \<open>
  A key of a dictionary: a string, an integer, or a key JSON refuses, such as a tuple. JSON writes an
  integer key as its text; other numbers, booleans and \<open>None\<close> are written likewise and appear here as
  the string they become.
\<close>

datatype dict_key = KStr string | KInt int | KOther string

text \<open>\<open>OPrim\<close> is a value \<open>json.dumps\<close> can write, \<open>OOther\<close> one it cannot, by the name of its type.\<close>

datatype obj =
    OPrim pyval
  | ODict "(dict_key \<times> nat) list"
  | OList "nat list"
  | OTuple "nat list"
  | OSet "nat list"
  | OOther string
  | OCallable string
  | OModule

type_synonym heap = "obj list"

datatype cleaned =
    CPrim pyval
  | CDict "(dict_key \<times> cleaned) list"
  | CList "cleaned list"
  | CTuple "cleaned list"
  | CMarker string

definition circular_reference :: cleaned where
  "circular_reference = CMarker ''[Circular Reference]''"

fun type_name :: "obj \<Rightarrow> string" where
  "type_name (OOther t) = t"
| "type_name (OCallable t) = t"
| "type_name OModule = ''module''"
| "type_name _ = []"

text \<open>
  The set \<open>seen\<close> grows by an object of the heap with every level, which bounds the depth. An address
  outside of the heap does not occur.
\<close>

function remove_circular_refs :: "heap \<Rightarrow> nat set \<Rightarrow> nat \<Rightarrow> cleaned" where
  "remove_circular_refs h seen a =
     (if a \<in> seen then circular_reference
      else if length h \<le> a then CMarker []
      else (case h ! a of
         ODict kvs \<Rightarrow> CDict (map (\<lambda>(k, v). (k, remove_circular_refs h (insert a seen) v)) kvs)
       | OList vs \<Rightarrow> CList (map (\<lambda>v. remove_circular_refs h (insert a seen) v) vs)
       | OTuple vs \<Rightarrow> CTuple (map (\<lambda>v. remove_circular_refs h (insert a seen) v) vs)
       | OSet vs \<Rightarrow> CList (map (\<lambda>v. remove_circular_refs h (insert a seen) v) vs)
       | OPrim p \<Rightarrow> CPrim p
       | x \<Rightarrow> CMarker (''<'' @ type_name x @ ''>'')))"
  by pat_completeness auto

lemma unseen_decreases:
  "a \<notin> seen \<Longrightarrow> \<not> length h \<le> a \<Longrightarrow> card ({..<length h} - insert a seen) < card ({..<length h} - seen)"
  using card_Diff1_less [of "{..<length h} - seen" a] by (simp add: Diff_insert [of "{..<length h}"])

termination remove_circular_refs
  by (relation "measure (\<lambda>(h, seen, a). card ({..<length h} - seen))") (simp_all only: wf_measure in_measure prod.case unseen_decreases simp_thms)

declare remove_circular_refs.simps [simp del]

section \<open>Captured variables\<close>

text \<open>A local variable is kept unless it is private, a parameter, \<open>context\<close>, \<open>self\<close>, callable or a module.\<close>

definition capturable :: "heap \<Rightarrow> string list \<Rightarrow> string \<Rightarrow> nat \<Rightarrow> bool" where
  "capturable h params k a \<longleftrightarrow> \<not> startswith k ''_'' \<and> k \<notin> set params \<union> {''context'', ''self''}
     \<and> (case h ! a of OCallable t \<Rightarrow> False | OModule \<Rightarrow> False | _ \<Rightarrow> True)"

type_synonym captured = "(string \<times> cleaned) list"

primrec capture_variables :: "heap \<Rightarrow> string list \<Rightarrow> (string \<times> nat) list \<Rightarrow> captured \<Rightarrow> captured" where
  "capture_variables h params [] vars = vars"
| "capture_variables h params (l # locals) vars =
     capture_variables h params locals
       (case l of (k, a) \<Rightarrow>
          if capturable h params k a then AList.update k (remove_circular_refs h {} a) vars else vars)"

text \<open>What \<open>json.dumps\<close> makes of a captured value, whose keys it may refuse.\<close>

fun json_key :: "dict_key \<Rightarrow> string option" where
  "json_key (KStr s) = Some s"
| "json_key (KInt i) = Some (str_int i)"
| "json_key (KOther t) = None"

fun serializable :: "cleaned \<Rightarrow> bool" where
  "serializable (CPrim p) = True"
| "serializable (CDict kvs) = (\<forall>(k, v) \<in> set kvs. json_key k \<noteq> None \<and> serializable v)"
| "serializable (CList vs) = (\<forall>v \<in> set vs. serializable v)"
| "serializable (CTuple vs) = (\<forall>v \<in> set vs. serializable v)"
| "serializable (CMarker s) = True"

fun of_cleaned :: "cleaned \<Rightarrow> pyval" where
  "of_cleaned (CPrim p) = p"
| "of_cleaned (CDict kvs) =
     (if (\<forall>(k, v) \<in> set kvs. json_key k \<noteq> None)
      then PDict (map (\<lambda>(k, v). (the (json_key k), of_cleaned v)) kvs) else POther ''dict'')"
| "of_cleaned (CList vs) = PList (map of_cleaned vs)"
| "of_cleaned (CTuple vs) = PList (map of_cleaned vs)"
| "of_cleaned (CMarker s) = PStr s"

definition variables_value :: "captured \<Rightarrow> pyval" where
  "variables_value vars = PDict (map (\<lambda>(k, v). (k, of_cleaned v)) vars)"

section \<open>Which values can be stored\<close>

fun children :: "obj \<Rightarrow> nat set" where
  "children (ODict kvs) = snd ` set kvs"
| "children (OList vs) = set vs"
| "children (OTuple vs) = set vs"
| "children (OSet vs) = set vs"
| "children _ = {}"

definition refers :: "heap \<Rightarrow> (nat \<times> nat) set" where
  "refers h = {(a, b). a < length h \<and> b < length h \<and> b \<in> children (h ! a)}"

definition good_keys :: "heap \<Rightarrow> nat \<Rightarrow> bool" where
  "good_keys h a \<longleftrightarrow> (case h ! a of ODict kvs \<Rightarrow> \<forall>(k, v) \<in> set kvs. json_key k \<noteq> None | _ \<Rightarrow> True)"

definition outside :: "heap \<Rightarrow> nat set \<Rightarrow> (nat \<times> nat) set" where
  "outside h seen = refers h \<inter> (- seen) \<times> (- seen)"

text \<open>A path from \<open>a\<close> is cut behind its last visit of \<open>a\<close>.\<close>

lemma outside_cut:
  assumes "(a, b) \<in> (outside h seen)\<^sup>*"
  shows "b = a \<or> (\<exists>c. (a, c) \<in> outside h seen \<and> c \<noteq> a \<and> (c, b) \<in> (outside h (insert a seen))\<^sup>*)"
  using assms
proof (induction rule: rtrancl_induct)
  case (step b b')
  show ?case
  proof (cases "b' = a \<or> b = a")
    case True
    then show ?thesis using step.hyps(2) by auto
  next
    case False
    then obtain c where c: "(a, c) \<in> outside h seen" "c \<noteq> a" "(c, b) \<in> (outside h (insert a seen))\<^sup>*"
      using step.IH by blast
    have "(b, b') \<in> outside h (insert a seen)" using step.hyps(2) False by (auto simp: outside_def)
    then show ?thesis using c by (meson rtrancl.rtrancl_into_rtrancl)
  qed
qed simp

lemma outside_insert: "outside h (insert a seen) \<subseteq> outside h seen"
  by (auto simp: outside_def)

lemma outside_reach:
  assumes "a \<notin> seen"
  shows "(a, b) \<in> (outside h seen)\<^sup>*
    \<longleftrightarrow> b = a \<or> (\<exists>c. (a, c) \<in> refers h \<and> c \<notin> insert a seen \<and> (c, b) \<in> (outside h (insert a seen))\<^sup>*)"
proof
  assume "(a, b) \<in> (outside h seen)\<^sup>*"
  from outside_cut [OF this] show "b = a \<or> (\<exists>c. (a, c) \<in> refers h \<and> c \<notin> insert a seen \<and> (c, b) \<in> (outside h (insert a seen))\<^sup>*)"
    by (auto simp: outside_def)
next
  assume "b = a \<or> (\<exists>c. (a, c) \<in> refers h \<and> c \<notin> insert a seen \<and> (c, b) \<in> (outside h (insert a seen))\<^sup>*)"
  then show "(a, b) \<in> (outside h seen)\<^sup>*"
  proof
    assume "\<exists>c. (a, c) \<in> refers h \<and> c \<notin> insert a seen \<and> (c, b) \<in> (outside h (insert a seen))\<^sup>*"
    then obtain c where c: "(a, c) \<in> refers h" "c \<notin> insert a seen" "(c, b) \<in> (outside h (insert a seen))\<^sup>*" by blast
    have "(a, c) \<in> outside h seen" using c(1,2) assms by (simp add: outside_def)
    moreover have "(c, b) \<in> (outside h seen)\<^sup>*" using c(3) rtrancl_mono [OF outside_insert] by blast
    ultimately show ?thesis by (rule converse_rtrancl_into_rtrancl)
  qed simp
qed

lemma serializable_seen [simp]: "a \<in> seen \<Longrightarrow> serializable (remove_circular_refs h seen a)"
  by (simp add: remove_circular_refs.simps circular_reference_def)

lemma serializable_step:
  assumes "a \<notin> seen" and "a < length h"
  shows "serializable (remove_circular_refs h seen a)
    \<longleftrightarrow> good_keys h a \<and> (\<forall>c \<in> children (h ! a). serializable (remove_circular_refs h (insert a seen) c))"
  using assms
  by (subst remove_circular_refs.simps) (auto simp: good_keys_def split: obj.splits)

lemma serializable_reach:
  assumes "a \<notin> seen" and "a < length h"
  shows "serializable (remove_circular_refs h seen a) \<longleftrightarrow> (\<forall>b. (a, b) \<in> (outside h seen)\<^sup>* \<longrightarrow> good_keys h b)"
  using assms
proof (induction "card ({..<length h} - seen)" arbitrary: a seen rule: less_induct)
  case less
  have child: "serializable (remove_circular_refs h (insert a seen) c)
      \<longleftrightarrow> (c < length h \<and> c \<notin> insert a seen \<longrightarrow> (\<forall>b. (c, b) \<in> (outside h (insert a seen))\<^sup>* \<longrightarrow> good_keys h b))" for c
  proof (cases "c < length h \<and> c \<notin> insert a seen")
    case True
    then show ?thesis using less.hyps [OF unseen_decreases [of a seen h], of c] less.prems by simp
  next
    case False
    then show ?thesis by (auto simp: remove_circular_refs.simps [of h "insert a seen" c] circular_reference_def)
  qed
  show ?case
    unfolding serializable_step [OF less.prems] child outside_reach [OF less.prems(1)]
    using less.prems(2) by (auto simp: refers_def)
qed

lemma has_other_cleaned:
  assumes "\<And>p. OPrim p \<in> set h \<Longrightarrow> \<not> has_other p"
  shows "has_other (of_cleaned (remove_circular_refs h seen a)) \<longleftrightarrow> \<not> serializable (remove_circular_refs h seen a)"
proof (induction "card ({..<length h} - seen)" arbitrary: a seen rule: less_induct)
  case less
  show ?case
  proof (cases "a \<in> seen \<or> length h \<le> a")
    case False
    have IH: "has_other (of_cleaned (remove_circular_refs h (insert a seen) c))
        \<longleftrightarrow> \<not> serializable (remove_circular_refs h (insert a seen) c)" for c
      by (rule less.hyps) (rule unseen_decreases, use False in auto)
    have prim: "h ! a = OPrim p \<Longrightarrow> \<not> has_other p" for p
      using assms [of p] nth_mem [of a h] False by auto
    show ?thesis
      using False
      by (subst (1 2) remove_circular_refs.simps)
        (auto simp: IH prim list_ex_iff circular_reference_def split: obj.splits prod.splits)
  qed (auto simp: remove_circular_refs.simps [of h seen a] circular_reference_def)
qed

lemma outside_empty [simp]: "outside h {} = refers h"
  by (simp add: outside_def)

section \<open>Properties\<close>

text \<open>
  C22: copying a variable ends for every heap, also when objects refer to each other in cycles, and
  the copy can be written as JSON exactly when no dictionary that can be reached from it has a key
  that JSON refuses. (Keys are copied as they are, so a tuple used as a key
  anywhere below a local variable is not made serializable.)
\<close>

theorem captured_variable_storable:
  assumes "a < length h" and "\<And>p. OPrim p \<in> set h \<Longrightarrow> \<not> has_other p"
  shows "has_other (of_cleaned (remove_circular_refs h {} a))
    \<longleftrightarrow> (\<exists>b kvs k v. (a, b) \<in> (refers h)\<^sup>* \<and> h ! b = ODict kvs \<and> (k, v) \<in> set kvs \<and> json_key k = None)"
proof -
  have "\<not> good_keys h b \<longleftrightarrow> (\<exists>kvs k v. h ! b = ODict kvs \<and> (k, v) \<in> set kvs \<and> json_key k = None)" for b
    by (force simp: good_keys_def split: obj.splits)
  moreover have "serializable (remove_circular_refs h {} a) \<longleftrightarrow> (\<forall>b. (a, b) \<in> (refers h)\<^sup>* \<longrightarrow> good_keys h b)"
    using serializable_reach [of a "{}" h] assms(1) by simp
  moreover have "has_other (of_cleaned (remove_circular_refs h {} a)) \<longleftrightarrow> \<not> serializable (remove_circular_refs h {} a)"
    by (rule has_other_cleaned) (rule assms(2))
  ultimately show ?thesis by blast
qed

text \<open>A list that contains itself and a dictionary with a tuple as its key.\<close>

definition cyclic_heap :: heap where
  "cyclic_heap = [OList [0, 1], ODict [(KOther ''tuple'', 2)], OPrim (PInt 7)]"

theorem captured_variable_storable_witness:
  "(0, 0) \<in> refers cyclic_heap \<and> has_other (of_cleaned (remove_circular_refs cyclic_heap {} 0))"
proof -
  have "(0, 1) \<in> refers cyclic_heap" "(0, 0) \<in> refers cyclic_heap"
    by (simp_all add: refers_def cyclic_heap_def)
  moreover have "\<exists>b kvs k v. (0, b) \<in> (refers cyclic_heap)\<^sup>* \<and> cyclic_heap ! b = ODict kvs \<and> (k, v) \<in> set kvs
      \<and> json_key k = None"
    by (rule exI [of _ 1]) (use \<open>(0, 1) \<in> refers cyclic_heap\<close> in \<open>auto simp: cyclic_heap_def\<close>)
  ultimately show ?thesis
    using captured_variable_storable [of 0 cyclic_heap] by (auto simp: cyclic_heap_def)
qed

end
