(* ===== verification/Engine.thy ===== *)
theory Engine
  imports Execution_Logs Variable_Capture Context
begin

text \<open>
  \<open>shared/engine.py\<close>: one path for workflows, scripts and data providers. The user's code is a
  parameter: a program that logs, leaves frames whose locals are traced, changes the world, and
  returns or raises. What the engine does around it is modelled: the choice of the function, the
  cache, the split of the parameters, the log handler, the trace function, the wrapping of
  exceptions and the clean-up.
\<close>

section \<open>The user's code\<close>

record log_record =
  lr_level :: string
  lr_logger :: string
  lr_pathname :: string
  lr_message :: string

text \<open>
  An exception of user code: its class with the base class the engine asks for, and the frames of its
  traceback, outermost first, with their locals.
\<close>

datatype exn_kind = User_error | Workflow_error | Type_error | Other_error

record raised =
  rx_type :: string
  rx_kind :: exn_kind
  rx_message :: string
  rx_heap :: heap
  rx_frames :: "(string \<times> (string \<times> nat) list) list"

text \<open>\<open>Leaves_frame\<close> is a return or exception event of the trace function in a frame with this name.\<close>

datatype 'w user_code =
    Returns pyval
  | Raises raised
  | Logs log_record "'w user_code"
  | Leaves_frame string heap "(string \<times> nat) list" "'w user_code"
  | Runs "'w \<Rightarrow> 'w \<times> 'w user_code"

datatype annotation = No_annotation | Context_class | Text_annotation string | Other_annotation

record param =
  pa_name :: string
  pa_var_keyword :: bool
  pa_annotation :: annotation

text \<open>\<open>uf_call\<close> gets the positional context, if one is passed, and the keyword arguments.\<close>

record 'w user_function =
  uf_name :: string
  uf_file :: string
  uf_module :: string
  uf_params :: "param list"
  uf_call :: "exec_context option \<Rightarrow> (string \<times> pyval) list \<Rightarrow> 'w user_code"

text \<open>
  What the engine finds outside: the services, the cache of data providers, the globals of modules,
  the context variable of the SDK, hashing, the compiler for scripts and the text of a traceback.
  \<open>en_path\<close> is the path of the engine's own source file, as log records carry it.
\<close>

record 'w engine_env =
  en_services :: "'w services"
  en_cache :: "'w \<Rightarrow> string \<rightharpoonup> pyval \<times> datetime"
  en_set_cache :: "(string \<rightharpoonup> pyval \<times> datetime) \<Rightarrow> 'w \<Rightarrow> 'w"
  en_globals :: "'w \<Rightarrow> string \<Rightarrow> entity"
  en_set_globals :: "string \<Rightarrow> entity \<Rightarrow> 'w \<Rightarrow> 'w"
  en_context :: "'w \<Rightarrow> exec_context option"
  en_set_context :: "exec_context option \<Rightarrow> 'w \<Rightarrow> 'w"
  en_sha256 :: "string \<Rightarrow> string"
  en_dumps_sorted :: "pyval \<Rightarrow> exn + string"
  en_compile :: "string \<Rightarrow> string \<Rightarrow> raised + (exec_context \<Rightarrow> (string \<times> pyval) list \<Rightarrow> 'w user_code)"
  en_format_exception :: "raised \<Rightarrow> string"
  en_path :: string

abbreviation en_env :: "'w engine_env \<Rightarrow> 'w env" where
  "en_env X \<equiv> sv_env (en_services X)"

section \<open>Requests and results\<close>

record 'w exec_request =
  er_execution_id :: string
  er_caller :: caller
  er_organization :: "organization option"
  er_config :: entity
  er_func :: "'w user_function option"
  er_code :: "string option"
  er_name :: "string option"
  er_tags :: "string list"
  er_timeout_seconds :: int
  er_cache_ttl_seconds :: int
  er_parameters :: "(string \<times> pyval) list"
  er_transient :: bool
  er_no_cache :: bool
  er_is_platform_admin :: bool
  er_broadcaster :: "broadcaster option"

record exec_result =
  xr_execution_id :: string
  xr_status :: execution_status
  xr_result :: pyval
  xr_duration_ms :: int
  xr_logs :: "pyval list"
  xr_variables :: "captured option"
  xr_integration_calls :: "entity list"
  xr_error_message :: "string option"
  xr_error_type :: "string option"
  xr_cached :: bool
  xr_cache_expires_at :: "string option"

section \<open>The cache of data providers\<close>

definition compute_cache_key :: "'w engine_env \<Rightarrow> string \<Rightarrow> (string \<times> pyval) list \<Rightarrow> string option \<Rightarrow> exn + string" where
  "compute_cache_key X name parameters org_id =
     (let pre = (if opt_truthy org_id then str_or org_id [] @ '':'' else []) in
      if parameters = [] then Inr (pre @ name)
      else (case en_dumps_sorted X (PDict parameters) of
          Inl x \<Rightarrow> Inl x
        | Inr text \<Rightarrow> Inr (pre @ name @ '':'' @ take 16 (en_sha256 X text))))"

definition dt_micros :: "datetime \<Rightarrow> int" where
  "dt_micros d = (case d of Naive i \<Rightarrow> i | Aware i z \<Rightarrow> i)"

text \<open>\<open>datetime.utcnow() < expires_at\<close> of two values of this clock.\<close>

definition check_cache :: "'w engine_env \<Rightarrow> string \<Rightarrow> ('w, (pyval \<times> datetime) option) py" where
  "check_cache X key = py_bind (py_read (en_cache X)) (\<lambda>cache. case cache key of
     None \<Rightarrow> ret None
   | Some (v, expires_at) \<Rightarrow> py_bind (utcnow (en_env X)) (\<lambda>now.
       if dt_micros now < dt_micros expires_at then ret (Some (v, expires_at))
       else py_then (py_modify (\<lambda>w. en_set_cache X ((en_cache X w)(key := None)) w)) (ret None)))"

definition cache_result :: "'w engine_env \<Rightarrow> string \<Rightarrow> pyval \<Rightarrow> int \<Rightarrow> ('w, datetime) py" where
  "cache_result X key v ttl_seconds = py_bind (utcnow (en_env X)) (\<lambda>now.
     let expires_at = dt_add now (ttl_seconds * 1000000) in
     py_then (py_modify (\<lambda>w. en_set_cache X ((en_cache X w)(key \<mapsto> (v, expires_at))) w)) (ret expires_at))"

text \<open>\<open>int((b - a).total_seconds() * 1000)\<close>, which cuts off towards zero.\<close>

definition ms_between :: "datetime \<Rightarrow> datetime \<Rightarrow> int" where
  "ms_between a b = (let d = dt_micros b - dt_micros a in if d < 0 then - ((- d) div 1000) else d div 1000)"

definition build_cached_result :: "'w engine_env \<Rightarrow> string \<Rightarrow> pyval \<times> datetime \<Rightarrow> datetime \<Rightarrow> ('w, exec_result) py" where
  "build_cached_result X xid entry start_time = py_bind (utcnow (en_env X)) (\<lambda>end_time.
     ret \<lparr>xr_execution_id = xid, xr_status = SUCCESS, xr_result = fst entry,
          xr_duration_ms = ms_between start_time end_time, xr_logs = [], xr_variables = None,
          xr_integration_calls = [], xr_error_message = None, xr_error_type = None, xr_cached = True,
          xr_cache_expires_at = Some (env_isoformat (en_env X) (snd entry) @ ''Z'')\<rparr>)"

section \<open>Logging and tracing\<close>

definition basename :: "string \<Rightarrow> string" where
  "basename path = rev (takeWhile (\<lambda>c. c \<noteq> CHR ''/'') (rev path))"

definition kept_record :: "string \<Rightarrow> log_record \<Rightarrow> bool" where
  "kept_record workflow_file r \<longleftrightarrow> lr_level r = ''TRACEBACK'' \<or> startswith (lr_logger r) ''script.''
     \<or> basename (lr_pathname r) = basename workflow_file
     \<or> str_in ''workspace'' (lr_pathname r) \<or> str_in ''/repo/'' (lr_pathname r)"

record capture =
  cp_vars :: captured
  cp_logs :: "string list"
  cp_sequence :: int

text \<open>What stays fixed while one function runs.\<close>

record 'w run_info =
  ri_function :: "'w user_function"
  ri_parameters :: "(string \<times> pyval) list"
  ri_user_id :: string
  ri_execution_id :: string
  ri_broadcaster :: "broadcaster option"

text \<open>
  \<open>WorkflowLogHandler.emit\<close>: a record of the workflow is kept, stored at once and broadcast. The
  broadcast runs in a thread of its own; here it follows the record it belongs to.
\<close>

definition emit :: "'w engine_env \<Rightarrow> 'w run_info \<Rightarrow> log_record \<Rightarrow> capture \<Rightarrow> ('w, capture) py" where
  "emit X I r cp =
     (if \<not> kept_record (uf_file (ri_function I)) r then ret cp
      else let cp1 = cp\<lparr>cp_logs := cp_logs cp @ [''['' @ lr_level r @ ''] '' @ lr_message r]\<rparr> in
        case ri_broadcaster I of None \<Rightarrow> ret cp1
        | Some b \<Rightarrow> if ri_execution_id I = [] then ret cp1 else
          py_bind (uuid4 (en_env X)) (\<lambda>log_id.
          py_bind (utcnow (en_env X)) (\<lambda>now.
          let n = cp_sequence cp1 + 1;
              log_dict = PDict [(''executionLogId'', PStr log_id), (''level'', PStr (lr_level r)),
                (''message'', PStr (lr_message r)), (''timestamp'', PStr (env_isoformat (en_env X) now @ ''Z'')),
                (''sequence'', PInt n)]
          in py_then
               (py_catch (py_then (append_log (en_services X) (ri_execution_id I) (lr_level r) (lr_message r) ''workflow'')
                    (broadcast_execution_update (en_services X) b (ri_execution_id I) ''Running'' (Some [log_dict]) False))
                  (\<lambda>_. ret ()))
               (ret (cp1\<lparr>cp_sequence := n\<rparr>)))))"

definition traced_frame :: "'w run_info \<Rightarrow> string \<Rightarrow> bool" where
  "traced_frame I co_name \<longleftrightarrow> co_name = uf_name (ri_function I) \<or> co_name = ''main''"

definition capture_frame :: "'w run_info \<Rightarrow> heap \<Rightarrow> (string \<times> nat) list \<Rightarrow> capture \<Rightarrow> capture" where
  "capture_frame I h locals cp =
     cp\<lparr>cp_vars := capture_variables h (map fst (ri_parameters I)) locals (cp_vars cp)\<rparr>"

primrec run_code :: "'w engine_env \<Rightarrow> 'w run_info \<Rightarrow> 'w user_code \<Rightarrow> capture
    \<Rightarrow> ('w, (raised + pyval) \<times> capture) py" where
  "run_code X I (Returns v) = (\<lambda>cp. ret (Inr v, cp))"
| "run_code X I (Raises r) = (\<lambda>cp. ret (Inl r, cp))"
| "run_code X I (Logs r k) = (\<lambda>cp. py_bind (emit X I r cp) (run_code X I k))"
| "run_code X I (Leaves_frame f h locals k) = (\<lambda>cp.
     run_code X I k (if traced_frame I f then capture_frame I h locals cp else cp))"
| "run_code X I (Runs f) = (\<lambda>cp w. case (map_prod id (run_code X I) \<circ> f) w of (w', m) \<Rightarrow> m cp w')"

section \<open>Calling the function\<close>

definition has_var_keyword :: "'w user_function \<Rightarrow> bool" where
  "has_var_keyword f \<longleftrightarrow> list_ex pa_var_keyword (uf_params f)"

definition accepted_params :: "'w user_function \<Rightarrow> (string \<times> pyval) list \<Rightarrow> (string \<times> pyval) list" where
  "accepted_params f ps = (if has_var_keyword f then ps
     else filter (\<lambda>(k, _). k \<in> pa_name ` set (uf_params f)) ps)"

definition extra_params :: "'w user_function \<Rightarrow> (string \<times> pyval) list \<Rightarrow> (string \<times> pyval) list" where
  "extra_params f ps = (if has_var_keyword f then []
     else filter (\<lambda>(k, _). k \<notin> pa_name ` set (uf_params f)) ps)"

definition first_param_is_context :: "'w user_function \<Rightarrow> bool" where
  "first_param_is_context f = (case uf_params f of [] \<Rightarrow> False
     | p # _ \<Rightarrow> (case pa_annotation p of Context_class \<Rightarrow> True | Text_annotation t \<Rightarrow> str_in ''ExecutionContext'' t
                 | _ \<Rightarrow> False) \<or> pa_name p = ''context'')"

definition multiple_values :: string where
  "multiple_values = ''got multiple values for argument''"

text \<open>The call itself: a positional context whose name is also given as a keyword is a \<open>TypeError\<close>.\<close>

definition call_function :: "'w user_function \<Rightarrow> exec_context \<Rightarrow> (string \<times> pyval) list \<Rightarrow> 'w user_code" where
  "call_function f ctx args =
     (if first_param_is_context f then
        (case uf_params f of p # _ \<Rightarrow>
           if \<not> pa_var_keyword p \<and> pa_name p \<in> fst ` set args
           then Raises \<lparr>rx_type = ''TypeError'', rx_kind = Type_error,
              rx_message = uf_name f @ ''() '' @ multiple_values @ '' '' @ quote @ pa_name p @ quote,
              rx_heap = [], rx_frames = []\<rparr>
           else uf_call f (Some ctx) args
         | [] \<Rightarrow> uf_call f (Some ctx) args)
      else uf_call f None args)"

text \<open>Extra parameters become globals of the function's module, and are removed from them afterwards.\<close>

definition inject_globals :: "'w engine_env \<Rightarrow> string \<Rightarrow> (string \<times> pyval) list \<Rightarrow> ('w, unit) py" where
  "inject_globals X m ps = py_modify (\<lambda>w. if ps = [] then w
     else en_set_globals X m (foldl (\<lambda>g (k, v). g(k \<mapsto> v)) (en_globals X w m) ps) w)"

definition remove_globals :: "'w engine_env \<Rightarrow> string \<Rightarrow> (string \<times> pyval) list \<Rightarrow> ('w, unit) py" where
  "remove_globals X m ps = py_modify (\<lambda>w. if ps = [] then w
     else en_set_globals X m (foldl (\<lambda>g (k, _). g(k := None)) (en_globals X w m) ps) w)"

definition capture_extra :: "(string \<times> pyval) list \<Rightarrow> captured" where
  "capture_extra ps = foldl (\<lambda>vars (k, v). AList.update k (CPrim v) vars) [] ps"

text \<open>
  How the traced call ends: with a result, with the exception wrapped in a
  \<open>WorkflowExecutionException\<close> that carries variables and logs, or with the bare exception.
\<close>

datatype trace_end =
    Traced pyval captured "string list"
  | Wrapped raised captured "string list"
  | Bare raised

text \<open>A record the engine writes about the workflow, with its own file as the origin.\<close>

definition engine_record :: "'w engine_env \<Rightarrow> 'w run_info \<Rightarrow> string \<Rightarrow> string \<Rightarrow> log_record" where
  "engine_record X I level message = \<lparr>lr_level = level, lr_logger = uf_module (ri_function I),
     lr_pathname = en_path X, lr_message = message\<rparr>"

definition text_lines :: "string \<Rightarrow> string list" where
  "text_lines s = filter (\<lambda>l. strip l \<noteq> []) (split_all (CHR 0x0A) s)"

primrec emit_all :: "'w engine_env \<Rightarrow> 'w run_info \<Rightarrow> log_record list \<Rightarrow> capture \<Rightarrow> ('w, capture) py" where
  "emit_all X I [] cp = ret cp"
| "emit_all X I (r # rs) cp = py_bind (emit X I r cp) (emit_all X I rs)"

text \<open>The first frame of the traceback that belongs to the function gives the last variables.\<close>

definition capture_traceback :: "'w run_info \<Rightarrow> raised \<Rightarrow> capture \<Rightarrow> capture" where
  "capture_traceback I x cp = (case find (\<lambda>(f, _). traced_frame I f) (rx_frames x) of
     None \<Rightarrow> cp | Some (_, locals) \<Rightarrow> capture_frame I (rx_heap x) locals cp)"

definition error_records :: "'w engine_env \<Rightarrow> 'w run_info \<Rightarrow> raised \<Rightarrow> log_record list" where
  "error_records X I x =
     (if rx_kind x = User_error then [engine_record X I ''ERROR'' (rx_message x)]
      else engine_record X I ''ERROR'' ''An error occurred during execution''
        # map (engine_record X I ''TRACEBACK'') (text_lines (en_format_exception X x)))"

definition missing_context_message :: "string \<Rightarrow> string" where
  "missing_context_message name = ''Workflow function '' @ quote @ name @ quote @ '' is missing the ''
     @ quote @ ''context'' @ quote @ '' parameter.''"

definition handle_raised :: "'w engine_env \<Rightarrow> 'w run_info \<Rightarrow> raised \<Rightarrow> capture \<Rightarrow> ('w, trace_end) py" where
  "handle_raised X I x cp =
     (if rx_kind x = Type_error then
        (if str_in multiple_values (rx_message x) then
           py_bind (emit X I (engine_record X I ''ERROR'' (missing_context_message (uf_name (ri_function I)))) cp)
             (\<lambda>cp'. ret (Wrapped x [] (cp_logs cp')))
         else ret (Bare x))
      else py_bind (emit_all X I (error_records X I x) (capture_traceback I x cp))
        (\<lambda>cp'. ret (Wrapped x (cp_vars cp') (cp_logs cp'))))"

definition execute_workflow_with_trace :: "'w engine_env \<Rightarrow> 'w run_info \<Rightarrow> exec_context \<Rightarrow> ('w, trace_end) py" where
  "execute_workflow_with_trace X I ctx =
     (let f = ri_function I; ps = ri_parameters I; extra = extra_params f ps in
      py_finally
        (py_then (inject_globals X (uf_module f) extra)
        (py_bind (run_code X I (call_function f ctx (accepted_params f ps))
            \<lparr>cp_vars = capture_extra extra, cp_logs = [], cp_sequence = 0\<rparr>) (\<lambda>(out, cp).
         case out of Inr v \<Rightarrow> ret (Traced v (cp_vars cp) (cp_logs cp)) | Inl x \<Rightarrow> handle_raised X I x cp)))
        (remove_globals X (uf_module f) extra))"

section \<open>Scripts\<close>

primrec ends_with :: "pyval \<Rightarrow> 'w user_code \<Rightarrow> 'w user_code" where
  "ends_with v (Returns u) = Returns v"
| "ends_with v (Raises x) = Raises x"
| "ends_with v (Logs r k) = Logs r (ends_with v k)"
| "ends_with v (Leaves_frame f h locals k) = Leaves_frame f h locals (ends_with v k)"
| "ends_with v (Runs f) = Runs (map_prod id (ends_with v) \<circ> f)"

definition script_completed :: pyval where
  "script_completed = PDict [(''status'', PStr ''completed''), (''message'', PStr ''Script executed successfully'')]"

definition script_exn :: "exn \<Rightarrow> raised" where
  "script_exn e = \<lparr>rx_type = ''Error'', rx_kind = Other_error, rx_message = exn_msg e, rx_heap = [], rx_frames = []\<rparr>"

text \<open>
  The wrapper is defined in the engine's own file, and takes the context and any keyword. Compiling
  may raise; the wrapper runs the compiled code, whose own result is dropped.
\<close>

definition script_to_callable :: "'w engine_env \<Rightarrow> string \<Rightarrow> string \<Rightarrow> raised + 'w user_function" where
  "script_to_callable X code name = (case env_b64decode (en_env X) code of
     Inl e \<Rightarrow> Inl (script_exn e)
   | Inr script_code \<Rightarrow> (case en_compile X script_code name of
       Inl x \<Rightarrow> Inl x
     | Inr main \<Rightarrow> Inr \<lparr>uf_name = name, uf_file = en_path X, uf_module = ''<script:'' @ name @ ''>'',
         uf_params = [\<lparr>pa_name = ''context'', pa_var_keyword = False, pa_annotation = Context_class\<rparr>,
                      \<lparr>pa_name = ''parameters'', pa_var_keyword = True, pa_annotation = No_annotation\<rparr>],
         uf_call = (\<lambda>ctx args. case ctx of None \<Rightarrow> Returns script_completed
                      | Some c \<Rightarrow> ends_with script_completed (main c args))\<rparr>))"

section \<open>Execution\<close>

definition make_context :: "'w exec_request \<Rightarrow> exec_context" where
  "make_context q = \<lparr>ctx_user_id = caller_user_id (er_caller q), ctx_email = caller_email (er_caller q),
     ctx_name = caller_name (er_caller q),
     ctx_scope = (case er_organization q of None \<Rightarrow> ''GLOBAL'' | Some o' \<Rightarrow> o_id o'),
     ctx_organization = er_organization q, ctx_is_platform_admin = er_is_platform_admin q,
     ctx_is_function_key = False, ctx_execution_id = er_execution_id q, ctx_config = er_config q,
     ctx_integration_calls = []\<rparr>"

definition org_id_of :: "'w exec_request \<Rightarrow> string option" where
  "org_id_of q = map_option o_id (er_organization q)"

definition source_of :: "'w exec_request \<Rightarrow> string" where
  "source_of q = (if opt_truthy (er_code q) then ''script'' else ''workflow'')"

text \<open>The level and the message of a captured line.\<close>

definition after_bracket :: "string \<Rightarrow> string" where
  "after_bracket line = strip (tl (dropWhile (\<lambda>c. c \<noteq> CHR '']'') line))"

definition parse_log_line :: "string \<Rightarrow> string \<times> string" where
  "parse_log_line line =
     (if startswith line ''[INFO]'' then (''info'', strip (drop 6 line))
      else if startswith line ''[WARNING]'' \<or> startswith line ''[WARN]'' then (''warning'', after_bracket line)
      else if startswith line ''[ERROR]'' then (''error'', strip (drop 7 line))
      else if startswith line ''[DEBUG]'' then (''debug'', strip (drop 7 line))
      else (''info'', line))"

definition parse_traced_line :: "string \<Rightarrow> string \<times> string" where
  "parse_traced_line line = (if startswith line ''[TRACEBACK]'' then (''traceback'', strip (drop 11 line))
     else parse_log_line line)"

definition log_entry :: "'w engine_env \<Rightarrow> string \<Rightarrow> string \<times> string \<Rightarrow> ('w, pyval) py" where
  "log_entry X source lm = py_bind (utcnow (en_env X)) (\<lambda>now.
     ret (PDict [(''timestamp'', PStr (env_isoformat (en_env X) now)), (''level'', PStr (fst lm)),
                 (''message'', PStr (snd lm)), (''source'', PStr source)]))"

definition log_entries :: "'w engine_env \<Rightarrow> string \<Rightarrow> (string \<times> string) list \<Rightarrow> ('w, pyval list) py" where
  "log_entries X source = py_map (log_entry X source)"

text \<open>What the result says of an exception.\<close>

definition exception_lines :: "'w engine_env \<Rightarrow> 'w exec_request \<Rightarrow> string \<Rightarrow> string \<Rightarrow> raised \<Rightarrow> (string \<times> string) list" where
  "exception_lines X q title dflt x =
     map (Pair ''error'') ((title @ '': '' @ str_or (er_name q) dflt) # text_lines (en_format_exception X x))"

definition integration_calls :: "'w engine_env \<Rightarrow> ('w, entity list) py" where
  "integration_calls X = py_read (\<lambda>w. case en_context X w of None \<Rightarrow> [] | Some c \<Rightarrow> ctx_integration_calls c)"

definition failed_result :: "'w engine_env \<Rightarrow> 'w exec_request \<Rightarrow> datetime \<Rightarrow> (datetime \<Rightarrow> ('w, pyval list) py)
    \<Rightarrow> captured \<Rightarrow> raised \<Rightarrow> ('w, exec_result) py" where
  "failed_result X q start_time make_logs vars x =
     py_bind (utcnow (en_env X)) (\<lambda>end_time.
     py_bind (make_logs end_time) (\<lambda>logs.
     py_bind (integration_calls X) (\<lambda>calls.
     ret \<lparr>xr_execution_id = er_execution_id q, xr_status = FAILED, xr_result = PNone,
          xr_duration_ms = ms_between start_time end_time, xr_logs = logs, xr_variables = Some vars,
          xr_integration_calls = calls, xr_error_message = Some (rx_message x), xr_error_type = Some (rx_type x),
          xr_cached = False, xr_cache_expires_at = None\<rparr>)))"

text \<open>\<open>except WorkflowExecutionException\<close>.\<close>

definition wrapped_result :: "'w engine_env \<Rightarrow> 'w exec_request \<Rightarrow> datetime \<Rightarrow> raised \<Rightarrow> captured \<Rightarrow> string list
    \<Rightarrow> ('w, exec_result) py" where
  "wrapped_result X q start_time x vars logs = failed_result X q start_time (\<lambda>_.
     log_entries X ''workflow'' (map parse_log_line logs
       @ (if rx_kind x = User_error then [(''error'', rx_message x)]
          else exception_lines X q ''Execution error'' ''workflow'' x))) vars x"

text \<open>\<open>except WorkflowError\<close> and \<open>except Exception\<close>: nothing that was captured is known here.\<close>

definition bare_result :: "'w engine_env \<Rightarrow> 'w exec_request \<Rightarrow> datetime \<Rightarrow> raised \<Rightarrow> ('w, exec_result) py" where
  "bare_result X q start_time x = failed_result X q start_time (\<lambda>_.
     if rx_kind x = Workflow_error
     then log_entries X ''workflow'' (exception_lines X q ''Workflow error'' ''workflow'' x)
     else log_entries X (source_of q)
       (if rx_kind x = User_error then [(''error'', rx_message x)]
        else exception_lines X q ''Execution error'' ''script'' x)) [] x"

definition result_status :: "pyval \<Rightarrow> execution_status" where
  "result_status v = (case v of
     PDict kvs \<Rightarrow> if map_of kvs ''success'' = Some (PBool False) then COMPLETED_WITH_ERRORS else SUCCESS
   | _ \<Rightarrow> SUCCESS)"

definition finished_result :: "'w engine_env \<Rightarrow> 'w exec_request \<Rightarrow> datetime \<Rightarrow> pyval \<Rightarrow> captured \<Rightarrow> string list
    \<Rightarrow> string option \<Rightarrow> ('w, exec_result) py" where
  "finished_result X q start_time v vars logs expires =
     py_bind (log_entries X (if er_func q = None then ''script'' else ''workflow'') (map parse_traced_line logs)) (\<lambda>entries.
     py_bind (utcnow (en_env X)) (\<lambda>end_time.
     py_bind (integration_calls X) (\<lambda>calls.
     ret \<lparr>xr_execution_id = er_execution_id q, xr_status = result_status v, xr_result = v,
          xr_duration_ms = ms_between start_time end_time, xr_logs = entries, xr_variables = Some vars,
          xr_integration_calls = calls, xr_error_message = None, xr_error_type = None,
          xr_cached = False, xr_cache_expires_at = expires\<rparr>)))"

definition is_data_provider :: "'w exec_request \<Rightarrow> bool" where
  "is_data_provider q \<longleftrightarrow> ''data_provider'' \<in> set (er_tags q)"

definition cache_key_of :: "'w engine_env \<Rightarrow> 'w exec_request \<Rightarrow> exn + string" where
  "cache_key_of X q = compute_cache_key X (str_or (er_name q) []) (er_parameters q) (org_id_of q)"

text \<open>The valid entry of the cache, for a data provider that may use it.\<close>

definition cached_entry :: "'w engine_env \<Rightarrow> 'w exec_request \<Rightarrow> ('w, (pyval \<times> datetime) option) py" where
  "cached_entry X q = (if is_data_provider q \<and> \<not> er_no_cache q
     then py_bind (lift (cache_key_of X q)) (check_cache X) else ret None)"

definition cache_expiry :: "'w engine_env \<Rightarrow> 'w exec_request \<Rightarrow> pyval \<Rightarrow> ('w, string option) py" where
  "cache_expiry X q v = (if is_data_provider q
     then py_bind (lift (cache_key_of X q)) (\<lambda>key. py_bind (cache_result X key v (er_cache_ttl_seconds q))
       (\<lambda>d. ret (Some (env_isoformat (en_env X) d @ ''Z''))))
     else ret None)"

definition function_of :: "'w engine_env \<Rightarrow> 'w exec_request \<Rightarrow> raised + 'w user_function" where
  "function_of X q = (case er_func q of Some f \<Rightarrow> Inr f
     | None \<Rightarrow> script_to_callable X (str_or (er_code q) []) (str_or (er_name q) ''script''))"

definition run_info_of :: "'w exec_request \<Rightarrow> 'w user_function \<Rightarrow> 'w run_info" where
  "run_info_of q f = \<lparr>ri_function = f, ri_parameters = er_parameters q, ri_user_id = caller_user_id (er_caller q),
     ri_execution_id = er_execution_id q, ri_broadcaster = er_broadcaster q\<rparr>"

text \<open>The body of the \<open>try\<close>, with its handlers.\<close>

definition execute_body :: "'w engine_env \<Rightarrow> 'w exec_request \<Rightarrow> datetime \<Rightarrow> ('w, exec_result) py" where
  "execute_body X q start_time = py_catch
     (py_bind (cached_entry X q) (\<lambda>cached. case cached of
        Some e \<Rightarrow> build_cached_result X (er_execution_id q) e start_time
      | None \<Rightarrow> (case function_of X q of
          Inl x \<Rightarrow> bare_result X q start_time x
        | Inr f \<Rightarrow> py_bind (execute_workflow_with_trace X (run_info_of q f) (make_context q)) (\<lambda>r. case r of
            Traced v vars logs \<Rightarrow> py_bind (cache_expiry X q v) (finished_result X q start_time v vars logs)
          | Wrapped x vars logs \<Rightarrow> wrapped_result X q start_time x vars logs
          | Bare x \<Rightarrow> bare_result X q start_time x))))
     (\<lambda>e. bare_result X q start_time (script_exn e))"

definition execute :: "'w engine_env \<Rightarrow> 'w exec_request \<Rightarrow> ('w, exec_result) py" where
  "execute X q = py_bind (utcnow (en_env X)) (\<lambda>start_time.
     if er_func q \<noteq> None \<and> opt_truthy (er_code q)
     then raise (ValueError ''Cannot provide both func and code - they are mutually exclusive'')
     else if er_func q = None \<and> \<not> opt_truthy (er_code q)
     then raise (ValueError ''Must provide either func or code'')
     else py_then (py_modify (en_set_context X (Some (make_context q))))
       (py_finally (execute_body X q start_time) (py_modify (en_set_context X None))))"

section \<open>The engine answers\<close>

lemma wp_clock: "(\<And>d w'. Q d w') \<Longrightarrow> wp (utcnow E) Q R w"
  by (simp add: wp_def utcnow_def split: prod.splits)

lemma wp_uuid: "(\<And>s w'. Q s w') \<Longrightarrow> wp (uuid4 E) Q R w"
  by (simp add: wp_def uuid4_def split: prod.splits)

lemma wp_caught: "(\<And>w'. Q () w') \<Longrightarrow> wp (py_catch m (\<lambda>_. ret ())) Q R w"
  by (simp add: wp_def split: prod.splits sum.splits)

lemma wp_emit: "(\<And>cp' w'. Q cp' w') \<Longrightarrow> wp (emit X I r cp) Q R w"
  unfolding emit_def Let_def wp_if wp_ret wp_option wp_bind wp_then
  by (auto split: option.splits simp del: wp_catch intro!: wp_uuid wp_clock wp_caught)

lemma wp_emit_all: "(\<And>cp' w'. Q cp' w') \<Longrightarrow> wp (emit_all X I rs cp) Q R w"
  by (induction rs arbitrary: cp w) (auto intro: wp_emit)

lemma wp_run_code: "(\<And>r w'. Q r w') \<Longrightarrow> wp (run_code X I code cp) Q R w"
proof (induction code arbitrary: cp w)
  case (Logs r k)
  then show ?case by (auto intro!: wp_emit)
next
  case (Runs f cp w)
  obtain w1 k where f: "f w = (w1, k)" by fastforce
  have "k \<in> Basic_BNFs.snds (f w)" by (simp add: f Basic_BNFs.snds.intros)
  then have "wp (run_code X I k cp) Q R w1"
    by (intro Runs) (auto intro: Runs.prems)
  then show ?case by (simp add: wp_def f)
qed auto

lemma wp_log_entries: "(\<And>es w'. Q es w') \<Longrightarrow> wp (log_entries X source lms) Q R w"
  unfolding log_entries_def
  by (induction lms arbitrary: Q w) (auto simp: log_entry_def intro!: wp_clock)

text \<open>What every result says of how the code ended.\<close>

definition consistent_result :: "exec_result \<Rightarrow> bool" where
  "consistent_result r \<longleftrightarrow> xr_status r \<in> {SUCCESS, COMPLETED_WITH_ERRORS, FAILED}
     \<and> (xr_status r = FAILED \<longleftrightarrow> xr_error_type r \<noteq> None) \<and> (xr_error_type r = None \<longleftrightarrow> xr_error_message r = None)
     \<and> (xr_status r = FAILED \<longrightarrow> xr_result r = PNone)
     \<and> (xr_status r \<noteq> FAILED \<longrightarrow> xr_status r = (if xr_cached r then SUCCESS else result_status (xr_result r)))"

lemma wp_failed_result:
  assumes "\<And>d w' Q. (\<And>es w''. Q es w'') \<Longrightarrow> wp (make_logs d) Q R w'"
    and "\<And>r w'. xr_status r = FAILED \<Longrightarrow> xr_execution_id r = er_execution_id q \<Longrightarrow> xr_variables r = Some vars
      \<Longrightarrow> xr_error_type r = Some (rx_type x) \<Longrightarrow> xr_error_message r = Some (rx_message x)
      \<Longrightarrow> xr_result r = PNone \<Longrightarrow> Q r w'"
  shows "wp (failed_result X q st make_logs vars x) Q R w"
  unfolding failed_result_def wp_bind integration_calls_def wp_read wp_ret
  by (rule wp_clock, rule assms(1), rule assms(2)) simp_all

lemma wp_bare_result:
  assumes "\<And>r w'. xr_status r = FAILED \<Longrightarrow> xr_execution_id r = er_execution_id q \<Longrightarrow> xr_variables r = Some []
      \<Longrightarrow> xr_error_type r = Some (rx_type x) \<Longrightarrow> xr_error_message r = Some (rx_message x)
      \<Longrightarrow> xr_result r = PNone \<Longrightarrow> Q r w'"
  shows "wp (bare_result X q st x) Q R w"
  unfolding bare_result_def by (rule wp_failed_result) (auto intro: wp_log_entries assms)

lemma wp_wrapped_result:
  assumes "\<And>r w'. xr_status r = FAILED \<Longrightarrow> xr_execution_id r = er_execution_id q \<Longrightarrow> xr_variables r = Some vars
      \<Longrightarrow> xr_error_type r = Some (rx_type x) \<Longrightarrow> xr_error_message r = Some (rx_message x)
      \<Longrightarrow> xr_result r = PNone \<Longrightarrow> Q r w'"
  shows "wp (wrapped_result X q st x vars logs) Q R w"
  unfolding wrapped_result_def by (rule wp_failed_result) (auto intro: wp_log_entries assms)

lemma wp_finished_result:
  assumes "\<And>r w'. xr_status r = result_status v \<Longrightarrow> xr_execution_id r = er_execution_id q \<Longrightarrow> xr_result r = v
      \<Longrightarrow> xr_error_type r = None \<Longrightarrow> xr_error_message r = None \<Longrightarrow> \<not> xr_cached r
      \<Longrightarrow> xr_variables r = Some vars \<Longrightarrow> Q r w'"
  shows "wp (finished_result X q st v vars logs expires) Q R w"
  unfolding finished_result_def wp_bind integration_calls_def wp_read wp_ret
  by (rule wp_log_entries, rule wp_clock, rule assms) simp_all

lemma result_status_cases: "result_status v = SUCCESS \<or> result_status v = COMPLETED_WITH_ERRORS"
  by (simp add: result_status_def split: pyval.splits)

lemma wp_trace: "(\<And>r w'. Q r w') \<Longrightarrow> wp (execute_workflow_with_trace X I ctx) Q R w"
proof -
  assume Q: "\<And>r w'. Q r w'"
  have raised: "wp (handle_raised X I x cp) (\<lambda>_ _. True) (\<lambda>_ _. False) w'" for x cp w'
    unfolding handle_raised_def by (auto intro!: wp_emit wp_emit_all)
  have "wp (py_then (inject_globals X m ps) (py_bind (run_code X I code cp) (\<lambda>(out, cp).
      case out of Inr v \<Rightarrow> ret (Traced v (cp_vars cp) (cp_logs cp)) | Inl x \<Rightarrow> handle_raised X I x cp)))
     (\<lambda>_ _. True) (\<lambda>_ _. False) w" for m ps code cp
    unfolding inject_globals_def wp_then wp_modify wp_bind
    by (rule wp_run_code) (simp split: prod.splits sum.splits add: raised)
  then show ?thesis
    unfolding execute_workflow_with_trace_def Let_def wp_finally remove_globals_def wp_modify
    by (rule wp_mono) (simp_all add: Q)
qed

lemma wp_execute_body:
  "wp (execute_body X q st) (\<lambda>r _. consistent_result r \<and> xr_execution_id r = er_execution_id q) (\<lambda>_ _. False) w"
proof -
  let ?Q = "\<lambda>r (_ :: 'a). consistent_result r \<and> xr_execution_id r = er_execution_id q"
  have bare: "wp (bare_result X q st x) ?Q R w'" for x R w'
    by (rule wp_bare_result) (simp add: consistent_result_def)
  have caught: "wp m (\<lambda>_ _. True) (\<lambda>_ _. True) w'" for m :: "('a, 'b) py" and w'
    by (simp add: wp_def split: prod.splits sum.splits)
  show ?thesis
    unfolding execute_body_def wp_catch wp_bind
  proof (rule wp_mono [OF caught], goal_cases)
    case (1 e w1)
    show ?case
    proof (cases e)
      case None
      have "wp (py_bind (execute_workflow_with_trace X (run_info_of q f) (make_context q)) (\<lambda>r. case r of
            Traced v vars logs \<Rightarrow> py_bind (cache_expiry X q v) (finished_result X q st v vars logs)
          | Wrapped x vars logs \<Rightarrow> wrapped_result X q st x vars logs
          | Bare x \<Rightarrow> bare_result X q st x)) ?Q (\<lambda>e. wp (bare_result X q st (script_exn e)) ?Q (\<lambda>_ _. False)) w1" for f
        unfolding wp_bind
      proof (rule wp_trace)
        fix r w2
        show "wp (case r of
            Traced v vars logs \<Rightarrow> py_bind (cache_expiry X q v) (finished_result X q st v vars logs)
          | Wrapped x vars logs \<Rightarrow> wrapped_result X q st x vars logs
          | Bare x \<Rightarrow> bare_result X q st x) ?Q (\<lambda>e. wp (bare_result X q st (script_exn e)) ?Q (\<lambda>_ _. False)) w2"
        proof (cases r)
          case (Traced v vars logs)
          have "wp (finished_result X q st v vars logs expires) ?Q R w'" for expires R w'
            by (rule wp_finished_result) (use result_status_cases [of v] in \<open>auto simp: consistent_result_def\<close>)
          then show ?thesis
            unfolding Traced trace_end.case wp_bind by - (rule wp_mono [OF caught], simp_all add: bare)
        next
          case (Wrapped x vars logs)
          then show ?thesis by (auto intro!: wp_wrapped_result simp: consistent_result_def)
        next
          case (Bare x)
          then show ?thesis by (simp add: bare)
        qed
      qed
      then show ?thesis by (simp add: None bare split: sum.splits)
    next
      case (Some entry)
      then show ?thesis by (simp add: build_cached_result_def) (rule wp_clock, simp add: consistent_result_def)
    qed
  qed (rule bare)
qed

section \<open>What the engine leaves behind\<close>

locale engine =
  fixes X :: "'w engine_env"
  assumes context_get_set: "en_context X (en_set_context X c w) = c"
    and cache_get_set: "en_cache X (en_set_cache X d w) = d"
    and globals_get_set: "en_globals X (en_set_globals X m g w) = (en_globals X w)(m := g)"
    and states_keep: "en_globals X (en_set_context X c w) = en_globals X w"
      "en_globals X (en_set_cache X d w) = en_globals X w"
      "en_globals X (sv_set_log_counters (en_services X) n w) = en_globals X w"
    and services_keep: "keeps (en_globals X) (utcnow (en_env X))" "keeps (en_globals X) (uuid4 (en_env X))"
      "keeps (en_globals X) (sdk_upsert (en_env X) t e mode)"
      "keeps (en_globals X) (sv_pubsub_client (en_services X))"
      "keeps (en_globals X) (sv_send_to_group (en_services X) gr v)"
begin

lemmas stays_globals [stays_intros] = services_keep [THEN keeps_stays]

lemma stays_counters [stays_intros]:
  "stays (\<lambda>w. en_globals X w = g) (py_modify (sv_set_log_counters (en_services X) n))"
  by (rule stays_modify) (simp add: states_keep)

lemma stays_emit [stays_intros]: "stays (\<lambda>w. en_globals X w = g) (emit X I r cp)"
  unfolding emit_def append_log_def get_next_sequence_def broadcast_execution_update_def if_connected_def Let_def
  by (intro stays_intros)

lemma stays_emit_all [stays_intros]: "stays (\<lambda>w. en_globals X w = g) (emit_all X I rs cp)"
  by (induction rs arbitrary: cp) (auto intro!: stays_intros)

lemma stays_handle_raised [stays_intros]: "stays (\<lambda>w. en_globals X w = g) (handle_raised X I x cp)"
  unfolding handle_raised_def by (intro stays_intros)

lemma stays_log_entries [stays_intros]: "stays (\<lambda>w. en_globals X w = g) (log_entries X source lms)"
  unfolding log_entries_def log_entry_def by (intro stays_intros)

lemma stays_results [stays_intros]:
  "stays (\<lambda>w. en_globals X w = g) (bare_result X q st x)"
  "stays (\<lambda>w. en_globals X w = g) (wrapped_result X q st x vars logs)"
  "stays (\<lambda>w. en_globals X w = g) (finished_result X q st v vars logs expires)"
  "stays (\<lambda>w. en_globals X w = g) (build_cached_result X xid entry st)"
  unfolding bare_result_def wrapped_result_def finished_result_def build_cached_result_def failed_result_def
    integration_calls_def
  by (intro stays_intros)+

lemma stays_cache [stays_intros]:
  "stays (\<lambda>w. en_globals X w = g) (cached_entry X q)"
  "stays (\<lambda>w. en_globals X w = g) (cache_expiry X q v)"
  unfolding cached_entry_def cache_expiry_def check_cache_def cache_result_def Let_def
  by (intro stays_intros stays_modify; simp add: states_keep)+

lemma globals_inserted:
  "m' \<noteq> m \<Longrightarrow> en_globals X (snd (inject_globals X m ps w)) m' = en_globals X w m'"
  "k \<notin> fst ` set ps \<Longrightarrow> en_globals X (snd (inject_globals X m ps w)) m k = en_globals X w m k"
proof -
  have "k \<notin> fst ` set ps \<Longrightarrow> foldl (\<lambda>g (k, v). g(k \<mapsto> v)) g ps k = g k" for g :: entity
    by (induction ps arbitrary: g) auto
  then show "k \<notin> fst ` set ps \<Longrightarrow> en_globals X (snd (inject_globals X m ps w)) m k = en_globals X w m k"
    by (simp add: inject_globals_def py_modify_def globals_get_set)
qed (simp add: inject_globals_def py_modify_def globals_get_set)

lemma globals_removed:
  "en_globals X (snd (remove_globals X m ps w)) m' k
     = (if m' = m \<and> k \<in> fst ` set ps then None else en_globals X w m' k)"
proof -
  have "foldl (\<lambda>g (k, _). g(k := None)) g ps k = (if k \<in> fst ` set ps then None else g k)"
    for g :: entity and ps :: "(string \<times> pyval) list"
    by (induction ps arbitrary: g) auto
  then show ?thesis by (simp add: remove_globals_def py_modify_def globals_get_set)
qed

lemma wp_trace_globals:
  assumes "\<And>code cp g. code \<in> {call_function f ctx args | args. True}
      \<Longrightarrow> stays (\<lambda>w. en_globals X w = g) (run_code X I code cp)" and "ri_function I = f"
  shows "wp (execute_workflow_with_trace X I ctx)
    (\<lambda>_ w'. en_globals X w' = (\<lambda>m k. if m = uf_module f \<and> k \<in> fst ` set (extra_params f (ri_parameters I))
        then None else en_globals X w m k)) (\<lambda>_ _. True) w"
proof -
  let ?m = "uf_module f" and ?ps = "extra_params f (ri_parameters I)"
  obtain w1 where inj: "inject_globals X ?m ?ps w = (Inr (), w1)"
    by (simp add: inject_globals_def py_modify_def)
  define body where "body = py_bind (run_code X I (call_function f ctx (accepted_params f (ri_parameters I)))
      \<lparr>cp_vars = capture_extra ?ps, cp_logs = [], cp_sequence = 0\<rparr>) (\<lambda>(out, cp).
      case out of Inr v \<Rightarrow> ret (Traced v (cp_vars cp) (cp_logs cp)) | Inl x \<Rightarrow> handle_raised X I x cp)"
  have body: "stays (\<lambda>w. en_globals X w = en_globals X w1) body"
    unfolding body_def by (intro stays_intros assms(1)) auto
  have after: "en_globals X (snd (remove_globals X ?m ?ps w2))
      = (\<lambda>m k. if m = ?m \<and> k \<in> fst ` set ?ps then None else en_globals X w m k)"
    if "en_globals X w2 = en_globals X w1" for w2
  proof (intro ext)
    fix m k
    show "en_globals X (snd (remove_globals X ?m ?ps w2)) m k
        = (if m = ?m \<and> k \<in> fst ` set ?ps then None else en_globals X w m k)"
      using globals_inserted [where m = ?m and ps = ?ps and w = w] inj that
      by (cases "m = ?m") (auto simp: globals_removed)
  qed
  have rem: "wp (remove_globals X ?m ?ps) (\<lambda>_. P) R w2" if "P (snd (remove_globals X ?m ?ps w2))" for P R w2
    using that by (simp add: remove_globals_def py_modify_def wp_def)
  show ?thesis
    unfolding execute_workflow_with_trace_def Let_def assms(2) body_def [symmetric] wp_finally wp_then
    by (simp add: wp_def [of "inject_globals X ?m ?ps"] inj, rule wp_mono [OF stays_wp [OF body refl]])
      (rule rem, simp add: after, rule rem, simp)
qed

lemma wp_execute_globals:
  assumes "er_func q = Some f" and "\<not> is_data_provider q"
    and "\<And>c args cp g. stays (\<lambda>w. en_globals X w = g) (run_code X (run_info_of q f) (call_function f c args) cp)"
  shows "wp (execute X q)
    (\<lambda>_ w'. en_globals X w' = (\<lambda>m k. if m = uf_module f \<and> k \<in> fst ` set (extra_params f (er_parameters q))
        then None else en_globals X w m k)) (\<lambda>_ _. True) w"
proof -
  let ?G = "\<lambda>w'. en_globals X w' = (\<lambda>m k. if m = uf_module f \<and> k \<in> fst ` set (extra_params f (er_parameters q))
        then None else en_globals X w m k)"
  have trace: "wp (execute_workflow_with_trace X (run_info_of q f) (make_context q)) (\<lambda>_. ?G) (\<lambda>_ _. False) w'"
    if "en_globals X w' = en_globals X w" for w'
  proof -
    have g: "wp (execute_workflow_with_trace X (run_info_of q f) (make_context q)) (\<lambda>_ w''. en_globals X w'' = (\<lambda>m k.
        if m = uf_module f \<and> k \<in> fst ` set (extra_params f (ri_parameters (run_info_of q f)))
        then None else en_globals X w' m k)) (\<lambda>_ _. True) w'"
      by (rule wp_trace_globals) (use assms(3) in \<open>auto simp: run_info_of_def\<close>)
    have n: "wp (execute_workflow_with_trace X (run_info_of q f) (make_context q)) (\<lambda>_ _. True) (\<lambda>_ _. False) w'"
      by (rule wp_trace) simp
    show ?thesis
      by (rule wp_mono [OF wp_conj [OF g n]]) (use that in \<open>simp_all add: run_info_of_def cong: if_cong\<close>)
  qed
  have body: "wp (execute_body X q st) (\<lambda>_. ?G) (\<lambda>_. ?G) w'" if "en_globals X w' = en_globals X w" for st w'
  proof -
    have ends: "stays ?G (case r of
            Traced v vars logs \<Rightarrow> py_bind (cache_expiry X q v) (finished_result X q st v vars logs)
          | Wrapped x vars logs \<Rightarrow> wrapped_result X q st x vars logs
          | Bare x \<Rightarrow> bare_result X q st x)" for r
      by (cases r) (auto intro!: stays_intros)
    have "wp (py_bind (execute_workflow_with_trace X (run_info_of q f) (make_context q)) (\<lambda>r. case r of
            Traced v vars logs \<Rightarrow> py_bind (cache_expiry X q v) (finished_result X q st v vars logs)
          | Wrapped x vars logs \<Rightarrow> wrapped_result X q st x vars logs
          | Bare x \<Rightarrow> bare_result X q st x)) (\<lambda>_. ?G) (\<lambda>_. ?G) w'"
      unfolding wp_bind
    proof (rule wp_mono [OF trace [OF that]], goal_cases)
      case (1 r w2)
      show ?case by (rule stays_wp [OF ends 1])
    qed simp
    then show ?thesis
      unfolding execute_body_def wp_catch
      by (simp add: cached_entry_def assms(1,2) function_of_def wp_bind [of "ret None"] del: wp_bind)
        (erule wp_mono, assumption, rule stays_wp [OF stays_results(1)])
  qed
  show ?thesis
    unfolding execute_def wp_bind
  proof (rule wp_mono [OF stays_wp [OF keeps_stays [OF services_keep(1)] refl]], goal_cases)
    case (1 d w1)
    then show ?case
      by (auto intro!: wp_mono [OF body] simp: states_keep)
  qed simp
qed

end

lemma wp_execute:
  assumes "engine X"
  shows "wp (execute X q)
    (\<lambda>r w'. (er_func q \<noteq> None \<longleftrightarrow> \<not> opt_truthy (er_code q)) \<and> xr_execution_id r = er_execution_id q
      \<and> en_context X w' = None \<and> consistent_result r)
    (\<lambda>e _. (er_func q \<noteq> None \<longleftrightarrow> opt_truthy (er_code q)) \<and> (\<exists>m. e = ValueError m)) w"
  unfolding execute_def wp_bind
proof (rule wp_clock, goal_cases)
  case (1 d w1)
  show ?case
    unfolding wp_if wp_raise wp_then wp_modify wp_finally
    by (auto intro!: wp_mono [OF wp_execute_body] simp: engine.context_get_set [OF assms])
qed

section \<open>The engine in memory\<close>

record engine_mem = cloud_mem +
  em_cache :: "string \<rightharpoonup> pyval \<times> datetime"
  em_globals :: "string \<Rightarrow> entity"
  em_context :: "exec_context option"

definition mem_engine :: "engine_mem engine_env" where
  "mem_engine = \<lparr>
     en_services = mem_cloud,
     en_cache = em_cache,
     en_set_cache = (\<lambda>c w. w\<lparr>em_cache := c\<rparr>),
     en_globals = em_globals,
     en_set_globals = (\<lambda>m g w. w\<lparr>em_globals := (em_globals w)(m := g)\<rparr>),
     en_context = em_context,
     en_set_context = (\<lambda>c w. w\<lparr>em_context := c\<rparr>),
     en_sha256 = (\<lambda>s. s),
     en_dumps_sorted = (\<lambda>v. if has_other v then Inl (TypeError ''not JSON serializable'') else Inr ''{}''),
     en_compile = (\<lambda>code name. Inr (\<lambda>ctx args. Returns PNone)),
     en_format_exception = (\<lambda>x. rx_type x @ '': '' @ rx_message x),
     en_path = ''/home/site/wwwroot/shared/engine.py''\<rparr>"

interpretation mem_engine: engine mem_engine
  by unfold_locales
    (auto simp: mem_engine_def mem_cloud_def keeps_iff mem_defs py_run_defs utcnow_def uuid4_def
       split: option.splits list.splits if_splits)

definition engine_world :: engine_mem where
  "engine_world = \<lparr>mem_rows = [], mem_clock = 0, mem_ids = 0, mem_faults = [], mem_files = [], mem_users = Map.empty,
     mem_orgs = Map.empty, cm_blobs = Map.empty, cm_queue = (\<lambda>_. []), cm_ready = {}, cm_counters = (\<lambda>_. 0), cm_sent = [],
     em_cache = Map.empty, em_globals = (\<lambda>_. Map.empty), em_context = None\<rparr>"

text \<open>A request to run a function with one parameter named \<open>n\<close>, as the worker makes it.\<close>

definition function_with :: "(exec_context option \<Rightarrow> (string \<times> pyval) list \<Rightarrow> engine_mem user_code) \<Rightarrow> engine_mem user_function" where
  "function_with body = \<lparr>uf_name = ''sync'', uf_file = ''/home/workspace/sync.py'', uf_module = ''sync'',
     uf_params = [\<lparr>pa_name = ''n'', pa_var_keyword = False, pa_annotation = No_annotation\<rparr>], uf_call = body\<rparr>"

definition request_for :: "engine_mem user_function \<Rightarrow> (string \<times> pyval) list \<Rightarrow> engine_mem exec_request" where
  "request_for f ps = \<lparr>er_execution_id = ''x1'',
     er_caller = \<lparr>caller_user_id = ''ann'', caller_email = ''ann@acme.com'', caller_name = ''Ann''\<rparr>,
     er_organization = None, er_config = Map.empty, er_func = Some f, er_code = None, er_name = Some ''sync'',
     er_tags = [''workflow''], er_timeout_seconds = 1800, er_cache_ttl_seconds = 300, er_parameters = ps,
     er_transient = False, er_no_cache = False, er_is_platform_admin = False, er_broadcaster = None\<rparr>"

section \<open>Properties\<close>



text \<open>
  C23: form fields that are no parameters of a workflow become globals of its module while it runs, and
  none of them is left there afterwards: when the user's code leaves the globals alone, exactly the
  names of the extra parameters are missing after the call, and every other global of every module is
  what it was. (A global that had such a name before the call is lost with it.)
\<close>

theorem extra_parameters_removed:
  assumes "engine X" and "er_func q = Some f" and "\<not> is_data_provider q"
    and "\<And>c args cp g. stays (\<lambda>w. en_globals X w = g) (run_code X (run_info_of q f) (call_function f c args) cp)"
    and "execute X q w = (Inr r, w')"
  shows "en_globals X w' m k = (if m = uf_module f \<and> k \<in> fst ` set (extra_params f (er_parameters q)) then None
     else en_globals X w m k)"
  using wp_Inr [OF engine.wp_execute_globals [OF assms(1-4)] assms(5)] by simp

text \<open>The module had a global \<open>region\<close> of its own.\<close>

theorem extra_parameters_removed_witness:
  "\<exists>r w'. execute mem_engine (request_for (function_with (\<lambda>_ _. Returns PNone)) [(''n'', PInt 1), (''region'', PStr ''us'')])
       (engine_world\<lparr>em_globals := (\<lambda>_. [''region'' \<mapsto> PStr ''eu'', ''table'' \<mapsto> PStr ''t''])\<rparr>) = (Inr r, w')
     \<and> em_globals w' ''sync'' ''region'' = None \<and> em_globals w' ''sync'' ''table'' = Some (PStr ''t'')"
proof -
  let ?f = "function_with (\<lambda>_ _. Returns PNone)" and ?ps = "[(''n'', PInt 1), (''region'', PStr ''us'')]"
  let ?w = "engine_world\<lparr>em_globals := (\<lambda>_. [''region'' \<mapsto> PStr ''eu'', ''table'' \<mapsto> PStr ''t''])\<rparr>"
  have "case execute mem_engine (request_for ?f ?ps) ?w of (Inr r, _) \<Rightarrow> True | _ \<Rightarrow> False" by code_simp
  then obtain r w' where run: "execute mem_engine (request_for ?f ?ps) ?w = (Inr r, w')"
    by (auto split: prod.splits sum.splits)
  have code: "stays (\<lambda>w. en_globals mem_engine w = g) (run_code mem_engine (run_info_of (request_for ?f ?ps) ?f)
      (call_function ?f c args) cp)" for c args cp g
    by (auto simp: call_function_def first_param_is_context_def function_with_def intro!: stays_intros)
  have "en_globals mem_engine w' ''sync'' k = (if k = ''region'' then None else en_globals mem_engine ?w ''sync'' k)" for k
    by (subst extra_parameters_removed [OF mem_engine.engine_axioms _ _ code run])
      (auto simp: request_for_def is_data_provider_def function_with_def extra_params_def has_var_keyword_def)
  then show ?thesis using run by (auto simp: mem_engine_def)
qed

text \<open>
  The cache of data providers never crosses organizations. When two requests, each of an
  organization whose id holds no colon, share a key, they are of one organization; with names
  without colons, the names agree too.
\<close>

theorem cache_key_separates_organizations:
  assumes "compute_cache_key X n ps (Some o1) = Inr key" and "compute_cache_key X n' ps' (Some o2) = Inr key"
    and "o1 \<noteq> []" "o2 \<noteq> []" "CHR '':'' \<notin> set o1" "CHR '':'' \<notin> set o2"
  shows "o1 = o2 \<and> (CHR '':'' \<notin> set n \<and> CHR '':'' \<notin> set n' \<longrightarrow> n = n')"
proof -
  obtain r where r: "key = o1 @ '':'' @ n @ r" "r = [] \<or> hd r = CHR '':''"
    using assms(1,3) by (auto simp: compute_cache_key_def Let_def split: if_splits sum.splits)
  obtain r' where r': "key = o2 @ '':'' @ n' @ r'" "r' = [] \<or> hd r' = CHR '':''"
    using assms(2,4) by (auto simp: compute_cache_key_def Let_def split: if_splits sum.splits)
  have "takeWhile (\<lambda>c. c \<noteq> CHR '':'') key = o1"
    unfolding r(1) using assms(5) by (simp add: takeWhile_sep)
  moreover have "takeWhile (\<lambda>c. c \<noteq> CHR '':'') key = o2"
    unfolding r'(1) using assms(6) by (simp add: takeWhile_sep)
  ultimately have o: "o1 = o2" by simp
  then have rest: "n @ r = n' @ r'" using r(1) r'(1) by simp
  have "takeWhile (\<lambda>c. c \<noteq> CHR '':'') (m @ s) = m" if "CHR '':'' \<notin> set m" "s = [] \<or> hd s = CHR '':''" for m s
    using that by (cases s) (auto simp: takeWhile_append)
  then show ?thesis using o rest r(2) r'(2) by metis
qed

theorem cache_key_separates_organizations_witness:
  "compute_cache_key mem_engine ''regions'' [(''n'', PInt 1)] (Some ''acme'') = Inr ''acme:regions:{}''
   \<and> (compute_cache_key mem_engine ''regions'' [] (Some ''other'') \<noteq> Inr ''acme:regions:{}'')"
proof -
  have k: "compute_cache_key mem_engine ''regions'' [(''n'', PInt 1)] (Some ''acme'') = Inr ''acme:regions:{}''"
    by code_simp
  show ?thesis
    using cache_key_separates_organizations [OF k, of "''regions''" "[]" "''other''"] k by auto
qed

end
