(* ===== verification/Config_Repository.thy ===== *)
theory Config_Repository
  imports Role_Repository
begin

text \<open>
  \<open>shared/repositories/config.py\<close>: configuration values, integration settings, the API keys of
  workflows and the GitHub settings, all rows of the \<open>Config\<close> table; and \<open>shared/workflow_keys.py\<close>,
  which makes and checks the keys. Values are looked up in the caller's scope with fallback to
  \<open>GLOBAL\<close>; keys of workflows are always global.
\<close>

section \<open>Data\<close>

datatype config_type = STRING | INT_TYPE | BOOL | JSON | SECRET_REF

fun config_type_value :: "config_type \<Rightarrow> string" where
  "config_type_value STRING = ''string''"
| "config_type_value INT_TYPE = ''int''"
| "config_type_value BOOL = ''bool''"
| "config_type_value JSON = ''json''"
| "config_type_value SECRET_REF = ''secret_ref''"

definition config_types :: "config_type list" where
  "config_types = [STRING, INT_TYPE, BOOL, JSON, SECRET_REF]"

text \<open>\<open>ConfigType(v)\<close>.\<close>

definition config_type_of :: "pyval \<Rightarrow> exn + config_type" where
  "config_type_of v = (case find (\<lambda>t. v = PStr (config_type_value t)) config_types of
     Some t \<Rightarrow> Inr t | None \<Rightarrow> Inl (ValueError ''is not a valid ConfigType''))"

datatype integration_type = MSGRAPH | HALOPSA

fun integration_type_value :: "integration_type \<Rightarrow> string" where
  "integration_type_value MSGRAPH = ''msgraph''"
| "integration_type_value HALOPSA = ''halopsa''"

definition integration_type_of :: "pyval \<Rightarrow> exn + integration_type" where
  "integration_type_of v = (case find (\<lambda>t. v = PStr (integration_type_value t)) [MSGRAPH, HALOPSA] of
     Some t \<Rightarrow> Inr t | None \<Rightarrow> Inl (ValueError ''is not a valid IntegrationType''))"

record set_integration_request =
  sir_type :: integration_type
  sir_enabled :: bool
  sir_settings :: pyval

record github_config =
  gh_status :: string
  gh_secret_ref :: "string option"
  gh_repo_url :: "string option"
  gh_production_branch :: "string option"

definition config_repository :: "exec_context option \<Rightarrow> exn + scoped_repo" where
  "config_repository ctx = scoped_repository ''Config'' ctx"

text \<open>\<open>_MockGlobalContext\<close>, of which only the scope is ever read.\<close>

definition global_config_repository :: scoped_repo where
  "global_config_repository = \<lparr>sr_repo = \<lparr>repo_table = ''Config'', repo_context = Some
       \<lparr>ctx_user_id = [], ctx_email = [], ctx_name = [], ctx_scope = ''GLOBAL'',
        ctx_organization = None, ctx_is_platform_admin = False, ctx_is_function_key = False, ctx_execution_id = [],
        ctx_config = Map.empty, ctx_integration_calls = []\<rparr>\<rparr>,
     sr_org_id = ''GLOBAL'', sr_scope = ''GLOBAL''\<rparr>"

section \<open>Configuration values\<close>

definition config_key :: "string \<Rightarrow> string" where
  "config_key key = ''config:'' @ key"

text \<open>\<open>_parse_datetime(entity.get("UpdatedAt"), datetime.utcnow())\<close>.\<close>

definition updated_at :: "'w env \<Rightarrow> entity \<Rightarrow> ('w, datetime) py" where
  "updated_at E e = py_bind (utcnow E) (\<lambda>now. ret (the (parse_datetime E (dget0 e ''UpdatedAt'') (Some now))))"

definition config_entity_to_model :: "'w env \<Rightarrow> entity \<Rightarrow> string \<Rightarrow> ('w, model) py" where
  "config_entity_to_model E e key =
     (let pk = dget0 e ''PartitionKey''; glob = (pk = PStr ''GLOBAL'') in
      py_bind (updated_at E e) (\<lambda>d.
      py_bind (lift (config_type_of (dget e ''Type'' (PStr ''string'')))) (\<lambda>t.
        lift (env_validate E ''Config'' [''key'' \<mapsto> PStr key, ''value'' \<mapsto> dget e ''Value'' (PStr []),
          ''type'' \<mapsto> PStr (config_type_value t), ''scope'' \<mapsto> PStr (if glob then ''GLOBAL'' else ''org''),
          ''orgId'' \<mapsto> (if glob then PNone else pk), ''description'' \<mapsto> dget0 e ''Description'',
          ''updatedAt'' \<mapsto> PDate d, ''updatedBy'' \<mapsto> dget e ''UpdatedBy'' (PStr [])]))))"

definition get_config :: "'w env \<Rightarrow> scoped_repo \<Rightarrow> string \<Rightarrow> bool \<Rightarrow> ('w, model option) py" where
  "get_config E r key fallback_to_global =
     py_bind (if fallback_to_global then get_with_fallback E r (config_key key)
              else get_by_id E (sr_repo r) (sr_scope r) (config_key key)) (\<lambda>res. case res of
       Some e \<Rightarrow> py_bind (config_entity_to_model E e key) (\<lambda>m. ret (Some m))
     | None \<Rightarrow> ret None)"

definition config_entity :: "string \<Rightarrow> string \<Rightarrow> string \<Rightarrow> config_type \<Rightarrow> string option \<Rightarrow> string \<Rightarrow> string \<Rightarrow> entity" where
  "config_entity scope key value t description updated_by now =
     [''PartitionKey'' \<mapsto> PStr scope, ''RowKey'' \<mapsto> PStr (config_key key), ''Value'' \<mapsto> PStr value,
      ''Type'' \<mapsto> PStr (config_type_value t), ''Description'' \<mapsto> of_opt description,
      ''UpdatedAt'' \<mapsto> PStr now, ''UpdatedBy'' \<mapsto> PStr updated_by]"

definition set_config :: "'w env \<Rightarrow> scoped_repo \<Rightarrow> string \<Rightarrow> string \<Rightarrow> config_type \<Rightarrow> string option \<Rightarrow> string
    \<Rightarrow> ('w, model) py" where
  "set_config E r key value t description updated_by =
     py_bind (utcnow E) (\<lambda>now.
     let e = config_entity (sr_scope r) key value t description updated_by (env_isoformat E now) in
     py_then (repo_upsert E (sr_repo r) e ''merge'') (config_entity_to_model E e key))"

definition list_config :: "'w env \<Rightarrow> scoped_repo \<Rightarrow> bool \<Rightarrow> ('w, model list) py" where
  "list_config E r include_global =
     py_bind (if include_global then query_with_fallback E r ''config:'' None None
              else query_org_only E r ''config:'' None None) (\<lambda>es.
       py_map (\<lambda>e. py_bind (lift (row_key_part 1 e)) (config_entity_to_model E e)) es)"

definition delete_config :: "'w env \<Rightarrow> scoped_repo \<Rightarrow> string \<Rightarrow> ('w, bool) py" where
  "delete_config E r key = repo_delete E (sr_repo r) (sr_scope r) (config_key key)"

section \<open>Integrations\<close>

definition integration_key :: "string \<Rightarrow> string" where
  "integration_key t = ''integration:'' @ t"

definition integration_settings :: "'w env \<Rightarrow> entity \<Rightarrow> exn + pyval" where
  "integration_settings E e = (let v = dget0 e ''Settings'' in
     if truthy v then (case v of
          PStr s \<Rightarrow> (case env_loads E s of Some j \<Rightarrow> Inr j | None \<Rightarrow> Inl (ValueError ''Expecting value''))
        | _ \<Rightarrow> Inr v)
     else Inr (PDict []))"

definition entity_to_integration_model :: "'w env \<Rightarrow> entity \<Rightarrow> ('w, model) py" where
  "entity_to_integration_model E e =
     py_bind (lift (integration_settings E e)) (\<lambda>settings.
     py_bind (updated_at E e) (\<lambda>d.
     py_bind (lift (integration_type_of (dget0 e ''Type''))) (\<lambda>t.
       lift (env_validate E ''IntegrationConfig'' [''type'' \<mapsto> PStr (integration_type_value t),
         ''enabled'' \<mapsto> dget e ''Enabled'' (PBool True), ''settings'' \<mapsto> settings, ''updatedAt'' \<mapsto> PDate d,
         ''updatedBy'' \<mapsto> dget e ''UpdatedBy'' (PStr [])]))))"

definition list_integrations :: "'w env \<Rightarrow> scoped_repo \<Rightarrow> ('w, model list) py" where
  "list_integrations E r = py_bind (query_org_only E r ''integration:'' None None)
     (py_map (entity_to_integration_model E))"

definition delete_integration :: "'w env \<Rightarrow> scoped_repo \<Rightarrow> string \<Rightarrow> ('w, bool) py" where
  "delete_integration E r type_value = repo_delete E (sr_repo r) (sr_scope r) (integration_key type_value)"

definition get_integration_config :: "'w env \<Rightarrow> scoped_repo \<Rightarrow> integration_type \<Rightarrow> bool \<Rightarrow> ('w, model option) py" where
  "get_integration_config E r t fallback_to_global =
     (let row_key = integration_key (integration_type_value t) in
      py_bind (if fallback_to_global then get_with_fallback E r row_key
               else get_by_id E (sr_repo r) (sr_scope r) row_key) (\<lambda>res. case res of
        Some e \<Rightarrow> py_bind (entity_to_integration_model E e) (\<lambda>m. ret (Some m))
      | None \<Rightarrow> ret None))"

definition set_integration_config :: "'w env \<Rightarrow> scoped_repo \<Rightarrow> set_integration_request \<Rightarrow> string \<Rightarrow> ('w, model) py" where
  "set_integration_config E r req updated_by =
     py_bind (utcnow E) (\<lambda>now.
     py_bind (lift (env_dumps E (sir_settings req))) (\<lambda>settings.
     let t = integration_type_value (sir_type req);
         e = [''PartitionKey'' \<mapsto> PStr (sr_scope r), ''RowKey'' \<mapsto> PStr (integration_key t), ''Type'' \<mapsto> PStr t,
              ''Enabled'' \<mapsto> PBool (sir_enabled req), ''Settings'' \<mapsto> PStr settings,
              ''UpdatedAt'' \<mapsto> PStr (env_isoformat E now), ''UpdatedBy'' \<mapsto> PStr updated_by]
     in py_then (repo_upsert E (sr_repo r) e ''merge'') (entity_to_integration_model E e)))"

section \<open>Keys of workflows\<close>

definition workflow_key_row :: "string \<Rightarrow> string" where
  "workflow_key_row key_id = ''workflowkey:'' @ key_id"

definition global_key_row :: "string \<Rightarrow> string" where
  "global_key_row key_id = ''systemconfig:globalkey:'' @ key_id"

definition create_workflow_key :: "'w env \<Rightarrow> scoped_repo \<Rightarrow> entity \<Rightarrow> ('w, entity) py" where
  "create_workflow_key E r e = repo_insert E (sr_repo r) (e(''PartitionKey'' \<mapsto> PStr ''GLOBAL''))"

definition get_workflow_key_by_id :: "'w env \<Rightarrow> scoped_repo \<Rightarrow> string \<Rightarrow> ('w, entity option) py" where
  "get_workflow_key_by_id E r key_id =
     py_bind (get_by_id E (sr_repo r) ''GLOBAL'' (workflow_key_row key_id)) (\<lambda>res. case res of
       Some e \<Rightarrow> ret (Some e)
     | None \<Rightarrow> get_by_id E (sr_repo r) ''GLOBAL'' (global_key_row key_id))"

definition workflow_key_range :: "clause list" where
  "workflow_key_range = [(''PartitionKey'', OEq, OStr ''GLOBAL''), (''RowKey'', OGe, OStr ''workflowkey:''),
     (''RowKey'', OLt, OStr ''workflowkey;'')]"

definition global_key_range :: "clause list" where
  "global_key_range = [(''PartitionKey'', OEq, OStr ''GLOBAL''), (''RowKey'', OGe, OStr ''systemconfig:globalkey:''),
     (''RowKey'', OLt, OStr ''systemconfig:globalkey;'')]"

definition key_list_filter :: "string \<Rightarrow> string option \<Rightarrow> bool \<Rightarrow> clause list" where
  "key_list_filter created_by workflow_id include_revoked =
     (''CreatedBy'', OEq, OStr created_by) #
     (if include_revoked then [] else [(''Revoked'', OEq, OBool False)])
     @ (if opt_truthy workflow_id then [(''WorkflowId'', OEq, OStr (str_or workflow_id []))] else [])"

definition list_workflow_keys :: "'w env \<Rightarrow> scoped_repo \<Rightarrow> string \<Rightarrow> string option \<Rightarrow> bool \<Rightarrow> ('w, entity list) py" where
  "list_workflow_keys E r created_by workflow_id include_revoked =
     (let base_filter = key_list_filter created_by workflow_id include_revoked in
      py_bind (repo_query E (sr_repo r) (odata (workflow_key_range @ base_filter)) None) (\<lambda>results.
        if opt_truthy workflow_id then ret results
        else py_bind (repo_query E (sr_repo r) (odata (global_key_range @ base_filter)) None) (\<lambda>more.
          ret (results @ more))))"

definition revoke_workflow_key :: "'w env \<Rightarrow> scoped_repo \<Rightarrow> string \<Rightarrow> string \<Rightarrow> ('w, bool) py" where
  "revoke_workflow_key E r key_id revoked_by =
     py_bind (get_workflow_key_by_id E r key_id) (\<lambda>res. case res of
       None \<Rightarrow> ret False
     | Some e \<Rightarrow> py_bind (utcnow E) (\<lambda>now.
         py_then (repo_update E (sr_repo r) (e(''Revoked'' \<mapsto> PBool True,
             ''RevokedAt'' \<mapsto> PStr (env_isoformat E now), ''RevokedBy'' \<mapsto> PStr revoked_by)) ''merge'')
           (ret True)))"

text \<open>
  The first key of a query, once its last use is on record: its id, or that of its row key. A key that
  is revoked after all is no key.
\<close>

definition use_key :: "'w env \<Rightarrow> scoped_repo \<Rightarrow> nat \<Rightarrow> entity \<Rightarrow> ('w, bool \<times> pyval) py" where
  "use_key E r n e =
     (if truthy (dget e ''Revoked'' (PBool False)) then ret (False, PNone)
      else py_bind (utcnow E) (\<lambda>now.
        let e' = e(''LastUsedAt'' \<mapsto> PStr (env_isoformat E now)) in
        py_then (repo_update E (sr_repo r) e' ''merge'')
        (py_bind (lift (row_key_part n e')) (\<lambda>s. ret (True, dget e' ''KeyId'' (PStr s))))))"

definition validate_workflow_key :: "'w env \<Rightarrow> scoped_repo \<Rightarrow> string \<Rightarrow> string option \<Rightarrow> ('w, bool \<times> pyval) py" where
  "validate_workflow_key E r hashed_key workflow_id =
     (let global_step =
            py_bind (repo_query E (sr_repo r) (odata (global_key_range @
              [(''HashedKey'', OEq, OStr hashed_key), (''Revoked'', OEq, OBool False)])) None) (\<lambda>es. case es of
                [] \<Rightarrow> ret (False, PNone)
              | e # _ \<Rightarrow> use_key E r 2 e)
      in if opt_truthy workflow_id then
           py_bind (repo_query E (sr_repo r) (odata (workflow_key_range @
             [(''HashedKey'', OEq, OStr hashed_key), (''WorkflowId'', OEq, OStr (str_or workflow_id [])),
              (''Revoked'', OEq, OBool False)])) None) (\<lambda>es. case es of
               [] \<Rightarrow> global_step
             | e # _ \<Rightarrow> use_key E r 1 e)
         else global_step)"

section \<open>GitHub\<close>

definition entity_to_github_config :: "'w env \<Rightarrow> entity \<Rightarrow> ('w, model) py" where
  "entity_to_github_config E e = py_bind (updated_at E e) (\<lambda>d.
     lift (env_validate E ''GitHubConfigEntity'' [''status'' \<mapsto> dget e ''Status'' (PStr ''disconnected''),
       ''secret_ref'' \<mapsto> dget0 e ''SecretRef'', ''repo_url'' \<mapsto> dget0 e ''RepoUrl'',
       ''production_branch'' \<mapsto> dget0 e ''ProductionBranch'', ''updated_at'' \<mapsto> PDate d,
       ''updated_by'' \<mapsto> dget0 e ''UpdatedBy'']))"

definition get_github_config :: "'w env \<Rightarrow> scoped_repo \<Rightarrow> ('w, model option) py" where
  "get_github_config E r = py_bind (get_by_id E (sr_repo r) (sr_scope r) ''github'') (\<lambda>res. case res of
     None \<Rightarrow> ret None
   | Some e \<Rightarrow> py_bind (entity_to_github_config E e) (\<lambda>m. ret (Some m)))"

definition save_github_config :: "'w env \<Rightarrow> scoped_repo \<Rightarrow> github_config \<Rightarrow> string \<Rightarrow> ('w, model) py" where
  "save_github_config E r c updated_by = py_bind (utcnow E) (\<lambda>now.
     let e = [''PartitionKey'' \<mapsto> PStr (sr_scope r), ''RowKey'' \<mapsto> PStr ''github'', ''Status'' \<mapsto> PStr (gh_status c),
              ''SecretRef'' \<mapsto> of_opt (gh_secret_ref c), ''RepoUrl'' \<mapsto> of_opt (gh_repo_url c),
              ''ProductionBranch'' \<mapsto> of_opt (gh_production_branch c),
              ''UpdatedAt'' \<mapsto> PStr (env_isoformat E now), ''UpdatedBy'' \<mapsto> PStr updated_by]
     in py_then (repo_upsert E (sr_repo r) e ''merge'') (entity_to_github_config E e))"

definition update_github_status :: "'w env \<Rightarrow> scoped_repo \<Rightarrow> string \<Rightarrow> string \<Rightarrow> ('w, model option) py" where
  "update_github_status E r st updated_by =
     py_bind (get_by_id E (sr_repo r) (sr_scope r) ''github'') (\<lambda>res. case res of
       None \<Rightarrow> ret None
     | Some e \<Rightarrow> py_bind (utcnow E) (\<lambda>now.
         let e' = e(''Status'' \<mapsto> PStr st, ''UpdatedAt'' \<mapsto> PStr (env_isoformat E now),
                    ''UpdatedBy'' \<mapsto> PStr updated_by)
         in py_then (repo_update E (sr_repo r) e' ''merge'')
              (py_bind (entity_to_github_config E e') (\<lambda>m. ret (Some m)))))"

section \<open>Making and checking keys\<close>

text \<open>
  \<open>shared/workflow_keys.py\<close>. \<open>token\<close> is \<open>secrets.token_urlsafe(32)\<close>, \<open>sha\<close> the hexadecimal SHA-256. The
  number of days is not used.
\<close>

definition generate_workflow_key :: "'w env \<Rightarrow> (string \<Rightarrow> string) \<Rightarrow> ('w, string) py \<Rightarrow> string \<Rightarrow> string option \<Rightarrow> int
    \<Rightarrow> ('w, string \<times> model) py" where
  "generate_workflow_key E sha token created_by workflow_id expires_in_days =
     py_bind token (\<lambda>raw_key.
     py_bind (utcnow E) (\<lambda>now.
     py_bind (lift (env_validate E ''WorkflowKey'' [''hashedKey'' \<mapsto> PStr (sha raw_key), ''workflowId'' \<mapsto> of_opt workflow_id,
         ''createdBy'' \<mapsto> PStr created_by, ''createdAt'' \<mapsto> PDate now, ''lastUsedAt'' \<mapsto> PNone,
         ''revoked'' \<mapsto> PBool False, ''expiresAt'' \<mapsto> PNone, ''description'' \<mapsto> PNone])) (\<lambda>m.
       ret (raw_key, m))))"

definition check_workflow_key :: "'w env \<Rightarrow> (string \<Rightarrow> string) \<Rightarrow> string \<Rightarrow> string option \<Rightarrow> ('w, bool \<times> pyval) py" where
  "check_workflow_key E sha api_key workflow_id =
     py_catch (validate_workflow_key E global_config_repository (sha api_key) workflow_id) (\<lambda>_. ret (False, PNone))"

definition revoke_key :: "'w env \<Rightarrow> string \<Rightarrow> string \<Rightarrow> ('w, bool) py" where
  "revoke_key E key_id revoked_by =
     py_catch (revoke_workflow_key E global_config_repository key_id revoked_by) (\<lambda>_. ret False)"

definition list_keys :: "'w env \<Rightarrow> string \<Rightarrow> string option \<Rightarrow> bool \<Rightarrow> ('w, entity list) py" where
  "list_keys E uid workflow_id include_revoked =
     py_catch (list_workflow_keys E global_config_repository uid workflow_id include_revoked) (\<lambda>_. ret [])"

section \<open>Configuration as a map\<close>

text \<open>
  What the \<open>Config\<close> table says of configuration: the values by scope and key. Setting and deleting
  change this map at one point, and looking up reads the scope first and then \<open>GLOBAL\<close>.
\<close>

definition config_view :: "tables \<Rightarrow> string \<times> string \<Rightarrow> pyval option" where
  "config_view R sk = map_option (\<lambda>e. dget e ''Value'' (PStr [])) (R ''Config'' (fst sk, config_key (snd sk)))"

definition config_lookup :: "(string \<times> string \<Rightarrow> pyval option) \<Rightarrow> string \<Rightarrow> bool \<Rightarrow> string \<Rightarrow> pyval option" where
  "config_lookup c sc fallback key = (case c (sc, key) of Some v \<Rightarrow> Some v
     | None \<Rightarrow> if fallback then c (''GLOBAL'', key) else None)"

definition on_config :: "scoped_repo \<Rightarrow> bool" where
  "on_config r \<longleftrightarrow> repo_table (sr_repo r) = ''Config''"

lemma config_key_inject [simp]: "config_key a = config_key b \<longleftrightarrow> a = b"
  by (simp add: config_key_def)

lemma config_view_put:
  "config_view (put_row ''Config'' (sc, config_key key) r R)
     = (config_view R)((sc, key) := map_option (\<lambda>e. dget e ''Value'' (PStr [])) r)"
  by (rule ext) (auto simp: config_view_def put_row_apply)

lemma config_view_cong: "R ''Config'' = R' ''Config'' \<Longrightarrow> config_view R = config_view R'"
  by (rule ext) (simp add: config_view_def)

lemma config_entity_key: "entity_key (config_entity sc key v t d by' now) = Some (sc, config_key key)"
  by (simp add: config_entity_def entity_key_Some)

lemma config_entity_value:
  "dget (write_row m (serialize_datetime_fields E (config_entity sc key v t d by' now)) old) ''Value'' x = PStr v"
  by (auto simp: write_row_def config_entity_def dget_def drop_none_apply map_add_def
      split: update_mode.splits option.splits)

context table_sdk
begin

lemma wp_updated_at: "(\<And>d w'. env_rows E w' = env_rows E w \<Longrightarrow> Q d w') \<Longrightarrow> wp (updated_at E e) Q R w"
  unfolding updated_at_def wp_bind by (rule wp_utcnow) simp

lemma wp_config_model:
  assumes "\<And>m w'. env_rows E w' = env_rows E w
      \<Longrightarrow> (\<And>s. dget e ''Value'' (PStr []) = PStr s \<Longrightarrow> m ''value'' = Some (PStr s)) \<Longrightarrow> Q m w'"
    and "\<And>x w'. env_rows E w' = env_rows E w \<Longrightarrow> R x w'"
  shows "wp (config_entity_to_model E e key) Q R w"
  unfolding config_entity_to_model_def Let_def wp_bind
proof (rule wp_updated_at, goal_cases)
  case (1 d w1)
  show ?case
    by (auto simp: 1 str_fields_def intro!: assms(2) assms(1) dest: validate_str [where f = "''value''"] split: sum.splits)
qed

lemma wp_set_config:
  assumes "on_config r"
  shows "wp (set_config E r key v t d by') (\<lambda>m w'. m ''value'' = Some (PStr v)
       \<and> config_view (env_rows E w') = (config_view (env_rows E w))((sr_scope r, key) \<mapsto> PStr v))
     (\<lambda>_ w'. config_view (env_rows E w') \<in> {config_view (env_rows E w),
         (config_view (env_rows E w))((sr_scope r, key) \<mapsto> PStr v)}) w"
proof -
  have t: "svc_table (repo_service (sr_repo r)) = ''Config''" using assms by (simp add: on_config_def repo_service_def)
  have val: "dget (config_entity (sr_scope r) key v t d by' now) ''Value'' x = PStr v" for now x
    by (simp add: config_entity_def dget_def)
  show ?thesis
    unfolding set_config_def Let_def repo_upsert_def wp_bind wp_then
  proof (rule wp_utcnow, rule wp_upsert_entity [OF config_entity_key], goal_cases)
    case (1 now w1 w2)
    then have "config_view (env_rows E w2) = (config_view (env_rows E w))((sr_scope r, key) \<mapsto> PStr v)"
      by (simp add: t config_view_put config_entity_value)
    then show ?case by (intro wp_config_model) (auto simp: val)
  qed (auto simp: t config_view_put config_entity_value)
qed

lemma wp_delete_config:
  assumes "on_config r"
  shows "wp (delete_config E r key)
     (\<lambda>b w'. config_view (env_rows E w') = (config_view (env_rows E w))((sr_scope r, key) := None)
        \<and> (b \<or> config_view (env_rows E w) (sr_scope r, key) = None))
     (\<lambda>_ w'. config_view (env_rows E w') \<in> {config_view (env_rows E w),
         (config_view (env_rows E w))((sr_scope r, key) := None)}) w"
proof -
  have t: "svc_table (repo_service (sr_repo r)) = ''Config''" using assms by (simp add: on_config_def repo_service_def)
  show ?thesis
    unfolding delete_config_def repo_delete_def
    by (rule wp_delete_entity) (auto simp: t config_view_put config_view_def)
qed

lemma wp_get_config:
  assumes "on_config r"
  shows "wp (get_config E r key fb)
     (\<lambda>res w'. env_rows E w' = env_rows E w
       \<and> (case config_lookup (config_view (env_rows E w)) (sr_scope r) fb key of
            None \<Rightarrow> res = None
          | Some v \<Rightarrow> \<exists>m. res = Some m \<and> (\<forall>s. v = PStr s \<longrightarrow> m ''value'' = Some (PStr s))))
     (\<lambda>_ w'. env_rows E w' = env_rows E w) w"
proof -
  have t: "svc_table (repo_service (sr_repo r)) = ''Config''" using assms by (simp add: on_config_def repo_service_def)
  have val: "dget d ''Value'' x = dget e ''Value'' x" if "\<And>k. k \<noteq> ''etag'' \<Longrightarrow> d k = deserialize_datetime_fields E e k" for d e x
    by (simp add: dget_def that datetime_fields_def)
  have model: "wp (config_entity_to_model E d key)
      (\<lambda>m w'. env_rows E w' = env_rows E w \<and> (\<forall>s. dget e ''Value'' (PStr []) = PStr s \<longrightarrow> m ''value'' = Some (PStr s)))
      (\<lambda>_ w'. env_rows E w' = env_rows E w) w1"
    if "env_rows E w1 = env_rows E w" "\<forall>k. k \<noteq> ''etag'' \<longrightarrow> d k = deserialize_datetime_fields E e k" for d e w1
    by (rule wp_config_model) (use that val [of d e] in auto)
  show ?thesis
    unfolding get_config_def get_with_fallback_def get_by_id_def wp_bind wp_if
    by (auto simp: t config_lookup_def config_view_def intro!: wp_get_entity model split: if_splits)
qed

end

section \<open>Which keys are accepted\<close>

text \<open>
  A row that makes a key valid: its hash, not revoked, and either a global key or a key of the
  workflow that is asked for.
\<close>

definition accepting_row :: "string \<Rightarrow> string option \<Rightarrow> string \<Rightarrow> entity \<Rightarrow> bool" where
  "accepting_row hashed_key workflow_id rk e \<longleftrightarrow> e ''HashedKey'' = Some (PStr hashed_key) \<and> e ''Revoked'' = Some (PBool False)
     \<and> ((\<exists>s. rk = global_key_row s) \<or> opt_truthy workflow_id \<and> (\<exists>s. rk = workflow_key_row s)
          \<and> e ''WorkflowId'' = Some (PStr (str_or workflow_id [])))"

lemma sat_key_ranges:
  assumes "entity_key e = Some (q, rk)"
  shows "sat (workflow_key_range @ cs) e \<longleftrightarrow> q = ''GLOBAL'' \<and> (\<exists>s. rk = workflow_key_row s) \<and> sat cs e"
    and "sat (global_key_range @ cs) e \<longleftrightarrow> q = ''GLOBAL'' \<and> (\<exists>s. rk = global_key_row s) \<and> sat cs e"
proof -
  have "''workflowkey:'' \<le> rk \<and> rk < ''workflowkey;'' \<longleftrightarrow> (\<exists>s. rk = workflow_key_row s)"
    using range_between [of "''workflowkey''" "CHR '':''" rk "CHR '';''"] char_between
    by (auto simp: workflow_key_row_def)
  then show "sat (workflow_key_range @ cs) e \<longleftrightarrow> q = ''GLOBAL'' \<and> (\<exists>s. rk = workflow_key_row s) \<and> sat cs e"
    using assms by (auto simp: workflow_key_range_def entity_key_Some)
  have "''systemconfig:globalkey:'' \<le> rk \<and> rk < ''systemconfig:globalkey;'' \<longleftrightarrow> (\<exists>s. rk = global_key_row s)"
    using range_between [of "''systemconfig:globalkey''" "CHR '':''" rk "CHR '';''"] char_between
    by (auto simp: global_key_row_def)
  then show "sat (global_key_range @ cs) e \<longleftrightarrow> q = ''GLOBAL'' \<and> (\<exists>s. rk = global_key_row s) \<and> sat cs e"
    using assms by (auto simp: global_key_range_def entity_key_Some)
qed

lemma key_row_parts:
  "e ''RowKey'' = Some (PStr (workflow_key_row s)) \<Longrightarrow> row_key_part 1 e = Inr s"
  "e ''RowKey'' = Some (PStr (global_key_row s)) \<Longrightarrow> row_key_part 2 e = Inr s"
proof -
  have "split_max CHR '':'' 1 (''workflowkey:'' @ s) = [''workflowkey'', s]"
    using split_max_sep [of "CHR '':''" "''workflowkey''" 0 s] by simp
  then show "e ''RowKey'' = Some (PStr (workflow_key_row s)) \<Longrightarrow> row_key_part 1 e = Inr s"
    by (simp add: row_key_part_def workflow_key_row_def)
  have "split_max CHR '':'' 2 (''systemconfig:globalkey:'' @ s) = [''systemconfig'', ''globalkey'', s]"
    using split_max_sep [of "CHR '':''" "''systemconfig''" 1 "''globalkey:'' @ s"]
      split_max_sep [of "CHR '':''" "''globalkey''" 0 s] by (simp add: numeral_2_eq_2)
  then show "e ''RowKey'' = Some (PStr (global_key_row s)) \<Longrightarrow> row_key_part 2 e = Inr s"
    by (simp add: row_key_part_def global_key_row_def)
qed

context available_sdk
begin

lemma wp_use_key:
  assumes "ok w" and row: "env_rows E w ''Config'' (q, rk) = Some e" and "e ''Revoked'' = Some (PBool False)"
    and part: "row_key_part n (deserialize_datetime_fields E e) = Inr s"
  shows "wp (use_key E global_config_repository n (deserialize_datetime_fields E e)) (\<lambda>r _. fst r) (\<lambda>_ _. False) w"
proof -
  let ?d = "deserialize_datetime_fields E e"
  have key: "entity_key (?d(''LastUsedAt'' \<mapsto> PStr now)) = Some (q, rk)" for now
    using rows_keyed [OF row] by (simp add: entity_key_Some)
  have t: "svc_table (repo_service (sr_repo global_config_repository)) = ''Config''"
    by (simp add: repo_service_def global_config_repository_def)
  have rev: "\<not> truthy (dget ?d ''Revoked'' (PBool False))"
    using assms(3) by (simp add: dget_def datetime_fields_def)
  have part': "row_key_part n (?d(''LastUsedAt'' \<mapsto> PStr now)) = Inr s" for now
    using part by (simp add: row_key_part_def)
  show ?thesis
    unfolding use_key_def Let_def wp_if wp_bind repo_update_def wp_then using rev
    by (auto simp: part' t row intro!: wp_utcnow_ok [OF assms(1)] wp_update_entity_ok [OF _ key])
qed

lemma wp_key_query:
  assumes "ok w" "\<forall>c \<in> set cs. clean_clause c" "cs \<noteq> []"
    and "\<And>w'. ok w' \<Longrightarrow> env_rows E w' = env_rows E w
      \<Longrightarrow> (\<And>k e. env_rows E w ''Config'' k = Some e \<Longrightarrow> \<not> sat cs e) \<Longrightarrow> Q [] w'"
    and "\<And>k e es w'. ok w' \<Longrightarrow> env_rows E w' = env_rows E w \<Longrightarrow> env_rows E w ''Config'' k = Some e \<Longrightarrow> sat cs e
      \<Longrightarrow> Q (deserialize_datetime_fields E e # es) w'"
  shows "wp (repo_query E (sr_repo global_config_repository) (odata cs) None) Q R w"
  unfolding repo_query_def
proof (rule wp_query_entities_ok [OF assms(1,2)], goal_cases)
  case (2 ks w')
  have t: "svc_table (repo_service (sr_repo global_config_repository)) = ''Config''"
    by (simp add: repo_service_def global_config_repository_def)
  show ?case
  proof (cases ks)
    case Nil
    then show ?thesis using 2 assms(4) by (force simp: t fetch_def selects_def)
  next
    case (Cons k ks')
    then obtain e where "env_rows E w ''Config'' k = Some e" "sat cs e"
      using 2(3) by (force simp: t selects_def)
    then show ?thesis using 2(1,2) assms(5) by (simp add: Cons fetch_def t)
  qed
qed (use assms(3) odata_nonempty in simp)

lemma wp_validate_key:
  assumes "ok w" "no_quote h" "no_quote (str_or wid [])"
  shows "wp (validate_workflow_key E global_config_repository h wid)
    (\<lambda>r _. fst r \<longleftrightarrow> (\<exists>rk e. env_rows E w ''Config'' (''GLOBAL'', rk) = Some e \<and> accepting_row h wid rk e))
    (\<lambda>_ _. False) w"
proof -
  let ?acc = "\<exists>rk e. env_rows E w ''Config'' (''GLOBAL'', rk) = Some e \<and> accepting_row h wid rk e"
  let ?global = "odata (global_key_range @ [(''HashedKey'', OEq, OStr h), (''Revoked'', OEq, OBool False)])"
  have use: "wp (use_key E global_config_repository n (deserialize_datetime_fields E e)) (\<lambda>r _. fst r \<longleftrightarrow> ?acc) (\<lambda>_ _. False) w1"
    if "ok w1" "env_rows E w1 = env_rows E w" "env_rows E w ''Config'' (''GLOBAL'', rk) = Some e" "accepting_row h wid rk e"
      "row_key_part n (deserialize_datetime_fields E e) = Inr s" for w1 n e rk s
    by (rule wp_mono [OF wp_use_key [where q = "''GLOBAL''" and rk = rk and s = s]]) (use that in \<open>auto simp: accepting_row_def\<close>)
  have glob: "wp (repo_query E (sr_repo global_config_repository) ?global None)
      (\<lambda>es. wp (case es of [] \<Rightarrow> ret (False, PNone) | e # _ \<Rightarrow> use_key E global_config_repository 2 e)
          (\<lambda>r _. fst r \<longleftrightarrow> ?acc) (\<lambda>_ _. False)) (\<lambda>_ _. False) w1"
    if w1: "ok w1" "env_rows E w1 = env_rows E w"
      and none: "\<And>rk e. opt_truthy wid \<Longrightarrow> env_rows E w ''Config'' (''GLOBAL'', rk) = Some e
         \<Longrightarrow> e ''WorkflowId'' = Some (PStr (str_or wid [])) \<Longrightarrow> accepting_row h wid rk e \<Longrightarrow> \<exists>s. rk = global_key_row s" for w1
  proof (rule wp_key_query [OF w1(1)], goal_cases)
    case (3 w2)
    then show ?case
      using w1(2) none sat_key_ranges(2) [OF rows_keyed] by (fastforce simp: accepting_row_def)
  next
    case (4 k e es w2)
    obtain q rk where k: "k = (q, rk)" by fastforce
    have "entity_key e = Some (q, rk)" using rows_keyed [OF 4(3)] by (simp add: k)
    from sat_key_ranges(2) [OF this] 4(4) obtain s where s: "q = ''GLOBAL''" "rk = global_key_row s"
      and e: "e ''HashedKey'' = Some (PStr h)" "e ''Revoked'' = Some (PBool False)"
      by (auto simp del: sat_clause.simps(1))
    have row: "env_rows E w ''Config'' (''GLOBAL'', rk) = Some e" using 4(3) w1(2) by (simp add: k s(1))
    then have part: "row_key_part 2 (deserialize_datetime_fields E e) = Inr s"
      using deserialize_RowKey by (intro key_row_parts(2)) (auto simp: s(2))
    have "wp (use_key E global_config_repository 2 (deserialize_datetime_fields E e)) (\<lambda>r _. fst r \<longleftrightarrow> ?acc) (\<lambda>_ _. False) w2"
      by (rule use [OF 4(1) _ row _ part]) (use 4(2) w1(2) e s in \<open>auto simp: accepting_row_def\<close>)
    then show ?case by simp
  qed (use assms in \<open>auto simp: global_key_range_def\<close>)
  show ?thesis
  proof (cases "opt_truthy wid")
    case False
    then show ?thesis
      unfolding validate_workflow_key_def Let_def by (simp only: if_False wp_bind) (rule glob [OF assms(1) refl], simp)
  next
    case True
    show ?thesis
      unfolding validate_workflow_key_def Let_def
    proof (simp only: True if_True wp_bind, rule wp_key_query [OF assms(1)], goal_cases)
      case (3 w1)
      have "\<exists>s. rk = global_key_row s" if "env_rows E w ''Config'' (''GLOBAL'', rk) = Some e" "accepting_row h wid rk e" for rk e
        using that 3(3) [OF that(1)] sat_key_ranges(1) [OF rows_keyed [OF that(1)]] True by (auto simp: accepting_row_def)
      then show ?case by simp (intro glob 3(1,2))
    next
      case (4 k e es w1)
      obtain q rk where k: "k = (q, rk)" by fastforce
      have "entity_key e = Some (q, rk)" using rows_keyed [OF 4(3)] by (simp add: k)
      from sat_key_ranges(1) [OF this] 4(4) obtain s where s: "q = ''GLOBAL''" "rk = workflow_key_row s"
        and e: "e ''HashedKey'' = Some (PStr h)" "e ''Revoked'' = Some (PBool False)"
          "e ''WorkflowId'' = Some (PStr (str_or wid []))"
        by (auto simp del: sat_clause.simps(1))
      have row: "env_rows E w ''Config'' (''GLOBAL'', rk) = Some e" using 4(3) by (simp add: k s(1))
      then have part: "row_key_part 1 (deserialize_datetime_fields E e) = Inr s"
        using deserialize_RowKey by (intro key_row_parts(1)) (auto simp: s(2))
      have "wp (use_key E global_config_repository 1 (deserialize_datetime_fields E e)) (\<lambda>r _. fst r \<longleftrightarrow> ?acc) (\<lambda>_ _. False) w1"
        by (rule use [OF 4(1,2) row _ part]) (use e s True in \<open>auto simp: accepting_row_def\<close>)
      then show ?case by simp
    qed (use assms in \<open>auto simp: workflow_key_range_def\<close>)
  qed
qed

end

section \<open>Properties\<close>

text \<open>
  C25: configuration refines a map from scope and key to values. A successful \<open>set_config\<close> or
  \<open>delete_config\<close> changes the map at the caller's scope and the key and nowhere else; one that raises
  has either that effect or none. \<open>get_config\<close> changes nothing, and answers the value of the caller's scope or
  else, when asked to fall back, the global one; it answers \<open>None\<close> exactly when there is neither.
\<close>

theorem config_refines_map:
  assumes "table_sdk E" and "on_config r"
  defines "view \<equiv> \<lambda>w. config_view (env_rows E w)"
  shows "(case set_config E r key v t d by' w of
        (Inr m, w') \<Rightarrow> m ''value'' = Some (PStr v) \<and> view w' = (view w)((sr_scope r, key) \<mapsto> PStr v)
      | (Inl e, w') \<Rightarrow> view w' \<in> {view w, (view w)((sr_scope r, key) \<mapsto> PStr v)})
    \<and> (case delete_config E r key w of
        (Inr b, w') \<Rightarrow> view w' = (view w)((sr_scope r, key) := None) \<and> (b \<or> view w (sr_scope r, key) = None)
      | (Inl e, w') \<Rightarrow> view w' \<in> {view w, (view w)((sr_scope r, key) := None)})
    \<and> (case get_config E r key fb w of
        (Inr res, w') \<Rightarrow> view w' = view w \<and> (case config_lookup (view w) (sr_scope r) fb key of
            None \<Rightarrow> res = None
          | Some x \<Rightarrow> \<exists>m. res = Some m \<and> (\<forall>s. x = PStr s \<longrightarrow> m ''value'' = Some (PStr s)))
      | (Inl e, w') \<Rightarrow> view w' = view w)"
  using table_sdk.wp_set_config [OF assms(1,2), of key v t d by' w] table_sdk.wp_delete_config [OF assms(1,2), of key w]
    table_sdk.wp_get_config [OF assms(1,2), of key fb w]
  by (auto simp: wp_def view_def split: prod.splits sum.splits)

definition acme_config :: scoped_repo where
  "acme_config = \<lparr>sr_repo = \<lparr>repo_table = ''Config'', repo_context = None\<rparr>, sr_org_id = ''acme'', sr_scope = ''acme''\<rparr>"

text \<open>An organization without a value of its own reads the global one, until it sets its own.\<close>

theorem config_refines_map_witness:
  "\<exists>m w1 n w2 x w3. set_config mem_env global_config_repository ''region'' ''eu'' STRING None ''root'' empty_world = (Inr m, w1)
     \<and> set_config mem_env acme_config ''region'' ''us'' STRING None ''ann'' w1 = (Inr n, w2)
     \<and> config_view (mem_view w2) (''acme'', ''region'') = Some (PStr ''us'')
     \<and> config_view (mem_view w2) (''GLOBAL'', ''region'') = Some (PStr ''eu'')
     \<and> get_config mem_env acme_config ''region'' True w1 = (Inr (Some x), w3) \<and> x ''value'' = Some (PStr ''eu'')"
proof -
  let ?set = "\<lambda>r v. set_config mem_env r ''region'' v STRING None"
  have on: "on_config global_config_repository" "on_config acme_config"
    by (simp_all add: on_config_def global_config_repository_def acme_config_def)
  note laws = config_refines_map [OF mem.table_sdk_axioms, unfolded mem_env_rows]
  have "case ?set global_config_repository ''eu'' ''root'' empty_world of
      (Inr m, w1) \<Rightarrow> (case ?set acme_config ''us'' ''ann'' w1 of (Inr _, _) \<Rightarrow>
          (case get_config mem_env acme_config ''region'' True w1 of (Inr _, _) \<Rightarrow> True | _ \<Rightarrow> False) | _ \<Rightarrow> False)
    | _ \<Rightarrow> False"
    by code_simp
  then obtain m w1 n w2 res w3 where run: "?set global_config_repository ''eu'' ''root'' empty_world = (Inr m, w1)"
    "?set acme_config ''us'' ''ann'' w1 = (Inr n, w2)" "get_config mem_env acme_config ''region'' True w1 = (Inr res, w3)"
    by (auto split: prod.splits sum.splits)
  have start: "config_view (mem_view empty_world) = Map.empty"
    by (rule ext) (simp add: config_view_def mem_view_def empty_world_def)
  have one: "config_view (mem_view w1) = [(''GLOBAL'', ''region'') \<mapsto> PStr ''eu'']"
    using laws [OF on(1), where key = "''region''" and v = "''eu''" and t = STRING and d = None and by' = "''root''" and w = empty_world] run(1) start
    by (simp add: global_config_repository_def)
  have two: "config_view (mem_view w2) = [(''GLOBAL'', ''region'') \<mapsto> PStr ''eu'', (''acme'', ''region'') \<mapsto> PStr ''us'']"
    using laws [OF on(2), where key = "''region''" and v = "''us''" and t = STRING and d = None and by' = "''ann''" and w = w1] run(2) one by (simp add: acme_config_def)
  have three: "\<exists>x. res = Some x \<and> x ''value'' = Some (PStr ''eu'')"
    using laws [OF on(2), where key = "''region''" and w = w1 and fb = True] run(3) one
    by (auto simp: acme_config_def config_lookup_def)
  show ?thesis using run two three by auto
qed

text \<open>
  C26: an API key is accepted for a workflow exactly when some row that is not revoked has its hash,
  and is either a global key or a key of that workflow. Nothing else counts: neither the date a
  key expires nor a key of the workflow that asks to disable global keys. (The table service is
  available; the hash and the workflow hold no quote.)
\<close>

theorem workflow_key_accepted_iff:
  assumes "available_sdk E ok" and "ok w" and "no_quote (sha api_key)" and "no_quote (str_or wid [])"
  shows "\<exists>accepted key_id w'. check_workflow_key E sha api_key wid w = (Inr (accepted, key_id), w')
    \<and> (accepted \<longleftrightarrow> (\<exists>rk e. env_rows E w ''Config'' (''GLOBAL'', rk) = Some e \<and> accepting_row (sha api_key) wid rk e))"
  using available_sdk.wp_validate_key [OF assms]
  by (auto simp: wp_def check_workflow_key_def py_catch_def split: prod.splits sum.splits)

text \<open>
  The global key has expired and the workflow has a key of its own that disables global keys.
\<close>

definition keys_world :: mem where
  "keys_world = empty_world\<lparr>mem_rows :=
     [((''Config'', (''GLOBAL'', ''systemconfig:globalkey:g'')),
        [''PartitionKey'' \<mapsto> PStr ''GLOBAL'', ''RowKey'' \<mapsto> PStr ''systemconfig:globalkey:g'', ''KeyId'' \<mapsto> PStr ''g'',
         ''HashedKey'' \<mapsto> PStr ''h1'', ''Revoked'' \<mapsto> PBool False, ''ExpiresAt'' \<mapsto> PStr ''1970-01-01'']),
      ((''Config'', (''GLOBAL'', ''workflowkey:k'')),
        [''PartitionKey'' \<mapsto> PStr ''GLOBAL'', ''RowKey'' \<mapsto> PStr ''workflowkey:k'', ''KeyId'' \<mapsto> PStr ''k'',
         ''HashedKey'' \<mapsto> PStr ''h2'', ''WorkflowId'' \<mapsto> PStr ''sync'', ''Revoked'' \<mapsto> PBool False,
         ''DisableGlobalKey'' \<mapsto> PBool True])]\<rparr>"

theorem workflow_key_accepted_iff_witness:
  "\<exists>key_id w'. check_workflow_key mem_env (\<lambda>_. ''h1'') ''secret'' (Some ''sync'') keys_world = (Inr (True, key_id), w')"
proof -
  have "accepting_row ''h1'' (Some ''sync'') ''systemconfig:globalkey:g''
      (the (mem_view keys_world ''Config'' (''GLOBAL'', ''systemconfig:globalkey:g'')))"
    and "mem_view keys_world ''Config'' (''GLOBAL'', ''systemconfig:globalkey:g'') \<noteq> None"
    by (simp_all add: accepting_row_def mem_view_def keys_world_def global_key_row_def entity_key_def)
  then show ?thesis
    using workflow_key_accepted_iff [OF mem.available_sdk_axioms, of keys_world "\<lambda>_. ''h1''" "''secret''" "Some ''sync''"]
    by (force simp: keys_world_def empty_world_def)
qed

end
