(* ===== verification/Middleware.thy ===== *)
theory Middleware
  imports Request_Context Config_Repository
begin

text \<open>
  \<open>shared/middleware.py\<close> with the two readers of \<open>shared/storage.py\<close> it uses: the execution context of
  an endpoint, with the organization of the request and its configuration, and the decorators
  that make it. A handler is a parameter: it gets the context and the request and answers a status and
  a body. The fields of a principal and the name of an organization are text in the context.
\<close>

section \<open>Organization and configuration\<close>

definition get_organization_async :: "'w env \<Rightarrow> string \<Rightarrow> ('w, entity option) py" where
  "get_organization_async E org_id =
     py_bind (lift (async_table_storage_service E ''Entities'' None None)) (\<lambda>s.
     py_bind (get_entity E s ''GLOBAL'' (''org:'' @ org_id)) (\<lambda>res. case res of
       Some e \<Rightarrow> ret (Some e)
     | None \<Rightarrow> get_entity E s org_id (''org:'' @ org_id)))"

definition get_org_config_async :: "'w env \<Rightarrow> string \<Rightarrow> ('w, entity list) py" where
  "get_org_config_async E org_id =
     py_bind (lift (async_table_storage_service E ''Config'' None None)) (\<lambda>s.
       query_by_org E s org_id (Some ''config:'') None)"

text \<open>\<open>s.replace(old, new, 1)\<close>.\<close>

fun replace_first :: "string \<Rightarrow> string \<Rightarrow> string \<Rightarrow> string" where
  "replace_first old new [] = []"
| "replace_first old new (c # s) =
     (if prefix old (c # s) then new @ drop (length old) (c # s) else c # replace_first old new s)"

definition config_value :: "'w env \<Rightarrow> entity \<Rightarrow> exn + pyval" where
  "config_value E e = (let v = dget0 e ''Value'' in
     if dget0 e ''Type'' = PStr ''json'' then
       (case v of PNone \<Rightarrow> Inl (AppError ''AssertionError'' ''Value cannot be None for JSON parsing'')
        | PStr s \<Rightarrow> Inr (case env_loads E s of Some j \<Rightarrow> j | None \<Rightarrow> v)
        | _ \<Rightarrow> Inl (TypeError ''the JSON object must be str, bytes or bytearray''))
     else Inr v)"

definition config_item :: "'w env \<Rightarrow> entity \<Rightarrow> exn + string \<times> pyval" where
  "config_item E e = (case e ''RowKey'' of
     None \<Rightarrow> Inl (KeyError ''RowKey'')
   | Some (PStr rk) \<Rightarrow> map_sum id (Pair (replace_first ''config:'' [] rk)) (config_value E e)
   | Some _ \<Rightarrow> Inl (AttributeError ''replace''))"

definition load_config_for_partition :: "'w env \<Rightarrow> string \<Rightarrow> ('w, entity) py" where
  "load_config_for_partition E partition_key =
     py_bind (get_org_config_async E partition_key) (\<lambda>es.
     py_bind (lift (map_exn (config_item E) es)) (\<lambda>items.
       ret (foldl (\<lambda>c (k, v). c(k \<mapsto> v)) Map.empty items)))"

definition organization_not_found :: "string \<Rightarrow> exn" where
  "organization_not_found s = AppError ''OrganizationNotFoundError'' s"

text \<open>The organization of an id, which must exist and be active, with its configuration.\<close>

definition load_active_organization :: "'w env \<Rightarrow> string \<Rightarrow> ('w, organization \<times> entity) py" where
  "load_active_organization E org_id =
     py_bind (get_organization_async E org_id) (\<lambda>res. case res of
       None \<Rightarrow> raise (organization_not_found (''Organization '' @ org_id @ '' not found''))
     | Some e \<Rightarrow>
        (if \<not> truthy (dget e ''IsActive'' (PBool False))
         then raise (organization_not_found (''Organization '' @ org_id @ '' is inactive''))
         else py_bind (lift (row_key_part 1 e)) (\<lambda>org_uuid.
           (case e ''Name'' of None \<Rightarrow> raise (KeyError ''Name'')
            | Some name \<Rightarrow> py_bind (load_config_for_partition E org_id) (\<lambda>config.
                ret (\<lparr>o_id = org_uuid, o_name = fstr E name, o_is_active = dget0 e ''IsActive''\<rparr>, config))))))"

section \<open>The context of a request\<close>

definition key_caller :: "http_request \<Rightarrow> string \<Rightarrow> caller" where
  "key_caller req key_name = (let uid = req_headers req ''X-User-Id'' in
     if opt_truthy uid
     then \<lparr>caller_user_id = str_or uid [], caller_email = str_or uid [], caller_name = str_or uid []\<rparr>
     else \<lparr>caller_user_id = ''function_key:'' @ key_name, caller_email = ''function-key@system.local'',
           caller_name = ''Function Key ('' @ key_name @ '')''\<rparr>)"

definition user_caller :: "'w env \<Rightarrow> user_principal \<Rightarrow> caller" where
  "user_caller E u = \<lparr>caller_user_id = fstr E (up_user_id u), caller_email = fstr E (up_email u),
     caller_name = fstr E (if truthy (up_name u) then up_name u else up_email u)\<rparr>"

type_synonym loaded = "string option \<times> organization option \<times> entity"

text \<open>What the headers ask for: an organization, or the global configuration.\<close>

definition requested_organization :: "'w env \<Rightarrow> string option \<Rightarrow> ('w, loaded) py" where
  "requested_organization E org_id =
     (if opt_truthy org_id
      then py_bind (load_active_organization E (str_or org_id [])) (\<lambda>(org, config). ret (org_id, Some org, config))
      else py_bind (load_config_for_partition E ''GLOBAL'') (\<lambda>config. ret (org_id, None, config)))"

text \<open>Without a requested organization, a user who is no administrator gets the assigned one.\<close>

definition own_organization :: "'w env \<Rightarrow> user_principal \<Rightarrow> loaded \<Rightarrow> ('w, loaded) py" where
  "own_organization E u l =
     (if opt_truthy (fst l) then ret l
      else py_bind (lift (py_contains ''PlatformAdmin'' (up_roles u))) (\<lambda>admin.
        if admin then ret l
        else py_bind (get_user_organization E (fstr E (up_email u))) (\<lambda>uo.
          if opt_truthy uo then py_bind (load_active_organization E (str_or uo [])) (\<lambda>(org, config).
            ret (uo, Some org, config))
          else raise (organization_not_found (''User '' @ fstr E (up_email u)
            @ '' has no organization assignment. Contact your administrator to assign you to an organization.'')))))"

definition load_organization_context :: "'w env \<Rightarrow> string option \<Rightarrow> http_request \<Rightarrow> ('w, exec_context) py" where
  "load_organization_context E org_id req =
     py_bind (requested_organization E org_id) (\<lambda>l.
     py_bind (authenticate E req) (\<lambda>p.
     py_bind (case p of FunctionKeyPrincipal k n \<Rightarrow> ret (key_caller req n, l)
              | UserPrincipal u \<Rightarrow> py_bind (own_organization E u l) (\<lambda>l'. ret (user_caller E u, l'))) (\<lambda>(c, l').
     py_bind (uuid4 E) (\<lambda>execution_id.
     py_bind (case p of FunctionKeyPrincipal k n \<Rightarrow> ret True
              | UserPrincipal u \<Rightarrow> lift (py_contains ''PlatformAdmin'' (up_roles u))) (\<lambda>admin.
     ret \<lparr>ctx_user_id = caller_user_id c, ctx_email = caller_email c, ctx_name = caller_name c,
          ctx_scope = (case fst l' of None \<Rightarrow> ''GLOBAL'' | Some o' \<Rightarrow> o'), ctx_organization = fst (snd l'),
          ctx_is_platform_admin = admin, ctx_is_function_key = is_function_key p,
          ctx_execution_id = execution_id, ctx_config = snd (snd l'), ctx_integration_calls = []\<rparr>)))))"

section \<open>Decorators\<close>

type_synonym http_response = "int \<times> pyval"
type_synonym 'w handler = "exec_context \<Rightarrow> http_request \<Rightarrow> ('w, http_response) py"

definition error_response :: "int \<Rightarrow> string \<Rightarrow> string \<Rightarrow> http_response" where
  "error_response status err message = (status, PDict [(''error'', PStr err), (''message'', PStr message)])"

definition is_organization_not_found :: "exn \<Rightarrow> bool" where
  "is_organization_not_found x = (case x of AppError c m \<Rightarrow> c = ''OrganizationNotFoundError'' | _ \<Rightarrow> False)"

definition with_org_context :: "'w env \<Rightarrow> 'w handler \<Rightarrow> http_request \<Rightarrow> ('w, http_response) py" where
  "with_org_context E handler req = py_catch
     (py_bind (load_organization_context E (req_headers req ''X-Organization-Id'') req) (\<lambda>ctx. handler ctx req))
     (\<lambda>x. ret (if is_organization_not_found x then error_response 404 ''NotFound'' (exn_msg x)
               else error_response 500 ''InternalServerError'' ''Failed to load organization context''))"

text \<open>What the decorators and the worker read of a workflow's metadata.\<close>

record workflow_metadata =
  wm_timeout_seconds :: int
  wm_public_endpoint :: bool

definition global_context :: "string \<Rightarrow> string \<Rightarrow> string \<Rightarrow> bool \<Rightarrow> entity \<Rightarrow> string \<Rightarrow> exec_context" where
  "global_context user_id email name key_access config execution_id =
     \<lparr>ctx_user_id = user_id, ctx_email = email, ctx_name = name, ctx_scope = ''GLOBAL'', ctx_organization = None,
      ctx_is_platform_admin = key_access, ctx_is_function_key = key_access, ctx_execution_id = execution_id,
      ctx_config = config, ctx_integration_calls = []\<rparr>"

definition call_global :: "'w env \<Rightarrow> 'w handler \<Rightarrow> http_request \<Rightarrow> (entity \<Rightarrow> string \<Rightarrow> exec_context) \<Rightarrow> ('w, http_response) py" where
  "call_global E handler req ctx_of = py_bind (load_config_for_partition E ''GLOBAL'') (\<lambda>config.
     py_bind (uuid4 E) (\<lambda>execution_id. handler (ctx_of config execution_id) req))"

definition with_api_key :: "'w env \<Rightarrow> (string \<Rightarrow> string) \<Rightarrow> 'w handler \<Rightarrow> http_request \<Rightarrow> string \<Rightarrow> ('w, http_response) py" where
  "with_api_key E sha handler req api_key = py_catch
     (py_bind (check_workflow_key E sha api_key (req_route req ''workflowName'')) (\<lambda>(is_valid, key_id).
        if is_valid then call_global E handler req
          (global_context (if truthy key_id then ''api_key:'' @ fstr E key_id else ''api_key:unknown'') ''api-key@system.local''
             (if truthy key_id then ''API Key ('' @ fstr E key_id @ '')'' else ''API Key'') True)
        else ret (error_response 401 ''Unauthorized'' ''Invalid or revoked API key'')))
     (\<lambda>_. ret (error_response 401 ''Unauthorized'' ''API key validation failed''))"

definition has_workflow_key :: "'w env \<Rightarrow> (string \<Rightarrow> string) \<Rightarrow> (string \<Rightarrow> ('w, workflow_metadata option) py)
    \<Rightarrow> 'w handler \<Rightarrow> http_request \<Rightarrow> ('w, http_response) py" where
  "has_workflow_key E sha load_workflow handler req =
     (let workflow_id = req_route req ''workflowName'' in
      py_bind (if opt_truthy workflow_id then load_workflow (str_or workflow_id []) else ret None) (\<lambda>metadata.
        if (case metadata of None \<Rightarrow> False | Some m \<Rightarrow> wm_public_endpoint m)
        then call_global E handler req (global_context ''public:anonymous'' ''public@system.local''
               ''Public Access (Webhook)'' False)
        else let auth_header = header_or req ''Authorization'' [] in
          if startswith auth_header ''Bearer '' then with_api_key E sha handler req (drop 7 auth_header)
          else with_org_context E handler req))"

section \<open>Which organization\<close>

text \<open>The organization exists, in \<open>GLOBAL\<close> or else in its own partition, and is active.\<close>

definition active_organization :: "tables \<Rightarrow> string \<Rightarrow> bool" where
  "active_organization R org \<longleftrightarrow> (\<exists>e. truthy (dget e ''IsActive'' (PBool False))
     \<and> (R ''Entities'' (''GLOBAL'', ''org:'' @ org) = Some e
        \<or> R ''Entities'' (''GLOBAL'', ''org:'' @ org) = None \<and> R ''Entities'' (org, ''org:'' @ org) = Some e))"

lemma org_row_part: "e ''RowKey'' = Some (PStr (''org:'' @ org)) \<Longrightarrow> row_key_part 1 e = Inr org"
  using split_max_sep [of "CHR '':''" "''org''" 0 org] by (simp add: row_key_part_def)

lemma async_service: "async_table_storage_service E t c x = Inr s \<Longrightarrow> svc_table s = t"
  by (auto simp: async_table_storage_service_def Let_def split: if_splits)

context table_sdk
begin

lemma wp_load_config:
  assumes "\<And>c w'. env_rows E w' = env_rows E w \<Longrightarrow> Q c w'" and "\<And>x w'. env_rows E w' = env_rows E w \<Longrightarrow> R x w'"
  shows "wp (load_config_for_partition E p) Q R w"
  unfolding load_config_for_partition_def get_org_config_async_def query_by_org_def wp_bind
  by (auto intro!: assms wp_mono [OF wp_query_entities_reads] split: sum.splits)

lemma wp_get_organization_async:
  assumes "\<And>e d w'. env_rows E w' = env_rows E w \<Longrightarrow> e ''RowKey'' = Some (PStr (''org:'' @ org))
      \<Longrightarrow> env_rows E w ''Entities'' (''GLOBAL'', ''org:'' @ org) = Some e
         \<or> env_rows E w ''Entities'' (''GLOBAL'', ''org:'' @ org) = None
           \<and> env_rows E w ''Entities'' (org, ''org:'' @ org) = Some e
      \<Longrightarrow> (\<And>k. k \<noteq> ''etag'' \<Longrightarrow> d k = deserialize_datetime_fields E e k) \<Longrightarrow> Q (Some d) w'"
    and "\<And>w'. env_rows E w' = env_rows E w \<Longrightarrow> Q None w'"
    and "\<And>x w'. env_rows E w' = env_rows E w \<Longrightarrow> R x w'"
  shows "wp (get_organization_async E org) Q R w"
proof (cases "async_table_storage_service E ''Entities'' None None")
  case (Inr s)
  have t: "svc_table s = ''Entities''" by (rule async_service [OF Inr])
  have key: "e ''RowKey'' = Some (PStr (''org:'' @ org))" if "env_rows E w' ''Entities'' (q, ''org:'' @ org) = Some e" for q e w'
    using rows_keyed [OF that] by (simp add: entity_key_Some)
  show ?thesis
    unfolding get_organization_async_def wp_bind Inr wp_lift sum.case
    by (rule wp_get_entity)
      (auto simp: t intro!: wp_get_entity intro: assms(2,3) assms(1) [OF _ key] simp del: append_Cons)
qed (simp add: get_organization_async_def assms(3))

lemma stays_rows [stays_intros]:
  "stays (\<lambda>w. env_rows E w = v) (utcnow E)" "stays (\<lambda>w. env_rows E w = v) (uuid4 E)"
  "stays (\<lambda>w. env_rows E w = v) (sdk_query E t f sel)"
  by (rule staysI, rule wp_utcnow wp_uuid4 wp_mono [OF query_reads]; simp)+

lemma stays_get_user_organization: "stays (\<lambda>w. env_rows E w = v) (get_user_organization E email)"
proof -
  have "stays (\<lambda>w. env_rows E w = v) (cached_org E email)"
  proof (rule staysI)
    fix w
    assume w: "env_rows E w = v"
    show "wp (cached_org E email) (\<lambda>_ w. env_rows E w = v) (\<lambda>_ w. env_rows E w = v) w"
    proof (cases "env_org_cache E w email")
      case None
      then show ?thesis using w by (simp add: cached_org_def wp_def)
    next
      case (Some x)
      obtain org at where x: "x = (org, at)" by fastforce
      have "cached_org E email w = py_bind (utcnow E) (\<lambda>now. py_bind (lift (dt_diff now at)) (\<lambda>age.
          if age < cache_ttl then ret (Some org)
          else (\<lambda>w. (Inr None, env_set_org_cache E ((env_org_cache E w)(email := None)) w)))) w"
        by (simp add: cached_org_def Some x)
      moreover have "stays (\<lambda>w. env_rows E w = v) (py_bind (utcnow E) (\<lambda>now. py_bind (lift (dt_diff now at)) (\<lambda>age.
          if age < cache_ttl then ret (Some org)
          else (\<lambda>w. (Inr None, env_set_org_cache E ((env_org_cache E w)(email := None)) w)))))"
        by (intro stays_intros) (simp add: stays_def set_org_cache_rows)
      ultimately have "env_rows E (snd (cached_org E email w)) = v" using w by (simp add: stays_def)
      then show ?thesis by (auto simp: wp_def split: prod.splits sum.splits)
    qed
  qed
  moreover have "stays (\<lambda>w. env_rows E w = v) (store_org E email org)" for org
    unfolding store_org_def by (intro stays_intros) (simp add: stays_def set_org_cache_rows)
  moreover have "stays (\<lambda>w. env_rows E w = v) (get_user_org_id E email)"
    unfolding get_user_org_id_def query_entities_def by (intro stays_intros) (auto intro!: stays_intros split: pyval.splits)
  ultimately show ?thesis
    unfolding get_user_organization_def by (intro stays_intros)
qed

lemma wp_authenticate:
  "wp (authenticate E req) (\<lambda>_ w'. env_rows E w' ''Entities'' = env_rows E w ''Entities'') (\<lambda>_ _. True) w"
proof -
  let ?I = "\<lambda>w'. env_rows E w' ''Entities'' = env_rows E w ''Entities''"
  have "wp (audit_key_usage E req k n) (\<lambda>_. ?I) (\<lambda>_ _. True) w" for k n
    unfolding audit_key_usage_def wp_catch
    by (rule wp_mono [OF wp_log_function_key_access]) (auto simp: grows_def)
  then have "wp (try_function_key E req) (\<lambda>_. ?I) (\<lambda>_ _. True) w"
    unfolding try_function_key_def by (auto split: option.splits)
  then show ?thesis
    unfolding authenticate_def wp_bind
    by (rule wp_mono) (auto split: option.splits sum.splits)
qed

lemma wp_load_active:
  "wp (load_active_organization E org) (\<lambda>(o', c) w'. env_rows E w' = env_rows E w \<and> o_id o' = org
     \<and> active_organization (env_rows E w) org) (\<lambda>_ _. True) w"
  unfolding load_active_organization_def wp_bind
proof (rule wp_get_organization_async, goal_cases)
  case (1 e d w1)
  have "row_key_part 1 d = Inr org" using 1(2,4) by (intro org_row_part) simp
  moreover have "dget d ''IsActive'' x = dget e ''IsActive'' x" for x
    using 1(4) by (simp add: dget_def datetime_fields_def)
  ultimately show ?case
    using 1(1,3) unfolding option.case wp_if
    by (auto simp: active_organization_def simp del: append_Cons split: option.splits intro!: wp_load_config)
qed simp_all

definition settled :: "'w \<Rightarrow> string option \<Rightarrow> loaded \<Rightarrow> bool" where
  "settled w org l \<longleftrightarrow> (\<exists>o' c. l = (fst l, Some o', c) \<and> opt_truthy (fst l) \<and> o_id o' = str_or (fst l) []
     \<and> active_organization (env_rows E w) (str_or (fst l) []) \<and> (opt_truthy org \<longrightarrow> fst l = org))"

lemma wp_requested:
  "wp (requested_organization E org) (\<lambda>l w'. env_rows E w' = env_rows E w
     \<and> (if opt_truthy org then settled w org l else fst l = org \<and> fst (snd l) = None)) (\<lambda>_ _. True) w"
proof (cases "opt_truthy org")
  case True
  then show ?thesis
    unfolding requested_organization_def
    by simp (rule wp_mono [OF wp_load_active], auto simp: settled_def)
qed (simp add: requested_organization_def wp_load_config)

lemma active_cong: "R ''Entities'' = R' ''Entities'' \<Longrightarrow> active_organization R = active_organization R'"
  by (rule ext) (simp add: active_organization_def)

lemma wp_own:
  assumes "env_rows E w1 ''Entities'' = env_rows E w ''Entities''"
    and "if opt_truthy org then settled w org l else fst l = org \<and> fst (snd l) = None"
  shows "wp (own_organization E u l)
     (\<lambda>l' _. settled w org l' \<or> \<not> opt_truthy org \<and> fst (snd l') = None \<and> py_contains ''PlatformAdmin'' (up_roles u) = Inr True)
     (\<lambda>_ _. True) w1"
proof (cases "opt_truthy org")
  case True
  then show ?thesis using assms(2) by (auto simp: own_organization_def settled_def)
next
  case False
  then have l: "\<not> opt_truthy (fst l)" using assms(2) by simp
  have own: "wp (get_user_organization E email) (\<lambda>uo v. env_rows E v = env_rows E w1) (\<lambda>_ _. True) w1" for email
    by (rule wp_mono [OF stays_wp [OF stays_get_user_organization]]) auto
  show ?thesis
    unfolding own_organization_def using l False assms(2)
    by (auto split: sum.splits intro!: wp_mono [OF own] wp_mono [OF wp_load_active]
        simp: settled_def active_cong [of "env_rows E w1" "env_rows E w", OF assms(1)])
qed

definition context_in_scope :: "'w \<Rightarrow> string option \<Rightarrow> exec_context \<Rightarrow> bool" where
  "context_in_scope w org ctx \<longleftrightarrow> (opt_truthy org \<longrightarrow> ctx_scope ctx = str_or org [])
     \<and> (case ctx_organization ctx of None \<Rightarrow> ctx_is_platform_admin ctx \<and> \<not> opt_truthy org
        | Some o' \<Rightarrow> o_id o' = ctx_scope ctx \<and> active_organization (env_rows E w) (ctx_scope ctx))"

lemma wp_load_context:
  "wp (load_organization_context E org req) (\<lambda>ctx _. context_in_scope w org ctx) (\<lambda>_ _. True) w"
  unfolding load_organization_context_def wp_bind
proof (rule wp_mono [OF wp_requested], goal_cases)
  case (1 l w1)
  then have rows: "env_rows E w1 = env_rows E w"
    and req: "if opt_truthy org then settled w org l else fst l = org \<and> fst (snd l) = None" by auto
  let ?done = "\<lambda>l' admin. settled w org l' \<or> \<not> opt_truthy org \<and> fst (snd l') = None \<and> admin"
  have settle: "context_in_scope w org \<lparr>ctx_user_id = a, ctx_email = b, ctx_name = c,
      ctx_scope = (case x of None \<Rightarrow> ''GLOBAL'' | Some o' \<Rightarrow> o'), ctx_organization = y,
      ctx_is_platform_admin = admin, ctx_is_function_key = d, ctx_execution_id = e, ctx_config = z,
      ctx_integration_calls = []\<rparr>" if d: "?done (x, y, z) admin" for a b c d e x y z admin
    using d by (auto simp: context_in_scope_def settled_def opt_truthy_def str_or_def split: option.splits if_splits)
  have key: "?done l True" using req by (auto split: if_splits)
  show ?case
  proof (rule wp_mono [OF wp_authenticate], goal_cases)
    case (1 p w2)
    then have ents: "env_rows E w2 ''Entities'' = env_rows E w ''Entities''" by (simp add: rows)
    show ?case
    proof (cases p)
      case (FunctionKeyPrincipal k n)
      then show ?thesis using key by (cases l) (auto intro!: wp_uuid4 settle)
    next
      case (UserPrincipal u)
      show ?thesis
        unfolding UserPrincipal principal.case wp_bind wp_ret
        by (rule wp_mono [OF wp_own [OF ents req, of u]]) (auto intro!: wp_uuid4 settle split: sum.splits)
    qed
  qed simp
qed simp

end

section \<open>Properties\<close>


definition organizations_world :: mem where
  "organizations_world = empty_world\<lparr>mem_rows :=
     [((''Entities'', (''GLOBAL'', ''org:other'')),
        [''PartitionKey'' \<mapsto> PStr ''GLOBAL'', ''RowKey'' \<mapsto> PStr ''org:other'', ''Name'' \<mapsto> PStr ''Other'',
         ''IsActive'' \<mapsto> PBool True]),
      ((''Relationships'', (''GLOBAL'', ''userperm:ann@acme.com:acme'')),
        [''PartitionKey'' \<mapsto> PStr ''GLOBAL'', ''RowKey'' \<mapsto> PStr ''userperm:ann@acme.com:acme''])]\<rparr>"


end
