(* ===== verification/Worker.thy ===== *)
theory Worker
  imports Engine Middleware Async_Executor
begin

text \<open>
  \<open>functions/queue/worker.py\<close>: the worker takes a message of the queue, marks the execution as running,
  starts the engine as a task of the event loop and watches it: it stops the task when the execution is
  to be cancelled or takes too long, and records its result otherwise. A task is named by the request it
  executes. The loader of workflows and the event loop (start, end, cancellation and result of a task,
  and sleeping, during which the other tasks run) are the record \<open>host\<close>; an unparsable message and an
  attribute of the wrong type raise as in Python. Closing clients is not modelled.
\<close>

section \<open>The host of the worker\<close>

text \<open>
  \<open>ho_await\<close> answers or raises what the task ended with; a cancelled task raises \<open>CancelledError\<close>, which
  is no \<open>Exception\<close>. Time is in microseconds.
\<close>

record 'w host =
  ho_engine :: "'w engine_env"
  ho_load_workflow :: "string \<Rightarrow> ('w, ('w user_function \<times> workflow_metadata) option) py"
  ho_start :: "'w exec_request \<Rightarrow> ('w, unit) py"
  ho_done :: "'w exec_request \<Rightarrow> 'w \<Rightarrow> bool"
  ho_cancel :: "'w exec_request \<Rightarrow> ('w, unit) py"
  ho_await :: "'w exec_request \<Rightarrow> ('w, exec_result) py"
  ho_sleep :: "int \<Rightarrow> ('w, unit) py"

abbreviation ho_services :: "'w host \<Rightarrow> 'w services" where
  "ho_services H \<equiv> en_services (ho_engine H)"

abbreviation ho_env :: "'w host \<Rightarrow> 'w env" where
  "ho_env H \<equiv> sv_env (ho_services H)"

definition cancelled_error :: exn where
  "cancelled_error = AppError ''CancelledError'' []"

text \<open>\<open>except Exception\<close> around an await.\<close>

definition catch_exception :: "('w, 'a) py \<Rightarrow> (exn \<Rightarrow> ('w, 'a) py) \<Rightarrow> ('w, 'a) py" where
  "catch_exception m h = py_catch m (\<lambda>x. if x = cancelled_error then raise x else h x)"

section \<open>The message\<close>

record job =
  jb_execution_id :: string
  jb_workflow_name :: string
  jb_org_id :: "string option"
  jb_user_id :: string
  jb_code :: "string option"
  jb_user_name :: string
  jb_user_email :: string
  jb_parameters :: "(string \<times> pyval) list"

text \<open>\<open>message_data[k]\<close>, and the values of a message as the code formats them.\<close>

definition item :: "pyval \<Rightarrow> string \<Rightarrow> exn + pyval" where
  "item v k = (case v of
     PDict kvs \<Rightarrow> (case map_of kvs k of None \<Rightarrow> Inl (KeyError k) | Some x \<Rightarrow> Inr x)
   | _ \<Rightarrow> Inl (TypeError ''indices must be integers''))"

definition opt_text :: "'w env \<Rightarrow> pyval \<Rightarrow> string option" where
  "opt_text E v = (case v of PNone \<Rightarrow> None | _ \<Rightarrow> Some (fstr E v))"

definition dict_items :: "pyval \<Rightarrow> exn + (string \<times> pyval) list" where
  "dict_items v = (case v of PDict kvs \<Rightarrow> Inr kvs | _ \<Rightarrow> Inl (AttributeError ''items''))"

definition parse_message :: "'w env \<Rightarrow> pyval \<Rightarrow> exn + job" where
  "parse_message E msg =
     ebind (item msg ''execution_id'') (\<lambda>execution_id.
     ebind (item msg ''workflow_name'') (\<lambda>workflow_name.
     ebind (item msg ''org_id'') (\<lambda>org_id.
     ebind (item msg ''user_id'') (\<lambda>user_id.
     ebind (pget msg ''code'' PNone) (\<lambda>code_base64.
     ebind (item msg ''user_name'') (\<lambda>user_name.
     ebind (item msg ''user_email'') (\<lambda>user_email.
     ebind (item msg ''parameters'') (\<lambda>parameters.
     ebind (dict_items parameters) (\<lambda>kvs.
     Inr \<lparr>jb_execution_id = fstr E execution_id, jb_workflow_name = fstr E workflow_name,
          jb_org_id = opt_text E org_id, jb_user_id = fstr E user_id, jb_code = opt_text E code_base64,
          jb_user_name = fstr E user_name, jb_user_email = fstr E user_email, jb_parameters = kvs\<rparr>)))))))))"

text \<open>The identifiers the error handler knows when the message could not be read to its end.\<close>

definition known_ids :: "'w env \<Rightarrow> pyval \<Rightarrow> string \<times> string option \<times> string" where
  "known_ids E msg =
     (case item msg ''execution_id'' of Inl _ \<Rightarrow> ([], None, [])
      | Inr xid \<Rightarrow> (case ebind (item msg ''workflow_name'') (\<lambda>_. item msg ''org_id'') of
          Inl _ \<Rightarrow> (fstr E xid, None, [])
        | Inr org \<Rightarrow> (case item msg ''user_id'' of
            Inl _ \<Rightarrow> (fstr E xid, opt_text E org, [])
          | Inr uid \<Rightarrow> (fstr E xid, opt_text E org, fstr E uid))))"

section \<open>What the worker records\<close>

definition job_broadcaster :: "'w host \<Rightarrow> broadcaster" where
  "job_broadcaster H = make_broadcaster (ho_env H)"

definition job_update :: "'w host \<Rightarrow> job \<Rightarrow> execution_status \<Rightarrow> pyval \<Rightarrow> string option \<Rightarrow> int option \<Rightarrow> ('w, unit) py" where
  "job_update H j st result err duration_ms = py_then
     (log_update_execution (ho_services H) (execution_repo None) (jb_execution_id j) (jb_org_id j) (jb_user_id j)
        st result err duration_ms PNone PNone (Some (job_broadcaster H)))
     (ret ())"

definition current_status :: "'w host \<Rightarrow> job \<Rightarrow> ('w, pyval) py" where
  "current_status H j = get_execution_status (ho_env H) (execution_repo None) (jb_execution_id j) (jb_org_id j)"

definition record_result :: "'w host \<Rightarrow> job \<Rightarrow> exec_result \<Rightarrow> ('w, unit) py" where
  "record_result H j r = py_then
     (log_update_execution (ho_services H) (execution_repo None) (jb_execution_id j) (jb_org_id j) (jb_user_id j)
        (xr_status r) (xr_result r) (xr_error_message r) (Some (xr_duration_ms r))
        (if xr_logs r = [] then PNone else PList (xr_logs r))
        (case xr_variables r of None \<Rightarrow> PNone | Some vs \<Rightarrow> if vs = [] then PNone else variables_value vs)
        (Some (job_broadcaster H)))
     (ret ())"

text \<open>The organization and the configuration of the execution; an unknown organization has neither.\<close>

definition job_organization :: "'w env \<Rightarrow> string option \<Rightarrow> ('w, organization option \<times> entity) py" where
  "job_organization E org_id =
     (if opt_truthy org_id
      then py_bind (get_organization_async E (str_or org_id [])) (\<lambda>res. case res of
          None \<Rightarrow> ret (None, Map.empty)
        | Some e \<Rightarrow> py_bind (lift (row_key_part 1 e)) (\<lambda>org_uuid. case e ''Name'' of
              None \<Rightarrow> raise (KeyError ''Name'')
            | Some name \<Rightarrow> py_bind (load_config_for_partition E (str_or org_id [])) (\<lambda>config.
                ret (Some \<lparr>o_id = org_uuid, o_name = fstr E name, o_is_active = dget e ''IsActive'' (PBool True)\<rparr>, config))))
      else py_bind (load_config_for_partition E ''GLOBAL'') (\<lambda>config. ret (None, config)))"

text \<open>The workflow to run, or nothing after a failure that has been recorded.\<close>

definition load_failed :: "'w host \<Rightarrow> job \<Rightarrow> datetime \<Rightarrow> string \<Rightarrow> string \<Rightarrow> ('w, ('w user_function \<times> workflow_metadata) option) py" where
  "load_failed H j start_time err message = py_bind (utcnow (ho_env H)) (\<lambda>now.
     py_then (job_update H j FAILED (PDict [(''error'', PStr err), (''message'', PStr message)]) None
        (Some (ms_between start_time now))) (ret None))"

definition load_job_workflow :: "'w host \<Rightarrow> job \<Rightarrow> datetime \<Rightarrow> ('w, ('w user_function \<times> workflow_metadata) option) py" where
  "load_job_workflow H j start_time = py_catch
     (py_bind (ho_load_workflow H (jb_workflow_name j)) (\<lambda>result. case result of
        None \<Rightarrow> load_failed H j start_time ''WorkflowNotFound''
          (''Workflow '' @ quote @ jb_workflow_name j @ quote @ '' not found'')
      | Some r \<Rightarrow> ret (Some r)))
     (\<lambda>x. load_failed H j start_time ''WorkflowLoadError''
        (''Failed to load workflow '' @ quote @ jb_workflow_name j @ quote @ '': '' @ exn_msg x))"

section \<open>Watching the task\<close>

definition job_request :: "'w host \<Rightarrow> job \<Rightarrow> organization option \<times> entity \<Rightarrow> 'w user_function option \<Rightarrow> int \<Rightarrow> 'w exec_request" where
  "job_request H j oc f timeout_seconds = (let is_script = opt_truthy (jb_code j) in
     \<lparr>er_execution_id = jb_execution_id j,
      er_caller = \<lparr>caller_user_id = jb_user_id j, caller_email = jb_user_email j, caller_name = jb_user_name j\<rparr>,
      er_organization = fst oc, er_config = snd oc, er_func = (if is_script then None else f),
      er_code = (if is_script then jb_code j else None), er_name = Some (jb_workflow_name j),
      er_tags = (if is_script then [] else [''workflow'']), er_timeout_seconds = timeout_seconds,
      er_cache_ttl_seconds = 300, er_parameters = jb_parameters j, er_transient = False, er_no_cache = False,
      er_is_platform_admin = False, er_broadcaster = Some (job_broadcaster H)\<rparr>)"

definition check_interval :: int where
  "check_interval = 1000000"

datatype watch_end = Completed | Stopped

text \<open>\<open>while not execution_task.done()\<close>, at most \<open>n\<close> times: without an answer after that.\<close>

primrec watch :: "nat \<Rightarrow> 'w host \<Rightarrow> job \<Rightarrow> 'w exec_request \<Rightarrow> datetime \<Rightarrow> ('w, watch_end option) py" where
  "watch 0 H j q start_time = ret None"
| "watch (Suc n) H j q start_time =
     py_bind (py_read (ho_done H q)) (\<lambda>finished. if finished then ret (Some Completed) else
     py_bind (current_status H j) (\<lambda>st.
       if st = PStr (status_value CANCELLING)
       then py_then (ho_cancel H q) (py_bind (utcnow (ho_env H)) (\<lambda>now.
         py_then (job_update H j CANCELLED PNone (Some ''Execution cancelled by user'') (Some (ms_between start_time now)))
           (ret (Some Stopped))))
       else py_bind (utcnow (ho_env H)) (\<lambda>now. py_bind (lift (dt_diff now start_time)) (\<lambda>elapsed.
         if er_timeout_seconds q * 1000000 < elapsed
         then py_then (ho_cancel H q)
           (py_then (job_update H j TIMEOUT PNone
              (Some (''Execution exceeded timeout of '' @ str_int (er_timeout_seconds q) @ '' seconds''))
              (Some (ms_between start_time now))) (ret (Some Stopped)))
         else py_then (ho_sleep H check_interval) (watch n H j q start_time)))))"

definition run_task :: "nat \<Rightarrow> 'w host \<Rightarrow> job \<Rightarrow> 'w exec_request \<Rightarrow> datetime \<Rightarrow> ('w, unit option) py" where
  "run_task n H j q start_time = py_then (ho_start H q) (py_bind (watch n H j q start_time) (\<lambda>e. case e of
       None \<Rightarrow> ret None
     | Some Stopped \<Rightarrow> ret (Some ())
     | Some Completed \<Rightarrow> py_bind (ho_await H q) (\<lambda>r. py_then (record_result H j r) (ret (Some ())))))"

definition run_job :: "nat \<Rightarrow> 'w host \<Rightarrow> job \<Rightarrow> datetime \<Rightarrow> ('w, unit option) py" where
  "run_job n H j start_time = py_bind (current_status H j) (\<lambda>st.
     if st = PStr (status_value CANCELLING)
     then py_then (job_update H j CANCELLED PNone (Some ''Execution was cancelled before it could start'') (Some 0))
       (ret (Some ()))
     else py_then (job_update H j RUNNING PNone None None) (py_bind (job_organization (ho_env H) (jb_org_id j)) (\<lambda>oc.
       if opt_truthy (jb_code j) then run_task n H j (job_request H j oc None 1800) start_time
       else py_bind (load_job_workflow H j start_time) (\<lambda>loaded. case loaded of
           None \<Rightarrow> ret (Some ())
         | Some (f, metadata) \<Rightarrow> run_task n H j (job_request H j oc (Some f) (wm_timeout_seconds metadata)) start_time))))"

section \<open>The worker\<close>

definition handle_workflow_execution :: "nat \<Rightarrow> 'w host \<Rightarrow> pyval \<Rightarrow> ('w, unit option) py" where
  "handle_workflow_execution n H msg = py_bind (utcnow (ho_env H)) (\<lambda>start_time. catch_exception
     (py_bind (lift (parse_message (ho_env H) msg)) (\<lambda>j. run_job n H j start_time))
     (\<lambda>x. case known_ids (ho_env H) msg of (execution_id, org_id, user_id) \<Rightarrow>
        py_bind (utcnow (ho_env H)) (\<lambda>end_time. py_then
          (log_update_execution (ho_services H) (execution_repo None) execution_id org_id user_id FAILED PNone
             (Some (exn_msg x)) (Some (ms_between start_time end_time)) PNone PNone
             (case parse_message (ho_env H) msg of Inl _ \<Rightarrow> None | Inr _ \<Rightarrow> Some (job_broadcaster H)))
          (ret (Some ())))))"

definition workflow_execution_worker :: "nat \<Rightarrow> 'w host \<Rightarrow> string \<Rightarrow> ('w, unit option) py" where
  "workflow_execution_worker n H body = (case env_loads (ho_env H) body of
     None \<Rightarrow> raise (ValueError ''Expecting value'')
   | Some msg \<Rightarrow> handle_workflow_execution n H msg)"


section \<open>What the worker relies on\<close>

text \<open>
  The execution has one row and is in the status index exactly as its status asks for. While the
  worker waits, others may change the status (a request to cancel does), but keep this.
\<close>

definition tracked :: "tables \<Rightarrow> string \<Rightarrow> string \<Rightarrow> bool" where
  "tracked R p xid \<longleftrightarrow> (\<exists>s. in_status R p xid s)"

text \<open>The result of a task is one that \<open>execute\<close> answers for its request.\<close>

locale worker_host = engine "ho_engine H" + available_cloud "en_services (ho_engine H)" ok
  for H :: "'w host" and ok :: "'w \<Rightarrow> bool" +
  assumes others_keep:
    "stays (\<lambda>w. ok w \<and> tracked (env_rows (ho_env H) w) p xid) (ho_load_workflow H name)"
    "stays (\<lambda>w. ok w \<and> tracked (env_rows (ho_env H) w) p xid) (ho_start H q)"
    "stays (\<lambda>w. ok w \<and> tracked (env_rows (ho_env H) w) p xid) (ho_cancel H q)"
    "stays (\<lambda>w. ok w \<and> tracked (env_rows (ho_env H) w) p xid) (ho_await H q)"
    "stays (\<lambda>w. ok w \<and> tracked (env_rows (ho_env H) w) p xid) (ho_sleep H d)"
  and await_result: "wp (ho_await H q) (\<lambda>r _. \<exists>v v'. execute (ho_engine H) q v = (Inr r, v')) (\<lambda>_ _. True) w"

text \<open>The clock does not go back, and sleeping takes at least the time asked for.\<close>

locale worker_clock = runtime "ho_env H" for H :: "'w host" +
  fixes now :: "'w \<Rightarrow> int"
  assumes now_law: "\<exists>t. fst (env_utcnow (ho_env H) w) = Naive t \<and> now w \<le> t \<and> t \<le> now (snd (env_utcnow (ho_env H) w))"
    and sleep_law: "now w + d \<le> now (snd (ho_sleep H d w))"
    and time_passes:
      "stays (\<lambda>w. t \<le> now w) (sdk_get (ho_env H) tb p r)" "stays (\<lambda>w. t \<le> now w) (sdk_query (ho_env H) tb f sel)"
      "stays (\<lambda>w. t \<le> now w) (sdk_create (ho_env H) tb e)" "stays (\<lambda>w. t \<le> now w) (sdk_update (ho_env H) tb e m et)"
      "stays (\<lambda>w. t \<le> now w) (sdk_delete (ho_env H) tb p r)"
      "stays (\<lambda>w. t \<le> now w) (sv_container_exists (ho_services H) c)"
      "stays (\<lambda>w. t \<le> now w) (sv_create_container (ho_services H) c)"
      "stays (\<lambda>w. t \<le> now w) (sv_upload (ho_services H) b txt)"
      "stays (\<lambda>w. t \<le> now w) (sv_pubsub_client (ho_services H))"
      "stays (\<lambda>w. t \<le> now w) (sv_send_to_group (ho_services H) g v)"
      "stays (\<lambda>w. t \<le> now w) (ho_load_workflow H name)" "stays (\<lambda>w. t \<le> now w) (ho_start H q)"
      "t \<le> now w \<Longrightarrow> t \<le> now (sv_mark_initialized (ho_services H) c w)"

section \<open>The execution ends\<close>

definition ended_statuses :: "execution_status set" where
  "ended_statuses = {SUCCESS, FAILED, TIMEOUT, COMPLETED_WITH_ERRORS, CANCELLED}"

lemma parsed_ids: "parse_message E msg = Inr j \<Longrightarrow> known_ids E msg = (jb_execution_id j, jb_org_id j, jb_user_id j)"
  by (auto simp: parse_message_def known_ids_def ebind_Inr)

context worker_host
begin

text \<open>What holds of the execution of a job throughout, and when it has ended.\<close>

definition alive :: "job \<Rightarrow> 'w \<Rightarrow> bool" where
  "alive j w \<longleftrightarrow> ok w \<and> tracked (rows w) (partition_of (jb_org_id j)) (jb_execution_id j)"

definition ended :: "job \<Rightarrow> 'w \<Rightarrow> bool" where
  "ended j w \<longleftrightarrow> ok w \<and> (\<exists>s \<in> ended_statuses. in_status (rows w) (partition_of (jb_org_id j)) (jb_execution_id j) s)"

lemma ended_alive: "ended j w \<Longrightarrow> alive j w"
  by (auto simp: ended_def alive_def tracked_def)

lemma aliveI: "ok w' \<Longrightarrow> rows w' = rows w \<Longrightarrow> alive j w \<Longrightarrow> alive j w'"
  by (simp add: alive_def)

lemma stays_host [stays_intros]:
  "stays (alive j) (ho_load_workflow H name)" "stays (alive j) (ho_start H q)" "stays (alive j) (ho_cancel H q)"
  "stays (alive j) (ho_await H q)" "stays (alive j) (ho_sleep H d)"
  using others_keep by (simp_all add: alive_def [abs_def])

lemma stays_alive: "stays ok m \<Longrightarrow> (\<And>v. stays (\<lambda>w. rows w = v) m) \<Longrightarrow> stays (alive j) m"
  unfolding stays_def alive_def by metis

lemma stays_find: "stays (\<lambda>w. rows w = v) (find_execution (ho_env H) r xid org)"
  unfolding find_execution_def repo_query_def query_entities_def by (intro stays_intros)

lemma stays_reads_rows:
  "stays (\<lambda>w. rows w = v) (current_status H j)" "stays (\<lambda>w. rows w = v) (job_organization (ho_env H) org)"
proof -
  show "stays (\<lambda>w. rows w = v) (current_status H j)"
    unfolding current_status_def get_execution_status_def by (intro stays_intros stays_find)
  have get: "stays (\<lambda>w. rows w = v) (sdk_get (ho_env H) t p r)" for t p r
    by (rule staysI) (auto intro!: wp_sdk_get)
  show "stays (\<lambda>w. rows w = v) (job_organization (ho_env H) org)"
    unfolding job_organization_def get_organization_async_def load_config_for_partition_def get_org_config_async_def
      query_by_org_def query_entities_def get_entity_def
    by (intro stays_intros get)
qed

lemma stays_query_ok:
  assumes "\<forall>c \<in> set cs. clean_clause c" "odata cs \<noteq> []"
  shows "stays ok (query_entities (ho_env H) s (Some (odata cs)) sel)"
  by (rule staysI) (auto intro!: wp_query_entities_ok assms)

lemma stays_reads_ok:
  assumes "no_quote (partition_of org)"
  shows "no_quote xid \<Longrightarrow> stays ok (find_execution (ho_env H) r xid org)"
    and "stays ok (job_organization (ho_env H) org)"
proof -
  show "no_quote xid \<Longrightarrow> stays ok (find_execution (ho_env H) r xid org)"
    unfolding find_execution_def by (intro stays_intros stays_find_ok assms) simp_all
  have config: "stays ok (load_config_for_partition (ho_env H) p)" if "no_quote p" for p
    unfolding load_config_for_partition_def get_org_config_async_def query_by_org_def
    by (intro stays_intros stays_query_ok) (use that in \<open>simp_all add: org_filter_def succ_char_def char_of_def\<close>)
  have own: "no_quote (str_or org [])" if "opt_truthy org"
    using assms that by (cases org) (auto simp: partition_of_def)
  show "stays ok (job_organization (ho_env H) org)"
    unfolding job_organization_def get_organization_async_def get_entity_def
    by (intro stays_intros config) (auto intro!: stays_intros own)
qed

lemma stays_alive_reads [stays_intros]:
  assumes "no_quote (jb_execution_id j)" "no_quote (partition_of (jb_org_id j))"
  shows "stays (alive j) (current_status H j)" "stays (alive j) (job_organization (ho_env H) (jb_org_id j))"
proof -
  show "stays (alive j) (current_status H j)"
    by (rule stays_alive [OF _ stays_reads_rows(1)])
      (unfold current_status_def get_execution_status_def, intro stays_intros stays_reads_ok assms)
  show "stays (alive j) (job_organization (ho_env H) (jb_org_id j))"
    by (rule stays_alive [OF stays_reads_ok(2) stays_reads_rows(2)]) (rule assms)
qed

lemma stays_alive_clock [stays_intros]: "stays (alive j) (utcnow (ho_env H))"
  by (rule stays_alive) (intro stays_intros)+

lemma wp_log_update_alive:
  assumes "alive j w" and "no_quote (jb_execution_id j)" "no_quote (partition_of (jb_org_id j))"
  shows "wp (log_update_execution (ho_services H) (execution_repo None) (jb_execution_id j) (jb_org_id j) uid st res err ms logs vars bc)
    (\<lambda>_ w'. ok w' \<and> in_status (rows w') (partition_of (jb_org_id j)) (jb_execution_id j) st) (\<lambda>_. alive j) w"
proof -
  obtain s where st: "in_status (rows w) (partition_of (jb_org_id j)) (jb_execution_id j) s" "ok w"
    using assms(1) by (auto simp: alive_def tracked_def)
  have r: "repo_table (execution_repo None) = ''Entities''" by (simp add: execution_repo_def)
  show ?thesis
    by (rule wp_mono [OF wp_log_update_execution [OF st(2) r assms(2,3) st(1)]]) (auto simp: alive_def tracked_def)
qed

lemma wp_job_update:
  assumes "alive j w" and "no_quote (jb_execution_id j)" "no_quote (partition_of (jb_org_id j))"
    and "\<And>w'. alive j w' \<Longrightarrow> (st \<in> ended_statuses \<Longrightarrow> ended j w') \<Longrightarrow> Q () w'"
    and "\<And>x w'. alive j w' \<Longrightarrow> R x w'"
  shows "wp (job_update H j st res err ms) Q R w"
  unfolding job_update_def wp_then wp_ret
  by (rule wp_mono [OF wp_log_update_alive [OF assms(1-3)]])
    (use assms(4,5) in \<open>auto simp: alive_def ended_def tracked_def\<close>)

lemma wp_alive:
  assumes "stays (alive j) m" and "alive j w" and "\<And>a w'. alive j w' \<Longrightarrow> Q a w'" and "\<And>x w'. alive j w' \<Longrightarrow> R x w'"
  shows "wp m Q R w"
  by (rule wp_mono [OF stays_wp [OF assms(1,2)]]) (use assms(3,4) in auto)

lemma wp_record_result:
  assumes "alive j w" and "no_quote (jb_execution_id j)" "no_quote (partition_of (jb_org_id j))"
    and "execute (ho_engine H) q v = (Inr r, v')"
  shows "wp (record_result H j r) (\<lambda>_. ended j) (\<lambda>_. alive j) w"
proof -
  have "xr_status r \<in> {SUCCESS, COMPLETED_WITH_ERRORS, FAILED}"
    using wp_Inr [OF wp_execute [OF engine_axioms] assms(4)] unfolding consistent_result_def by blast
  then show ?thesis
    unfolding record_result_def wp_then wp_ret
    by (intro wp_mono [OF wp_log_update_alive [OF assms(1-3)]]) (auto simp: ended_def ended_statuses_def)
qed

text \<open>Every way the worker goes on keeps the execution, and every way it stops has ended it.\<close>

definition outcome :: "job \<Rightarrow> unit option \<Rightarrow> 'w \<Rightarrow> bool" where
  "outcome j r w \<longleftrightarrow> (if r = None then alive j w else ended j w)"

definition watched :: "job \<Rightarrow> watch_end option \<Rightarrow> 'w \<Rightarrow> bool" where
  "watched j e w \<longleftrightarrow> (if e = Some Stopped then ended j w else alive j w)"

lemma watched_simps [simp]:
  "watched j None w = alive j w" "watched j (Some Stopped) w = ended j w" "watched j (Some Completed) w = alive j w"
  by (simp_all add: watched_def)

lemma wp_watch:
  assumes "no_quote (jb_execution_id j)" "no_quote (partition_of (jb_org_id j))" and "alive j w"
  shows "wp (watch n H j q start_time) (watched j) (\<lambda>_. alive j) w"
  using assms(3)
proof (induction n arbitrary: w)
  case (Suc n)
  note upd = wp_job_update [OF _ assms(1,2)]
  have cancel: "wp (ho_cancel H q) Q (\<lambda>_. alive j) w'" if "alive j w'" "\<And>w''. alive j w'' \<Longrightarrow> Q () w''" for Q w'
    by (rule wp_alive [OF stays_host(3) that(1)]) (use that(2) in auto)
  have clock: "wp (utcnow (ho_env H)) Q (\<lambda>_. alive j) w'" if "alive j w'" "\<And>d w''. alive j w'' \<Longrightarrow> Q d w''" for Q w'
    by (rule wp_alive [OF stays_alive_clock that(1)]) (use that(2) in auto)
  have sleep: "wp (ho_sleep H check_interval) Q (\<lambda>_. alive j) w'" if "alive j w'" "\<And>w''. alive j w'' \<Longrightarrow> Q () w''" for Q w'
    by (rule wp_alive [OF stays_host(5) that(1)]) (use that(2) in auto)
  have poll: "wp (current_status H j) Q (\<lambda>_. alive j) w'" if "alive j w'" "\<And>d w''. alive j w'' \<Longrightarrow> Q d w''" for Q w'
    by (rule wp_alive [OF stays_alive_reads(1) [OF assms(1,2)] that(1)]) (use that(2) in auto)
  show ?case
    unfolding watch.simps wp_bind wp_read wp_if wp_then wp_lift wp_ret
    using Suc.prems
    by (auto intro!: cancel clock sleep poll upd Suc.IH simp: ended_statuses_def split: sum.splits)
qed simp

lemma outcome_simps [simp]: "outcome j None w = alive j w" "outcome j (Some u) w = ended j w"
  by (simp_all add: outcome_def)

lemma wp_run_task:
  assumes "no_quote (jb_execution_id j)" "no_quote (partition_of (jb_org_id j))" and "alive j w"
  shows "wp (run_task n H j q start_time) (outcome j) (\<lambda>_. alive j) w"
proof -
  have result: "wp (ho_await H q) (\<lambda>r. wp (record_result H j r) (\<lambda>_. ended j) (\<lambda>_. alive j)) (\<lambda>_. alive j) w'" if "alive j w'" for w'
    by (rule wp_mono [OF wp_conj [OF await_result stays_wp [OF stays_host(4) that]]]) (auto intro: wp_record_result assms)
  have "wp (watch n H j q start_time) (\<lambda>e. wp (case e of
       None \<Rightarrow> ret None
     | Some Stopped \<Rightarrow> ret (Some ())
     | Some Completed \<Rightarrow> py_bind (ho_await H q) (\<lambda>r. py_then (record_result H j r) (ret (Some ()))))
       (outcome j) (\<lambda>_. alive j)) (\<lambda>_. alive j) w'" if "alive j w'" for w'
    by (rule wp_mono [OF wp_watch [OF assms(1,2) that]]) (auto simp: result split: option.splits watch_end.splits)
  then show ?thesis
    unfolding run_task_def wp_then wp_bind
    by (auto intro: wp_alive [OF stays_host(2) assms(3)])
qed

definition loaded_or_ended :: "job \<Rightarrow> 'a option \<Rightarrow> 'w \<Rightarrow> bool" where
  "loaded_or_ended j r w \<longleftrightarrow> (if r = None then ended j w else alive j w)"

lemma loaded_simps [simp]: "loaded_or_ended j None w = ended j w" "loaded_or_ended j (Some r) w = alive j w"
  by (simp_all add: loaded_or_ended_def)

lemma wp_load_job_workflow:
  assumes "no_quote (jb_execution_id j)" "no_quote (partition_of (jb_org_id j))" and "alive j w"
  shows "wp (load_job_workflow H j start_time) (loaded_or_ended j) (\<lambda>_. alive j) w"
proof -
  have failed: "wp (load_failed H j start_time err m) (\<lambda>r w'. r = None \<and> ended j w') (\<lambda>_. alive j) w'" if "alive j w'" for err m w'
    unfolding load_failed_def wp_bind wp_then wp_ret
    by (rule wp_alive [OF stays_alive_clock that]) (auto simp: ended_statuses_def intro!: wp_job_update [OF _ assms(1,2)])
  have caught: "wp (load_failed H j start_time err m) (loaded_or_ended j) (\<lambda>_. alive j) w'"
    if "alive j w'" for err m w'
    by (rule wp_mono [OF failed [OF that]]) auto
  have again: "wp (load_failed H j start_time err m) (loaded_or_ended j)
      (\<lambda>x. wp (g x) (loaded_or_ended j) (\<lambda>_. alive j)) w'"
    if "alive j w'" "\<And>x w''. alive j w'' \<Longrightarrow> wp (g x) (loaded_or_ended j) (\<lambda>_. alive j) w''"
    for err m g w'
    by (rule wp_mono [OF failed [OF that(1)]]) (use that(2) in auto)
  show ?thesis
    unfolding load_job_workflow_def wp_catch wp_bind
    by (rule wp_alive [OF stays_host(1) assms(3)]) (auto intro!: again caught split: option.splits)
qed

lemma wp_run_job:
  assumes "no_quote (jb_execution_id j)" "no_quote (partition_of (jb_org_id j))" and "alive j w"
  shows "wp (run_job n H j start_time) (outcome j) (\<lambda>_. alive j) w"
proof -
  note upd = wp_job_update [OF _ assms(1,2)]
  have org: "wp (job_organization (ho_env H) (jb_org_id j)) Q (\<lambda>_. alive j) w'"
    if "alive j w'" "\<And>d w''. alive j w'' \<Longrightarrow> Q d w''" for Q w'
    by (rule wp_alive [OF stays_alive_reads(2) [OF assms(1,2)] that(1)]) (use that(2) in auto)
  have load: "wp (load_job_workflow H j start_time) Q (\<lambda>_. alive j) w'"
    if "alive j w'" "\<And>w''. ended j w'' \<Longrightarrow> Q None w''" "\<And>r w''. alive j w'' \<Longrightarrow> Q (Some r) w''" for Q w'
    by (rule wp_mono [OF wp_load_job_workflow [OF assms(1,2) that(1)]])
      (use that(2,3) in \<open>auto simp: loaded_or_ended_def split: if_splits\<close>)
  have poll: "wp (current_status H j) Q (\<lambda>_. alive j) w'" if "alive j w'" "\<And>d w''. alive j w'' \<Longrightarrow> Q d w''" for Q w'
    by (rule wp_alive [OF stays_alive_reads(1) [OF assms(1,2)] that(1)]) (use that(2) in auto)
  show ?thesis
    unfolding run_job_def wp_bind wp_if wp_then wp_ret wp_option wp_prod
    using assms(3)
    by (auto intro!: poll upd org load wp_run_task [OF assms(1,2)] simp: ended_statuses_def)
qed

lemma wp_handle_workflow_execution:
  assumes "parse_message (ho_env H) msg = Inr j" and "no_quote (jb_execution_id j)" "no_quote (partition_of (jb_org_id j))"
    and "alive j w"
  shows "wp (handle_workflow_execution n H msg) (outcome j) (\<lambda>_. alive j) w"
proof -
  have clock: "wp (utcnow (ho_env H)) Q (\<lambda>_. alive j) w'" if "alive j w'" "\<And>d w''. alive j w'' \<Longrightarrow> Q d w''" for Q w'
    by (rule wp_alive [OF stays_alive_clock that(1)]) (use that(2) in auto)
  have fail: "wp (log_update_execution (ho_services H) (execution_repo None) (jb_execution_id j) (jb_org_id j) (jb_user_id j)
      FAILED res err ms logs vars bc) (\<lambda>_. ended j) (\<lambda>_. alive j) w'" if "alive j w'" for res err ms logs vars bc w'
    by (rule wp_mono [OF wp_log_update_alive [OF that assms(2,3)]]) (auto simp: ended_def ended_statuses_def)
  show ?thesis
    unfolding handle_workflow_execution_def catch_exception_def parsed_ids [OF assms(1)] assms(1) prod.case
      wp_bind wp_catch wp_lift sum.case
    by (rule clock [OF assms(4)])
      (auto intro!: wp_mono [OF wp_run_job [OF assms(2,3)]] clock fail)
qed

end

section \<open>The worker returns\<close>

definition answers :: "'a option \<Rightarrow> bool" where
  "answers r \<longleftrightarrow> r \<noteq> None"

lemma answers_simps [simp]: "\<not> answers None" "answers (Some a)"
  by (simp_all add: answers_def)

lemma wp_total [simp]: "wp m (\<lambda>_ _. True) (\<lambda>_ _. True) = (\<lambda>_. True)"
  by (rule ext) (auto simp: wp_def split: prod.splits sum.splits)

context worker_clock
begin

lemma stays_now [stays_intros]: "stays (\<lambda>w. t \<le> now w) (utcnow (ho_env H))"
proof (rule staysI)
  fix w
  show "t \<le> now w \<Longrightarrow> wp (utcnow (ho_env H)) (\<lambda>_ w. t \<le> now w) (\<lambda>_ w. t \<le> now w) w"
    using now_law [of w] by (auto simp: wp_def utcnow_def split: prod.splits)
qed

lemmas stays_time [stays_intros] = time_passes(1-12)

lemma stays_mark [stays_intros]: "stays (\<lambda>w. t \<le> now w) (py_modify (sv_mark_initialized (ho_services H) c))"
  by (rule stays_modify) (rule time_passes(13))

lemma stays_time_entities [stays_intros]:
  "stays (\<lambda>w. t \<le> now w) (insert_entity (ho_env H) s e)"
  "stays (\<lambda>w. t \<le> now w) (update_entity (ho_env H) s e mode)"
  "stays (\<lambda>w. t \<le> now w) (get_entity (ho_env H) s p k)"
  "stays (\<lambda>w. t \<le> now w) (delete_entity (ho_env H) s p k)"
  "stays (\<lambda>w. t \<le> now w) (query_entities (ho_env H) s f sel)"
  "stays (\<lambda>w. t \<le> now w) (execution_entity_to_model (ho_env H) e)"
  unfolding insert_entity_def update_entity_def get_entity_def delete_entity_def execution_entity_to_model_def
    query_entities_def
  by (intro stays_intros)+

lemma stays_time_update [stays_intros]:
  "stays (\<lambda>w. t \<le> now w) (update_execution (ho_env H) r xid org uid st res err ms in_blob)"
  unfolding update_execution_def update_status_index_def repo_update_def repo_query_def Let_def
  by (intro stays_intros; auto intro: stays_intros)+

lemma stays_time_blobs [stays_intros]:
  "stays (\<lambda>w. t \<le> now w) (store_result (ho_services H) xid res)"
  "stays (\<lambda>w. t \<le> now w) (upload_logs (ho_services H) xid v)"
  "stays (\<lambda>w. t \<le> now w) (upload_variables (ho_services H) xid v)"
  unfolding store_result_def upload_result_def upload_logs_def upload_variables_def upload_json_def
    ensure_container_exists_def
  by (intro stays_intros)+

lemma stays_time_logger [stays_intros]:
  "stays (\<lambda>w. t \<le> now w) (log_update_execution (ho_services H) r xid org uid st res err ms logs vars bc)"
  unfolding log_update_execution_def broadcast_execution_update_def broadcast_execution_to_history_def if_connected_def
  by (intro stays_intros)

lemma stays_time_job [stays_intros]:
  "stays (\<lambda>w. t \<le> now w) (job_update H j st res err ms)"
  "stays (\<lambda>w. t \<le> now w) (current_status H j)"
  "stays (\<lambda>w. t \<le> now w) (job_organization (ho_env H) org)"
  "stays (\<lambda>w. t \<le> now w) (load_job_workflow H j start_time)"
  unfolding job_update_def current_status_def get_execution_status_def find_execution_def repo_query_def
    job_organization_def get_organization_async_def load_config_for_partition_def get_org_config_async_def
    query_by_org_def load_job_workflow_def load_failed_def
  by (intro stays_intros)+

text \<open>Each round that goes on takes a second, so the timeout is reached after so many rounds.\<close>

lemma wp_watch_ends:
  assumes "start_time = Naive t0" and "1 \<le> n" "t0 + er_timeout_seconds q * 1000000 < now w + (int n - 1) * 1000000"
  shows "wp (watch n H j q start_time) (\<lambda>e _. answers e) (\<lambda>_ _. True) w"
  using assms(2,3)
proof (induction n arbitrary: w)
  case (Suc n)
  have poll: "wp (current_status H j) Q (\<lambda>_ _. True) w" if "\<And>d w'. now w \<le> now w' \<Longrightarrow> Q d w'" for Q
    by (rule wp_mono [OF stays_wp [OF stays_time_job(2), of "now w" w]]) (use that in auto)
  have clock: "wp (utcnow (ho_env H)) Q (\<lambda>_ _. True) w'"
    if "now w \<le> now w'" "\<And>d w''. now w \<le> d \<Longrightarrow> now w \<le> now w'' \<Longrightarrow> Q (Naive d) w''" for Q w'
    using now_law [of w'] that by (fastforce simp: wp_def utcnow_def split: prod.splits)
  have sleep: "wp (ho_sleep H check_interval) Q (\<lambda>_ _. True) w'"
    if "now w \<le> now w'" "\<And>w''. now w + 1000000 \<le> now w'' \<Longrightarrow> Q () w''" for Q w'
    using sleep_law [of w' check_interval] that by (auto simp: wp_def check_interval_def split: prod.splits sum.splits)
  have again: "wp (watch n H j q start_time) (\<lambda>e _. answers e) (\<lambda>_ _. True) w''"
    if "now w \<le> d" "\<not> er_timeout_seconds q * 1000000 < d - t0" "now w + 1000000 \<le> now w''" for d w''
    using that Suc.prems by (intro Suc.IH) (auto simp: algebra_simps)
  show ?case
    unfolding watch.simps wp_bind wp_read wp_if wp_then wp_lift wp_ret assms(1)
    by (auto intro!: poll clock sleep) (rule again [unfolded assms(1)])
qed simp

lemma wp_run_task_ends:
  assumes "start_time = Naive t0" and "t0 \<le> now w" and "1 \<le> n" "er_timeout_seconds q + 2 \<le> int n"
  shows "wp (run_task n H j q start_time) (\<lambda>r _. answers r) (\<lambda>_ _. True) w"
proof -
  have "wp (watch n H j q start_time) (\<lambda>e _. answers e) (\<lambda>_ _. True) w'" if "t0 \<le> now w'" for w'
    by (rule wp_watch_ends [OF assms(1,3)]) (use that assms(4) in \<open>simp add: algebra_simps\<close>)
  note watch = wp_mono [OF this]
  show ?thesis
    unfolding run_task_def wp_then wp_bind
    by (rule wp_mono [OF stays_wp [OF time_passes(12) assms(2)]])
      (auto intro!: watch simp: answers_def split: option.splits watch_end.splits)
qed

lemma wp_handle_ends:
  assumes "1802 \<le> n"
    and load: "\<And>name v. wp (ho_load_workflow H name)
      (\<lambda>r _. \<forall>f m. r = Some (f, m) \<longrightarrow> wm_timeout_seconds m + 2 \<le> int n) (\<lambda>_ _. True) v"
  shows "wp (handle_workflow_execution n H msg) (\<lambda>r _. answers r) (\<lambda>_ _. True) w"
proof -
  have clock: "wp (utcnow (ho_env H)) Q (\<lambda>_ _. True) w" if "\<And>t w'. t \<le> now w' \<Longrightarrow> Q (Naive t) w'" for Q
    using now_law [of w] that by (fastforce simp: wp_def utcnow_def split: prod.splits)
  note time = wp_mono [OF stays_wp]
  have failed: "wp (load_failed H j st err m) (\<lambda>r _. r = None) (\<lambda>_ _. True) v" for j st err m v
    unfolding load_failed_def wp_bind wp_then wp_ret by simp
  have loaded: "wp (load_job_workflow H j st) (\<lambda>r v'. t \<le> now v' \<and> (\<forall>f m. r = Some (f, m) \<longrightarrow> wm_timeout_seconds m + 2 \<le> int n))
      (\<lambda>_ _. True) v" if "t \<le> now v" for t j st v
  proof -
    have "wp (load_job_workflow H j st) (\<lambda>r _. \<forall>f m. r = Some (f, m) \<longrightarrow> wm_timeout_seconds m + 2 \<le> int n) (\<lambda>_ _. True) v"
      unfolding load_job_workflow_def wp_catch wp_bind
      by (rule wp_mono [OF load]) (auto intro!: wp_mono [OF failed] split: option.splits)
    from wp_conj [OF this stays_wp [OF stays_time_job(4) that]] show ?thesis
      by (rule wp_mono) auto
  qed
  have job: "wp (run_job n H j (Naive t)) (\<lambda>r _. answers r) (\<lambda>_ _. True) v" if "t \<le> now v" for j t v
  proof -
    have task: "wp (run_task n H j (job_request H j oc f T) (Naive t)) (\<lambda>r _. answers r) (\<lambda>_ _. True) v'"
      if "t \<le> now v'" "T + 2 \<le> int n" for oc f T v'
      by (rule wp_run_task_ends [OF refl that(1)]) (use that assms(1) in \<open>auto simp: job_request_def Let_def\<close>)
    show ?thesis
      unfolding run_job_def wp_bind wp_if wp_then wp_ret wp_option wp_prod
      using that assms(1)
      by (auto intro!: time [OF stays_time_job(2)] time [OF stays_time_job(1)] time [OF stays_time_job(3)]
          wp_mono [OF loaded] task split: option.splits)
  qed
  show ?thesis
    unfolding handle_workflow_execution_def catch_exception_def wp_bind wp_catch wp_lift
    by (rule clock) (auto intro!: wp_mono [OF job] simp: split_beta split: sum.splits)
qed

end

section \<open>A host in memory\<close>

text \<open>
  A task is finished when the clock has reached \<open>done_at\<close>; it runs when its result is awaited, and its code leaves
  the tables as they are.
\<close>

definition mem_host :: "int \<Rightarrow> (string \<Rightarrow> exn + (engine_mem user_function \<times> workflow_metadata) option) \<Rightarrow> engine_mem host" where
  "mem_host done_at load = \<lparr>
     ho_engine = mem_engine,
     ho_load_workflow = (\<lambda>name. lift (load name)),
     ho_start = (\<lambda>q. ret ()),
     ho_done = (\<lambda>q w. done_at \<le> mem_clock w),
     ho_cancel = (\<lambda>q. ret ()),
     ho_await = (\<lambda>q w. case execute mem_engine q w of (r, w') \<Rightarrow> (r, w'\<lparr>mem_rows := mem_rows w, mem_faults := mem_faults w\<rparr>)),
     ho_sleep = (\<lambda>d w. (Inr (), w\<lparr>mem_clock := mem_clock w + d\<rparr>))\<rparr>"

lemma mem_host_services [simp]:
  "ho_engine (mem_host D load) = mem_engine" "en_services mem_engine = mem_cloud"
  by (simp_all add: mem_host_def mem_engine_def)

lemma mem_view_same [simp]: "mem_view (v\<lparr>mem_rows := mem_rows w\<rparr>) = mem_view w"
  by (intro ext) (simp add: mem_view_def)

interpretation mem_host: worker_host "mem_host D load" "\<lambda>w. mem_faults w = []" for D load
proof (intro worker_host.intro worker_host_axioms.intro, goal_cases)
  case 1
  show ?case by (simp add: mem_engine.engine_axioms)
next
  case 2
  show ?case by (simp add: mem_cloud.available_cloud_axioms)
next
  case (6 p xid q)
  then show ?case
    by (auto simp: stays_def mem_host_def split: prod.splits)
qed (auto simp: stays_def mem_host_def wp_def py_run_defs split: prod.splits sum.splits)

interpretation mem_clock: worker_clock "mem_host D load" mem_clock for D load
  by (rule worker_clock.intro, simp add: mem.runtime_axioms, unfold_locales)
    (auto simp: mem_host_def mem_cloud_def stays_def mem_defs py_run_defs
       split: option.splits list.splits if_splits)

section \<open>Properties\<close>

text \<open>
  C28: the worker ends every execution it takes. While the services are available and the others keep the
  execution tracked, a call that returns has left it with a final status, in its row and out of the
  status index: the status of the engine's result, \<open>Cancelled\<close> when that was asked for, \<open>Timeout\<close>, or
  \<open>Failed\<close> when the workflow could not be loaded or something raised. A call that raises, whose message goes back
  to the queue, leaves it with some status.
\<close>

theorem worker_ends_execution:
  assumes "worker_host H ok" and "ok w" and "parse_message (ho_env H) msg = Inr j"
    and "no_quote (jb_execution_id j)" and "no_quote (partition_of (jb_org_id j))"
    and "in_status (env_rows (ho_env H) w) (partition_of (jb_org_id j)) (jb_execution_id j) s"
    and "handle_workflow_execution n H msg w = (out, w')"
  shows "\<exists>s'. in_status (env_rows (ho_env H) w') (partition_of (jb_org_id j)) (jb_execution_id j) s'
    \<and> (out = Inr (Some ()) \<longrightarrow> s' \<in> {SUCCESS, FAILED, TIMEOUT, COMPLETED_WITH_ERRORS, CANCELLED})"
proof -
  have "worker_host.alive H ok j w"
    using assms(2,6) by (auto simp: worker_host.alive_def [OF assms(1)] tracked_def)
  from worker_host.wp_handle_workflow_execution [OF assms(1,3-5) this, of n] assms(7)
  show ?thesis
    by (auto simp: wp_def worker_host.outcome_def [OF assms(1)] worker_host.alive_def [OF assms(1)]
        worker_host.ended_def [OF assms(1)] tracked_def ended_statuses_def split: sum.splits if_splits)
qed

definition sync_message :: pyval where
  "sync_message = PDict [(''execution_id'', PStr ''x1''), (''workflow_name'', PStr ''sync''), (''org_id'', PNone),
     (''user_id'', PStr ''ann''), (''user_name'', PStr ''Ann''), (''user_email'', PStr ''ann@acme.com''), (''parameters'', PDict [])]"

text \<open>A workflow without any time, which is stopped in the first round.\<close>

definition sync_host :: "engine_mem host" where
  "sync_host = mem_host 500000 (\<lambda>name. Inr (Some (function_with (\<lambda>_ _. Returns PNone),
     \<lparr>wm_timeout_seconds = 0, wm_public_endpoint = False\<rparr>)))"

definition worker_world :: engine_mem where
  "worker_world = engine_world\<lparr>mem_rows := mem_rows running_world\<rparr>"

lemma worker_world_view [simp]: "mem_view worker_world = mem_view running_world" "mem_faults worker_world = []"
  by (intro ext, simp add: mem_view_def worker_world_def) (simp add: worker_world_def engine_world_def)

theorem worker_ends_execution_witness:
  "\<exists>w' s'. handle_workflow_execution (Suc 0) sync_host sync_message worker_world = (Inr (Some ()), w')
     \<and> in_status (mem_view w') ''GLOBAL'' ''x1'' s' \<and> s' \<notin> {PENDING, RUNNING, CANCELLING}"
proof -
  let ?run = "handle_workflow_execution (Suc 0) sync_host sync_message worker_world"
  have "case ?run of (Inr (Some _), _) \<Rightarrow> True | _ \<Rightarrow> False" by code_simp
  then obtain w' where run: "?run = (Inr (Some ()), w')" by (auto split: prod.splits sum.splits option.splits)
  let ?j = "\<lparr>jb_execution_id = ''x1'', jb_workflow_name = ''sync'', jb_org_id = None, jb_user_id = ''ann'', jb_code = None,
     jb_user_name = ''Ann'', jb_user_email = ''ann@acme.com'', jb_parameters = []\<rparr>"
  have msg: "parse_message (ho_env sync_host) sync_message = Inr ?j"
    by (simp add: sync_host_def parse_message_def sync_message_def item_def pget_def dict_items_def opt_text_def)
  have host: "worker_host sync_host (\<lambda>w. mem_faults w = [])"
    unfolding sync_host_def by (rule mem_host.worker_host_axioms)
  from worker_ends_execution [OF host, of worker_world, OF _ msg _ _ _ run, of RUNNING]
  show ?thesis
    using running_world_status run by (auto simp: partition_of_def sync_host_def)
qed



end
