(* ===== verification/Execution_Cleanup.thy ===== *)
theory Execution_Cleanup
  imports Worker
begin

text \<open>
  What ends executions the worker has left behind: the timer of \<open>functions/timer/execution_cleanup.py\<close>,
  its manual trigger in \<open>shared/handlers/execution_cleanup_handlers.py\<close>, and the handlers of the
  queue of failed messages in \<open>functions/queue/poison_queue_handler.py\<close>. Counts that only a log line
  shows are left out.
\<close>

section \<open>The timer\<close>

definition PENDING_TIMEOUT_MINUTES :: int where
  "PENDING_TIMEOUT_MINUTES = 10"

definition RUNNING_TIMEOUT_MINUTES :: int where
  "RUNNING_TIMEOUT_MINUTES = 30"

definition CANCELLING_TIMEOUT_MINUTES :: int where
  "CANCELLING_TIMEOUT_MINUTES = 3"

text \<open>Why an execution is ended, the threshold of its status and its final status.\<close>

definition timeout_reason :: "model \<Rightarrow> (string \<times> int \<times> execution_status) option" where
  "timeout_reason m =
     (if dget0 m ''status'' = PStr (status_value PENDING) then
        Some (''Stuck in PENDING status for '' @ str_int PENDING_TIMEOUT_MINUTES
          @ ''+ minutes. Likely queue processing issue or worker not running.'', PENDING_TIMEOUT_MINUTES, TIMEOUT)
      else if dget0 m ''status'' = PStr (status_value RUNNING) then
        Some (''Stuck in RUNNING status for '' @ str_int RUNNING_TIMEOUT_MINUTES
          @ ''+ minutes. Likely worker crash or workflow hang.'', RUNNING_TIMEOUT_MINUTES, TIMEOUT)
      else if dget0 m ''status'' = PStr (status_value CANCELLING) then
        Some (''Stuck in CANCELLING status for '' @ str_int CANCELLING_TIMEOUT_MINUTES
          @ ''+ minutes. Worker likely crashed during cancellation.'', CANCELLING_TIMEOUT_MINUTES, CANCELLED)
      else None)"

definition end_execution :: "'w services \<Rightarrow> repo \<Rightarrow> model \<Rightarrow> execution_status \<Rightarrow> string \<Rightarrow> pyval \<Rightarrow> ('w, unit) py" where
  "end_execution S r m st reason logs = (let E = sv_env S in py_then
     (log_update_execution S r (fstr E (dget0 m ''executionId'')) (opt_text E (dget0 m ''orgId''))
        (fstr E (dget0 m ''executedBy'')) st PNone (Some reason) None logs PNone None)
     (ret ()))"

definition timeout_log :: "'w env \<Rightarrow> model \<Rightarrow> datetime \<Rightarrow> string \<Rightarrow> int \<Rightarrow> pyval" where
  "timeout_log E m now reason threshold = PList [PDict [(''timestamp'', PStr (env_isoformat E now)),
     (''level'', PStr ''error''), (''message'', PStr reason),
     (''data'', PDict [(''timeout_type'', PStr ''automatic_cleanup''), (''original_status'', dget0 m ''status''),
        (''timeout_threshold_minutes'', PInt threshold)])]]"

definition optional_isoformat :: "'w env \<Rightarrow> pyval \<Rightarrow> exn + pyval" where
  "optional_isoformat E v = (if truthy v then attr_isoformat E v else Inr PNone)"

definition clean_up :: "'w services \<Rightarrow> model \<Rightarrow> ('w, unit) py" where
  "clean_up S m = (case timeout_reason m of None \<Rightarrow> ret ()
     | Some (reason, threshold, final_status) \<Rightarrow>
        py_then (lift (optional_isoformat (sv_env S) (dget0 m ''startedAt'')))
        (py_bind (utcnow (sv_env S)) (\<lambda>now.
           end_execution S (execution_repo None) m final_status reason (timeout_log (sv_env S) m now reason threshold))))"

definition execution_cleanup :: "'w services \<Rightarrow> ('w, unit) py" where
  "execution_cleanup S = py_catch
     (py_bind (get_stuck_executions (sv_env S) PENDING_TIMEOUT_MINUTES RUNNING_TIMEOUT_MINUTES CANCELLING_TIMEOUT_MINUTES)
        (\<lambda>stuck_executions. py_for stuck_executions (\<lambda>m. py_catch (clean_up S m) (\<lambda>_. ret ()))))
     (\<lambda>_. ret ())"

section \<open>The manual trigger\<close>

definition execution_summary :: "'w env \<Rightarrow> model \<Rightarrow> exn + pyval" where
  "execution_summary E m = ebind (optional_isoformat E (dget0 m ''startedAt'')) (\<lambda>started.
     Inr (PDict [(''executionId'', dget0 m ''executionId''), (''workflowName'', dget0 m ''workflowName''),
       (''status'', dget0 m ''status''), (''executedBy'', dget0 m ''executedBy''),
       (''executedByName'', dget0 m ''executedByName''), (''startedAt'', started)]))"

definition get_stuck_executions_handler :: "'w services \<Rightarrow> ('w, http_response) py" where
  "get_stuck_executions_handler S = py_bind (get_stuck_executions (sv_env S) 10 30 3) (\<lambda>stuck_executions.
     py_bind (lift (map_exn (execution_summary (sv_env S)) stuck_executions)) (\<lambda>executions_data.
     ret (200, PDict [(''executions'', PList executions_data), (''count'', PInt (int (length executions_data)))])))"

record cleanup_counts =
  cc_pending :: int
  cc_running :: int
  cc_failed :: int

text \<open>A count goes up before its update is tried; a failed update counts once more.\<close>

definition manual_cleanup :: "'w services \<Rightarrow> exec_context \<Rightarrow> model \<Rightarrow> cleanup_counts \<Rightarrow> ('w, cleanup_counts) py" where
  "manual_cleanup S ctx m c =
     (let attempt = (\<lambda>reason c. py_catch
        (py_then (end_execution S (execution_repo (Some ctx)) m TIMEOUT reason PNone) (ret c))
        (\<lambda>_. ret (c\<lparr>cc_failed := cc_failed c + 1\<rparr>))) in
      if dget0 m ''status'' = PStr (status_value PENDING)
      then attempt ''Stuck in PENDING status for 10+ minutes (manual cleanup)'' (c\<lparr>cc_pending := cc_pending c + 1\<rparr>)
      else if dget0 m ''status'' = PStr (status_value RUNNING)
      then attempt ''Stuck in RUNNING status for 30+ minutes (manual cleanup)'' (c\<lparr>cc_running := cc_running c + 1\<rparr>)
      else ret c)"

primrec manual_cleanups :: "'w services \<Rightarrow> exec_context \<Rightarrow> model list \<Rightarrow> cleanup_counts \<Rightarrow> ('w, cleanup_counts) py" where
  "manual_cleanups S ctx [] c = ret c"
| "manual_cleanups S ctx (m # ms) c = py_bind (manual_cleanup S ctx m c) (manual_cleanups S ctx ms)"

definition trigger_cleanup_handler :: "'w services \<Rightarrow> exec_context \<Rightarrow> ('w, http_response) py" where
  "trigger_cleanup_handler S ctx = py_bind (get_stuck_executions (sv_env S) 10 30 3) (\<lambda>stuck_executions.
     py_bind (manual_cleanups S ctx stuck_executions \<lparr>cc_pending = 0, cc_running = 0, cc_failed = 0\<rparr>) (\<lambda>c.
     ret (200, PDict [(''cleaned'', PInt (cc_pending c + cc_running c)), (''pending'', PInt (cc_pending c)),
       (''running'', PInt (cc_running c)), (''failed'', PInt (cc_failed c))])))"

section \<open>Failed messages\<close>

definition process_poison_message :: "'w services \<Rightarrow> pyval \<Rightarrow> int \<Rightarrow> ('w, unit) py" where
  "process_poison_message S message_data dequeue_count = (let E = sv_env S in
     py_bind (lift (pget message_data ''execution_id'' (PStr ''unknown''))) (\<lambda>execution_id.
     py_bind (lift (pget message_data ''org_id'' PNone)) (\<lambda>org_id.
     py_bind (lift (pget message_data ''user_id'' (PStr ''unknown''))) (\<lambda>user_id.
     py_then (log_update_execution S (execution_repo None) (fstr E execution_id) (opt_text E org_id) (fstr E user_id) FAILED PNone
        (Some (''Execution failed after '' @ str_int dequeue_count
           @ '' attempts and was moved to poison queue. This indicates a persistent failure that requires investigation.''))
        None PNone PNone None)
     (ret ())))))"

text \<open>A message is its text and how often it was taken from the queue.\<close>

type_synonym queue_msg = "string \<times> int option"

definition process_message_text :: "'w services \<Rightarrow> queue_msg \<Rightarrow> ('w, unit) py" where
  "process_message_text S msg = (case env_loads (sv_env S) (fst msg) of
     None \<Rightarrow> raise (ValueError ''Expecting value'')
   | Some message_data \<Rightarrow> process_poison_message S message_data (case snd msg of None \<Rightarrow> 1 | Some n \<Rightarrow> n))"

definition workflow_execution_poison_handler :: "'w services \<Rightarrow> queue_msg \<Rightarrow> ('w, unit) py" where
  "workflow_execution_poison_handler S msg = py_catch (process_message_text S msg) (\<lambda>_. ret ())"

text \<open>Every message is deleted, processed or not; \<open>receive\<close> and \<open>delete\<close> are the client of the queue.\<close>

definition workflow_execution_poison_timer ::
  "'w services \<Rightarrow> ('w, queue_msg list) py \<Rightarrow> (queue_msg \<Rightarrow> ('w, unit) py) \<Rightarrow> ('w, unit) py" where
  "workflow_execution_poison_timer S receive delete = py_catch
     (py_bind receive (\<lambda>messages. py_for messages (\<lambda>msg. py_catch
        (py_then (process_message_text S msg) (delete msg))
        (\<lambda>_. delete msg))))
     (\<lambda>_. ret ())"

section \<open>Other executions\<close>

text \<open>An update of an execution leaves the status of every other one alone.\<close>

lemma in_status_same: "same_rows R R' \<Longrightarrow> in_status R p x s \<Longrightarrow> in_status R' p x s"
  using status_indexed_same [of R R' x s] by (auto simp: in_status_def primary_row_def same_rows_def)

lemma status_index_keys [simp]:
  "status_index_key (status_value t) y = status_index_key (status_value s) x \<longleftrightarrow> t = s \<and> y = x"
  by (cases t; cases s) (auto simp: status_index_key_def)

lemma in_status_put_index:
  assumes "in_status R p x s" and "xid \<noteq> x"
  shows "in_status (put_row ''Relationships'' (''GLOBAL'', status_index_key (status_value t) xid) row R) p x s"
  using assms by (auto simp: in_status_def status_indexed_def primary_row_def put_row_apply)

lemma in_status_put_row:
  assumes "in_status R p x s" and "xid \<noteq> x" and "R ''Entities'' k = Some d" "d ''ExecutionId'' = Some (PStr xid)"
    and "e ''ExecutionId'' = Some (PStr xid)"
  shows "in_status (put_row ''Entities'' k (Some e) R) p x s"
proof -
  obtain k0 where prim: "primary_row R p x s k0" and "status_indexed R x s"
    using assms(1) by (auto simp: in_status_def)
  have "primary_row (put_row ''Entities'' k (Some e) R) p x s k0"
    using prim assms(2-5) by (auto simp: primary_row_def put_row_apply)
  moreover have "status_indexed (put_row ''Entities'' k (Some e) R) x s"
    using \<open>status_indexed R x s\<close> by (simp add: status_indexed_def put_row_apply)
  ultimately show ?thesis by (auto simp: in_status_def)
qed

context table_sdk
begin

lemma stays_pred: "(\<And>v. stays (\<lambda>w. env_rows E w = v) m) \<Longrightarrow> stays (\<lambda>w. P (env_rows E w)) m"
  unfolding stays_def by metis

lemma stays_rows_get: "stays (\<lambda>w. env_rows E w = v) (sdk_get E t p r)"
  by (rule staysI) (auto intro!: wp_sdk_get)

lemma stays_other_rows:
  "stays (\<lambda>w. in_status (env_rows E w) p x s) (update_entity E relationships_service e mode)"
  "stays (\<lambda>w. in_status (env_rows E w) p x s) (get_entity E relationships_service q k)"
  "stays (\<lambda>w. in_status (env_rows E w) p x s) (execution_entity_to_model E e)"
proof -
  have upd: "stays (\<lambda>w. in_status (env_rows E w) p x s) (sdk_update E ''Relationships'' e' m et)" for e' m et
    by (rule staysI) (auto intro!: wp_sdk_update intro: in_status_same [OF same_rows_put])
  show "stays (\<lambda>w. in_status (env_rows E w) p x s) (update_entity E relationships_service e mode)"
    unfolding update_entity_def relationships_service_def table_service.select_convs by (intro stays_intros upd)
  show "stays (\<lambda>w. in_status (env_rows E w) p x s) (get_entity E relationships_service q k)"
    unfolding get_entity_def by (rule stays_pred) (intro stays_intros stays_rows_get)
  show "stays (\<lambda>w. in_status (env_rows E w) p x s) (execution_entity_to_model E e)"
    unfolding execution_entity_to_model_def by (rule stays_pred) (intro stays_intros)
qed

lemma stays_other_index:
  assumes "xid \<noteq> x"
  shows "stays (\<lambda>w. in_status (env_rows E w) p x s)
    (update_status_index E old xid st (new_status_index xid org uid wn st now e))"
proof -
  have del: "stays (\<lambda>w. in_status (env_rows E w) p x s)
      (delete_entity E relationships_service ''GLOBAL'' (status_index_key (status_value t) xid))" for t
    unfolding delete_entity_def relationships_service_def table_service.select_convs
    by (intro stays_intros staysI wp_sdk_delete) (simp_all add: in_status_put_index [OF _ assms])
  have ins: "stays (\<lambda>w. in_status (env_rows E w) p x s)
      (insert_entity E relationships_service (new_status_index xid org uid wn st now e))"
    by (intro staysI wp_insert_entity [OF new_status_index_key])
      (simp_all add: in_status_put_index [OF _ assms] relationships_service_def)
  have "\<exists>t. k = status_index_key (status_value t) xid" if "old_status_key old xid = Some k" for k
    using that by (auto simp: old_status_key_def split: option.splits)
  then show ?thesis
    unfolding update_status_index_def
    by (cases "old_status_key old xid") (auto intro!: stays_intros del ins)
qed

lemma stays_other_execution:
  assumes "xid \<noteq> x" and "no_quote xid" "no_quote (partition_of org)" and r: "repo_table r = ''Entities''"
  shows "stays (\<lambda>w. in_status (env_rows E w) p x s) (update_execution E r xid org uid st res err ms in_blob)"
proof (rule staysI)
  fix w
  let ?I = "\<lambda>w. in_status (env_rows E w) p x s" and ?T = "env_rows E w ''Entities''"
  assume w: "?I w"
  show "wp (update_execution E r xid org uid st res err ms in_blob) (\<lambda>_. ?I) (\<lambda>_. ?I) w"
    unfolding update_execution_def wp_bind
  proof (rule wp_utcnow, goal_cases)
    case (1 n w1)
    show ?case
      unfolding Let_def repo_query_def wp_bind
    proof (rule wp_query_entities [OF clean_execution_filter(1) [OF assms(3,2)] clean_execution_filter(2)], goal_cases)
      case (1 ks w2)
      have T: "env_rows E w1 (svc_table (repo_service r)) = ?T"
        using \<open>env_rows E w1 = env_rows E w\<close> r by (simp add: repo_service_def)
      have w2: "env_rows E w2 = env_rows E w" using 1 \<open>env_rows E w1 = env_rows E w\<close> by simp
      have row: "\<exists>d. ?T k = Some d \<and> d ''ExecutionId'' = Some (PStr xid) \<and> entity_key d = Some k" if k: "k \<in> set ks" for k
      proof -
        obtain d where d: "?T k = Some d" "sat (execution_filter (partition_of org) xid) d"
          using k unfolding selects_iff [OF 1(2)] T by blast
        moreover have "entity_key d = Some k" by (rule rows_keyed [OF d(1)])
        ultimately show ?thesis by (cases k) (auto simp: execution_filter_def simp del: sat_clause.simps(1))
      qed
      show ?case
      proof (cases ks)
        case Nil
        then show ?thesis using w w2 by (simp add: fetch_def)
      next
        case (Cons k ks')
        then obtain d where d: "?T k = Some d" "d ''ExecutionId'' = Some (PStr xid)" "entity_key d = Some k"
          using row [of k] by auto
        let ?d = "deserialize_datetime_fields E d"
        have res: "map (deserialize_datetime_fields E) (fetch None (env_rows E w1 (svc_table (repo_service r))) ks)
            = ?d # map (deserialize_datetime_fields E) (fetch None ?T ks')"
          unfolding T Cons using d(1) by (simp add: fetch_def)
        let ?u = "updated_execution st (env_isoformat E n) ms err in_blob ?d"
        show ?thesis
        proof (cases "with_result E res in_blob ?u")
          case (Inl y)
          then show ?thesis unfolding res list.case wp_bind wp_lift using w w2 by simp
        next
          case (Inr e)
          note e = with_result_fields [OF Inr]
          have key: "entity_key e = Some k"
            using e d(3) by (cases k) (simp add: entity_key_Some)
          have put: "?I v" if "env_rows E v = put_row (svc_table (repo_service r)) k
              (Some (write_row (mode_of ''merge'') (serialize_datetime_fields E e) (Some old))) (env_rows E w2)"
            and "env_rows E w2 (svc_table (repo_service r)) k = Some old" for v old
            using that in_status_put_row [OF w assms(1) d(1,2)] e(3) d(2) r w2
            by (simp add: repo_service_def mode_of_def write_row_def map_add_def drop_none_apply)
          show ?thesis
            unfolding res list.case wp_bind [of "lift _"] wp_lift Inr sum.case repo_update_def
              wp_then [of "update_entity E (repo_service r) e ''merge''"]
          proof (rule wp_update_entity [OF key], goal_cases)
            case (1 old w3)
            then have "?I w3" by (rule put [rotated])
            then show ?case
              by (rule stays_wp [rotated])
                (intro stays_intros stays_gather_exceptions; auto intro!: stays_intros stays_other_rows stays_other_index assms(1))
          next
            case (2 y w3)
            then show ?case using w w2 by simp
          next
            case (3 y old w3)
            then show ?case by (intro put)
          qed
        qed
      qed
    next
      case (2 y w2)
      then show ?case using w \<open>env_rows E w1 = env_rows E w\<close> by simp
    qed
  qed
qed

end

context cloud
begin

lemma stays_other_log:
  assumes "xid \<noteq> x" and "no_quote xid" "no_quote (partition_of org)"
  shows "stays (\<lambda>w. in_status (rows w) p x s) (log_update_execution S (execution_repo ctx) xid org uid st res err ms logs vars bc)"
proof -
  have r: "repo_table (execution_repo ctx) = ''Entities''" by (simp add: execution_repo_def)
  note same = stays_pred [OF stays_store_result(1)] stays_pred [OF stays_upload_named(1)] stays_pred [OF stays_upload_named(3)]
    stays_pred [OF stays_broadcasts(1)] stays_pred [OF stays_broadcasts(4)]
  show ?thesis
    unfolding log_update_execution_def by (intro stays_intros same stays_other_execution [OF assms r])
qed

end

context available_cloud
begin

lemma stays_log_ok:
  assumes "no_quote xid" "no_quote (partition_of org)"
  shows "stays ok (log_update_execution S r xid org uid st res err ms logs vars bc)"
proof -
  have store: "stays ok (store_result S xid res)"
    by (rule staysI) (auto elim!: wp_mono [OF wp_store_result_ok])
  have upload: "stays ok (upload_logs S xid v)" "stays ok (upload_variables S xid v)" for v
    unfolding upload_logs_def upload_variables_def
    by (rule staysI, rule wp_mono [OF wp_upload_json_ok]; auto)+
  show ?thesis
    unfolding log_update_execution_def
    by (intro stays_intros store upload stays_update_execution assms)
qed

end

section \<open>Only what is stuck\<close>

text \<open>Rows of the status index name the execution of their key; identifiers need no quoting.\<close>

definition row_org :: "entity \<Rightarrow> string option" where
  "row_org row = (case row ''OrganizationId'' of Some (PStr org) \<Rightarrow> Some org | _ \<Rightarrow> None)"

definition named_index :: "tables \<Rightarrow> bool" where
  "named_index R \<longleftrightarrow> (\<forall>rk row. R ''Relationships'' (''GLOBAL'', rk) = Some row \<and> startswith rk ''status:'' \<longrightarrow>
     (\<exists>st k. rk = status_index_key (status_value st) k \<and> no_quote k \<and> row ''ExecutionId'' = Some (PStr k)
       \<and> no_quote (partition_of (row_org row))
       \<and> (row ''OrganizationId'' = None \<or> (\<exists>org. row ''OrganizationId'' = Some (PStr org)))))"

definition moved :: "execution_status \<Rightarrow> execution_status \<Rightarrow> bool" where
  "moved s s' \<longleftrightarrow> s' = s \<or> s \<in> {PENDING, RUNNING} \<and> s' = TIMEOUT \<or> s = CANCELLING \<and> s' = CANCELLED"

lemma active_status_key:
  assumes "''status:'' @ status_value st @ c # t = status_index_key (status_value st') k" and "st \<in> set active_statuses"
  shows "st' = st"
  using assms by (cases st; cases st') (auto simp: status_index_key_def active_statuses_def)

context runtime
begin

lemma stuck_row_model:
  assumes "m \<in> stuck_rows E now (R ''Relationships'') st t" and "named_index R" and "st \<in> set active_statuses"
  obtains k row where "R ''Relationships'' (''GLOBAL'', status_index_key (status_value st) k) = Some row"
    and "stuck_execution E now st t (deserialize_datetime_fields E row) = Inr (Some m)"
    and "fstr E (dget0 m ''executionId'') = k" "opt_text E (dget0 m ''orgId'') = row_org row"
    and "no_quote k" "no_quote (partition_of (row_org row))" "dget0 m ''status'' = PStr (status_value st)"
proof -
  obtain rk row where rk: "rk \<in> assigned_keys (''status:'' @ status_value st) (R ''Relationships'')"
    and row: "R ''Relationships'' (''GLOBAL'', rk) = Some row"
    and m: "stuck_execution E now st t (deserialize_datetime_fields E row) = Inr (Some m)"
    using assms(1) by (auto simp: stuck_rows_def)
  obtain c u where u: "rk = ''status:'' @ status_value st @ c # u"
    using rk by (auto simp: assigned_keys_def)
  have "startswith rk ''status:''" unfolding u by (rule startswith_append)
  with assms(2) row obtain st' k where k: "rk = status_index_key (status_value st') k" "no_quote k"
    "row ''ExecutionId'' = Some (PStr k)" "no_quote (partition_of (row_org row))"
    and org: "row ''OrganizationId'' = None \<or> (\<exists>org. row ''OrganizationId'' = Some (PStr org))"
    unfolding named_index_def by blast
  have st': "st' = st" by (rule active_status_key [OF trans [OF u [symmetric] k(1)] assms(3)])
  let ?d = "deserialize_datetime_fields E row"
  have fields: "dget ?d ''ExecutionId'' (PStr []) = PStr k" "dget0 ?d ''OrganizationId'' = dget0 row ''OrganizationId''"
    using k(3) by (simp_all add: dget_def datetime_fields_def)
  from m obtain started where val: "env_validate E ''WorkflowExecution''
                 [''executionId'' \<mapsto> dget ?d ''ExecutionId'' (PStr []),
                  ''workflowName'' \<mapsto> dget ?d ''WorkflowName'' (PStr []),
                  ''orgId'' \<mapsto> dget0 ?d ''OrganizationId'', ''formId'' \<mapsto> PNone,
                  ''status'' \<mapsto> PStr (status_value st),
                  ''executedBy'' \<mapsto> dget ?d ''ExecutedBy'' (PStr []),
                  ''executedByName'' \<mapsto> dget ?d ''ExecutedByName'' (PStr []),
                  ''startedAt'' \<mapsto> PDate started, ''completedAt'' \<mapsto> PNone, ''durationMs'' \<mapsto> PNone,
                  ''errorMessage'' \<mapsto> PNone, ''inputData'' \<mapsto> PDict [], ''result'' \<mapsto> PNone,
                  ''resultType'' \<mapsto> PNone, ''logs'' \<mapsto> PNone] = Inr m"
    unfolding stuck_execution_def Let_def by (auto split: if_splits option.splits sum.splits)
  have str: "m f = Some (PStr s)" if "f \<in> {''executionId'', ''orgId'', ''status''}"
    "(if f = ''executionId'' then dget ?d ''ExecutionId'' (PStr []) else if f = ''orgId'' then dget0 ?d ''OrganizationId''
      else PStr (status_value st)) = PStr s" for f s
    using that by (auto intro!: validate_str [OF val] simp: str_fields_def split: if_splits)
  have "m ''executionId'' = Some (PStr k)" by (rule str) (simp_all add: fields)
  moreover have "m ''status'' = Some (PStr (status_value st))" by (rule str) simp_all
  moreover have "opt_text E (dget0 m ''orgId'') = row_org row"
  proof (cases "row ''OrganizationId''")
    case None
    then have "m ''orgId'' = Some PNone"
      by (intro validate_none [OF val]) (use fields(2) in \<open>simp_all add: opt_fields_def dget_def\<close>)
    then show ?thesis using None by (simp add: opt_text_def row_org_def dget_def)
  next
    case (Some v)
    then obtain org where v: "v = PStr org" using org by auto
    then have "m ''orgId'' = Some (PStr org)" by (intro str) (use Some fields(2) in \<open>simp_all add: dget_def\<close>)
    then show ?thesis using Some v by (simp add: opt_text_def row_org_def dget_def)
  qed
  ultimately show ?thesis
    using that [OF row [unfolded k(1) st'] m] k(2,4) by (simp add: dget_def)
qed

end

context available_cloud
begin

text \<open>The execution has its first status, or the final one that belongs to it when it was due.\<close>

definition swept :: "bool \<Rightarrow> string \<Rightarrow> string \<Rightarrow> execution_status \<Rightarrow> 'w \<Rightarrow> bool" where
  "swept due p x s w \<longleftrightarrow> ok w \<and> (\<exists>s'. in_status (rows w) p x s' \<and> moved s s' \<and> (s' \<noteq> s \<longrightarrow> due))"

lemma sweptI: "ok w \<Longrightarrow> in_status (rows w) p x s' \<Longrightarrow> moved s s' \<Longrightarrow> (s' \<noteq> s \<Longrightarrow> due) \<Longrightarrow> swept due p x s w"
  by (auto simp: swept_def)

lemma stays_swept:
  assumes "stays ok m" and "\<And>s'. stays (\<lambda>w. in_status (rows w) p x s') m"
  shows "stays (swept due p x s) m"
  using assms unfolding stays_def swept_def by metis

text \<open>The cleanup of one stuck execution moves the status of that one only.\<close>

lemma wp_clean_up:
  assumes "m \<in> stuck_rows (sv_env S) now (R ''Relationships'') st t" and "named_index R" and "st \<in> set active_statuses"
    and start: "in_status R p x s" "\<And>row. R ''Relationships'' (''GLOBAL'', status_index_key (status_value s) x) = Some row
      \<Longrightarrow> partition_of (row_org row) = p"
    and due: "\<And>row. R ''Relationships'' (''GLOBAL'', status_index_key (status_value s) x) = Some row \<Longrightarrow> s = st
      \<Longrightarrow> stuck_execution (sv_env S) now st t (deserialize_datetime_fields (sv_env S) row) = Inr (Some m) \<Longrightarrow> due"
    and w: "swept due p x s w"
  shows "wp (clean_up S m) (\<lambda>_. swept due p x s) (\<lambda>_. swept due p x s) w"
proof -
  obtain k row where row: "R ''Relationships'' (''GLOBAL'', status_index_key (status_value st) k) = Some row"
    and m: "stuck_execution (sv_env S) now st t (deserialize_datetime_fields (sv_env S) row) = Inr (Some m)"
    "fstr (sv_env S) (dget0 m ''executionId'') = k" "opt_text (sv_env S) (dget0 m ''orgId'') = row_org row"
    "no_quote k" "no_quote (partition_of (row_org row))" "dget0 m ''status'' = PStr (status_value st)"
    by (rule stuck_row_model [OF assms(1-3)])
  obtain reason threshold final where reason: "timeout_reason m = Some (reason, threshold, final)" "moved st final"
    using m(6) assms(3) by (auto simp: timeout_reason_def active_statuses_def moved_def)
  have log: "wp (log_update_execution S (execution_repo None) k (row_org row) uid final PNone (Some reason) None logs PNone None)
      (\<lambda>_. swept due p x s) (\<lambda>_. swept due p x s) w'" if w': "swept due p x s w'" for uid logs w'
  proof (cases "k = x")
    case False
    show ?thesis
      by (rule stays_wp [OF stays_swept w']) (intro stays_log_ok stays_other_log False m(4,5))+
  next
    case True
    have "status_indexed R x s" using start(1) by (simp add: in_status_def)
    then have st: "st = s" using row True unfolding status_indexed_def by (metis option.distinct(1))
    have p: "partition_of (row_org row) = p" using start(2) row True st by simp
    have "due" using due row True st m(1) by blast
    have r: "repo_table (execution_repo None) = ''Entities''" by (simp add: execution_repo_def)
    obtain s1 where s1: "ok w'" "in_status (rows w') (partition_of (row_org row)) k s1" "moved s s1"
      using w' True p by (auto simp: swept_def)
    from wp_log_update_execution [OF s1(1) r m(4,5) s1(2)] show ?thesis
      by (rule wp_mono) (use True p reason(2) st s1(3) \<open>due\<close> in \<open>auto intro: sweptI\<close>)
  qed
  have clock: "wp (utcnow (sv_env S)) Q (\<lambda>_. swept due p x s) w" if "\<And>d w'. swept due p x s w' \<Longrightarrow> Q d w'" for Q
    by (rule wp_mono [OF stays_wp [OF stays_swept w]]) (use that in \<open>auto intro: stays_intros stays_pred\<close>)
  show ?thesis
    unfolding clean_up_def reason option.case prod.case wp_then wp_bind wp_lift end_execution_def Let_def m(2,3) wp_ret
    using w by (auto intro!: clock log split: sum.splits)
qed

lemma wp_execution_cleanup:
  assumes "ok w" and "named_index (rows w)" and "in_status (rows w) p x s"
    and org: "\<And>row. rows w ''Relationships'' (''GLOBAL'', status_index_key (status_value s) x) = Some row
      \<Longrightarrow> partition_of (row_org row) = p"
    and due: "\<And>row t m. rows w ''Relationships'' (''GLOBAL'', status_index_key (status_value s) x) = Some row
      \<Longrightarrow> (s, t) \<in> {(PENDING, PENDING_TIMEOUT_MINUTES), (RUNNING, RUNNING_TIMEOUT_MINUTES), (CANCELLING, CANCELLING_TIMEOUT_MINUTES)}
      \<Longrightarrow> stuck_execution (sv_env S) (fst (env_utcnow (sv_env S) w)) s t (deserialize_datetime_fields (sv_env S) row) = Inr (Some m)
      \<Longrightarrow> due"
  shows "wp (execution_cleanup S) (\<lambda>_. swept due p x s) (\<lambda>_ _. False) w"
proof -
  let ?E = "sv_env S" and ?R = "rows w" and ?I = "swept due p x s"
  let ?now = "fst (env_utcnow ?E w)"
  let ?stuck = "\<lambda>st t. stuck_rows ?E ?now (?R ''Relationships'') st t"
  have w: "?I w" using assms(1,3) by (auto intro: sweptI simp: moved_def)
  have query: "stays ok (query_entities ?E relationships_service (Some (odata (index_filter (''status:'' @ status_value st)))) None)" for st
    unfolding index_filter_def by (rule staysI) (auto intro!: wp_query_entities_ok clean_assignment assignment_nonempty)
  have read: "stays (\<lambda>w. rows w = v) (query_entities ?E sv f sel)" for v sv f sel
    unfolding query_entities_def by (intro stays_intros)
  have a: "stays ok (get_stuck_executions ?E tp tr tc)" for tp tr tc
    unfolding get_stuck_executions_def by (intro stays_intros query)
  have b: "stays (\<lambda>w. rows w = v) (get_stuck_executions ?E tp tr tc)" for v tp tr tc
    unfolding get_stuck_executions_def by (intro stays_intros read)
  have "stays ?I (get_stuck_executions ?E tp tr tc)" for tp tr tc
    by (rule stays_swept [OF a stays_pred [OF b]])
  note stuck = wp_conj [OF wp_stuck_executions [OF assms(1)] stays_wp [OF this w]]
  have one: "wp (clean_up S m) (\<lambda>_. ?I) (\<lambda>_. ?I) w'" if "m \<in> ?stuck st t" "?I w'"
    "(st, t) \<in> {(PENDING, PENDING_TIMEOUT_MINUTES), (RUNNING, RUNNING_TIMEOUT_MINUTES), (CANCELLING, CANCELLING_TIMEOUT_MINUTES)}"
    for m st t w'
    by (rule wp_clean_up [OF that(1) assms(2) _ assms(3) org]) (use that due in \<open>auto simp: active_statuses_def\<close>)
  have all: "wp (py_for ms (\<lambda>m. py_catch (clean_up S m) (\<lambda>_. ret ()))) (\<lambda>_. ?I) (\<lambda>_ _. False) w'"
    if "set ms = ?stuck PENDING PENDING_TIMEOUT_MINUTES \<union> ?stuck RUNNING RUNNING_TIMEOUT_MINUTES
      \<union> ?stuck CANCELLING CANCELLING_TIMEOUT_MINUTES" "?I w'" for ms w'
  proof (rule wp_for_inv [where I = ?I])
    fix m v
    assume m: "m \<in> set ms" and v: "?I v"
    then have "wp (clean_up S m) (\<lambda>_. ?I) (\<lambda>_. ?I) v" using one that(1) by auto
    then show "wp (py_catch (clean_up S m) (\<lambda>_. ret ())) (\<lambda>_. ?I) (\<lambda>_ _. False) v" by simp
  qed (rule that(2))
  show ?thesis
    unfolding execution_cleanup_def wp_catch wp_bind
    by (rule wp_mono [OF stuck]) (auto intro: wp_mono [OF all])
qed

end

section \<open>Properties\<close>


definition stuck_cloud :: cloud_mem where
  "stuck_cloud = cloud_world\<lparr>mem_clock := 1800000001, mem_rows := [((''Entities'', (''GLOBAL'', ''execution:9_x1'')),
       [''PartitionKey'' \<mapsto> PStr ''GLOBAL'', ''RowKey'' \<mapsto> PStr ''execution:9_x1'', ''ExecutionId'' \<mapsto> PStr ''x1'',
        ''Status'' \<mapsto> PStr ''Running'']),
     ((''Relationships'', (''GLOBAL'', ''status:Running:x1'')),
       [''PartitionKey'' \<mapsto> PStr ''GLOBAL'', ''RowKey'' \<mapsto> PStr ''status:Running:x1'', ''ExecutionId'' \<mapsto> PStr ''x1'',
        ''StartedAt'' \<mapsto> PDate (Naive 0)])]\<rparr>"


end
