(* ===== verification/Cron.thy ===== *)
theory Cron
  imports Blob_Storage
begin

text \<open>
  \<open>shared/workflows/cron_parser.py\<close>: when a scheduled workflow runs next, and how its schedule reads. The
  package \<open>croniter\<close> is the record \<open>cron_lib\<close>: whether an expression is valid, and the next time after
  another one. Expressions are split at ASCII white space.
\<close>

record cron_lib =
  cr_is_valid :: "string \<Rightarrow> exn + bool"
  cr_next :: "string \<Rightarrow> datetime \<Rightarrow> exn + datetime"

section \<open>Validation\<close>

text \<open>\<open>s.split()\<close>.\<close>

definition split_ws :: "string \<Rightarrow> string list" where
  "split_ws s = filter (\<lambda>w. w \<noteq> []) (split_all (CHR 0x20) (map (\<lambda>c. if is_space c then CHR 0x20 else c) s))"

definition validate_cron_expression :: "cron_lib \<Rightarrow> string \<Rightarrow> bool" where
  "validate_cron_expression C expression =
     (if length (split_ws expression) \<noteq> 5 then False
      else case cr_is_valid C expression of Inl _ \<Rightarrow> False | Inr b \<Rightarrow> b)"

section \<open>In words\<close>

text \<open>\<open>s.split(c)[1]\<close>, and \<open>f'{s:0>2}'\<close>.\<close>

definition second_part :: "char \<Rightarrow> string \<Rightarrow> exn + string" where
  "second_part c s = (case split_all c s of _ # x # _ \<Rightarrow> Inr x | _ \<Rightarrow> Inl IndexError)"

definition pad2 :: "string \<Rightarrow> string" where
  "pad2 s = replicate (2 - length s) CHR ''0'' @ s"

definition time_part :: "string \<Rightarrow> string \<Rightarrow> exn + string" where
  "time_part minute hour =
     (if minute = ''0'' \<and> hour \<noteq> ''*'' then
        (if CHR '','' \<in> set hour
         then Inr (''at '' @ join '', '' (map (\<lambda>h. pad2 h @ '':00'') (split_all CHR '','' hour)))
         else if CHR ''-'' \<in> set hour then
           (case split_all CHR ''-'' hour of
              [start, stop] \<Rightarrow> Inr (''between '' @ pad2 start @ '':00 and '' @ pad2 stop @ '':00'')
            | _ \<Rightarrow> Inl (ValueError ''too many values to unpack''))
         else if startswith hour ''*/'' then ebind (second_part CHR ''/'' hour) (\<lambda>interval. Inr (''every '' @ interval @ '' hours''))
         else Inr (''at '' @ pad2 hour @ '':00''))
      else if minute \<noteq> ''*'' \<and> hour \<noteq> ''*'' then Inr (''at '' @ pad2 hour @ '':'' @ pad2 minute)
      else Inr [])"

definition frequency :: "string \<Rightarrow> string \<Rightarrow> string \<Rightarrow> string" where
  "frequency day month dayofweek =
     (if day = ''*'' \<and> month = ''*'' \<and> dayofweek = ''*'' then ''every day''
      else if dayofweek = ''0'' \<or> dayofweek = ''7'' then ''every Sunday''
      else if dayofweek = ''1'' then ''every Monday''
      else if dayofweek = ''2'' then ''every Tuesday''
      else if dayofweek = ''3'' then ''every Wednesday''
      else if dayofweek = ''4'' then ''every Thursday''
      else if dayofweek = ''5'' then ''every Friday''
      else if dayofweek = ''6'' then ''every Saturday''
      else if day = ''1'' \<and> month = ''*'' then ''on the 1st of every month''
      else if day \<noteq> ''*'' \<and> month \<noteq> ''*'' then ''on day '' @ day @ '' of month '' @ month
      else if day \<noteq> ''*'' then ''on day '' @ day @ '' of every month''
      else ''daily'')"

definition describe_fields :: "string \<Rightarrow> string \<Rightarrow> string \<Rightarrow> string \<Rightarrow> string \<Rightarrow> exn + string" where
  "describe_fields minute hour day month dayofweek =
     (let rest = day = ''*'' \<and> month = ''*'' \<and> dayofweek = ''*'' in
      if startswith minute ''*/'' \<and> hour = ''*'' \<and> rest
      then ebind (second_part CHR ''/'' minute) (\<lambda>interval. Inr (''Every '' @ interval @ '' minutes''))
      else if minute = ''*'' \<and> hour = ''*'' \<and> rest then Inr ''Every minute''
      else if minute = ''0'' \<and> hour = ''*'' \<and> rest then Inr ''Every hour at minute 0''
      else if minute = ''0'' \<and> startswith hour ''*/'' \<and> rest
      then ebind (second_part CHR ''/'' hour) (\<lambda>interval. Inr (''Every '' @ interval @ '' hours''))
      else ebind (time_part minute hour) (\<lambda>tp.
        let fr = frequency day month dayofweek in
        Inr (if tp \<noteq> [] then replace_all ''  '' '' '' (fr @ '' '' @ tp) else fr)))"

definition describe_expression :: "string \<Rightarrow> exn + string" where
  "describe_expression expression = (case split_ws expression of
     [minute, hour, day, month, dayofweek] \<Rightarrow> describe_fields minute hour day month dayofweek
   | _ \<Rightarrow> Inr ''Invalid CRON expression format'')"

definition cron_to_human_readable :: "cron_lib \<Rightarrow> string \<Rightarrow> string" where
  "cron_to_human_readable C expression =
     (if \<not> validate_cron_expression C expression then ''Invalid CRON expression''
      else case describe_expression expression of Inl _ \<Rightarrow> ''CRON: '' @ expression | Inr s \<Rightarrow> s)"

definition is_cron_expression_valid :: "cron_lib \<Rightarrow> string \<Rightarrow> bool" where
  "is_cron_expression_valid C expression =
     (if \<not> validate_cron_expression C expression then False
      else if cron_to_human_readable C expression \<in> {''Invalid CRON expression format'', ''Invalid CRON expression''} then False
      else True)"

section \<open>The next run\<close>

text \<open>The clock a datetime shows, in microseconds; a day is \<open>day_length\<close> of them.\<close>

definition day_length :: int where
  "day_length = minutes 1440"

fun wall_clock :: "datetime \<Rightarrow> int" where
  "wall_clock (Naive t) = t"
| "wall_clock (Aware t z) = t + minutes z"

fun set_wall_clock :: "datetime \<Rightarrow> int \<Rightarrow> datetime" where
  "set_wall_clock (Naive _) l = Naive l"
| "set_wall_clock (Aware _ z) l = Aware (l - minutes z) z"

text \<open>\<open>dt.replace(hour=m // 60, minute=m % 60, second=0, microsecond=0)\<close>.\<close>

definition replace_time :: "datetime \<Rightarrow> int \<Rightarrow> datetime" where
  "replace_time d m = set_wall_clock d (wall_clock d - wall_clock d mod day_length + minutes m)"

definition round_to_next_timer_interval :: "datetime \<Rightarrow> datetime" where
  "round_to_next_timer_interval dt =
     (let minutes_since_midnight = (wall_clock dt mod day_length) div minutes 1;
          rounded_minutes = ((minutes_since_midnight + 4) div 5) * 5 in
      if 1440 \<le> rounded_minutes then replace_time (dt_add dt day_length) 0
      else replace_time dt rounded_minutes)"

definition calculate_next_run :: "cron_lib \<Rightarrow> string \<Rightarrow> datetime \<Rightarrow> exn + datetime" where
  "calculate_next_run C expression base_time =
     (if \<not> validate_cron_expression C expression then Inl (ValueError (''Invalid CRON expression: '' @ expression))
      else map_sum id round_to_next_timer_interval (cr_next C expression base_time))"

section \<open>Lemmas\<close>

lemma wall_clock_set [simp]: "wall_clock (set_wall_clock d l) = l"
  by (cases d) simp_all

lemma wall_clock_add [simp]: "wall_clock (dt_add d n) = wall_clock d + n"
  by (cases d) simp_all

text \<open>Rounding goes up to the next multiple of five minutes after the seconds were dropped.\<close>

lemma wall_clock_round:
  "wall_clock (round_to_next_timer_interval d) = (wall_clock d div minutes 1 + 4) div 5 * minutes 5"
proof -
  define u where "u = minutes 1"
  define l where "l = wall_clock d"
  define m where "m = l mod day_length div u"
  define r where "r = (m + 4) div 5 * 5"
  have u: "0 < u" "day_length = u * 1440" "minutes n = n * u" for n
    by (simp_all add: u_def day_length_def minutes_def)
  have "l div u = (l div day_length * 1440 * u + l mod day_length) div u"
    using div_mult_mod_eq [of l day_length] by (simp add: u(2) ac_simps)
  then have day: "l div u = l div day_length * 1440 + m"
    using u(1) by (simp add: m_def)
  have "(l div u + 4) div 5 = l div day_length * 288 + (m + 4) div 5"
  proof -
    have "(m + 4 + x * 288 * 5) div 5 = x * 288 + (m + 4) div 5" for x
      by (rule div_mult_self1) simp
    then show ?thesis unfolding day by (simp add: algebra_simps)
  qed
  then have "(l div u + 4) div 5 * minutes 5 = l div day_length * day_length + minutes r"
    unfolding r_def u(2,3) by (simp add: algebra_simps)
  moreover have "l - l mod day_length = l div day_length * day_length"
    by (simp add: minus_mod_eq_div_mult)
  moreover have "r = 1440" if "1440 \<le> r"
  proof -
    have "l mod day_length < 1440 * u" using u by (simp add: ac_simps)
    moreover have "m * u \<le> l mod day_length"
      unfolding m_def using div_mult_mod_eq [of "l mod day_length" u] pos_mod_sign [OF u(1), of "l mod day_length"] by linarith
    ultimately have "m * u < 1440 * u" by linarith
    then have "m < 1440" using u(1) by simp
    then show ?thesis using that unfolding r_def by presburger
  qed
  moreover have "(l + day_length) mod day_length = l mod day_length" by simp
  ultimately show ?thesis
    unfolding round_to_next_timer_interval_def Let_def replace_time_def
    unfolding l_def [symmetric] u_def [symmetric] m_def [symmetric] r_def [symmetric]
    by (auto simp: l_def [symmetric] m_def [symmetric] r_def [symmetric] u(2,3) algebra_simps)
qed

text \<open>A valid expression is never described as an invalid one, so the second check of the validation finds nothing.\<close>

lemma replace_all_hd: "x \<noteq> CHR 0x20 \<Longrightarrow> replace_all ''  '' new (x # xs) = x # replace_all ''  '' new xs"
  by simp

lemma describe_not_invalid:
  assumes "describe_expression e = Inr s" and "length (split_ws e) = 5"
  shows "s \<noteq> ''Invalid CRON expression format''" "s \<noteq> ''Invalid CRON expression''"
proof -
  obtain minute hour day month dayofweek where "split_ws e = [minute, hour, day, month, dayofweek]"
    using assms(2) by (auto simp: length_Suc_conv numeral_eq_Suc)
  then have d: "describe_fields minute hour day month dayofweek = Inr s"
    using assms(1) by (simp add: describe_expression_def)
  obtain x xs where fr: "frequency day month dayofweek = x # xs" "x \<in> {CHR ''e'', CHR ''o'', CHR ''d''}"
  proof (cases "frequency day month dayofweek")
    case Nil
    have "frequency day month dayofweek \<noteq> []" unfolding frequency_def by simp
    with Nil show ?thesis by simp
  next
    case (Cons x xs)
    have "hd (frequency day month dayofweek) \<in> {CHR ''e'', CHR ''o'', CHR ''d''}" unfolding frequency_def by simp
    with Cons that show ?thesis by simp
  qed
  have x: "x \<noteq> CHR ''I''" "x \<noteq> CHR 0x20" using fr(2) by auto
  have "\<exists>y ys. s = y # ys \<and> y \<noteq> CHR ''I''"
  proof -
    have every: "\<exists>y ys. s = y # ys \<and> y \<noteq> CHR ''I''" if "ebind m (\<lambda>i. Inr (''Every '' @ i @ tail)) = Inr s" for m tail
      using that by (auto simp: ebind_Inr)
    have words: "\<exists>y ys. s = y # ys \<and> y \<noteq> CHR ''I''" if "ebind m (\<lambda>tp. let fr = frequency day month dayofweek in
        Inr (if tp \<noteq> [] then replace_all ''  '' '' '' (fr @ '' '' @ tp) else fr)) = Inr s" for m
      using that x fr(1) by (cases m) (auto simp: Let_def replace_all_hd)
    show ?thesis
      using d unfolding describe_fields_def Let_def [of "day = _ \<and> _"] by (simp only: split: if_split_asm) (blast intro: every words | force)+
  qed
  then show "s \<noteq> ''Invalid CRON expression format''" "s \<noteq> ''Invalid CRON expression''" by auto
qed

lemma is_valid_iff_validate: "is_cron_expression_valid C e \<longleftrightarrow> validate_cron_expression C e"
proof -
  have "cron_to_human_readable C e \<notin> {''Invalid CRON expression format'', ''Invalid CRON expression''}"
    if valid: "validate_cron_expression C e"
  proof (cases "describe_expression e")
    case (Inl x)
    then show ?thesis using valid by (simp add: cron_to_human_readable_def)
  next
    case (Inr s)
    have "length (split_ws e) = 5" using valid by (simp add: validate_cron_expression_def split: if_splits)
    from describe_not_invalid [OF Inr this] show ?thesis
      using valid Inr by (simp add: cron_to_human_readable_def)
  qed
  then show ?thesis by (simp add: is_cron_expression_valid_def)
qed

section \<open>Properties\<close>

text \<open>
  C31: the next run is one the timer will meet. For the five-field expressions the validation lets through,
  \<open>croniter\<close> answers a whole minute after the time it is asked for; then the next run is at a multiple of five
  minutes, not before that minute and at most four minutes after it, and later than the time asked for. An invalid
  expression is a \<open>ValueError\<close>.
\<close>

theorem next_run_on_timer:
  assumes "\<And>t. cr_next C expression base_time = Inr t
      \<Longrightarrow> wall_clock base_time < wall_clock t \<and> wall_clock t mod minutes 1 = 0"
  shows "case calculate_next_run C expression base_time of
      Inl x \<Rightarrow> (validate_cron_expression C expression \<longrightarrow> cr_next C expression base_time = Inl x)
        \<and> (\<not> validate_cron_expression C expression \<longrightarrow> (\<exists>m. x = ValueError m))
    | Inr r \<Rightarrow> validate_cron_expression C expression \<and> wall_clock r mod minutes 5 = 0 \<and> wall_clock base_time < wall_clock r
        \<and> (\<exists>t. cr_next C expression base_time = Inr t \<and> wall_clock t \<le> wall_clock r
             \<and> wall_clock r \<le> wall_clock t + minutes 4)"
proof (cases "cr_next C expression base_time")
  case (Inr t)
  define u where "u = minutes 1"
  define m where "m = wall_clock t div u"
  have u: "minutes n = n * u" "0 < u" for n by (simp_all add: u_def minutes_def)
  have t: "wall_clock t = m * u" "wall_clock base_time < wall_clock t"
    using assms [OF Inr] div_mult_mod_eq [of "wall_clock t" u] by (simp_all add: u_def m_def)
  have r: "wall_clock (round_to_next_timer_interval t) = (m + 4) div 5 * (5 * u)"
    using wall_clock_round [of t] by (simp add: m_def u_def minutes_def)
  have "m \<le> (m + 4) div 5 * 5" "(m + 4) div 5 * 5 \<le> m + 4" by presburger+
  then have "m * u \<le> (m + 4) div 5 * 5 * u" "(m + 4) div 5 * 5 * u \<le> (m + 4) * u"
    using u(2) by (simp_all add: mult_right_mono)
  then show ?thesis
    using Inr t r by (auto simp: calculate_next_run_def u(1) algebra_simps)
qed (simp add: calculate_next_run_def)

text \<open>From 10:11, a schedule that runs at every whole minute runs next at 10:15.\<close>

definition every_minute :: cron_lib where
  "every_minute = \<lparr>cr_is_valid = (\<lambda>_. Inr True),
     cr_next = (\<lambda>_ d. Inr (set_wall_clock d ((wall_clock d div minutes 1 + 1) * minutes 1)))\<rparr>"

theorem next_run_on_timer_witness:
  "calculate_next_run every_minute ''* * * * *'' (Naive (minutes 611)) = Inr (Naive (minutes 615)) \<and> minutes 615 mod minutes 5 = 0"
proof -
  have "cr_next every_minute ''* * * * *'' (Naive (minutes 611)) = Inr t \<Longrightarrow>
      wall_clock (Naive (minutes 611)) < wall_clock t \<and> wall_clock t mod minutes 1 = 0" for t
    by (auto simp: every_minute_def minutes_def)
  note next_run = next_run_on_timer [of every_minute "''* * * * *''" "Naive (minutes 611)", OF this]
  have "calculate_next_run every_minute ''* * * * *'' (Naive (minutes 611)) = Inr (Naive (minutes 615))"
    by code_simp
  then show ?thesis using next_run by simp
qed

end
