(* ===== verification/Schedules.thy ===== *)
theory Schedules
  imports Async_Executor Cron Middleware
begin

text \<open>
  Scheduled workflows: the timer of \<open>functions/timer/schedule_processor.py\<close> and the endpoints of
  \<open>shared/handlers/schedules_handlers.py\<close>. The state of a schedule is a row of \<open>Config\<close>; the timer claims a run by
  writing the next one with the ETag it has read. Scanning the workspace for workflows is a parameter; what
  only a log line shows (the counts of the timer, the warning for short intervals) is left out.
\<close>

record scheduled =
  sw_name :: string
  sw_description :: string
  sw_schedule :: "string option"

section \<open>The state of a schedule\<close>

definition config_service :: "'w env \<Rightarrow> exn + table_service" where
  "config_service E = async_table_storage_service E ''Config'' None None"

definition schedule_key :: "string \<Rightarrow> string" where
  "schedule_key workflow_name = ''schedule:'' @ workflow_name"

text \<open>\<open>datetime.fromisoformat(v)\<close> and \<open>a <= b\<close> of datetimes.\<close>

definition from_iso :: "'w env \<Rightarrow> pyval \<Rightarrow> exn + datetime" where
  "from_iso E v = (case v of
     PStr s \<Rightarrow> (case env_fromisoformat E s of Some d \<Rightarrow> Inr d | None \<Rightarrow> Inl (ValueError ''Invalid isoformat string''))
   | _ \<Rightarrow> Inl (TypeError ''fromisoformat: argument must be str''))"

definition dt_le :: "datetime \<Rightarrow> datetime \<Rightarrow> exn + bool" where
  "dt_le a b = map_sum id (\<lambda>d. d \<le> 0) (dt_diff a b)"

definition next_run_of :: "'w env \<Rightarrow> datetime \<Rightarrow> entity \<Rightarrow> exn + datetime" where
  "next_run_of E now st = from_iso E (dget st ''NextRunAt'' (PStr (env_isoformat E now)))"

definition new_schedule :: "'w env \<Rightarrow> scheduled \<Rightarrow> string \<Rightarrow> datetime \<Rightarrow> datetime \<Rightarrow> entity" where
  "new_schedule E sw expression now next_run_at =
     [''PartitionKey'' \<mapsto> PStr ''GLOBAL'', ''RowKey'' \<mapsto> PStr (schedule_key (sw_name sw)),
      ''WorkflowName'' \<mapsto> PStr (sw_description sw), ''CronExpression'' \<mapsto> PStr expression,
      ''NextRunAt'' \<mapsto> PStr (env_isoformat E next_run_at), ''LastRunAt'' \<mapsto> PNone, ''LastExecutionId'' \<mapsto> PNone,
      ''ExecutionCount'' \<mapsto> PInt 0, ''CreatedAt'' \<mapsto> PStr (env_isoformat E now)]"

text \<open>The state after an execution was queued.\<close>

definition executed_state :: "'w env \<Rightarrow> datetime \<Rightarrow> string \<Rightarrow> entity \<Rightarrow> exn + entity" where
  "executed_state E now execution_id st = map_sum id (\<lambda>n.
     st(''LastRunAt'' \<mapsto> PStr (env_isoformat E now), ''LastExecutionId'' \<mapsto> PStr execution_id, ''ExecutionCount'' \<mapsto> PInt (n + 1)))
     (int_of (dget st ''ExecutionCount'' (PInt 0)))"

section \<open>The timer\<close>

text \<open>A changed description or expression is written first; a changed expression gives a new next run.\<close>

definition refresh_schedule :: "'w env \<Rightarrow> cron_lib \<Rightarrow> table_service \<Rightarrow> scheduled \<Rightarrow> string \<Rightarrow> datetime \<Rightarrow> entity \<Rightarrow> ('w, entity) py" where
  "refresh_schedule E C s sw expression now st =
     (if dget st ''WorkflowName'' (PStr []) \<noteq> PStr (sw_description sw) \<or> dget st ''CronExpression'' (PStr []) \<noteq> PStr expression
      then py_bind (lift (if dget st ''CronExpression'' (PStr []) \<noteq> PStr expression
              then calculate_next_run C expression now else next_run_of E now st)) (\<lambda>next_run_at.
          let st' = st(''WorkflowName'' \<mapsto> PStr (sw_description sw), ''CronExpression'' \<mapsto> PStr expression,
                ''NextRunAt'' \<mapsto> PStr (env_isoformat E next_run_at)) in
          py_then (upsert_entity E s st' ''merge'') (ret st'))
      else ret st)"

text \<open>The claim: the next run is written if the row still is the one that was read.\<close>

definition claim_slot :: "'w env \<Rightarrow> cron_lib \<Rightarrow> table_service \<Rightarrow> string \<Rightarrow> datetime \<Rightarrow> entity \<Rightarrow> ('w, entity) py" where
  "claim_slot E C s expression now st = py_bind (lift (calculate_next_run C expression now)) (\<lambda>new_next_run.
     let st' = st(''NextRunAt'' \<mapsto> PStr (env_isoformat E new_next_run)) in
     py_then (update_entity_with_etag E s st' ''merge'') (ret st'))"

definition scheduler_context :: "string \<Rightarrow> exec_context" where
  "scheduler_context workflow_name = \<lparr>ctx_user_id = ''system:scheduler'', ctx_email = ''system@scheduler'',
     ctx_name = ''Scheduled Execution'', ctx_scope = ''GLOBAL'', ctx_organization = None, ctx_is_platform_admin = True,
     ctx_is_function_key = True, ctx_execution_id = ''scheduler-'' @ workflow_name, ctx_config = Map.empty,
     ctx_integration_calls = []\<rparr>"

definition run_claimed :: "'w services \<Rightarrow> table_service \<Rightarrow> scheduled \<Rightarrow> datetime \<Rightarrow> entity \<Rightarrow> ('w, unit) py" where
  "run_claimed S s sw now st = (let E = sv_env S in py_catch
     (py_bind (enqueue_workflow_execution S (scheduler_context (sw_name sw)) (sw_name sw) (PDict []) None None) (\<lambda>execution_id.
      py_bind (lift (executed_state E now execution_id st)) (\<lambda>st'.
      py_then (upsert_entity E s (st'(''etag'' := None)) ''merge'') (ret ()))))
     (\<lambda>_. ret ()))"

definition run_if_due :: "'w services \<Rightarrow> cron_lib \<Rightarrow> table_service \<Rightarrow> scheduled \<Rightarrow> string \<Rightarrow> datetime \<Rightarrow> entity \<Rightarrow> ('w, unit) py" where
  "run_if_due S C s sw expression now st = (let E = sv_env S in
     py_bind (lift (ebind (next_run_of E now st) (\<lambda>next_run_at. dt_le next_run_at now))) (\<lambda>due.
       if due then py_bind (py_attempt (claim_slot E C s expression now st)) (\<lambda>claimed. case claimed of
           Inl _ \<Rightarrow> ret ()
         | Inr st' \<Rightarrow> run_claimed S s sw now st')
       else ret ()))"

definition process_schedule :: "'w services \<Rightarrow> cron_lib \<Rightarrow> table_service \<Rightarrow> datetime \<Rightarrow> scheduled \<Rightarrow> ('w, unit) py" where
  "process_schedule S C s now sw = (let E = sv_env S; row_key = schedule_key (sw_name sw); expression = str_or (sw_schedule sw) [] in
     if sw_schedule sw = None \<or> \<not> is_cron_expression_valid C expression
     then py_bind (get_entity E s ''GLOBAL'' row_key) (\<lambda>existing. case existing of
         None \<Rightarrow> ret ()
       | Some _ \<Rightarrow> py_then (delete_entity E s ''GLOBAL'' row_key) (ret ()))
     else py_bind (get_entity E s ''GLOBAL'' row_key) (\<lambda>state. case state of
         None \<Rightarrow> py_bind (lift (calculate_next_run C expression now)) (\<lambda>next_run_at.
           py_then (upsert_entity E s (new_schedule E sw expression now next_run_at) ''merge'') (ret ()))
       | Some st \<Rightarrow> py_bind (refresh_schedule E C s sw expression now st) (run_if_due S C s sw expression now)))"

definition has_schedule :: "scheduled \<Rightarrow> bool" where
  "has_schedule sw \<longleftrightarrow> opt_truthy (sw_schedule sw)"

definition schedule_processor :: "'w services \<Rightarrow> cron_lib \<Rightarrow> ('w, scheduled list) py \<Rightarrow> ('w, unit) py" where
  "schedule_processor S C scan_all_workflows = py_bind (lift (config_service (sv_env S))) (\<lambda>s. py_catch
     (py_bind scan_all_workflows (\<lambda>all_workflows. py_bind (utcnow (sv_env S)) (\<lambda>now.
        py_for (filter has_schedule all_workflows) (\<lambda>sw. py_catch (process_schedule S C s now sw) (\<lambda>_. ret ())))))
     (\<lambda>_. ret ()))"

section \<open>The endpoints\<close>

record schedule_results =
  sr_due :: int
  sr_executed :: int
  sr_errors :: "pyval list"

definition schedule_error :: "scheduled \<Rightarrow> string \<Rightarrow> schedule_results \<Rightarrow> schedule_results" where
  "schedule_error sw err r = r\<lparr>sr_errors := sr_errors r
     @ [PDict [(''workflow_name'', PStr (sw_name sw)), (''error'', PStr err)]]\<rparr>"

text \<open>Unlike the timer, the endpoint queues the execution first and writes the state afterwards, without a claim.\<close>

definition execute_due :: "'w services \<Rightarrow> cron_lib \<Rightarrow> table_service \<Rightarrow> exec_context \<Rightarrow> datetime \<Rightarrow> scheduled \<Rightarrow> string
    \<Rightarrow> entity \<Rightarrow> ('w, unit) py" where
  "execute_due S C s ctx now sw expression st = (let E = sv_env S in
     py_bind (enqueue_workflow_execution S ctx (sw_name sw) (PDict []) None None) (\<lambda>execution_id.
     py_bind (lift (calculate_next_run C expression now)) (\<lambda>next_run_at.
     py_bind (lift (executed_state E now execution_id st)) (\<lambda>st'.
     py_then (upsert_entity E s (st'(''NextRunAt'' \<mapsto> PStr (env_isoformat E next_run_at))) ''merge'') (ret ())))))"

definition process_due :: "'w services \<Rightarrow> cron_lib \<Rightarrow> table_service \<Rightarrow> exec_context \<Rightarrow> datetime \<Rightarrow> scheduled
    \<Rightarrow> schedule_results \<Rightarrow> ('w, schedule_results) py" where
  "process_due S C s ctx now sw r = (let E = sv_env S; expression = str_or (sw_schedule sw) [] in
     if sw_schedule sw = None \<or> \<not> is_cron_expression_valid C expression
     then ret (schedule_error sw (''Invalid CRON expression: '' @ (case sw_schedule sw of None \<Rightarrow> ''None'' | Some e \<Rightarrow> e)) r)
     else py_catch
       (py_bind (get_entity E s ''GLOBAL'' (schedule_key (sw_name sw))) (\<lambda>state. case state of
          None \<Rightarrow> ret r
        | Some st \<Rightarrow> py_bind (lift (ebind (next_run_of E now st) (\<lambda>next_run_at. dt_le next_run_at now))) (\<lambda>due.
            if \<not> due then ret r
            else let r' = r\<lparr>sr_due := sr_due r + 1\<rparr> in py_catch
              (py_then (execute_due S C s ctx now sw expression st) (ret (r'\<lparr>sr_executed := sr_executed r' + 1\<rparr>)))
              (\<lambda>x. ret (schedule_error sw (exn_msg x) r')))))
       (\<lambda>x. ret (schedule_error sw (exn_msg x) r)))"

primrec process_all_due :: "'w services \<Rightarrow> cron_lib \<Rightarrow> table_service \<Rightarrow> exec_context \<Rightarrow> datetime \<Rightarrow> scheduled list
    \<Rightarrow> schedule_results \<Rightarrow> ('w, schedule_results) py" where
  "process_all_due S C s ctx now [] r = ret r"
| "process_all_due S C s ctx now (sw # sws) r =
     py_bind (process_due S C s ctx now sw r) (process_all_due S C s ctx now sws)"

definition process_due_schedules_handler :: "'w services \<Rightarrow> cron_lib \<Rightarrow> ('w, scheduled list) py \<Rightarrow> exec_context
    \<Rightarrow> ('w, http_response) py" where
  "process_due_schedules_handler S C scan_all_workflows ctx =
     py_bind (lift (config_service (sv_env S))) (\<lambda>s.
     py_bind scan_all_workflows (\<lambda>all_workflows. let scheduled_workflows = filter has_schedule all_workflows in
     py_bind (utcnow (sv_env S)) (\<lambda>now.
     py_bind (process_all_due S C s ctx now scheduled_workflows \<lparr>sr_due = 0, sr_executed = 0, sr_errors = []\<rparr>) (\<lambda>r.
     ret (200, PDict [(''total'', PInt (int (length scheduled_workflows))), (''due'', PInt (sr_due r)),
       (''executed'', PInt (sr_executed r)), (''failed'', PInt (int (length (sr_errors r)))),
       (''errors'', PList (sr_errors r))])))))"

definition as_utc :: "datetime \<Rightarrow> datetime" where
  "as_utc d = Aware (wall_clock d) 0"

text \<open>Two steps of the same iterator.\<close>

definition interval_seconds :: "cron_lib \<Rightarrow> string \<Rightarrow> datetime \<Rightarrow> exn + int" where
  "interval_seconds C expression now = ebind (cr_next C expression now) (\<lambda>first_run.
     ebind (cr_next C expression first_run) (\<lambda>second_run.
     map_sum id (\<lambda>us. us div 1000000) (dt_diff second_run first_run)))"

definition stored_runs :: "'w env \<Rightarrow> cron_lib \<Rightarrow> string \<Rightarrow> entity \<Rightarrow> ('w, datetime option \<times> datetime option \<times> pyval \<times> int) py" where
  "stored_runs E C expression st =
     (let last_run_at = (case st ''LastRunAt'' of None \<Rightarrow> None
        | Some v \<Rightarrow> (case from_iso E v of Inl _ \<Rightarrow> None | Inr d \<Rightarrow> Some (as_utc d))) in
      py_bind (lift (int_of (dget st ''ExecutionCount'' (PInt 0)))) (\<lambda>execution_count.
      py_bind (case st ''NextRunAt'' of None \<Rightarrow> ret None
        | Some v \<Rightarrow> (case from_iso E v of Inl _ \<Rightarrow> ret None
            | Inr _ \<Rightarrow> py_bind (utcnow E) (\<lambda>now. case calculate_next_run C expression now of
                Inr d \<Rightarrow> ret (Some (as_utc d))
              | Inl (ValueError _) \<Rightarrow> ret None
              | Inl (TypeError _) \<Rightarrow> ret None
              | Inl x \<Rightarrow> raise x))) (\<lambda>next_run_at.
      ret (next_run_at, last_run_at, dget0 st ''LastExecutionId'', execution_count))))"

text \<open>The warning for short intervals; a failure of the iterator gives none.\<close>

definition interval_warning :: "cron_lib \<Rightarrow> string \<Rightarrow> datetime \<Rightarrow> string option" where
  "interval_warning C expression now = (case interval_seconds C expression now of
     Inl _ \<Rightarrow> None
   | Inr n \<Rightarrow> if n < 300 then let m = n div 60 in
         Some (''Schedule runs every '' @ str_int m @ '' minute'' @ (if m \<noteq> 1 then ''s'' else []) @ '' (< 5 min recommended)'')
       else None)"

definition schedule_info :: "'w env \<Rightarrow> cron_lib \<Rightarrow> table_service \<Rightarrow> scheduled \<Rightarrow> ('w, model) py" where
  "schedule_info E C s sw = (let expression = str_or (sw_schedule sw) [] in
     py_bind (get_entity E s ''GLOBAL'' (schedule_key (sw_name sw))) (\<lambda>state.
     py_bind (case state of None \<Rightarrow> ret (None, None, PNone, 0) | Some st \<Rightarrow> stored_runs E C expression st)
       (\<lambda>(next_run, last_run_at, last_execution_id, execution_count).
     py_bind (if sw_schedule sw = None \<or> \<not> is_cron_expression_valid C expression
         then ret (None, ''error'', Some ''Invalid CRON expression'', False)
         else py_bind (utcnow E) (\<lambda>now. let warning = interval_warning C expression now in
           py_bind (case next_run of None \<Rightarrow> ret False
             | Some d \<Rightarrow> py_bind (utcnow E) (\<lambda>now'. py_bind (lift (dt_diff (as_utc now') d)) (\<lambda>past. ret (360000000 < past))))
           (\<lambda>is_overdue. ret (next_run, if warning = None then ''valid'' else ''warning'', warning, is_overdue))))
       (\<lambda>(next_run_at, validation_status, validation_message, is_overdue).
     lift (env_validate E ''ScheduleInfo''
       [''workflowName'' \<mapsto> PStr (sw_name sw), ''workflowDescription'' \<mapsto> PStr (sw_description sw),
        ''cronExpression'' \<mapsto> PStr expression, ''humanReadable'' \<mapsto> PStr (cron_to_human_readable C expression),
        ''nextRunAt'' \<mapsto> of_date_opt next_run_at, ''lastRunAt'' \<mapsto> of_date_opt last_run_at,
        ''lastExecutionId'' \<mapsto> last_execution_id, ''executionCount'' \<mapsto> PInt execution_count, ''enabled'' \<mapsto> PBool True,
        ''validationStatus'' \<mapsto> PStr validation_status, ''validationMessage'' \<mapsto> of_opt validation_message,
        ''isOverdue'' \<mapsto> PBool is_overdue])))))"

definition get_schedules :: "'w env \<Rightarrow> cron_lib \<Rightarrow> ('w, scheduled list) py \<Rightarrow> ('w, model list) py" where
  "get_schedules E C scan_all_workflows = py_bind (lift (config_service E)) (\<lambda>s.
     py_bind scan_all_workflows (\<lambda>all_workflows.
     py_bind (py_map (\<lambda>sw. py_catch (py_bind (schedule_info E C s sw) (\<lambda>m. ret [m])) (\<lambda>_. ret []))
        (filter has_schedule all_workflows)) (\<lambda>infos.
     ret (sort_key (\<lambda>m. fstr E (dget0 m ''workflowName'')) (concat infos)))))"

definition trigger_schedule_handler :: "'w services \<Rightarrow> cron_lib \<Rightarrow> (string \<Rightarrow> ('w, scheduled option) py) \<Rightarrow> exec_context
    \<Rightarrow> string \<Rightarrow> ('w, http_response) py" where
  "trigger_schedule_handler S C load_workflow ctx workflow_name = (let E = sv_env S in
     py_bind (lift (config_service E)) (\<lambda>s. py_bind (load_workflow workflow_name) (\<lambda>result. case result of
       None \<Rightarrow> ret (404, PDict [(''error'', PStr (''Workflow not found: '' @ workflow_name))])
     | Some sw \<Rightarrow>
        (if \<not> has_schedule sw
         then ret (400, PDict [(''error'', PStr (''Workflow '' @ workflow_name @ '' is not scheduled''))])
         else let expression = str_or (sw_schedule sw) [] in
           if \<not> is_cron_expression_valid C expression
           then ret (400, PDict [(''error'', PStr (''Workflow '' @ workflow_name @ '' has invalid CRON expression: '' @ expression))])
           else py_catch
             (py_bind (enqueue_workflow_execution S ctx workflow_name (PDict []) None None) (\<lambda>execution_id.
              py_bind (get_entity E s ''GLOBAL'' (schedule_key workflow_name)) (\<lambda>state.
              py_then (case state of None \<Rightarrow> ret ()
                | Some st \<Rightarrow> py_bind (utcnow E) (\<lambda>now.
                    py_bind (lift (calculate_next_run C expression now)) (\<lambda>next_run_at.
                    py_bind (lift (executed_state E now execution_id st)) (\<lambda>st'.
                    py_then (upsert_entity E s (st'(''NextRunAt'' \<mapsto> PStr (env_isoformat E next_run_at))) ''merge'') (ret ())))))
              (ret (202, PDict [(''executionId'', PStr execution_id), (''status'', PStr (status_value PENDING))])))))
             (\<lambda>x. ret (500, PDict [(''error'', PStr (''Failed to trigger workflow: '' @ exn_msg x))]))))))"

section \<open>Competing schedulers\<close>

text \<open>
  What the claim relies on: every row has a version that never goes back, its ETag names the version, and an
  update with an ETag succeeds only on the version it names, which it replaces.
\<close>

locale versioned_rows =
  fixes E :: "'w env" and version :: "'w \<Rightarrow> string \<Rightarrow> key \<Rightarrow> nat" and tag :: "nat \<Rightarrow> string"
  assumes tag_inject: "tag v = tag n \<longleftrightarrow> v = n"
    and version_grows: "stays (\<lambda>w. v \<le> version w t k) (sdk_update E t' e m et')"
    and etag_law: "wp (sdk_update E t e m (Some et))
      (\<lambda>_ w'. \<exists>k. entity_key e = Some k \<and> et = PStr (tag (version w t k)) \<and> version w t k < version w' t k) (\<lambda>_ _. True) w"
begin

lemma stays_claim: "stays (\<lambda>w. v \<le> version w t k) (claim_slot E C s expression now st)"
  unfolding claim_slot_def update_entity_with_etag_def by (intro stays_intros version_grows)

lemma wp_claim:
  assumes "entity_key st = Some k" and "st ''etag'' = Some (PStr (tag n))"
  shows "wp (claim_slot E C s expression now st)
    (\<lambda>_ w'. version w (svc_table s) k = n \<and> n < version w' (svc_table s) k) (\<lambda>_ _. True) w"
proof -
  let ?st = "\<lambda>d. st(''NextRunAt'' \<mapsto> PStr (env_isoformat E d))"
  have key: "entity_key ((?st d)(''etag'' := None)) = Some k" for d
    using assms(1) by (cases k) (simp add: entity_key_Some)
  have keyed: "keyed_entity s (?st d) = Inr (?st d)" for d
    using assms(1) by (cases k) (simp add: entity_key_Some keyed_entity_def apply_partition_key_def)
  show ?thesis
    unfolding claim_slot_def update_entity_with_etag_def Let_def wp_bind wp_lift wp_then wp_ret keyed
    using assms(2)
    by (auto split: sum.splits simp: tag_inject entity_key_serialize [OF key] intro!: wp_mono [OF etag_law])
qed

end

text \<open>
  Schedulers that try to claim in turn, each after something else has happened; the answer is which of them did.
\<close>

primrec contend :: "(('w, unit) py \<times> ('w, 'a) py) list \<Rightarrow> ('w, bool list) py" where
  "contend [] = ret []"
| "contend (c # cs) = py_bind (py_attempt (fst c)) (\<lambda>_. py_bind (py_attempt (snd c)) (\<lambda>r.
     py_bind (contend cs) (\<lambda>rs. ret ((\<not> isl r) # rs))))"

lemma wp_contend_length: "wp (contend cs) (\<lambda>rs _. length rs = length cs) (\<lambda>_ _. False) w"
proof (induction cs arbitrary: w)
  case (Cons c cs)
  have rest: "wp (contend cs) (\<lambda>rs _. length (b # rs) = length (c # cs)) (\<lambda>_ _. False) w'" for b w'
    by (rule wp_mono [OF Cons.IH]) simp_all
  have always: "wp m Q R w'" if "\<And>a w. Q a w" "\<And>x w. R x w" for m :: "('a, 'c) py" and Q R w'
    using that by (auto simp: wp_def split: prod.splits sum.splits)
  show ?case
    unfolding contend.simps wp_bind wp_attempt wp_ret
    by (intro always rest)
qed simp

context versioned_rows
begin

lemma wp_contend:
  assumes "\<forall>(other, now, st) \<in> set cs. (\<forall>v. stays (\<lambda>w. v \<le> version w (svc_table s) k) other)
      \<and> entity_key st = Some k \<and> st ''etag'' = Some (PStr (tag n))"
  shows "wp (contend (map (\<lambda>(other, now, st). (other, claim_slot E C s expression now st)) cs))
    (\<lambda>rs _. length (filter id rs) \<le> (if version w (svc_table s) k \<le> n then 1 else 0)) (\<lambda>_ _. False) w"
  using assms
proof (induction cs arbitrary: w)
  case (Cons c cs)
  obtain other now st where c: "c = (other, now, st)" by (cases c)
  let ?v = "\<lambda>w. version w (svc_table s) k"
  let ?rest = "contend (map (\<lambda>(other, now, st). (other, claim_slot E C s expression now st)) cs)"
  have IH: "wp ?rest (\<lambda>rs _. length (filter id rs) \<le> (if ?v w' \<le> n then 1 else 0)) (\<lambda>_ _. False) w'" for w'
    by (rule Cons.IH) (use Cons.prems in auto)
  have other: "stays (\<lambda>w'. ?v w \<le> ?v w') other" and st: "entity_key st = Some k" "st ''etag'' = Some (PStr (tag n))"
    using Cons.prems c by auto
  have claim: "wp (claim_slot E C s expression now st)
      (\<lambda>_ w'. (?v w1 = n \<and> n < ?v w') \<and> ?v w1 \<le> ?v w') (\<lambda>_ w'. True \<and> ?v w1 \<le> ?v w') w1" for w1
    by (rule wp_conj [OF wp_claim [OF st] stays_wp [OF stays_claim order_refl]])
  have turn: "wp (claim_slot E C s expression now st)
      (\<lambda>a. wp ?rest (\<lambda>rs _. length (filter id (True # rs)) \<le> (if ?v w \<le> n then 1 else 0)) (\<lambda>_ _. False))
      (\<lambda>x. wp ?rest (\<lambda>rs _. length (filter id (False # rs)) \<le> (if ?v w \<le> n then 1 else 0)) (\<lambda>_ _. False)) w1"
    if "?v w \<le> ?v w1" for w1
    by (rule wp_mono [OF claim]; rule wp_mono [OF IH]) (use that in \<open>auto split: if_splits\<close>)
  from stays_wp [OF other order_refl] show ?case
    unfolding c list.map contend.simps prod.case fst_conv snd_conv wp_bind wp_attempt wp_ret
    by (rule wp_mono) (use turn in auto)
qed simp

end

section \<open>Versioned rows in memory\<close>

record versioned_mem = cloud_mem +
  vm_version :: nat

text \<open>Every write, applied or not, makes a new version of all rows.\<close>

definition versioned_env :: "versioned_mem env" where
  "versioned_env = mem_env\<lparr>
     sdk_get := (\<lambda>t p r w. case sdk_get mem_env t p r w of
        (Inr (e, _), w') \<Rightarrow> (Inr (e, Some (replicate (vm_version w) CHR ''v'')), w')
      | res \<Rightarrow> res),
     sdk_update := (\<lambda>t e m et w.
        if et \<notin> {None, Some (PStr (replicate (vm_version w) CHR ''v''))} then (Inl ResourceModifiedError, w)
        else case sdk_update mem_env t e m None w of (r, w') \<Rightarrow> (r, w'\<lparr>vm_version := Suc (vm_version w)\<rparr>))\<rparr>"

interpretation versioned: versioned_rows versioned_env "\<lambda>w t k. vm_version w" "\<lambda>n. replicate n CHR ''v''"
proof (unfold_locales, goal_cases)
  case (1 v n)
  show ?case by (metis length_replicate)
next
  case (2 v t k t' e m et')
  show ?case by (auto simp: stays_def versioned_env_def split: prod.splits)
next
  case (3 t e m et w)
  have "\<exists>k. entity_key e = Some k" if "sdk_update mem_env t e m None w = (Inr (), w')" for w' :: versioned_mem
    using wp_Inr [OF mem.update_law that] by auto
  then show ?case by (auto simp: wp_def versioned_env_def split: prod.splits sum.splits)
qed

section \<open>Properties\<close>

text \<open>
  C32: no run of a schedule is claimed twice. Of any number of schedulers that have read the same version of
  the row, in whatever order they try to claim it and whatever else happens in between (versions do not go back), at
  most one succeeds.
\<close>

theorem slot_claimed_once:
  assumes "versioned_rows E version tag"
    and "\<forall>(other, now, st) \<in> set cs. (\<forall>v. stays (\<lambda>w. v \<le> version w (svc_table s) k) other)
      \<and> entity_key st = Some k \<and> st ''etag'' = Some (PStr (tag n))"
    and "contend (map (\<lambda>(other, now, st). (other, claim_slot E C s expression now st)) cs) w = (out, w')"
  shows "\<exists>rs. out = Inr rs \<and> length rs = length cs \<and> length (filter id rs) \<le> 1"
proof -
  note all = wp_conj [OF versioned_rows.wp_contend [OF assms(1,2), of C expression w] wp_contend_length]
  from all assms(3) show ?thesis
    by (auto simp: wp_def split: sum.splits if_splits)
qed

definition hourly_state :: entity where
  "hourly_state = [''PartitionKey'' \<mapsto> PStr ''GLOBAL'', ''RowKey'' \<mapsto> PStr ''schedule:sync'', ''etag'' \<mapsto> PStr [],
     ''NextRunAt'' \<mapsto> PStr ''0'']"

definition schedule_world :: versioned_mem where
  "schedule_world = \<lparr>mem_rows = [((''Config'', (''GLOBAL'', ''schedule:sync'')),
       [''PartitionKey'' \<mapsto> PStr ''GLOBAL'', ''RowKey'' \<mapsto> PStr ''schedule:sync''])],
     mem_clock = 0, mem_ids = 0, mem_faults = [], mem_files = [], mem_users = Map.empty,
     mem_orgs = Map.empty, cm_blobs = Map.empty, cm_queue = (\<lambda>_. []), cm_ready = {}, cm_counters = (\<lambda>_. 0), cm_sent = [],
     vm_version = 0\<rparr>"

theorem slot_claimed_once_witness:
  "\<exists>rs w'. contend (map (\<lambda>(other, now, st). (other, claim_slot versioned_env every_minute \<lparr>svc_table = ''Config'', svc_context = None\<rparr>
        ''* * * * *'' now st)) [(ret (), Naive 0, hourly_state), (ret (), Naive 5, hourly_state)]) schedule_world = (Inr rs, w')
     \<and> hd rs \<and> length (filter id rs) \<le> 1"
proof -
  let ?cs = "[(ret (), Naive 0, hourly_state), (ret (), Naive 5, hourly_state)]"
  let ?run = "contend (map (\<lambda>(other, now, st). (other, claim_slot versioned_env every_minute \<lparr>svc_table = ''Config'', svc_context = None\<rparr>
        ''* * * * *'' now st)) ?cs) schedule_world"
  have "case ?run of (Inr rs, _) \<Rightarrow> hd rs | _ \<Rightarrow> False" by code_simp
  then obtain rs w' where run: "?run = (Inr rs, w')" "hd rs" by (auto split: prod.splits sum.splits)
  have "\<forall>(other, now, st) \<in> set ?cs. (\<forall>v. stays (\<lambda>w. v \<le> vm_version w) other)
      \<and> entity_key st = Some (''GLOBAL'', ''schedule:sync'') \<and> st ''etag'' = Some (PStr (replicate 0 CHR ''v''))"
    by (auto simp: hourly_state_def entity_key_Some intro: stays_intros)
  from slot_claimed_once [OF versioned.versioned_rows_axioms this run(1)] run show ?thesis by auto
qed

end
