(* ===== verification/File_System.thy ===== *)
theory File_System
  imports Runtime "HOL-Library.AList"
begin

text \<open>
  The files the program sees: a tree of files, directories and symbolic links, and the calls of
  \<open>pathlib\<close>, \<open>os\<close> and \<open>shutil\<close> that the code makes on it. Paths are lists of components from the root.
  Any call of the operating system may fail, and one that fails may have done a part of its work.
\<close>

section \<open>Trees\<close>

type_synonym path = "string list"

datatype node = File string | Dir | Link string

type_synonym tree = "(path \<times> node) list"

definition node_at :: "tree \<Rightarrow> path \<Rightarrow> node option" where
  "node_at t p = (if p = [] then Some Dir else map_of t p)"

definition is_absolute :: "string \<Rightarrow> bool" where
  "is_absolute s \<longleftrightarrow> startswith s ''/''"

text \<open>\<open>Path(s).parts\<close> without the root: empty components and single dots are dropped, double dots are not.\<close>

definition parts :: "string \<Rightarrow> path" where
  "parts s = filter (\<lambda>c. c \<noteq> [] \<and> c \<noteq> ''.'') (split_all CHR ''/'' s)"

definition link_paths :: "tree \<Rightarrow> path set" where
  "link_paths t = {p. \<exists>s. map_of t p = Some (Link s)}"

lemma finite_link_paths: "finite (link_paths t)"
proof (rule finite_subset)
  show "link_paths t \<subseteq> fst ` set t" by (force simp: link_paths_def dest: map_of_SomeD)
qed simp

text \<open>
  \<open>os.path.realpath\<close>: the components are taken one by one, double dots leave the last directory, a link is
  replaced by the path it names. A link met again while it is replaced is a loop.
\<close>

function join_real :: "tree \<Rightarrow> path list \<Rightarrow> path \<Rightarrow> string list \<Rightarrow> path option" where
  "join_real t seen p [] = Some p"
| "join_real t seen p (c # cs) =
     (if c = [] \<or> c = ''.'' then join_real t seen p cs
      else if c = ''..'' then join_real t seen (butlast p) cs
      else case node_at t (p @ [c]) of
          Some (Link target) \<Rightarrow>
            if p @ [c] \<in> set seen then None
            else (case join_real t ((p @ [c]) # seen) (if is_absolute target then [] else p) (split_all CHR ''/'' target) of
                None \<Rightarrow> None
              | Some q \<Rightarrow> join_real t seen q cs)
        | _ \<Rightarrow> join_real t seen (p @ [c]) cs)"
  by pat_completeness auto

lemma fewer_links:
  assumes "node_at t (p @ [c]) = Some (Link s)" and "p @ [c] \<notin> set seen"
  shows "card (link_paths t - set ((p @ [c]) # seen)) < card (link_paths t - set seen)"
  by (rule psubset_card_mono) (use assms finite_link_paths in \<open>auto simp: node_at_def link_paths_def\<close>)

termination join_real
  by (relation "measures [\<lambda>(t, seen, p, cs). card (link_paths t - set seen), \<lambda>(t, seen, p, cs). length cs]")
    (auto dest!: fewer_links)

text \<open>No component of a resolved path is a link.\<close>

definition canonical :: "tree \<Rightarrow> path \<Rightarrow> bool" where
  "canonical t p \<longleftrightarrow> (\<forall>q s. prefix q p \<longrightarrow> node_at t q \<noteq> Some (Link s))"

lemma canonical_Nil [simp]: "canonical t []"
  by (simp add: canonical_def node_at_def)

lemma canonical_snoc: "canonical t (p @ [c]) \<longleftrightarrow> canonical t p \<and> (\<forall>s. node_at t (p @ [c]) \<noteq> Some (Link s))"
  by (auto simp: canonical_def)

lemma canonical_butlast: "canonical t p \<Longrightarrow> canonical t (butlast p)"
  by (cases p rule: rev_cases) (simp_all add: canonical_snoc)

lemma join_real_step:
  assumes "c \<noteq> []" "c \<noteq> ''.''" "c \<noteq> ''..''" and "\<And>s. node_at t (p @ [c]) \<noteq> Some (Link s)"
  shows "join_real t seen p (c # cs) = join_real t seen (p @ [c]) cs"
  using assms by (auto split: option.splits node.splits)

lemma join_real_link:
  assumes "c \<noteq> []" "c \<noteq> ''.''" "c \<noteq> ''..''" and "node_at t (p @ [c]) = Some (Link s)" and "join_real t seen p (c # cs) = Some q"
  obtains r where "p @ [c] \<notin> set seen"
    and "join_real t ((p @ [c]) # seen) (if is_absolute s then [] else p) (split_all CHR ''/'' s) = Some r"
    and "join_real t seen r cs = Some q"
  using assms by (auto split: if_splits option.splits)

declare join_real.simps(2) [simp del]

definition proper :: "path \<Rightarrow> bool" where
  "proper p \<longleftrightarrow> [] \<notin> set p \<and> ''.'' \<notin> set p \<and> ''..'' \<notin> set p"

text \<open>Runs of the loop that end, step by step.\<close>

lemma join_real_steps [consumes 1, case_names stop skip up link down]:
  assumes "join_real t seen p cs = Some q"
    and "\<And>seen p. P seen p [] p"
    and "\<And>seen p c cs q. c = [] \<or> c = ''.'' \<Longrightarrow> P seen p cs q \<Longrightarrow> P seen p (c # cs) q"
    and "\<And>seen p cs q. P seen (butlast p) cs q \<Longrightarrow> P seen p (''..'' # cs) q"
    and "\<And>seen p c cs s r q. proper [c] \<Longrightarrow> node_at t (p @ [c]) = Some (Link s) \<Longrightarrow> p @ [c] \<notin> set seen
      \<Longrightarrow> P ((p @ [c]) # seen) (if is_absolute s then [] else p) (split_all CHR ''/'' s) r \<Longrightarrow> P seen r cs q \<Longrightarrow> P seen p (c # cs) q"
    and "\<And>seen p c cs q. proper [c] \<Longrightarrow> (\<And>s. node_at t (p @ [c]) \<noteq> Some (Link s)) \<Longrightarrow> P seen (p @ [c]) cs q \<Longrightarrow> P seen p (c # cs) q"
  shows "P seen p cs q"
  using assms
proof (induction t seen p cs arbitrary: q rule: join_real.induct)
  case (2 t seen p c cs)
  note rules = "2.prems"(2-6)
  consider (skip) "c = [] \<or> c = ''.''" | (up) "c = ''..''"
    | (link) s where "c \<noteq> []" "c \<noteq> ''.''" "c \<noteq> ''..''" "node_at t (p @ [c]) = Some (Link s)"
    | (down) "c \<noteq> []" "c \<noteq> ''.''" "c \<noteq> ''..''" "\<And>s. node_at t (p @ [c]) \<noteq> Some (Link s)"
    by blast
  then show ?case
  proof cases
    case skip
    then have "join_real t seen p cs = Some q" using "2.prems"(1) by (elim disjE) (simp_all add: join_real.simps(2))
    then show ?thesis by (rule rules(2) [OF skip "2.IH"(1) [OF skip _ rules]])
  next
    case up
    then have go: "join_real t seen (butlast p) cs = Some q" using "2.prems"(1) by (simp add: join_real.simps(2))
    have "P seen (butlast p) cs q" by (rule "2.IH"(2) [OF _ up go rules]) (simp_all add: up)
    then show ?thesis unfolding up by (rule rules(3))
  next
    case (link s)
    obtain r where r: "p @ [c] \<notin> set seen"
      "join_real t ((p @ [c]) # seen) (if is_absolute s then [] else p) (split_all CHR ''/'' s) = Some r" "join_real t seen r cs = Some q"
      by (rule join_real_link [OF link "2.prems"(1)])
    have "P ((p @ [c]) # seen) (if is_absolute s then [] else p) (split_all CHR ''/'' s) r"
      by (rule "2.IH"(6) [OF _ _ link(4) refl r(1,2) rules]) (use link(1-3) in simp_all)
    moreover have "P seen r cs q" by (rule "2.IH"(7) [OF _ _ link(4) refl r(1,2,3) rules]) (use link(1-3) in simp_all)
    ultimately show ?thesis using rules(4) [OF _ link(4) r(1)] link(1-3) by (simp add: proper_def)
  next
    case down
    have go: "join_real t seen (p @ [c]) cs = Some q" using "2.prems"(1) by (simp only: join_real_step [OF down])
    have no: "\<not> (c = [] \<or> c = ''.'')" using down(1,2) by simp
    have "P seen (p @ [c]) cs q"
    proof (cases "node_at t (p @ [c])")
      case None
      show ?thesis by (rule "2.IH"(3) [OF no down(3) None go rules])
    next
      case (Some n)
      show ?thesis
      proof (cases n)
        case (File x)
        show ?thesis by (rule "2.IH"(4) [OF no down(3) Some File go rules])
      next
        case Dir
        show ?thesis by (rule "2.IH"(5) [OF no down(3) Some Dir go rules])
      qed (use Some down(4) in simp)
    qed
    then show ?thesis using rules(5) [OF _ down(4)] down(1-3) by (simp add: proper_def)
  qed
qed simp

lemma join_real_canonical: "join_real t seen p cs = Some q \<Longrightarrow> canonical t p \<Longrightarrow> canonical t q"
  by (induction rule: join_real_steps) (simp_all add: canonical_butlast canonical_snoc)

text \<open>Resolved components are names, resolved paths resolve to themselves, and resolving only depends on the links.\<close>

lemma proper_butlast: "proper p \<Longrightarrow> proper (butlast p)"
  by (auto simp: proper_def dest: in_set_butlastD)

lemma join_real_proper: "join_real t seen p cs = Some q \<Longrightarrow> proper p \<Longrightarrow> proper q"
  by (induction rule: join_real_steps) (simp_all add: proper_butlast, simp_all add: proper_def)

lemma join_real_self: "canonical t (p @ cs) \<Longrightarrow> proper cs \<Longrightarrow> join_real t seen p cs = Some (p @ cs)"
proof (induction cs arbitrary: p)
  case (Cons c cs)
  have "\<And>s. node_at t (p @ [c]) \<noteq> Some (Link s)" using Cons.prems(1) by (simp add: canonical_def)
  moreover have "c \<noteq> []" "c \<noteq> ''.''" "c \<noteq> ''..''" "proper cs" using Cons.prems(2) by (auto simp: proper_def)
  ultimately show ?case using Cons.IH [of "p @ [c]"] Cons.prems(1) by (simp add: join_real_step)
qed simp

definition link_at :: "tree \<Rightarrow> path \<Rightarrow> string option" where
  "link_at t p = (case node_at t p of Some (Link s) \<Rightarrow> Some s | _ \<Rightarrow> None)"

lemma link_at_Some: "node_at t p = Some (Link s) \<longleftrightarrow> link_at t p = Some s"
  by (auto simp: link_at_def split: option.splits node.splits)

lemma join_real_links:
  assumes "join_real t seen p cs = Some q" and "link_at t' = link_at t"
  shows "join_real t' seen p cs = Some q"
  using assms(1)
proof (induction rule: join_real_steps)
  case (link seen p c cs s r q)
  then have "node_at t' (p @ [c]) = Some (Link s)" using assms(2) by (simp add: link_at_Some)
  then show ?case using link(1,3-5) by (auto simp: join_real.simps(2) proper_def)
next
  case (down seen p c cs q)
  have "\<And>s. node_at t' (p @ [c]) \<noteq> Some (Link s)" using down(2) assms(2) by (simp add: link_at_Some)
  moreover have "c \<noteq> []" "c \<noteq> ''.''" "c \<noteq> ''..''" using down(1) by (auto simp: proper_def)
  ultimately show ?case using down(3) by (simp add: join_real_step)
qed (simp_all add: join_real.simps(2))

text \<open>What a path leads to when links are followed.\<close>

definition follow :: "tree \<Rightarrow> path \<Rightarrow> node option" where
  "follow t p = (case join_real t [] [] p of Some q \<Rightarrow> node_at t q | None \<Rightarrow> None)"

lemma canonical_link_at: "canonical t p \<longleftrightarrow> (\<forall>q. prefix q p \<longrightarrow> link_at t q = None)"
  unfolding canonical_def link_at_Some by (metis not_None_eq option.distinct(1))

lemma follow_self: "canonical t p \<Longrightarrow> proper p \<Longrightarrow> follow t p = node_at t p"
  using join_real_self [of t "[]" p "[]"] by (simp add: follow_def)

section \<open>Changes of trees\<close>

text \<open>
  \<open>mkdir(parents=True)\<close> as far as it got: the missing directories from the root on. A file on the way is an error.
\<close>

definition missing_dirs :: "tree \<Rightarrow> path \<Rightarrow> path list" where
  "missing_dirs t p = filter (\<lambda>q. node_at t q = None) (prefixes p)"

definition make_dirs :: "path list \<Rightarrow> tree \<Rightarrow> tree" where
  "make_dirs qs t = fold (\<lambda>q. AList.update q Dir) qs t"

text \<open>\<open>rmtree\<close>: deepest entries first.\<close>

definition under :: "tree \<Rightarrow> path \<Rightarrow> path list" where
  "under t p = sort_key (\<lambda>q. - int (length q)) (filter (prefix p) (map fst t))"

definition remove_paths :: "path list \<Rightarrow> tree \<Rightarrow> tree" where
  "remove_paths qs t = filter (\<lambda>(q, _). q \<notin> set qs) t"

definition move_paths :: "path \<Rightarrow> path \<Rightarrow> tree \<Rightarrow> tree" where
  "move_paths p q t = map (\<lambda>(k, n). (if prefix p k then q @ drop (length p) k else k, n)) t"

definition names_in :: "tree \<Rightarrow> path \<Rightarrow> string list" where
  "names_in t p = remdups (map last (filter (\<lambda>k. k \<noteq> [] \<and> butlast k = p) (map fst t)))"

text \<open>What is not in a directory.\<close>

definition outside_of :: "path \<Rightarrow> tree \<Rightarrow> path \<Rightarrow> node option" where
  "outside_of base t p = (if prefix base p then None else node_at t p)"

text \<open>The directories a directory is in.\<close>

definition dirs_above :: "path \<Rightarrow> (path \<Rightarrow> node option) \<Rightarrow> bool" where
  "dirs_above base v \<longleftrightarrow> (\<forall>q. strict_prefix q base \<longrightarrow> v q = Some Dir)"

lemma outside_update [simp]: "prefix base p \<Longrightarrow> outside_of base (AList.update p n t) = outside_of base t"
  by (rule ext) (auto simp: outside_of_def node_at_def update_conv')

lemma link_at_update: "link_at t p = None \<Longrightarrow> \<forall>s. n \<noteq> Link s \<Longrightarrow> link_at (AList.update p n t) = link_at t"
  by (rule ext) (auto simp: link_at_def node_at_def update_conv' split: option.splits node.splits if_splits)

lemma link_at_make_dirs: "\<forall>q \<in> set qs. link_at t q = None \<Longrightarrow> link_at (make_dirs qs t) = link_at t"
  unfolding make_dirs_def by (induction qs arbitrary: t) (simp_all add: link_at_update)

lemma link_at_missing: "q \<in> set (missing_dirs t p) \<Longrightarrow> link_at t q = None"
  by (simp add: missing_dirs_def link_at_def)

lemma outside_make_dirs: "\<forall>q \<in> set qs. prefix base q \<Longrightarrow> outside_of base (make_dirs qs t) = outside_of base t"
  unfolding make_dirs_def by (induction qs arbitrary: t) auto

lemma missing_dirs_inside:
  assumes "dirs_above base (outside_of base t)" and "prefix base p \<or> prefix p base"
  shows "\<forall>q \<in> set (missing_dirs t p). prefix base q"
proof
  fix q
  assume "q \<in> set (missing_dirs t p)"
  then have q: "prefix q p" "node_at t q = None" by (simp_all add: missing_dirs_def)
  have "prefix base q \<or> strict_prefix q base"
    using assms(2) q(1) by (metis prefix_order.dual_order.trans prefix_same_cases prefix_order.le_less)
  moreover have "\<not> strict_prefix q base"
    using assms(1) q(2) by (auto simp: dirs_above_def outside_of_def split: if_splits)
  ultimately show "prefix base q" by blast
qed

lemma outside_remove_paths:
  assumes "\<forall>q \<in> set qs. prefix base q"
  shows "outside_of base (remove_paths qs t) = outside_of base t"
proof
  fix k
  have "k \<notin> set qs \<Longrightarrow> map_of (remove_paths qs t) k = map_of t k"
    unfolding remove_paths_def by (induction t) auto
  then show "outside_of base (remove_paths qs t) k = outside_of base t k"
    using assms by (auto simp: outside_of_def node_at_def)
qed

lemma map_of_move:
  assumes "\<not> prefix p k" "\<not> prefix q k"
  shows "map_of (move_paths p q t) k = map_of t k"
  unfolding move_paths_def
proof (induction t)
  case (Cons x t)
  obtain a n where x: "x = (a, n)" by fastforce
  have "k \<noteq> q @ drop (length p) a" "prefix p a \<Longrightarrow> k \<noteq> a" using assms by auto
  then show ?case using Cons by (auto simp: x)
qed simp

lemma outside_move_paths:
  assumes "prefix base p" "prefix base q"
  shows "outside_of base (move_paths p q t) = outside_of base t"
proof
  fix k
  have "\<not> prefix base k \<Longrightarrow> \<not> prefix p k \<and> \<not> prefix q k" using assms prefix_order.trans by blast
  then show "outside_of base (move_paths p q t) k = outside_of base t k"
    by (simp add: outside_of_def node_at_def map_of_move)
qed

section \<open>Calls\<close>

text \<open>
  The part of the world the calls see: the tree, whether the next call fails (\<open>dk_fault\<close>, which may raise anything)
  and how far it got then, the working directory, dates of change, and the codecs of the standard library.
\<close>

record 'w disk =
  dk_tree :: "'w \<Rightarrow> tree"
  dk_set_tree :: "tree \<Rightarrow> 'w \<Rightarrow> 'w"
  dk_fault :: "('w, unit) py"
  dk_progress :: "'w \<Rightarrow> nat"
  dk_cwd :: path
  dk_modified :: "'w \<Rightarrow> path \<Rightarrow> string"
  dk_decode :: "string \<Rightarrow> string option"
  dk_encode :: "string \<Rightarrow> exn + string"
  dk_b64decode :: "string \<Rightarrow> exn + string"
  dk_b64encode :: "string \<Rightarrow> string"
  dk_md5 :: "string \<Rightarrow> string"

definition os_error :: "string \<Rightarrow> exn" where
  "os_error c = AppError c ''os''"

text \<open>\<open>isinstance(e, OSError)\<close>, and \<open>isinstance(e, PermissionError)\<close>.\<close>

definition is_os_error :: "exn \<Rightarrow> bool" where
  "is_os_error x \<longleftrightarrow> (case x of PermissionError _ \<Rightarrow> True
     | AppError c _ \<Rightarrow> c \<in> {''OSError'', ''FileNotFoundError'', ''FileExistsError'', ''IsADirectoryError'', ''NotADirectoryError''}
     | _ \<Rightarrow> False)"

definition is_permission_error :: "exn \<Rightarrow> bool" where
  "is_permission_error x \<longleftrightarrow> (case x of PermissionError _ \<Rightarrow> True | _ \<Rightarrow> False)"

definition change :: "'w disk \<Rightarrow> (tree \<Rightarrow> tree) \<Rightarrow> ('w, unit) py" where
  "change D f = py_modify (\<lambda>w. dk_set_tree D (f (dk_tree D w)) w)"

text \<open>A call that fails leaves what \<open>f n\<close> makes of the tree, for the progress \<open>n\<close> it made.\<close>

definition risky :: "'w disk \<Rightarrow> (nat \<Rightarrow> tree \<Rightarrow> tree) \<Rightarrow> ('w, 'a) py \<Rightarrow> ('w, 'a) py" where
  "risky D f m = py_bind (py_attempt (dk_fault D)) (\<lambda>r. case r of
     Inr _ \<Rightarrow> m
   | Inl x \<Rightarrow> py_bind (py_read (dk_progress D)) (\<lambda>n. py_then (change D (f n)) (raise x)))"

text \<open>\<open>Path.resolve()\<close> from a resolved directory.\<close>

definition resolve_from :: "'w disk \<Rightarrow> path \<Rightarrow> string \<Rightarrow> ('w, path) py" where
  "resolve_from D start s = (if CHR 0x00 \<in> set s then raise (ValueError ''embedded null byte'')
     else py_bind (py_read (dk_tree D)) (\<lambda>t. case join_real t [] (if is_absolute s then [] else start) (split_all CHR ''/'' s) of
         None \<Rightarrow> raise (AppError ''RuntimeError'' ''Symlink loop'')
       | Some p \<Rightarrow> ret p))"

definition kind_of :: "'w disk \<Rightarrow> path \<Rightarrow> ('w, node option) py" where
  "kind_of D p = py_then (dk_fault D) (py_read (\<lambda>w. follow (dk_tree D w) p))"

definition path_exists :: "'w disk \<Rightarrow> path \<Rightarrow> ('w, bool) py" where
  "path_exists D p = py_bind (kind_of D p) (\<lambda>k. ret (k \<noteq> None))"

definition is_dir :: "'w disk \<Rightarrow> path \<Rightarrow> ('w, bool) py" where
  "is_dir D p = py_bind (kind_of D p) (\<lambda>k. ret (k = Some Dir))"

definition is_file :: "'w disk \<Rightarrow> path \<Rightarrow> ('w, bool) py" where
  "is_file D p = py_bind (kind_of D p) (\<lambda>k. ret (case k of Some (File _) \<Rightarrow> True | _ \<Rightarrow> False))"

text \<open>\<open>stat\<close>: the size and the date of change.\<close>

definition stat :: "'w disk \<Rightarrow> path \<Rightarrow> ('w, int \<times> string) py" where
  "stat D p = py_bind (kind_of D p) (\<lambda>k. case k of
     None \<Rightarrow> raise (os_error ''FileNotFoundError'')
   | Some n \<Rightarrow> py_read (\<lambda>w. (case n of File b \<Rightarrow> int (length b) | _ \<Rightarrow> 0, dk_modified D w p)))"

definition iterdir :: "'w disk \<Rightarrow> path \<Rightarrow> ('w, path list) py" where
  "iterdir D p = py_bind (kind_of D p) (\<lambda>k. case k of
     Some Dir \<Rightarrow> py_read (\<lambda>w. map (\<lambda>n. p @ [n]) (names_in (dk_tree D w) p))
   | Some _ \<Rightarrow> raise (os_error ''NotADirectoryError'')
   | None \<Rightarrow> raise (os_error ''FileNotFoundError''))"

text \<open>The bytes of a file, and writing them: the file is there and empty before the first byte is written.\<close>

definition read_bytes :: "'w disk \<Rightarrow> path \<Rightarrow> ('w, string) py" where
  "read_bytes D p = py_bind (kind_of D p) (\<lambda>k. case k of
     Some (File b) \<Rightarrow> ret b
   | Some _ \<Rightarrow> raise (os_error ''IsADirectoryError'')
   | None \<Rightarrow> raise (os_error ''FileNotFoundError''))"

definition can_open :: "tree \<Rightarrow> path \<Rightarrow> exn option" where
  "can_open t p = (if p = [] \<or> node_at t p = Some Dir then Some (os_error ''IsADirectoryError'')
     else if node_at t (butlast p) = None then Some (os_error ''FileNotFoundError'')
     else if node_at t (butlast p) \<noteq> Some Dir then Some (os_error ''NotADirectoryError'') else None)"

definition torn :: "path \<Rightarrow> string \<Rightarrow> nat \<Rightarrow> tree \<Rightarrow> tree" where
  "torn p b n t = (if n = 0 \<or> can_open t p \<noteq> None then t else AList.update p (File (take (n - 1) b)) t)"

definition write_bytes :: "'w disk \<Rightarrow> path \<Rightarrow> string \<Rightarrow> ('w, unit) py" where
  "write_bytes D p b = risky D (torn p b) (py_bind (py_read (dk_tree D)) (\<lambda>t. case can_open t p of
     Some x \<Rightarrow> raise x | None \<Rightarrow> change D (AList.update p (File b))))"

text \<open>A text that cannot be encoded leaves an empty file.\<close>

definition write_text :: "'w disk \<Rightarrow> path \<Rightarrow> string \<Rightarrow> ('w, unit) py" where
  "write_text D p s = (case dk_encode D s of
     Inr b \<Rightarrow> write_bytes D p b
   | Inl x \<Rightarrow> py_then (write_bytes D p []) (raise x))"

text \<open>Reading in text mode: line ends become line feeds.\<close>

fun universal_newlines :: "string \<Rightarrow> string" where
  "universal_newlines [] = []"
| "universal_newlines (c # s) = (if c = CHR 0x0D then CHR 0x0A # (case s of [] \<Rightarrow> [] | d # r \<Rightarrow>
       if d = CHR 0x0A then universal_newlines r else universal_newlines s) else c # universal_newlines s)"

definition read_text :: "'w disk \<Rightarrow> path \<Rightarrow> ('w, string) py" where
  "read_text D p = py_bind (read_bytes D p) (\<lambda>b. case dk_decode D b of
     None \<Rightarrow> raise (AppError ''UnicodeDecodeError'' ''utf-8'') | Some s \<Rightarrow> ret (universal_newlines s))"

text \<open>\<open>mkdir(parents=True, exist_ok=exist_ok)\<close>.\<close>

definition mkdir :: "'w disk \<Rightarrow> path \<Rightarrow> bool \<Rightarrow> ('w, unit) py" where
  "mkdir D p exist_ok = risky D (\<lambda>n t. make_dirs (take n (missing_dirs t p)) t) (py_bind (py_read (dk_tree D)) (\<lambda>t.
     if node_at t p = Some Dir then (if exist_ok then ret () else raise (os_error ''FileExistsError''))
     else if node_at t p \<noteq> None then raise (os_error ''FileExistsError'')
     else if list_all (\<lambda>q. node_at t q \<in> {None, Some Dir}) (prefixes p) then change D (\<lambda>t. make_dirs (missing_dirs t p) t)
     else raise (os_error ''NotADirectoryError'')))"

definition rmtree :: "'w disk \<Rightarrow> path \<Rightarrow> ('w, unit) py" where
  "rmtree D p = risky D (\<lambda>n t. remove_paths (take n (under t p)) t) (change D (\<lambda>t. remove_paths (under t p) t))"

definition unlink :: "'w disk \<Rightarrow> path \<Rightarrow> ('w, unit) py" where
  "unlink D p = risky D (\<lambda>_ t. t) (py_bind (py_read (\<lambda>w. node_at (dk_tree D w) p)) (\<lambda>k. case k of
     None \<Rightarrow> raise (os_error ''FileNotFoundError'')
   | Some Dir \<Rightarrow> raise (os_error ''IsADirectoryError'')
   | Some _ \<Rightarrow> change D (remove_paths [p])))"

text \<open>\<open>os.rename\<close> to a path at which there is nothing.\<close>

definition rename :: "'w disk \<Rightarrow> path \<Rightarrow> path \<Rightarrow> ('w, unit) py" where
  "rename D p q = risky D (\<lambda>_ t. t) (py_bind (py_read (dk_tree D)) (\<lambda>t.
     if node_at t p = None then raise (os_error ''FileNotFoundError'')
     else if prefix p q \<or> node_at t q \<noteq> None then raise (os_error ''OSError'')
     else case can_open t q of Some x \<Rightarrow> raise x | None \<Rightarrow> change D (move_paths p q)))"

section \<open>Calls inside a directory\<close>

locale disk_laws =
  fixes D :: "'w disk"
  assumes tree_set: "dk_tree D (dk_set_tree D t w) = t"
    and fault_keeps: "keeps (dk_tree D) (dk_fault D)"
begin

lemma stays_fault [stays_intros]: "stays (\<lambda>w. P (dk_tree D w)) (dk_fault D)"
  using fault_keeps by (auto simp: stays_def keeps_iff)

lemma stays_change: "(\<And>t. P t \<Longrightarrow> P (f t)) \<Longrightarrow> stays (\<lambda>w. P (dk_tree D w)) (change D f)"
  unfolding change_def by (rule stays_modify) (simp add: tree_set)

lemma stays_risky:
  assumes "\<And>n t. P t \<Longrightarrow> P (f n t)" and "stays (\<lambda>w. P (dk_tree D w)) m"
  shows "stays (\<lambda>w. P (dk_tree D w)) (risky D f m)"
  unfolding risky_def by (intro stays_intros stays_change assms(2)) (rule assms(1))

lemma stays_reading:
  "stays (\<lambda>w. P (dk_tree D w)) (resolve_from D s0 s)" "stays (\<lambda>w. P (dk_tree D w)) (kind_of D p)"
  "stays (\<lambda>w. P (dk_tree D w)) (path_exists D p)" "stays (\<lambda>w. P (dk_tree D w)) (is_dir D p)"
  "stays (\<lambda>w. P (dk_tree D w)) (is_file D p)"
  unfolding resolve_from_def path_exists_def is_dir_def is_file_def kind_of_def by (intro stays_intros)+

declare stays_reading [stays_intros]

lemma stays_node: "stays I a \<Longrightarrow> (\<And>b. stays I (f b)) \<Longrightarrow> stays I g \<Longrightarrow> (\<And>s. stays I (h s))
    \<Longrightarrow> stays I (case k of None \<Rightarrow> a | Some n \<Rightarrow> (case n of File b \<Rightarrow> f b | Dir \<Rightarrow> g | Link s \<Rightarrow> h s))"
  by (simp split: option.splits node.splits)

lemma stays_reading2 [stays_intros]:
  "stays (\<lambda>w. P (dk_tree D w)) (stat D p)" "stays (\<lambda>w. P (dk_tree D w)) (iterdir D p)"
  "stays (\<lambda>w. P (dk_tree D w)) (read_bytes D p)" "stays (\<lambda>w. P (dk_tree D w)) (read_text D p)"
  unfolding stat_def iterdir_def read_bytes_def read_text_def by (intro stays_intros stays_node)+

end

text \<open>Changes of a path in a directory change nothing outside of it, also when they fail.\<close>

context disk_laws
begin

lemma stays_write_bytes:
  "prefix base p \<Longrightarrow> stays (\<lambda>w. outside_of base (dk_tree D w) = v) (write_bytes D p b)"
  unfolding write_bytes_def
  by (intro stays_risky [where P = "\<lambda>t. outside_of base t = v"] stays_intros stays_change [where P = "\<lambda>t. outside_of base t = v"])
    (simp_all add: torn_def)

lemma stays_write_text: "prefix base p \<Longrightarrow> stays (\<lambda>w. outside_of base (dk_tree D w) = v) (write_text D p s)"
  unfolding write_text_def by (intro stays_intros stays_write_bytes)

lemma stays_mkdir:
  assumes "dirs_above base v" and "prefix base p \<or> prefix p base"
  shows "stays (\<lambda>w. outside_of base (dk_tree D w) = v) (mkdir D p ok)"
proof -
  have make: "outside_of base (make_dirs (take n (missing_dirs t p)) t) = v" "outside_of base (make_dirs (missing_dirs t p) t) = v"
    if "outside_of base t = v" for n t
  proof -
    have all: "\<forall>q \<in> set (missing_dirs t p). prefix base q" using missing_dirs_inside [of base t p] assms that by blast
    then have "\<forall>q \<in> set (take n (missing_dirs t p)). prefix base q" by (auto dest: in_set_takeD)
    with all show "outside_of base (make_dirs (take n (missing_dirs t p)) t) = v" "outside_of base (make_dirs (missing_dirs t p) t) = v"
      by (simp_all add: outside_make_dirs that)
  qed
  show ?thesis
    unfolding mkdir_def
    by (intro stays_risky [where P = "\<lambda>t. outside_of base t = v"] stays_intros
        stays_change [where P = "\<lambda>t. outside_of base t = v"]) (simp_all add: make)
qed

lemma stays_rmtree:
  assumes "prefix base p"
  shows "stays (\<lambda>w. outside_of base (dk_tree D w) = v) (rmtree D p)"
proof -
  have "\<forall>q \<in> set (under t p). prefix base q" for t
    using assms prefix_order.trans by (auto simp: under_def)
  then have all: "outside_of base (remove_paths (under t p) t) = outside_of base t"
    "outside_of base (remove_paths (take n (under t p)) t) = outside_of base t" for n t
    by (auto intro!: outside_remove_paths dest: in_set_takeD)
  show ?thesis
    unfolding rmtree_def
    by (intro stays_risky [where P = "\<lambda>t. outside_of base t = v"] stays_change [where P = "\<lambda>t. outside_of base t = v"])
      (simp_all add: all)
qed

lemma stays_unlink:
  assumes "prefix base p"
  shows "stays (\<lambda>w. outside_of base (dk_tree D w) = v) (unlink D p)"
  unfolding unlink_def
  by (intro stays_risky [where P = "\<lambda>t. outside_of base t = v"] stays_intros stays_node
      stays_change [where P = "\<lambda>t. outside_of base t = v"]) (use assms in \<open>simp_all add: outside_remove_paths\<close>)

lemma stays_rename:
  assumes "prefix base p" "prefix base q"
  shows "stays (\<lambda>w. outside_of base (dk_tree D w) = v) (rename D p q)"
  unfolding rename_def
  by (intro stays_risky [where P = "\<lambda>t. outside_of base t = v"] stays_intros
      stays_change [where P = "\<lambda>t. outside_of base t = v"]) (use assms in \<open>simp_all add: outside_move_paths\<close>)

end

text \<open>What calls that answer have done.\<close>

lemma universal_newlines_id: "CHR 0x0D \<notin> set s \<Longrightarrow> universal_newlines s = s"
  by (induction s rule: universal_newlines.induct) auto

context disk_laws
begin

lemma wp_fault: "wp (dk_fault D) (\<lambda>_ w'. dk_tree D w' = dk_tree D w) (\<lambda>_ w'. dk_tree D w' = dk_tree D w) w"
  by (rule keeps_wp [OF fault_keeps])

lemma wp_risky:
  assumes "\<And>w'. dk_tree D w' = dk_tree D w \<Longrightarrow> wp m Q (\<lambda>_ _. True) w'"
  shows "wp (risky D f m) Q (\<lambda>_ _. True) w"
  unfolding risky_def change_def by simp (rule wp_mono [OF wp_fault], auto intro: assms)

lemma wp_write_bytes:
  "wp (write_bytes D p b) (\<lambda>_ w'. p \<noteq> [] \<and> dk_tree D w' = AList.update p (File b) (dk_tree D w)) (\<lambda>_ _. True) w"
  unfolding write_bytes_def change_def
  by (rule wp_risky) (auto simp: tree_set can_open_def split: option.splits if_splits)

lemma wp_mkdir:
  "wp (mkdir D p ok) (\<lambda>_ w'. link_at (dk_tree D w') = link_at (dk_tree D w)) (\<lambda>_ _. True) w"
  unfolding mkdir_def change_def
  by (rule wp_risky) (auto simp: tree_set intro!: link_at_make_dirs link_at_missing)

lemma wp_kind_of:
  "wp (kind_of D p) (\<lambda>k w'. k = follow (dk_tree D w) p \<and> dk_tree D w' = dk_tree D w) (\<lambda>x w'. dk_tree D w' = dk_tree D w) w"
  unfolding kind_of_def by simp (rule wp_mono [OF wp_fault], auto)

end

end
