(* ===== verification/System_Log.thy ===== *)
theory System_Log
  imports Audit_Log
begin

text \<open>
  \<open>shared/system_logger.py\<close>: platform events are rows of the \<open>SystemLogs\<close> table, partitioned by category,
  newest first. Every method answers the identifier of its event; a failing insert is noted only, while the
  details are written as JSON before it and may raise.
\<close>

section \<open>Events\<close>

definition event_reverse_timestamp :: "'w env \<Rightarrow> datetime \<Rightarrow> string" where
  "event_reverse_timestamp E dt = str_int (9999999999999 - env_timestamp_ms E dt)"

definition system_event :: "'w env \<Rightarrow> string \<Rightarrow> string \<Rightarrow> string \<Rightarrow> string \<Rightarrow> string \<Rightarrow> pyval \<Rightarrow> datetime \<Rightarrow> string \<Rightarrow> entity" where
  "system_event E category level message executed_by executed_by_name details timestamp event_id =
     [''PartitionKey'' \<mapsto> PStr category, ''RowKey'' \<mapsto> PStr (event_reverse_timestamp E timestamp @ ''_'' @ event_id),
      ''EventId'' \<mapsto> PStr event_id, ''TimestampISO'' \<mapsto> PStr (env_isoformat E timestamp), ''Level'' \<mapsto> PStr level,
      ''Message'' \<mapsto> PStr message, ''ExecutedBy'' \<mapsto> PStr executed_by, ''ExecutedByName'' \<mapsto> PStr executed_by_name,
      ''Details'' \<mapsto> details]"

definition system_log :: "'w env \<Rightarrow> string \<Rightarrow> string \<Rightarrow> string \<Rightarrow> string \<Rightarrow> string option \<Rightarrow> pyval \<Rightarrow> ('w, string) py" where
  "system_log E category level message executed_by executed_by_name details =
     py_bind (uuid4 E) (\<lambda>event_id. py_bind (now_utc E) (\<lambda>timestamp.
     let name = (case executed_by_name of None \<Rightarrow> executed_by | Some n \<Rightarrow> n) in
     py_bind (lift (dump_details E details)) (\<lambda>d.
     py_then (py_catch (sdk_create E ''SystemLogs'' (system_event E category level message executed_by name d timestamp event_id))
         (\<lambda>_. ret ()))
       (ret event_id))))"

section \<open>Events by kind\<close>

definition log_discovery_failure :: "'w env \<Rightarrow> string \<Rightarrow> string \<Rightarrow> string \<Rightarrow> ('w, string) py" where
  "log_discovery_failure E module_name file_path err =
     system_log E ''discovery'' ''error'' (''Failed to import '' @ module_name) ''System'' None
       (PDict [(''module_name'', PStr module_name), (''file_path'', PStr file_path), (''error'', PStr err)])"

definition log_validation_failure :: "'w env \<Rightarrow> string \<Rightarrow> string \<Rightarrow> string \<Rightarrow> string option \<Rightarrow> ('w, string) py" where
  "log_validation_failure E item_type item_name err source =
     system_log E ''discovery'' ''error'' (''Validation failed for '' @ item_type @ '' '' @ quote @ item_name @ quote) ''System'' None
       (PDict [(''item_type'', PStr item_type), (''item_name'', PStr item_name), (''source'', of_opt source), (''error'', PStr err)])"

datatype event_action = Create | Update | Delete | Set

fun action_past :: "event_action \<Rightarrow> string" where
  "action_past Create = ''Created''"
| "action_past Update = ''Updated''"
| "action_past Delete = ''Deleted''"
| "action_past Set = ''Set''"

text \<open>\<open>d.update(more)\<close>, in the order of insertion.\<close>

fun dict_update :: "(string \<times> pyval) list \<Rightarrow> (string \<times> pyval) list \<Rightarrow> (string \<times> pyval) list" where
  "dict_update d [] = d"
| "dict_update d ((k, v) # upd) =
     dict_update (if k \<in> fst ` set d then map (\<lambda>(k', v'). (k', if k' = k then v else v')) d else d @ [(k, v)]) upd"

definition log_organization_event :: "'w env \<Rightarrow> event_action \<Rightarrow> string \<Rightarrow> string \<Rightarrow> string \<Rightarrow> string
    \<Rightarrow> (string \<times> pyval) list \<Rightarrow> ('w, string) py" where
  "log_organization_event E action org_id org_name executed_by executed_by_name details =
     system_log E ''organization'' ''info'' (action_past action @ '' organization '' @ quote @ org_name @ quote)
       executed_by (Some executed_by_name)
       (PDict (dict_update [(''org_id'', PStr org_id), (''org_name'', PStr org_name)] details))"

definition log_config_event :: "'w env \<Rightarrow> event_action \<Rightarrow> string \<Rightarrow> string \<Rightarrow> string \<Rightarrow> string \<Rightarrow> string option \<Rightarrow> ('w, string) py" where
  "log_config_event E action scope key executed_by executed_by_name config_type =
     system_log E ''config'' ''info'' (action_past action @ '' config '' @ quote @ key @ quote @ '' in '' @ scope)
       executed_by (Some executed_by_name)
       (PDict [(''scope'', PStr scope), (''key'', PStr key), (''type'', of_opt config_type)])"

definition log_secret_event :: "'w env \<Rightarrow> event_action \<Rightarrow> string \<Rightarrow> string \<Rightarrow> string \<Rightarrow> string \<Rightarrow> ('w, string) py" where
  "log_secret_event E action scope key executed_by executed_by_name =
     system_log E ''secret'' ''info'' (action_past action @ '' secret '' @ quote @ key @ quote @ '' in '' @ scope)
       executed_by (Some executed_by_name) (PDict [(''scope'', PStr scope), (''key'', PStr key)])"

definition log_form_event :: "'w env \<Rightarrow> event_action \<Rightarrow> string \<Rightarrow> string \<Rightarrow> string \<Rightarrow> string \<Rightarrow> string \<Rightarrow> ('w, string) py" where
  "log_form_event E action form_id form_name scope executed_by executed_by_name =
     system_log E ''form'' ''info'' (action_past action @ '' form '' @ quote @ form_name @ quote @ '' in '' @ scope)
       executed_by (Some executed_by_name)
       (PDict [(''form_id'', PStr form_id), (''form_name'', PStr form_name), (''scope'', PStr scope)])"

definition log_user_event :: "'w env \<Rightarrow> event_action \<Rightarrow> string \<Rightarrow> string \<Rightarrow> string \<Rightarrow> string
    \<Rightarrow> (string \<times> pyval) list \<Rightarrow> ('w, string) py" where
  "log_user_event E action user_id user_email executed_by executed_by_name details =
     system_log E ''user'' ''info'' (action_past action @ '' user '' @ quote @ user_email @ quote)
       executed_by (Some executed_by_name)
       (PDict (dict_update [(''user_id'', PStr user_id), (''user_email'', PStr user_email)] details))"

datatype role_action = Create_Role | Update_Role | Delete_Role | Assign_Users | Remove_User | Assign_Forms | Remove_Form

fun role_action_message :: "role_action \<Rightarrow> string \<Rightarrow> string" where
  "role_action_message Create_Role r = ''Created role '' @ quote @ r @ quote"
| "role_action_message Update_Role r = ''Updated role '' @ quote @ r @ quote"
| "role_action_message Delete_Role r = ''Deleted role '' @ quote @ r @ quote"
| "role_action_message Assign_Users r = ''Assigned users to role '' @ quote @ r @ quote"
| "role_action_message Remove_User r = ''Removed user from role '' @ quote @ r @ quote"
| "role_action_message Assign_Forms r = ''Assigned forms to role '' @ quote @ r @ quote"
| "role_action_message Remove_Form r = ''Removed form from role '' @ quote @ r @ quote"

definition log_role_event :: "'w env \<Rightarrow> role_action \<Rightarrow> string \<Rightarrow> string \<Rightarrow> string \<Rightarrow> string \<Rightarrow> string option
    \<Rightarrow> (string \<times> pyval) list \<Rightarrow> ('w, string) py" where
  "log_role_event E action role_id role_name executed_by executed_by_name scope details =
     (let event_details = [(''role_id'', PStr role_id), (''role_name'', PStr role_name)]
            @ (if opt_truthy scope then [(''scope'', of_opt scope)] else []) in
      system_log E ''role'' ''info'' (role_action_message action role_name) executed_by (Some executed_by_name)
        (PDict (dict_update event_details details)))"

section \<open>Lemmas\<close>

lemma system_event_key:
  "entity_key (system_event E c l m b n d ts i) = Some (c, event_reverse_timestamp E ts @ ''_'' @ i)"
  by (simp add: system_event_def entity_key_Some)

context table_sdk
begin

text \<open>Logging adds at most a row to \<open>SystemLogs\<close>, and raises only what \<open>json.dumps\<close> raises for the details.\<close>

lemma wp_system_log:
  assumes "\<And>i w'. grows ''SystemLogs'' UNIV (env_rows E w) (env_rows E w') \<Longrightarrow> Q i w'"
    and "\<And>x w'. dump_details E details = Inl x \<Longrightarrow> env_rows E w' = env_rows E w \<Longrightarrow> R x w'"
  shows "wp (system_log E c l m b n details) Q R w"
  unfolding system_log_def now_utc_def wp_bind wp_ret wp_lift Let_def wp_then wp_catch
proof (rule wp_uuid4, rule wp_utcnow, goal_cases)
  case (1 i w1 ts w2)
  have "wp (sdk_create E ''SystemLogs'' (system_event E c l m b n' d ts' i))
      (\<lambda>_. Q i) (\<lambda>_. Q i) w2" for n' d ts'
    by (rule wp_sdk_create) (use 1 in \<open>auto simp: system_event_key intro!: assms(1) grows_insert\<close>)
  then show ?case using 1 assms(2) by (auto split: sum.splits)
qed

end

end
