(* ===== verification/Key_Vault.thy ===== *)
theory Key_Vault
  imports Config_Repository Secret_Naming System_Log "HOL-Library.AList"
begin

text \<open>
  Secrets: \<open>shared/keyvault.py\<close>, the resolver of configuration values \<open>shared/config_resolver.py\<close>, the
  handlers \<open>shared/handlers/secrets_handlers.py\<close> and what workflows see of them, \<open>bifrost/secrets.py\<close> with
  \<open>bifrost/_internal.py\<close>. The client of the vault is the record \<open>secret_client\<close>, which also says of which
  class of errors an exception is; the context variable of the running execution is an argument.
\<close>

section \<open>The client\<close>

text \<open>The errors the code tells apart, with \<open>e.status_code\<close> where they have one.\<close>

datatype vault_error =
    Not_Found "int option"
  | Auth_Failed "int option"
  | Http_Failed "int option"
  | Request_Failed
  | Other_Failed

fun http_status :: "vault_error \<Rightarrow> int option" where
  "http_status (Not_Found s) = s"
| "http_status (Auth_Failed s) = s"
| "http_status (Http_Failed s) = s"
| "http_status _ = None"

record 'w secret_client =
  sc_set :: "string \<Rightarrow> string \<Rightarrow> ('w, unit) py"
  sc_get :: "string \<Rightarrow> ('w, string option) py"
  sc_delete :: "string \<Rightarrow> ('w, unit) py"
  sc_list :: "('w, string option list) py"
  sc_error :: "exn \<Rightarrow> vault_error"

record 'w keyvault =
  kv_vault_url :: "string option"
  kv_client :: "'w secret_client option"

type_synonym 'w client_maker = "string \<Rightarrow> exn + 'w secret_client"

definition keyvault_client :: "'w env \<Rightarrow> 'w client_maker \<Rightarrow> string option \<Rightarrow> exn + 'w keyvault" where
  "keyvault_client E mk vault_url = (let url = (if opt_truthy vault_url then vault_url else env_getenv E ''AZURE_KEY_VAULT_URL'') in
     if opt_truthy url then map_sum id (\<lambda>c. \<lparr>kv_vault_url = url, kv_client = Some c\<rparr>) (mk (str_or url []))
     else Inl (ValueError ''AZURE_KEY_VAULT_URL environment variable is required''))"

text \<open>\<open>assert self._client is not None\<close>.\<close>

definition initialized_client :: "'w keyvault \<Rightarrow> exn + 'w secret_client" where
  "initialized_client kv = (case kv_client kv of
     None \<Rightarrow> Inl (AppError ''AssertionError'' ''Key Vault client not initialized'') | Some c \<Rightarrow> Inr c)"

definition is_valid_secret_name :: "string \<Rightarrow> bool" where
  "is_valid_secret_name secret_name =
     (if secret_name = [] \<or> 127 < length secret_name then False
      else list_all (\<lambda>c. is_letter c \<or> is_digit c \<or> c = CHR ''-'') secret_name)"

definition build_secret_name :: "string \<Rightarrow> string \<Rightarrow> string" where
  "build_secret_name org_id secret_key = org_id @ ''--'' @ secret_key"

definition permission_denied :: "string \<Rightarrow> exn" where
  "permission_denied what = AppError ''HttpResponseError''
     (''Permission denied: Insufficient permissions to '' @ what @ '' secrets in Key Vault'')"

definition secret_not_found :: "string \<Rightarrow> exn" where
  "secret_not_found ref = AppError ''ResourceNotFoundError'' (''Secret not found: '' @ ref)"

text \<open>The answers are the \<open>name\<close> of the dictionary; its message is always the same.\<close>

definition set_secret :: "'w keyvault \<Rightarrow> string \<Rightarrow> string \<Rightarrow> ('w, string) py" where
  "set_secret kv ref v =
     (if \<not> is_valid_secret_name ref
      then raise (ValueError (''Invalid secret name: '' @ ref @ ''. Names must contain only alphanumeric characters and hyphens''))
      else py_bind (lift (initialized_client kv)) (\<lambda>c. py_catch (py_then (sc_set c ref v) (ret ref))
        (\<lambda>x. if http_status (sc_error c x) = Some 403 then raise (permission_denied ''manage'') else raise x)))"

definition get_secret :: "'w keyvault \<Rightarrow> string \<Rightarrow> ('w, string) py" where
  "get_secret kv ref = py_bind (lift (initialized_client kv)) (\<lambda>c.
     py_bind (py_catch (sc_get c ref)
       (\<lambda>x. case sc_error c x of Not_Found _ \<Rightarrow> raise (secret_not_found ref) | _ \<Rightarrow> raise x)) (\<lambda>secret.
     case secret of None \<Rightarrow> raise (AppError ''AssertionError'' ''Secret value is None'') | Some v \<Rightarrow> ret v))"

definition delete_secret :: "'w keyvault \<Rightarrow> string \<Rightarrow> ('w, string) py" where
  "delete_secret kv ref = py_bind (lift (initialized_client kv)) (\<lambda>c.
     py_catch (py_then (sc_delete c ref) (ret ref))
       (\<lambda>x. case sc_error c x of
          Not_Found _ \<Rightarrow> raise (secret_not_found ref)
        | k \<Rightarrow> if http_status k = Some 403 then raise (permission_denied ''delete'') else raise x))"

definition secrets_of :: "string option \<Rightarrow> string list \<Rightarrow> string list" where
  "secrets_of org_id names = (if opt_truthy org_id
     then filter (\<lambda>n. startswith n (str_or org_id [] @ ''--'') \<or> startswith n ''GLOBAL--'') names else names)"

definition list_secrets :: "'w keyvault \<Rightarrow> string option \<Rightarrow> ('w, string list) py" where
  "list_secrets kv org_id = py_bind (lift (initialized_client kv)) (\<lambda>c.
     py_catch (py_bind (sc_list c) (\<lambda>ps. ret (secrets_of org_id (List.map_filter id ps))))
       (\<lambda>x. if http_status (sc_error c x) = Some 403 then ret [] else raise x))"

section \<open>Health\<close>

record vault_health =
  vh_can_connect :: bool
  vh_can_list :: bool
  vh_can_get :: bool
  vh_count :: "int option"
  vh_status :: string
  vh_error :: "string option"

text \<open>The handlers of the outer \<open>try\<close>, on what was found so far.\<close>

definition failed_health :: "vault_error \<Rightarrow> exn \<Rightarrow> vault_health \<Rightarrow> vault_health" where
  "failed_health k x h = (case k of
     Auth_Failed _ \<Rightarrow> h\<lparr>vh_error := Some (''Authentication failed: '' @ exn_msg x), vh_status := ''unhealthy''\<rparr>
   | Request_Failed \<Rightarrow> h\<lparr>vh_error := Some (''Network error: '' @ exn_msg x), vh_status := ''unhealthy''\<rparr>
   | Other_Failed \<Rightarrow> h\<lparr>vh_error := Some (''Unexpected error: '' @ exn_msg x), vh_status := ''unhealthy''\<rparr>
   | _ \<Rightarrow> if http_status k = Some 403
          then h\<lparr>vh_can_connect := True, vh_error := Some ''Permission denied for list operation'', vh_status := ''degraded''\<rparr>
          else h\<lparr>vh_can_connect := True, vh_status := ''unhealthy'',
                 vh_error := Some (''HTTP error '' @ (case http_status k of None \<Rightarrow> ''None'' | Some s \<Rightarrow> str_int s))\<rparr>)"

text \<open>Reading the first secret: whether it may be read, or the error that is raised again.\<close>

definition test_get :: "'w secret_client \<Rightarrow> string option list \<Rightarrow> ('w, bool) py" where
  "test_get c secrets_list = (case secrets_list of
     [] \<Rightarrow> ret True
   | None # _ \<Rightarrow> ret False
   | Some n # _ \<Rightarrow> py_catch (py_then (sc_get c n) (ret True))
       (\<lambda>x. case sc_error c x of
          Request_Failed \<Rightarrow> ret False
        | Other_Failed \<Rightarrow> ret False
        | k \<Rightarrow> if http_status k = Some 403 then ret False else raise x))"

definition health_check :: "'w keyvault \<Rightarrow> ('w, vault_health) py" where
  "health_check kv = (let h = \<lparr>vh_can_connect = False, vh_can_list = False, vh_can_get = False, vh_count = None,
       vh_status = ''unhealthy'', vh_error = None\<rparr> in
     case initialized_client kv of
       Inl x \<Rightarrow> ret (failed_health Other_Failed x h)
     | Inr c \<Rightarrow> py_bind (py_attempt (sc_list c)) (\<lambda>listed. case listed of
         Inl x \<Rightarrow> ret (failed_health (sc_error c x) x h)
       | Inr ps \<Rightarrow> let h' = h\<lparr>vh_can_connect := True, vh_can_list := True, vh_count := Some (int (length ps))\<rparr> in
           py_bind (py_attempt (test_get c ps)) (\<lambda>got. case got of
             Inl x \<Rightarrow> ret (failed_health (sc_error c x) x h')
           | Inr b \<Rightarrow> ret (h'\<lparr>vh_can_get := b, vh_status := if b then ''healthy'' else ''degraded''\<rparr>))))"

section \<open>The resolver of configuration values\<close>

text \<open>\<open>ConfigResolver()\<close>: its key vault, or none when it could not be made.\<close>

definition config_resolver :: "'w env \<Rightarrow> 'w client_maker \<Rightarrow> 'w keyvault option \<Rightarrow> 'w keyvault option" where
  "config_resolver E mk kv = (case kv of
     Some k \<Rightarrow> Some k
   | None \<Rightarrow> (case keyvault_client E mk None of Inl _ \<Rightarrow> None | Inr k \<Rightarrow> Some k))"

definition unavailable_vault :: "string \<Rightarrow> string \<Rightarrow> exn" where
  "unavailable_vault secret_ref key = ValueError (''Key Vault client not available for secret reference resolution. Cannot resolve secret ''
     @ quote @ secret_ref @ quote @ '' for config '' @ quote @ key @ quote @ ''.'')"

definition resolve_secret_ref :: "'w keyvault option \<Rightarrow> string \<Rightarrow> string \<Rightarrow> ('w, string) py" where
  "resolve_secret_ref kv key secret_ref = (case kv of
     None \<Rightarrow> raise (unavailable_vault secret_ref key)
   | Some k \<Rightarrow> if kv_client k = None \<and> \<not> opt_truthy (kv_vault_url k) then raise (unavailable_vault secret_ref key)
       else py_catch (get_secret k secret_ref) (\<lambda>x. case x of
         KeyError _ \<Rightarrow> raise (ValueError (''Secret reference not found for config '' @ quote @ key @ quote @ '': '' @ secret_ref
           @ ''. Verify the secret exists in Key Vault or local configuration.''))
       | _ \<Rightarrow> raise x))"

text \<open>\<open>_parse_value\<close>; \<open>int\<close> and \<open>json.loads\<close> raise what it turns into a \<open>ValueError\<close>, \<open>lower\<close> does not.\<close>

definition parse_as :: "'w env \<Rightarrow> pyval \<Rightarrow> pyval \<Rightarrow> exn + pyval" where
  "parse_as E v t =
     (if t = PStr ''int'' then map_sum id PInt (int_of v)
      else if t = PStr ''bool'' then (case v of
          PStr s \<Rightarrow> Inr (PBool (lower s \<in> {''true'', ''1'', ''yes''})) | _ \<Rightarrow> Inl (AttributeError ''lower''))
      else if t = PStr ''json'' then (case v of
          PStr s \<Rightarrow> (case env_loads E s of Some j \<Rightarrow> Inr j | None \<Rightarrow> Inl (ValueError ''Expecting value''))
        | _ \<Rightarrow> Inl (TypeError ''the JSON object must be str, bytes or bytearray''))
      else Inr v)"

definition parse_value :: "'w env \<Rightarrow> pyval \<Rightarrow> pyval \<Rightarrow> exn + pyval" where
  "parse_value E v t = (case parse_as E v t of
     Inr r \<Rightarrow> Inr r
   | Inl x \<Rightarrow> let wrapped = ValueError (''Could not parse value '' @ quote @ fstr E v @ quote @ '' as type '' @ quote @ fstr E t
         @ quote @ '': '' @ exn_msg x) in
       (case x of ValueError _ \<Rightarrow> Inl wrapped | TypeError _ \<Rightarrow> Inl wrapped | _ \<Rightarrow> Inl x))"

definition resolve_config :: "'w env \<Rightarrow> 'w keyvault option \<Rightarrow> string \<Rightarrow> string \<Rightarrow> entity \<Rightarrow> pyval option \<Rightarrow> ('w, pyval) py" where
  "resolve_config E kv org_id key config_data dflt = (case config_data key of
     None \<Rightarrow> (case dflt of
         None \<Rightarrow> raise (KeyError (''Configuration key '' @ quote @ key @ quote @ '' not found for org '' @ quote @ org_id @ quote))
       | Some d \<Rightarrow> ret d)
   | Some (PDict entry) \<Rightarrow> (let t = dget0 (map_of entry) ''type''; v = dget0 (map_of entry) ''value'' in
       if t = PStr ''secret_ref'' then (case v of
           PNone \<Rightarrow> raise (AppError ''AssertionError'' (''secret_ref value is None for key '' @ quote @ key @ quote))
         | _ \<Rightarrow> py_bind (resolve_secret_ref kv key (fstr E v)) (\<lambda>s. ret (PStr s)))
       else if v = PNone then raise (AppError ''AssertionError'' (''config value is None for key '' @ quote @ key @ quote))
       else lift (parse_value E v t))
   | Some v \<Rightarrow> ret v)"

section \<open>What the code relies on\<close>

text \<open>
  The vault maps names to secrets. A request that raises has had its effect or none; reading raises \<open>Not_Found\<close>
  only for an absent name. Neither the vault nor the tables change the other.
\<close>

locale key_vault = table_sdk E for E :: "'w env" +
  fixes c :: "'w secret_client" and secrets :: "'w \<Rightarrow> string \<rightharpoonup> string"
  assumes secret_set: "wp (sc_set c n v) (\<lambda>_ w'. secrets w' = (secrets w)(n \<mapsto> v))
      (\<lambda>_ w'. secrets w' \<in> {secrets w, (secrets w)(n \<mapsto> v)}) w"
    and secret_get: "wp (sc_get c n) (\<lambda>r w'. secrets w' = secrets w \<and> r \<noteq> None \<and> r = secrets w n)
      (\<lambda>x w'. secrets w' = secrets w \<and> ((\<exists>s. sc_error c x = Not_Found s) \<longrightarrow> secrets w n = None)) w"
    and secret_delete: "wp (sc_delete c n) (\<lambda>_ w'. secrets w' = (secrets w)(n := None))
      (\<lambda>x w'. secrets w' \<in> {secrets w, (secrets w)(n := None)}
         \<and> ((\<exists>s. sc_error c x = Not_Found s) \<longrightarrow> secrets w n = None)) w"
    and secret_list: "wp (sc_list c) (\<lambda>ps w'. secrets w' = secrets w \<and> set (List.map_filter id ps) = dom (secrets w))
      (\<lambda>_ w'. secrets w' = secrets w) w"
    and vault_keeps_rows:
      "keeps (env_rows E) (sc_set c n v)" "keeps (env_rows E) (sc_get c n)"
      "keeps (env_rows E) (sc_delete c n)" "keeps (env_rows E) (sc_list c)"
    and tables_keep_secrets:
      "keeps secrets (sdk_create E t e)" "keeps secrets (sdk_get E t p r)" "keeps secrets (sdk_update E t e m et)"
      "keeps secrets (sdk_upsert E t e m)" "keeps secrets (sdk_delete E t p r)" "keeps secrets (sdk_query E t f sel)"
      "keeps secrets (utcnow E)" "keeps secrets (uuid4 E)"
begin

lemmas stays_secrets [stays_intros] = tables_keep_secrets [THEN keeps_stays]

lemma wp_set_secret:
  assumes "\<And>w'. secrets w' = (secrets w)(n \<mapsto> v) \<Longrightarrow> env_rows E w' = env_rows E w \<Longrightarrow> is_valid_secret_name n \<Longrightarrow> Q n w'"
    and "\<And>x w'. secrets w' \<in> {secrets w, (secrets w)(n \<mapsto> v)} \<Longrightarrow> env_rows E w' = env_rows E w \<Longrightarrow> R x w'"
  shows "wp (set_secret \<lparr>kv_vault_url = u, kv_client = Some c\<rparr> n v) Q R w"
proof (cases "is_valid_secret_name n")
  case True
  show ?thesis
    unfolding set_secret_def initialized_client_def using True
    by simp (rule wp_mono [OF wp_conj [OF secret_set keeps_wp [OF vault_keeps_rows(1)]]], auto intro: assms)
qed (simp add: set_secret_def assms)

lemma wp_get_secret:
  assumes "\<And>s w'. secrets w' = secrets w \<Longrightarrow> env_rows E w' = env_rows E w \<Longrightarrow> secrets w n = Some s \<Longrightarrow> Q s w'"
    and "\<And>x w'. secrets w' = secrets w \<Longrightarrow> env_rows E w' = env_rows E w
      \<Longrightarrow> (x = secret_not_found n \<longrightarrow> secrets w n = None \<or> (\<forall>y. sc_error c x \<noteq> Not_Found y)) \<Longrightarrow> R x w'"
  shows "wp (get_secret \<lparr>kv_vault_url = u, kv_client = Some c\<rparr> n) Q R w"
  unfolding get_secret_def initialized_client_def
  by simp (rule wp_mono [OF wp_conj [OF secret_get keeps_wp [OF vault_keeps_rows(2)]]],
    auto intro: assms split: vault_error.splits option.splits)

end

lemma map_sum_Inr: "map_sum f g x = Inr y \<longleftrightarrow> (\<exists>z. x = Inr z \<and> y = g z)"
  by (cases x) auto

text \<open>A key vault whose client is \<open>c\<close>.\<close>

definition has_client :: "'w secret_client \<Rightarrow> 'w keyvault option \<Rightarrow> bool" where
  "has_client c kv \<longleftrightarrow> (case kv of None \<Rightarrow> True | Some k \<Rightarrow> kv_client k \<in> {None, Some c})"

text \<open>What an entry of the configuration stands for, given the secrets.\<close>

definition entry_value :: "'w env \<Rightarrow> (string \<rightharpoonup> string) \<Rightarrow> string \<Rightarrow> string \<Rightarrow> pyval option" where
  "entry_value E secrets t s =
     (if t = ''secret_ref'' then map_option PStr (secrets s)
      else if t = ''int'' then map_option PInt (py_int s)
      else if t = ''bool'' then Some (PBool (lower s \<in> {''true'', ''1'', ''yes''}))
      else if t = ''json'' then env_loads E s
      else Some (PStr s))"

context key_vault
begin

lemma wp_resolve_secret_ref:
  assumes "has_client c kv"
  shows "wp (resolve_secret_ref kv key s) (\<lambda>v w'. secrets w s = Some v \<and> secrets w' = secrets w \<and> env_rows E w' = env_rows E w)
      (\<lambda>x w'. secrets w' = secrets w \<and> env_rows E w' = env_rows E w) w"
proof (cases kv)
  case (Some k)
  have get: "wp (get_secret k s) (\<lambda>v w'. secrets w s = Some v \<and> secrets w' = secrets w \<and> env_rows E w' = env_rows E w)
      (\<lambda>x w'. secrets w' = secrets w \<and> env_rows E w' = env_rows E w) w"
  proof (cases "kv_client k")
    case (Some c')
    then have "k = \<lparr>kv_vault_url = kv_vault_url k, kv_client = Some c\<rparr>" using assms \<open>kv = Some k\<close> by (simp add: has_client_def)
    then show ?thesis by (rule ssubst) (rule wp_get_secret, auto)
  qed (simp add: get_secret_def initialized_client_def)
  have "wp (resolve_secret_ref kv key s) (\<lambda>v w'. secrets w s = Some v \<and> secrets w' = secrets w \<and> env_rows E w' = env_rows E w)
      (\<lambda>x w'. secrets w' = secrets w \<and> env_rows E w' = env_rows E w) w"
    if "\<not> (kv_client k = None \<and> \<not> opt_truthy (kv_vault_url k))"
    using Some that by (simp add: resolve_secret_ref_def) (rule wp_mono [OF get], auto split: exn.splits)
  then show ?thesis
    by (cases "kv_client k = None \<and> \<not> opt_truthy (kv_vault_url k)") (simp_all add: resolve_secret_ref_def Some)
qed (simp add: resolve_secret_ref_def)

lemma wp_resolve_config:
  assumes "has_client c kv" and "data key = Some (PDict [(''value'', PStr s), (''type'', PStr t)])"
  shows "wp (resolve_config E kv org_id key data d)
      (\<lambda>v w'. entry_value E (secrets w) t s = Some v \<and> secrets w' = secrets w \<and> env_rows E w' = env_rows E w)
      (\<lambda>x w'. secrets w' = secrets w \<and> env_rows E w' = env_rows E w
         \<and> (t \<noteq> ''secret_ref'' \<longrightarrow> entry_value E (secrets w) t s = None \<and> (\<exists>m. x = ValueError m))) w"
proof (cases "t = ''secret_ref''")
  case True
  have "resolve_config E kv org_id key data d = py_bind (resolve_secret_ref kv key s) (\<lambda>s. ret (PStr s))"
    using assms(2) True by (simp add: resolve_config_def Let_def)
  then show ?thesis
    using True by (simp add: entry_value_def) (rule wp_mono [OF wp_resolve_secret_ref [OF assms(1)]], auto)
next
  case False
  then show ?thesis
    using assms(2) by (auto simp: resolve_config_def parse_value_def parse_as_def int_of_def entry_value_def Let_def split: option.splits)
qed

end

text \<open>The client that \<open>KeyVaultClient()\<close> makes, whenever it makes one.\<close>

locale vault_maker = key_vault E c secrets for E :: "'w env" and c and secrets +
  fixes mk :: "'w client_maker"
  assumes maker: "mk u = Inr c' \<Longrightarrow> c' = c"
begin

lemma maker_client: "keyvault_client E mk u = Inr kv \<Longrightarrow> \<exists>v. kv = \<lparr>kv_vault_url = v, kv_client = Some c\<rparr>"
  by (auto simp: keyvault_client_def Let_def map_sum_Inr split: if_splits dest: maker)

lemma resolver_client: "has_client c (config_resolver E mk None)"
  by (auto simp: has_client_def config_resolver_def split: sum.splits dest!: maker_client)

end

section \<open>A vault in memory\<close>

record vault_mem = mem +
  vm_secrets :: "(string \<times> string) list"

definition mem_client :: "'z vault_mem_scheme secret_client" where
  "mem_client = \<lparr>
     sc_set = (\<lambda>n v. py_then mem_fault (\<lambda>w. (Inr (), w\<lparr>vm_secrets := AList.update n v (vm_secrets w)\<rparr>))),
     sc_get = (\<lambda>n. py_then mem_fault (\<lambda>w. (case map_of (vm_secrets w) n of
        None \<Rightarrow> Inl ResourceNotFoundError | Some s \<Rightarrow> Inr (Some s), w))),
     sc_delete = (\<lambda>n. py_then mem_fault (\<lambda>w. if map_of (vm_secrets w) n = None then (Inl ResourceNotFoundError, w)
        else (Inr (), w\<lparr>vm_secrets := AList.delete n (vm_secrets w)\<rparr>))),
     sc_list = py_then mem_fault (\<lambda>w. (Inr (map (\<lambda>x. Some (fst x)) (vm_secrets w)), w)),
     sc_error = (\<lambda>x. if x = ResourceNotFoundError then Not_Found (Some 404) else Http_Failed None)\<rparr>"

lemma mem_view_secrets [simp]: "mem_view (w\<lparr>vm_secrets := s\<rparr>) = mem_view w"
  by (rule ext, rule ext, simp add: mem_view_def)

lemma map_filter_Some: "List.map_filter id (map (\<lambda>x. Some (f x)) xs) = map f xs"
  by (induction xs) (simp_all add: List.map_filter_simps)

interpretation mem_vault: key_vault mem_env mem_client "\<lambda>w :: 'z vault_mem_scheme. map_of (vm_secrets w)"
  by (rule key_vault.intro, simp add: mem.table_sdk_axioms, unfold_locales)
    (auto simp: mem_client_def keeps_iff wp_def mem_defs py_run_defs utcnow_def uuid4_def update_conv' delete_conv'
      map_filter_Some dom_map_of_conv_image_fst split: prod.splits sum.splits option.splits if_splits list.splits)

interpretation mem_maker: vault_maker mem_env mem_client "\<lambda>w :: 'z vault_mem_scheme. map_of (vm_secrets w)" "\<lambda>_. Inr mem_client"
  by unfold_locales simp

end
