(* ===== verification/Secret_Handlers.thy ===== *)
theory Secret_Handlers
  imports Key_Vault Middleware
begin

text \<open>
  Managing secrets: \<open>shared/handlers/secrets_handlers.py\<close> with \<open>check_key_vault_available\<close> of
  \<open>shared/validation.py\<close>, and what workflows may do, \<open>bifrost/secrets.py\<close>. The answers are the models the
  HTTP layer returns; \<open>SecretHasDependenciesError\<close> carries its list only in its message.
\<close>

section \<open>The context of the running workflow\<close>

definition get_execution_context :: "exec_context option \<Rightarrow> exn + exec_context" where
  "get_execution_context cv = (case cv of Some c \<Rightarrow> Inr c | None \<Rightarrow> Inl (AppError ''RuntimeError''
     ''No execution context found. The bifrost SDK can only be used within workflow executions.''))"

text \<open>The permission is only written to the log.\<close>

definition require_permission :: "exec_context option \<Rightarrow> string \<Rightarrow> exn + exec_context" where
  "require_permission cv permission = ebind (get_execution_context cv) (\<lambda>context.
     if ctx_is_platform_admin context then Inr context else Inr context)"

definition require_admin :: "exec_context option \<Rightarrow> exn + exec_context" where
  "require_admin cv = ebind (get_execution_context cv) (\<lambda>context.
     if \<not> ctx_is_platform_admin context
     then Inl (PermissionError (''User '' @ ctx_user_id context @ '' is not a platform admin. This operation requires admin privileges.''))
     else Inr context)"

section \<open>Secrets of workflows\<close>

definition secrets_get :: "'w env \<Rightarrow> 'w client_maker \<Rightarrow> exec_context option \<Rightarrow> string \<Rightarrow> ('w, string option) py" where
  "secrets_get E mk cv key = py_bind (lift (get_execution_context cv)) (\<lambda>_.
     py_catch (py_bind (lift (keyvault_client E mk None)) (\<lambda>kv. py_bind (get_secret kv key) (\<lambda>v. ret (Some v))))
       (\<lambda>_. ret None))"

definition secrets_set :: "'w env \<Rightarrow> 'w client_maker \<Rightarrow> exec_context option \<Rightarrow> string \<Rightarrow> string \<Rightarrow> ('w, unit) py" where
  "secrets_set E mk cv key v = py_bind (lift (require_permission cv ''secrets.write'')) (\<lambda>_.
     py_bind (lift (keyvault_client E mk None)) (\<lambda>kv. py_then (set_secret kv key v) (ret ())))"

definition secrets_list :: "'w env \<Rightarrow> 'w client_maker \<Rightarrow> exec_context option \<Rightarrow> string option \<Rightarrow> ('w, string list) py" where
  "secrets_list E mk cv org_id = py_bind (lift (get_execution_context cv)) (\<lambda>context.
     py_bind (lift (keyvault_client E mk None)) (\<lambda>kv. list_secrets kv (Some (str_or org_id (ctx_scope context)))))"

definition secrets_delete :: "'w env \<Rightarrow> 'w client_maker \<Rightarrow> exec_context option \<Rightarrow> string \<Rightarrow> ('w, bool) py" where
  "secrets_delete E mk cv key = py_bind (lift (require_permission cv ''secrets.delete'')) (\<lambda>_.
     py_catch (py_bind (lift (keyvault_client E mk None)) (\<lambda>kv. py_then (delete_secret kv key) (ret True)))
       (\<lambda>_. ret False))"

section \<open>Handlers\<close>

record secret_create_request =
  scr_secret_key :: string
  scr_value :: string
  scr_org_id :: "string option"

definition secret_handler_error :: exn where
  "secret_handler_error = AppError ''SecretHandlerError'' ''Key Vault is not available''"

definition secret_response :: "'w env \<Rightarrow> string \<Rightarrow> string \<Rightarrow> string option \<Rightarrow> string \<Rightarrow> exn + model" where
  "secret_response E name org_id v message = env_validate E ''SecretResponse'' [''name'' \<mapsto> PStr name, ''orgId'' \<mapsto> PStr org_id,
     ''secretKey'' \<mapsto> PStr name, ''value'' \<mapsto> of_opt v, ''message'' \<mapsto> PStr message]"

definition check_key_vault_available :: "'w keyvault option \<Rightarrow> exn + 'w keyvault" where
  "check_key_vault_available kv_manager = (case kv_manager of None \<Rightarrow> Inl secret_handler_error | Some kv \<Rightarrow> Inr kv)"

definition handle_list_secrets :: "'w env \<Rightarrow> 'w keyvault option \<Rightarrow> string option \<Rightarrow> ('w, model) py" where
  "handle_list_secrets E kv_manager org_id = py_bind (lift (check_key_vault_available kv_manager)) (\<lambda>kv.
     py_bind (list_secrets kv org_id) (\<lambda>secret_names.
     lift (env_validate E ''SecretListResponse'' [''secrets'' \<mapsto> PList (map PStr secret_names), ''orgId'' \<mapsto> of_opt org_id,
       ''count'' \<mapsto> PInt (int (length secret_names))])))"

text \<open>A listing that fails is taken for one without the name.\<close>

definition secret_exists :: "'w keyvault \<Rightarrow> string \<Rightarrow> ('w, bool) py" where
  "secret_exists kv secret_name = py_catch (py_bind (list_secrets kv None) (\<lambda>existing. ret (secret_name \<in> set existing)))
     (\<lambda>_. ret False)"

definition handle_create_secret :: "'w env \<Rightarrow> 'w keyvault option \<Rightarrow> secret_create_request \<Rightarrow> string \<Rightarrow> ('w, model) py" where
  "handle_create_secret E kv_manager create_request user_id = py_bind (lift (check_key_vault_available kv_manager)) (\<lambda>kv.
     let secret_name = scr_secret_key create_request in
     py_bind (secret_exists kv secret_name) (\<lambda>exists.
     if exists then raise (AppError ''SecretAlreadyExistsError''
       (''Secret '' @ quote @ secret_name @ quote @ '' already exists. Use PUT to update.''))
     else py_then (set_secret kv secret_name (scr_value create_request))
       (py_bind (lift (secret_response E secret_name (str_or (scr_org_id create_request) []) (Some (scr_value create_request))
           ''Secret created successfully'')) (\<lambda>response.
        py_then (log_secret_event E Set (str_or (scr_org_id create_request) ''GLOBAL'') secret_name user_id user_id)
          (ret response)))))"

definition not_found_error :: "string \<Rightarrow> exn \<Rightarrow> ('w, string) py" where
  "not_found_error secret_name x = (if str_in ''not found'' (lower (exn_msg x))
     then raise (AppError ''SecretNotFoundError'' (''Secret '' @ quote @ secret_name @ quote @ '' not found'')) else raise x)"

definition handle_update_secret :: "'w env \<Rightarrow> 'w keyvault option \<Rightarrow> string \<Rightarrow> string \<Rightarrow> string \<Rightarrow> ('w, model) py" where
  "handle_update_secret E kv_manager secret_name v user_id = py_bind (lift (check_key_vault_available kv_manager)) (\<lambda>kv.
     py_then (py_catch (set_secret kv secret_name v) (not_found_error secret_name))
       (py_bind (lift (secret_response E secret_name [] (Some v) ''Secret updated successfully'')) (\<lambda>response.
        py_then (log_secret_event E Set [] secret_name user_id user_id) (ret response))))"

text \<open>The configuration rows that name a secret, in a scope; a failing query finds none.\<close>

definition config_range :: "clause list" where
  "config_range = [(''RowKey'', OGe, OStr ''config:''), (''RowKey'', OLt, OStr ''config;'')]"

definition refers_to :: "string \<Rightarrow> entity \<Rightarrow> bool" where
  "refers_to secret_name e \<longleftrightarrow> dget0 e ''Type'' = PStr ''SECRET_REF'' \<and> dget0 e ''Value'' = PStr secret_name"

text \<open>A row key that is no string ends the collection with what was found before.\<close>

fun dependency_keys :: "entity list \<Rightarrow> string list" where
  "dependency_keys [] = []"
| "dependency_keys (e # es) = (case dget e ''RowKey'' (PStr []) of
     PStr rk \<Rightarrow> replace_first ''config:'' [] rk # dependency_keys es | _ \<Rightarrow> [])"

definition dependencies_in :: "'w env \<Rightarrow> exec_context \<Rightarrow> string \<Rightarrow> string \<Rightarrow> ('w, (string \<times> string) list) py" where
  "dependencies_in E scoped secret_name sc = py_catch
     (py_bind (lift (async_table_storage_service E ''Config'' None (Some scoped))) (\<lambda>s.
      py_bind (query_entities E s (Some (odata config_range)) None) (\<lambda>configs.
      ret (map (\<lambda>k. (k, sc)) (dependency_keys (filter (refers_to secret_name) configs))))))
     (\<lambda>_. ret [])"

definition scoped_context :: "exec_context \<Rightarrow> string \<Rightarrow> organization option \<Rightarrow> exec_context" where
  "scoped_context ctx sc org = \<lparr>ctx_user_id = ctx_user_id ctx, ctx_email = ctx_email ctx, ctx_name = ctx_name ctx,
     ctx_scope = sc, ctx_organization = org, ctx_is_platform_admin = ctx_is_platform_admin ctx,
     ctx_is_function_key = ctx_is_function_key ctx, ctx_execution_id = ctx_execution_id ctx, ctx_config = Map.empty,
     ctx_integration_calls = []\<rparr>"

definition find_secret_dependencies :: "'w env \<Rightarrow> exec_context \<Rightarrow> string \<Rightarrow> string \<Rightarrow> ('w, (string \<times> string) list) py" where
  "find_secret_dependencies E ctx secret_name org_id =
     py_bind (dependencies_in E (scoped_context ctx ''GLOBAL'' None) secret_name ''GLOBAL'') (\<lambda>deps.
     if org_id \<noteq> ''GLOBAL''
     then py_bind (dependencies_in E (scoped_context ctx org_id
         (Some \<lparr>o_id = org_id, o_name = [], o_is_active = PBool True\<rparr>)) secret_name org_id) (\<lambda>more. ret (deps @ more))
     else ret deps)"

definition nl :: string where
  "nl = [CHR 0x0A]"

definition dependency_details :: "string \<Rightarrow> (string \<times> string) list \<Rightarrow> pyval" where
  "dependency_details secret_name deps = PDict [(''secret_name'', PStr secret_name), (''dependencies'',
     PList (map (\<lambda>(k, sc). PDict [(''type'', PStr ''config''), (''key'', PStr k), (''scope'', PStr sc)]) deps))]"

definition handle_delete_secret :: "'w env \<Rightarrow> 'w keyvault option \<Rightarrow> string \<Rightarrow> exec_context \<Rightarrow> string \<Rightarrow> ('w, model) py" where
  "handle_delete_secret E kv_manager secret_name ctx user_id = py_bind (lift (check_key_vault_available kv_manager)) (\<lambda>kv.
     py_bind (find_secret_dependencies E ctx secret_name []) (\<lambda>deps.
     if deps \<noteq> []
     then py_then (system_log E ''secret'' ''error'' (''Cannot delete secret '' @ quote @ secret_name @ quote @ '': has dependencies'')
           user_id None (dependency_details secret_name deps))
         (raise (AppError ''SecretHasDependenciesError'' (''Cannot delete secret '' @ quote @ secret_name @ quote
           @ '' because it is referenced by the following:'' @ nl
           @ join nl (map (\<lambda>(k, sc). ''Config: '' @ k @ '' ('' @ sc @ '')'') deps) @ nl @ nl
           @ ''Please remove all references before deleting this secret.'')))
     else py_then (py_catch (delete_secret kv secret_name) (not_found_error secret_name))
       (py_bind (lift (secret_response E secret_name [] None ''Secret deleted successfully'')) (\<lambda>response.
        py_then (log_secret_event E Delete [] secret_name user_id user_id) (ret response)))))"

section \<open>Lemmas\<close>

text \<open>The types configuration rows are written with are those of \<open>config_type_value\<close>, none of which is looked for.\<close>

definition stored_types :: "tables \<Rightarrow> bool" where
  "stored_types R \<longleftrightarrow> (\<forall>k e t. R ''Config'' k = Some e \<longrightarrow> e ''Type'' = Some t \<longrightarrow> t \<noteq> PStr ''SECRET_REF'')"

lemma config_type_value_lower: "config_type_value t \<noteq> ''SECRET_REF''"
  by (cases t) simp_all

context table_sdk
begin

lemma wp_dependencies_in:
  assumes "stored_types (env_rows E w)"
  shows "wp (dependencies_in E scoped n sc) (\<lambda>ds w'. ds = [] \<and> env_rows E w' = env_rows E w) (\<lambda>_ _. False) w"
proof (cases "async_table_storage_service E ''Config'' None (Some scoped)")
  case (Inr s)
  have t: "svc_table s = ''Config''" by (rule async_service [OF Inr])
  have one: "\<not> refers_to n (deserialize_datetime_fields E e)" if "env_rows E w ''Config'' k = Some e" for k e
    using assms that by (cases k) (auto simp: refers_to_def stored_types_def dget_def datetime_fields_def split: option.splits)
  have none: "filter (refers_to n) (map (deserialize_datetime_fields E) (fetch None (env_rows E w ''Config'') ks)) = []"
    if "selects cs (env_rows E w ''Config'') ks" for cs ks
    using one that by (auto simp: filter_empty_conv fetch_def selects_def project_def)
  show ?thesis
    unfolding dependencies_in_def Inr wp_catch wp_bind wp_lift sum.case
    by (rule wp_query_entities) (auto simp: config_range_def none t simp del: filter_map)
qed (simp add: dependencies_in_def)

lemma wp_find_secret_dependencies:
  assumes "stored_types (env_rows E w)"
  shows "wp (find_secret_dependencies E ctx n org) (\<lambda>ds w'. ds = [] \<and> env_rows E w' = env_rows E w) (\<lambda>_ _. False) w"
  unfolding find_secret_dependencies_def wp_bind
  by (rule wp_mono [OF wp_dependencies_in [OF assms]])
    (auto intro!: wp_mono [OF wp_dependencies_in] simp: assms)

end

context key_vault
begin

lemma stays_system_log: "stays (\<lambda>w. secrets w = v) (system_log E cat lv msg by' n d)"
  unfolding system_log_def now_utc_def Let_def by (intro stays_intros)

text \<open>What logging leaves: the secrets, and every table but that of the log.\<close>

lemma wp_system_log_secrets:
  assumes "\<And>i w'. secrets w' = secrets w \<Longrightarrow> \<forall>t. t \<noteq> ''SystemLogs'' \<longrightarrow> env_rows E w' t = env_rows E w t \<Longrightarrow> Q i w'"
    and "\<And>x w'. secrets w' = secrets w \<Longrightarrow> env_rows E w' = env_rows E w \<Longrightarrow> dump_details E d = Inl x \<Longrightarrow> R x w'"
  shows "wp (system_log E cat lv msg by' n d) Q R w"
proof -
  have "wp (system_log E cat lv msg by' n d) (\<lambda>i w'. \<forall>t. t \<noteq> ''SystemLogs'' \<longrightarrow> env_rows E w' t = env_rows E w t)
      (\<lambda>x w'. env_rows E w' = env_rows E w \<and> dump_details E d = Inl x) w"
    by (rule wp_system_log) (auto dest: grows_frame)
  from wp_conj [OF this stays_wp [OF stays_system_log [of "secrets w"] refl]] show ?thesis
    by (rule wp_mono) (auto intro: assms)
qed

lemma wp_handle_delete_secret:
  assumes "stored_types (env_rows E w)"
  shows "wp (handle_delete_secret E (Some \<lparr>kv_vault_url = u, kv_client = Some c\<rparr>) n ctx uid)
    (\<lambda>_ w'. secrets w' = (secrets w)(n := None) \<and> (\<forall>t. t \<noteq> ''SystemLogs'' \<longrightarrow> env_rows E w' t = env_rows E w t))
    (\<lambda>_ w'. secrets w' \<in> {secrets w, (secrets w)(n := None)} \<and> (\<forall>t. t \<noteq> ''SystemLogs'' \<longrightarrow> env_rows E w' t = env_rows E w t)) w"
proof -
  let ?kv = "\<lparr>kv_vault_url = u, kv_client = Some c\<rparr>"
  have deps: "wp (find_secret_dependencies E ctx n []) (\<lambda>ds w'. ds = [] \<and> env_rows E w' = env_rows E w \<and> secrets w' = secrets w) (\<lambda>_ _. False) w"
  proof -
    have "stays (\<lambda>w'. secrets w' = secrets w) (find_secret_dependencies E ctx n [])"
      unfolding find_secret_dependencies_def dependencies_in_def query_entities_def by (intro stays_intros)
    from wp_conj [OF wp_find_secret_dependencies [OF assms] stays_wp [OF this refl]] show ?thesis
      by (rule wp_mono) auto
  qed
  have del: "wp (delete_secret ?kv n) (\<lambda>_ w'. secrets w' = (secrets w1)(n := None) \<and> env_rows E w' = env_rows E w1)
      (\<lambda>_ w'. secrets w' \<in> {secrets w1, (secrets w1)(n := None)} \<and> env_rows E w' = env_rows E w1) w1" for w1
    unfolding delete_secret_def initialized_client_def
    by simp (rule wp_mono [OF wp_conj [OF secret_delete keeps_wp [OF vault_keeps_rows(3)]]], auto split: vault_error.splits)
  show ?thesis
    unfolding handle_delete_secret_def check_key_vault_available_def not_found_error_def
    by (simp add: log_secret_event_def, rule wp_mono [OF deps], simp)
      (rule wp_mono [OF del], auto simp: log_secret_event_def intro!: wp_system_log_secrets split: sum.splits)
qed

end

section \<open>Properties\<close>

text \<open>
  Deleting a secret through the handler does not look at the configuration that refers to it: the types of
  configuration rows are written in lower case, and the search compares with \<open>SECRET_REF\<close>.
\<close>

theorem referenced_secret_deleted:
  assumes "key_vault E c secrets" and "stored_types (env_rows E w)"
    and "handle_delete_secret E (Some \<lparr>kv_vault_url = u, kv_client = Some c\<rparr>) n ctx uid w = (Inr m, w')"
  shows "secrets w' n = None \<and> env_rows E w' ''Config'' = env_rows E w ''Config''"
  using wp_Inr [OF key_vault.wp_handle_delete_secret [OF assms(1,2)] assms(3)] by simp

end
