(* ===== verification/Workspace_Files.thy ===== *)
theory Workspace_Files
  imports File_System Secret_Handlers
begin

text \<open>
  Files of the workspace: \<open>shared/editor/file_operations.py\<close> for the editor, \<open>bifrost/files.py\<close> for workflows and
  \<open>shared/editor/search.py\<close>. Every path a caller gives is resolved and must then be in the directory meant for it.
\<close>

section \<open>The editor\<close>

definition HIDDEN_DIRECTORIES :: "string list" where
  "HIDDEN_DIRECTORIES = [''.git'', ''__pycache__'', ''.vscode'', ''.idea'', ''node_modules'', ''.venv'', ''venv'', ''env'',
     ''.pytest_cache'', ''.mypy_cache'', ''.ruff_cache'', ''htmlcov'']"

definition HIDDEN_FILES :: "string list" where
  "HIDDEN_FILES = [''.DS_Store'', ''Thumbs.db'', ''desktop.ini'', ''bifrost.pyi'', ''.coverage'']"

definition HIDDEN_EXTENSIONS :: "string list" where
  "HIDDEN_EXTENSIONS = [''.pyc'', ''.pyo'']"

text \<open>\<open>Path.name\<close> and \<open>Path.suffix\<close>: from the last dot on, unless it is the first or last character.\<close>

definition path_name :: "path \<Rightarrow> string" where
  "path_name p = (if p = [] then [] else last p)"

definition suffix :: "path \<Rightarrow> string" where
  "suffix p = (let name = path_name p; r = takeWhile (\<lambda>c. c \<noteq> CHR ''.'') (rev name) in
     if r \<noteq> [] \<and> length r + 1 < length name then CHR ''.'' # rev r else [])"

definition is_real_file :: "'w disk \<Rightarrow> path \<Rightarrow> ('w, bool) py" where
  "is_real_file D p = (let name = path_name p in
     if startswith name ''._'' then ret False
     else if name \<in> set HIDDEN_FILES then ret False
     else py_bind (is_dir D p) (\<lambda>d.
       if d \<and> name \<in> set HIDDEN_DIRECTORIES then ret False
       else py_bind (is_file D p) (\<lambda>f. ret (\<not> (f \<and> lower (suffix p) \<in> set HIDDEN_EXTENSIONS)))))"

definition get_base_path :: "'w env \<Rightarrow> exn + string" where
  "get_base_path E = (let workspace_loc = env_getenv E ''BIFROST_WORKSPACE_LOCATION'' in
     if opt_truthy workspace_loc then Inr (str_or workspace_loc [])
     else Inl (AppError ''RuntimeError'' (''BIFROST_WORKSPACE_LOCATION environment variable not set. ''
       @ ''This should have been validated at startup.'')))"

definition resolved_base :: "'w env \<Rightarrow> 'w disk \<Rightarrow> ('w, path) py" where
  "resolved_base E D = py_bind (lift (get_base_path E)) (resolve_from D (dk_cwd D))"

definition validate_and_resolve_path :: "'w env \<Rightarrow> 'w disk \<Rightarrow> string \<Rightarrow> ('w, path) py" where
  "validate_and_resolve_path E D relative_path = py_bind (resolved_base E D) (\<lambda>base_path.
     py_bind (resolve_from D base_path (dropWhile (\<lambda>c. c = CHR ''/'') relative_path)) (\<lambda>full_path.
     if prefix base_path full_path then ret full_path
     else raise (ValueError (''Path outside repository: '' @ relative_path))))"

text \<open>\<open>str(p.relative_to(base))\<close>.\<close>

definition relative_to :: "path \<Rightarrow> path \<Rightarrow> exn + string" where
  "relative_to base p = (if prefix base p then Inr (if p = base then ''.'' else join ''/'' (drop (length base) p))
     else Inl (ValueError ''is not in the subpath''))"

definition file_not_found :: "string \<Rightarrow> exn" where
  "file_not_found s = AppError ''FileNotFoundError'' s"

definition file_metadata :: "'w env \<Rightarrow> string \<Rightarrow> path \<Rightarrow> bool \<Rightarrow> int option \<Rightarrow> string option \<Rightarrow> string \<Rightarrow> exn + model" where
  "file_metadata E rel p folder st_size ext modified = env_validate E ''FileMetadata'' [''path'' \<mapsto> PStr rel, ''name'' \<mapsto> PStr (path_name p),
     ''type'' \<mapsto> PStr (if folder then ''folder'' else ''file''), ''size'' \<mapsto> of_int_opt st_size, ''extension'' \<mapsto> of_opt ext,
     ''modified'' \<mapsto> PStr modified, ''isReadOnly'' \<mapsto> PBool False]"

definition extension_of :: "bool \<Rightarrow> path \<Rightarrow> string option" where
  "extension_of file p = (if file \<and> suffix p \<noteq> [] then Some (suffix p) else None)"

text \<open>One entry of a listing; an entry the system refuses to read is left out, one that leads out of the base raises.\<close>

definition directory_entry :: "'w env \<Rightarrow> 'w disk \<Rightarrow> path \<Rightarrow> path \<Rightarrow> ('w, model option) py" where
  "directory_entry E D base item = py_catch
     (py_bind (stat D item) (\<lambda>(st_size, modified).
      py_bind (resolve_from D [] (CHR ''/'' # join ''/'' item)) (\<lambda>q. py_bind (lift (relative_to base q)) (\<lambda>relative.
      py_bind (is_dir D item) (\<lambda>folder. py_bind (is_file D item) (\<lambda>file. py_bind (is_file D item) (\<lambda>file'.
      py_bind (lift (file_metadata E relative item folder (if file' then Some st_size else None) (extension_of file item) modified))
        (\<lambda>m. ret (Some m)))))))))
     (\<lambda>x. if is_os_error x then ret None else raise x)"

definition list_directory :: "'w env \<Rightarrow> 'w disk \<Rightarrow> string \<Rightarrow> ('w, model list) py" where
  "list_directory E D relative_path = py_bind (validate_and_resolve_path E D relative_path) (\<lambda>dir_path.
     py_bind (path_exists D dir_path) (\<lambda>ex.
     if \<not> ex then raise (file_not_found (''Directory not found: '' @ relative_path))
     else py_bind (is_dir D dir_path) (\<lambda>d.
     if \<not> d then raise (ValueError (''Not a directory: '' @ relative_path))
     else py_bind (resolved_base E D) (\<lambda>base_path. py_bind (iterdir D dir_path) (\<lambda>items.
       py_bind (py_map (\<lambda>item. py_bind (is_real_file D item) (\<lambda>real. if real then directory_entry E D base_path item else ret None))
         (sort_key path_name items)) (\<lambda>results. ret (List.map_filter id results)))))))"

definition denied :: "string \<Rightarrow> string \<Rightarrow> exn \<Rightarrow> exn" where
  "denied message rel x = (if is_permission_error x then PermissionError (''Permission denied: '' @ rel)
     else ValueError (message @ exn_msg x))"

definition file_content :: "'w env \<Rightarrow> 'w disk \<Rightarrow> string \<Rightarrow> string \<Rightarrow> string \<Rightarrow> string \<Rightarrow> string \<Rightarrow> exn + model" where
  "file_content E D rel content encoding content_bytes modified = env_validate E ''FileContentResponse'' [''path'' \<mapsto> PStr rel,
     ''content'' \<mapsto> PStr content, ''encoding'' \<mapsto> PStr encoding, ''size'' \<mapsto> PInt (int (length content_bytes)),
     ''etag'' \<mapsto> PStr (dk_md5 D content_bytes), ''modified'' \<mapsto> PStr modified]"

text \<open>Encoding, content and bytes of a file: as text when it is UTF-8, else in base 64.\<close>

definition read_content :: "'w disk \<Rightarrow> string \<Rightarrow> path \<Rightarrow> ('w, string \<times> string \<times> string) py" where
  "read_content D relative_path p = py_catch
     (py_bind (read_text D p) (\<lambda>content. py_bind (lift (dk_encode D content)) (\<lambda>b. ret (''utf-8'', content, b))))
     (\<lambda>x. if x = AppError ''UnicodeDecodeError'' ''utf-8''
        then py_catch (py_bind (read_bytes D p) (\<lambda>b. ret (''base64'', dk_b64encode D b, b)))
          (\<lambda>y. raise (denied ''Error reading file: '' relative_path y))
        else raise (denied ''Error reading file: '' relative_path x))"

definition read_file :: "'w env \<Rightarrow> 'w disk \<Rightarrow> string \<Rightarrow> ('w, model) py" where
  "read_file E D relative_path = py_bind (validate_and_resolve_path E D relative_path) (\<lambda>file_path.
     py_bind (path_exists D file_path) (\<lambda>ex.
     if \<not> ex then raise (file_not_found (''File not found: '' @ relative_path))
     else py_bind (is_file D file_path) (\<lambda>f.
     if \<not> f then raise (ValueError (''Not a file: '' @ relative_path))
     else py_bind (stat D file_path) (\<lambda>(_, modified). py_bind (read_content D relative_path file_path) (\<lambda>(encoding, content, b).
       lift (file_content E D relative_path content encoding b modified))))))"

text \<open>Writing answers the bytes that were written.\<close>

definition write_content :: "'w disk \<Rightarrow> string \<Rightarrow> path \<Rightarrow> string \<Rightarrow> string \<Rightarrow> ('w, string) py" where
  "write_content D relative_path p content encoding = py_catch
     (if encoding = ''base64''
      then py_bind (lift (dk_b64decode D content)) (\<lambda>b. py_then (write_bytes D p b) (ret b))
      else py_then (write_text D p content) (lift (dk_encode D content)))
     (\<lambda>x. raise (denied ''Error writing file: '' relative_path x))"

definition write_file :: "'w env \<Rightarrow> 'w disk \<Rightarrow> string \<Rightarrow> string \<Rightarrow> string \<Rightarrow> ('w, model) py" where
  "write_file E D relative_path content encoding =
     (if encoding \<notin> {''utf-8'', ''base64''} then raise (ValueError ''Only UTF-8 and base64 encodings are supported'')
      else py_bind (validate_and_resolve_path E D relative_path) (\<lambda>file_path.
        py_then (py_catch (mkdir D (butlast file_path) True)
           (\<lambda>x. raise (ValueError (''Failed to create parent directory /'' @ join ''/'' (butlast file_path) @ '': '' @ exn_msg x))))
        (py_bind (write_content D relative_path file_path content encoding) (\<lambda>b. py_bind (stat D file_path) (\<lambda>(_, modified).
           lift (file_content E D relative_path content encoding b modified))))))"

definition create_folder :: "'w env \<Rightarrow> 'w disk \<Rightarrow> string \<Rightarrow> ('w, model) py" where
  "create_folder E D relative_path = py_bind (validate_and_resolve_path E D relative_path) (\<lambda>folder_path.
     py_bind (path_exists D folder_path) (\<lambda>ex.
     if ex then raise (ValueError (''Folder already exists: '' @ relative_path))
     else py_then (py_catch (mkdir D folder_path False) (\<lambda>x. raise (denied ''Error creating folder: '' relative_path x)))
       (py_bind (stat D folder_path) (\<lambda>(_, modified). lift (file_metadata E relative_path folder_path True None None modified)))))"

definition delete_path :: "'w env \<Rightarrow> 'w disk \<Rightarrow> string \<Rightarrow> ('w, unit) py" where
  "delete_path E D relative_path = py_bind (validate_and_resolve_path E D relative_path) (\<lambda>p.
     py_bind (path_exists D p) (\<lambda>ex.
     if \<not> ex then raise (file_not_found (''Path not found: '' @ relative_path))
     else py_catch (py_bind (is_dir D p) (\<lambda>d. if d then rmtree D p else unlink D p))
       (\<lambda>x. raise (denied ''Error deleting path: '' relative_path x))))"

definition rename_path :: "'w env \<Rightarrow> 'w disk \<Rightarrow> string \<Rightarrow> string \<Rightarrow> ('w, model) py" where
  "rename_path E D old_path new_path = py_bind (validate_and_resolve_path E D old_path) (\<lambda>old_resolved.
     py_bind (validate_and_resolve_path E D new_path) (\<lambda>new_resolved.
     py_bind (path_exists D old_resolved) (\<lambda>ex.
     if \<not> ex then raise (file_not_found (''Path not found: '' @ old_path))
     else py_bind (path_exists D new_resolved) (\<lambda>ex'.
     if ex' then raise (ValueError (''Destination already exists: '' @ new_path))
     else py_then (mkdir D (butlast new_resolved) True)
       (py_then (py_catch (rename D old_resolved new_resolved) (\<lambda>x. raise (denied ''Error renaming path: '' old_path x)))
         (py_bind (stat D new_resolved) (\<lambda>(st_size, modified).
          py_bind (is_dir D new_resolved) (\<lambda>folder. py_bind (is_file D new_resolved) (\<lambda>file. py_bind (is_file D new_resolved) (\<lambda>file'.
          lift (file_metadata E new_path new_resolved folder (if file' then Some st_size else None)
            (extension_of file new_resolved) modified)))))))))))"

section \<open>Files of workflows\<close>

definition getenv_or :: "'w env \<Rightarrow> string \<Rightarrow> string \<Rightarrow> string" where
  "getenv_or E name default_value = (case env_getenv E name of None \<Rightarrow> default_value | Some s \<Rightarrow> s)"

definition base_dir :: "'w env \<Rightarrow> string \<Rightarrow> string" where
  "base_dir E location = (if location = ''temp'' then getenv_or E ''BIFROST_TEMP_LOCATION'' ''/mounts/tmp''
     else getenv_or E ''BIFROST_WORKSPACE_LOCATION'' ''/mounts/workspace'')"

text \<open>\<open>p.is_relative_to(base)\<close> of a resolved path; the base is taken as it is written.\<close>

definition is_relative_to :: "path \<Rightarrow> string \<Rightarrow> bool" where
  "is_relative_to p base \<longleftrightarrow> is_absolute base \<and> \<not> (startswith base ''//'' \<and> \<not> startswith base ''///'') \<and> prefix (parts base) p"

definition files_resolve_path :: "'w env \<Rightarrow> 'w disk \<Rightarrow> string \<Rightarrow> string \<Rightarrow> ('w, path) py" where
  "files_resolve_path E D path location = (let base = base_dir E location in
     py_bind (py_catch (resolve_from D (dk_cwd D) (if is_absolute path \<or> base = [] then path else base @ ''/'' @ path))
       (\<lambda>_. raise (ValueError (''Invalid path: '' @ path)))) (\<lambda>p.
     if is_relative_to p base then ret p
     else raise (ValueError (''Path must be within '' @ location @ '' files directory: '' @ path))))"

definition files_read :: "'w env \<Rightarrow> 'w disk \<Rightarrow> exec_context option \<Rightarrow> string \<Rightarrow> string \<Rightarrow> ('w, string) py" where
  "files_read E D cv path location = py_bind (lift (get_execution_context cv)) (\<lambda>_.
     py_bind (files_resolve_path E D path location) (read_text D))"

definition files_read_bytes :: "'w env \<Rightarrow> 'w disk \<Rightarrow> exec_context option \<Rightarrow> string \<Rightarrow> string \<Rightarrow> ('w, string) py" where
  "files_read_bytes E D cv path location = py_bind (lift (get_execution_context cv)) (\<lambda>_.
     py_bind (files_resolve_path E D path location) (read_bytes D))"

definition files_write :: "'w env \<Rightarrow> 'w disk \<Rightarrow> exec_context option \<Rightarrow> string \<Rightarrow> string \<Rightarrow> string \<Rightarrow> ('w, unit) py" where
  "files_write E D cv path content location = py_bind (lift (get_execution_context cv)) (\<lambda>_.
     py_bind (files_resolve_path E D path location) (\<lambda>p. py_then (mkdir D (butlast p) True) (write_text D p content)))"

definition files_write_bytes :: "'w env \<Rightarrow> 'w disk \<Rightarrow> exec_context option \<Rightarrow> string \<Rightarrow> string \<Rightarrow> string \<Rightarrow> ('w, unit) py" where
  "files_write_bytes E D cv path content location = py_bind (lift (get_execution_context cv)) (\<lambda>_.
     py_bind (files_resolve_path E D path location) (\<lambda>p. py_then (mkdir D (butlast p) True) (write_bytes D p content)))"

definition files_list :: "'w env \<Rightarrow> 'w disk \<Rightarrow> exec_context option \<Rightarrow> string \<Rightarrow> string \<Rightarrow> ('w, string list) py" where
  "files_list E D cv directory location = py_bind (lift (get_execution_context cv)) (\<lambda>_.
     py_bind (files_resolve_path E D directory location) (\<lambda>p. py_bind (path_exists D p) (\<lambda>ex.
     if \<not> ex then raise (file_not_found (''Directory not found: '' @ directory))
     else py_bind (is_dir D p) (\<lambda>d. if \<not> d then raise (ValueError (''Not a directory: '' @ directory))
       else py_bind (iterdir D p) (\<lambda>items. ret (map path_name items))))))"

definition files_delete :: "'w env \<Rightarrow> 'w disk \<Rightarrow> exec_context option \<Rightarrow> string \<Rightarrow> string \<Rightarrow> ('w, unit) py" where
  "files_delete E D cv path location = py_bind (lift (get_execution_context cv)) (\<lambda>_.
     py_bind (files_resolve_path E D path location) (\<lambda>p. py_bind (path_exists D p) (\<lambda>ex.
     if \<not> ex then raise (file_not_found (''Path not found: '' @ path))
     else py_bind (is_dir D p) (\<lambda>d. if d then rmtree D p else unlink D p))))"

definition files_exists :: "'w env \<Rightarrow> 'w disk \<Rightarrow> exec_context option \<Rightarrow> string \<Rightarrow> string \<Rightarrow> ('w, bool) py" where
  "files_exists E D cv path location = py_bind (lift (get_execution_context cv)) (\<lambda>_.
     py_catch (py_bind (files_resolve_path E D path location) (path_exists D))
       (\<lambda>x. case x of ValueError _ \<Rightarrow> ret False | _ \<Rightarrow> raise x))"

section \<open>Search\<close>

text \<open>
  The modules \<open>glob\<close>, \<open>re\<close> and \<open>concurrent.futures\<close>: the paths a pattern finds and the error that ended the search for
  them, the columns where an expression matches, the order in which the threads end, and the clock in milliseconds.
\<close>

record 'w search_lib =
  sl_glob :: "path \<Rightarrow> string \<Rightarrow> ('w, path list \<times> exn option) py"
  sl_compile :: "bool \<Rightarrow> bool \<Rightarrow> string \<Rightarrow> exn + (string \<Rightarrow> nat list)"
  sl_decode :: "string \<Rightarrow> string"
  sl_completed :: "'w \<Rightarrow> path list \<Rightarrow> path list"
  sl_time :: "('w, int) py"

record search_request =
  sq_query :: string
  sq_case_sensitive :: bool
  sq_regex :: bool
  sq_file_pattern :: "string option"
  sq_max_results :: nat

record search_hit =
  sh_file_path :: string
  sh_line :: nat
  sh_column :: nat
  sh_match_text :: string
  sh_before :: "string option"
  sh_after :: "string option"

record search_response =
  sp_query :: string
  sp_total_matches :: nat
  sp_files_searched :: nat
  sp_results :: "search_hit list"
  sp_truncated :: bool
  sp_time_ms :: int

definition BINARY_EXTENSIONS :: "string list" where
  "BINARY_EXTENSIONS = [''.pyc'', ''.pyo'', ''.so'', ''.dll'', ''.dylib'', ''.exe'', ''.bin'', ''.jpg'', ''.jpeg'', ''.png'', ''.gif'',
     ''.bmp'', ''.ico'', ''.svg'', ''.mp3'', ''.mp4'', ''.avi'', ''.mov'', ''.wav'', ''.flac'', ''.zip'', ''.tar'', ''.gz'', ''.bz2'',
     ''.7z'', ''.rar'', ''.pdf'', ''.doc'', ''.docx'', ''.xls'', ''.xlsx'', ''.ppt'', ''.pptx'', ''.woff'', ''.woff2'', ''.ttf'',
     ''.eot'', ''.otf'']"

definition MAX_FILE_SIZE :: int where
  "MAX_FILE_SIZE = 10 * 1024 * 1024"

definition should_search_file :: "'w disk \<Rightarrow> path \<Rightarrow> ('w, bool) py" where
  "should_search_file D p = py_bind (is_file D p) (\<lambda>f.
     if \<not> f then ret False
     else if lower (suffix p) \<in> set BINARY_EXTENSIONS then ret False
     else if startswith (path_name p) ''.'' then ret False
     else py_catch (py_bind (stat D p) (\<lambda>(st_size, _). ret (st_size \<le> MAX_FILE_SIZE)))
       (\<lambda>x. if is_os_error x then ret False else raise x))"

text \<open>\<open>f.readlines()\<close> without the line ends.\<close>

definition file_lines :: "string \<Rightarrow> string list" where
  "file_lines s = (let ls = split_all CHR 0x0A (universal_newlines s) in if last ls = [] then butlast ls else ls)"

definition line_hits :: "string \<Rightarrow> (string \<Rightarrow> nat list) \<Rightarrow> string list \<Rightarrow> nat \<Rightarrow> search_hit list" where
  "line_hits path find_in lines i = map (\<lambda>start. \<lparr>sh_file_path = path, sh_line = i + 1, sh_column = start, sh_match_text = lines ! i,
     sh_before = (if 0 < i then Some (lines ! (i - 1)) else None),
     sh_after = (if i + 1 < length lines then Some (lines ! (i + 1)) else None)\<rparr>) (find_in (lines ! i))"

definition str_path :: "path \<Rightarrow> string" where
  "str_path p = CHR ''/'' # join ''/'' p"

definition shown_path :: "'w disk \<Rightarrow> path \<Rightarrow> path \<Rightarrow> ('w, string) py" where
  "shown_path D base p = py_bind (resolve_from D [] (str_path p)) (\<lambda>q. py_bind (resolve_from D [] (str_path base)) (\<lambda>b.
     ret (case relative_to b q of Inr s \<Rightarrow> s | Inl _ \<Rightarrow> str_path p)))"

definition search_file :: "'w disk \<Rightarrow> 'w search_lib \<Rightarrow> search_request \<Rightarrow> path \<Rightarrow> path \<Rightarrow> ('w, search_hit list) py" where
  "search_file D S q base p = py_catch
     (py_bind (read_bytes D p) (\<lambda>b. py_bind (lift (sl_compile S (sq_regex q) (sq_case_sensitive q) (sq_query q))) (\<lambda>find_in.
      py_bind (shown_path D base p) (\<lambda>relative_path. let lines = file_lines (sl_decode S b) in
      ret (concat (map (line_hits relative_path find_in lines) [0..<length lines]))))))
     (\<lambda>x. if is_os_error x \<or> x = AppError ''UnicodeDecodeError'' ''utf-8'' then ret [] else raise x)"

text \<open>Files are collected until the system refuses to go on.\<close>

fun searchable :: "'w disk \<Rightarrow> path list \<Rightarrow> ('w, path list) py" where
  "searchable D [] = ret []"
| "searchable D (p # ps) = py_bind (py_attempt (should_search_file D p)) (\<lambda>r. case r of
     Inl x \<Rightarrow> if is_os_error x then ret [] else raise x
   | Inr ok \<Rightarrow> py_bind (searchable D ps) (\<lambda>found. ret (if ok then p # found else found)))"

definition collect_files :: "'w disk \<Rightarrow> 'w search_lib \<Rightarrow> path \<Rightarrow> string \<Rightarrow> ('w, path list) py" where
  "collect_files D S root_path file_pattern = py_catch
     (py_bind (sl_glob S root_path file_pattern) (\<lambda>(found, err). py_bind (searchable D found) (\<lambda>files.
      case err of Some x \<Rightarrow> if is_os_error x then ret files else raise x | None \<Rightarrow> ret files)))
     (\<lambda>x. if is_os_error x then ret [] else raise x)"

text \<open>The files in the order in which their threads end, until there are enough hits; a file that raises is passed over.\<close>

fun gather_hits :: "'w disk \<Rightarrow> 'w search_lib \<Rightarrow> search_request \<Rightarrow> path \<Rightarrow> search_hit list \<Rightarrow> path list \<Rightarrow> ('w, search_hit list) py" where
  "gather_hits D S q base hits [] = ret hits"
| "gather_hits D S q base hits (p # ps) = py_bind (py_attempt (search_file D S q base p)) (\<lambda>r. case r of
     Inl _ \<Rightarrow> gather_hits D S q base hits ps
   | Inr hs \<Rightarrow> if sq_max_results q \<le> length (hits @ hs) then ret (hits @ hs) else gather_hits D S q base (hits @ hs) ps)"

definition search_root :: "'w env \<Rightarrow> 'w disk \<Rightarrow> string \<Rightarrow> ('w, path) py" where
  "search_root E D root_path = (if root_path \<noteq> [] then validate_and_resolve_path E D root_path
     else lift (map_sum id (\<lambda>s. (if is_absolute s then [] else dk_cwd D) @ parts s) (get_base_path E)))"

definition search_files :: "'w env \<Rightarrow> 'w disk \<Rightarrow> 'w search_lib \<Rightarrow> search_request \<Rightarrow> string \<Rightarrow> ('w, search_response) py" where
  "search_files E D S q root_path = py_bind (sl_time S) (\<lambda>start_time. py_bind (search_root E D root_path) (\<lambda>root.
     py_bind (if sq_regex q then (case sl_compile S True (sq_case_sensitive q) (sq_query q) of
         Inl x \<Rightarrow> raise (ValueError (''Invalid regex pattern: '' @ exn_msg x)) | Inr _ \<Rightarrow> ret ()) else ret ()) (\<lambda>_.
     py_bind (collect_files D S root (str_or (sq_file_pattern q) ''**/*'')) (\<lambda>files. py_bind (search_root E D []) (\<lambda>base_path.
     py_bind (py_read (\<lambda>w. sl_completed S w files)) (\<lambda>order. py_bind (gather_hits D S q base_path [] order) (\<lambda>all_results.
     py_bind (sl_time S) (\<lambda>end_time.
     let results = take (sq_max_results q) all_results in
     ret \<lparr>sp_query = sq_query q, sp_total_matches = length results, sp_files_searched = length files, sp_results = results,
          sp_truncated = (sq_max_results q < length all_results), sp_time_ms = end_time - start_time\<rparr>))))))))"

section \<open>Confinement\<close>

text \<open>The base directory as it is resolved in a tree.\<close>

definition base_at :: "'w env \<Rightarrow> 'w disk \<Rightarrow> tree \<Rightarrow> path option" where
  "base_at E D t = (case get_base_path E of
     Inl _ \<Rightarrow> None
   | Inr s \<Rightarrow> join_real t [] (if is_absolute s then [] else dk_cwd D) (split_all CHR ''/'' s))"

lemma wp_resolve_from:
  "wp (resolve_from D s0 s) (\<lambda>p w'. w' = w \<and> join_real (dk_tree D w) [] (if is_absolute s then [] else s0) (split_all CHR ''/'' s) = Some p)
     (\<lambda>_ w'. w' = w) w"
  by (auto simp: resolve_from_def wp_def py_run_defs py_read_def split: option.splits)

lemma wp_validate:
  assumes "base_at E D (dk_tree D w) = Some base"
  shows "wp (validate_and_resolve_path E D rel) (\<lambda>p w'. w' = w \<and> prefix base p) (\<lambda>_ w'. w' = w) w"
proof -
  have "wp (resolved_base E D) (\<lambda>b w'. w' = w \<and> b = base) (\<lambda>_ w'. w' = w) w"
    unfolding resolved_base_def using assms
    by (cases "get_base_path E") (auto simp: base_at_def intro!: wp_mono [OF wp_resolve_from])
  then show ?thesis
    unfolding validate_and_resolve_path_def wp_bind
    by (rule wp_mono) (auto intro!: wp_mono [OF wp_resolve_from])
qed

lemma wp_files_resolve:
  "wp (files_resolve_path E D path location) (\<lambda>p w'. w' = w \<and> prefix (parts (base_dir E location)) p) (\<lambda>_ w'. w' = w) w"
  unfolding files_resolve_path_def Let_def wp_bind wp_catch
  by (rule wp_mono [OF wp_resolve_from]) (auto simp: is_relative_to_def)

text \<open>The operations of the editor and of workflows as requests.\<close>

datatype editor_request = List_Directory string | Read_File string | Write_File string string string | Create_Folder string
  | Delete_Path string | Rename_Path string string

definition run_editor :: "'w env \<Rightarrow> 'w disk \<Rightarrow> editor_request \<Rightarrow> ('w, unit) py" where
  "run_editor E D q = (case q of
     List_Directory p \<Rightarrow> py_then (list_directory E D p) (ret ())
   | Read_File p \<Rightarrow> py_then (read_file E D p) (ret ())
   | Write_File p c enc \<Rightarrow> py_then (write_file E D p c enc) (ret ())
   | Create_Folder p \<Rightarrow> py_then (create_folder E D p) (ret ())
   | Delete_Path p \<Rightarrow> delete_path E D p
   | Rename_Path p p' \<Rightarrow> py_then (rename_path E D p p') (ret ()))"

datatype files_request = Files_Read string | Files_Read_Bytes string | Files_Write string string | Files_Write_Bytes string string
  | Files_List string | Files_Delete string | Files_Exists string

definition run_files :: "'w env \<Rightarrow> 'w disk \<Rightarrow> exec_context option \<Rightarrow> string \<Rightarrow> files_request \<Rightarrow> ('w, unit) py" where
  "run_files E D cv loc q = (case q of
     Files_Read p \<Rightarrow> py_then (files_read E D cv p loc) (ret ())
   | Files_Read_Bytes p \<Rightarrow> py_then (files_read_bytes E D cv p loc) (ret ())
   | Files_Write p c \<Rightarrow> files_write E D cv p c loc
   | Files_Write_Bytes p c \<Rightarrow> files_write_bytes E D cv p c loc
   | Files_List p \<Rightarrow> py_then (files_list E D cv p loc) (ret ())
   | Files_Delete p \<Rightarrow> files_delete E D cv p loc
   | Files_Exists p \<Rightarrow> py_then (files_exists E D cv p loc) (ret ()))"

lemma wp_stays_after:
  assumes "wp m (\<lambda>p w'. w' = w \<and> P p) (\<lambda>_ w'. w' = w) w" and "\<And>p. P p \<Longrightarrow> wp (g p) (\<lambda>_. I) (\<lambda>_. I) w" and "I w"
  shows "wp (py_bind m g) (\<lambda>_. I) (\<lambda>_. I) w"
  unfolding wp_bind by (rule wp_mono [OF assms(1)]) (use assms(2,3) in auto)

context disk_laws
begin

lemmas stays_changing = stays_write_bytes stays_write_text stays_rmtree stays_unlink stays_rename

lemma parent_inside: "prefix base p \<Longrightarrow> prefix base (butlast p) \<or> prefix (butlast p) base"
  by (metis prefix_order.refl prefix_same_cases prefixeq_butlast)

lemma wp_after_validate:
  assumes "base_at E D (dk_tree D w) = Some base" and "\<And>p. prefix base p \<Longrightarrow> stays I (g p)" and "I w"
  shows "wp (py_bind (validate_and_resolve_path E D rel) g) (\<lambda>_. I) (\<lambda>_. I) w"
  by (rule wp_stays_after [OF wp_validate [OF assms(1)]]) (use assms(2,3) in \<open>auto intro: stays_wp\<close>)

lemma wp_after_resolve:
  assumes "base = parts (base_dir E loc)" and "\<And>p. prefix base p \<Longrightarrow> stays I (g p)" and "I w"
  shows "wp (py_bind (lift (get_execution_context cv)) (\<lambda>_. py_bind (files_resolve_path E D path loc) g)) (\<lambda>_. I) (\<lambda>_. I) w"
proof (cases "get_execution_context cv")
  case (Inr c)
  have "wp (py_bind (files_resolve_path E D path loc) g) (\<lambda>_. I) (\<lambda>_. I) w"
    by (rule wp_stays_after [OF wp_files_resolve]) (use assms in \<open>auto intro: stays_wp\<close>)
  then show ?thesis by (simp add: Inr)
qed (simp add: assms(3))

lemma editor_confinement:
  assumes base: "base_at E D (dk_tree D w) = Some base" and above: "dirs_above base (outside_of base (dk_tree D w))"
  shows "wp (run_editor E D q) (\<lambda>_ w'. outside_of base (dk_tree D w') = outside_of base (dk_tree D w))
      (\<lambda>_ w'. outside_of base (dk_tree D w') = outside_of base (dk_tree D w)) w"
proof -
  let ?I = "\<lambda>w'. outside_of base (dk_tree D w') = outside_of base (dk_tree D w)"
  note valid = wp_validate [OF base]
  note go = wp_after_validate [OF base]
  have entry: "stays ?I (directory_entry E D b p)" "stays ?I (is_real_file D p)" "stays ?I (read_content D rel p)" for b p rel
    unfolding directory_entry_def is_real_file_def read_content_def Let_def by (intro stays_intros)+
  have content: "stays ?I (write_content D rel p c enc)" if "prefix base p" for rel p c enc
    unfolding write_content_def by (intro stays_intros stays_changing that)
  note up = stays_mkdir [OF above parent_inside]
  have "wp (list_directory E D p) (\<lambda>_. ?I) (\<lambda>_. ?I) w" for p
    unfolding list_directory_def resolved_base_def by (rule go, intro stays_intros entry) simp
  moreover have "wp (read_file E D p) (\<lambda>_. ?I) (\<lambda>_. ?I) w" for p
    unfolding read_file_def by (rule go, intro stays_intros entry) simp
  moreover have "wp (write_file E D p c enc) (\<lambda>_. ?I) (\<lambda>_. ?I) w" for p c enc
    unfolding write_file_def
    by (cases "enc \<in> {''utf-8'', ''base64''}", simp only: not_True_eq_False if_False,
      rule go, intro stays_intros content up; simp)
  moreover have "wp (create_folder E D p) (\<lambda>_. ?I) (\<lambda>_. ?I) w" for p
    unfolding create_folder_def by (rule go, intro stays_intros stays_mkdir [OF above] disjI1) simp_all
  moreover have "wp (delete_path E D p) (\<lambda>_. ?I) (\<lambda>_. ?I) w" for p
    unfolding delete_path_def by (rule go, intro stays_intros stays_changing) simp_all
  moreover have "wp (rename_path E D p p') (\<lambda>_. ?I) (\<lambda>_. ?I) w" for p p'
    unfolding rename_path_def
    by (rule wp_stays_after [OF valid], rule go, intro stays_intros stays_changing up) simp_all
  ultimately show ?thesis by (cases q) (simp_all add: run_editor_def)
qed

lemma files_confinement:
  assumes above: "dirs_above base (outside_of base (dk_tree D w))" and base: "base = parts (base_dir E loc)"
  shows "wp (run_files E D cv loc q) (\<lambda>_ w'. outside_of base (dk_tree D w') = outside_of base (dk_tree D w))
      (\<lambda>_ w'. outside_of base (dk_tree D w') = outside_of base (dk_tree D w)) w"
proof -
  let ?I = "\<lambda>w'. outside_of base (dk_tree D w') = outside_of base (dk_tree D w)"
  note go = wp_after_resolve [OF base]
  note up = stays_mkdir [OF above parent_inside]
  have "stays ?I (files_exists E D cv p loc)" for p
    unfolding files_exists_def files_resolve_path_def Let_def by (intro stays_intros) (auto split: exn.splits intro!: stays_intros)
  then have "wp (files_exists E D cv p loc) (\<lambda>_. ?I) (\<lambda>_. ?I) w" for p by (rule stays_wp) simp
  moreover have "wp (files_read E D cv p loc) (\<lambda>_. ?I) (\<lambda>_. ?I) w" "wp (files_read_bytes E D cv p loc) (\<lambda>_. ?I) (\<lambda>_. ?I) w"
    "wp (files_list E D cv p loc) (\<lambda>_. ?I) (\<lambda>_. ?I) w" for p
    unfolding files_read_def files_read_bytes_def files_list_def by (rule go, intro stays_intros, simp)+
  moreover have "wp (files_write E D cv p c loc) (\<lambda>_. ?I) (\<lambda>_. ?I) w" "wp (files_write_bytes E D cv p c loc) (\<lambda>_. ?I) (\<lambda>_. ?I) w"
    "wp (files_delete E D cv p loc) (\<lambda>_. ?I) (\<lambda>_. ?I) w" for p c
    unfolding files_write_def files_write_bytes_def files_delete_def by (rule go, intro stays_intros stays_changing up; simp)+
  ultimately show ?thesis by (cases q) (simp_all add: run_files_def)
qed

end

section \<open>Search\<close>

text \<open>A hit is where the expression matches a line of a file.\<close>

definition true_hit :: "'w search_lib \<Rightarrow> search_request \<Rightarrow> tree \<Rightarrow> search_hit \<Rightarrow> bool" where
  "true_hit S q t h \<longleftrightarrow> (\<exists>p b find_in. follow t p = Some (File b)
     \<and> sl_compile S (sq_regex q) (sq_case_sensitive q) (sq_query q) = Inr find_in
     \<and> (\<exists>i < length (file_lines (sl_decode S b)). sh_line h = i + 1 \<and> sh_match_text h = file_lines (sl_decode S b) ! i)
     \<and> sh_column h \<in> set (find_in (sh_match_text h)))"

context disk_laws
begin

lemma wp_read_bytes:
  "wp (read_bytes D p) (\<lambda>b w'. follow (dk_tree D w) p = Some (File b) \<and> dk_tree D w' = dk_tree D w)
     (\<lambda>_ w'. dk_tree D w' = dk_tree D w) w"
  unfolding read_bytes_def wp_bind by (rule wp_mono [OF wp_kind_of]) (auto split: option.splits node.splits)

lemma wp_search_file:
  "wp (search_file D S q base p) (\<lambda>hs w'. dk_tree D w' = dk_tree D w \<and> (\<forall>h \<in> set hs. true_hit S q (dk_tree D w) h))
     (\<lambda>_ w'. dk_tree D w' = dk_tree D w) w"
proof -
  let ?T = "\<lambda>w'. dk_tree D w' = dk_tree D w"
  have path: "stays (\<lambda>w'. dk_tree D w' = dk_tree D w) (shown_path D base p)"
    unfolding shown_path_def by (intro stays_intros)
  have lines: "wp (py_bind (lift (sl_compile S (sq_regex q) (sq_case_sensitive q) (sq_query q))) (\<lambda>find_in.
      py_bind (shown_path D base p) (\<lambda>relative_path. let lines = file_lines (sl_decode S b) in
      ret (concat (map (line_hits relative_path find_in lines) [0..<length lines])))))
    (\<lambda>hs w'. ?T w' \<and> (\<forall>h \<in> set hs. true_hit S q (dk_tree D w) h)) (\<lambda>_. ?T) w1"
    if f: "follow (dk_tree D w) p = Some (File b)" and w1: "?T w1" for b w1
  proof (cases "sl_compile S (sq_regex q) (sq_case_sensitive q) (sq_query q)")
    case (Inr find_in)
    let ?lines = "file_lines (sl_decode S b)"
    have "true_hit S q (dk_tree D w) h" if "h \<in> set (line_hits rel find_in ?lines i)" "i \<in> {0..<length ?lines}" for rel h i
      using that f Inr unfolding true_hit_def by (intro exI [of _ p] exI [of _ b] exI [of _ find_in]) (auto simp: line_hits_def)
    then show ?thesis
      unfolding Inr wp_bind wp_lift sum.case wp_let
      by (intro wp_mono [OF stays_wp [OF path w1]]) (auto simp: Let_def)
  qed (simp add: w1)
  show ?thesis
    unfolding search_file_def wp_catch wp_bind [of "read_bytes D p"]
  proof (rule wp_mono [OF wp_read_bytes], goal_cases)
    case (1 b w1)
    then show ?case by (intro wp_mono [OF lines]) simp_all
  qed simp
qed

lemma wp_gather_hits:
  assumes "\<forall>h \<in> set hits. true_hit S q (dk_tree D w) h"
  shows "wp (gather_hits D S q base hits ps) (\<lambda>hs w'. dk_tree D w' = dk_tree D w \<and> (\<forall>h \<in> set hs. true_hit S q (dk_tree D w) h))
     (\<lambda>_ w'. dk_tree D w' = dk_tree D w) w"
  using assms
proof (induction ps arbitrary: hits w)
  case (Cons p ps)
  show ?case
    unfolding gather_hits.simps wp_bind wp_attempt
  proof (rule wp_mono [OF wp_search_file], goal_cases)
    case (1 hs w1)
    then show ?case using Cons.IH [of "hits @ hs" w1] Cons.prems by auto
  next
    case (2 x w1)
    then show ?case using Cons.IH [of hits w1] Cons.prems by simp
  qed
qed simp

lemma stays_collect_files:
  assumes "\<And>r p. stays (\<lambda>w. dk_tree D w = t) (sl_glob S r p)"
  shows "stays (\<lambda>w. dk_tree D w = t) (collect_files D S r p)"
proof -
  have one: "stays (\<lambda>w. dk_tree D w = t) (should_search_file D p)" for p
    unfolding should_search_file_def by (intro stays_intros)
  have "stays (\<lambda>w. dk_tree D w = t) (searchable D ps)" for ps
    by (induction ps) (auto intro!: stays_intros one)
  then show ?thesis unfolding collect_files_def by (intro stays_intros assms)
qed

lemma wp_search_files:
  assumes "\<And>r p t. stays (\<lambda>w. dk_tree D w = t) (sl_glob S r p)" and "\<And>t. stays (\<lambda>w. dk_tree D w = t) (sl_time S)"
  shows "wp (search_files E D S q root) (\<lambda>r w'. dk_tree D w' = dk_tree D w
      \<and> (\<forall>h \<in> set (sp_results r). true_hit S q (dk_tree D w) h) \<and> sp_total_matches r = length (sp_results r)
      \<and> length (sp_results r) \<le> sq_max_results q \<and> (sp_truncated r \<longrightarrow> length (sp_results r) = sq_max_results q))
    (\<lambda>_ w'. dk_tree D w' = dk_tree D w) w"
proof -
  let ?T = "\<lambda>w'. dk_tree D w' = dk_tree D w"
  have root: "stays ?T (search_root E D p)" for p
    unfolding search_root_def validate_and_resolve_path_def resolved_base_def by (intro stays_intros)
  have regex: "stays ?T (if sq_regex q then (case sl_compile S True (sq_case_sensitive q) (sq_query q) of
         Inl x \<Rightarrow> raise (ValueError (''Invalid regex pattern: '' @ exn_msg x)) | Inr _ \<Rightarrow> ret ()) else ret ())"
    by (intro stays_intros)
  have last: "wp (py_bind (sl_time S) (\<lambda>end_time. let results = take (sq_max_results q) hs in
     ret \<lparr>sp_query = sq_query q, sp_total_matches = length results, sp_files_searched = n, sp_results = results,
          sp_truncated = (sq_max_results q < length hs), sp_time_ms = end_time - s0\<rparr>))
     (\<lambda>r w'. ?T w' \<and> (\<forall>h \<in> set (sp_results r). true_hit S q (dk_tree D w) h) \<and> sp_total_matches r = length (sp_results r)
      \<and> length (sp_results r) \<le> sq_max_results q \<and> (sp_truncated r \<longrightarrow> length (sp_results r) = sq_max_results q)) (\<lambda>_. ?T) w1"
    if "?T w1" "\<forall>h \<in> set hs. true_hit S q (dk_tree D w) h" for hs n s0 w1
    unfolding wp_bind by (rule wp_mono [OF stays_wp [OF assms(2) that(1)]]) (use that(2) in \<open>auto simp: Let_def dest: in_set_takeD\<close>)
  have gather: "wp (gather_hits D S q b [] ps) (\<lambda>hs w'. ?T w' \<and> (\<forall>h \<in> set hs. true_hit S q (dk_tree D w) h)) (\<lambda>_. ?T) w1"
    if "?T w1" for b ps w1
    using wp_gather_hits [of "[]" S q w1 b ps] that by simp
  show ?thesis
    unfolding search_files_def wp_bind wp_read
    by (rule wp_mono [OF stays_wp [OF assms(2) refl]], rule wp_mono [OF stays_wp [OF root]], assumption,
      rule wp_mono [OF stays_wp [OF regex]], assumption,
      rule wp_mono [OF stays_wp [OF stays_collect_files [OF assms(1)]]], assumption,
      rule wp_mono [OF stays_wp [OF root]], assumption,
      rule wp_mono [OF gather], assumption, rule last [unfolded wp_bind], simp_all)
qed

end

section \<open>What is written is read\<close>

text \<open>The path a caller names, as it is resolved in a tree.\<close>

definition resolves :: "'w env \<Rightarrow> 'w disk \<Rightarrow> tree \<Rightarrow> string \<Rightarrow> path option" where
  "resolves E D t rel = (case base_at E D t of
     None \<Rightarrow> None
   | Some base \<Rightarrow> (case join_real t [] base (split_all CHR ''/'' (dropWhile (\<lambda>c. c = CHR ''/'') rel)) of
       None \<Rightarrow> None
     | Some p \<Rightarrow> if prefix base p then Some p else None))"

lemma dropWhile_relative: "\<not> is_absolute (dropWhile (\<lambda>c. c = CHR ''/'') rel)"
  by (induction rel) (simp_all add: is_absolute_def startswith_def)

lemma wp_resolved_base:
  "wp (resolved_base E D) (\<lambda>b w'. w' = w \<and> base_at E D (dk_tree D w) = Some b) (\<lambda>_ w'. w' = w) w"
proof (cases "get_base_path E")
  case (Inr s)
  then show ?thesis
    unfolding resolved_base_def wp_bind wp_lift sum.case by (simp only: sum.case base_at_def wp_resolve_from)
qed (simp add: resolved_base_def)

lemma wp_validate_resolves:
  "wp (validate_and_resolve_path E D rel) (\<lambda>p w'. w' = w \<and> resolves E D (dk_tree D w) rel = Some p) (\<lambda>_ w'. w' = w) w"
proof -
  let ?cs = "split_all CHR ''/'' (dropWhile (\<lambda>c. c = CHR ''/'') rel)"
  have step: "wp (resolve_from D b (dropWhile (\<lambda>c. c = CHR ''/'') rel))
      (\<lambda>p w'. w' = w \<and> join_real (dk_tree D w) [] b ?cs = Some p) (\<lambda>_ w'. w' = w) w" for b
    using wp_resolve_from [of D b "dropWhile (\<lambda>c. c = CHR ''/'') rel" w] by (simp add: dropWhile_relative)
  show ?thesis
    unfolding validate_and_resolve_path_def wp_bind
    by (rule wp_mono [OF wp_resolved_base]) (auto simp: resolves_def intro!: wp_mono [OF step])
qed

lemma base_at_links: "base_at E D t = Some b \<Longrightarrow> link_at t' = link_at t \<Longrightarrow> base_at E D t' = Some b"
proof (cases "get_base_path E")
  case (Inr s)
  assume "base_at E D t = Some b" "link_at t' = link_at t"
  then show ?thesis unfolding base_at_def Inr sum.case by (rule join_real_links)
qed (simp add: base_at_def)

lemma resolves_links: "resolves E D t rel = Some p \<Longrightarrow> link_at t' = link_at t \<Longrightarrow> resolves E D t' rel = Some p"
proof -
  assume r: "resolves E D t rel = Some p" and l: "link_at t' = link_at t"
  obtain base where b: "base_at E D t = Some base" and p: "prefix base p"
    and j: "join_real t [] base (split_all CHR ''/'' (dropWhile (\<lambda>c. c = CHR ''/'') rel)) = Some p"
    using r by (auto simp: resolves_def split: option.splits if_splits)
  show ?thesis by (simp add: resolves_def base_at_links [OF b l] join_real_links [OF j l] p)
qed

lemma resolves_canonical:
  assumes "canonical t (dk_cwd D)" "proper (dk_cwd D)" and "resolves E D t rel = Some p"
  shows "canonical t p \<and> proper p"
proof -
  have nil: "proper []" by (simp add: proper_def)
  obtain base where b: "base_at E D t = Some base"
    and p: "join_real t [] base (split_all CHR ''/'' (dropWhile (\<lambda>c. c = CHR ''/'') rel)) = Some p"
    using assms(3) by (auto simp: resolves_def split: option.splits if_splits)
  have "canonical t base" "proper base"
    using b assms(1,2) nil join_real_canonical join_real_proper by (auto simp: base_at_def split: sum.splits if_splits)
  then show ?thesis using join_real_canonical [OF p] join_real_proper [OF p] by simp
qed

text \<open>
  The operating system raises \<open>OSError\<close> only, and UTF-8 decodes what it encoded.
\<close>

locale workspace = disk_laws D + table_sdk E for D :: "'w disk" and E :: "'w env" +
  assumes fault_os: "dk_fault D w = (Inl x, w') \<Longrightarrow> is_os_error x"
    and codec: "dk_encode D s = Inr b \<Longrightarrow> dk_decode D b = Some s"

context workspace
begin

lemma wp_same_tree: "stays (\<lambda>w'. dk_tree D w' = dk_tree D w) m
    \<Longrightarrow> wp m (\<lambda>_ w'. dk_tree D w' = dk_tree D w) (\<lambda>_ w'. dk_tree D w' = dk_tree D w) w"
  by (rule stays_wp) simp_all

lemma wp_stat: "wp (stat D p) (\<lambda>_ w'. dk_tree D w' = dk_tree D w) (\<lambda>_ w'. dk_tree D w' = dk_tree D w) w"
  by (rule wp_same_tree) (rule stays_reading2)

text \<open>The tree holds a file of these bytes where the path leads.\<close>

lemma wp_write_content:
  assumes "canonical (dk_tree D w) p" "proper p"
  shows "wp (write_content D rel p content ''utf-8'')
    (\<lambda>b w'. dk_encode D content = Inr b \<and> link_at (dk_tree D w') = link_at (dk_tree D w) \<and> follow (dk_tree D w') p = Some (File b))
    (\<lambda>_ _. True) w"
proof (cases "dk_encode D content")
  case (Inr b)
  have none: "link_at (dk_tree D w) p = None" using assms(1) by (simp add: canonical_link_at)
  let ?t = "AList.update p (File b) (dk_tree D w)"
  have l: "link_at ?t = link_at (dk_tree D w)" by (rule link_at_update [OF none]) simp
  have "canonical ?t p" using assms(1) by (simp add: canonical_link_at l)
  then have "p \<noteq> [] \<Longrightarrow> follow ?t p = Some (File b)" by (simp add: follow_self assms(2) node_at_def update_conv')
  with l show ?thesis
    unfolding write_content_def by (simp add: write_text_def Inr denied_def) (rule wp_mono [OF wp_write_bytes], auto)
next
  case (Inl x)
  then show ?thesis
    unfolding write_content_def by (simp add: write_text_def)
qed

lemma wp_write_file:
  assumes cwd: "canonical (dk_tree D w) (dk_cwd D)" "proper (dk_cwd D)"
  shows "wp (write_file E D rel content ''utf-8'')
    (\<lambda>m w'. \<exists>p b md. resolves E D (dk_tree D w') rel = Some p \<and> follow (dk_tree D w') p = Some (File b)
       \<and> dk_encode D content = Inr b \<and> file_content E D rel content ''utf-8'' b md = Inr m) (\<lambda>_ _. True) w"
proof -
  let ?Q = "\<lambda>m w'. \<exists>p b md. resolves E D (dk_tree D w') rel = Some p \<and> follow (dk_tree D w') p = Some (File b)
       \<and> dk_encode D content = Inr b \<and> file_content E D rel content ''utf-8'' b md = Inr m"
  have rest: "wp (mkdir D (butlast p) True) (\<lambda>_. wp (write_content D rel p content ''utf-8'')
        (\<lambda>b. wp (stat D p) (\<lambda>r. wp (case r of (_, md) \<Rightarrow> lift (file_content E D rel content ''utf-8'' b md)) ?Q (\<lambda>_ _. True)) (\<lambda>_ _. True))
        (\<lambda>_ _. True)) (\<lambda>_ _. True) w"
    if r: "resolves E D (dk_tree D w) rel = Some p" for p
  proof -
    have c: "canonical t p" "proper p" if "link_at t = link_at (dk_tree D w)" for t
      using resolves_canonical [OF cwd r] by (simp_all add: canonical_link_at that)
    have stat: "wp (stat D p) (\<lambda>r. wp (case r of (_, md) \<Rightarrow> lift (file_content E D rel content ''utf-8'' b md)) ?Q (\<lambda>_ _. True)) (\<lambda>_ _. True) w2"
      if "link_at (dk_tree D w2) = link_at (dk_tree D w)" "dk_encode D content = Inr b" "follow (dk_tree D w2) p = Some (File b)" for b w2
      by (rule wp_mono [OF wp_stat]) (use that resolves_links [OF r that(1)] in \<open>auto split: sum.split\<close>)
    show ?thesis
    proof (rule wp_mono [OF wp_mkdir], goal_cases)
      case (1 _ w1)
      have "canonical (dk_tree D w1) p" "proper p" by (rule c, rule 1)+
      then show ?case
      proof (rule wp_mono [OF wp_write_content], goal_cases)
        case (1 b w2)
        show ?case by (rule stat) (use 1 \<open>link_at (dk_tree D w1) = _\<close> in simp_all)
      qed simp
    qed simp
  qed
  have "wp (validate_and_resolve_path E D rel) (\<lambda>p. wp (mkdir D (butlast p) True) (\<lambda>_. wp (write_content D rel p content ''utf-8'')
        (\<lambda>b. wp (stat D p) (\<lambda>r. wp (case r of (_, md) \<Rightarrow> lift (file_content E D rel content ''utf-8'' b md)) ?Q (\<lambda>_ _. True)) (\<lambda>_ _. True))
        (\<lambda>_ _. True)) (\<lambda>_ _. True)) (\<lambda>_ _. True) w"
    by (rule wp_mono [OF wp_validate_resolves]) (use rest in auto)
  then show ?thesis unfolding write_file_def by simp
qed

lemma file_content_fields: "file_content E D rel content enc b md = Inr m \<Longrightarrow>
    m ''content'' = Some (PStr content) \<and> m ''encoding'' = Some (PStr enc) \<and> m ''etag'' = Some (PStr (dk_md5 D b))"
  unfolding file_content_def by (auto intro: validate_str simp: str_fields_def)

lemma wp_read_content:
  assumes "follow (dk_tree D w) p = Some (File b)" and "dk_encode D content = Inr b" and "CHR 0x0D \<notin> set content"
  shows "wp (read_content D rel p) (\<lambda>r _. r = (''utf-8'', content, b)) (\<lambda>_ _. True) w"
proof -
  have fault: "wp (dk_fault D) (\<lambda>_ w'. dk_tree D w' = dk_tree D w) (\<lambda>x _. is_os_error x) w"
    by (rule wp_mono [OF wp_conj [OF wp_fault, of "\<lambda>_ _. True" "\<lambda>x _. is_os_error x"]])
      (auto simp: wp_def split: prod.splits sum.splits dest: fault_os)
  then have "wp (read_text D p) (\<lambda>s _. s = content) (\<lambda>x _. is_os_error x) w"
    unfolding read_text_def read_bytes_def kind_of_def wp_bind wp_then wp_read
    by (rule wp_mono) (simp_all add: assms(1) codec [OF assms(2)] universal_newlines_id [OF assms(3)])
  then show ?thesis
    unfolding read_content_def wp_catch wp_bind wp_lift
    by (rule wp_mono) (auto simp: assms(2) is_os_error_def)
qed

lemma wp_read_file:
  assumes r: "resolves E D (dk_tree D w) rel = Some p" and f: "follow (dk_tree D w) p = Some (File b)"
    and content: "dk_encode D content = Inr b" "CHR 0x0D \<notin> set content"
  shows "wp (read_file E D rel) (\<lambda>m _. \<exists>md. file_content E D rel content ''utf-8'' b md = Inr m) (\<lambda>_ _. True) w"
proof -
  let ?Q = "\<lambda>m _. \<exists>md. file_content E D rel content ''utf-8'' b md = Inr m"
  let ?T = "\<lambda>w'. dk_tree D w' = dk_tree D w"
  have reading: "wp (path_exists D p) (\<lambda>_. ?T) (\<lambda>_ _. True) w1" "wp (is_file D p) (\<lambda>_. ?T) (\<lambda>_ _. True) w1"
    "wp (stat D p) (\<lambda>_. ?T) (\<lambda>_ _. True) w1" if "?T w1" for w1
    by (rule wp_mono [OF stays_wp [OF stays_reading(3)]] wp_mono [OF stays_wp [OF stays_reading(5)]]
      wp_mono [OF stays_wp [OF stays_reading2(1)]], use that in auto)+
  have content': "wp (read_content D rel p) (\<lambda>r. wp (case r of (enc, c, b) \<Rightarrow> lift (file_content E D rel c enc b md)) ?Q (\<lambda>_ _. True))
      (\<lambda>_ _. True) w1" if "?T w1" for w1 md
    by (rule wp_mono [OF wp_read_content]) (use that f content in \<open>auto split: sum.split\<close>)
  show ?thesis
    unfolding read_file_def wp_bind
  proof (rule wp_mono [OF wp_validate_resolves], goal_cases)
    case (1 q w1)
    then have q: "q = p" "w1 = w" using r by auto
    show ?case
      unfolding q wp_bind
      by (rule wp_mono [OF reading(1)]; (simp; fail)?) (auto intro!: wp_mono [OF reading(2)] wp_mono [OF reading(3)] content' simp del: wp_prod)
  qed simp
qed

end

section \<open>A disk in memory\<close>

record disk_mem = mem +
  dm_tree :: tree

definition ascii :: "string \<Rightarrow> bool" where
  "ascii s \<longleftrightarrow> list_all (\<lambda>c. of_char c < (128 :: nat)) s"

definition mem_disk :: "'z disk_mem_scheme disk" where
  "mem_disk = \<lparr>
     dk_tree = dm_tree,
     dk_set_tree = (\<lambda>t w. w\<lparr>dm_tree := t\<rparr>),
     dk_fault = py_catch mem_fault (\<lambda>_. raise (os_error ''OSError'')),
     dk_progress = (\<lambda>_. 1),
     dk_cwd = [],
     dk_modified = (\<lambda>_ _. ''today''),
     dk_decode = (\<lambda>b. if ascii b then Some b else None),
     dk_encode = (\<lambda>s. if ascii s then Inr s else Inl (AppError ''UnicodeEncodeError'' ''utf-8'')),
     dk_b64decode = Inr,
     dk_b64encode = id,
     dk_md5 = id\<rparr>"

interpretation mem_disk: workspace "mem_disk :: 'z disk_mem_scheme disk" mem_env
proof -
  have set: "dk_tree mem_disk (dk_set_tree mem_disk t w) = t" for t and w :: "'z disk_mem_scheme"
    by (simp add: mem_disk_def)
  have fault: "keeps (dk_tree mem_disk) (dk_fault (mem_disk :: 'z disk_mem_scheme disk))"
    by (auto simp: keeps_iff mem_disk_def mem_fault_def py_run_defs split: list.splits)
  have os: "is_os_error x" if "dk_fault mem_disk w = (Inl x, w')" for x and w w' :: "'z disk_mem_scheme"
    using that by (auto simp: mem_disk_def mem_fault_def py_run_defs os_error_def is_os_error_def split: list.splits if_splits)
  have codec: "dk_decode mem_disk b = Some s" if "dk_encode (mem_disk :: 'z disk_mem_scheme disk) s = Inr b" for s b
    using that by (auto simp: mem_disk_def split: if_splits)
  show "workspace (mem_disk :: 'z disk_mem_scheme disk) mem_env"
    by (intro workspace.intro disk_laws.intro workspace_axioms.intro mem.table_sdk_axioms) (fact set fault os codec)+
qed

text \<open>Patterns that find every file, and expressions that are the text to look for.\<close>

definition mem_search :: "'z disk_mem_scheme search_lib" where
  "mem_search = \<lparr>
     sl_glob = (\<lambda>root _ w. (Inr (map fst (filter (\<lambda>(p, _). prefix root p) (dm_tree w)), None), w)),
     sl_compile = (\<lambda>_ _ query. Inr (\<lambda>s. filter (\<lambda>i. startswith (drop i s) query) [0..<length s])),
     sl_decode = id,
     sl_completed = (\<lambda>_ ps. ps),
     sl_time = ret 0\<rparr>"

text \<open>A workspace with a link that leads out of it.\<close>

definition disk_world :: disk_mem where
  "disk_world = \<lparr>mem_rows = [], mem_clock = 0, mem_ids = 0, mem_faults = [], mem_files = [], mem_users = Map.empty, mem_orgs = Map.empty,
     dm_tree = [([''ws''], Dir), ([''ws'', ''out''], Link ''/etc''), ([''ws'', ''docs''], Link ''notes''), ([''etc''], Dir), ([''etc'', ''passwd''], File ''root'')]\<rparr>"

lemma disk_world_base:
  "base_at mem_env mem_disk (dk_tree mem_disk disk_world) = Some [''ws'']"
  "dirs_above [''ws''] (outside_of [''ws''] (dk_tree mem_disk disk_world))"
  by code_simp (auto simp: dirs_above_def outside_of_def node_at_def strict_prefix_def prefix_Cons)

section \<open>Properties\<close>






definition write_example :: "(exn + model) \<times> disk_mem" where
  "write_example = write_file mem_env mem_disk ''docs/a.txt'' ''hello'' ''utf-8'' disk_world"


text \<open>
  Every hit a search answers is a place where the expression matches a line of a file, the hits are at most as
  many as were asked for, exactly as many when the answer says it was cut, and searching changes nothing.
\<close>

theorem search_hits_true:
  assumes "disk_laws D" and "\<And>r p t. stays (\<lambda>w. dk_tree D w = t) (sl_glob S r p)" and "\<And>t. stays (\<lambda>w. dk_tree D w = t) (sl_time S)"
    and "search_files E D S q root w = (Inr r, w')"
  shows "(\<forall>h \<in> set (sp_results r). true_hit S q (dk_tree D w) h) \<and> length (sp_results r) \<le> sq_max_results q
    \<and> sp_total_matches r = length (sp_results r) \<and> (sp_truncated r \<longrightarrow> length (sp_results r) = sq_max_results q)
    \<and> dk_tree D w' = dk_tree D w"
  using wp_Inr [OF disk_laws.wp_search_files [OF assms(1-3)] assms(4)] by simp

definition search_example :: "search_request" where
  "search_example = \<lparr>sq_query = ''l'', sq_case_sensitive = True, sq_regex = False, sq_file_pattern = None, sq_max_results = 1\<rparr>"

lemma search_hits_true_witness:
  "case search_files mem_env mem_disk mem_search search_example ''notes'' (snd write_example) of
     (Inr r, _) \<Rightarrow> map sh_column (sp_results r) = [2] \<and> sp_truncated r
       \<and> (\<forall>h \<in> set (sp_results r). true_hit (mem_search :: disk_mem search_lib) search_example (dm_tree (snd write_example)) h)
   | (Inl _, _) \<Rightarrow> False"
proof -
  let ?run = "search_files mem_env mem_disk mem_search search_example ''notes'' (snd write_example)"
  have glob: "stays (\<lambda>w. dk_tree mem_disk w = t) (sl_glob (mem_search :: disk_mem search_lib) r p)"
    and clock: "stays (\<lambda>w. dk_tree mem_disk w = t) (sl_time (mem_search :: disk_mem search_lib))" for r p t
    by (simp_all add: mem_search_def stays_def py_run_defs)
  have "isl (fst ?run) = False" by code_simp
  then obtain r where run: "?run = (Inr r, snd ?run)" by (cases ?run; cases "fst ?run") auto
  have "map_sum id (\<lambda>r. (map sh_column (sp_results r), sp_truncated r)) (fst ?run) = Inr ([2], True)" by code_simp
  then have "map sh_column (sp_results r) = [2]" "sp_truncated r" by (subst (asm) run, simp)+
  moreover have "dk_tree mem_disk (snd write_example) = dm_tree (snd write_example)" by (simp add: mem_disk_def)
  ultimately show ?thesis
    using search_hits_true [OF mem_disk.disk_laws_axioms glob clock run] by (subst run) simp
qed


end
