(* ===== verification/Organization_Handlers.thy ===== *)
theory Organization_Handlers
  imports Secret_Handlers Schedules
begin

text \<open>
  \<open>shared/handlers/organizations_handlers.py\<close> with the request models of \<open>shared/models.py\<close>, and what workflows
  may do, \<open>bifrost/organizations.py\<close>. A request body is what \<open>req.get_json()\<close> answers, as keyword arguments;
  a response is a status and the value its body is written from.
\<close>

section \<open>Requests and responses\<close>

definition opt_str :: "pyval \<Rightarrow> string option" where
  "opt_str v = (case v of PStr s \<Rightarrow> Some s | _ \<Rightarrow> None)"

definition opt_bool :: "pyval \<Rightarrow> bool option" where
  "opt_bool v = (case v of PBool b \<Rightarrow> Some b | _ \<Rightarrow> None)"

text \<open>A validator that raises \<open>ValueError\<close> makes pydantic raise \<open>ValidationError\<close>.\<close>

definition validation_error :: "string \<Rightarrow> exn" where
  "validation_error s = AppError ''ValidationError'' s"

definition is_validation_error :: "exn \<Rightarrow> bool" where
  "is_validation_error x = (case x of AppError c _ \<Rightarrow> c = ''ValidationError'' | _ \<Rightarrow> False)"

fun exn_name :: "exn \<Rightarrow> string" where
  "exn_name ResourceExistsError = ''ResourceExistsError''"
| "exn_name ResourceNotFoundError = ''ResourceNotFoundError''"
| "exn_name ResourceModifiedError = ''ResourceModifiedError''"
| "exn_name (ServiceError _) = ''HttpResponseError''"
| "exn_name (ValueError _) = ''ValueError''"
| "exn_name (PermissionError _) = ''PermissionError''"
| "exn_name (KeyError _) = ''KeyError''"
| "exn_name (TypeError _) = ''TypeError''"
| "exn_name (AttributeError _) = ''AttributeError''"
| "exn_name IndexError = ''IndexError''"
| "exn_name (AppError c _) = c"

definition validate_domain :: "string option \<Rightarrow> exn + string option" where
  "validate_domain v = (case v of
     None \<Rightarrow> Inr None
   | Some s \<Rightarrow> let d = lower (strip s) in
       if CHR ''@'' \<in> set d then Inl (validation_error ''Domain should not include @ symbol'')
       else if d = [] \<or> CHR ''.'' \<notin> set d then Inl (validation_error ''Domain must be a valid format'')
       else Inr (Some d))"

definition organization_request :: "'w env \<Rightarrow> entity \<Rightarrow> exn + create_organization_request" where
  "organization_request E kw = ebind (env_validate E ''CreateOrganizationRequest'' kw) (\<lambda>m.
     map_sum id (\<lambda>d. \<lparr>cor_name = fstr E (dget0 m ''name''), cor_domain = d\<rparr>) (validate_domain (opt_str (dget0 m ''domain''))))"

definition organization_updates :: "'w env \<Rightarrow> entity \<Rightarrow> exn + update_organization_request" where
  "organization_updates E kw = ebind (env_validate E ''UpdateOrganizationRequest'' kw) (\<lambda>m.
     map_sum id (\<lambda>d. \<lparr>uor_name = opt_str (dget0 m ''name''), uor_domain = d, uor_is_active = opt_bool (dget0 m ''isActive'')\<rparr>)
       (validate_domain (opt_str (dget0 m ''domain''))))"

text \<open>\<open>model_dump(mode="json")\<close>: the fields in their order.\<close>

definition fields_json :: "string list \<Rightarrow> model \<Rightarrow> pyval" where
  "fields_json fs m = PDict (map (\<lambda>f. (f, dget0 m f)) fs)"

definition organization_json :: "model \<Rightarrow> pyval" where
  "organization_json = fields_json [''id'', ''name'', ''domain'', ''isActive'', ''createdAt'', ''createdBy'', ''updatedAt'']"

text \<open>\<open>context.name or context.user_id\<close>.\<close>

definition display_name :: "exec_context \<Rightarrow> string" where
  "display_name ctx = (if ctx_name ctx = [] then ctx_user_id ctx else ctx_name ctx)"

section \<open>Logic\<close>

definition list_organizations_logic :: "'w env \<Rightarrow> exec_context \<Rightarrow> ('w, model list) py" where
  "list_organizations_logic E ctx = py_bind (list_organizations E (organization_repo None) True) (\<lambda>orgs.
     ret (sort_key (\<lambda>o'. fstr E (dget0 o' ''name'')) orgs))"

text \<open>\<open>is_active\<close> is not used.\<close>

definition create_organization_logic :: "'w env \<Rightarrow> exec_context \<Rightarrow> string \<Rightarrow> string option \<Rightarrow> bool \<Rightarrow> ('w, model) py" where
  "create_organization_logic E ctx name domain is_active =
     py_bind (lift (organization_request E [''name'' \<mapsto> PStr name, ''domain'' \<mapsto> of_opt domain])) (\<lambda>request.
     py_bind (create_organization E (organization_repo None) request (ctx_user_id ctx)) (\<lambda>org.
     py_then (log_organization_event E Create (fstr E (dget0 org ''id'')) (fstr E (dget0 org ''name'')) (ctx_user_id ctx)
         (display_name ctx) [])
       (ret org)))"

definition get_organization_logic :: "'w env \<Rightarrow> exec_context \<Rightarrow> string \<Rightarrow> ('w, model option) py" where
  "get_organization_logic E ctx org_id = get_organization E (organization_repo None) org_id"

definition update_organization_logic :: "'w env \<Rightarrow> exec_context \<Rightarrow> string \<Rightarrow> entity \<Rightarrow> ('w, model) py" where
  "update_organization_logic E ctx org_id updates =
     py_bind (lift (organization_updates E updates)) (\<lambda>request.
     py_bind (update_organization E (organization_repo None) org_id request) (\<lambda>org.
     py_then (log_organization_event E Update (fstr E (dget0 org ''id'')) (fstr E (dget0 org ''name'')) (ctx_user_id ctx)
         (display_name ctx) [])
       (ret org)))"

definition delete_organization_logic :: "'w env \<Rightarrow> exec_context \<Rightarrow> string \<Rightarrow> ('w, bool) py" where
  "delete_organization_logic E ctx org_id =
     py_bind (delete_organization E (organization_repo None) org_id) (\<lambda>success.
     if success then py_then (log_organization_event E Delete org_id org_id (ctx_user_id ctx) (display_name ctx) []) (ret True)
     else ret False)"

section \<open>Handlers\<close>

definition internal_error :: "string \<Rightarrow> http_response" where
  "internal_error message = error_response 500 ''InternalServerError'' message"

definition invalid_request :: http_response where
  "invalid_request = error_response 400 ''ValidationError'' ''Invalid request data''"

definition log_failure :: "'w env \<Rightarrow> exec_context \<Rightarrow> string \<Rightarrow> (string \<times> pyval) list \<Rightarrow> exn \<Rightarrow> ('w, string) py" where
  "log_failure E ctx message ds x = system_log E ''organization'' ''error'' (message @ '': '' @ exn_msg x) (ctx_user_id ctx)
     (Some (display_name ctx)) (PDict (ds @ [(''error'', PStr (exn_msg x)), (''error_type'', PStr (exn_name x))]))"

definition list_organizations_handler :: "'w env \<Rightarrow> exec_context \<Rightarrow> ('w, http_response) py" where
  "list_organizations_handler E ctx = py_catch
     (py_bind (list_organizations_logic E ctx) (\<lambda>orgs. ret (200, PList (map organization_json orgs))))
     (\<lambda>_. ret (internal_error ''Failed to list organizations''))"

definition create_organization_handler :: "'w env \<Rightarrow> exec_context \<Rightarrow> exn + entity \<Rightarrow> ('w, http_response) py" where
  "create_organization_handler E ctx body = py_catch
     (py_bind (lift (ebind body (organization_request E))) (\<lambda>r.
      py_bind (create_organization_logic E ctx (cor_name r) (cor_domain r) True) (\<lambda>org. ret (201, organization_json org))))
     (\<lambda>x. if is_validation_error x then ret invalid_request
       else case x of ValueError _ \<Rightarrow> ret (error_response 400 ''BadRequest'' ''Invalid JSON in request body'')
       | _ \<Rightarrow> py_then (log_failure E ctx ''Failed to create organization'' [] x)
           (ret (internal_error ''Failed to create organization'')))"

definition get_organization_handler :: "'w env \<Rightarrow> exec_context \<Rightarrow> string \<Rightarrow> ('w, http_response) py" where
  "get_organization_handler E ctx org_id = py_catch
     (py_bind (get_organization_logic E ctx org_id) (\<lambda>org. case org of
        None \<Rightarrow> ret (error_response 404 ''NotFound'' ''Organization not found'')
      | Some m \<Rightarrow> ret (200, organization_json m)))
     (\<lambda>_. ret (internal_error ''Failed to retrieve organization''))"

text \<open>\<open>model_dump(exclude_unset=True)\<close>: the fields that were given.\<close>

definition given_updates :: "entity \<Rightarrow> update_organization_request \<Rightarrow> entity" where
  "given_updates kw r = [''name'' \<mapsto> of_opt (uor_name r), ''domain'' \<mapsto> of_opt (uor_domain r),
     ''isActive'' \<mapsto> (case uor_is_active r of None \<Rightarrow> PNone | Some b \<Rightarrow> PBool b)] |` dom kw"

definition update_organization_handler :: "'w env \<Rightarrow> exec_context \<Rightarrow> string \<Rightarrow> exn + entity \<Rightarrow> ('w, http_response) py" where
  "update_organization_handler E ctx org_id body = py_catch
     (py_bind (lift (ebind body (\<lambda>kw. map_sum id (given_updates kw) (organization_updates E kw)))) (\<lambda>updates.
      py_bind (update_organization_logic E ctx org_id updates) (\<lambda>org. ret (200, organization_json org))))
     (\<lambda>x. if is_validation_error x then ret invalid_request
       else py_then (log_failure E ctx (''Failed to update organization '' @ org_id) [(''org_id'', PStr org_id)] x)
         (ret (internal_error ''Failed to update organization'')))"

definition delete_organization_handler :: "'w env \<Rightarrow> exec_context \<Rightarrow> string \<Rightarrow> ('w, http_response) py" where
  "delete_organization_handler E ctx org_id = py_catch
     (py_bind (delete_organization_logic E ctx org_id) (\<lambda>success.
        ret (if \<not> success then error_response 404 ''NotFound'' ''Organization not found'' else (204, PNone))))
     (\<lambda>x. py_then (log_failure E ctx (''Failed to delete organization '' @ org_id) [(''org_id'', PStr org_id)] x)
       (ret (internal_error ''Failed to delete organization'')))"

section \<open>Organizations of workflows\<close>

definition organizations_create :: "'w env \<Rightarrow> exec_context option \<Rightarrow> string \<Rightarrow> string option \<Rightarrow> bool \<Rightarrow> ('w, model) py" where
  "organizations_create E cv name domain is_active = py_bind (lift (require_admin cv)) (\<lambda>ctx.
     create_organization_logic E ctx name domain is_active)"

definition organizations_get :: "'w env \<Rightarrow> exec_context option \<Rightarrow> string \<Rightarrow> ('w, model) py" where
  "organizations_get E cv org_id = py_bind (lift (get_execution_context cv)) (\<lambda>ctx.
     py_bind (get_organization_logic E ctx org_id) (\<lambda>org. case org of
       None \<Rightarrow> raise (ValueError (''Organization not found: '' @ org_id)) | Some m \<Rightarrow> ret m))"

definition organizations_list :: "'w env \<Rightarrow> exec_context option \<Rightarrow> ('w, model list) py" where
  "organizations_list E cv = py_bind (lift (require_admin cv)) (list_organizations_logic E)"

definition organizations_update :: "'w env \<Rightarrow> exec_context option \<Rightarrow> string \<Rightarrow> entity \<Rightarrow> ('w, model) py" where
  "organizations_update E cv org_id updates = py_bind (lift (require_admin cv)) (\<lambda>ctx. update_organization_logic E ctx org_id updates)"

definition organizations_delete :: "'w env \<Rightarrow> exec_context option \<Rightarrow> string \<Rightarrow> ('w, bool) py" where
  "organizations_delete E cv org_id = py_bind (lift (require_admin cv)) (\<lambda>ctx. delete_organization_logic E ctx org_id)"

end
