(* ===== verification/OAuth_Provider.thy ===== *)
theory OAuth_Provider
  imports Key_Vault
begin

text \<open>
  \<open>shared/services/oauth_provider.py\<close>: requests for tokens, with retries. The HTTP client is the record
  \<open>oauth_http\<close>: a post answers its status and JSON body or raises, and an exception is of one of the classes the
  code tells apart. A result is the flag of success and a dictionary.
\<close>

section \<open>Requests\<close>

datatype post_error = Client_Error | Timed_Out | Unexpected

record 'w oauth_http =
  oh_post :: "string \<Rightarrow> (string \<times> string) list \<Rightarrow> ('w, int \<times> pyval) py"
  oh_error :: "exn \<Rightarrow> post_error"
  oh_sleep :: "int \<Rightarrow> 'w \<Rightarrow> 'w"

type_synonym token_result = "bool \<times> entity"

definition max_retries :: nat where
  "max_retries = 3"

definition py_or :: "pyval \<Rightarrow> pyval \<Rightarrow> pyval" where
  "py_or a b = (if truthy a then a else b)"

definition token_expiry :: "'w env \<Rightarrow> pyval \<Rightarrow> ('w, datetime) py" where
  "token_expiry E expires_in = (if truthy expires_in
     then py_bind (utcnow E) (\<lambda>now. py_bind (lift (int_of expires_in)) (\<lambda>n. ret (dt_add now (n * 1000000))))
     else py_bind (utcnow E) (\<lambda>now. ret (dt_add now 3600000000)))"

definition parse_token_response :: "'w env \<Rightarrow> pyval \<Rightarrow> ('w, entity) py" where
  "parse_token_response E d =
     py_bind (lift (pget d ''access_token'' PNone)) (\<lambda>access_token.
     py_bind (lift (pget d ''token_type'' (PStr ''Bearer''))) (\<lambda>token_type.
     py_bind (lift (pget d ''refresh_token'' PNone)) (\<lambda>refresh_token.
     py_bind (lift (pget d ''scope'' (PStr []))) (\<lambda>scope.
     py_bind (lift (pget d ''expires_in'' PNone)) (\<lambda>expires_in.
     py_bind (token_expiry E expires_in) (\<lambda>expires_at.
       ret [''access_token'' \<mapsto> access_token, ''token_type'' \<mapsto> token_type, ''refresh_token'' \<mapsto> refresh_token,
            ''scope'' \<mapsto> scope, ''expires_at'' \<mapsto> PDate expires_at]))))))"

datatype attempt_outcome = Settled token_result | Server_Failed int

definition token_attempt :: "'w env \<Rightarrow> 'w oauth_http \<Rightarrow> string \<Rightarrow> (string \<times> string) list \<Rightarrow> ('w, attempt_outcome) py" where
  "token_attempt E H token_url payload = py_bind (oh_post H token_url payload) (\<lambda>(status, d).
     if 200 \<le> status \<and> status < 300 then py_bind (parse_token_response E d) (\<lambda>r. ret (Settled (True, r)))
     else if 400 \<le> status \<and> status < 500 then
       py_bind (lift (pget d ''error_description'' PNone)) (\<lambda>description.
       py_bind (lift (pget d ''error'' PNone)) (\<lambda>err.
       py_bind (lift (pget d ''error'' (PStr ''client_error''))) (\<lambda>err_or.
         ret (Settled (False, [''error'' \<mapsto> err_or,
           ''error_description'' \<mapsto> py_or description (py_or err (PStr (''HTTP '' @ str_int status))), ''status_code'' \<mapsto> PInt status])))))
     else ret (Server_Failed status))"

text \<open>The seconds to wait before the next attempt: none after the last.\<close>

definition wait_time :: "nat \<Rightarrow> int option" where
  "wait_time attempt = (if int attempt < int max_retries - 1 then Some (2 ^ attempt) else None)"

definition back_off :: "'w oauth_http \<Rightarrow> nat \<Rightarrow> ('w, unit) py" where
  "back_off H attempt = (case wait_time attempt of None \<Rightarrow> ret () | Some n \<Rightarrow> py_modify (oh_sleep H n))"

definition unexpected_result :: "exn \<Rightarrow> token_result" where
  "unexpected_result x = (False, [''error'' \<mapsto> PStr ''unexpected_error'', ''error_description'' \<mapsto> PStr (exn_msg x)])"

definition exhausted_result :: "string \<Rightarrow> token_result" where
  "exhausted_result last_error = (False, [''error'' \<mapsto> PStr ''max_retries_exceeded'',
     ''error_description'' \<mapsto> PStr (''Failed after '' @ str_nat max_retries @ '' attempts: '' @ last_error)])"

text \<open>The attempts that are left, from the given one on.\<close>

fun token_attempts :: "'w env \<Rightarrow> 'w oauth_http \<Rightarrow> string \<Rightarrow> (string \<times> string) list \<Rightarrow> nat list \<Rightarrow> string \<Rightarrow> ('w, token_result) py" where
  "token_attempts E H token_url payload [] last_error = ret (exhausted_result last_error)"
| "token_attempts E H token_url payload (attempt # rest) last_error =
     py_bind (py_attempt (token_attempt E H token_url payload)) (\<lambda>r. case r of
       Inr (Settled res) \<Rightarrow> ret res
     | Inr (Server_Failed status) \<Rightarrow> py_then (back_off H attempt)
         (token_attempts E H token_url payload rest (''Server error: HTTP '' @ str_int status))
     | Inl x \<Rightarrow> (case oh_error H x of
           Client_Error \<Rightarrow> py_then (back_off H attempt) (token_attempts E H token_url payload rest (exn_msg x))
         | Timed_Out \<Rightarrow> py_then (back_off H attempt) (token_attempts E H token_url payload rest ''Request timed out'')
         | Unexpected \<Rightarrow> ret (unexpected_result x)))"

definition make_token_request :: "'w env \<Rightarrow> 'w oauth_http \<Rightarrow> string \<Rightarrow> (string \<times> string) list \<Rightarrow> ('w, token_result) py" where
  "make_token_request E H token_url payload = token_attempts E H token_url payload [0..<max_retries] ''None''"

section \<open>The three flows\<close>

definition with_secret :: "string option \<Rightarrow> (string \<times> string) list" where
  "with_secret client_secret = (if opt_truthy client_secret then [(''client_secret'', str_or client_secret [])] else [])"

definition exchange_code_for_token :: "'w env \<Rightarrow> 'w oauth_http \<Rightarrow> string \<Rightarrow> string \<Rightarrow> string \<Rightarrow> string option \<Rightarrow> string
    \<Rightarrow> ('w, token_result) py" where
  "exchange_code_for_token E H token_url code client_id client_secret redirect_uri = make_token_request E H token_url
     ([(''grant_type'', ''authorization_code''), (''code'', code), (''client_id'', client_id), (''redirect_uri'', redirect_uri)]
      @ with_secret client_secret)"

definition refresh_access_token :: "'w env \<Rightarrow> 'w oauth_http \<Rightarrow> string \<Rightarrow> string \<Rightarrow> string \<Rightarrow> string option \<Rightarrow> ('w, token_result) py" where
  "refresh_access_token E H token_url refresh client_id client_secret = make_token_request E H token_url
     ([(''grant_type'', ''refresh_token''), (''refresh_token'', refresh), (''client_id'', client_id)] @ with_secret client_secret)"

definition get_client_credentials_token :: "'w env \<Rightarrow> 'w oauth_http \<Rightarrow> string \<Rightarrow> string \<Rightarrow> string \<Rightarrow> string \<Rightarrow> ('w, token_result) py" where
  "get_client_credentials_token E H token_url client_id client_secret scopes = make_token_request E H token_url
     ([(''grant_type'', ''client_credentials''), (''client_id'', client_id), (''client_secret'', client_secret)]
      @ (if scopes \<noteq> [] then [(''scope'', replace_all '','' '' '' scopes)] else []))"

section \<open>How long a request can take\<close>

text \<open>Posts are counted and seconds of waiting added up; the clock changes neither.\<close>

locale token_endpoint =
  fixes E :: "'w env" and H :: "'w oauth_http" and posts :: "'w \<Rightarrow> nat" and slept :: "'w \<Rightarrow> int"
  assumes post_counts: "posts (snd (oh_post H u p w)) = Suc (posts w)" "slept (snd (oh_post H u p w)) = slept w"
    and sleep_adds: "posts (oh_sleep H n w) = posts w" "slept (oh_sleep H n w) = slept w + n"
    and clock_keeps: "posts (snd (env_utcnow E w)) = posts w" "slept (snd (env_utcnow E w)) = slept w"
begin

lemma stays_utcnow [stays_intros]: "stays (\<lambda>w. posts w = n \<and> slept w = t) (utcnow E)"
  using clock_keeps by (auto simp: stays_def utcnow_def split: prod.splits) (metis snd_conv)+

lemma stays_parse: "stays (\<lambda>w. posts w = n \<and> slept w = t) (parse_token_response E d)"
  unfolding parse_token_response_def token_expiry_def by (intro stays_intros)

definition counted :: "nat \<Rightarrow> int \<Rightarrow> nat \<Rightarrow> int \<Rightarrow> 'w \<Rightarrow> 'w \<Rightarrow> bool" where
  "counted n t N T w w' \<longleftrightarrow> posts w + n \<le> posts w' \<and> posts w' \<le> posts w + N \<and> slept w + t \<le> slept w' \<and> slept w' \<le> slept w + T"

lemma wp_attempt_counts:
  "wp (token_attempt E H url payload) (\<lambda>_. counted 1 0 1 0 w) (\<lambda>_. counted 1 0 1 0 w) w"
proof -
  have post: "wp (oh_post H url payload) (\<lambda>_ w'. posts w' = Suc (posts w) \<and> slept w' = slept w)
      (\<lambda>_ w'. posts w' = Suc (posts w) \<and> slept w' = slept w) w"
    using post_counts [of url payload w] by (auto simp: wp_def split: prod.splits sum.splits)
  have rest: "stays (\<lambda>w'. posts w' = Suc (posts w) \<and> slept w' = slept w)
      (case sd of (status, d) \<Rightarrow> if 200 \<le> status \<and> status < 300 then py_bind (parse_token_response E d) (\<lambda>r. ret (Settled (True, r)))
     else if 400 \<le> status \<and> status < 500 then
       py_bind (lift (pget d ''error_description'' PNone)) (\<lambda>description.
       py_bind (lift (pget d ''error'' PNone)) (\<lambda>err.
       py_bind (lift (pget d ''error'' (PStr ''client_error''))) (\<lambda>err_or.
         ret (Settled (False, [''error'' \<mapsto> err_or,
           ''error_description'' \<mapsto> py_or description (py_or err (PStr (''HTTP '' @ str_int status))), ''status_code'' \<mapsto> PInt status])))))
     else ret (Server_Failed status))" for sd
    by (cases sd) (simp only: prod.case, intro stays_intros stays_parse)
  show ?thesis
    unfolding token_attempt_def wp_bind
    by (rule wp_mono [OF post], rule wp_mono [OF stays_wp [OF rest]]) (auto simp: counted_def)
qed

definition total_wait :: "nat list \<Rightarrow> int" where
  "total_wait as = sum_list (map (\<lambda>a. case wait_time a of None \<Rightarrow> 0 | Some n \<Rightarrow> n) as)"

lemma wp_back_off:
  assumes "counted n t N T w w'"
  shows "wp (back_off H a) (\<lambda>_. counted n t N (T + total_wait [a]) w) (\<lambda>_ _. False) w'"
proof (cases "wait_time a")
  case (Some n)
  then have "0 \<le> n" by (auto simp: wait_time_def split: if_splits)
  then show ?thesis using assms sleep_adds Some by (auto simp: back_off_def counted_def total_wait_def)
qed (use assms in \<open>auto simp: back_off_def counted_def total_wait_def\<close>)

lemma wait_nonneg: "0 \<le> total_wait as"
  by (induction as) (auto simp: total_wait_def wait_time_def split: option.splits)

lemma wp_token_attempts:
  assumes "as \<noteq> []"
  shows "wp (token_attempts E H url payload as e) (\<lambda>_. counted 1 0 (length as) (total_wait as) w) (\<lambda>_ _. False) w"
  using assms
proof (induction as arbitrary: e w)
  case (Cons a as)
  have here: "counted 1 0 (length (a # as)) (total_wait (a # as)) w w'" if "counted 1 0 1 0 w w'" for w'
    using that wait_nonneg [of "a # as"] by (auto simp: counted_def)
  have again: "wp (py_then (back_off H a) (token_attempts E H url payload as e'))
      (\<lambda>_. counted 1 0 (length (a # as)) (total_wait (a # as)) w) (\<lambda>_ _. False) w'" if "counted 1 0 1 0 w w'" for e' w'
    unfolding wp_then
  proof (rule wp_mono [OF wp_back_off [OF that]], goal_cases)
    case (1 u w1)
    show ?case
    proof (cases "as = []")
      case True
      then show ?thesis using 1 by (auto simp: counted_def total_wait_def)
    next
      case False
      show ?thesis
        by (rule wp_mono [OF Cons.IH [OF False]]) (use 1 in \<open>auto simp: counted_def total_wait_def\<close>)
    qed
  qed
  show ?case
    unfolding token_attempts.simps wp_bind wp_attempt
    by (rule wp_mono [OF wp_attempt_counts])
      (auto split: attempt_outcome.splits post_error.splits intro: here [simplified] again [unfolded wp_then, simplified])
qed simp

lemma wp_make_token_request:
  "wp (make_token_request E H url payload) (\<lambda>_. counted 1 0 3 3 w) (\<lambda>_ _. False) w"
proof -
  have "[0..<max_retries] = [0, 1, 2]" by (simp add: max_retries_def upt_rec)
  then show ?thesis
    unfolding make_token_request_def
    by (simp only:, intro wp_mono [OF wp_token_attempts])
      (auto simp: total_wait_def wait_time_def max_retries_def counted_def)
qed

end

section \<open>A token endpoint in memory\<close>

record http_mem = vault_mem +
  hm_replies :: "(int \<times> pyval) list"
  hm_posts :: nat
  hm_slept :: int

text \<open>Prepared replies in turn, then no connection.\<close>

definition mem_http :: "'z http_mem_scheme oauth_http" where
  "mem_http = \<lparr>
     oh_post = (\<lambda>u p w. let w' = w\<lparr>hm_posts := Suc (hm_posts w)\<rparr> in (case hm_replies w of
        [] \<Rightarrow> (Inl (ServiceError ''Cannot connect to host''), w')
      | r # rs \<Rightarrow> (Inr r, w'\<lparr>hm_replies := rs\<rparr>))),
     oh_error = (\<lambda>x. case x of ServiceError _ \<Rightarrow> Client_Error | _ \<Rightarrow> Unexpected),
     oh_sleep = (\<lambda>n w. w\<lparr>hm_slept := hm_slept w + n\<rparr>)\<rparr>"

interpretation mem_http: token_endpoint mem_env mem_http hm_posts hm_slept
  by unfold_locales (auto simp: mem_http_def mem_env_def Let_def split: list.splits)

section \<open>Properties\<close>


text \<open>Two server errors and no connection after them: three posts, and one and two seconds of waiting.\<close>

definition http_world :: "(int \<times> pyval) list \<Rightarrow> http_mem" where
  "http_world rs = \<lparr>mem_rows = [], mem_clock = 0, mem_ids = 0, mem_faults = [], mem_files = [], mem_users = Map.empty,
     mem_orgs = Map.empty, vm_secrets = [], hm_replies = rs, hm_posts = 0, hm_slept = 0\<rparr>"


end
