(* ===== verification/OAuth_Storage.thy ===== *)
theory OAuth_Storage
  imports OAuth_Provider Middleware
begin

text \<open>
  OAuth connections, \<open>shared/services/oauth_storage_service.py\<close> behind \<open>shared/repositories/oauth.py\<close>: rows
  \<open>oauth:{name}\<close> of \<open>Config\<close> in the partition of the organization, with the client secret and the tokens in the
  key vault under names the row holds. Durations are kept in microseconds.
\<close>

record create_connection_request =
  ccr_connection_name :: string
  ccr_description :: "string option"
  ccr_oauth_flow_type :: string
  ccr_client_id :: string
  ccr_client_secret :: "string option"
  ccr_authorization_url :: "string option"
  ccr_token_url :: string
  ccr_scopes :: string

record update_connection_request =
  ucr_client_id :: "string option"
  ucr_client_secret :: "string option"
  ucr_authorization_url :: "string option"
  ucr_token_url :: "string option"
  ucr_scopes :: "string option"

text \<open>The two validators of \<open>CreateOAuthConnectionRequest\<close>.\<close>

definition convert_empty_strings :: "entity \<Rightarrow> entity" where
  "convert_empty_strings d =
     (let d1 = (if dget0 d ''client_secret'' = PStr [] then d(''client_secret'' \<mapsto> PNone) else d) in
      if dget0 d1 ''authorization_url'' = PStr [] then d1(''authorization_url'' \<mapsto> PNone) else d1)"

definition validate_flow_requirements :: "create_connection_request \<Rightarrow> exn + create_connection_request" where
  "validate_flow_requirements r =
     (if ccr_oauth_flow_type r = ''client_credentials'' then
        (if \<not> opt_truthy (ccr_client_secret r) then Inl (ValueError ''client_secret is required for client_credentials flow'') else Inr r)
      else if ccr_oauth_flow_type r = ''authorization_code'' then
        (if \<not> opt_truthy (ccr_authorization_url r) then Inl (ValueError ''authorization_url is required for authorization_code flow'')
         else Inr r)
      else Inr r)"

definition oauth_storage_service :: "'w env \<Rightarrow> exn + table_service" where
  "oauth_storage_service E = async_table_storage_service E ''Config'' None None"

definition oauth_key :: "string \<Rightarrow> string" where
  "oauth_key connection_name = ''oauth:'' @ connection_name"

section \<open>Rows as models\<close>

definition oauth_date :: "'w env \<Rightarrow> pyval \<Rightarrow> datetime option \<Rightarrow> datetime option" where
  "oauth_date E v d = (case v of
     PStr s \<Rightarrow> (if s = [] then d else case env_fromisoformat E (replace_Z s) of Some x \<Rightarrow> Some x | None \<Rightarrow> d)
   | PDate x \<Rightarrow> Some x
   | _ \<Rightarrow> d)"

definition build_connection :: "'w env \<Rightarrow> entity \<Rightarrow> string \<Rightarrow> datetime \<Rightarrow> ('w, model option) py" where
  "build_connection E e rk now = (let
       connection_name = replace_first ''oauth:'' [] rk;
       created_at = oauth_date E (dget0 e ''CreatedAt'') (Some now);
       updated_at = oauth_date E (dget0 e ''UpdatedAt'') created_at;
       expires_at = oauth_date E (dget0 e ''ExpiresAt'') None in
     case dget0 e ''TokenUrl'' of
       PStr token_url \<Rightarrow> if \<not> startswith token_url ''https://'' then ret None
         else (case e ''PartitionKey'' of None \<Rightarrow> raise (KeyError ''PartitionKey'') | Some pk \<Rightarrow>
           py_bind (lift (env_validate E ''OAuthConnection'' [''org_id'' \<mapsto> pk, ''connection_name'' \<mapsto> PStr connection_name,
              ''description'' \<mapsto> dget0 e ''Description'', ''oauth_flow_type'' \<mapsto> dget e ''OAuthFlowType'' (PStr ''authorization_code''),
              ''client_id'' \<mapsto> dget e ''ClientId'' (PStr []), ''client_secret_ref'' \<mapsto> py_or (dget0 e ''ClientSecretRef'') (PStr []),
              ''oauth_response_ref'' \<mapsto> py_or (dget0 e ''OAuthResponseRef'') (PStr []),
              ''authorization_url'' \<mapsto> py_or (dget0 e ''AuthorizationUrl'') PNone, ''token_url'' \<mapsto> PStr token_url,
              ''scopes'' \<mapsto> dget e ''Scopes'' (PStr []),
              ''redirect_uri'' \<mapsto> dget e ''RedirectUri'' (PStr (''/oauth/callback/'' @ connection_name)),
              ''status'' \<mapsto> dget e ''Status'' (PStr ''not_connected''), ''status_message'' \<mapsto> dget0 e ''StatusMessage'',
              ''expires_at'' \<mapsto> of_date_opt expires_at, ''created_at'' \<mapsto> of_date_opt created_at,
              ''created_by'' \<mapsto> dget e ''CreatedBy'' (PStr ''system''), ''updated_at'' \<mapsto> of_date_opt updated_at]))
             (\<lambda>m. ret (Some m)))
     | v \<Rightarrow> if truthy v then raise (AttributeError ''startswith'') else ret None)"

definition entity_to_oauth_connection :: "'w env \<Rightarrow> entity \<Rightarrow> ('w, model option) py" where
  "entity_to_oauth_connection E e = py_catch
     (py_bind (utcnow E) (\<lambda>now. case e ''RowKey'' of
        Some (PStr rk) \<Rightarrow> build_connection E e rk now
      | Some _ \<Rightarrow> raise (AttributeError ''replace'')
      | None \<Rightarrow> raise (KeyError ''RowKey'')))
     (\<lambda>_. ret None)"

section \<open>Reading\<close>

definition get_connection :: "'w env \<Rightarrow> table_service \<Rightarrow> string \<Rightarrow> string \<Rightarrow> ('w, model option) py" where
  "get_connection E s org_id connection_name = py_catch
     (py_bind (get_entity E s org_id (oauth_key connection_name)) (\<lambda>own. case own of
        Some e \<Rightarrow> entity_to_oauth_connection E e
      | None \<Rightarrow> if org_id \<noteq> ''GLOBAL''
          then py_bind (get_entity E s ''GLOBAL'' (oauth_key connection_name)) (\<lambda>glob. case glob of
              Some e \<Rightarrow> entity_to_oauth_connection E e | None \<Rightarrow> ret None)
          else ret None))
     (\<lambda>_. ret None)"

definition oauth_range :: "string \<Rightarrow> clause list" where
  "oauth_range org_id = [(''PartitionKey'', OEq, OStr org_id), (''RowKey'', OGe, OStr ''oauth:''), (''RowKey'', OLt, OStr ''oauth;'')]"

definition somes :: "'a option list \<Rightarrow> 'a list" where
  "somes = List.map_filter id"

text \<open>The connections of a partition; a query that fails ends the listing with what was found before.\<close>

definition partition_connections :: "'w env \<Rightarrow> table_service \<Rightarrow> string \<Rightarrow> ('w, exn + model list) py" where
  "partition_connections E s org_id = py_attempt
     (py_bind (query_entities E s (Some (odata (oauth_range org_id))) None) (\<lambda>es.
      py_bind (py_map (entity_to_oauth_connection E) es) (\<lambda>ms. ret (somes ms))))"

definition list_connections :: "'w env \<Rightarrow> table_service \<Rightarrow> string \<Rightarrow> bool \<Rightarrow> ('w, model list) py" where
  "list_connections E s org_id include_global = py_bind (partition_connections E s org_id) (\<lambda>own. case own of
       Inl _ \<Rightarrow> ret []
     | Inr connections \<Rightarrow> if include_global \<and> org_id \<noteq> ''GLOBAL''
         then py_bind (partition_connections E s ''GLOBAL'') (\<lambda>glob. case glob of
            Inl _ \<Rightarrow> ret connections | Inr others \<Rightarrow> ret (connections @ others))
         else ret connections)"

section \<open>Secrets of connections\<close>

text \<open>
  Storing a value under a name in the vault: a \<open>ValueError\<close>, from a vault that is not configured or a name it does
  not take, is noted only. The answer is the name, if one was made, and whether the value is stored.
\<close>

definition with_vault :: "'w env \<Rightarrow> 'w client_maker \<Rightarrow> ('w keyvault \<Rightarrow> ('w, 'a) py) \<Rightarrow> 'a \<Rightarrow> ('w, 'a) py" where
  "with_vault E mk use skipped = (case keyvault_client E mk None of
     Inl (ValueError _) \<Rightarrow> ret skipped | Inl x \<Rightarrow> raise x | Inr kv \<Rightarrow> use kv)"

definition store_secret :: "'w keyvault \<Rightarrow> string \<Rightarrow> string \<Rightarrow> ('w, bool) py" where
  "store_secret kv ref v = py_catch (py_then (set_secret kv ref v) (ret True))
     (\<lambda>x. case x of ValueError _ \<Rightarrow> ret False | _ \<Rightarrow> raise x)"

text \<open>The reference that is there, or else a new name.\<close>

definition secret_ref_for :: "'w env \<Rightarrow> string \<Rightarrow> string \<Rightarrow> string \<Rightarrow> pyval \<Rightarrow> ('w, string) py" where
  "secret_ref_for E org_id connection_name secret_type existing =
     (if truthy existing then ret (fstr E existing) else generate_oauth_secret_name E org_id connection_name secret_type)"

section \<open>Creating and changing\<close>

definition create_client_secret :: "'w env \<Rightarrow> 'w client_maker \<Rightarrow> string \<Rightarrow> create_connection_request \<Rightarrow> ('w, string option) py" where
  "create_client_secret E mk org_id r =
     (if opt_truthy (ccr_client_secret r) then with_vault E mk (\<lambda>kv.
        py_bind (generate_oauth_secret_name E org_id (ccr_connection_name r) ''client-secret'') (\<lambda>ref.
        py_then (store_secret kv ref (str_or (ccr_client_secret r) [])) (ret (Some ref)))) None
      else ret None)"

definition oauth_entity :: "string \<Rightarrow> create_connection_request \<Rightarrow> string option \<Rightarrow> string \<Rightarrow> string \<Rightarrow> entity" where
  "oauth_entity org_id r client_secret_ref created_by now =
     [''PartitionKey'' \<mapsto> PStr org_id, ''RowKey'' \<mapsto> PStr (oauth_key (ccr_connection_name r)), ''Type'' \<mapsto> PStr ''oauth'',
      ''Description'' \<mapsto> PStr (str_or (ccr_description r) (''OAuth connection: '' @ ccr_connection_name r)),
      ''OAuthFlowType'' \<mapsto> PStr (ccr_oauth_flow_type r), ''ClientId'' \<mapsto> PStr (ccr_client_id r),
      ''ClientSecretRef'' \<mapsto> of_opt client_secret_ref, ''OAuthResponseRef'' \<mapsto> PNone,
      ''AuthorizationUrl'' \<mapsto> of_opt (ccr_authorization_url r), ''TokenUrl'' \<mapsto> PStr (ccr_token_url r),
      ''Scopes'' \<mapsto> PStr (ccr_scopes r), ''RedirectUri'' \<mapsto> PStr (''/oauth/callback/'' @ ccr_connection_name r),
      ''Status'' \<mapsto> PStr ''not_connected'', ''CreatedBy'' \<mapsto> PStr created_by, ''CreatedAt'' \<mapsto> PStr now, ''UpdatedAt'' \<mapsto> PStr now]"

definition create_connection :: "'w env \<Rightarrow> 'w client_maker \<Rightarrow> table_service \<Rightarrow> string \<Rightarrow> create_connection_request \<Rightarrow> string
    \<Rightarrow> ('w, model) py" where
  "create_connection E mk s org_id r created_by = py_bind (utcnow E) (\<lambda>now.
     py_bind (create_client_secret E mk org_id r) (\<lambda>client_secret_ref.
     py_then (insert_entity E s (oauth_entity org_id r client_secret_ref created_by (env_isoformat E now)))
     (lift (env_validate E ''OAuthConnection'' [''org_id'' \<mapsto> PStr org_id, ''connection_name'' \<mapsto> PStr (ccr_connection_name r),
        ''description'' \<mapsto> of_opt (ccr_description r), ''oauth_flow_type'' \<mapsto> PStr (ccr_oauth_flow_type r),
        ''client_id'' \<mapsto> PStr (ccr_client_id r), ''client_secret_ref'' \<mapsto> PStr (str_or client_secret_ref []),
        ''oauth_response_ref'' \<mapsto> PStr [], ''authorization_url'' \<mapsto> of_opt (ccr_authorization_url r),
        ''token_url'' \<mapsto> PStr (ccr_token_url r), ''scopes'' \<mapsto> PStr (ccr_scopes r),
        ''redirect_uri'' \<mapsto> PStr (''/oauth/callback/'' @ ccr_connection_name r), ''status'' \<mapsto> PStr ''not_connected'',
        ''created_by'' \<mapsto> PStr created_by, ''created_at'' \<mapsto> PDate now, ''updated_at'' \<mapsto> PDate now, ''expires_at'' \<mapsto> PNone]))))"

text \<open>\<open>if v is not None: e[k] = v\<close>.\<close>

definition set_given :: "string \<Rightarrow> string option \<Rightarrow> entity \<Rightarrow> entity" where
  "set_given k v e = (case v of None \<Rightarrow> e | Some s \<Rightarrow> e(k \<mapsto> PStr s))"

definition update_client_secret :: "'w env \<Rightarrow> 'w client_maker \<Rightarrow> string \<Rightarrow> string \<Rightarrow> string option \<Rightarrow> entity \<Rightarrow> ('w, entity) py" where
  "update_client_secret E mk org_id connection_name client_secret e = (case client_secret of
     None \<Rightarrow> ret e
   | Some v \<Rightarrow> with_vault E mk (\<lambda>kv. let existing = dget0 e ''ClientSecretRef'' in
       py_bind (secret_ref_for E org_id connection_name ''client-secret'' existing) (\<lambda>ref.
       py_then (store_secret kv ref v) (ret (if truthy existing then e else e(''ClientSecretRef'' \<mapsto> PStr ref))))) e)"

definition update_connection :: "'w env \<Rightarrow> 'w client_maker \<Rightarrow> table_service \<Rightarrow> string \<Rightarrow> string \<Rightarrow> update_connection_request \<Rightarrow> string
    \<Rightarrow> ('w, model option) py" where
  "update_connection E mk s org_id connection_name r updated_by =
     py_bind (get_entity E s org_id (oauth_key connection_name)) (\<lambda>found. case found of
       None \<Rightarrow> ret None
     | Some e \<Rightarrow> let e1 = set_given ''Scopes'' (ucr_scopes r) (set_given ''TokenUrl'' (ucr_token_url r)
            (set_given ''AuthorizationUrl'' (ucr_authorization_url r) (set_given ''ClientId'' (ucr_client_id r) e))) in
         py_bind (update_client_secret E mk org_id connection_name (ucr_client_secret r) e1) (\<lambda>e2.
         let e3 = (if opt_truthy (ucr_client_id r) \<or> opt_truthy (ucr_client_secret r) \<or> opt_truthy (ucr_authorization_url r)
              \<or> opt_truthy (ucr_token_url r) then e2(''Status'' \<mapsto> PStr ''not_connected'') else e2) in
         py_bind (utcnow E) (\<lambda>now. let e4 = e3(''UpdatedAt'' \<mapsto> PStr (env_isoformat E now), ''UpdatedBy'' \<mapsto> PStr updated_by) in
         py_then (upsert_entity E s e4 ''merge'') (entity_to_oauth_connection E e4))))"

definition discard_secret :: "'w env \<Rightarrow> 'w keyvault \<Rightarrow> pyval \<Rightarrow> ('w, unit) py" where
  "discard_secret E kv ref = (if truthy ref then py_catch (py_then (delete_secret kv (fstr E ref)) (ret ())) (\<lambda>_. ret ()) else ret ())"

definition delete_connection :: "'w env \<Rightarrow> 'w client_maker \<Rightarrow> table_service \<Rightarrow> string \<Rightarrow> string \<Rightarrow> ('w, bool) py" where
  "delete_connection E mk s org_id connection_name =
     py_bind (get_entity E s org_id (oauth_key connection_name)) (\<lambda>found. case found of
       None \<Rightarrow> ret False
     | Some e \<Rightarrow> py_then (with_vault E mk (\<lambda>kv. py_then (discard_secret E kv (dget0 e ''ClientSecretRef''))
             (discard_secret E kv (dget0 e ''OAuthResponseRef''))) ())
         (py_then (py_catch (py_then (delete_entity E s org_id (oauth_key connection_name)) (ret ())) (\<lambda>_. ret ()))
           (ret True)))"

definition update_connection_status :: "'w env \<Rightarrow> table_service \<Rightarrow> string \<Rightarrow> string \<Rightarrow> string \<Rightarrow> string option \<Rightarrow> datetime option
    \<Rightarrow> ('w, bool) py" where
  "update_connection_status E s org_id connection_name status status_message expires_at =
     py_bind (get_entity E s org_id (oauth_key connection_name)) (\<lambda>found. case found of
       None \<Rightarrow> ret False
     | Some e \<Rightarrow> let e1 = set_given ''StatusMessage'' status_message (e(''Status'' \<mapsto> PStr status));
           e2 = set_given ''ExpiresAt'' (map_option (env_isoformat E) expires_at) e1 in
         py_bind (utcnow E) (\<lambda>now. py_then (upsert_entity E s (e2(''UpdatedAt'' \<mapsto> PStr (env_isoformat E now))) ''merge'')
           (ret True)))"

section \<open>Tokens\<close>

definition oauth_response :: "'w env \<Rightarrow> pyval \<Rightarrow> pyval \<Rightarrow> datetime \<Rightarrow> pyval \<Rightarrow> pyval" where
  "oauth_response E access_token refresh expires_at token_type = PDict [(''access_token'', access_token),
     (''refresh_token'', refresh), (''token_type'', token_type), (''expires_at'', PStr (env_isoformat E expires_at))]"

text \<open>The row with the name of the stored tokens, or \<open>None\<close> without a vault.\<close>

definition store_response :: "'w env \<Rightarrow> 'w client_maker \<Rightarrow> string \<Rightarrow> string \<Rightarrow> pyval \<Rightarrow> entity \<Rightarrow> ('w, entity option) py" where
  "store_response E mk org_id connection_name response e = with_vault E mk (\<lambda>kv. let existing = dget0 e ''OAuthResponseRef'' in
     py_bind (secret_ref_for E org_id connection_name ''response'' existing) (\<lambda>ref.
     py_catch (py_bind (lift (env_dumps E response)) (\<lambda>text. py_then (set_secret kv ref text)
         (ret (Some (if truthy existing then e else e(''OAuthResponseRef'' \<mapsto> PStr ref))))))
       (\<lambda>x. case x of ValueError _ \<Rightarrow> ret None | _ \<Rightarrow> raise x))) None"

definition store_tokens :: "'w env \<Rightarrow> 'w client_maker \<Rightarrow> table_service \<Rightarrow> string \<Rightarrow> string \<Rightarrow> pyval \<Rightarrow> pyval \<Rightarrow> datetime \<Rightarrow> pyval
    \<Rightarrow> string \<Rightarrow> ('w, bool) py" where
  "store_tokens E mk s org_id connection_name access_token refresh expires_at token_type updated_by =
     py_bind (get_entity E s org_id (oauth_key connection_name)) (\<lambda>found. case found of
       None \<Rightarrow> ret False
     | Some e \<Rightarrow> py_bind (store_response E mk org_id connection_name (oauth_response E access_token refresh expires_at token_type) e)
         (\<lambda>st. case st of
            None \<Rightarrow> ret False
          | Some e' \<Rightarrow> py_bind (utcnow E) (\<lambda>now.
              py_then (upsert_entity E s (e'(''Status'' \<mapsto> PStr ''completed'', ''ExpiresAt'' \<mapsto> PStr (env_isoformat E expires_at),
                  ''UpdatedAt'' \<mapsto> PStr (env_isoformat E now), ''UpdatedBy'' \<mapsto> PStr updated_by)) ''merge'')
                (ret True))))"

section \<open>Refreshing\<close>

definition connection_str :: "'w env \<Rightarrow> model \<Rightarrow> string \<Rightarrow> string" where
  "connection_str E m f = fstr E (dget0 m f)"

definition client_secret_of :: "'w env \<Rightarrow> 'w client_maker \<Rightarrow> model \<Rightarrow> ('w, string option) py" where
  "client_secret_of E mk m = (let ref = connection_str E m ''client_secret_ref'' in
     if ref = [] then ret None
     else py_catch (py_bind (lift (keyvault_client E mk None)) (\<lambda>kv. py_bind (get_secret kv ref) (\<lambda>v. ret (Some v)))) (\<lambda>_. ret None))"

text \<open>The tokens of a result; the answer is not that of \<open>store_tokens\<close>.\<close>

definition store_refreshed :: "'w env \<Rightarrow> 'w client_maker \<Rightarrow> table_service \<Rightarrow> model \<Rightarrow> string \<Rightarrow> entity \<Rightarrow> pyval \<Rightarrow> ('w, bool) py" where
  "store_refreshed E mk s m connection_name result new_refresh =
     (case (result ''access_token'', result ''expires_at'', result ''token_type'') of
        (Some access_token, Some (PDate expires_at), Some token_type) \<Rightarrow>
          py_then (store_tokens E mk s (connection_str E m ''org_id'') connection_name access_token new_refresh expires_at token_type ''system'')
            (ret True)
      | (Some _, Some _, Some _) \<Rightarrow> raise (AttributeError ''isoformat'')
      | _ \<Rightarrow> raise (KeyError ''access_token''))"

definition refresh_client_credentials :: "'w env \<Rightarrow> 'w client_maker \<Rightarrow> 'w oauth_http \<Rightarrow> table_service \<Rightarrow> model \<Rightarrow> string
    \<Rightarrow> string option \<Rightarrow> ('w, bool) py" where
  "refresh_client_credentials E mk H s m connection_name client_secret =
     (if \<not> opt_truthy client_secret then raise (AppError ''Exception'' ''Client credentials flow requires client_secret'')
      else py_bind (get_client_credentials_token E H (connection_str E m ''token_url'') (connection_str E m ''client_id'')
          (str_or client_secret []) (connection_str E m ''scopes'')) (\<lambda>(success, result).
        if \<not> success then ret False else store_refreshed E mk s m connection_name result PNone))"

definition refresh_authorization_code :: "'w env \<Rightarrow> 'w client_maker \<Rightarrow> 'w oauth_http \<Rightarrow> table_service \<Rightarrow> model \<Rightarrow> string
    \<Rightarrow> string option \<Rightarrow> ('w, bool) py" where
  "refresh_authorization_code E mk H s m connection_name client_secret = (let ref = connection_str E m ''oauth_response_ref'' in
     if ref = [] then ret False
     else py_bind (lift (keyvault_client E mk None)) (\<lambda>kv. py_bind (get_secret kv ref) (\<lambda>text. case env_loads E text of
         None \<Rightarrow> raise (ValueError ''Expecting value'')
       | Some response \<Rightarrow> py_bind (lift (pget response ''refresh_token'' PNone)) (\<lambda>token.
           if \<not> truthy token then ret False
           else py_bind (refresh_access_token E H (connection_str E m ''token_url'') (fstr E token) (connection_str E m ''client_id'') client_secret)
             (\<lambda>(success, result). if \<not> success then ret False
               else store_refreshed E mk s m connection_name result (py_or (dget0 result ''refresh_token'') token))))))"

definition refresh_token :: "'w env \<Rightarrow> 'w client_maker \<Rightarrow> 'w oauth_http \<Rightarrow> table_service \<Rightarrow> string \<Rightarrow> string \<Rightarrow> ('w, bool) py" where
  "refresh_token E mk H s org_id connection_name = py_catch
     (py_bind (get_connection E s org_id connection_name) (\<lambda>found. case found of
        None \<Rightarrow> ret False
      | Some m \<Rightarrow> py_bind (client_secret_of E mk m) (\<lambda>client_secret.
          if connection_str E m ''oauth_flow_type'' = ''client_credentials''
          then refresh_client_credentials E mk H s m connection_name client_secret
          else refresh_authorization_code E mk H s m connection_name client_secret)))
     (\<lambda>_. ret False)"

section \<open>The refresh job\<close>

record job_results =
  jr_total :: int
  jr_needs :: int
  jr_refreshed :: int
  jr_failed :: int
  jr_errors :: "pyval list"
  jr_duration :: int

definition refresh_threshold :: "string \<Rightarrow> int option \<Rightarrow> datetime \<Rightarrow> datetime option" where
  "refresh_threshold trigger_type threshold_minutes now = (case threshold_minutes of
     Some m \<Rightarrow> Some (dt_add now (m * 60000000))
   | None \<Rightarrow> if trigger_type = ''automatic'' then Some (dt_add now (30 * 60000000)) else None)"

definition needs_refresh :: "datetime option \<Rightarrow> model \<Rightarrow> exn + bool" where
  "needs_refresh threshold m =
     (if dget0 m ''status'' \<noteq> PStr ''completed'' then Inr False
      else case threshold of None \<Rightarrow> Inr True
        | Some t \<Rightarrow> (case dget0 m ''expires_at'' of PDate d \<Rightarrow> map_sum id (\<lambda>n. n \<le> 0) (dt_diff d t) | _ \<Rightarrow> Inr False))"

primrec filter_exn :: "('a \<Rightarrow> exn + bool) \<Rightarrow> 'a list \<Rightarrow> exn + 'a list" where
  "filter_exn p [] = Inr []"
| "filter_exn p (x # xs) = ebind (p x) (\<lambda>b. map_sum id (\<lambda>ys. if b then x # ys else ys) (filter_exn p xs))"

definition capitalize :: "string \<Rightarrow> string" where
  "capitalize s = (case s of [] \<Rightarrow> [] | c # cs \<Rightarrow>
     (if CHR ''a'' \<le> c \<and> c \<le> CHR ''z'' then char_of (of_char c - (32 :: nat)) else c) # lower cs)"

definition refresh_one :: "'w env \<Rightarrow> 'w client_maker \<Rightarrow> 'w oauth_http \<Rightarrow> table_service \<Rightarrow> string \<Rightarrow> model \<Rightarrow> job_results
    \<Rightarrow> ('w, job_results) py" where
  "refresh_one E mk H s trigger_type m r = (let org = connection_str E m ''org_id''; name = connection_str E m ''connection_name'' in
     py_bind (py_attempt (refresh_token E mk H s org name)) (\<lambda>res. case res of
       Inr True \<Rightarrow> ret (r\<lparr>jr_refreshed := jr_refreshed r + 1\<rparr>)
     | Inr False \<Rightarrow> ret (r\<lparr>jr_failed := jr_failed r + 1\<rparr>)
     | Inl x \<Rightarrow> py_then (py_catch (py_then (update_connection_status E s org name ''failed''
             (Some (capitalize trigger_type @ '' refresh failed: '' @ exn_msg x)) None) (ret ())) (\<lambda>_. ret ()))
         (ret (r\<lparr>jr_failed := jr_failed r + 1, jr_errors := jr_errors r @ [PDict [(''connection_name'', PStr name),
            (''org_id'', PStr org), (''error'', PStr (exn_msg x))]]\<rparr>))))"

primrec refresh_all :: "'w env \<Rightarrow> 'w client_maker \<Rightarrow> 'w oauth_http \<Rightarrow> table_service \<Rightarrow> string \<Rightarrow> model list \<Rightarrow> job_results
    \<Rightarrow> ('w, job_results) py" where
  "refresh_all E mk H s trigger_type [] r = ret r"
| "refresh_all E mk H s trigger_type (m # ms) r =
     py_bind (refresh_one E mk H s trigger_type m r) (refresh_all E mk H s trigger_type ms)"

definition job_entity :: "'w env \<Rightarrow> datetime \<Rightarrow> datetime \<Rightarrow> int \<Rightarrow> string \<Rightarrow> string \<Rightarrow> string option \<Rightarrow> job_results \<Rightarrow> pyval \<Rightarrow> entity" where
  "job_entity E start stop duration status trigger_type trigger_user r errors =
     (let e = [''PartitionKey'' \<mapsto> PStr ''SYSTEM'', ''RowKey'' \<mapsto> PStr ''jobstatus:TokenRefreshJob'',
         ''StartTime'' \<mapsto> PStr (env_isoformat E start), ''EndTime'' \<mapsto> PStr (env_isoformat E stop),
         ''DurationSeconds'' \<mapsto> PInt duration, ''Status'' \<mapsto> PStr status, ''TriggerType'' \<mapsto> PStr trigger_type,
         ''TotalConnections'' \<mapsto> PInt (jr_total r), ''NeedsRefresh'' \<mapsto> PInt (jr_needs r),
         ''RefreshedSuccessfully'' \<mapsto> PInt (jr_refreshed r), ''RefreshFailed'' \<mapsto> PInt (jr_failed r), ''Errors'' \<mapsto> errors]
      in if opt_truthy trigger_user then e(''TriggerUser'' \<mapsto> of_opt trigger_user) else e)"

definition no_results :: job_results where
  "no_results = \<lparr>jr_total = 0, jr_needs = 0, jr_refreshed = 0, jr_failed = 0, jr_errors = [], jr_duration = 0\<rparr>"

definition refresh_due :: "'w env \<Rightarrow> 'w client_maker \<Rightarrow> 'w oauth_http \<Rightarrow> table_service \<Rightarrow> string \<Rightarrow> int option
    \<Rightarrow> ('w, job_results) py" where
  "refresh_due E mk H s trigger_type threshold_minutes =
     py_bind (list_connections E s ''GLOBAL'' False) (\<lambda>all_connections. py_bind (utcnow E) (\<lambda>now.
     py_bind (lift (filter_exn (needs_refresh (refresh_threshold trigger_type threshold_minutes now)) all_connections)) (\<lambda>due.
     refresh_all E mk H s trigger_type due (no_results\<lparr>jr_total := int (length all_connections), jr_needs := int (length due)\<rparr>))))"

definition finish_job :: "'w env \<Rightarrow> table_service \<Rightarrow> string \<Rightarrow> string option \<Rightarrow> datetime \<Rightarrow> job_results \<Rightarrow> ('w, job_results) py" where
  "finish_job E s trigger_type trigger_user start r = py_bind (utcnow E) (\<lambda>stop.
     py_bind (lift (dt_diff stop start)) (\<lambda>duration.
     py_bind (lift (if jr_errors r \<noteq> [] then map_sum id PStr (env_dumps E (PList (jr_errors r))) else Inr PNone)) (\<lambda>errors.
     py_then (upsert_entity E s (job_entity E start stop duration ''completed'' trigger_type trigger_user r errors) ''merge'')
       (ret (r\<lparr>jr_duration := duration\<rparr>)))))"

text \<open>The row of a failed job also has the message; a failing write of it is ignored.\<close>

definition fail_job :: "'w env \<Rightarrow> table_service \<Rightarrow> string \<Rightarrow> string option \<Rightarrow> datetime \<Rightarrow> exn \<Rightarrow> ('w, job_results) py" where
  "fail_job E s trigger_type trigger_user start x = py_bind (utcnow E) (\<lambda>stop.
     py_bind (lift (dt_diff stop start)) (\<lambda>duration.
     py_then (py_catch (py_then (upsert_entity E s ((job_entity E start stop duration ''failed'' trigger_type trigger_user no_results PNone)
           (''ErrorMessage'' \<mapsto> PStr (exn_msg x))) ''merge'') (ret ())) (\<lambda>_. ret ()))
       (raise x)))"

definition run_refresh_job :: "'w env \<Rightarrow> 'w client_maker \<Rightarrow> 'w oauth_http \<Rightarrow> table_service \<Rightarrow> string \<Rightarrow> string option \<Rightarrow> int option
    \<Rightarrow> ('w, job_results) py" where
  "run_refresh_job E mk H s trigger_type trigger_user threshold_minutes = py_bind (utcnow E) (\<lambda>start. py_catch
     (py_bind (refresh_due E mk H s trigger_type threshold_minutes) (finish_job E s trigger_type trigger_user start))
     (fail_job E s trigger_type trigger_user start))"

section \<open>What the refresh job writes\<close>

lemma stays_vault_error:
  "(\<And>s. stays I (f s)) \<Longrightarrow> (\<And>s. stays I (g s)) \<Longrightarrow> (\<And>s. stays I (h s)) \<Longrightarrow> stays I k \<Longrightarrow> stays I l
    \<Longrightarrow> stays I (case x of Not_Found s \<Rightarrow> f s | Auth_Failed s \<Rightarrow> g s | Http_Failed s \<Rightarrow> h s | Request_Failed \<Rightarrow> k | Other_Failed \<Rightarrow> l)"
  by (cases x) auto

lemma stays_exn:
  "(\<And>s. stays I (f s)) \<Longrightarrow> (\<And>y. stays I (g y)) \<Longrightarrow> stays I (case x of ValueError s \<Rightarrow> f s | y \<Rightarrow> g y)"
  by (cases x) auto

lemma stays_bind_lift: "(\<And>a. r = Inr a \<Longrightarrow> stays I (f a)) \<Longrightarrow> stays I (py_bind (lift r) f)"
  by (cases r) (auto simp: stays_def py_run_defs)

lemma bind_lift_Inr: "py_bind (lift (Inr a)) f = f a"
  by (simp add: py_run_defs)

text \<open>What holds of every answer, whatever the world.\<close>

definition yields :: "('a \<Rightarrow> bool) \<Rightarrow> ('w, 'a) py \<Rightarrow> bool" where
  "yields P m \<longleftrightarrow> (\<forall>w a w'. m w = (Inr a, w') \<longrightarrow> P a)"

lemma yields_ret: "P a \<Longrightarrow> yields P (ret a)"
  and yields_raise: "yields P (raise x)"
  and yields_bind: "(\<And>a. yields P (g a)) \<Longrightarrow> yields P (py_bind m g)"
  and yields_catch: "yields P m' \<Longrightarrow> (\<And>x. yields P (h x)) \<Longrightarrow> yields P (py_catch m' h)"
  by (auto simp: yields_def py_run_defs split: prod.splits sum.splits)

lemma yields_stays: "stays I m \<Longrightarrow> yields P m \<Longrightarrow> I w \<Longrightarrow> wp m (\<lambda>a w'. I w' \<and> P a) (\<lambda>_. I) w"
  by (auto simp: wp_def yields_def dest: staysD split: prod.splits sum.splits)

text \<open>A row read from \<open>GLOBAL\<close> is written back there.\<close>

definition global_row :: "string \<Rightarrow> entity \<Rightarrow> bool" where
  "global_row rk e \<longleftrightarrow> e ''PartitionKey'' = Some (PStr ''GLOBAL'') \<and> e ''RowKey'' = Some (PStr rk)"

lemma global_row_upd [simp]: "k \<notin> {''PartitionKey'', ''RowKey''} \<Longrightarrow> global_row rk (e(k \<mapsto> v)) = global_row rk e"
  by (auto simp: global_row_def)

lemma global_row_key: "global_row rk e \<Longrightarrow> entity_key e = Some (''GLOBAL'', rk)"
  by (simp add: global_row_def entity_key_Some)

lemma store_response_row:
  assumes "global_row rk e"
  shows "yields (\<lambda>r. \<forall>e'. r = Some e' \<longrightarrow> global_row rk e') (store_response E mk org n resp e)"
proof -
  have "yields (\<lambda>r. \<forall>e'. r = Some e' \<longrightarrow> global_row rk e') (case x of ValueError _ \<Rightarrow> ret None | _ \<Rightarrow> raise x)" for x :: exn
    by (cases x) (simp_all add: yields_ret yields_raise)
  then show ?thesis
    unfolding store_response_def with_vault_def Let_def py_then_def using assms
    by (auto split: sum.splits exn.splits intro!: yields_ret yields_raise yields_bind yields_catch)
qed

text \<open>The client of the vault is \<open>c\<close>; neither it nor the providers touch the tables.\<close>

locale oauth_services = vault_maker E c secrets mk for E :: "'w env" and c and secrets and mk +
  fixes H :: "'w oauth_http"
  assumes http_keeps_rows: "keeps (env_rows E) (oh_post H u p)" "env_rows E (oh_sleep H n w) = env_rows E w"

text \<open>The rows of other partitions than \<open>GLOBAL\<close> and \<open>SYSTEM\<close>, and those of other tables.\<close>

definition outside :: "tables \<Rightarrow> tables" where
  "outside R = (\<lambda>t k. if t = ''Config'' \<and> fst k \<in> {''GLOBAL'', ''SYSTEM''} then None else R t k)"

context oauth_services
begin

lemma keeps_outside: "keeps (env_rows E) m \<Longrightarrow> stays (\<lambda>w. outside (env_rows E w) = v) m"
  by (simp add: keeps_iff stays_def)

lemma keeps_requests:
  "keeps (env_rows E) (sdk_get E t p r)" "keeps (env_rows E) (sdk_query E t f sel)" "keeps (env_rows E) (utcnow E)"
  "keeps (env_rows E) (uuid4 E)"
proof -
  show "keeps (env_rows E) (sdk_get E t p r)"
    by (intro keepsI staysI wp_sdk_get) simp_all
  show "keeps (env_rows E) (sdk_query E t f sel)"
    by (intro keepsI staysI wp_mono [OF query_reads]) simp_all
  show "keeps (env_rows E) (utcnow E)" by (intro keepsI staysI wp_utcnow) simp_all
  show "keeps (env_rows E) (uuid4 E)" by (intro keepsI staysI wp_uuid4) simp_all
qed

lemmas outside_requests [stays_intros] = keeps_requests [THEN keeps_outside] vault_keeps_rows [THEN keeps_outside]
  http_keeps_rows(1) [THEN keeps_outside]

lemma outside_sleep [stays_intros]: "stays (\<lambda>w. outside (env_rows E w) = v) (py_modify (oh_sleep H n))"
  by (rule stays_modify) (simp add: http_keeps_rows(2))

lemma outside_vault:
  assumes "\<And>v. stays I (f \<lparr>kv_vault_url = v, kv_client = Some c\<rparr>)"
  shows "stays I (with_vault E mk f a)" "stays I (py_bind (lift (keyvault_client E mk None)) f)"
  using assms by (auto simp: with_vault_def stays_def py_run_defs split: sum.splits exn.splits dest!: maker_client)

lemma outside_put: "fst k \<in> {''GLOBAL'', ''SYSTEM''} \<Longrightarrow> outside (put_row ''Config'' k r R) = outside R"
  by (intro ext) (auto simp: outside_def put_row_apply)

lemma outside_upsert:
  assumes "svc_table s = ''Config''" and "entity_key e = Some k" and "fst k \<in> {''GLOBAL'', ''SYSTEM''}"
  shows "stays (\<lambda>w. outside (env_rows E w) = v) (upsert_entity E s e m)"
  by (rule staysI, rule wp_upsert_entity [OF assms(2)]) (use assms outside_put in auto)

lemma wp_get_global:
  "wp (get_entity E s ''GLOBAL'' rk) (\<lambda>r w'. env_rows E w' = env_rows E w \<and> (\<forall>e. r = Some e \<longrightarrow> global_row rk e))
     (\<lambda>_ w'. env_rows E w' = env_rows E w) w"
  by (rule wp_get_entity) (auto simp: global_row_def entity_key_Some dest: rows_keyed)

lemma outside_with_row:
  assumes "\<And>e. global_row rk e \<Longrightarrow> stays (\<lambda>w. outside (env_rows E w) = v) (g (Some e))"
    and "stays (\<lambda>w. outside (env_rows E w) = v) (g None)"
  shows "stays (\<lambda>w. outside (env_rows E w) = v) (py_bind (get_entity E s ''GLOBAL'' rk) g)"
proof (rule stays_bind_result)
  show "wp (get_entity E s ''GLOBAL'' rk) (\<lambda>a w'. outside (env_rows E w') = v \<and> (\<forall>e. a = Some e \<longrightarrow> global_row rk e))
      (\<lambda>_ w'. outside (env_rows E w') = v) w" if "outside (env_rows E w) = v" for w
    by (rule wp_mono [OF wp_get_global]) (use that in auto)
  show "stays (\<lambda>w. outside (env_rows E w) = v) (g a)" if "\<forall>e. a = Some e \<longrightarrow> global_row rk e" for a
    using that assms by (cases a) auto
qed

lemma wp_connection_model:
  "wp (entity_to_oauth_connection E e) (\<lambda>r w'. env_rows E w' = env_rows E w
     \<and> (\<forall>m p. r = Some m \<longrightarrow> e ''PartitionKey'' = Some (PStr p) \<longrightarrow> m ''org_id'' = Some (PStr p))) (\<lambda>_ _. False) w"
proof -
  have "wp (build_connection E e rk now) (\<lambda>r w'. env_rows E w' = env_rows E w
     \<and> (\<forall>m p. r = Some m \<longrightarrow> e ''PartitionKey'' = Some (PStr p) \<longrightarrow> m ''org_id'' = Some (PStr p)))
     (\<lambda>_ w'. env_rows E w' = env_rows E w) w1" if "env_rows E w1 = env_rows E w" for rk now w1
    unfolding build_connection_def Let_def using that
    by (auto split: pyval.splits option.splits sum.splits simp: str_fields_def dest: validate_str [where f = "''org_id''"])
  then show ?thesis
    unfolding entity_to_oauth_connection_def wp_catch wp_bind
    by (intro wp_utcnow) (auto split: option.splits pyval.splits)
qed

definition global_model :: "model \<Rightarrow> bool" where
  "global_model m \<longleftrightarrow> m ''org_id'' = Some (PStr ''GLOBAL'')"

lemma global_model_org: "global_model m \<Longrightarrow> connection_str E m ''org_id'' = ''GLOBAL''"
  by (simp add: global_model_def connection_str_def)

lemma wp_get_connection_global:
  "wp (get_connection E s ''GLOBAL'' n) (\<lambda>r w'. env_rows E w' = env_rows E w \<and> (\<forall>m. r = Some m \<longrightarrow> global_model m))
     (\<lambda>_ _. False) w"
  unfolding get_connection_def wp_catch wp_bind
  by (rule wp_mono [OF wp_get_global])
    (auto simp: global_row_def global_model_def split: option.splits intro!: wp_mono [OF wp_connection_model])

lemma wp_list_connections_global:
  assumes "svc_table s = ''Config''"
  shows "wp (list_connections E s ''GLOBAL'' False) (\<lambda>ms w'. env_rows E w' = env_rows E w \<and> (\<forall>m \<in> set ms. global_model m))
     (\<lambda>_ _. False) w"
proof -
  let ?P = "\<lambda>r. \<forall>m. r = Some m \<longrightarrow> global_model m"
  have map_rows: "wp (py_map (entity_to_oauth_connection E) es)
      (\<lambda>ms w'. env_rows E w' = env_rows E w \<and> (\<forall>m \<in> set (somes ms). global_model m)) (\<lambda>_ _. False) w1"
    if "\<forall>e \<in> set es. e ''PartitionKey'' = Some (PStr ''GLOBAL'')" "env_rows E w1 = env_rows E w" for es w1
  proof -
    have "wp (py_map (entity_to_oauth_connection E) es)
        (\<lambda>ms w'. env_rows E w' = env_rows E w \<and> list_all2 (\<lambda>_. ?P) es ms) (\<lambda>_ _. False) w1"
      by (rule wp_map_all2 [where I = "\<lambda>w'. env_rows E w' = env_rows E w"])
        (use that in \<open>auto simp: global_model_def intro!: wp_mono [OF wp_connection_model]\<close>)
    then show ?thesis
      by (rule wp_mono) (force simp: somes_def map_filter_def list_all2_conv_all_nth in_set_conv_nth)+
  qed
  have rows: "\<forall>e \<in> set (map (deserialize_datetime_fields E) (fetch None (env_rows E w ''Config'') ks)).
      e ''PartitionKey'' = Some (PStr ''GLOBAL'')" if "selects (oauth_range ''GLOBAL'') (env_rows E w ''Config'') ks" for ks
    using that rows_keyed by (force simp: fetch_def selects_def oauth_range_def entity_key_Some)
  show ?thesis
    unfolding list_connections_def partition_connections_def wp_bind wp_attempt
    by (rule wp_query_entities) (auto simp: assms oauth_range_def split: sum.splits intro!: wp_mono [OF map_rows] rows [unfolded oauth_range_def])
qed

lemma outside_secrets:
  "stays (\<lambda>w. outside (env_rows E w) = v) (set_secret \<lparr>kv_vault_url = u, kv_client = Some c\<rparr> n x)"
  "stays (\<lambda>w. outside (env_rows E w) = v) (get_secret \<lparr>kv_vault_url = u, kv_client = Some c\<rparr> n)"
  unfolding set_secret_def get_secret_def initialized_client_def keyvault.simps option.case bind_lift_Inr
  by (intro stays_intros stays_vault_error)+

lemma outside_store_response: "stays (\<lambda>w. outside (env_rows E w) = v) (store_response E mk org n resp e)"
  unfolding store_response_def secret_ref_for_def generate_oauth_secret_name_def Let_def
  by (intro outside_vault stays_intros outside_secrets stays_exn)

lemma outside_store_tokens:
  assumes "svc_table s = ''Config''"
  shows "stays (\<lambda>w. outside (env_rows E w) = v) (store_tokens E mk s ''GLOBAL'' n a r d t by')"
  unfolding store_tokens_def
proof (rule outside_with_row, goal_cases)
  case (1 e)
  show ?case
    unfolding option.case
  proof (rule stays_bind_result [OF yields_stays [OF outside_store_response store_response_row [OF 1]]], goal_cases)
    case (2 r)
    then show ?case
      by (cases r) (auto intro!: stays_intros outside_upsert [OF assms global_row_key])
  qed simp
qed (simp add: stays_ret)

lemma outside_store_refreshed:
  assumes "svc_table s = ''Config''" and "global_model m"
  shows "stays (\<lambda>w. outside (env_rows E w) = v) (store_refreshed E mk s m n res x)"
  unfolding store_refreshed_def global_model_org [OF assms(2)]
  by (auto split: option.splits pyval.splits intro!: stays_intros outside_store_tokens [OF assms(1)])

lemma outside_token_request: "stays (\<lambda>w. outside (env_rows E w) = v) (token_attempts E H url payload as e)"
proof (induction as arbitrary: e)
  case (Cons a as)
  have "stays (\<lambda>w. outside (env_rows E w) = v) (token_attempt E H url payload)"
    unfolding token_attempt_def parse_token_response_def token_expiry_def by (intro stays_intros)
  moreover have "stays (\<lambda>w. outside (env_rows E w) = v) (back_off H a)"
    unfolding back_off_def by (intro stays_intros)
  ultimately show ?case
    unfolding token_attempts.simps
    by (intro stays_bind stays_attempt) (auto split: sum.splits attempt_outcome.splits post_error.splits intro!: stays_intros Cons.IH)
qed (simp add: stays_ret)

lemma outside_refresh:
  assumes "svc_table s = ''Config''" and "global_model m"
  shows "stays (\<lambda>w. outside (env_rows E w) = v) (client_secret_of E mk m)"
    and "stays (\<lambda>w. outside (env_rows E w) = v) (refresh_client_credentials E mk H s m n cs)"
    and "stays (\<lambda>w. outside (env_rows E w) = v) (refresh_authorization_code E mk H s m n cs)"
  unfolding client_secret_of_def refresh_client_credentials_def refresh_authorization_code_def Let_def
    get_client_credentials_token_def refresh_access_token_def make_token_request_def
  by (intro stays_if stays_ret stays_raise stays_catch outside_vault stays_bind stays_prod stays_option stays_lift
      outside_secrets outside_token_request outside_store_refreshed [OF assms])+

lemma outside_refresh_token:
  assumes "svc_table s = ''Config''"
  shows "stays (\<lambda>w. outside (env_rows E w) = v) (refresh_token E mk H s ''GLOBAL'' n)"
  unfolding refresh_token_def
proof (intro stays_catch stays_ret stays_bind_result [where P = "\<lambda>r. \<forall>m. r = Some m \<longrightarrow> global_model m"], goal_cases)
  case (1 w)
  show ?case by (rule wp_mono [OF wp_get_connection_global]) (use 1 in auto)
next
  case (2 r)
  then show ?case
    by (cases r) (auto intro!: stays_intros outside_refresh [OF assms])
qed

lemma outside_refresh_all:
  assumes "svc_table s = ''Config''" and "\<forall>m \<in> set ms. global_model m"
  shows "stays (\<lambda>w. outside (env_rows E w) = v) (refresh_all E mk H s trig ms r)"
  using assms(2)
proof (induction ms arbitrary: r)
  case (Cons m ms)
  have "stays (\<lambda>w. outside (env_rows E w) = v) (update_connection_status E s ''GLOBAL'' n st msg d)" for n st msg d
    unfolding update_connection_status_def
  proof (rule outside_with_row, goal_cases)
    case (1 e)
    then show ?case
      by (auto simp: Let_def set_given_def split: option.splits intro!: stays_intros outside_upsert [OF assms(1) global_row_key])
  qed (simp add: stays_ret)
  then have "stays (\<lambda>w. outside (env_rows E w) = v) (refresh_one E mk H s trig m r)"
    using Cons.prems unfolding refresh_one_def Let_def
    by (auto simp: global_model_org intro!: stays_intros outside_refresh_token [OF assms(1)] split: sum.splits bool.splits)
  then show ?case using Cons by (auto intro!: stays_bind)
qed (simp add: stays_ret)

lemma outside_job_row:
  assumes "svc_table s = ''Config''"
  shows "stays (\<lambda>w. outside (env_rows E w) = v) (finish_job E s trig user start r)"
    and "stays (\<lambda>w. outside (env_rows E w) = v) (fail_job E s trig user start x)"
proof -
  have key: "entity_key (job_entity E st sp d status trig user r errs) = Some (''SYSTEM'', ''jobstatus:TokenRefreshJob'')"
    for st sp d status r errs by (simp add: job_entity_def Let_def entity_key_Some)
  then have key': "entity_key ((job_entity E st sp d status trig user r errs)(''ErrorMessage'' \<mapsto> y)) = Some (''SYSTEM'', ''jobstatus:TokenRefreshJob'')"
    for st sp d status r errs y by (simp add: entity_key_Some)
  show "stays (\<lambda>w. outside (env_rows E w) = v) (finish_job E s trig user start r)"
    unfolding finish_job_def by (intro stays_intros outside_upsert [OF assms key]) simp_all
  show "stays (\<lambda>w. outside (env_rows E w) = v) (fail_job E s trig user start x)"
    unfolding fail_job_def by (intro stays_intros outside_upsert [OF assms key']) simp_all
qed

lemma outside_run_refresh_job:
  assumes "svc_table s = ''Config''"
  shows "stays (\<lambda>w. outside (env_rows E w) = v) (run_refresh_job E mk H s trig user thr)"
proof -
  have "stays (\<lambda>w. outside (env_rows E w) = v) (refresh_due E mk H s trig thr)"
    unfolding refresh_due_def
  proof (rule stays_bind_result [where P = "\<lambda>ms. \<forall>m \<in> set ms. global_model m"], goal_cases)
    case (1 w)
    show ?case by (rule wp_mono [OF wp_list_connections_global [OF assms]]) (use 1 in auto)
  next
    case (2 ms)
    have "set due \<subseteq> set ms" if "filter_exn p ms = Inr due" for p due
      using that by (induction ms arbitrary: due) (fastforce simp: ebind_Inr map_sum_Inr split: if_splits)+
    then have "filter_exn p ms = Inr due \<Longrightarrow> \<forall>m \<in> set due. global_model m" for p due
      using 2 by blast
    then show ?case
      by (intro stays_bind stays_bind_lift outside_requests outside_refresh_all [OF assms])
  qed
  then show ?thesis
    unfolding run_refresh_job_def by (intro stays_intros outside_job_row [OF assms])
qed

end

interpretation mem_oauth: oauth_services mem_env mem_client "\<lambda>w :: http_mem. map_of (vm_secrets w)" "\<lambda>_. Inr mem_client" mem_http
proof unfold_locales
  fix u p w and n :: int
  show "keeps (env_rows mem_env) (oh_post mem_http u p :: http_mem \<Rightarrow> _)"
    by (auto simp: keeps_iff mem_http_def Let_def mem_env_def mem_view_def fun_eq_iff split: list.splits)
  show "env_rows mem_env (oh_sleep mem_http n w) = env_rows mem_env (w :: http_mem)"
    by (auto simp: mem_http_def mem_env_def mem_view_def fun_eq_iff)
qed

section \<open>Properties\<close>

text \<open>
  C37: the refresh job writes only rows of the global partition of \<open>Config\<close> and its own status row. Whatever the
  providers answer and whatever fails, the connections of every organization, and all other tables, stay as they are:
  tokens of organizations are never refreshed by it.
\<close>

theorem refresh_job_leaves_organizations:
  assumes "oauth_services E c secrets mk H" and "svc_table s = ''Config''"
    and "run_refresh_job E mk H s trigger_type trigger_user threshold w = (res, w')"
    and "t \<noteq> ''Config'' \<or> p \<notin> {''GLOBAL'', ''SYSTEM''}"
  shows "env_rows E w' t (p, r) = env_rows E w t (p, r)"
proof -
  have "outside (env_rows E w') = outside (env_rows E w)"
    using staysD [OF oauth_services.outside_run_refresh_job [OF assms(1,2)] assms(3)] by blast
  from fun_cong [OF fun_cong [OF this, of t], of "(p, r)"] show ?thesis
    using assms(4) by (auto simp: outside_def split: if_splits)
qed

text \<open>A manual run over a global connection and one of an organization.\<close>

definition oauth_row :: "string \<Rightarrow> entity" where
  "oauth_row p = [''PartitionKey'' \<mapsto> PStr p, ''RowKey'' \<mapsto> PStr ''oauth:crm'', ''TokenUrl'' \<mapsto> PStr ''https://crm/token'',
     ''Status'' \<mapsto> PStr ''completed'', ''OAuthFlowType'' \<mapsto> PStr ''client_credentials'']"

definition oauth_world :: http_mem where
  "oauth_world = (http_world [])\<lparr>mem_rows := map (\<lambda>p. ((''Config'', (p, ''oauth:crm'')), oauth_row p)) [''GLOBAL'', ''acme'']\<rparr>"

theorem refresh_job_leaves_organizations_witness:
  "\<exists>r w'. run_refresh_job mem_env (\<lambda>_. Inr mem_client) mem_http \<lparr>svc_table = ''Config'', svc_context = None\<rparr> ''manual'' None None
      oauth_world = (Inr r, w') \<and> jr_needs r = 1
     \<and> mem_view w' ''Config'' (''acme'', ''oauth:crm'') = mem_view oauth_world ''Config'' (''acme'', ''oauth:crm'')"
proof -
  let ?run = "run_refresh_job mem_env (\<lambda>_. Inr mem_client) mem_http \<lparr>svc_table = ''Config'', svc_context = None\<rparr> ''manual'' None None
      oauth_world"
  have "case ?run of (Inr r, _) \<Rightarrow> jr_needs r = 1 | _ \<Rightarrow> False" by code_simp
  then obtain r w' where run: "?run = (Inr r, w')" "jr_needs r = 1" by (auto split: prod.splits sum.splits)
  from refresh_job_leaves_organizations [OF mem_oauth.oauth_services_axioms _ run(1), of "''Config''" "''acme''" "''oauth:crm''"] run
  show ?thesis by simp
qed

end
