(* ===== verification/Config_Sdk.thy ===== *)
theory Config_Sdk
  imports Organization_Handlers OAuth_Storage
begin

text \<open>
  Configuration as workflows and administrators see it: \<open>bifrost/config.py\<close> and
  \<open>shared/handlers/org_config_handlers.py\<close>. The key vault of the running context is made with the context.
\<close>

section \<open>Configuration of workflows\<close>

definition get_scoped_repo :: "exec_context \<Rightarrow> string option \<Rightarrow> exn + scoped_repo" where
  "get_scoped_repo ctx org_id =
     (if opt_truthy org_id \<and> org_id \<noteq> ctx_org_id ctx
      then config_repository (Some (scoped_context ctx (str_or org_id []) (ctx_organization ctx)))
      else config_repository (Some ctx))"

definition config_get :: "'w env \<Rightarrow> 'w client_maker \<Rightarrow> exec_context option \<Rightarrow> string \<Rightarrow> string option \<Rightarrow> pyval \<Rightarrow> ('w, pyval) py" where
  "config_get E mk cv key org_id dflt = py_bind (lift (get_execution_context cv)) (\<lambda>ctx.
     py_bind (lift (get_scoped_repo ctx org_id)) (\<lambda>r.
     py_bind (Config_Repository.get_config E r key True) (\<lambda>cfg. case cfg of
       None \<Rightarrow> ret dflt
     | Some m \<Rightarrow> py_catch
         (resolve_config E (config_resolver E mk None) (str_or org_id (ctx_scope ctx)) key
           [key \<mapsto> PDict [(''value'', dget0 m ''value''), (''type'', dget0 m ''type'')]] (Some dflt))
         (\<lambda>x. case x of
            ValueError s \<Rightarrow> raise (AppError ''RuntimeError'' (''Failed to resolve config '' @ quote @ key @ quote @ '': '' @ s))
          | _ \<Rightarrow> raise x))))"

text \<open>The type and text a value is stored as.\<close>

definition stored_form :: "'w env \<Rightarrow> pyval \<Rightarrow> exn + config_type \<times> string" where
  "stored_form E v = (case v of
     PDict _ \<Rightarrow> map_sum id (Pair JSON) (env_dumps E v)
   | PList _ \<Rightarrow> map_sum id (Pair JSON) (env_dumps E v)
   | PBool b \<Rightarrow> Inr (BOOL, lower (fstr E v))
   | PInt i \<Rightarrow> Inr (INT_TYPE, fstr E v)
   | _ \<Rightarrow> Inr (STRING, fstr E v))"

definition config_set :: "'w env \<Rightarrow> exec_context option \<Rightarrow> string \<Rightarrow> pyval \<Rightarrow> string option \<Rightarrow> ('w, unit) py" where
  "config_set E cv key v org_id = py_bind (lift (get_execution_context cv)) (\<lambda>ctx.
     py_bind (lift (get_scoped_repo ctx org_id)) (\<lambda>r.
     py_bind (lift (stored_form E v)) (\<lambda>(t, s).
     py_then (set_config E r key s t None (ctx_user_id ctx)) (ret ()))))"

definition config_delete :: "'w env \<Rightarrow> exec_context option \<Rightarrow> string \<Rightarrow> string option \<Rightarrow> ('w, bool) py" where
  "config_delete E cv key org_id = py_bind (lift (get_execution_context cv)) (\<lambda>ctx.
     py_bind (lift (get_scoped_repo ctx org_id)) (\<lambda>r. delete_config E r key))"

text \<open>Values in a listing: what cannot be parsed stays a string, and only \<open>true\<close> is true.\<close>

definition listed_value :: "'w env \<Rightarrow> model \<Rightarrow> pyval" where
  "listed_value E m = (let v = dget0 m ''value''; s = fstr E v; t = dget0 m ''type'' in
     if t = PStr ''json'' then (case env_loads E s of Some j \<Rightarrow> j | None \<Rightarrow> v)
     else if t = PStr ''bool'' then PBool (lower s = ''true'')
     else if t = PStr ''int'' then (case py_int s of Some i \<Rightarrow> PInt i | None \<Rightarrow> v)
     else v)"

definition configs_to_dict :: "'w env \<Rightarrow> model list \<Rightarrow> entity" where
  "configs_to_dict E configs = foldl (\<lambda>d m. d(fstr E (dget0 m ''key'') \<mapsto> listed_value E m)) Map.empty configs"

definition list_single_org :: "'w env \<Rightarrow> exec_context \<Rightarrow> string option \<Rightarrow> ('w, entity) py" where
  "list_single_org E ctx org_id = py_bind (lift (get_scoped_repo ctx org_id)) (\<lambda>r.
     py_bind (list_config E r True) (\<lambda>configs. ret (configs_to_dict E configs)))"

definition scope_configs :: "'w env \<Rightarrow> exec_context \<Rightarrow> string \<Rightarrow> organization option \<Rightarrow> ('w, model list) py" where
  "scope_configs E ctx sc org = py_bind (lift (config_repository (Some (scoped_context ctx sc org)))) (\<lambda>r. list_config E r False)"

definition list_all_orgs :: "'w env \<Rightarrow> exec_context \<Rightarrow> ('w, string \<rightharpoonup> entity) py" where
  "list_all_orgs E ctx = py_bind (list_organizations_logic E ctx) (\<lambda>orgs.
     py_bind (py_map (\<lambda>m. let org_id = fstr E (dget0 m ''id'') in
         py_bind (scope_configs E ctx org_id (Some \<lparr>o_id = org_id, o_name = fstr E (dget0 m ''name''), o_is_active = dget0 m ''isActive''\<rparr>))
           (\<lambda>configs. ret (org_id, configs_to_dict E configs))) orgs) (\<lambda>per_org.
     py_bind (scope_configs E ctx ''GLOBAL'' None) (\<lambda>global_configs.
     let result = foldl (\<lambda>d (o', c). d(o' \<mapsto> c)) Map.empty per_org in
     ret (if global_configs \<noteq> [] then result(''GLOBAL'' \<mapsto> configs_to_dict E global_configs) else result))))"

datatype config_listing = One_Org entity | All_Orgs "string \<rightharpoonup> entity"

definition config_list :: "'w env \<Rightarrow> exec_context option \<Rightarrow> string option \<Rightarrow> ('w, config_listing) py" where
  "config_list E cv org_id = py_bind (lift (get_execution_context cv)) (\<lambda>ctx.
     if org_id \<noteq> None \<or> \<not> ctx_is_platform_admin ctx
     then py_bind (list_single_org E ctx org_id) (\<lambda>d. ret (One_Org d))
     else py_bind (list_all_orgs E ctx) (\<lambda>d. ret (All_Orgs d)))"

section \<open>Handlers\<close>

definition sensitive_keywords :: "string list" where
  "sensitive_keywords = [''secret'', ''password'', ''token'', ''key'', ''credential'']"

definition mask_sensitive_value :: "string \<Rightarrow> string \<Rightarrow> string \<Rightarrow> string" where
  "mask_sensitive_value key v value_type =
     (if value_type = ''secret_ref'' then v
      else if list_ex (\<lambda>keyword. str_in keyword (lower key)) sensitive_keywords then
        (if 8 < length v then take 4 v @ ''***'' @ drop (length v - 4) v else ''***'')
      else v)"

definition config_fields :: "string list" where
  "config_fields = [''key'', ''value'', ''type'', ''scope'', ''orgId'', ''description'', ''updatedAt'', ''updatedBy'']"

definition masked_config :: "'w env \<Rightarrow> model \<Rightarrow> model" where
  "masked_config E m = m(''value'' \<mapsto> PStr (mask_sensitive_value (fstr E (dget0 m ''key'')) (fstr E (dget0 m ''value''))
     (fstr E (dget0 m ''type''))))"

text \<open>Newest first; equal dates keep their order. A date that cannot be compared raises.\<close>

fun date_key :: "pyval \<Rightarrow> (int \<times> bool) option" where
  "date_key (PDate (Naive t)) = Some (t, False)"
| "date_key (PDate (Aware t z)) = Some (t, True)"
| "date_key _ = None"

definition newest_by :: "string \<Rightarrow> model list \<Rightarrow> exn + model list" where
  "newest_by f ms = (let ks = map (\<lambda>m. date_key (dget0 m f)) ms in
     if length ms \<le> 1 \<or> (None \<notin> set ks \<and> (\<exists>aware. \<forall>k \<in> set ks. snd (the k) = aware))
     then Inr (sort_key (\<lambda>m. case date_key (dget0 m f) of Some (t, _) \<Rightarrow> - t | None \<Rightarrow> 0) ms)
     else Inl (TypeError ''can't compare offset-naive and offset-aware datetimes''))"

definition newest_first :: "model list \<Rightarrow> exn + model list" where
  "newest_first = newest_by ''updatedAt''"

definition get_config_handler :: "'w env \<Rightarrow> exec_context \<Rightarrow> ('w, http_response) py" where
  "get_config_handler E ctx = py_catch
     (py_bind (lift (config_repository (Some ctx))) (\<lambda>r. py_bind (list_config E r False) (\<lambda>configs.
      py_bind (lift (newest_first (map (masked_config E) configs))) (\<lambda>ms.
      ret (200, PList (map (fields_json config_fields) ms))))))
     (\<lambda>_. ret (internal_error ''Failed to retrieve configuration''))"

record set_config_request =
  scq_key :: string
  scq_value :: "string option"
  scq_secret_ref :: "string option"
  scq_type :: config_type
  scq_description :: "string option"

definition validate_value_or_secret_ref :: "set_config_request \<Rightarrow> exn + set_config_request" where
  "validate_value_or_secret_ref r =
     (if scq_type r = SECRET_REF then
        (if opt_truthy (scq_value r) \<and> opt_truthy (scq_secret_ref r)
         then Inl (validation_error ''Cannot specify both value and secretRef for secret_ref type'')
         else if \<not> opt_truthy (scq_value r) \<and> \<not> opt_truthy (scq_secret_ref r)
         then Inl (validation_error ''Must specify either value or secretRef for secret_ref type'')
         else Inr r)
      else if \<not> opt_truthy (scq_value r) then Inl (validation_error (''value is required for type '' @ config_type_value (scq_type r)))
      else if opt_truthy (scq_secret_ref r) then Inl (validation_error ''secretRef can only be used with type secret_ref'')
      else Inr r)"

definition parse_set_config :: "'w env \<Rightarrow> entity \<Rightarrow> exn + set_config_request" where
  "parse_set_config E kw = ebind (env_validate E ''SetConfigRequest'' kw) (\<lambda>m.
     ebind (case config_type_of (dget0 m ''type'') of Inl _ \<Rightarrow> Inl (validation_error ''type'') | Inr t \<Rightarrow> Inr t) (\<lambda>t.
     validate_value_or_secret_ref \<lparr>scq_key = fstr E (dget0 m ''key''), scq_value = opt_str (dget0 m ''value''),
       scq_secret_ref = opt_str (dget0 m ''secretRef''), scq_type = t, scq_description = opt_str (dget0 m ''description'')\<rparr>))"

text \<open>The name the value goes under: that of the present secret, or a new one. The client of the vault is used directly.\<close>

definition secret_target :: "'w env \<Rightarrow> exec_context \<Rightarrow> set_config_request \<Rightarrow> model option \<Rightarrow> ('w, string) py" where
  "secret_target E ctx r existing = (case existing of
     Some m \<Rightarrow> if dget0 m ''type'' = PStr ''secret_ref'' then ret (fstr E (dget0 m ''value''))
         else generate_secret_name E (ctx_scope ctx) (scq_key r) ''bifrost''
   | None \<Rightarrow> generate_secret_name E (ctx_scope ctx) (scq_key r) ''bifrost'')"

definition store_inline_secret :: "'w env \<Rightarrow> 'w client_maker \<Rightarrow> exec_context \<Rightarrow> set_config_request \<Rightarrow> model option \<Rightarrow> ('w, string) py" where
  "store_inline_secret E mk ctx r existing = py_bind (lift (keyvault_client E mk None)) (\<lambda>kv. case kv_client kv of
     None \<Rightarrow> raise (ValueError ''Key Vault client not initialized - cannot create inline secret'')
   | Some c \<Rightarrow> py_bind (secret_target E ctx r existing) (\<lambda>secret_name.
       py_then (sc_set c secret_name (str_or (scq_value r) [])) (ret secret_name)))"

definition inline_secret_failed :: "exn \<Rightarrow> http_response" where
  "inline_secret_failed x = (case x of
     AppError n s \<Rightarrow> if n \<in> {''SecretNameTooLongError'', ''InvalidSecretComponentError''} then error_response 400 ''ValidationError'' s
       else internal_error ''Failed to create secret in Key Vault''
   | ValueError _ \<Rightarrow> error_response 503 ''ServiceUnavailable'' ''Key Vault is not available - cannot create inline secret''
   | _ \<Rightarrow> internal_error ''Failed to create secret in Key Vault'')"

text \<open>The text to store, or the response that ends the request.\<close>

definition config_text :: "'w env \<Rightarrow> 'w client_maker \<Rightarrow> exec_context \<Rightarrow> set_config_request \<Rightarrow> model option
    \<Rightarrow> ('w, http_response + string) py" where
  "config_text E mk ctx r existing =
     (if scq_type r = SECRET_REF then
        (if opt_truthy (scq_value r)
         then py_bind (py_attempt (store_inline_secret E mk ctx r existing)) (\<lambda>res. case res of
              Inl x \<Rightarrow> ret (Inl (inline_secret_failed x)) | Inr n \<Rightarrow> ret (Inr n))
         else (case scq_secret_ref r of None \<Rightarrow> raise (ValueError ''Either value or secretRef must be provided'') | Some s \<Rightarrow> ret (Inr s)))
      else (case scq_value r of None \<Rightarrow> raise (ValueError ''Either value or secretRef must be provided'') | Some s \<Rightarrow> ret (Inr s)))"

definition write_config :: "'w env \<Rightarrow> exec_context \<Rightarrow> scoped_repo \<Rightarrow> set_config_request \<Rightarrow> string \<Rightarrow> int \<Rightarrow> ('w, http_response) py" where
  "write_config E ctx rp r text status =
     py_bind (set_config E rp (scq_key r) text (scq_type r) (scq_description r) (ctx_user_id ctx)) (\<lambda>m.
     py_then (log_config_event E Set (ctx_scope ctx) (scq_key r) (ctx_user_id ctx) (display_name ctx) None)
       (ret (status, fields_json config_fields
          (m(''value'' \<mapsto> PStr (mask_sensitive_value (scq_key r) text (config_type_value (scq_type r))))))))"

definition config_errors :: "string \<Rightarrow> exn \<Rightarrow> http_response" where
  "config_errors message x = (if is_validation_error x then invalid_request
     else case x of ValueError _ \<Rightarrow> error_response 400 ''BadRequest'' ''Invalid JSON in request body'' | _ \<Rightarrow> internal_error message)"

definition set_config_handler :: "'w env \<Rightarrow> 'w client_maker \<Rightarrow> exec_context \<Rightarrow> exn + entity \<Rightarrow> ('w, http_response) py" where
  "set_config_handler E mk ctx body = py_catch
     (py_bind (lift (ebind body (parse_set_config E))) (\<lambda>r. py_bind (lift (config_repository (Some ctx))) (\<lambda>rp.
      py_bind (Config_Repository.get_config E rp (scq_key r) False) (\<lambda>existing.
      py_bind (config_text E mk ctx r existing) (\<lambda>res. case res of
        Inl response \<Rightarrow> ret response
      | Inr text \<Rightarrow> write_config E ctx rp r text (if existing = None then 201 else 200))))))
     (\<lambda>x. ret (config_errors ''Failed to set organization configuration'' x))"

text \<open>
  Deleting: for a key of an OAuth connection the connections of the scope are looked through, by attributes their
  model does not have under these names.
\<close>

definition references :: "string \<Rightarrow> model \<Rightarrow> string option" where
  "references key m =
     (if (dget0 m ''clientSecretRef'' = PStr key \<or> dget0 m ''oauthResponseRef'' = PStr key
          \<or> startswith (rev key) (rev ''_metadata'')) \<and> truthy (dget0 m ''name'')
      then opt_str (dget0 m ''name'') else None)"

definition oauth_references :: "'w env \<Rightarrow> table_service \<Rightarrow> exec_context \<Rightarrow> string \<Rightarrow> ('w, string list) py" where
  "oauth_references E s ctx key = py_bind (list_connections E s (ctx_scope ctx) True) (\<lambda>connections.
     ret (somes (map (references key) connections)))"

definition delete_config_handler :: "'w env \<Rightarrow> exec_context \<Rightarrow> string \<Rightarrow> ('w, http_response) py" where
  "delete_config_handler E ctx key = py_catch
     (py_bind (if startswith key ''oauth_'' \<and> 3 \<le> length (split_all CHR ''_'' key)
         then py_bind (lift (oauth_storage_service E)) (\<lambda>s. py_catch (oauth_references E s ctx key) (\<lambda>_. ret []))
         else ret []) (\<lambda>referenced_by.
      if referenced_by \<noteq> []
      then ret (409, PDict [(''error'', PStr ''Conflict''), (''message'', PStr (''Cannot delete config '' @ quote @ key @ quote
        @ '' because it is referenced by OAuth connection(s): '' @ join '', '' referenced_by)),
        (''details'', PDict [(''referenced_by'', PList (map PStr referenced_by))])])
      else py_bind (lift (config_repository (Some ctx))) (\<lambda>r.
        py_then (delete_config E r key)
        (py_then (log_config_event E Delete (ctx_scope ctx) key (ctx_user_id ctx) (display_name ctx) None) (ret (204, PNone))))))
     (\<lambda>_. ret (internal_error ''Failed to delete organization configuration''))"

section \<open>Integrations\<close>

definition integration_fields :: "string list" where
  "integration_fields = [''type'', ''enabled'', ''settings'', ''updatedAt'', ''updatedBy'']"

definition required_keys :: "integration_type \<Rightarrow> string list" where
  "required_keys t = (case t of MSGRAPH \<Rightarrow> [''tenant_id'', ''client_id'', ''client_secret_ref'']
     | HALOPSA \<Rightarrow> [''api_url'', ''client_id'', ''api_key_ref''])"

definition validate_settings :: "integration_type \<Rightarrow> pyval \<Rightarrow> exn + pyval" where
  "validate_settings t v = (case v of
     PDict kvs \<Rightarrow> if set (required_keys t) \<subseteq> fst ` set kvs then Inr v else Inl (validation_error ''integration requires more settings'')
   | _ \<Rightarrow> Inl (validation_error ''Input should be a valid dictionary''))"

definition parse_set_integration :: "'w env \<Rightarrow> entity \<Rightarrow> exn + set_integration_request" where
  "parse_set_integration E kw = ebind (env_validate E ''SetIntegrationConfigRequest'' kw) (\<lambda>m.
     ebind (case integration_type_of (dget0 m ''type'') of Inl _ \<Rightarrow> Inl (validation_error ''type'') | Inr t \<Rightarrow> Inr t) (\<lambda>t.
     map_sum id (\<lambda>v. \<lparr>sir_type = t, sir_enabled = truthy (dget m ''enabled'' (PBool True)), sir_settings = v\<rparr>)
       (validate_settings t (dget0 m ''settings''))))"

definition get_integrations_handler :: "'w env \<Rightarrow> exec_context \<Rightarrow> ('w, http_response) py" where
  "get_integrations_handler E ctx = py_catch
     (py_bind (lift (config_repository (Some ctx))) (\<lambda>r. py_bind (list_integrations E r) (\<lambda>ms.
      ret (200, PList (map (fields_json integration_fields) ms)))))
     (\<lambda>_. ret (internal_error ''Failed to retrieve integrations''))"

definition set_integration_handler :: "'w env \<Rightarrow> exec_context \<Rightarrow> exn + entity \<Rightarrow> ('w, http_response) py" where
  "set_integration_handler E ctx body = py_catch
     (py_bind (lift (ebind body (parse_set_integration E))) (\<lambda>r. py_bind (lift (config_repository (Some ctx))) (\<lambda>rp.
      py_bind (get_integration_config E rp (sir_type r) False) (\<lambda>existing.
      py_bind (set_integration_config E rp r (ctx_user_id ctx)) (\<lambda>m.
      py_then (log_config_event E Set (ctx_scope ctx) (integration_type_value (sir_type r)) (ctx_user_id ctx) (display_name ctx)
          (Some ''integration''))
        (ret (if existing = None then 201 else 200, fields_json integration_fields m)))))))
     (\<lambda>x. ret (config_errors ''Failed to set integration configuration'' x))"

definition delete_integration_handler :: "'w env \<Rightarrow> exec_context \<Rightarrow> string \<Rightarrow> ('w, http_response) py" where
  "delete_integration_handler E ctx integration = py_catch
     (py_bind (lift (config_repository (Some ctx))) (\<lambda>r. py_then (delete_integration E r integration)
      (py_then (log_config_event E Delete (ctx_scope ctx) integration (ctx_user_id ctx) (display_name ctx) (Some ''integration''))
        (ret (204, PNone)))))
     (\<lambda>_. ret (internal_error ''Failed to delete integration configuration''))"

section \<open>Integers as text\<close>

lemma digit_char: "m < 10 \<Longrightarrow> is_digit (char_of (48 + m))" "m < 10 \<Longrightarrow> digit_val (char_of (48 + m)) = int m"
  by (auto simp: is_digit_def digit_val_def less_eq_char_def)

lemma int_digits_digit: "is_digit c \<Longrightarrow> int_digits (c # s) n = int_digits s (10 * n + digit_val c)"
  by simp

lemma int_digits_str_nat: "int_digits (str_nat n @ s) a = int_digits s (a * 10 ^ length (str_nat n) + int n)"
proof (induction n arbitrary: s a rule: str_nat.induct)
  case (1 n)
  show ?case
  proof (cases "n < 10")
    case True
    then show ?thesis
      by (subst (1 2) str_nat.simps) (simp only: if_True append_Cons append_Nil int_digits_digit [OF digit_char(1)] digit_char(2), simp add: algebra_simps)
  next
    case False
    let ?c = "char_of (48 + n mod 10)"
    have m: "n mod 10 < 10" by simp
    have split: "int n = 10 * int (n div 10) + int (n mod 10)" by presburger
    have "int_digits (str_nat n @ s) a = int_digits (str_nat (n div 10) @ ?c # s) a"
      by (subst str_nat.simps) (simp add: False)
    also have "\<dots> = int_digits (?c # s) (a * 10 ^ length (str_nat (n div 10)) + int (n div 10))"
      by (rule 1 [OF False])
    also have "\<dots> = int_digits s (10 * (a * 10 ^ length (str_nat (n div 10)) + int (n div 10)) + int (n mod 10))"
      by (simp only: int_digits_digit [OF digit_char(1) [OF m]] digit_char(2) [OF m])
    also have "10 * (a * 10 ^ length (str_nat (n div 10)) + int (n div 10)) + int (n mod 10)
        = a * 10 ^ Suc (length (str_nat (n div 10))) + int n"
      using split by (simp only: power_Suc, simp add: algebra_simps)
    also have "Suc (length (str_nat (n div 10))) = length (str_nat n)"
      by (subst (2) str_nat.simps) (simp add: False)
    finally show ?thesis .
  qed
qed

lemma str_nat_digits: "c \<in> set (str_nat n) \<Longrightarrow> is_digit c"
proof (induction n rule: str_nat.induct)
  case (1 n)
  then show ?case by (subst (asm) (2) str_nat.simps) (auto simp: digit_char split: if_splits)
qed

lemma digit_no_space: "is_digit c \<Longrightarrow> \<not> is_space c \<and> c \<noteq> CHR ''-'' \<and> c \<noteq> CHR ''+''"
  by (auto simp: is_digit_def is_space_def less_eq_char_def)

lemma str_nat_nonempty: "str_nat n \<noteq> []"
  by (subst str_nat.simps) simp

lemma py_int_str_int: "py_int (str_int i) = Some i"
proof -
  have strip: "strip s = s" if "s \<noteq> []" "\<not> is_space (hd s)" "\<not> is_space (last s)" for s
  proof -
    have keep: "dropWhile is_space t = t" if "t \<noteq> []" "\<not> is_space (hd t)" for t using that by (cases t) auto
    have "dropWhile is_space (rev s) = rev s" using that by (intro keep) (simp_all add: hd_rev)
    moreover have "dropWhile is_space s = s" using that(1,2) by (rule keep)
    ultimately show ?thesis by (simp add: strip_def)
  qed
  obtain c s where n: "str_nat (nat \<bar>i\<bar>) = c # s" using str_nat_nonempty by (cases "str_nat (nat \<bar>i\<bar>)") auto
  have digits: "\<forall>x \<in> set (c # s). is_digit x" using str_nat_digits [of _ "nat \<bar>i\<bar>"] unfolding n by blast
  have val: "int_digits (c # s) 0 = Some \<bar>i\<bar>"
    using int_digits_str_nat [of "nat \<bar>i\<bar>" "[]" 0] by (simp add: n del: int_digits.simps(2))
  show ?thesis
  proof (cases "i < 0")
    case True
    then have "str_int i = CHR ''-'' # c # s" using n by (simp add: str_int_def)
    moreover have "strip (CHR ''-'' # c # s) = CHR ''-'' # c # s"
      by (rule strip) (use digits digit_no_space in \<open>auto simp: is_space_def\<close>)
    ultimately show ?thesis using val digits True by (simp add: py_int_def del: int_digits.simps(2))
  next
    case False
    then have "str_int i = c # s" using n by (simp add: str_int_def)
    moreover have "strip (c # s) = c # s"
      by (rule strip) (use digits digit_no_space in auto)
    ultimately show ?thesis using val digits digit_no_space False by (simp add: py_int_def del: int_digits.simps(2))
  qed
qed

section \<open>Values with their types\<close>

definition typed_row :: "entity \<Rightarrow> string \<Rightarrow> string \<Rightarrow> bool" where
  "typed_row e s t \<longleftrightarrow> dget e ''Value'' (PStr []) = PStr s \<and> dget e ''Type'' (PStr ''string'') = PStr t"

definition config_row :: "tables \<Rightarrow> string \<Rightarrow> string \<Rightarrow> entity option" where
  "config_row R sc key = visible sc (\<lambda>_. True) (R ''Config'') (config_key key)"

lemma config_type_of_value: "config_type_of (PStr t) = Inr ct \<Longrightarrow> config_type_value ct = t"
  by (auto simp: config_type_of_def find_Some_iff split: option.splits)

lemma typed_row_cong:
  "(\<And>k. k \<noteq> ''etag'' \<Longrightarrow> d k = deserialize_datetime_fields E e k) \<Longrightarrow> typed_row d s t \<longleftrightarrow> typed_row e s t"
  by (simp add: typed_row_def dget_def datetime_fields_def)

lemma typed_config_entity: "typed_row (config_entity sc key v t d by' now) v (config_type_value t)"
  by (simp add: typed_row_def config_entity_def dget_def)

lemma typed_written:
  "typed_row (write_row m (serialize_datetime_fields E (config_entity sc key v t d by' now)) old) v (config_type_value t)"
  by (auto simp: typed_row_def write_row_def config_entity_def dget_def drop_none_apply map_add_def
      split: update_mode.splits option.splits)

definition typed_model :: "model \<Rightarrow> string \<Rightarrow> string \<Rightarrow> bool" where
  "typed_model m s t \<longleftrightarrow> m ''value'' = Some (PStr s) \<and> m ''type'' = Some (PStr t)"

context table_sdk
begin

lemma wp_typed_model:
  assumes "typed_row e s t" and "env_rows E w = R"
  shows "wp (config_entity_to_model E e key) (\<lambda>m w'. env_rows E w' = R \<and> typed_model m s t) (\<lambda>_ w'. env_rows E w' = R) w"
  unfolding config_entity_to_model_def Let_def wp_bind
proof (rule wp_updated_at, goal_cases)
  case (1 d w1)
  have "m f = Some (PStr x)" if "env_validate E ''Config'' kw = Inr m" "kw f = Some (PStr x)" "f \<in> {''value'', ''type''}" for m kw f x
    using validate_str [OF that(1) _ that(2)] that(3) by (auto simp: str_fields_def)
  then show ?case
    using 1 assms config_type_of_value by (auto simp: typed_row_def typed_model_def split: sum.splits)
qed

lemma wp_get_typed:
  assumes "on_config r" and "config_row (env_rows E w) (sr_scope r) key = Some e" and "typed_row e s t"
  shows "wp (Config_Repository.get_config E r key True)
    (\<lambda>res w'. env_rows E w' = env_rows E w \<and> (\<exists>m. res = Some m \<and> typed_model m s t)) (\<lambda>_ w'. env_rows E w' = env_rows E w) w"
  unfolding Config_Repository.get_config_def wp_bind if_True
proof (rule wp_mono [OF wp_get_with_fallback], goal_cases)
  case (1 res w1)
  then obtain d where d: "res = Some d" "\<forall>k. k \<noteq> ''etag'' \<longrightarrow> d k = deserialize_datetime_fields E e k" "env_rows E w1 = env_rows E w"
    using assms(1,2) by (auto simp: on_config_def config_row_def)
  have "typed_row d s t" using typed_row_cong [of d E e] d(2) assms(3) by blast
  from wp_typed_model [OF this d(3)] show ?case
    using d(1) by simp
qed

lemma wp_set_typed:
  assumes "on_config r"
  shows "wp (set_config E r key v t d by')
    (\<lambda>m w'. typed_model m v (config_type_value t) \<and> (\<exists>e. typed_row e v (config_type_value t)
       \<and> env_rows E w' = put_row ''Config'' (sr_scope r, config_key key) (Some e) (env_rows E w))) (\<lambda>_ _. True) w"
proof -
  have t: "svc_table (repo_service (sr_repo r)) = ''Config''" using assms by (simp add: on_config_def repo_service_def)
  show ?thesis
    unfolding set_config_def Let_def repo_upsert_def wp_bind wp_then
  proof (rule wp_utcnow, rule wp_upsert_entity [OF config_entity_key], goal_cases)
    case (1 now w1 w2)
    then show ?case
      using wp_typed_model [OF typed_config_entity refl]
      by (intro wp_mono [OF wp_typed_model [OF typed_config_entity refl]]) (auto simp: t intro: typed_written)
  qed auto
qed

end

text \<open>What a stored value is read as.\<close>

definition read_back :: "'w env \<Rightarrow> pyval \<Rightarrow> pyval" where
  "read_back E v = (case v of PNone \<Rightarrow> PStr (fstr E v) | POther _ \<Rightarrow> PStr (fstr E v) | PDate _ \<Rightarrow> PStr (fstr E v) | _ \<Rightarrow> v)"

lemma parse_stored_form:
  assumes "stored_form E v = Inr (t, s)" and "\<And>j. stored_form E v = Inr (JSON, j) \<Longrightarrow> env_loads E j = Some v"
  shows "t \<noteq> SECRET_REF \<and> parse_value E (PStr s) (PStr (config_type_value t)) = Inr (read_back E v)"
proof (cases v)
  case (PBool b)
  have "lower (lower ''True'') = ''true''" "lower (lower ''False'') = ''false''" by code_simp+
  then have "lower (lower (if b then ''True'' else ''False'')) \<in> {''true'', ''1'', ''yes''} \<longleftrightarrow> b" by simp
  then show ?thesis
    using assms(1) PBool by (auto simp: stored_form_def parse_value_def parse_as_def read_back_def simp del: insert_iff)
qed (use assms in \<open>cases "env_dumps E v";
  auto simp: stored_form_def parse_value_def parse_as_def int_of_def read_back_def py_int_str_int\<close>)+

lemma scoped_repo_on_config: "get_scoped_repo ctx org_id = Inr r \<Longrightarrow> on_config r"
  by (auto simp: get_scoped_repo_def config_repository_def scoped_repository_def on_config_def split: if_splits)

context table_sdk
begin

lemma wp_config_get:
  assumes "get_scoped_repo ctx org_id = Inr r" and "config_row (env_rows E w) (sr_scope r) key = Some e" and "typed_row e s t"
    and "stays P (Config_Repository.get_config E r key True)" and "P w"
    and "\<And>w'. env_rows E w' = env_rows E w \<Longrightarrow> P w' \<Longrightarrow> wp (resolve_config E (config_resolver E mk None) (str_or org_id (ctx_scope ctx)) key
        [key \<mapsto> PDict [(''value'', PStr s), (''type'', PStr t)]] (Some d)) Q (\<lambda>_ _. True) w'"
  shows "wp (config_get E mk (Some ctx) key org_id d) Q (\<lambda>_ _. True) w"
proof -
  have "on_config r" by (rule scoped_repo_on_config [OF assms(1)])
  note found = wp_conj [OF wp_get_typed [OF this assms(2,3)] stays_wp [OF assms(4,5)]]
  show ?thesis
    unfolding config_get_def get_execution_context_def
  proof (simp add: assms(1), rule wp_mono [OF found], goal_cases)
    case (1 res w1)
    then obtain m where m: "res = Some m" "dget0 m ''value'' = PStr s" "dget0 m ''type'' = PStr t" and w1: "env_rows E w1 = env_rows E w" "P w1"
      by (auto simp: typed_model_def dget_def)
    show ?case unfolding m option.case by (rule wp_mono [OF assms(6) [OF w1]]) (auto split: exn.splits)
  qed auto
qed

lemma wp_config_set:
  assumes "get_scoped_repo ctx org_id = Inr r"
  shows "wp (config_set E (Some ctx) key v org_id)
    (\<lambda>_ w'. \<exists>t s e. stored_form E v = Inr (t, s) \<and> config_row (env_rows E w') (sr_scope r) key = Some e
       \<and> typed_row e s (config_type_value t)) (\<lambda>_ _. True) w"
proof (cases "stored_form E v")
  case (Inr ts)
  obtain t s where ts: "ts = (t, s)" by fastforce
  show ?thesis
    unfolding config_set_def get_execution_context_def
    by (simp add: assms Inr ts) (rule wp_mono [OF wp_set_typed [OF scoped_repo_on_config [OF assms]]],
      auto simp: config_row_def visible_def put_row_apply)
qed (simp add: config_set_def get_execution_context_def assms)

end

section \<open>Secrets behind configuration\<close>

text \<open>The type of the value that an entry of type \<open>t\<close> stands for.\<close>

definition typed_value :: "string \<Rightarrow> pyval \<Rightarrow> bool" where
  "typed_value t v \<longleftrightarrow> (t = ''int'' \<longrightarrow> (\<exists>i. v = PInt i)) \<and> (t = ''bool'' \<longrightarrow> (\<exists>b. v = PBool b))
     \<and> (t \<in> {''string'', ''secret_ref''} \<longrightarrow> (\<exists>s. v = PStr s))"

lemma entry_value_kinds:
  "entry_value E sec ''secret_ref'' s = Some v \<Longrightarrow> \<exists>x. v = PStr x" "entry_value E sec ''string'' s = Some v \<Longrightarrow> \<exists>x. v = PStr x"
  "entry_value E sec ''int'' s = Some v \<Longrightarrow> \<exists>i. v = PInt i" "entry_value E sec ''bool'' s = Some v \<Longrightarrow> \<exists>b. v = PBool b"
  by (simp add: entry_value_def, blast)+

lemma entry_value_typed:
  assumes "entry_value E sec t s = Some v" shows "typed_value t v"
  unfolding typed_value_def
  by (insert assms, intro conjI impI; (elim insertE emptyE)?; hypsubst; erule entry_value_kinds)

context key_vault
begin

lemma stays_get_config: "stays (\<lambda>w. secrets w = v) (Config_Repository.get_config E r key fb)"
  unfolding Config_Repository.get_config_def get_with_fallback_def get_by_id_def get_entity_def config_entity_to_model_def updated_at_def
    Let_def
  by (intro stays_intros)+

lemma stays_set_config: "stays (\<lambda>w. secrets w = v) (set_config E r key x t d by')"
  unfolding set_config_def repo_upsert_def upsert_entity_def config_entity_to_model_def updated_at_def Let_def
  by (intro stays_intros)+

end

context vault_maker
begin

lemma wp_config_get_value:
  assumes "get_scoped_repo ctx org_id = Inr r" and "config_row (env_rows E w) (sr_scope r) key = Some e" and "typed_row e s t"
  shows "wp (config_get E mk (Some ctx) key org_id d)
    (\<lambda>v w'. entry_value E (secrets w) t s = Some v \<and> secrets w' = secrets w \<and> env_rows E w' = env_rows E w) (\<lambda>_ _. True) w"
proof (rule wp_config_get [where P = "\<lambda>w'. secrets w' = secrets w", OF assms stays_get_config refl], goal_cases)
  case (1 w1)
  let ?data = "[key \<mapsto> PDict [(''value'', PStr s), (''type'', PStr t)]]"
  show ?case
    by (rule wp_mono [OF wp_resolve_config [of _ ?data key s t, OF resolver_client]]) (use 1 in auto)
qed

end

text \<open>A stored inline secret: \<open>v\<close> is in the vault under the name that the row holds, and nothing else has changed.\<close>

definition inline_stored :: "'w env \<Rightarrow> ('w \<Rightarrow> string \<rightharpoonup> string) \<Rightarrow> string \<Rightarrow> string \<Rightarrow> string \<Rightarrow> 'w \<Rightarrow> 'w \<Rightarrow> bool" where
  "inline_stored E secrets sc key v w w' \<longleftrightarrow> (\<exists>n e. secrets w' = (secrets w)(n \<mapsto> v) \<and> typed_row e n ''secret_ref''
     \<and> env_rows E w' ''Config'' = (env_rows E w ''Config'')((sc, config_key key) \<mapsto> e))"

definition answered :: "('w \<Rightarrow> bool) \<Rightarrow> http_response \<Rightarrow> 'w \<Rightarrow> bool" where
  "answered P response w \<longleftrightarrow> (fst response \<in> {200, 201} \<longrightarrow> P w)"

lemma answered_errors [simp]: "answered P (config_errors message x) w" "answered P (inline_secret_failed x) w"
  by (auto simp: answered_def config_errors_def inline_secret_failed_def invalid_request_def internal_error_def error_response_def
      split: exn.splits)

context vault_maker
begin

lemma wp_secret_target:
  "wp (secret_target E ctx r existing) (\<lambda>_ w'. secrets w' = secrets w \<and> env_rows E w' = env_rows E w) (\<lambda>_ _. True) w"
proof -
  have "wp (generate_secret_name E sc k p) (\<lambda>_ w'. secrets w' = secrets w \<and> env_rows E w' = env_rows E w) (\<lambda>_ _. True) w" for sc k p
    using tables_keep_secrets(8) uuid4_rows [of w]
    by (auto simp: generate_secret_name_def Let_def wp_def uuid4_def py_run_defs keeps_iff split: prod.splits)
  then show ?thesis by (auto simp: secret_target_def split: option.splits)
qed

lemma wp_store_inline_secret:
  assumes "scq_value r = Some v" "v \<noteq> []"
  shows "wp (store_inline_secret E mk ctx r existing)
    (\<lambda>n w'. secrets w' = (secrets w)(n \<mapsto> v) \<and> env_rows E w' = env_rows E w) (\<lambda>_ _. True) w"
proof (cases "keyvault_client E mk None")
  case (Inr kv)
  then obtain u where kv: "kv = \<lparr>kv_vault_url = u, kv_client = Some c\<rparr>" using maker_client by blast
  have v: "str_or (scq_value r) [] = v" using assms by (simp add: str_or_def)
  show ?thesis
    unfolding store_inline_secret_def Inr kv v wp_bind wp_lift wp_then sum.case keyvault.select_convs option.case
  proof (rule wp_mono [OF wp_secret_target], goal_cases)
    case (1 n w1)
    then show ?case by (intro wp_mono [OF wp_conj [OF secret_set keeps_wp [OF vault_keeps_rows(1)]]]) auto
  qed simp
qed (simp add: store_inline_secret_def)

lemma wp_write_config:
  assumes "config_repository (Some ctx) = Inr rp"
  shows "wp (write_config E ctx rp r n status)
    (\<lambda>_ w'. secrets w' = secrets w \<and> (\<exists>e. typed_row e n (config_type_value (scq_type r))
       \<and> env_rows E w' ''Config'' = (env_rows E w ''Config'')((ctx_scope ctx, config_key (scq_key r)) \<mapsto> e))) (\<lambda>_ _. True) w"
proof -
  have rp: "on_config rp" "sr_scope rp = ctx_scope ctx"
    using assms by (auto simp: config_repository_def scoped_repository_def on_config_def)
  show ?thesis
    unfolding write_config_def wp_bind wp_then log_config_event_def
  proof (rule wp_mono [OF wp_conj [OF wp_set_typed [OF rp(1)] stays_wp [OF stays_set_config refl]]], goal_cases)
    case (1 m w1)
    then show ?case by (intro wp_system_log_secrets) (auto simp: rp(2) put_row_apply fun_eq_iff)
  qed simp
qed

lemma wp_set_inline_secret:
  assumes "parse_set_config E kw = Inr r" and "scq_type r = SECRET_REF" and "scq_value r = Some v" "v \<noteq> []"
  shows "wp (set_config_handler E mk ctx (Inr kw))
    (answered (inline_stored E secrets (ctx_scope ctx) (scq_key r) v w)) (\<lambda>_ _. True) w"
proof -
  obtain rp where rp: "config_repository (Some ctx) = Inr rp" by (simp add: config_repository_def scoped_repository_def)
  have on: "on_config rp" using rp by (auto simp: config_repository_def scoped_repository_def on_config_def)
  have stored: "config_text E mk ctx r existing = py_bind (py_attempt (store_inline_secret E mk ctx r existing)) (\<lambda>res. case res of
      Inl x \<Rightarrow> ret (Inl (inline_secret_failed x)) | Inr n \<Rightarrow> ret (Inr n))" for existing
    using assms(2-4) by (simp add: config_text_def)
  have written: "wp (write_config E ctx rp r n st) (answered (inline_stored E secrets (ctx_scope ctx) (scq_key r) v w)) (\<lambda>_ _. True) w2"
    if "secrets w2 = (secrets w)(n \<mapsto> v)" "env_rows E w2 = env_rows E w" for n st w2
    by (rule wp_mono [OF wp_write_config [OF rp]]) (use that assms(2) in \<open>auto simp: answered_def inline_stored_def\<close>)
  have store: "wp (config_text E mk ctx r existing) (case_sum (answered (inline_stored E secrets (ctx_scope ctx) (scq_key r) v w))
      (\<lambda>n. wp (write_config E ctx rp r n st) (answered (inline_stored E secrets (ctx_scope ctx) (scq_key r) v w)) (\<lambda>_ _. True)))
      (\<lambda>_ _. True) w1"
    if "secrets w1 = secrets w" "env_rows E w1 = env_rows E w" for existing st w1
    unfolding stored wp_bind wp_attempt
    by (rule wp_mono [OF wp_store_inline_secret [OF assms(3,4)]]) (use that in \<open>auto intro: written\<close>)
  note looked_up = wp_conj [OF wp_get_config [OF on, of "scq_key r" False w] stays_wp [OF stays_get_config refl]]
  show ?thesis
    unfolding set_config_handler_def wp_catch
    by (simp add: assms(1) rp) (rule wp_mono [OF looked_up], auto intro!: store)
qed

end

section \<open>Properties\<close>


text \<open>An administrator of another scope reads the negative number that a member of the organization stored.\<close>

definition root_context :: exec_context where
  "root_context = (member_ctx ''acme'')\<lparr>ctx_scope := ''GLOBAL'', ctx_organization := None, ctx_is_platform_admin := True\<rparr>"

definition no_vault :: "'w client_maker" where
  "no_vault = (\<lambda>_. Inl (ValueError ''no vault''))"


text \<open>
  C34: types of configuration. What \<open>config.get\<close> answers for a stored entry, whether the scope's or the global one, is
  the value its type says: an integer, a boolean, what the JSON library reads, the secret of that name, or the text
  itself. Reading changes neither tables nor secrets.
\<close>

theorem config_get_typed:
  assumes "vault_maker E c secrets mk" and "get_scoped_repo ctx org_id = Inr r"
    and "config_row (env_rows E w) (sr_scope r) key = Some e" and "typed_row e s t"
    and run: "config_get E mk (Some ctx) key org_id d w = (Inr v, w')"
  shows "entry_value E (secrets w) t s = Some v \<and> typed_value t v \<and> secrets w' = secrets w \<and> env_rows E w' = env_rows E w"
  using wp_Inr [OF vault_maker.wp_config_get_value [OF assms(1-4)] run] entry_value_typed by blast


text \<open>The token of an organization, and a global limit of requests.\<close>

definition token_request :: entity where
  "token_request = [''key'' \<mapsto> PStr ''api_token'', ''value'' \<mapsto> PStr ''s3cret'', ''type'' \<mapsto> PStr ''secret_ref'',
     ''secretRef'' \<mapsto> PNone, ''description'' \<mapsto> PNone]"

definition vault_world :: vault_mem where
  "vault_world = \<lparr>mem_rows = [((''Config'', (''GLOBAL'', ''config:limit'')),
       [''PartitionKey'' \<mapsto> PStr ''GLOBAL'', ''RowKey'' \<mapsto> PStr ''config:limit'', ''Value'' \<mapsto> PStr ''250'', ''Type'' \<mapsto> PStr ''int''])],
     mem_clock = 0, mem_ids = 0, mem_faults = [], mem_files = [], mem_users = Map.empty, mem_orgs = Map.empty, vm_secrets = []\<rparr>"

theorem config_get_typed_witness:
  "\<exists>w'. config_get mem_env (\<lambda>_. Inr mem_client) (Some (member_ctx ''acme'')) ''limit'' None PNone vault_world = (Inr (PInt 250), w')"
proof -
  let ?get = "config_get mem_env (\<lambda>_. Inr mem_client) (Some (member_ctx ''acme'')) ''limit'' None PNone vault_world"
  have "case ?get of (Inr _, _) \<Rightarrow> True | _ \<Rightarrow> False" by code_simp
  then obtain v w' where run: "?get = (Inr v, w')" by (auto split: prod.splits sum.splits)
  obtain r where r: "get_scoped_repo (member_ctx ''acme'') None = Inr r" "sr_scope r = ''acme''"
    by (simp add: get_scoped_repo_def config_repository_def scoped_repository_def member_ctx_def ctx_org_id_def)
  have row: "config_row (env_rows mem_env vault_world) (sr_scope r) ''limit'' = Some [''PartitionKey'' \<mapsto> PStr ''GLOBAL'',
      ''RowKey'' \<mapsto> PStr ''config:limit'', ''Value'' \<mapsto> PStr ''250'', ''Type'' \<mapsto> PStr ''int'']"
    by (simp add: r(2) config_row_def visible_def mem_view_def vault_world_def config_key_def entity_key_def)
  have "entry_value (mem_env :: vault_mem env) (map_of (vm_secrets vault_world)) ''int'' ''250'' = Some v"
    using config_get_typed [OF mem_maker.vault_maker_axioms r(1) row _ run, of "''250''" "''int''"] by (simp add: typed_row_def dget_def)
  moreover have "py_int ''250'' = Some 250" by code_simp
  ultimately show ?thesis using run by (simp add: entry_value_def)
qed


end
