(* ===== verification/Role_Handlers.thy ===== *)
theory Role_Handlers
  imports Config_Sdk
begin

text \<open>
  \<open>shared/handlers/roles_handlers.py\<close>, through which administrators manage roles and give them to users and forms,
  and the roles of workflows, \<open>bifrost/roles.py\<close>.
\<close>

section \<open>Requests and responses\<close>

definition str_items :: "pyval \<Rightarrow> string list" where
  "str_items v = (case v of PList xs \<Rightarrow> List.map_filter opt_str xs | _ \<Rightarrow> [])"

definition role_request :: "'w env \<Rightarrow> entity \<Rightarrow> exn + create_role_request" where
  "role_request E kw = map_sum id (\<lambda>m. \<lparr>crr_name = fstr E (dget0 m ''name''), crr_description = opt_str (dget0 m ''description'')\<rparr>)
     (env_validate E ''CreateRoleRequest'' kw)"

definition role_updates :: "'w env \<Rightarrow> entity \<Rightarrow> exn + update_role_request" where
  "role_updates E kw = map_sum id (\<lambda>m. \<lparr>urr_name = opt_str (dget0 m ''name''), urr_description = opt_str (dget0 m ''description'')\<rparr>)
     (env_validate E ''UpdateRoleRequest'' kw)"

definition assign_users_request :: "'w env \<Rightarrow> entity \<Rightarrow> exn + string list" where
  "assign_users_request E kw = map_sum id (\<lambda>m. str_items (dget0 m ''userIds'')) (env_validate E ''AssignUsersToRoleRequest'' kw)"

definition assign_forms_request :: "'w env \<Rightarrow> entity \<Rightarrow> exn + string list" where
  "assign_forms_request E kw = map_sum id (\<lambda>m. str_items (dget0 m ''formIds'')) (env_validate E ''AssignFormsToRoleRequest'' kw)"

definition role_json :: "model \<Rightarrow> pyval" where
  "role_json = fields_json [''id'', ''name'', ''description'', ''isActive'', ''createdBy'', ''createdAt'', ''updatedAt'']"

text \<open>\<open>context.org_id or "GLOBAL"\<close>.\<close>

definition org_or_global :: "exec_context \<Rightarrow> string" where
  "org_or_global ctx = str_or (ctx_org_id ctx) ''GLOBAL''"

definition ids_json :: "string list \<Rightarrow> pyval" where
  "ids_json ids = PList (map PStr ids)"

definition role_event :: "'w env \<Rightarrow> exec_context \<Rightarrow> role_action \<Rightarrow> string \<Rightarrow> string \<Rightarrow> (string \<times> pyval) list \<Rightarrow> ('w, string) py" where
  "role_event E ctx action role_id role_name ds = log_role_event E action role_id role_name (ctx_user_id ctx) (display_name ctx) None ds"

definition role_failure :: "'w env \<Rightarrow> exec_context \<Rightarrow> string \<Rightarrow> string \<Rightarrow> (string \<times> pyval) list \<Rightarrow> exn \<Rightarrow> ('w, http_response) py" where
  "role_failure E ctx message response ds x = py_then
     (system_log E ''role'' ''error'' (message @ '': '' @ exn_msg x) (ctx_user_id ctx) (Some (display_name ctx))
       (PDict (ds @ [(''error'', PStr (exn_msg x)), (''error_type'', PStr (exn_name x))])))
     (ret (internal_error response))"

section \<open>Roles\<close>

definition list_roles_handler :: "'w env \<Rightarrow> exec_context \<Rightarrow> ('w, http_response) py" where
  "list_roles_handler E ctx = py_catch
     (py_bind (list_roles E (role_repo None) (org_or_global ctx) True) (\<lambda>roles.
      py_bind (lift (newest_by ''createdAt'' roles)) (\<lambda>roles. ret (200, PList (map role_json roles)))))
     (\<lambda>_. ret (internal_error ''Failed to list roles''))"

definition create_role_handler :: "'w env \<Rightarrow> exec_context \<Rightarrow> exn + entity \<Rightarrow> ('w, http_response) py" where
  "create_role_handler E ctx body = py_catch
     (py_bind (lift (ebind body (role_request E))) (\<lambda>request.
      py_bind (create_role E (role_repo None) request (org_or_global ctx) (ctx_user_id ctx)) (\<lambda>role.
      py_then (role_event E ctx Create_Role (fstr E (dget0 role ''id'')) (fstr E (dget0 role ''name'')) [])
        (ret (201, role_json role)))))
     (\<lambda>x. if is_validation_error x then ret invalid_request
       else case x of ValueError _ \<Rightarrow> ret (error_response 400 ''BadRequest'' ''Invalid JSON in request body'')
       | _ \<Rightarrow> role_failure E ctx ''Failed to create role'' ''Failed to create role'' [] x)"

definition update_role_handler :: "'w env \<Rightarrow> exec_context \<Rightarrow> string \<Rightarrow> exn + entity \<Rightarrow> ('w, http_response) py" where
  "update_role_handler E ctx role_id body = py_catch
     (py_bind (lift (ebind body (role_updates E))) (\<lambda>request.
      py_bind (update_role E (role_repo None) role_id (org_or_global ctx) request) (\<lambda>role.
      py_then (role_event E ctx Update_Role (fstr E (dget0 role ''id'')) (fstr E (dget0 role ''name'')) [])
        (ret (200, role_json role)))))
     (\<lambda>x. if is_validation_error x then ret invalid_request
       else role_failure E ctx (''Failed to update role '' @ role_id) ''Failed to update role'' [(''role_id'', PStr role_id)] x)"

definition delete_role_handler :: "'w env \<Rightarrow> exec_context \<Rightarrow> string \<Rightarrow> ('w, http_response) py" where
  "delete_role_handler E ctx role_id = py_catch
     (py_then (delete_role E (role_repo None) role_id (org_or_global ctx))
      (py_then (role_event E ctx Delete_Role role_id role_id []) (ret (204, PNone))))
     (role_failure E ctx (''Failed to delete role '' @ role_id) ''Failed to delete role'' [(''role_id'', PStr role_id)])"

section \<open>Users of roles\<close>

definition get_role_users_handler :: "'w env \<Rightarrow> string \<Rightarrow> ('w, http_response) py" where
  "get_role_users_handler E role_id = py_catch
     (py_bind (get_role_user_ids E role_id) (\<lambda>ids. ret (200, PDict [(''userIds'', PList ids)])))
     (\<lambda>_. ret (internal_error ''Failed to get role users''))"

text \<open>The first user that is unknown or a platform administrator ends the request.\<close>

fun refused_user :: "'w env \<Rightarrow> string list \<Rightarrow> ('w, http_response option) py" where
  "refused_user E [] = ret None"
| "refused_user E (user_id # ids) = py_bind (get_user E (user_repo None) user_id) (\<lambda>user. case user of
     None \<Rightarrow> ret (Some (error_response 400 ''BadRequest'' (''User '' @ user_id @ '' not found'')))
   | Some u \<Rightarrow> if truthy (dget0 u ''isPlatformAdmin'')
       then ret (Some (error_response 400 ''BadRequest'' (''Cannot assign roles to Platform Administrator: '' @ user_id)))
       else refused_user E ids)"

definition role_not_found :: "string \<Rightarrow> http_response" where
  "role_not_found role_id = error_response 404 ''NotFound'' (''Role '' @ role_id @ '' not found'')"

definition assign_users_to_role_handler :: "'w env \<Rightarrow> exec_context \<Rightarrow> string \<Rightarrow> exn + entity \<Rightarrow> ('w, http_response) py" where
  "assign_users_to_role_handler E ctx role_id body = py_catch
     (py_bind (lift (ebind body (assign_users_request E))) (\<lambda>ids.
      py_bind (get_role E (role_repo None) role_id (org_or_global ctx)) (\<lambda>found. case found of
        None \<Rightarrow> ret (role_not_found role_id)
      | Some role \<Rightarrow> py_bind (refused_user E ids) (\<lambda>refused. case refused of
          Some response \<Rightarrow> ret response
        | None \<Rightarrow> py_then (assign_users_to_role E role_id ids (ctx_user_id ctx))
            (py_then (role_event E ctx Assign_Users role_id (fstr E (dget0 role ''name'')) [(''user_ids'', ids_json ids)])
              (ret (200, PDict [(''message'', PStr (''Assigned '' @ str_nat (length ids) @ '' users to role''))])))))))
     (\<lambda>x. if is_validation_error x then ret invalid_request
       else role_failure E ctx (''Failed to assign users to role '' @ role_id) ''Failed to assign users to role''
         [(''role_id'', PStr role_id)] x)"

definition remove_user_from_role_handler :: "'w env \<Rightarrow> exec_context \<Rightarrow> string \<Rightarrow> string \<Rightarrow> ('w, http_response) py" where
  "remove_user_from_role_handler E ctx role_id user_id =
     (if role_id = [] then ret (error_response 400 ''BadRequest'' ''Role ID is required'')
      else if user_id = [] then ret (error_response 400 ''BadRequest'' ''User ID is required'')
      else py_catch
        (py_then (remove_user_from_role E role_id user_id)
          (py_then (role_event E ctx Remove_User role_id role_id [(''user_id'', PStr user_id)]) (ret (204, PNone))))
        (role_failure E ctx (''Failed to remove user from role '' @ role_id) ''Failed to remove user from role''
          [(''role_id'', PStr role_id), (''user_id'', PStr user_id)]))"

section \<open>Forms of roles\<close>

definition get_role_forms_handler :: "'w env \<Rightarrow> string \<Rightarrow> ('w, http_response) py" where
  "get_role_forms_handler E role_id = py_catch
     (py_bind (get_role_form_ids E role_id) (\<lambda>ids. ret (200, PDict [(''formIds'', PList ids)])))
     (\<lambda>_. ret (internal_error ''Failed to get role forms''))"

definition assign_forms_to_role_handler :: "'w env \<Rightarrow> exec_context \<Rightarrow> string \<Rightarrow> exn + entity \<Rightarrow> ('w, http_response) py" where
  "assign_forms_to_role_handler E ctx role_id body = py_catch
     (py_bind (lift (ebind body (assign_forms_request E))) (\<lambda>ids.
      py_bind (get_role E (role_repo None) role_id (org_or_global ctx)) (\<lambda>found. case found of
        None \<Rightarrow> ret (role_not_found role_id)
      | Some role \<Rightarrow> py_then (assign_forms_to_role E role_id ids (ctx_user_id ctx))
          (py_then (role_event E ctx Assign_Forms role_id (fstr E (dget0 role ''name'')) [(''form_ids'', ids_json ids)])
            (ret (200, PDict [(''message'', PStr (''Assigned '' @ str_nat (length ids) @ '' forms to role''))]))))))
     (\<lambda>x. if is_validation_error x then ret invalid_request
       else role_failure E ctx (''Failed to assign forms to role '' @ role_id) ''Failed to assign forms to role''
         [(''role_id'', PStr role_id)] x)"

definition remove_form_from_role_handler :: "'w env \<Rightarrow> exec_context \<Rightarrow> string \<Rightarrow> string \<Rightarrow> ('w, http_response) py" where
  "remove_form_from_role_handler E ctx role_id form_id =
     (if role_id = [] then ret (error_response 400 ''BadRequest'' ''Role ID is required'')
      else if form_id = [] then ret (error_response 400 ''BadRequest'' ''Form ID is required'')
      else py_catch
        (py_then (remove_form_from_role E role_id form_id)
          (py_then (role_event E ctx Remove_Form role_id role_id [(''form_id'', PStr form_id)]) (ret (204, PNone))))
        (role_failure E ctx (''Failed to remove form from role '' @ role_id) ''Failed to remove form from role''
          [(''role_id'', PStr role_id), (''form_id'', PStr form_id)]))"

section \<open>Roles of workflows\<close>

text \<open>
  \<open>bifrost/roles.py\<close> hands \<open>context.org_id\<close> to the repository as it is; \<open>none\<close> is what the client of the tables
  raises for a partition that is \<open>None\<close>. Three calls use names of arguments the repository does not have.
\<close>

definition unexpected_argument :: "string \<Rightarrow> exn" where
  "unexpected_argument f = TypeError (f @ ''() got an unexpected keyword argument'')"

definition role_of_org :: "'w env \<Rightarrow> exn \<Rightarrow> exec_context \<Rightarrow> string \<Rightarrow> ('w, model) py" where
  "role_of_org E none ctx role_id = py_bind (case ctx_org_id ctx of
       None \<Rightarrow> raise none
     | Some org \<Rightarrow> get_role E (role_repo (Some ctx)) role_id org) (\<lambda>found. case found of
     None \<Rightarrow> raise (ValueError (''Role not found: '' @ role_id)) | Some role \<Rightarrow> ret role)"

definition roles_create :: "'w env \<Rightarrow> exn \<Rightarrow> exec_context option \<Rightarrow> string \<Rightarrow> string \<Rightarrow> string list option \<Rightarrow> ('w, model) py" where
  "roles_create E none cv name description permissions =
     py_bind (lift (require_permission cv ''roles.create'')) (\<lambda>ctx.
     py_bind (lift (role_request E [''name'' \<mapsto> PStr name, ''description'' \<mapsto> PStr description,
         ''permissions'' \<mapsto> ids_json (case permissions of None \<Rightarrow> [] | Some ps \<Rightarrow> ps)])) (\<lambda>request.
     case ctx_org_id ctx of
       None \<Rightarrow> py_then (generate_entity_id E) (py_then (utcnow E) (raise none))
     | Some org \<Rightarrow> create_role E (role_repo (Some ctx)) request org (ctx_user_id ctx)))"

definition roles_get :: "'w env \<Rightarrow> exn \<Rightarrow> exec_context option \<Rightarrow> string \<Rightarrow> ('w, model) py" where
  "roles_get E none cv role_id = py_bind (lift (get_execution_context cv)) (\<lambda>ctx. role_of_org E none ctx role_id)"

text \<open>Here \<open>None\<close> becomes a part of the query.\<close>

definition roles_list :: "'w env \<Rightarrow> exec_context option \<Rightarrow> ('w, model list) py" where
  "roles_list E cv = py_bind (lift (get_execution_context cv)) (\<lambda>ctx.
     list_roles E (role_repo (Some ctx)) (case ctx_org_id ctx of None \<Rightarrow> ''None'' | Some org \<Rightarrow> org) True)"

definition roles_update :: "'w env \<Rightarrow> exec_context option \<Rightarrow> string \<Rightarrow> entity \<Rightarrow> ('w, model) py" where
  "roles_update E cv role_id updates = py_bind (lift (require_permission cv ''roles.update'')) (\<lambda>ctx.
     py_then (lift (role_updates E updates)) (raise (unexpected_argument ''update_role'')))"

definition roles_delete :: "'w env \<Rightarrow> exn \<Rightarrow> exec_context option \<Rightarrow> string \<Rightarrow> ('w, unit) py" where
  "roles_delete E none cv role_id = py_bind (lift (require_permission cv ''roles.delete'')) (\<lambda>ctx.
     py_bind (case ctx_org_id ctx of None \<Rightarrow> raise none | Some org \<Rightarrow> delete_role E (role_repo (Some ctx)) role_id org) (\<lambda>success.
     if \<not> success then raise (ValueError (''Role not found: '' @ role_id)) else ret ()))"

definition roles_list_users :: "'w env \<Rightarrow> exn \<Rightarrow> exec_context option \<Rightarrow> string \<Rightarrow> ('w, pyval list) py" where
  "roles_list_users E none cv role_id = py_bind (lift (get_execution_context cv)) (\<lambda>ctx.
     py_then (role_of_org E none ctx role_id) (get_role_user_ids E role_id))"

definition roles_list_forms :: "'w env \<Rightarrow> exn \<Rightarrow> exec_context option \<Rightarrow> string \<Rightarrow> ('w, pyval list) py" where
  "roles_list_forms E none cv role_id = py_bind (lift (get_execution_context cv)) (\<lambda>ctx.
     py_then (role_of_org E none ctx role_id) (get_role_form_ids E role_id))"

definition roles_assign_users :: "'w env \<Rightarrow> exn \<Rightarrow> exec_context option \<Rightarrow> string \<Rightarrow> string list \<Rightarrow> ('w, unit) py" where
  "roles_assign_users E none cv role_id user_ids = py_bind (lift (require_permission cv ''roles.assign_users'')) (\<lambda>ctx.
     py_then (role_of_org E none ctx role_id) (raise (unexpected_argument ''assign_users_to_role'')))"

definition roles_assign_forms :: "'w env \<Rightarrow> exn \<Rightarrow> exec_context option \<Rightarrow> string \<Rightarrow> string list \<Rightarrow> ('w, unit) py" where
  "roles_assign_forms E none cv role_id form_ids = py_bind (lift (require_permission cv ''roles.assign_forms'')) (\<lambda>ctx.
     py_then (role_of_org E none ctx role_id) (raise (unexpected_argument ''assign_forms_to_role'')))"

section \<open>Lemmas\<close>

text \<open>What changed beside the log of platform events.\<close>

definition same_but_log :: "tables \<Rightarrow> tables \<Rightarrow> bool" where
  "same_but_log R R' \<longleftrightarrow> (\<forall>t. t \<noteq> ''SystemLogs'' \<longrightarrow> R' t = R t)"

lemma same_but_log_refl [simp]: "same_but_log R R"
  by (simp add: same_but_log_def)

definition role_added :: "string \<Rightarrow> string set \<Rightarrow> tables \<Rightarrow> tables \<Rightarrow> bool" where
  "role_added rid S R R' \<longleftrightarrow> (\<forall>t k. t \<noteq> ''SystemLogs'' \<longrightarrow> R' t k \<noteq> R t k \<longrightarrow>
     t = ''Relationships'' \<and> R t k = None \<and> k \<in> (\<lambda>u. (''GLOBAL'', user_role_key u rid)) ` S)"

lemma role_added_refl [simp]: "role_added rid S R R"
  by (simp add: role_added_def)

lemma role_added_grows:
  "grows ''Relationships'' ((\<lambda>u. (''GLOBAL'', user_role_key u rid)) ` S) R R' \<Longrightarrow> role_added rid S R R'"
  unfolding role_added_def grows_def by blast

lemma role_added_log: "role_added rid S R R' \<Longrightarrow> same_but_log R' R'' \<Longrightarrow> role_added rid S R R''"
  by (simp add: role_added_def same_but_log_def)

text \<open>A user who may be given roles: on record, and not an administrator.\<close>

definition may_have_roles :: "tables \<Rightarrow> string \<Rightarrow> bool" where
  "may_have_roles R u \<longleftrightarrow> (\<exists>e. R ''Entities'' (''GLOBAL'', user_key u) = Some e \<and> e ''IsPlatformAdmin'' \<noteq> Some (PBool True))"

text \<open>Boolean fields of a user pass unchanged.\<close>

locale user_models = table_sdk E for E :: "'w env" +
  assumes validate_admin: "env_validate E ''User'' kw = Inr v \<Longrightarrow> kw ''isPlatformAdmin'' = Some (PBool b)
    \<Longrightarrow> v ''isPlatformAdmin'' = Some (PBool b)"

context table_sdk
begin

lemma wp_log_only:
  "wp (system_log E c l m b n ds) (\<lambda>_ w'. same_but_log (env_rows E w) (env_rows E w')) (\<lambda>_ w'. same_but_log (env_rows E w) (env_rows E w')) w"
  by (rule wp_system_log) (auto simp: same_but_log_def dest: grows_frame)

lemma stays_log:
  assumes "\<And>w w'. I w \<Longrightarrow> same_but_log (env_rows E w) (env_rows E w') \<Longrightarrow> I w'"
  shows "stays I (system_log E c l m b n ds)"
  unfolding stays_def
proof (intro allI impI)
  fix w
  assume "I w"
  then show "I (snd (system_log E c l m b n ds w))"
    using wp_log_only [of c l m b n ds w] assms by (auto simp: wp_def split: prod.splits sum.splits)
qed

end

context user_models
begin

lemma wp_get_user:
  "wp (get_user E (user_repo None) u) (\<lambda>res w'. env_rows E w' = env_rows E w
      \<and> (\<forall>m. res = Some m \<longrightarrow> \<not> truthy (dget0 m ''isPlatformAdmin'') \<longrightarrow> may_have_roles (env_rows E w) u))
    (\<lambda>_ w'. env_rows E w' = env_rows E w) w"
  unfolding get_user_def get_by_id_def wp_bind
proof (rule wp_get_entity, goal_cases)
  case (1 e d w')
  have t: "svc_table (repo_service (user_repo None)) = ''Entities''"
    by (simp add: repo_service_def user_repo_def)
  have "may_have_roles (env_rows E w) u"
    if "env_validate E ''User'' kw = Inr m" "kw ''isPlatformAdmin'' = Some (dget d ''IsPlatformAdmin'' (PBool False))"
      "\<not> truthy (dget0 m ''isPlatformAdmin'')" for kw m
  proof -
    have "e ''IsPlatformAdmin'' \<noteq> Some (PBool True)"
    proof
      assume "e ''IsPlatformAdmin'' = Some (PBool True)"
      then have "d ''IsPlatformAdmin'' = Some (PBool True)"
        using 1(3) [of "''IsPlatformAdmin''"] by (simp add: deserialize_datetime_fields_def)
      with validate_admin [OF that(1), of True] that(2,3) show False by (simp add: dget_def)
    qed
    then show ?thesis using 1(2) by (auto simp: may_have_roles_def t)
  qed
  then show ?case
    unfolding user_entity_to_model_def option.case wp_bind
    by (intro wp_utcnow) (auto simp: 1(1) split: sum.splits)
qed simp_all

lemma wp_refused_user:
  "wp (refused_user E ids) (\<lambda>res w'. env_rows E w' = env_rows E w \<and> (res = None \<longrightarrow> (\<forall>u \<in> set ids. may_have_roles (env_rows E w) u)))
    (\<lambda>_ w'. env_rows E w' = env_rows E w) w"
proof (induction ids arbitrary: w)
  case (Cons u ids)
  show ?case
    unfolding refused_user.simps wp_bind
  proof (rule wp_mono [OF wp_get_user], goal_cases)
    case (1 res w1)
    then show ?case using Cons.IH [of w1] by (auto split: option.split intro!: wp_mono [OF Cons.IH])
  qed simp
qed simp

lemma wp_get_role:
  "wp (get_role E r rid org) (\<lambda>_ w'. env_rows E w' = env_rows E w) (\<lambda>_ w'. env_rows E w' = env_rows E w) w"
  unfolding get_role_def get_by_id_def wp_bind
  by (rule wp_get_entity) (auto intro!: wp_mono [OF wp_role_model [OF refl]])

lemma wp_assign_users_handler:
  "wp (assign_users_to_role_handler E ctx rid body)
    (\<lambda>_ w'. \<exists>ids. (ids = [] \<or> ebind body (assign_users_request E) = Inr ids \<and> (\<forall>v \<in> set ids. may_have_roles (env_rows E w) v))
       \<and> role_added rid (set ids) (env_rows E w) (env_rows E w'))
    (\<lambda>_ w'. \<exists>ids. (ids = [] \<or> ebind body (assign_users_request E) = Inr ids \<and> (\<forall>v \<in> set ids. may_have_roles (env_rows E w) v))
       \<and> role_added rid (set ids) (env_rows E w) (env_rows E w')) w"
proof -
  let ?fit = "\<lambda>ids. ids = [] \<or> ebind body (assign_users_request E) = Inr ids \<and> (\<forall>v \<in> set ids. may_have_roles (env_rows E w) v)"
  define I where "I w' \<longleftrightarrow> (\<exists>ids. ?fit ids \<and> role_added rid (set ids) (env_rows E w) (env_rows E w'))" for w'
  have same: "I w'" if "env_rows E w' = env_rows E w" for w'
    unfolding I_def using that by (intro exI [of _ "[]"]) simp
  have log: "stays I (system_log E c l m b n ds)" for c l m b n ds
    by (rule stays_log) (auto simp: I_def intro: role_added_log)
  have event: "stays I (role_event E ctx a rid n ds)" "stays I (role_failure E ctx m m' ds' x)" for a n ds m m' ds' x
    unfolding role_event_def log_role_event_def role_failure_def Let_def by (intro stays_intros log)+
  have assign: "wp (assign_users_to_role E rid ids (ctx_user_id ctx)) (\<lambda>_. I) (\<lambda>_. I) w1"
    if "?fit ids" "env_rows E w1 = env_rows E w" for ids w1
    by (rule wp_mono [OF wp_assign_users]) (use that in \<open>auto simp: I_def intro: role_added_grows\<close>)
  have checked: "wp (py_bind (refused_user E ids) (\<lambda>refused. case refused of
          Some response \<Rightarrow> ret response
        | None \<Rightarrow> py_then (assign_users_to_role E rid ids (ctx_user_id ctx))
            (py_then (role_event E ctx Assign_Users rid n [(''user_ids'', ids_json ids)]) (ret out))))
      (\<lambda>_. I) (\<lambda>_. I) w1" if "ebind body (assign_users_request E) = Inr ids" "env_rows E w1 = env_rows E w" for ids n out w1
    unfolding wp_bind
  proof (rule wp_mono [OF wp_refused_user], goal_cases)
    case (1 res w2)
    show ?case
    proof (cases res)
      case None
      then show ?thesis using 1 that
        by (auto intro!: wp_mono [OF assign [of ids w2]] wp_mono [OF stays_wp [OF event(1)]])
    qed (use 1 that in \<open>simp add: same\<close>)
  qed (use that in \<open>simp add: same\<close>)
  have main: "wp (py_bind (lift (ebind body (assign_users_request E))) (\<lambda>ids.
      py_bind (get_role E (role_repo None) rid (org_or_global ctx)) (\<lambda>found. case found of
        None \<Rightarrow> ret (role_not_found rid)
      | Some role \<Rightarrow> py_bind (refused_user E ids) (\<lambda>refused. case refused of
          Some response \<Rightarrow> ret response
        | None \<Rightarrow> py_then (assign_users_to_role E rid ids (ctx_user_id ctx))
            (py_then (role_event E ctx Assign_Users rid (fstr E (dget0 role ''name'')) [(''user_ids'', ids_json ids)])
              (ret (200, PDict [(''message'', PStr (''Assigned '' @ str_nat (length ids) @ '' users to role''))])))))))
      (\<lambda>_. I) (\<lambda>_. I) w"
  proof (cases "ebind body (assign_users_request E)")
    case (Inr ids)
    show ?thesis
      unfolding Inr wp_bind [of "lift _"] wp_lift sum.case wp_bind [of "get_role _ _ _ _"]
    proof (rule wp_mono [OF wp_get_role], goal_cases)
      case (1 found w1)
      then show ?case by (cases found) (simp_all only: option.case wp_ret same checked [OF Inr])
    qed (simp add: same)
  qed (simp add: same)
  have "wp (assign_users_to_role_handler E ctx rid body) (\<lambda>_. I) (\<lambda>_. I) w"
    unfolding assign_users_to_role_handler_def wp_catch
    by (rule wp_mono [OF main]) (auto intro!: stays_wp [OF event(2)])
  then show ?thesis unfolding I_def .
qed

end

interpretation mem: user_models mem_env
  by unfold_locales (simp add: mem_env_def)

section \<open>Properties\<close>

text \<open>
  C15: Through the handler a role is given only to users who are on record and are not platform administrators: when one
  of the users named is not, none gets it, and beside these assignments and the log nothing changes, whatever fails.
\<close>

theorem roles_given_to_fit_users:
  assumes "user_models E" and "assign_users_to_role_handler E ctx rid body w = (r, w')"
    and "t \<noteq> ''SystemLogs''" and "env_rows E w' t k \<noteq> env_rows E w t k"
  shows "t = ''Relationships'' \<and> env_rows E w t k = None \<and> (\<exists>ids u. ebind body (assign_users_request E) = Inr ids
    \<and> u \<in> set ids \<and> k = (''GLOBAL'', user_role_key u rid) \<and> (\<forall>v \<in> set ids. \<exists>e. env_rows E w ''Entities'' (''GLOBAL'', user_key v) = Some e
        \<and> e ''IsPlatformAdmin'' \<noteq> Some (PBool True)))"
proof -
  obtain ids where "ids = [] \<or> ebind body (assign_users_request E) = Inr ids \<and> (\<forall>v \<in> set ids. may_have_roles (env_rows E w) v)"
    and "role_added rid (set ids) (env_rows E w) (env_rows E w')"
    using user_models.wp_assign_users_handler [OF assms(1), of ctx rid body w] assms(2)
    by (cases r) (auto simp: wp_def)
  moreover note this(2) [unfolded role_added_def, rule_format, OF assms(3,4)]
  ultimately show ?thesis by (auto simp: may_have_roles_def)
qed

definition staff_world :: mem where
  "staff_world = \<lparr>mem_rows = [((''Entities'', (''GLOBAL'', role_key ''ops'')),
       [''PartitionKey'' \<mapsto> PStr ''GLOBAL'', ''RowKey'' \<mapsto> PStr (role_key ''ops''), ''Name'' \<mapsto> PStr ''Ops'', ''CreatedBy'' \<mapsto> PStr ''root'']),
     ((''Entities'', (''GLOBAL'', user_key ''ann'')),
       [''PartitionKey'' \<mapsto> PStr ''GLOBAL'', ''RowKey'' \<mapsto> PStr (user_key ''ann''), ''Email'' \<mapsto> PStr ''ann'']),
     ((''Entities'', (''GLOBAL'', user_key ''root'')),
       [''PartitionKey'' \<mapsto> PStr ''GLOBAL'', ''RowKey'' \<mapsto> PStr (user_key ''root''), ''Email'' \<mapsto> PStr ''root'',
        ''IsPlatformAdmin'' \<mapsto> PBool True])],
     mem_clock = 0, mem_ids = 0, mem_faults = [], mem_files = [], mem_users = Map.empty, mem_orgs = Map.empty\<rparr>"

lemma roles_given_to_fit_users_witness:
  "\<exists>e. mem_view staff_world ''Entities'' (''GLOBAL'', user_key ''ann'') = Some e \<and> e ''IsPlatformAdmin'' \<noteq> Some (PBool True)"
proof -
  let ?body = "Inr [''userIds'' \<mapsto> PList [PStr ''ann'']]"
  let ?run = "assign_users_to_role_handler mem_env root_context ''ops'' ?body staff_world"
  have run: "?run = (fst ?run, snd ?run)" by simp
  have "mem_view (snd ?run) ''Relationships'' (''GLOBAL'', user_role_key ''ann'' ''ops'') \<noteq> None"
    by code_simp
  moreover have "mem_view staff_world ''Relationships'' (''GLOBAL'', user_role_key ''ann'' ''ops'') = None" by code_simp
  ultimately have "env_rows mem_env (snd ?run) ''Relationships'' (''GLOBAL'', user_role_key ''ann'' ''ops'')
      \<noteq> env_rows mem_env staff_world ''Relationships'' (''GLOBAL'', user_role_key ''ann'' ''ops'')" by simp
  from roles_given_to_fit_users [OF mem.user_models_axioms run _ this] show ?thesis
    by (auto simp: assign_users_request_def mem_env_def str_items_def List.map_filter_simps opt_str_def dget_def split: sum.splits)
qed

end
