(* ===== verification/Form_Files.thy ===== *)
theory Form_Files
  imports Workspace_Files Organization_Handlers Secret_Naming
begin

text \<open>
  The writing side of \<open>shared/repositories/forms_file.py\<close>: a form is a JSON file of the workspace, which is created,
  overwritten through a temporary file, and archived. Reading is in \<open>Form_Repository\<close>.
\<close>

section \<open>Files by their names\<close>

text \<open>A path as the program hands it to the system, and the entry it leads to; a loop of links is an \<open>OSError\<close>.\<close>

definition abs_path :: "'w disk \<Rightarrow> string \<Rightarrow> path" where
  "abs_path D s = (if is_absolute s then [] else dk_cwd D) @ parts s"

definition real_path :: "'w disk \<Rightarrow> path \<Rightarrow> ('w, path) py" where
  "real_path D p = py_catch (resolve_from D [] (str_path p)) (\<lambda>x. case x of AppError _ _ \<Rightarrow> raise (os_error ''OSError'') | _ \<Rightarrow> raise x)"

definition entry_path :: "'w disk \<Rightarrow> path \<Rightarrow> ('w, path) py" where
  "entry_path D p = py_bind (real_path D (butlast p)) (\<lambda>d. ret (d @ [path_name p]))"

text \<open>\<open>os.replace\<close>, which moves a file over another one at once or not at all.\<close>

definition replace_entry :: "'w disk \<Rightarrow> path \<Rightarrow> path \<Rightarrow> ('w, unit) py" where
  "replace_entry D p q = risky D (\<lambda>_ t. t) (py_bind (py_read (dk_tree D)) (\<lambda>t.
     if node_at t p = None then raise (os_error ''FileNotFoundError'')
     else if node_at t p = Some Dir then raise (os_error ''NotADirectoryError'')
     else if p = q then ret ()
     else case can_open t q of Some x \<Rightarrow> raise x | None \<Rightarrow> change D (\<lambda>t. move_paths p q (remove_paths [q] t))))"

text \<open>The text is made after the file was opened, and emptied, for writing.\<close>

definition write_json :: "'w disk \<Rightarrow> (pyval \<Rightarrow> exn + string) \<Rightarrow> path \<Rightarrow> pyval \<Rightarrow> ('w, unit) py" where
  "write_json D dumps p v = py_bind (real_path D p) (\<lambda>q. case dumps v of
     Inl x \<Rightarrow> py_then (write_bytes D q []) (raise x) | Inr s \<Rightarrow> write_text D q s)"

definition read_json :: "'w env \<Rightarrow> 'w disk \<Rightarrow> path \<Rightarrow> ('w, pyval) py" where
  "read_json E D p = py_bind (read_text D p) (\<lambda>s. case env_loads E s of
     None \<Rightarrow> raise (ValueError ''Expecting value'') | Some v \<Rightarrow> ret v)"

section \<open>Names of form files\<close>

definition slug_char :: "char \<Rightarrow> bool" where
  "slug_char c \<longleftrightarrow> CHR ''a'' \<le> c \<and> c \<le> CHR ''z'' \<or> is_digit c"

text \<open>\<open>re.sub(r'[^a-z0-9]+', '-', s)\<close>; \<open>gap\<close> says that the character before was replaced.\<close>

fun slugify :: "bool \<Rightarrow> string \<Rightarrow> string" where
  "slugify gap [] = []"
| "slugify gap (c # s) = (if slug_char c then c # slugify False s else if gap then slugify True s else CHR ''-'' # slugify True s)"

definition generate_form_filename :: "'w env \<Rightarrow> string \<Rightarrow> ('w, string) py" where
  "generate_form_filename E form_name = (let slug = strip_dashes (slugify False (lower form_name)) in
     py_bind (utcnow E) (\<lambda>now. ret (take 50 slug @ ''-'' @ take 6 (env_strftime E ''%f'' now) @ ''.form.json'')))"

section \<open>Creating\<close>

text \<open>The directory of the forms, as the constructor of the repository reads it.\<close>

definition workspace_location :: "'w env \<Rightarrow> exn + string" where
  "workspace_location E = (case env_getenv E ''BIFROST_WORKSPACE_LOCATION'' of
     None \<Rightarrow> Inl (KeyError ''BIFROST_WORKSPACE_LOCATION'') | Some s \<Rightarrow> Inr s)"

text \<open>A request is the dictionary of its fields, the nested schema as \<open>model_dump\<close> makes it.\<close>

definition new_form :: "'w env \<Rightarrow> model \<Rightarrow> string \<Rightarrow> string \<Rightarrow> string \<Rightarrow> string \<Rightarrow> (string \<times> pyval) list" where
  "new_form E m form_id org_id created_by now = [(''id'', PStr form_id), (''orgId'', PStr org_id), (''name'', dget0 m ''name''),
     (''description'', dget0 m ''description''), (''linkedWorkflow'', dget0 m ''linkedWorkflow''), (''formSchema'', dget0 m ''formSchema''),
     (''isActive'', PBool True), (''isGlobal'', dget0 m ''isGlobal''),
     (''accessLevel'', if truthy (dget0 m ''accessLevel'') then dget0 m ''accessLevel'' else PStr ''role_based''),
     (''createdBy'', PStr created_by), (''createdAt'', PStr (now @ ''Z'')), (''updatedAt'', PStr (now @ ''Z'')),
     (''launchWorkflowId'', dget0 m ''launchWorkflowId''), (''allowedQueryParams'', dget0 m ''allowedQueryParams''),
     (''defaultLaunchParams'', dget0 m ''defaultLaunchParams'')]"

definition create_form :: "'w env \<Rightarrow> 'w disk \<Rightarrow> (pyval \<Rightarrow> exn + string) \<Rightarrow> exec_context \<Rightarrow> model \<Rightarrow> string \<Rightarrow> ('w, model) py" where
  "create_form E D dumps ctx m created_by =
     py_bind (lift (workspace_location E)) (\<lambda>base. py_bind (generate_entity_id E) (\<lambda>form_id. py_bind (utcnow E) (\<lambda>now.
     py_bind (generate_form_filename E (fstr E (dget0 m ''name''))) (\<lambda>filename.
     let file_path = abs_path D base @ [filename];
         data = new_form E m form_id (if truthy (dget0 m ''isGlobal'') then ''GLOBAL'' else str_or (ctx_org_id ctx) ''GLOBAL'') created_by
           (env_isoformat E now) in
     py_bind (path_exists D file_path) (\<lambda>ex.
     if ex then raise (ValueError (''Form file already exists: '' @ filename))
     else py_then (write_json D dumps file_path (PDict data)) (dict_to_form E (map_of data)))))))"

section \<open>Updating\<close>

definition updated_fields :: "string list" where
  "updated_fields = [''name'', ''description'', ''linkedWorkflow'', ''formSchema'', ''isActive'', ''launchWorkflowId'',
     ''allowedQueryParams'', ''defaultLaunchParams'']"

definition apply_updates :: "model \<Rightarrow> string \<Rightarrow> (string \<times> pyval) list \<Rightarrow> (string \<times> pyval) list" where
  "apply_updates u now data = AList.update ''updatedAt'' (PStr (now @ ''Z''))
     (fold (\<lambda>f d. if dget0 u f = PNone then d else AList.update f (dget0 u f) d) updated_fields data)"

definition with_suffix :: "path \<Rightarrow> string \<Rightarrow> path" where
  "with_suffix p s = butlast p @ [take (length (path_name p) - length (suffix p)) (path_name p) @ s]"

definition overwrite_form :: "'w disk \<Rightarrow> (pyval \<Rightarrow> exn + string) \<Rightarrow> path \<Rightarrow> path \<Rightarrow> pyval \<Rightarrow> ('w, unit) py" where
  "overwrite_form D dumps temp_file file_path data = py_then (write_json D dumps temp_file data)
     (py_bind (entry_path D temp_file) (\<lambda>p. py_bind (entry_path D file_path) (replace_entry D p)))"

definition update_form :: "'w env \<Rightarrow> 'w disk \<Rightarrow> (pyval \<Rightarrow> exn + string) \<Rightarrow> exec_context \<Rightarrow> string \<Rightarrow> model \<Rightarrow> ('w, model) py" where
  "update_form E D dumps ctx form_id u =
     py_bind (get_form E ctx form_id) (\<lambda>form. if form = None then raise (ValueError (''Form '' @ form_id @ '' not found or not accessible'')) else
     py_bind (get_form_metadata E (PStr form_id)) (\<lambda>found. case found of
       None \<Rightarrow> raise (ValueError (''Form '' @ form_id @ '' metadata not found''))
     | Some md \<Rightarrow> let file_path = abs_path D (fm_file_path md); temp_file = with_suffix file_path ''.tmp'' in
       py_bind (path_exists D file_path) (\<lambda>ex. if \<not> ex then raise (ValueError (''Form file not found: '' @ fm_file_path md)) else
       py_bind (utcnow E) (\<lambda>now. py_bind (read_json E D file_path) (\<lambda>v. case v of
         PDict data \<Rightarrow> let data' = apply_updates u (env_isoformat E now) data in
           py_catch (py_then (overwrite_form D dumps temp_file file_path (PDict data')) (dict_to_form E (map_of data')))
             (\<lambda>x. py_bind (path_exists D temp_file) (\<lambda>t.
                py_then (if t then py_bind (entry_path D temp_file) (unlink D) else ret ()) (raise x)))
       | _ \<Rightarrow> raise (TypeError ''object does not support item assignment''))))))"

definition soft_delete_form :: "'w env \<Rightarrow> 'w disk \<Rightarrow> (pyval \<Rightarrow> exn + string) \<Rightarrow> exec_context \<Rightarrow> string \<Rightarrow> ('w, bool) py" where
  "soft_delete_form E D dumps ctx form_id = py_catch
     (py_then (update_form E D dumps ctx form_id [''isActive'' \<mapsto> PBool False]) (ret True))
     (\<lambda>x. if is_validation_error x then ret False else case x of ValueError _ \<Rightarrow> ret False | _ \<Rightarrow> raise x)"

section \<open>Archiving\<close>

text \<open>\<open>mkdir(exist_ok=True)\<close> in a directory that must be there, and \<open>shutil.move\<close> of a file to a path that is no directory.\<close>

definition mkdir_in :: "'w disk \<Rightarrow> path \<Rightarrow> ('w, unit) py" where
  "mkdir_in D p = py_bind (entry_path D p) (\<lambda>q. py_bind (py_read (dk_tree D)) (\<lambda>t.
     if node_at t (butlast q) = None then raise (os_error ''FileNotFoundError'') else mkdir D q True))"

definition move_file :: "'w disk \<Rightarrow> path \<Rightarrow> path \<Rightarrow> ('w, unit) py" where
  "move_file D src dst = py_bind (entry_path D src) (\<lambda>p. py_bind (entry_path D dst) (\<lambda>q. py_catch (replace_entry D p q)
     (\<lambda>x. if is_os_error x then py_bind (read_bytes D p) (\<lambda>b. py_then (write_bytes D q b) (unlink D p)) else raise x)))"

definition delete_form :: "'w env \<Rightarrow> 'w disk \<Rightarrow> exec_context \<Rightarrow> string \<Rightarrow> ('w, bool) py" where
  "delete_form E D ctx form_id =
     py_bind (lift (workspace_location E)) (\<lambda>base. py_bind (get_form_metadata E (PStr form_id)) (\<lambda>found. case found of
       None \<Rightarrow> ret False
     | Some md \<Rightarrow> if fm_org_id md \<noteq> PStr ''GLOBAL'' \<and> fm_org_id md \<noteq> of_opt (ctx_org_id ctx) then ret False
       else let file_path = abs_path D (fm_file_path md); archived_dir = abs_path D base @ [''.archived''] in
       py_bind (path_exists D file_path) (\<lambda>ex. if \<not> ex then ret False
       else py_then (mkdir_in D archived_dir)
         (py_catch (py_then (move_file D file_path (archived_dir @ [path_name file_path])) (ret True)) (\<lambda>_. ret False)))))"

section \<open>Lemmas\<close>

lemma map_of_move_target: "q \<notin> fst ` set t \<Longrightarrow> map_of (move_paths p q t) q = map_of t p"
proof (induction t)
  case (Cons x t)
  obtain a n where x: "x = (a, n)" by fastforce
  have same: "q @ drop (length p) a = q \<longleftrightarrow> a = p" if "prefix p a" using that by (auto simp: prefix_def)
  have ih: "map_of (move_paths p q t) q = map_of t p" using Cons by simp
  show ?case
  proof (cases "prefix p a")
    case True
    then show ?thesis using ih same by (auto simp: move_paths_def x)
  next
    case False
    then have "a \<noteq> p" by auto
    moreover have "a \<noteq> q" using Cons.prems by (auto simp: x)
    ultimately show ?thesis using ih False by (simp add: move_paths_def x)
  qed
qed (simp add: move_paths_def)

lemma map_of_remove: "map_of (remove_paths qs t) k = (if k \<in> set qs then None else map_of t k)"
  unfolding remove_paths_def by (induction t) auto

lemma node_at_replaced:
  assumes "q \<noteq> []" "p \<noteq> []" "p \<noteq> q"
  shows "node_at (move_paths p q (remove_paths [q] t)) q = node_at t p"
proof -
  have "q \<notin> fst ` set (remove_paths [q] t)" by (auto simp: remove_paths_def)
  then show ?thesis using assms by (simp add: node_at_def map_of_move_target map_of_remove)
qed

lemma node_at_make_dirs: "p \<notin> set qs \<Longrightarrow> node_at (make_dirs qs t) p = node_at t p"
  unfolding make_dirs_def by (induction qs arbitrary: t) (auto simp: node_at_def update_conv')

lemma split_all_join: "list_all (\<lambda>c. CHR ''/'' \<notin> set c) cs \<Longrightarrow> split_all CHR ''/'' (str_path cs) = [] # (if cs = [] then [[]] else cs)"
proof -
  have join: "list_all (\<lambda>c. CHR ''/'' \<notin> set c) ds \<Longrightarrow> ds \<noteq> [] \<Longrightarrow> split_all CHR ''/'' (join ''/'' ds) = ds" for ds
    by (induction ds rule: induct_list012) (simp_all add: split_all_none split_all_sep)
  assume "list_all (\<lambda>c. CHR ''/'' \<notin> set c) cs"
  then show ?thesis using join [of cs] split_all_sep [of "CHR ''/''" "[]"] split_all_none [of "CHR ''/''" "[]"]
    by (cases "cs = []") (simp_all add: str_path_def)
qed

section \<open>What is left when an update fails\<close>

text \<open>A tree without links that has a path in its directories.\<close>

definition link_free :: "tree \<Rightarrow> bool" where
  "link_free t \<longleftrightarrow> (\<forall>s. Link s \<notin> snd ` set t)"

definition shaped :: "path \<Rightarrow> tree \<Rightarrow> bool" where
  "shaped p t \<longleftrightarrow> link_free t \<and> (\<forall>q. strict_prefix q p \<longrightarrow> node_at t q = Some Dir)"

definition plain :: "path \<Rightarrow> bool" where
  "plain p \<longleftrightarrow> p \<noteq> [] \<and> proper p \<and> list_all (\<lambda>c. CHR ''/'' \<notin> set c) p"

lemma shaped_canonical:
  assumes "shaped p t"
  shows "canonical t q"
proof -
  have "node_at t k \<noteq> Some (Link s)" for k s
  proof
    assume "node_at t k = Some (Link s)"
    then have "(k, Link s) \<in> set t" by (auto simp: node_at_def dest: map_of_SomeD split: if_splits)
    then show False using assms unfolding shaped_def link_free_def by force
  qed
  then show ?thesis by (simp add: canonical_def)
qed

lemma shaped_free:
  assumes "shaped p t" "node_at t g \<noteq> Some Dir" "strict_prefix q p \<or> q = p \<and> g \<noteq> p"
  shows "\<not> prefix g q"
proof
  assume g: "prefix g q"
  then have "strict_prefix g p" using assms(3) by (auto simp: strict_prefix_def dest: prefix_order.trans)
  then show False using assms(1,2) by (simp add: shaped_def)
qed

lemma update_values: "snd ` set (AList.update g x t) \<subseteq> insert x (snd ` set t)"
  by (induction t) auto

lemma link_free_subset: "snd ` set t' \<subseteq> snd ` set t \<Longrightarrow> link_free t \<Longrightarrow> link_free t'"
  unfolding link_free_def by blast

lemma shaped_update: "shaped p t \<Longrightarrow> node_at t g \<noteq> Some Dir \<Longrightarrow> shaped p (AList.update g (File b) t)"
  using update_values [of g "File b" t] unfolding shaped_def link_free_def by (auto simp: node_at_def update_conv')

lemma shaped_torn: "shaped p t \<Longrightarrow> shaped p (torn g b n t)"
  by (auto simp: torn_def can_open_def intro: shaped_update split: if_splits)

lemma node_at_torn: "g \<noteq> p \<Longrightarrow> node_at (torn g b n t) p = node_at t p"
  by (simp add: torn_def node_at_def update_conv')

lemma node_at_elsewhere:
  assumes "shaped p t" "node_at t g \<noteq> Some Dir" "node_at t f \<noteq> Some Dir" "strict_prefix q p \<or> q = p \<and> g \<noteq> p \<and> f \<noteq> p"
  shows "node_at (move_paths g f (remove_paths [f] t)) q = node_at t q"
proof -
  have "\<not> prefix g q" by (rule shaped_free [OF assms(1,2)]) (use assms(4) in auto)
  moreover have "\<not> prefix f q" by (rule shaped_free [OF assms(1,3)]) (use assms(4) in auto)
  ultimately show ?thesis by (auto simp: node_at_def map_of_move map_of_remove)
qed

lemma shaped_move:
  assumes "shaped p t" "node_at t g \<noteq> Some Dir" "node_at t f \<noteq> Some Dir"
  shows "shaped p (move_paths g f (remove_paths [f] t))"
proof -
  have "snd ` set (move_paths g f (remove_paths [f] t)) \<subseteq> snd ` set t"
    by (force simp: move_paths_def remove_paths_def)
  then have "link_free (move_paths g f (remove_paths [f] t))"
    using assms(1) link_free_subset by (simp add: shaped_def)
  moreover have "node_at (move_paths g f (remove_paths [f] t)) q = Some Dir" if "strict_prefix q p" for q
    using node_at_elsewhere [OF assms] that assms(1) by (simp add: shaped_def)
  ultimately show ?thesis by (simp add: shaped_def)
qed

context disk_laws
begin

lemma wp_risky_keep:
  assumes "\<And>w'. dk_tree D w' = dk_tree D w \<Longrightarrow> wp m Q R w'"
    and "\<And>n x w'. dk_tree D w' = f n (dk_tree D w) \<Longrightarrow> R x w'"
  shows "wp (risky D f m) Q R w"
  unfolding risky_def change_def by simp (rule wp_mono [OF wp_fault], auto simp: tree_set intro: assms)

lemma wp_real_path:
  assumes "shaped p (dk_tree D w)" "proper q" "list_all (\<lambda>c. CHR ''/'' \<notin> set c) q"
  shows "wp (real_path D q) (\<lambda>r w'. r = q \<and> w' = w) (\<lambda>_ w'. w' = w) w"
proof -
  have "join_real (dk_tree D w) [] [] (split_all CHR ''/'' (str_path q)) = Some q"
    using join_real_self [of "dk_tree D w" "[]" q "[]"] shaped_canonical [OF assms(1)] assms(2)
    by (simp add: split_all_join [OF assms(3)] join_real.simps(2))
  then show ?thesis
    unfolding real_path_def wp_catch
    by (intro wp_mono [OF wp_resolve_from]) (auto simp: is_absolute_def startswith_def str_path_def split: exn.split)
qed

lemma wp_entry_path:
  assumes "shaped p (dk_tree D w)" "plain q"
  shows "wp (entry_path D q) (\<lambda>r w'. r = q \<and> w' = w) (\<lambda>_ w'. w' = w) w"
proof -
  have "proper (butlast q)" "list_all (\<lambda>c. CHR ''/'' \<notin> set c) (butlast q)" "q \<noteq> []"
    using assms(2) by (auto simp: plain_def list_all_iff proper_butlast dest: in_set_butlastD)
  then show ?thesis
    unfolding entry_path_def wp_bind
    by (intro wp_mono [OF wp_real_path [OF assms(1)]]) (simp_all add: path_name_def)
qed

lemma wp_write_beside:
  assumes "shaped p (dk_tree D w)" "g \<noteq> p"
  shows "wp (write_bytes D g b)
    (\<lambda>_ w'. shaped p (dk_tree D w') \<and> node_at (dk_tree D w') p = node_at (dk_tree D w) p \<and> node_at (dk_tree D w') g = Some (File b))
    (\<lambda>_ w'. shaped p (dk_tree D w') \<and> node_at (dk_tree D w') p = node_at (dk_tree D w) p) w"
  unfolding write_bytes_def
proof (rule wp_risky_keep, goal_cases)
  case (1 w1)
  then show ?case using assms
    by (auto simp: change_def tree_set can_open_def node_at_def update_conv' shaped_update split: option.splits if_splits)
next
  case (2 n x w1)
  then show ?case using assms by (simp add: shaped_torn node_at_torn)
qed

lemma wp_write_json:
  assumes "shaped p (dk_tree D w)" "g \<noteq> p" "plain g"
  shows "wp (write_json D dumps g v)
    (\<lambda>_ w'. shaped p (dk_tree D w') \<and> node_at (dk_tree D w') p = node_at (dk_tree D w) p
      \<and> (\<exists>s b. dumps v = Inr s \<and> dk_encode D s = Inr b \<and> node_at (dk_tree D w') g = Some (File b)))
    (\<lambda>_ w'. shaped p (dk_tree D w') \<and> node_at (dk_tree D w') p = node_at (dk_tree D w) p) w"
proof -
  have g: "proper g" "list_all (\<lambda>c. CHR ''/'' \<notin> set c) g" using assms(3) by (simp_all add: plain_def)
  show ?thesis
    unfolding write_json_def wp_bind
    by (rule wp_mono [OF wp_real_path [OF assms(1) g]])
      (auto simp: assms(1) write_text_def split: sum.split intro!: wp_mono [OF wp_write_beside [OF assms(1,2)]])
qed

lemma wp_replace_entry:
  assumes "shaped p (dk_tree D w)" "g \<noteq> p" "g \<noteq> f" "f \<noteq> []" "g \<noteq> []"
  shows "wp (replace_entry D g f)
    (\<lambda>_ w'. shaped p (dk_tree D w') \<and> node_at (dk_tree D w') f = node_at (dk_tree D w) g
      \<and> (f \<noteq> p \<longrightarrow> node_at (dk_tree D w') p = node_at (dk_tree D w) p))
    (\<lambda>_ w'. dk_tree D w' = dk_tree D w) w"
  unfolding replace_entry_def
proof (rule wp_risky_keep, goal_cases)
  case (1 w1)
  show ?case
  proof (cases "node_at (dk_tree D w) g = Some Dir \<or> can_open (dk_tree D w) f \<noteq> None")
    case False
    then have "node_at (dk_tree D w) g \<noteq> Some Dir" "node_at (dk_tree D w) f \<noteq> Some Dir"
      by (auto simp: can_open_def split: if_splits)
    then show ?thesis using 1 assms False
      by (auto simp: change_def tree_set shaped_move node_at_elsewhere node_at_replaced)
  qed (use 1 assms(3) in \<open>auto simp: change_def split: option.splits\<close>)
qed simp

lemma wp_overwrite_form:
  assumes "shaped p (dk_tree D w)" "g \<noteq> p" "g \<noteq> f" "plain g" "plain f"
  shows "wp (overwrite_form D dumps g f v)
    (\<lambda>_ w'. shaped p (dk_tree D w') \<and> (\<exists>s b. dumps v = Inr s \<and> dk_encode D s = Inr b \<and> node_at (dk_tree D w') f = Some (File b))
      \<and> (f \<noteq> p \<longrightarrow> node_at (dk_tree D w') p = node_at (dk_tree D w) p))
    (\<lambda>_ w'. shaped p (dk_tree D w') \<and> node_at (dk_tree D w') p = node_at (dk_tree D w) p) w"
  unfolding overwrite_form_def wp_bind wp_then
proof (rule wp_mono [OF wp_write_json [OF assms(1,2,4)]], goal_cases)
  case (1 _ w1)
  have g: "g \<noteq> []" and f: "f \<noteq> []" using assms(4,5) by (simp_all add: plain_def)
  have move: "wp (replace_entry D g f)
      (\<lambda>_ w'. shaped p (dk_tree D w') \<and> (\<exists>s b. dumps v = Inr s \<and> dk_encode D s = Inr b \<and> node_at (dk_tree D w') f = Some (File b))
        \<and> (f \<noteq> p \<longrightarrow> node_at (dk_tree D w') p = node_at (dk_tree D w) p))
      (\<lambda>_ w'. shaped p (dk_tree D w') \<and> node_at (dk_tree D w') p = node_at (dk_tree D w) p) w1"
    by (rule wp_mono [OF wp_replace_entry [OF _ assms(2,3) f g]]) (use 1 in auto)
  have sh: "shaped p (dk_tree D w1)" and same: "node_at (dk_tree D w1) p = node_at (dk_tree D w) p" using 1 by auto
  show ?case
  proof (rule wp_mono [OF wp_entry_path [OF sh assms(4)]], goal_cases)
    case (1 r w2)
    then have r: "r = g" "w2 = w1" by simp_all
    show ?case
      unfolding r by (rule wp_mono [OF wp_entry_path [OF sh assms(5)]]) (use move sh same in auto)
  qed (use sh same in auto)
qed simp

end

text \<open>The paths of form files, and the file that is written beside one.\<close>

definition form_path :: "path \<Rightarrow> bool" where
  "form_path p \<longleftrightarrow> plain p \<and> (\<exists>ds n. p = ds @ [n @ ''form.json''])"

lemma temp_name: "a @ ''.tmp'' \<noteq> n @ ''form.json''"
proof
  assume "a @ ''.tmp'' = n @ ''form.json''"
  then have "last (a @ ''.tmp'') = last (n @ ''form.json'')" by (rule arg_cong)
  then show False by simp
qed

lemma temp_file:
  assumes "form_path f"
  shows "plain (with_suffix f ''.tmp'')" and "form_path p \<Longrightarrow> with_suffix f ''.tmp'' \<noteq> p"
proof -
  obtain a where g: "with_suffix f ''.tmp'' = butlast f @ [a @ ''.tmp'']" and a: "set a \<subseteq> set (path_name f)"
    by (rule that [of "take (length (path_name f) - length (suffix f)) (path_name f)"]) (simp_all add: with_suffix_def set_take_subset)
  have f: "plain f" using assms by (simp add: form_path_def)
  have "CHR ''/'' \<notin> set (path_name f)" using f by (cases f rule: rev_cases) (simp_all add: plain_def path_name_def)
  then have "CHR ''/'' \<notin> set (a @ ''.tmp'')" using a by auto
  moreover have "a @ ''.tmp'' \<notin> {[], ''.'', ''..''}" by (cases a rule: rev_cases) auto
  ultimately show "plain (with_suffix f ''.tmp'')"
    using f unfolding g plain_def list_all_iff proper_def by (auto dest: in_set_butlastD)
  show "with_suffix f ''.tmp'' \<noteq> p" if "form_path p"
    using that temp_name [of a] by (auto simp: g form_path_def)
qed

lemma abs_path_absolute: "is_absolute s \<Longrightarrow> abs_path D s = parts s"
  by (simp add: abs_path_def)

text \<open>The old content was read, and the whole of the new content is there.\<close>

definition rewritten :: "'w env \<Rightarrow> 'w disk \<Rightarrow> (pyval \<Rightarrow> exn + string) \<Rightarrow> model \<Rightarrow> path \<Rightarrow> tree \<Rightarrow> tree \<Rightarrow> bool" where
  "rewritten E D dumps u p t t' \<longleftrightarrow> (\<exists>b txt data now s b'. node_at t p = Some (File b) \<and> dk_decode D b = Some txt
     \<and> env_loads E (universal_newlines txt) = Some (PDict data) \<and> dumps (PDict (apply_updates u now data)) = Inr s
     \<and> dk_encode D s = Inr b' \<and> node_at t' p = Some (File b'))"

lemma found_in: "find P xs = Some m \<Longrightarrow> m \<in> set xs"
  by (auto simp: find_Some_iff)

context runtime
begin

lemma wp_metadata_path:
  "wp (get_form_metadata E fid) (\<lambda>res _. \<forall>m. res = Some m \<longrightarrow> fm_file_path m \<in> (\<lambda>(_, path, _). path) ` set (env_form_files E w)) R w"
proof -
  let ?paths = "(\<lambda>(_, path, _). path) ` set (env_form_files E w)"
  have one: "wp (scan_form_file E f) (\<lambda>ms v'. unchanged E w v' \<and> (\<forall>m \<in> set ms. fm_file_path m \<in> ?paths)) R v"
    if "f \<in> set (env_form_files E w)" "unchanged E w v" for f v
  proof -
    obtain stem path c where f: "f = (stem, path, c)" by (cases f)
    have "path \<in> ?paths" using that(1) f by force
    then show ?thesis
      unfolding scan_form_file_def form_metadata_of_def f
      using that(2) by (auto intro!: wp_utcnow_files split: option.split sum.splits)
  qed
  have "wp (py_map (scan_form_file E) (env_form_files E w))
      (\<lambda>mss w'. unchanged E w w' \<and> list_all2 (\<lambda>f ms. \<forall>m \<in> set ms. fm_file_path m \<in> ?paths) (env_form_files E w) mss) R w"
    by (rule wp_map_all2, rule one) simp_all
  then have "wp (py_map (scan_form_file E) (env_form_files E w)) (\<lambda>mss w'. \<forall>m \<in> set (concat mss). fm_file_path m \<in> ?paths) R w"
    by (rule wp_mono) (auto dest: filter_keep_list_all2)
  then show ?thesis
    unfolding get_form_metadata_def scan_all_forms_def wp_bind wp_form_files
    by (rule wp_mono) (auto dest!: found_in)
qed

end

text \<open>The clock does not change the files.\<close>

locale form_disk = disk_laws D + runtime E for D :: "'w disk" and E :: "'w env" +
  assumes clock_keeps: "keeps (dk_tree D) (utcnow E)"
begin

lemma stays_clock [stays_intros]: "stays (\<lambda>w. P (dk_tree D w)) (utcnow E)"
  using clock_keeps by (auto simp: stays_def keeps_iff)

lemma stays_listing [stays_intros]: "stays I (form_files E)"
  by (simp add: stays_def form_files_def)

lemma stays_discovery [stays_intros]:
  "stays (\<lambda>w. P (dk_tree D w)) (get_form_metadata E fid)" "stays (\<lambda>w. P (dk_tree D w)) (dict_to_form E data)"
  unfolding get_form_metadata_def scan_all_forms_def scan_form_file_def form_metadata_of_def dict_to_form_def
  by (intro stays_intros)+

lemma stays_get_form [stays_intros]: "stays (\<lambda>w. P (dk_tree D w)) (get_form E ctx form_id)"
  unfolding get_form_def load_form_def by (intro stays_intros)

lemma wp_read_json:
  assumes "shaped p (dk_tree D w)" "plain f"
  shows "wp (read_json E D f) (\<lambda>v w'. dk_tree D w' = dk_tree D w \<and> (\<exists>b txt. node_at (dk_tree D w) f = Some (File b)
      \<and> dk_decode D b = Some txt \<and> env_loads E (universal_newlines txt) = Some v)) (\<lambda>_ w'. dk_tree D w' = dk_tree D w) w"
proof -
  have "follow (dk_tree D w) f = node_at (dk_tree D w) f"
    using assms(2) shaped_canonical [OF assms(1)] by (simp add: follow_self plain_def)
  then show ?thesis
    unfolding read_json_def read_text_def read_bytes_def wp_bind
    by (intro wp_mono [OF wp_kind_of]) (auto split: option.splits node.splits)
qed

text \<open>Removing the temporary file leaves form files alone.\<close>

lemma wp_remove_temp:
  assumes "shaped p (dk_tree D w)" "plain g" "g \<noteq> p"
  shows "wp (py_bind (path_exists D g) (\<lambda>t. py_then (if t then py_bind (entry_path D g) (unlink D) else ret ()) (raise x)))
    Q (\<lambda>_ w'. node_at (dk_tree D w') p = node_at (dk_tree D w) p) w"
proof -
  let ?R = "\<lambda>w'. node_at (dk_tree D w') p = node_at (dk_tree D w) p"
  have unlink: "wp (unlink D g) (\<lambda>_. ?R) (\<lambda>_. ?R) w1" if "dk_tree D w1 = dk_tree D w" for w1
    unfolding unlink_def
    by (rule wp_risky_keep) (use assms that in \<open>auto simp: change_def tree_set node_at_def map_of_remove split: option.split node.split\<close>)
  have entry: "wp (entry_path D g) (\<lambda>q. wp (unlink D q) (\<lambda>_. ?R) (\<lambda>_. ?R)) (\<lambda>_. ?R) w1" if "dk_tree D w1 = dk_tree D w" for w1
    by (rule wp_mono [OF wp_entry_path [OF _ assms(2)]]) (use assms(1) that unlink in auto)
  show ?thesis
    unfolding path_exists_def wp_bind wp_then wp_raise
    by (rule wp_mono [OF wp_kind_of]) (use entry in auto)
qed

lemma wp_same_tree: "stays (\<lambda>w'. dk_tree D w' = dk_tree D w) m
    \<Longrightarrow> wp m (\<lambda>_ w'. dk_tree D w' = dk_tree D w) (\<lambda>_ w'. dk_tree D w' = dk_tree D w) w"
  by (rule stays_wp) simp_all

lemma wp_rewrite:
  assumes sh: "shaped p (dk_tree D w)" and p: "form_path p" and f: "form_path f"
    and read: "node_at (dk_tree D w) f = Some (File b)" "dk_decode D b = Some txt" "env_loads E (universal_newlines txt) = Some (PDict data)"
  shows "wp (py_catch (py_then (overwrite_form D dumps (with_suffix f ''.tmp'') f (PDict (apply_updates u now data))) (dict_to_form E d))
       (\<lambda>x. py_bind (path_exists D (with_suffix f ''.tmp'')) (\<lambda>t.
          py_then (if t then py_bind (entry_path D (with_suffix f ''.tmp'')) (unlink D) else ret ()) (raise x))))
     (\<lambda>_ w'. (node_at (dk_tree D w') p = node_at (dk_tree D w) p \<or> rewritten E D dumps u p (dk_tree D w) (dk_tree D w'))
        \<and> (\<exists>f. form_path f \<and> rewritten E D dumps u f (dk_tree D w) (dk_tree D w')))
     (\<lambda>_ w'. node_at (dk_tree D w') p = node_at (dk_tree D w) p \<or> rewritten E D dumps u p (dk_tree D w) (dk_tree D w')) w"
proof -
  let ?g = "with_suffix f ''.tmp''"
  let ?ok = "\<lambda>w'. node_at (dk_tree D w') p = node_at (dk_tree D w) p \<or> rewritten E D dumps u p (dk_tree D w) (dk_tree D w')"
  have g: "plain ?g" "?g \<noteq> p" "?g \<noteq> f" using temp_file [OF f] p f by auto
  have plain_f: "plain f" using f by (simp add: form_path_def)
  have clean: "wp (py_bind (path_exists D ?g) (\<lambda>t. py_then (if t then py_bind (entry_path D ?g) (unlink D) else ret ()) (raise x))) Q
      (\<lambda>_. ?ok) w1" if "shaped p (dk_tree D w1)" "?ok w1" for w1 x Q
    by (rule wp_mono [OF wp_remove_temp [OF that(1) g(1,2)]]) (use that(2) in \<open>auto simp: rewritten_def\<close>)
  show ?thesis
    unfolding wp_catch wp_then
  proof (rule wp_mono [OF wp_overwrite_form [OF sh g(2,3,1) plain_f]], goal_cases)
    case (1 _ w1)
    then have new: "rewritten E D dumps u f (dk_tree D w) (dk_tree D w1)" using read unfolding rewritten_def by blast
    have ok: "?ok w1" using 1 new by auto
    show ?case
    proof (rule wp_mono [OF wp_same_tree [OF stays_discovery(2)]], goal_cases)
      case (2 x w2)
      show ?case by (rule clean [unfolded wp_then]) (use 2 1 ok in \<open>simp_all\<close>)
    qed (use ok new f in auto)
  next
    case (2 x w1)
    show ?case by (rule clean [unfolded wp_then]) (use 2 in simp_all)
  qed
qed

lemma wp_kept_tree:
  assumes "dk_tree D w = t" and "stays (\<lambda>w. dk_tree D w = t) m"
  shows "wp m (\<lambda>_ w'. dk_tree D w' = t) (\<lambda>_ w'. dk_tree D w' = t) w"
  by (rule stays_wp [OF assms(2,1)])

lemma wp_update_form:
  assumes sh: "shaped p (dk_tree D w)" and p: "form_path p"
    and files: "\<forall>(_, path, _) \<in> set (env_form_files E w). is_absolute path \<and> form_path (parts path)"
  shows "wp (update_form E D dumps ctx form_id u)
     (\<lambda>_ w'. (node_at (dk_tree D w') p = node_at (dk_tree D w) p \<or> rewritten E D dumps u p (dk_tree D w) (dk_tree D w'))
        \<and> (\<exists>f. form_path f \<and> rewritten E D dumps u f (dk_tree D w) (dk_tree D w')))
     (\<lambda>_ w'. node_at (dk_tree D w') p = node_at (dk_tree D w) p \<or> rewritten E D dumps u p (dk_tree D w) (dk_tree D w')) w"
    (is "wp _ ?Q ?R w")
proof -
  let ?T = "\<lambda>w'. dk_tree D w' = dk_tree D w"
  have same: "?R x w1" if "?T w1" for x w1 using that by simp
  have get: "wp (get_form E ctx form_id) (\<lambda>_ w1. ?T w1 \<and> unchanged E w w1) (\<lambda>_. ?T) w"
    by (rule wp_mono [OF wp_conj [OF wp_same_tree [OF stays_get_form] wp_get_form]]) simp_all
  have metadata: "wp (get_form_metadata E fid) (\<lambda>res w2. ?T w2 \<and> (\<forall>m. res = Some m \<longrightarrow> is_absolute (fm_file_path m) \<and> form_path (parts (fm_file_path m))))
      (\<lambda>_. ?T) w1" if "?T w1" "unchanged E w w1" for fid w1
    by (rule wp_mono [OF wp_conj [OF wp_kept_tree [OF that(1) stays_discovery(1)] wp_metadata_path]]) (use files that in auto)
  have rest: "wp (let file_path = abs_path D path; temp_file = with_suffix file_path ''.tmp'' in
       py_bind (path_exists D file_path) (\<lambda>ex. if \<not> ex then raise (ValueError m) else
       py_bind (utcnow E) (\<lambda>now. py_bind (read_json E D file_path) (\<lambda>v. case v of
         PDict data \<Rightarrow> let data' = apply_updates u (env_isoformat E now) data in
           py_catch (py_then (overwrite_form D dumps temp_file file_path (PDict data')) (dict_to_form E (map_of data')))
             (\<lambda>x. py_bind (path_exists D temp_file) (\<lambda>t.
                py_then (if t then py_bind (entry_path D temp_file) (unlink D) else ret ()) (raise x)))
       | _ \<Rightarrow> raise (TypeError ''object does not support item assignment''))))) ?Q ?R w1"
    if "?T w1" "is_absolute path" "form_path (parts path)" for path m w1
  proof -
    let ?f = "parts path"
    have plain_f: "plain ?f" using that(3) by (simp add: form_path_def)
    show ?thesis
      unfolding Let_def abs_path_absolute [OF that(2)] wp_bind [of "path_exists D ?f"]
    proof (rule wp_mono [OF wp_kept_tree [OF that(1) stays_reading(3)]], goal_cases)
      case (1 ex w2)
      show ?case
      proof (cases ex)
        case True
        then have ex: "(\<not> ex) = False" by simp
        show ?thesis
          unfolding ex if_False wp_bind [of "utcnow E"]
        proof (rule wp_mono [OF wp_kept_tree [OF 1 stays_clock]], goal_cases)
          case (1 now w3)
          have sh3: "shaped p (dk_tree D w3)" using sh 1 by simp
          show ?case
            unfolding wp_bind [of "read_json E D ?f"]
          proof (rule wp_mono [OF wp_read_json [OF sh3 plain_f]], goal_cases)
            case (1 v w4)
            show ?case
            proof (cases v)
              case (PDict data)
              have w4: "dk_tree D w4 = dk_tree D w" and sh4: "shaped p (dk_tree D w4)"
                using sh3 1 \<open>dk_tree D w3 = _\<close> by simp_all
              obtain b s0 where "node_at (dk_tree D w4) ?f = Some (File b)" "dk_decode D b = Some s0"
                "env_loads E (universal_newlines s0) = Some (PDict data)"
                using 1 PDict by auto
              from wp_rewrite [OF sh4 p that(3) this] show ?thesis unfolding PDict pyval.case w4 .
            qed (use 1 \<open>dk_tree D w3 = _\<close> in auto)
          qed (use \<open>dk_tree D w3 = _\<close> in auto)
        qed simp
      qed (use 1 in simp)
    qed simp
  qed
  show ?thesis
    unfolding update_form_def wp_bind [of "get_form _ _ _"]
  proof (rule wp_mono [OF get], goal_cases)
    case (1 form w1)
    show ?case
    proof (cases form)
      case (Some f)
      have found: "(Some f = None) = False" by simp
      show ?thesis
        unfolding Some found if_False wp_bind [of "get_form_metadata _ _"]
      proof (rule wp_mono [OF metadata], goal_cases)
        case (3 found w2)
        then show ?case by (cases found) (use rest in auto)
      qed (use 1 in simp_all)
    qed (use 1 in simp)
  qed simp
qed

end

interpretation mem_form_disk: form_disk "mem_disk :: 'z disk_mem_scheme disk" mem_env
proof -
  have "keeps (dk_tree mem_disk) (utcnow mem_env :: ('z disk_mem_scheme, datetime) py)"
    by (auto simp: keeps_iff mem_disk_def mem_env_def utcnow_def)
  then show "form_disk (mem_disk :: 'z disk_mem_scheme disk) mem_env"
    by (intro form_disk.intro form_disk_axioms.intro mem_disk.disk_laws_axioms mem.runtime_axioms)
qed

section \<open>Properties\<close>

text \<open>
  C13: Whatever fails while a form is updated, every form file is as it was or holds the whole of the new content, which is
  the old content with the fields of the request replaced; an update that answers has replaced a file. The workspace has
  no links, and the discovery names its files by their absolute paths.
\<close>

theorem form_update_whole:
  assumes "form_disk D E" and "shaped p (dk_tree D w)" and "form_path p"
    and "\<forall>(_, path, _) \<in> set (env_form_files E w). is_absolute path \<and> form_path (parts path)"
    and "update_form E D dumps ctx form_id u w = (r, w')"
  shows "(node_at (dk_tree D w') p = node_at (dk_tree D w) p \<or> rewritten E D dumps u p (dk_tree D w) (dk_tree D w'))
    \<and> (\<forall>m. r = Inr m \<longrightarrow> (\<exists>f. form_path f \<and> rewritten E D dumps u f (dk_tree D w) (dk_tree D w')))"
  using form_disk.wp_update_form [OF assms(1-4), of dumps ctx form_id u] assms(5) by (cases r) (auto simp: wp_def)

text \<open>The world in memory with a reader of dates.\<close>

definition dated_env :: "'z mem_scheme env" where
  "dated_env = mem_env\<lparr>env_fromisoformat := (\<lambda>_. Some (Naive 0))\<rparr>"

lemma dated_form_disk: "form_disk (mem_disk :: 'z disk_mem_scheme disk) dated_env"
proof -
  have "keeps (dk_tree mem_disk) (utcnow dated_env :: ('z disk_mem_scheme, datetime) py)"
    by (auto simp: keeps_iff mem_disk_def mem_env_def dated_env_def utcnow_def)
  moreover have "runtime (dated_env :: 'z disk_mem_scheme env)"
    using mem.runtime_axioms unfolding runtime_def dated_env_def by simp
  ultimately show ?thesis by (intro form_disk.intro form_disk_axioms.intro mem_disk.disk_laws_axioms)
qed

definition saved_forms :: disk_mem where
  "saved_forms = \<lparr>mem_rows = [], mem_clock = 0, mem_ids = 0, mem_faults = [],
     mem_files = [(''ops'', ''/ws/ops.form.json'', Some [''id'' \<mapsto> PStr ''f2'', ''orgId'' \<mapsto> PStr ''GLOBAL'',
       ''name'' \<mapsto> PStr ''Ops'', ''linkedWorkflow'' \<mapsto> PStr ''ops''])], mem_users = Map.empty, mem_orgs = Map.empty,
     dm_tree = [([''ws''], Dir), ([''ws'', ''ops.form.json''], File ''{\"id\": \"f2\", \"name\": \"Ops\", \"linkedWorkflow\": \"ops\"}'')]\<rparr>"

lemma form_update_whole_witness:
  "\<exists>f. form_path f \<and> rewritten (dated_env :: disk_mem env) mem_disk (\<lambda>_. Inr ''new'') [''name'' \<mapsto> PStr ''New''] f (dm_tree saved_forms)
     (dm_tree (snd (update_form dated_env mem_disk (\<lambda>_. Inr ''new'') (member_ctx ''acme'') ''f2'' [''name'' \<mapsto> PStr ''New''] saved_forms)))"
proof -
  let ?run = "update_form dated_env mem_disk (\<lambda>_. Inr ''new'') (member_ctx ''acme'') ''f2'' [''name'' \<mapsto> PStr ''New''] saved_forms"
  have "isl (fst ?run) = False" by code_simp
  then obtain m where run: "?run = (Inr m, snd ?run)" by (cases ?run; cases "fst ?run") auto
  have tree: "dk_tree mem_disk w = dm_tree w" for w :: disk_mem by (simp add: mem_disk_def)
  have sh: "shaped [''ws'', ''ops.form.json''] (dk_tree mem_disk saved_forms)"
    by (auto simp: shaped_def link_free_def tree saved_forms_def node_at_def strict_prefix_def prefix_Cons)
  have path: "form_path [''ws'', ''ops.form.json'']"
    unfolding form_path_def by (auto simp: plain_def proper_def intro: exI [of _ "[''ws'']"] exI [of _ "''ops.''"])
  have files: "\<forall>(_, path, _) \<in> set (env_form_files dated_env saved_forms). is_absolute path \<and> form_path (parts path)"
  proof -
    have "is_absolute ''/ws/ops.form.json''" "parts ''/ws/ops.form.json'' = [''ws'', ''ops.form.json'']" by code_simp+
    then show ?thesis using path by (simp add: saved_forms_def dated_env_def mem_env_def)
  qed
  have "\<exists>f. form_path f \<and> rewritten (dated_env :: disk_mem env) mem_disk (\<lambda>_. Inr ''new'') [''name'' \<mapsto> PStr ''New''] f
      (dk_tree mem_disk saved_forms) (dk_tree mem_disk (snd ?run))"
    using conjunct2 [OF form_update_whole [OF dated_form_disk sh path files run]] by fast
  then show ?thesis by (simp only: tree)
qed

end
