(* ===== verification/Workflow_Handlers.thy ===== *)
theory Workflow_Handlers
  imports Worker
begin

text \<open>
  The execution part of \<open>shared/handlers/workflows_handlers.py\<close>: what happens when a user runs a workflow, from a
  form or by the endpoint. A workflow is run at once or queued for the worker; the loader of workflows is a parameter.
\<close>

section \<open>Loading\<close>

text \<open>The attributes of a workflow the code reads beside the time it may take.\<close>

record 'w loaded_workflow =
  lw_function :: "'w user_function"
  lw_timeout_seconds :: int
  lw_execution_mode :: string
  lw_parameters :: "(string \<times> bool) list"

type_synonym 'w loader = "string \<Rightarrow> ('w, 'w loaded_workflow option) py"

type_synonym response_fields = "(string \<times> pyval) list \<times> int"

definition error_fields :: "string \<Rightarrow> string \<Rightarrow> int \<Rightarrow> response_fields" where
  "error_fields err message status = ([(''error'', PStr err), (''message'', PStr message)], status)"

definition load_for_execution :: "'w loader \<Rightarrow> string \<Rightarrow> ('w, response_fields + 'w loaded_workflow) py" where
  "load_for_execution load workflow_name = py_catch
     (py_bind (load workflow_name) (\<lambda>result. case result of
        None \<Rightarrow> ret (Inl (error_fields ''NotFound'' (''Workflow '' @ quote @ workflow_name @ quote @ '' not found'') 404))
      | Some l \<Rightarrow> ret (Inr l)))
     (\<lambda>x. ret (Inl (error_fields ''WorkflowLoadError'' (''Failed to load workflow '' @ quote @ workflow_name @ quote @ '': '' @ exn_msg x) 500)))"

section \<open>The response\<close>

definition hidden_error :: string where
  "hidden_error = ''An error occurred during execution''"

definition outcome_fields :: "bool \<Rightarrow> exec_result \<Rightarrow> (string \<times> pyval) list" where
  "outcome_fields admin r =
     (if xr_status r = SUCCESS then [(''result'', xr_result r)]
      else if opt_truthy (xr_error_message r) then
        (if admin then [(''error'', of_opt (xr_error_message r)), (''errorType'', of_opt (xr_error_type r))]
         else if xr_error_type r = Some ''UserError'' then [(''error'', of_opt (xr_error_message r))]
         else [(''error'', PStr hidden_error)])
      else [])"

text \<open>\<open>log.get('level') not in ['debug', 'traceback']\<close>.\<close>

fun shown_logs :: "pyval list \<Rightarrow> exn + pyval list" where
  "shown_logs [] = Inr []"
| "shown_logs (l # ls) = ebind (pget l ''level'' PNone) (\<lambda>level. ebind (shown_logs ls) (\<lambda>rest.
     Inr (if level \<in> {PStr ''debug'', PStr ''traceback''} then rest else l # rest)))"

definition log_fields :: "bool \<Rightarrow> exec_result \<Rightarrow> exn + (string \<times> pyval) list" where
  "log_fields admin r =
     (if admin then Inr ((if xr_logs r \<noteq> [] then [(''logs'', PList (xr_logs r))] else [])
        @ (case xr_variables r of None \<Rightarrow> [] | Some vs \<Rightarrow> if vs = [] then [] else [(''variables'', variables_value vs)]))
      else if xr_logs r \<noteq> [] then map_sum id (\<lambda>ls. [(''logs'', PList ls)]) (shown_logs (xr_logs r))
      else Inr [])"

section \<open>Running at once\<close>

definition sync_request :: "'w engine_env \<Rightarrow> exec_context \<Rightarrow> string \<Rightarrow> string \<Rightarrow> (string \<times> pyval) list \<Rightarrow> bool
    \<Rightarrow> string option \<Rightarrow> 'w loaded_workflow option \<Rightarrow> 'w exec_request" where
  "sync_request X ctx execution_id workflow_name parameters transient code_base64 l = (let is_script = opt_truthy code_base64 in
     \<lparr>er_execution_id = execution_id,
      er_caller = \<lparr>caller_user_id = ctx_user_id ctx, caller_email = ctx_email ctx, caller_name = ctx_name ctx\<rparr>,
      er_organization = ctx_organization ctx, er_config = ctx_config ctx,
      er_func = (if is_script then None else map_option lw_function l), er_code = (if is_script then code_base64 else None),
      er_name = Some workflow_name, er_tags = (if is_script then [] else [''workflow'']),
      er_timeout_seconds = (case l of None \<Rightarrow> 1800 | Some m \<Rightarrow> lw_timeout_seconds m), er_cache_ttl_seconds = 300,
      er_parameters = parameters, er_transient = transient, er_no_cache = False,
      er_is_platform_admin = ctx_is_platform_admin ctx, er_broadcaster = Some (make_broadcaster (en_env X))\<rparr>)"

definition record_sync_result :: "'w engine_env \<Rightarrow> exec_context \<Rightarrow> string \<Rightarrow> exec_result \<Rightarrow> ('w, unit) py" where
  "record_sync_result X ctx execution_id r = py_then
     (log_update_execution (en_services X) (execution_repo None) execution_id (ctx_org_id ctx) (ctx_user_id ctx)
        (xr_status r) (xr_result r) (xr_error_message r) (Some (xr_duration_ms r))
        (if xr_logs r = [] then PNone else PList (xr_logs r))
        (case xr_variables r of None \<Rightarrow> PNone | Some vs \<Rightarrow> if vs = [] then PNone else variables_value vs)
        (Some (make_broadcaster (en_env X))))
     (ret ())"

definition record_sync_failure :: "'w engine_env \<Rightarrow> exec_context \<Rightarrow> string \<Rightarrow> int \<Rightarrow> exn \<Rightarrow> ('w, unit) py" where
  "record_sync_failure X ctx execution_id duration_ms x = py_catch (py_then
     (log_update_execution (en_services X) (execution_repo None) execution_id (ctx_org_id ctx) (ctx_user_id ctx) FAILED PNone
        (Some (''Unexpected error: '' @ exn_msg x)) (Some duration_ms) PNone PNone None)
     (ret ())) (\<lambda>_. ret ())"

definition run_sync :: "'w engine_env \<Rightarrow> exec_context \<Rightarrow> string \<Rightarrow> (string \<times> pyval) list \<Rightarrow> string option \<Rightarrow> bool
    \<Rightarrow> string option \<Rightarrow> 'w loaded_workflow option \<Rightarrow> ('w, response_fields) py" where
  "run_sync X ctx workflow_name parameters form_id transient code_base64 l =
     py_bind (uuid4 (en_env X)) (\<lambda>execution_id. py_bind (utcnow (en_env X)) (\<lambda>start_time. py_catch
       (py_then (if \<not> transient then py_then (log_create_execution (en_services X) (execution_repo None) execution_id (ctx_org_id ctx)
            (ctx_user_id ctx) (ctx_name ctx) workflow_name (PDict parameters) form_id (Some (make_broadcaster (en_env X)))) (ret ())
          else ret ())
        (py_bind (execute X (sync_request X ctx execution_id workflow_name parameters transient code_base64 l)) (\<lambda>r.
         py_then (if \<not> transient then record_sync_result X ctx execution_id r else ret ())
        (py_bind (utcnow (en_env X)) (\<lambda>end_time.
         py_bind (lift (log_fields (ctx_is_platform_admin ctx) r)) (\<lambda>logs.
         ret ([(''executionId'', PStr execution_id), (''status'', PStr (status_value (xr_status r))),
           (''durationMs'', PInt (xr_duration_ms r)), (''startedAt'', PStr (env_isoformat (en_env X) start_time)),
           (''completedAt'', PStr (env_isoformat (en_env X) end_time)), (''isTransient'', PBool transient)]
           @ outcome_fields (ctx_is_platform_admin ctx) r @ logs, 200)))))))
       (\<lambda>x. py_bind (utcnow (en_env X)) (\<lambda>end_time. let duration_ms = ms_between start_time end_time in
         py_then (if \<not> transient then record_sync_failure X ctx execution_id duration_ms x else ret ())
         (ret ([(''executionId'', PStr execution_id), (''status'', PStr ''Failed''), (''error'', PStr (exn_msg x)),
           (''errorType'', PStr ''InternalError''), (''durationMs'', PInt duration_ms),
           (''startedAt'', PStr (env_isoformat (en_env X) start_time)),
           (''completedAt'', PStr (env_isoformat (en_env X) end_time)), (''isTransient'', PBool transient)], 200))))))"

definition execute_workflow_internal :: "'w engine_env \<Rightarrow> 'w loader \<Rightarrow> exec_context \<Rightarrow> string \<Rightarrow> (string \<times> pyval) list
    \<Rightarrow> string option \<Rightarrow> bool \<Rightarrow> string option \<Rightarrow> ('w, response_fields) py" where
  "execute_workflow_internal X load ctx workflow_name parameters form_id transient code_base64 = (let is_script = opt_truthy code_base64 in
     py_bind (if \<not> is_script then py_bind (load_for_execution load workflow_name) (\<lambda>r. ret (map_sum id Some r)) else ret (Inr None)) (\<lambda>loaded.
     case loaded of Inl response \<Rightarrow> ret response
     | Inr l \<Rightarrow> if (case l of None \<Rightarrow> ''async'' | Some m \<Rightarrow> lw_execution_mode m) = ''async''
         then py_bind (enqueue_workflow_execution (en_services X) ctx workflow_name (PDict parameters) form_id code_base64) (\<lambda>execution_id.
           ret ([(''executionId'', PStr execution_id), (''status'', PStr ''Pending''),
             (''message'', PStr (if \<not> is_script then ''Workflow queued for async execution'' else ''Script queued for async execution''))], 202))
         else run_sync X ctx workflow_name parameters form_id transient code_base64 l))"

section \<open>The endpoint\<close>

text \<open>
  The body of a request as the endpoint documents its fields; \<open>Inr None\<close> is JSON that is no object. An empty body
  counts as an empty object.
\<close>

record workflow_body =
  wb_workflow_name :: "string option"
  wb_form_id :: "string option"
  wb_input_data :: "(string \<times> pyval) list"
  wb_transient :: bool
  wb_code :: "string option"
  wb_script_name :: "string option"

definition parse_workflow_body :: "'w env \<Rightarrow> string option \<Rightarrow> exn + workflow_body option \<Rightarrow> exn + string \<times> workflow_body" where
  "parse_workflow_body E route_name body = ebind body (\<lambda>b. case b of
     None \<Rightarrow> Inl (ValueError ''Request body must be a JSON object'')
   | Some r \<Rightarrow> (let name = (if opt_truthy (wb_workflow_name r) then wb_workflow_name r else route_name) in
       if \<not> opt_truthy name \<and> \<not> opt_truthy (wb_code r) then Inl (ValueError ''Either workflowName or code must be provided'')
       else Inr (if opt_truthy (wb_code r) then str_or (wb_script_name r) ''script'' else str_or name [], r)))"

definition execute_workflow_handler :: "'w engine_env \<Rightarrow> 'w loader \<Rightarrow> exec_context \<Rightarrow> string option \<Rightarrow> exn + workflow_body option
    \<Rightarrow> ('w, response_fields) py" where
  "execute_workflow_handler X load ctx route_name body =
     (case parse_workflow_body (en_env X) route_name body of
       Inl x \<Rightarrow> (case x of ValueError s \<Rightarrow> ret (error_fields ''BadRequest'' s 400) | TypeError s \<Rightarrow> ret (error_fields ''BadRequest'' s 400)
         | _ \<Rightarrow> raise x)
     | Inr (workflow_name, r) \<Rightarrow> (case (if opt_truthy (wb_code r) then env_b64decode (en_env X) (str_or (wb_code r) []) else Inr []) of
           Inl x \<Rightarrow> ret (error_fields ''BadRequest'' (''Invalid base64 encoded code: '' @ exn_msg x) 400)
         | Inr _ \<Rightarrow> execute_workflow_internal X load ctx workflow_name (wb_input_data r) (wb_form_id r) (wb_transient r) (wb_code r)))"

section \<open>Lemmas\<close>

lemma wp_caught_any: "wp m (\<lambda>_ _. True) (\<lambda>_ _. True) w"
  by (simp add: wp_def split: prod.splits sum.splits)

lemma wp_either: "wp m Q R w \<Longrightarrow> wp n Q R w \<Longrightarrow> wp (if b then m else n) Q R w"
  by simp

lemma shown_logs_levels: "shown_logs ls = Inr out \<Longrightarrow> l \<in> set out \<Longrightarrow> pget l ''level'' PNone \<notin> {Inr (PStr ''debug''), Inr (PStr ''traceback'')}"
  by (induction ls arbitrary: out) (auto simp: ebind_Inr split: if_splits)

text \<open>What a user who is no administrator may learn from the fields of an answer.\<close>

definition discreet :: "'w engine_env \<Rightarrow> response_fields \<Rightarrow> bool" where
  "discreet X r \<longleftrightarrow> map_of (fst r) ''variables'' = None
     \<and> (\<forall>ls. map_of (fst r) ''logs'' = Some (PList ls) \<longrightarrow>
         (\<forall>l \<in> set ls. pget l ''level'' PNone \<notin> {Inr (PStr ''debug''), Inr (PStr ''traceback'')}))
     \<and> (snd r = 200 \<longrightarrow> map_of (fst r) ''errorType'' \<noteq> Some (PStr ''InternalError'') \<longrightarrow>
         map_of (fst r) ''errorType'' = None
         \<and> (\<forall>e. map_of (fst r) ''error'' = Some e \<longrightarrow> e = PStr hidden_error
              \<or> (\<exists>x q v v'. execute X q v = (Inr x, v') \<and> xr_error_type x = Some ''UserError'' \<and> e = of_opt (xr_error_message x))))"

lemma wp_execute_some: "wp (execute X q) (\<lambda>r _. \<exists>v v'. execute X q v = (Inr r, v')) (\<lambda>_ _. True) w"
  by (auto simp: wp_def split: prod.splits sum.splits)

lemma discreet_result:
  assumes "execute X q v = (Inr r, v')" and "log_fields False r = Inr logs" and "set (map fst fs) \<inter> {''variables'', ''logs'', ''errorType'', ''error''} = {}"
  shows "discreet X (fs @ outcome_fields False r @ logs, 200)"
proof -
  have fs: "map_of fs k = None" if "k \<in> {''variables'', ''logs'', ''errorType'', ''error''}" for k
  proof -
    have "k \<notin> set (map fst fs)" using assms(3) that by blast
    then show ?thesis by (simp add: map_of_eq_None_iff)
  qed
  have outcome: "map_of (outcome_fields False r) k = None" if "k \<in> {''variables'', ''logs'', ''errorType''}" for k
    using that by (auto simp: outcome_fields_def)
  have err: "e = PStr hidden_error \<or> (\<exists>x q v v'. execute X q v = (Inr x, v') \<and> xr_error_type x = Some ''UserError'' \<and> e = of_opt (xr_error_message x))"
    if "map_of (outcome_fields False r) ''error'' = Some e" for e
  proof -
    have "e = PStr hidden_error \<or> xr_error_type r = Some ''UserError'' \<and> e = of_opt (xr_error_message r)"
      using that by (auto simp: outcome_fields_def split: if_splits)
    with assms(1) show ?thesis by blast
  qed
  have logs: "logs = [] \<or> (\<exists>ls. shown_logs (xr_logs r) = Inr ls \<and> logs = [(''logs'', PList ls)])"
    using assms(2) by (cases "shown_logs (xr_logs r)") (auto simp: log_fields_def split: if_splits)
  show ?thesis
    unfolding discreet_def fst_conv snd_conv
  proof (intro conjI impI allI)
    let ?d = "fs @ outcome_fields False r @ logs"
    show "map_of ?d ''variables'' = None" "map_of ?d ''errorType'' = None"
      using logs by (auto simp: fs outcome map_add_def)
    show "\<forall>l \<in> set ls. pget l ''level'' PNone \<notin> {Inr (PStr ''debug''), Inr (PStr ''traceback'')}"
      if "map_of ?d ''logs'' = Some (PList ls)" for ls
      using logs that by (auto simp: fs outcome map_add_def dest: shown_logs_levels)
    show "e = PStr hidden_error \<or> (\<exists>x q v v'. execute X q v = (Inr x, v') \<and> xr_error_type x = Some ''UserError'' \<and> e = of_opt (xr_error_message x))"
      if "map_of ?d ''error'' = Some e" for e
      by (rule err) (use logs that in \<open>auto simp: fs map_add_def split: option.splits\<close>)
  qed
qed

lemma wp_run_sync:
  assumes "\<not> ctx_is_platform_admin ctx"
  shows "wp (run_sync X ctx wname ps fid transient code l) (\<lambda>r _. discreet X r \<and> snd r = 200) (\<lambda>_ _. False) w"
proof -
  have failed: "discreet X ([(''executionId'', a), (''status'', b), (''error'', c), (''errorType'', PStr ''InternalError''),
      (''durationMs'', d), (''startedAt'', e), (''completedAt'', f), (''isTransient'', g)], 200)" for a b c d e f g
    by (simp add: discreet_def)
  have handler: "wp (py_bind (utcnow (en_env X)) (\<lambda>end_time. let duration_ms = ms_between start end_time in
         py_then (if \<not> transient then record_sync_failure X ctx xid duration_ms x else ret ())
         (ret ([(''executionId'', PStr xid), (''status'', PStr ''Failed''), (''error'', PStr (exn_msg x)),
           (''errorType'', PStr ''InternalError''), (''durationMs'', PInt duration_ms),
           (''startedAt'', PStr (env_isoformat (en_env X) start)),
           (''completedAt'', PStr (env_isoformat (en_env X) end_time)), (''isTransient'', PBool transient)], 200))))
      (\<lambda>r _. discreet X r \<and> snd r = 200) (\<lambda>_ _. False) w1" for start xid x w1
    unfolding wp_bind Let_def wp_then record_sync_failure_def
    by (rule wp_clock) (auto simp: failed simp del: wp_catch intro!: wp_caught)
  have body: "wp (py_then (if \<not> transient then py_then (log_create_execution S r xid org uid uname wname input fid bc) (ret ()) else ret ())
        (py_bind (execute X q) (\<lambda>r. py_then (if \<not> transient then record_sync_result X ctx xid r else ret ())
        (py_bind (utcnow (en_env X)) (\<lambda>end_time. py_bind (lift (log_fields (ctx_is_platform_admin ctx) r)) (\<lambda>logs.
         ret ([(''executionId'', PStr xid), (''status'', PStr (status_value (xr_status r))),
           (''durationMs'', PInt (xr_duration_ms r)), (''startedAt'', PStr (env_isoformat (en_env X) start)),
           (''completedAt'', PStr (env_isoformat (en_env X) end_time)), (''isTransient'', PBool transient)]
           @ outcome_fields (ctx_is_platform_admin ctx) r @ logs, 200)))))))
      (\<lambda>r _. discreet X r \<and> snd r = 200) (\<lambda>_ _. True) w1" for S r xid org uid uname wname input bc q start w1
    unfolding wp_then wp_bind
  proof (rule wp_mono [OF wp_caught_any], goal_cases)
    case 1
    show ?case
    proof (rule wp_mono [OF wp_execute_some], goal_cases)
      case (1 r w2)
      then obtain v v' where run: "execute X q v = (Inr r, v')" by blast
      show ?case
        by (rule wp_mono [OF wp_caught_any], rule wp_clock)
          (auto simp: assms split: sum.split intro!: discreet_result [OF run, where fs = "[_, _, _, _, _, _]", simplified])
    qed simp
  qed simp
  show ?thesis
    unfolding run_sync_def wp_bind [of "uuid4 _"] wp_bind [of "utcnow _"] wp_catch
    by (rule wp_uuid, rule wp_clock, rule wp_mono [OF body], assumption, rule handler [unfolded wp_bind [of "utcnow (en_env X)"]])
qed

lemma discreet_fields: "c \<noteq> 200 \<Longrightarrow> discreet X (error_fields err message c)"
  by (simp add: discreet_def error_fields_def)

lemma wp_execute_workflow_internal:
  assumes "\<not> ctx_is_platform_admin ctx"
  shows "wp (execute_workflow_internal X load ctx wname ps fid transient code) (\<lambda>r _. discreet X r) (\<lambda>_ _. True) w"
proof -
  have loaded: "wp (load_for_execution load wname) (\<lambda>r _. case r of Inl f \<Rightarrow> discreet X f | Inr _ \<Rightarrow> True) (\<lambda>_ _. False) v" for v
    unfolding load_for_execution_def wp_catch wp_bind
    by (rule wp_mono [OF wp_caught_any]) (auto simp: discreet_fields split: option.split)
  have queued: "wp (py_bind (enqueue_workflow_execution S ctx wname p fid code) (\<lambda>xid. ret ([(''executionId'', PStr xid),
      (''status'', PStr ''Pending''), (''message'', m)], 202))) (\<lambda>r _. discreet X r) (\<lambda>_ _. True) v" for S p m v
    unfolding wp_bind by (rule wp_mono [OF wp_caught_any]) (simp_all add: discreet_def)
  have sync: "wp (run_sync X ctx wname ps fid transient code l) (\<lambda>r _. discreet X r) (\<lambda>_ _. True) v" for l v
    by (rule wp_mono [OF wp_run_sync [OF assms]]) simp_all
  have rest: "wp (case loaded of Inl response \<Rightarrow> ret response
     | Inr l \<Rightarrow> if (case l of None \<Rightarrow> ''async'' | Some m \<Rightarrow> lw_execution_mode m) = ''async''
         then py_bind (enqueue_workflow_execution (en_services X) ctx wname (PDict ps) fid code) (\<lambda>xid.
           ret ([(''executionId'', PStr xid), (''status'', PStr ''Pending''),
             (''message'', PStr (if \<not> opt_truthy code then ''Workflow queued for async execution'' else ''Script queued for async execution''))], 202))
         else run_sync X ctx wname ps fid transient code l) (\<lambda>r _. discreet X r) (\<lambda>_ _. True) v"
    if "case loaded of Inl f \<Rightarrow> discreet X f | Inr _ \<Rightarrow> True" for loaded v
  proof (cases loaded)
    case (Inr l)
    show ?thesis unfolding Inr sum.case by (rule wp_either [OF queued sync])
  qed (use that in simp)
  have first: "wp (if \<not> opt_truthy code then py_bind (load_for_execution load wname) (\<lambda>r. ret (map_sum id Some r)) else ret (Inr None))
      (\<lambda>r _. case r of Inl f \<Rightarrow> discreet X f | Inr _ \<Rightarrow> True) (\<lambda>_ _. False) w"
    unfolding wp_if wp_bind by (simp, intro impI, rule wp_mono [OF loaded]) (auto split: sum.splits)
  show ?thesis
    unfolding execute_workflow_internal_def Let_def wp_bind [of "if _ then _ else _"]
    by (rule wp_mono [OF first], rule rest, assumption, simp)
qed

section \<open>Properties\<close>


definition failing_workflow :: "engine_mem loaded_workflow" where
  "failing_workflow = \<lparr>lw_function = function_with (\<lambda>_ _. Raises \<lparr>rx_type = ''ValueError'', rx_kind = Other_error,
       rx_message = ''key 42'', rx_heap = [], rx_frames = []\<rparr>),
     lw_timeout_seconds = 60, lw_execution_mode = ''sync'', lw_parameters = []\<rparr>"


end
