(* ===== verification/Data_Providers.thy ===== *)
theory Data_Providers
  imports Workflow_Handlers
begin

text \<open>
  \<open>shared/handlers/data_providers_handlers.py\<close>: the options of a data provider, which runs in the engine without a
  record of the execution. The loader of providers and their listing are parameters.
\<close>

text \<open>The attributes the code reads of a parameter and of a provider.\<close>

record provider_param =
  pp_name :: string
  pp_type :: string
  pp_required :: bool
  pp_label :: pyval
  pp_default_value :: pyval
  pp_help_text :: pyval

record provider_metadata =
  pv_name :: string
  pv_description :: string
  pv_category :: string
  pv_cache_ttl_seconds :: int
  pv_parameters :: "provider_param list"

type_synonym 'w provider_loader = "string \<Rightarrow> ('w, ('w user_function \<times> provider_metadata) option) py"

text \<open>An error response with details.\<close>

definition error_details :: "int \<Rightarrow> string \<Rightarrow> string \<Rightarrow> pyval \<Rightarrow> http_response" where
  "error_details status err message details = (status, PDict [(''error'', PStr err), (''message'', PStr message), (''details'', details)])"

definition validate_data_provider_inputs :: "provider_metadata \<Rightarrow> (string \<times> pyval) list option \<Rightarrow> string list" where
  "validate_data_provider_inputs md inputs = (let given = fst ` set (case inputs of None \<Rightarrow> [] | Some kvs \<Rightarrow> kvs) in
     map (\<lambda>p. ''Required parameter '' @ quote @ pp_name p @ quote @ '' is missing'')
       (filter (\<lambda>p. pp_required p \<and> pp_name p \<notin> given) (pv_parameters md)))"

fun py_type_name :: "pyval \<Rightarrow> string" where
  "py_type_name PNone = ''NoneType''"
| "py_type_name (PBool _) = ''bool''"
| "py_type_name (PInt _) = ''int''"
| "py_type_name (PStr _) = ''str''"
| "py_type_name (PDate _) = ''datetime''"
| "py_type_name (PList _) = ''list''"
| "py_type_name (PDict _) = ''dict''"
| "py_type_name (POther t) = t"

definition provider_request :: "exec_context \<Rightarrow> string \<Rightarrow> string \<Rightarrow> 'w user_function \<Rightarrow> provider_metadata \<Rightarrow> bool
    \<Rightarrow> (string \<times> pyval) list option \<Rightarrow> 'w exec_request" where
  "provider_request ctx execution_id provider_name f md no_cache inputs =
     \<lparr>er_execution_id = execution_id,
      er_caller = \<lparr>caller_user_id = ctx_user_id ctx, caller_email = ctx_email ctx, caller_name = ctx_name ctx\<rparr>,
      er_organization = ctx_organization ctx, er_config = ctx_config ctx, er_func = Some f, er_code = None,
      er_name = Some provider_name, er_tags = [''data_provider''], er_timeout_seconds = 1800,
      er_cache_ttl_seconds = pv_cache_ttl_seconds md, er_parameters = (case inputs of None \<Rightarrow> [] | Some kvs \<Rightarrow> kvs),
      er_transient = True, er_no_cache = no_cache, er_is_platform_admin = ctx_is_platform_admin ctx, er_broadcaster = None\<rparr>"

text \<open>The message of a log entry, or the entry as text.\<close>

definition log_message :: "'w env \<Rightarrow> pyval \<Rightarrow> pyval" where
  "log_message E l = (case l of
     PDict kvs \<Rightarrow> (case map_of kvs ''message'' of Some m \<Rightarrow> m | None \<Rightarrow> PStr (fstr E l))
   | _ \<Rightarrow> PStr (fstr E l))"

definition provider_response :: "'w env \<Rightarrow> exec_context \<Rightarrow> string \<Rightarrow> exec_result \<Rightarrow> http_response" where
  "provider_response E ctx provider_name r =
     (if xr_status r \<noteq> SUCCESS
      then error_details 500 ''InternalError'' (''Failed to execute data provider: '' @ (case xr_error_message r of None \<Rightarrow> ''None'' | Some m \<Rightarrow> m))
        (PDict ((''provider'', PStr provider_name) # (if ctx_is_platform_admin ctx \<and> xr_logs r \<noteq> []
           then [(''logs'', PList (map (log_message E) (xr_logs r)))] else [])))
      else case xr_result r of
        PList options \<Rightarrow> (200, PDict [(''provider'', PStr provider_name), (''options'', PList options), (''cached'', PBool (xr_cached r)),
          (''cache_expires_at'', of_opt (xr_cache_expires_at r))])
      | v \<Rightarrow> error_details 500 ''InternalError'' (''Data provider must return a list, got '' @ py_type_name v) (PDict [(''provider'', PStr provider_name)]))"

definition get_data_provider_options_handler :: "'w engine_env \<Rightarrow> 'w provider_loader \<Rightarrow> string \<Rightarrow> exec_context \<Rightarrow> bool
    \<Rightarrow> (string \<times> pyval) list option \<Rightarrow> ('w, http_response) py" where
  "get_data_provider_options_handler X load provider_name ctx no_cache inputs =
     (if provider_name = [] then ret (error_response 400 ''BadRequest'' ''providerName is required'')
      else py_bind (py_attempt (load provider_name)) (\<lambda>res. case res of
        Inl x \<Rightarrow> ret (error_response 500 ''DataProviderLoadError'' (''Failed to load data provider '' @ quote @ provider_name @ quote @ '': '' @ exn_msg x))
      | Inr None \<Rightarrow> ret (error_response 404 ''NotFound'' (''Data provider '' @ quote @ provider_name @ quote @ '' not found''))
      | Inr (Some (f, md)) \<Rightarrow> (let errors = validate_data_provider_inputs md inputs in
          if errors \<noteq> [] then ret (error_details 400 ''BadRequest'' ''Invalid or missing required parameters'' (PDict [(''errors'', PList (map PStr errors))]))
          else py_catch
            (py_bind (uuid4 (en_env X)) (\<lambda>execution_id.
             py_bind (execute X (provider_request ctx execution_id provider_name f md no_cache inputs)) (\<lambda>r.
             ret (provider_response (en_env X) ctx provider_name r))))
            (\<lambda>x. ret (error_details 500 ''InternalError'' (''Failed to execute data provider: '' @ exn_msg x) (PDict [(''provider'', PStr provider_name)]))))))"

definition provider_json :: "provider_metadata \<Rightarrow> pyval" where
  "provider_json p = PDict [(''name'', PStr (pv_name p)), (''description'', PStr (pv_description p)), (''category'', PStr (pv_category p)),
     (''cache_ttl_seconds'', PInt (pv_cache_ttl_seconds p)), (''parameters'', PList (map (\<lambda>q. PDict [(''name'', PStr (pp_name q)),
       (''type'', PStr (pp_type q)), (''required'', PBool (pp_required q)), (''label'', pp_label q),
       (''defaultValue'', pp_default_value q), (''helpText'', pp_help_text q)]) (pv_parameters p)))]"

definition list_data_providers_handler :: "('w, provider_metadata list) py \<Rightarrow> ('w, http_response) py" where
  "list_data_providers_handler scan = py_bind scan (\<lambda>ps. ret (200, PDict [(''providers'', PList (map provider_json ps))]))"

end
