(* ===== verification/Form_Handlers.thy ===== *)
theory Form_Handlers
  imports Form_Files Data_Providers Authorization
begin

text \<open>
  \<open>shared/handlers/forms_handlers.py\<close>: forms as administrators manage them and as users see, start and submit them.
  Nested models are the dictionaries \<open>model_dump\<close> makes of them.
\<close>

section \<open>What the handlers use\<close>

text \<open>
  The engine, the disk, \<open>json.dumps(v, indent=2)\<close>, the loaders, and the attributes \<open>error_type\<close>, \<open>message\<close> and \<open>details\<close>
  of a \<open>WorkflowError\<close>.
\<close>

record 'w form_services =
  fs_engine :: "'w engine_env"
  fs_disk :: "'w disk"
  fs_dumps :: "pyval \<Rightarrow> exn + string"
  fs_workflows :: "'w loader"
  fs_providers :: "'w provider_loader"
  fs_error_attributes :: "raised \<Rightarrow> string \<times> string \<times> pyval"

abbreviation fs_env :: "'w form_services \<Rightarrow> 'w env" where
  "fs_env F \<equiv> en_env (fs_engine F)"

text \<open>
  A call of an \<open>async\<close> function without \<open>await\<close> is a coroutine: it is not run, and it counts as true.
\<close>

definition coroutine_truthy :: "('w, bool) py \<Rightarrow> bool" where
  "coroutine_truthy call = True"

text \<open>An attribute of a nested model; all of them are there.\<close>

definition field_of :: "pyval \<Rightarrow> string \<Rightarrow> pyval" where
  "field_of v k = (case v of PDict kvs \<Rightarrow> (case map_of kvs k of Some x \<Rightarrow> x | None \<Rightarrow> PNone) | _ \<Rightarrow> PNone)"

definition list_items :: "pyval \<Rightarrow> pyval list" where
  "list_items v = (case v of PList xs \<Rightarrow> xs | _ \<Rightarrow> [])"

definition has_key :: "pyval \<Rightarrow> string \<Rightarrow> bool" where
  "has_key v k = (case v of PDict kvs \<Rightarrow> k \<in> fst ` set kvs | PList xs \<Rightarrow> PStr k \<in> set xs | _ \<Rightarrow> False)"

definition schema_fields :: "model \<Rightarrow> pyval list" where
  "schema_fields m = list_items (field_of (dget0 m ''formSchema'') ''fields'')"

definition form_json :: "'w env \<Rightarrow> model \<Rightarrow> pyval" where
  "form_json E m = fields_json [''id'', ''orgId'', ''name'', ''description'', ''linkedWorkflow'', ''formSchema'', ''isActive'', ''isGlobal'',
     ''accessLevel'', ''createdBy'', ''createdAt'', ''updatedAt'', ''launchWorkflowId'', ''allowedQueryParams'', ''defaultLaunchParams'']
     (env_model_dump E ''json'' m)"

definition form_failure :: "'w env \<Rightarrow> exec_context \<Rightarrow> string \<Rightarrow> string \<Rightarrow> (string \<times> pyval) list \<Rightarrow> exn \<Rightarrow> ('w, http_response) py" where
  "form_failure E ctx message response ds x = py_then
     (system_log E ''form'' ''error'' (message @ '': '' @ exn_msg x) (ctx_user_id ctx) (Some (display_name ctx))
       (PDict (ds @ [(''error'', PStr (exn_msg x)), (''error_type'', PStr (exn_name x))])))
     (ret (internal_error response))"

definition form_not_found :: http_response where
  "form_not_found = error_response 404 ''NotFound'' ''Form not found''"

definition forbidden :: "string \<Rightarrow> http_response" where
  "forbidden message = error_response 403 ''Forbidden'' message"

section \<open>Checks of a form\<close>

definition provider_errors :: "'w provider_loader \<Rightarrow> pyval \<Rightarrow> ('w, string list) py" where
  "provider_errors load f = (case field_of f ''dataProvider'' of
     PStr provider \<Rightarrow> if provider = [] then ret [] else
       (let field = (case field_of f ''name'' of PStr s \<Rightarrow> s | _ \<Rightarrow> []); inputs = field_of f ''dataProviderInputs'' in
        py_bind (load provider) (\<lambda>result. ret (case result of
          None \<Rightarrow> [''Field '' @ quote @ field @ quote @ '' references unknown data provider '' @ quote @ provider @ quote]
        | Some (_, md) \<Rightarrow> map (\<lambda>p. ''Field '' @ quote @ field @ quote @ '' uses data provider '' @ quote @ provider @ quote
              @ '': required parameter '' @ quote @ pp_name p @ quote @ '' is missing from dataProviderInputs'')
            (filter (\<lambda>p. pp_required p \<and> (\<not> truthy inputs \<or> \<not> has_key inputs (pp_name p))) (pv_parameters md)))))
   | _ \<Rightarrow> ret [])"

definition validate_data_provider_inputs_for_form :: "'w provider_loader \<Rightarrow> pyval list \<Rightarrow> ('w, string list) py" where
  "validate_data_provider_inputs_for_form load fs = py_bind (py_map (provider_errors load) fs) (\<lambda>ess. ret (concat ess))"

definition required_names :: "'w loaded_workflow \<Rightarrow> string list" where
  "required_names l = map fst (filter snd (lw_parameters l))"

definition validate_launch_workflow_params :: "'w loader \<Rightarrow> pyval \<Rightarrow> pyval \<Rightarrow> pyval \<Rightarrow> ('w, string option) py" where
  "validate_launch_workflow_params load launch_workflow_id default_params query_params = (case launch_workflow_id of
     PStr wid \<Rightarrow> if wid = [] then ret None else
       py_bind (load wid) (\<lambda>result. ret (case result of
         None \<Rightarrow> Some (''Launch workflow '' @ quote @ wid @ quote @ '' not found'')
       | Some l \<Rightarrow> (let missing = filter (\<lambda>n. \<not> has_key default_params n \<and> \<not> has_key query_params n) (required_names l) in
           if missing \<noteq> [] then Some (''Launch workflow '' @ quote @ wid @ quote
             @ '' requires parameters that have no default values or query parameter fields: '' @ join '', '' missing
             @ ''. Please either add default values in '' @ quote @ ''defaultLaunchParams'' @ quote @ '' or enable '' @ quote
             @ ''allowAsQueryParam'' @ quote @ '' for form fields with these names.'')
           else None)))
   | _ \<Rightarrow> ret None)"

text \<open>Both checks, as creating and updating make them: the response of the first that fails.\<close>

definition form_errors :: "'w form_services \<Rightarrow> model \<Rightarrow> ('w, http_response option) py" where
  "form_errors F m =
     py_bind (validate_launch_workflow_params (fs_workflows F) (dget0 m ''launchWorkflowId'') (dget0 m ''defaultLaunchParams'') (dget0 m ''allowedQueryParams'')) (\<lambda>e.
     case e of Some message \<Rightarrow> ret (Some (error_response 400 ''ValidationError'' message))
     | None \<Rightarrow> py_bind (validate_data_provider_inputs_for_form (fs_providers F) (schema_fields m)) (\<lambda>es.
         ret (if es \<noteq> [] then Some (error_details 400 ''ValidationError'' ''Data provider configuration validation failed''
           (PDict [(''errors'', PList (map PStr es))])) else None)))"

section \<open>Listing\<close>

definition form_field_names :: "model \<Rightarrow> exn + pyval list" where
  "form_field_names f = ebind (pget (dget f ''formSchema'' (PDict [])) ''fields'' (PList [])) (\<lambda>fs.
     map_sum id (filter truthy) (map_exn (\<lambda>g. pget g ''name'' PNone) (list_items fs)))"

definition missing_required :: "'w loader \<Rightarrow> model \<Rightarrow> ('w, string list) py" where
  "missing_required load f = (case dget0 f ''linkedWorkflow'' of
     PStr linked \<Rightarrow> if linked = [] then ret [] else
       py_bind (load linked) (\<lambda>result. case result of
         None \<Rightarrow> ret []
       | Some l \<Rightarrow> if lw_parameters l = [] then ret []
           else py_bind (lift (form_field_names f)) (\<lambda>names. ret (filter (\<lambda>n. PStr n \<notin> set names) (required_names l))))
   | _ \<Rightarrow> ret [])"

definition list_forms_handler :: "'w form_services \<Rightarrow> exec_context \<Rightarrow> ('w, (model list + http_response)) py" where
  "list_forms_handler F ctx = py_catch
     (py_bind (get_user_visible_forms (fs_env F) ctx) (\<lambda>forms.
      py_bind (py_map (\<lambda>f. py_bind (missing_required (fs_workflows F) f) (\<lambda>missing.
         ret (f(''missingRequiredParams'' \<mapsto> PList (map PStr missing))))) forms) (\<lambda>enriched.
      ret (Inl (sort_key (\<lambda>f. fstr (fs_env F) (dget0 f ''name'')) enriched)))))
     (\<lambda>_. ret (Inr (internal_error ''Failed to list forms'')))"

section \<open>Managing\<close>

definition form_event :: "'w env \<Rightarrow> exec_context \<Rightarrow> event_action \<Rightarrow> model \<Rightarrow> ('w, string) py" where
  "form_event E ctx action form = log_form_event E action (fstr E (dget0 form ''id'')) (fstr E (dget0 form ''name''))
     (if truthy (dget0 form ''orgId'') then fstr E (dget0 form ''orgId'') else ''GLOBAL'') (ctx_user_id ctx) (display_name ctx)"

definition create_form_handler :: "'w form_services \<Rightarrow> exec_context \<Rightarrow> entity \<Rightarrow> ('w, http_response) py" where
  "create_form_handler F ctx body = py_catch
     (py_bind (lift (env_validate (fs_env F) ''CreateFormRequest'' body)) (\<lambda>m. py_bind (form_errors F m) (\<lambda>failed. case failed of
        Some response \<Rightarrow> ret response
      | None \<Rightarrow> py_bind (create_form (fs_env F) (fs_disk F) (fs_dumps F) ctx m (ctx_user_id ctx)) (\<lambda>form.
          py_then (form_event (fs_env F) ctx Create form) (ret (201, form_json (fs_env F) form))))))
     (\<lambda>x. if is_validation_error x then ret invalid_request
       else case x of ValueError _ \<Rightarrow> ret (error_response 400 ''BadRequest'' ''Invalid JSON in request body'')
       | _ \<Rightarrow> form_failure (fs_env F) ctx ''Failed to create form'' ''Failed to create form'' [] x)"

text \<open>The answer does not depend on who may see the form: the check is not awaited.\<close>

definition get_form_handler :: "'w form_services \<Rightarrow> exec_context \<Rightarrow> string \<Rightarrow> ('w, http_response) py" where
  "get_form_handler F ctx form_id = py_catch
     (py_bind (get_form (fs_env F) ctx form_id) (\<lambda>found. case found of
        None \<Rightarrow> ret form_not_found
      | Some form \<Rightarrow> if \<not> coroutine_truthy (can_user_view_form (fs_env F) ctx form_id)
          then ret (forbidden (''You don'' @ quote @ ''t have permission to access this form''))
          else ret (200, form_json (fs_env F) form)))
     (\<lambda>_. ret (internal_error ''Failed to retrieve form''))"

text \<open>\<open>updates.f if updates.f is not None else existing.f\<close>, for the fields that are checked.\<close>

definition merged :: "model \<Rightarrow> model \<Rightarrow> model" where
  "merged u form = (\<lambda>k. if k \<in> {''launchWorkflowId'', ''defaultLaunchParams'', ''allowedQueryParams'', ''formSchema''} \<and> dget0 u k \<noteq> PNone
     then u k else form k)"

definition update_form_handler :: "'w form_services \<Rightarrow> exec_context \<Rightarrow> string \<Rightarrow> entity \<Rightarrow> ('w, http_response) py" where
  "update_form_handler F ctx form_id body = py_catch
     (py_bind (lift (env_validate (fs_env F) ''UpdateFormRequest'' body)) (\<lambda>u. py_bind (get_form (fs_env F) ctx form_id) (\<lambda>found. case found of
        None \<Rightarrow> ret form_not_found
      | Some existing \<Rightarrow> py_bind (form_errors F (merged u existing)) (\<lambda>failed. case failed of
          Some response \<Rightarrow> ret response
        | None \<Rightarrow> py_bind (update_form (fs_env F) (fs_disk F) (fs_dumps F) ctx form_id u) (\<lambda>form.
            py_then (form_event (fs_env F) ctx Update form) (ret (200, form_json (fs_env F) form)))))))
     (\<lambda>x. if is_validation_error x then ret invalid_request
       else case x of ValueError _ \<Rightarrow> ret (error_response 400 ''BadRequest'' ''Invalid JSON in request body'')
       | _ \<Rightarrow> form_failure (fs_env F) ctx (''Failed to update form '' @ form_id) ''Failed to update form'' [(''form_id'', PStr form_id)] x)"

definition delete_form_handler :: "'w form_services \<Rightarrow> exec_context \<Rightarrow> string \<Rightarrow> ('w, http_response) py" where
  "delete_form_handler F ctx form_id = py_catch
     (py_bind (get_form (fs_env F) ctx form_id) (\<lambda>form. py_bind (delete_form (fs_env F) (fs_disk F) ctx form_id) (\<lambda>success.
      py_then (case form of Some f \<Rightarrow> if success then py_then (form_event (fs_env F) ctx Delete f) (ret ()) else ret () | None \<Rightarrow> ret ())
        (ret (204, PNone)))))
     (form_failure (fs_env F) ctx (''Failed to delete form '' @ form_id) ''Failed to delete form'' [(''form_id'', PStr form_id)])"

section \<open>Starting and submitting\<close>

text \<open>User code outside of the engine: what it logs and leaves in frames goes nowhere.\<close>

primrec run_plain :: "'w user_code \<Rightarrow> ('w, raised + pyval) py" where
  "run_plain (Returns v) = ret (Inr v)"
| "run_plain (Raises x) = ret (Inl x)"
| "run_plain (Logs r k) = run_plain k"
| "run_plain (Leaves_frame f h locals k) = run_plain k"
| "run_plain (Runs f) = (\<lambda>w. case (map_prod id run_plain \<circ> f) w of (w', m) \<Rightarrow> m w')"

record startup_request =
  sr_method :: string
  sr_body :: "exn + pyval"
  sr_params :: "string \<rightharpoonup> string"

text \<open>\<open>d.update(v)\<close> for a value of a request.\<close>

definition update_dict :: "(string \<times> pyval) list \<Rightarrow> pyval \<Rightarrow> exn + (string \<times> pyval) list" where
  "update_dict d v = (case v of
     PDict kvs \<Rightarrow> Inr (fold (\<lambda>(k, x). AList.update k x) kvs d)
   | PList [] \<Rightarrow> Inr d
   | PStr [] \<Rightarrow> Inr d
   | PList _ \<Rightarrow> Inl (TypeError ''cannot convert dictionary update sequence element to a sequence'')
   | PStr _ \<Rightarrow> Inl (ValueError ''dictionary update sequence element has length 1; 2 is required'')
   | _ \<Rightarrow> Inl (TypeError ''object is not iterable''))"

text \<open>Defaults, then the data of a posted body that can be read, then the query parameters the form allows.\<close>

definition posted_data :: "startup_request \<Rightarrow> (string \<times> pyval) list \<Rightarrow> exn + (string \<times> pyval) list" where
  "posted_data r d = (if sr_method r \<noteq> ''POST'' then Inr d
     else case ebind (sr_body r) (\<lambda>b. if truthy b then ebind (pget b ''form_data'' (PDict [])) (update_dict d) else Inr d) of
       Inl (ValueError _) \<Rightarrow> Inr d | out \<Rightarrow> out)"

definition query_data :: "startup_request \<Rightarrow> pyval list \<Rightarrow> (string \<times> pyval) list \<Rightarrow> (string \<times> pyval) list" where
  "query_data r allowed d = fold (\<lambda>p d. case p of
     PStr n \<Rightarrow> (case sr_params r n of Some v \<Rightarrow> AList.update n (PStr v) d | None \<Rightarrow> d) | _ \<Rightarrow> d) allowed d"

definition dict_entries :: "pyval \<Rightarrow> (string \<times> pyval) list" where
  "dict_entries v = (case v of PDict kvs \<Rightarrow> kvs | _ \<Rightarrow> [])"

definition startup_data :: "startup_request \<Rightarrow> model \<Rightarrow> exn + (string \<times> pyval) list" where
  "startup_data r form = map_sum id (query_data r (list_items (dget0 form ''allowedQueryParams'')))
     (posted_data r (dict_entries (dget0 form ''defaultLaunchParams'')))"

text \<open>\<open>error_msg.split("'")[-2]\<close>.\<close>

definition missing_parameter :: "string \<Rightarrow> string" where
  "missing_parameter msg = (let ps = split_all CHR 0x27 msg in if length ps < 2 then ''unknown'' else ps ! (length ps - 2))"

definition type_error_response :: "pyval \<Rightarrow> string \<Rightarrow> http_response" where
  "type_error_response workflow msg = error_details 400 ''BadRequest''
     (if str_in ''missing'' msg \<and> str_in ''required positional argument'' msg
      then ''Launch workflow requires parameter '' @ quote @ missing_parameter msg @ quote
        @ '' but it was not provided. Check the form'' @ quote @ ''s allowed query parameters configuration.''
      else ''Invalid parameters for launch workflow: '' @ msg)
     (PDict [(''workflow'', workflow), (''error'', PStr msg)])"

definition startup_error :: "string \<Rightarrow> http_response" where
  "startup_error msg = internal_error (''An unexpected error occurred while executing the launch workflow: '' @ msg)"

definition raised_response :: "'w form_services \<Rightarrow> pyval \<Rightarrow> raised \<Rightarrow> http_response" where
  "raised_response F workflow x = (case rx_kind x of
     Type_error \<Rightarrow> type_error_response workflow (rx_message x)
   | Workflow_error \<Rightarrow> (case fs_error_attributes F x of (t, m, d) \<Rightarrow> error_details 400 t m d)
   | _ \<Rightarrow> startup_error (rx_message x))"

definition exn_response :: "pyval \<Rightarrow> exn \<Rightarrow> http_response" where
  "exn_response workflow x = (case x of TypeError m \<Rightarrow> type_error_response workflow m | _ \<Rightarrow> startup_error (exn_msg x))"

text \<open>Users who are no administrators do not start or submit forms that are not active.\<close>

definition closed_form :: "exec_context \<Rightarrow> model \<Rightarrow> bool" where
  "closed_form ctx form \<longleftrightarrow> \<not> truthy (dget0 form ''isActive'') \<and> \<not> ctx_is_platform_admin ctx"

definition launch :: "'w form_services \<Rightarrow> exec_context \<Rightarrow> startup_request \<Rightarrow> model \<Rightarrow> ('w, http_response) py" where
  "launch F workflow_ctx r form = (let workflow = dget0 form ''launchWorkflowId'' in py_catch
     (if \<not> truthy workflow then ret (200, PDict [(''result'', PDict [])])
      else py_bind (lift (startup_data r form)) (\<lambda>input. py_bind (fs_workflows F (fstr (fs_env F) workflow)) (\<lambda>result. case result of
        None \<Rightarrow> ret (error_response 404 ''NotFound'' (''Launch workflow '' @ quote @ fstr (fs_env F) workflow @ quote @ '' not found''))
      | Some l \<Rightarrow> py_bind (run_plain (uf_call (lw_function l) (Some workflow_ctx) (filter (\<lambda>(k, _). k \<in> fst ` set (lw_parameters l)) input))) (\<lambda>out.
          ret (case out of Inr v \<Rightarrow> (200, PDict [(''result'', v)]) | Inl x \<Rightarrow> raised_response F workflow x)))))
     (\<lambda>x. ret (exn_response workflow x)))"

text \<open>A \<open>TypeError\<close> before there is a form meets a variable that is not bound.\<close>

definition execute_form_startup_handler :: "'w form_services \<Rightarrow> exec_context \<Rightarrow> exec_context \<Rightarrow> string \<Rightarrow> startup_request \<Rightarrow> ('w, http_response) py" where
  "execute_form_startup_handler F ctx workflow_ctx form_id r =
     (if \<not> coroutine_truthy (can_user_view_form (fs_env F) ctx form_id)
      then ret (forbidden (''You don'' @ quote @ ''t have permission to access this form''))
      else py_bind (py_attempt (get_form (fs_env F) ctx form_id)) (\<lambda>found. case found of
        Inl x \<Rightarrow> (case x of TypeError _ \<Rightarrow> raise (AppError ''UnboundLocalError'' ''form'') | _ \<Rightarrow> ret (startup_error (exn_msg x)))
      | Inr None \<Rightarrow> ret form_not_found
      | Inr (Some form) \<Rightarrow> if closed_form ctx form then ret form_not_found else launch F workflow_ctx r form))"

definition execute_form_handler :: "'w form_services \<Rightarrow> exec_context \<Rightarrow> exec_context \<Rightarrow> string \<Rightarrow> (string \<times> pyval) list option \<Rightarrow> ('w, http_response) py" where
  "execute_form_handler F ctx workflow_ctx form_id form_data = py_catch
     (if \<not> coroutine_truthy (can_user_execute_form (fs_env F) ctx form_id)
      then ret (forbidden (''You don'' @ quote @ ''t have permission to execute this form''))
      else py_bind (get_form (fs_env F) ctx form_id) (\<lambda>found. case found of
        None \<Rightarrow> ret form_not_found
      | Some form \<Rightarrow> if closed_form ctx form then ret form_not_found
          else if \<not> truthy (dget0 form ''linkedWorkflow'') then ret (internal_error ''Form configuration error: No linked workflow'')
          else py_bind (execute_workflow_internal (fs_engine F) (fs_workflows F) workflow_ctx (fstr (fs_env F) (dget0 form ''linkedWorkflow''))
              (case form_data of None \<Rightarrow> [] | Some kvs \<Rightarrow> kvs) (Some form_id) False None) (\<lambda>(fields, status). ret (status, PDict fields))))
     (\<lambda>x. case x of ValueError _ \<Rightarrow> ret (error_response 400 ''BadRequest'' ''Invalid JSON in request body'')
       | _ \<Rightarrow> if is_validation_error x then ret (error_response 400 ''BadRequest'' ''Invalid JSON in request body'')
           else ret (internal_error ''Failed to submit form''))"

section \<open>Roles and data providers of a form\<close>

definition get_form_roles_handler :: "'w form_services \<Rightarrow> exec_context \<Rightarrow> string \<Rightarrow> ('w, http_response) py" where
  "get_form_roles_handler F ctx form_id = py_catch
     (py_bind (get_form (fs_env F) ctx form_id) (\<lambda>found. case found of
        None \<Rightarrow> ret form_not_found
      | Some _ \<Rightarrow> if \<not> ctx_is_platform_admin ctx then ret (forbidden ''Only platform admins can view form roles'')
          else py_bind (get_form_role_ids (fs_env F) form_id) (\<lambda>ids. ret (200, PDict [(''roleIds'', PList (map PStr ids))]))))
     (\<lambda>_. ret (internal_error ''Failed to retrieve form roles''))"

definition execute_form_data_provider_handler :: "'w form_services \<Rightarrow> exec_context \<Rightarrow> exec_context \<Rightarrow> string \<Rightarrow> string \<Rightarrow> bool
    \<Rightarrow> (string \<times> pyval) list option \<Rightarrow> ('w, http_response) py" where
  "execute_form_data_provider_handler F ctx workflow_ctx form_id provider_name no_cache inputs = py_catch
     (py_bind (get_form (fs_env F) ctx form_id) (\<lambda>found. case found of
        None \<Rightarrow> ret form_not_found
      | Some _ \<Rightarrow> if \<not> coroutine_truthy (can_user_view_form (fs_env F) ctx form_id) then ret (forbidden ''You do not have access to this form'')
          else get_data_provider_options_handler (fs_engine F) (fs_providers F) provider_name workflow_ctx no_cache inputs))
     (\<lambda>_. ret (internal_error ''Failed to execute data provider''))"

section \<open>Lemmas\<close>

text \<open>A form none of whose files belong to the caller's scope.\<close>

definition foreign_form :: "'w env \<Rightarrow> exec_context \<Rightarrow> string \<Rightarrow> 'w \<Rightarrow> bool" where
  "foreign_form E ctx form_id w \<longleftrightarrow> \<not> ctx_is_platform_admin ctx
     \<and> (\<forall>data. form_file E w (PStr form_id) data \<longrightarrow> \<not> in_form_scope ctx (file_org data))"

context runtime
begin

lemma wp_get_foreign_form:
  assumes "foreign_form E ctx fid w"
  shows "wp (get_form E ctx fid) (\<lambda>res w'. res = None \<and> unchanged E w w') (\<lambda>_ _. False) w"
  unfolding get_form_def get_form_metadata_def wp_bind
proof (rule wp_mono [OF wp_scan_all_forms], goal_cases)
  case (1 ms v)
  show ?case
  proof (cases "find (\<lambda>m. fm_id m = PStr fid) ms")
    case None
    then show ?thesis using 1 by simp
  next
    case (Some m)
    then have "m \<in> set ms" "fm_id m = PStr fid" by (auto simp: find_Some_iff)
    then obtain data where "form_file E w (PStr fid) data" "fm_org_id m = file_org data"
      using 1 unfolding metadata_from_def by metis
    then have "\<not> ctx_is_platform_admin ctx \<and> \<not> in_form_scope ctx (fm_org_id m)"
      using assms by (simp add: foreign_form_def)
    then show ?thesis using 1 Some by simp
  qed
qed

lemma get_foreign_form:
  assumes "foreign_form E ctx fid w"
  obtains w' where "get_form E ctx fid w = (Inr None, w')" and "unchanged E w w'"
  using wp_get_foreign_form [OF assms] by (auto simp: wp_def split: prod.splits sum.splits)

end

text \<open>The handlers by which a user sees, starts and submits a form.\<close>

datatype form_request =
    View
  | Start exec_context startup_request
  | Submit exec_context "(string \<times> pyval) list option"
  | Roles_of_form
  | Provide exec_context string bool "(string \<times> pyval) list option"

fun run_form_request :: "'w form_services \<Rightarrow> exec_context \<Rightarrow> string \<Rightarrow> form_request \<Rightarrow> ('w, http_response) py" where
  "run_form_request F ctx form_id View = get_form_handler F ctx form_id"
| "run_form_request F ctx form_id (Start workflow_ctx r) = execute_form_startup_handler F ctx workflow_ctx form_id r"
| "run_form_request F ctx form_id (Submit workflow_ctx kvs) = execute_form_handler F ctx workflow_ctx form_id kvs"
| "run_form_request F ctx form_id Roles_of_form = get_form_roles_handler F ctx form_id"
| "run_form_request F ctx form_id (Provide workflow_ctx provider no_cache inputs) =
     execute_form_data_provider_handler F ctx workflow_ctx form_id provider no_cache inputs"

lemma run_not_found:
  assumes "get_form (fs_env F) ctx fid w = (Inr None, w')"
  shows "run_form_request F ctx fid q w = (Inr form_not_found, w')"
  using assms by (cases q) (simp_all add: get_form_handler_def execute_form_startup_handler_def execute_form_handler_def
    get_form_roles_handler_def execute_form_data_provider_handler_def coroutine_truthy_def py_run_defs)

section \<open>Properties\<close>

text \<open>
  C12: A user who is no administrator cannot see, start or submit a form of another organization, nor use its data
  providers: every request is answered as if there was no such form, no workflow and no provider runs, and nothing changes.
\<close>

theorem forms_of_others_hidden:
  assumes "runtime (fs_env F)" and "\<not> ctx_is_platform_admin ctx"
    and "\<forall>data. form_file (fs_env F) w (PStr fid) data \<longrightarrow> file_org data \<noteq> PStr ''GLOBAL'' \<and> file_org data \<noteq> of_opt (ctx_org_id ctx)"
    and "run_form_request F ctx fid q w = (r, w')"
  shows "r = Inr form_not_found \<and> env_rows (fs_env F) w' = env_rows (fs_env F) w \<and> env_form_files (fs_env F) w' = env_form_files (fs_env F) w"
proof -
  have "foreign_form (fs_env F) ctx fid w" using assms(2,3) by (simp add: foreign_form_def in_form_scope_def)
  then obtain v where "get_form (fs_env F) ctx fid w = (Inr None, v)" "unchanged (fs_env F) w v"
    by (rule runtime.get_foreign_form [OF assms(1)])
  then show ?thesis using run_not_found assms(4) by fastforce
qed


definition empty_disk :: "'w disk" where
  "empty_disk = \<lparr>dk_tree = (\<lambda>_. []), dk_set_tree = (\<lambda>_ w. w), dk_fault = ret (), dk_progress = (\<lambda>_. 0), dk_cwd = [],
     dk_modified = (\<lambda>_ _. []), dk_decode = Some, dk_encode = Inr, dk_b64decode = Inr, dk_b64encode = id, dk_md5 = id\<rparr>"

definition mem_forms :: "engine_mem form_services" where
  "mem_forms = \<lparr>fs_engine = mem_engine, fs_disk = empty_disk, fs_dumps = (\<lambda>_. Inr []), fs_workflows = (\<lambda>_. ret None),
     fs_providers = (\<lambda>_. ret None), fs_error_attributes = (\<lambda>x. (rx_type x, rx_message x, PNone))\<rparr>"

text \<open>A form of the organization acme for a role that nobody has.\<close>

definition guarded_world :: engine_mem where
  "guarded_world = engine_world\<lparr>mem_files := [(''ops'', ''/ws/ops.form.json'', Some [''id'' \<mapsto> PStr ''f2'', ''orgId'' \<mapsto> PStr ''acme'',
     ''name'' \<mapsto> PStr ''Ops'', ''linkedWorkflow'' \<mapsto> PStr ''ops''])]\<rparr>"

lemma forms_of_others_hidden_witness:
  "fst (run_form_request mem_forms (member_ctx ''other'') ''f2'' View guarded_world) = Inr form_not_found"
proof -
  have "runtime (fs_env mem_forms)"
    using mem.runtime_axioms by (simp add: mem_forms_def mem_engine_def mem_cloud_def)
  moreover have "\<not> ctx_is_platform_admin (member_ctx ''other'')" by (simp add: member_ctx_def)
  moreover have "\<forall>data. form_file (fs_env mem_forms) guarded_world (PStr ''f2'') data \<longrightarrow>
      file_org data \<noteq> PStr ''GLOBAL'' \<and> file_org data \<noteq> of_opt (ctx_org_id (member_ctx ''other''))"
    by (auto simp: form_file_def guarded_world_def engine_world_def mem_forms_def mem_engine_def mem_cloud_def mem_env_def
      file_org_def member_ctx_def ctx_org_id_def dget_def)
  ultimately show ?thesis
    using forms_of_others_hidden [of mem_forms "member_ctx ''other''" guarded_world "''f2''" View] by (metis prod.collapse)
qed


end
