(* ===== verification/Execution_Handlers.thy ===== *)
theory Execution_Handlers
  imports Execution_Logs Blob_Storage Execution_Logger Authorization
begin

text \<open>
  \<open>shared/handlers/executions_handlers.py\<close>: listing executions page by page, reading one with its logs, variables and
  result, and cancelling it.
\<close>

section \<open>Representation\<close>

definition map_frontend_status_to_backend :: "string \<Rightarrow> string" where
  "map_frontend_status_to_backend s = (case map_of [(''pending'', ''Pending''), (''running'', ''Running''), (''completed'', ''Success''),
       (''completedwitherrors'', ''CompletedWithErrors''), (''failed'', ''Failed'')] (lower s) of
     Some b \<Rightarrow> b | None \<Rightarrow> s)"

definition map_status_to_frontend :: "pyval \<Rightarrow> pyval" where
  "map_status_to_frontend s = s"

definition determine_result_type :: "pyval \<Rightarrow> pyval" where
  "determine_result_type v = (case v of
     PNone \<Rightarrow> PNone
   | PStr s \<Rightarrow> PStr (if startswith (strip s) ''<'' \<and> str_in ''>'' (strip s) then ''html'' else ''text'')
   | _ \<Rightarrow> PStr ''json'')"

definition to_iso_string :: "'w env \<Rightarrow> pyval \<Rightarrow> exn + pyval" where
  "to_iso_string E v = (case v of PNone \<Rightarrow> Inr PNone | PStr s \<Rightarrow> Inr (PStr s) | _ \<Rightarrow> attr_isoformat E v)"

text \<open>\<open>a or b\<close>.\<close>

definition or_else :: "pyval \<Rightarrow> pyval \<Rightarrow> pyval" where
  "or_else a b = (if truthy a then a else b)"

definition format_execution_response :: "'w env \<Rightarrow> model \<Rightarrow> exn + model" where
  "format_execution_response E m =
     ebind (to_iso_string E (dget0 m ''startedAt'')) (\<lambda>started. ebind (to_iso_string E (dget0 m ''completedAt'')) (\<lambda>completed.
     Inr [''executionId'' \<mapsto> or_else (dget0 m ''executionId'') (PStr []), ''workflowName'' \<mapsto> or_else (dget0 m ''workflowName'') (PStr ''Unknown''),
       ''orgId'' \<mapsto> dget0 m ''orgId'',
       ''status'' \<mapsto> map_status_to_frontend (if dget0 m ''status'' = PNone then PStr ''Unknown'' else dget0 m ''status''),
       ''inputData'' \<mapsto> dget m ''inputData'' (PDict []), ''errorMessage'' \<mapsto> dget0 m ''errorMessage'',
       ''executedBy'' \<mapsto> or_else (dget0 m ''executedBy'') (PStr []),
       ''executedByName'' \<mapsto> or_else (dget0 m ''executedByName'') (or_else (dget0 m ''executedBy'') (PStr ''Unknown'')),
       ''startedAt'' \<mapsto> started, ''completedAt'' \<mapsto> completed, ''formId'' \<mapsto> dget0 m ''formId'', ''durationMs'' \<mapsto> dget0 m ''durationMs'']))"

section \<open>Filters\<close>

definition filter_executions_by_workflow :: "string option \<Rightarrow> model list \<Rightarrow> model list" where
  "filter_executions_by_workflow wname es = (if \<not> opt_truthy wname then es else filter (\<lambda>e. dget0 e ''workflowName'' = of_opt wname) es)"

definition filter_executions_by_status :: "string option \<Rightarrow> model list \<Rightarrow> model list" where
  "filter_executions_by_status status es = (if \<not> opt_truthy status then es
     else filter (\<lambda>e. dget0 e ''status'' = PStr (map_frontend_status_to_backend (str_or status []))) es)"

text \<open>A time without offset counts as UTC.\<close>

definition utc_if_naive :: "datetime \<Rightarrow> datetime" where
  "utc_if_naive d = (case d of Naive i \<Rightarrow> Aware i 0 | Aware i z \<Rightarrow> Aware i z)"

text \<open>A bound that cannot be read leaves every execution out, as does a date that cannot be read.\<close>

definition beyond :: "'w env \<Rightarrow> (int \<Rightarrow> bool) \<Rightarrow> string option \<Rightarrow> datetime \<Rightarrow> exn + bool" where
  "beyond E P bound started = (if \<not> opt_truthy bound then Inr False
     else ebind (parse_iso E (of_opt bound)) (\<lambda>b. map_sum id P (dt_diff (utc_if_naive started) (utc_if_naive b))))"

definition in_date_range :: "'w env \<Rightarrow> string option \<Rightarrow> string option \<Rightarrow> model \<Rightarrow> bool" where
  "in_date_range E start_date end_date e = (let v = dget0 e ''startedAt'' in
     if \<not> truthy v then False
     else case ebind (parse_iso E v) (\<lambda>started. ebind (beyond E (\<lambda>d. d < 0) start_date started) (\<lambda>early.
         if early then Inr False else map_sum id Not (beyond E (\<lambda>d. d > 0) end_date started))) of
       Inl _ \<Rightarrow> False | Inr keep \<Rightarrow> keep)"

definition filter_executions_by_date_range :: "'w env \<Rightarrow> string option \<Rightarrow> string option \<Rightarrow> model list \<Rightarrow> model list" where
  "filter_executions_by_date_range E start_date end_date es =
     (if \<not> opt_truthy start_date \<and> \<not> opt_truthy end_date then es else filter (in_date_range E start_date end_date) es)"

definition apply_limit :: "model list \<Rightarrow> int \<Rightarrow> model list" where
  "apply_limit es limit = py_take limit es"

section \<open>Listing\<close>

text \<open>Tokens travel as base64 of JSON or of the text itself; one that cannot be read is ignored.\<close>

definition decode_token :: "'w env \<Rightarrow> string option \<Rightarrow> pyval" where
  "decode_token E token = (if \<not> opt_truthy token then PNone
     else case env_b64decode E (str_or token []) of
       Inl _ \<Rightarrow> PNone
     | Inr s \<Rightarrow> (case env_loads E s of Some v \<Rightarrow> v | None \<Rightarrow> PStr s))"

definition encode_token :: "'w env \<Rightarrow> (string \<Rightarrow> string) \<Rightarrow> pyval \<Rightarrow> exn + string option" where
  "encode_token E b64encode token = (if \<not> truthy token then Inr None
     else case token of PStr s \<Rightarrow> Inr (Some (b64encode s)) | v \<Rightarrow> map_sum id (\<lambda>s. Some (b64encode s)) (env_dumps E v))"

record list_query =
  lq_workflow_name :: "string option"
  lq_status :: "string option"
  lq_start_date :: "string option"
  lq_end_date :: "string option"
  lq_limit :: int
  lq_token :: "string option"

definition list_executions_handler :: "'w env \<Rightarrow> (string \<Rightarrow> string) \<Rightarrow> exec_context \<Rightarrow> list_query \<Rightarrow> ('w, model list \<times> string option) py" where
  "list_executions_handler E b64encode ctx q = (let limit = min (lq_limit q) 1000; token = decode_token E (lq_token q) in
     py_bind (if ctx_is_platform_admin ctx then list_executions_paged E (execution_repo (Some ctx)) (Some (ctx_scope ctx)) limit token
       else list_executions_by_user_paged E (ctx_user_id ctx) limit token) (\<lambda>(ms, next_token).
     let es = filter_executions_by_date_range E (lq_start_date q) (lq_end_date q)
         (filter_executions_by_status (lq_status q) (filter_executions_by_workflow (lq_workflow_name q) (map (env_model_dump E ''json'') ms))) in
     py_bind (lift (map_exn (format_execution_response E) es)) (\<lambda>formatted.
     py_bind (lift (encode_token E b64encode next_token)) (\<lambda>encoded. ret (formatted, encoded)))))"

section \<open>One execution\<close>

text \<open>The left part is the kind of error the endpoint turns into a response.\<close>

definition get_and_authorize_execution :: "'w env \<Rightarrow> exec_context \<Rightarrow> string \<Rightarrow> ('w, string + model) py" where
  "get_and_authorize_execution E ctx execution_id =
     (if execution_id = [] then ret (Inl ''BadRequest'')
      else py_bind (get_execution E (execution_repo (Some ctx)) execution_id None) (\<lambda>found. case found of
        None \<Rightarrow> ret (Inl ''NotFound'')
      | Some m \<Rightarrow> if \<not> can_user_view_execution ctx (env_model_dump E ''python'' m) then ret (Inl ''Forbidden'') else ret (Inr m)))"

definition if_authorized :: "'w env \<Rightarrow> exec_context \<Rightarrow> string \<Rightarrow> (model \<Rightarrow> ('w, string + 'a) py) \<Rightarrow> ('w, string + 'a) py" where
  "if_authorized E ctx execution_id f = py_bind (get_and_authorize_execution E ctx execution_id) (\<lambda>res. case res of
     Inl e \<Rightarrow> ret (Inl e) | Inr m \<Rightarrow> f m)"

text \<open>\<open>RowKey.rsplit("-", 1)[0]\<close>.\<close>

definition without_sequence :: "string \<Rightarrow> string" where
  "without_sequence k = (if CHR ''-'' \<in> set k then rev (tl (dropWhile (\<lambda>c. c \<noteq> CHR ''-'') (rev k))) else k)"

definition log_view :: "'w env \<Rightarrow> entity \<Rightarrow> exn + pyval" where
  "log_view E l = ebind (required l ''ExecutionLogId'') (\<lambda>i. ebind (required l ''RowKey'') (\<lambda>k.
     ebind (required l ''Level'') (\<lambda>level. ebind (required l ''Message'') (\<lambda>message.
     Inr (PDict [(''executionLogId'', i), (''timestamp'', PStr (without_sequence (fstr E k))), (''level'', level), (''message'', message),
       (''source'', dget l ''Source'' (PStr ''workflow''))])))))"

text \<open>The result of a model, or else the one in the blobs, with its type.\<close>

definition result_and_type :: "'w services \<Rightarrow> string \<Rightarrow> model \<Rightarrow> ('w, pyval \<times> pyval) py" where
  "result_and_type S execution_id m = (let r = dget0 m ''result'' in
     if truthy r then ret (r, determine_result_type r)
     else py_bind (get_result S execution_id) (\<lambda>v. ret (v, determine_result_type v)))"

definition get_execution_handler :: "'w services \<Rightarrow> exec_context \<Rightarrow> string \<Rightarrow> ('w, string + model) py" where
  "get_execution_handler S ctx execution_id = if_authorized (sv_env S) ctx execution_id (\<lambda>m.
     py_bind (if ctx_is_platform_admin ctx then py_bind (get_logs (sv_env S) execution_id None 5000) (\<lambda>ls.
          py_bind (lift (map_exn (log_view (sv_env S)) ls)) (\<lambda>vs. ret (PList vs)))
        else ret PNone) (\<lambda>logs.
     py_bind (if ctx_is_platform_admin ctx then get_variables S execution_id else ret PNone) (\<lambda>variables.
     py_bind (result_and_type S execution_id m) (\<lambda>(result, result_type).
     ret (Inr ((env_model_dump (sv_env S) ''json'' m)(''logs'' \<mapsto> logs, ''variables'' \<mapsto> variables, ''result'' \<mapsto> result,
       ''resultType'' \<mapsto> result_type)))))))"

definition get_execution_result_handler :: "'w services \<Rightarrow> exec_context \<Rightarrow> string \<Rightarrow> ('w, string + pyval) py" where
  "get_execution_result_handler S ctx execution_id = if_authorized (sv_env S) ctx execution_id (\<lambda>m.
     py_bind (result_and_type S execution_id m) (\<lambda>(result, result_type).
     ret (Inr (PDict [(''result'', result), (''resultType'', result_type)]))))"

fun user_log_views :: "'w env \<Rightarrow> bool \<Rightarrow> entity list \<Rightarrow> exn + pyval list" where
  "user_log_views E admin [] = Inr []"
| "user_log_views E admin (l # ls) = ebind (if admin then Inr True else map_sum id (\<lambda>v. v \<notin> {PStr ''DEBUG'', PStr ''TRACEBACK''}) (required l ''Level''))
     (\<lambda>shown. ebind (if shown then map_sum id (\<lambda>v. [v]) (log_view E l) else Inr []) (\<lambda>v. map_sum id (append v) (user_log_views E admin ls)))"

definition get_execution_logs_handler :: "'w services \<Rightarrow> exec_context \<Rightarrow> string \<Rightarrow> ('w, string + pyval) py" where
  "get_execution_logs_handler S ctx execution_id = if_authorized (sv_env S) ctx execution_id (\<lambda>_.
     py_bind (get_logs (sv_env S) execution_id None 5000) (\<lambda>ls.
     py_bind (lift (user_log_views (sv_env S) (ctx_is_platform_admin ctx) ls)) (\<lambda>vs. ret (Inr (PList vs)))))"

definition get_execution_variables_handler :: "'w services \<Rightarrow> exec_context \<Rightarrow> string \<Rightarrow> ('w, string + pyval) py" where
  "get_execution_variables_handler S ctx execution_id = if_authorized (sv_env S) ctx execution_id (\<lambda>_.
     if \<not> ctx_is_platform_admin ctx then ret (Inl ''Forbidden'')
     else py_bind (get_variables S execution_id) (\<lambda>v. ret (Inr v)))"

section \<open>Cancelling\<close>

definition str_field :: "model \<Rightarrow> string \<Rightarrow> string option" where
  "str_field m k = (case dget0 m k of PStr s \<Rightarrow> Some s | _ \<Rightarrow> None)"

definition cancellable :: "model \<Rightarrow> bool" where
  "cancellable m \<longleftrightarrow> dget0 m ''status'' \<in> {PStr (status_value PENDING), PStr (status_value RUNNING)}"

definition cancel_execution_handler :: "'w env \<Rightarrow> exec_context \<Rightarrow> string \<Rightarrow> ('w, string + model) py" where
  "cancel_execution_handler E ctx execution_id = if_authorized E ctx execution_id (\<lambda>m.
     if \<not> cancellable m then ret (Inl ''BadRequest'')
     else py_bind (update_execution E (execution_repo (Some ctx)) execution_id (str_field m ''orgId'')
         (case str_field m ''executedBy'' of Some u \<Rightarrow> u | None \<Rightarrow> []) CANCELLING PNone None None False) (\<lambda>m'.
       ret (Inr (env_model_dump E ''json'' m'))))"

section \<open>Lemmas\<close>

text \<open>The arguments of the model of an execution, which has no field of the name the check of the owner reads.\<close>

definition execution_kw :: "entity \<Rightarrow> entity \<Rightarrow> bool" where
  "execution_kw e kw \<longleftrightarrow> kw ''ExecutedBy'' = None \<and> kw ''orgId'' = Some (dget0 e ''PartitionKey'')
     \<and> (\<forall>st. entity_status e = Inr st \<longrightarrow> kw ''status'' = Some (PStr (status_value st)))"

text \<open>A dump has the fields of the model only.\<close>

locale execution_dumps = table_sdk E for E :: "'w env" +
  assumes dump_fields: "env_validate E ''WorkflowExecution'' kw = Inr m \<Longrightarrow> kw ''ExecutedBy'' = None
    \<Longrightarrow> env_model_dump E mode m ''ExecutedBy'' = None"

context table_sdk
begin

lemma wp_model_kw:
  assumes "env_rows E w = T"
  shows "wp (execution_entity_to_model E e)
    (\<lambda>m w'. env_rows E w' = T \<and> (\<exists>kw. env_validate E ''WorkflowExecution'' kw = Inr m \<and> execution_kw e kw)) (\<lambda>_ w'. env_rows E w' = T) w"
  unfolding execution_entity_to_model_def wp_bind
proof (rule wp_utcnow, goal_cases)
  case (1 d w')
  obtain res rt where r: "result_of E e = (res, rt)" by fastforce
  show ?case
    unfolding Let_def r prod.case wp_lift using 1 assms
    by (auto simp: execution_kw_def split: sum.splits intro!: exI)
qed

lemma wp_found_execution:
  "wp (get_execution E r xid org)
    (\<lambda>found w'. env_rows E w' = env_rows E w \<and> (\<forall>m. found = Some m \<longrightarrow> (\<exists>e kw. env_validate E ''WorkflowExecution'' kw = Inr m \<and> execution_kw e kw)))
    (\<lambda>_ w'. env_rows E w' = env_rows E w) w"
proof -
  have query: "stays (\<lambda>v. env_rows E v = env_rows E w) (find_execution E r xid org)"
  proof -
    have "stays (\<lambda>v. env_rows E v = env_rows E w) (query_entities E s f sel)" for s f sel
      by (rule staysI) (auto intro!: wp_mono [OF wp_query_entities_reads])
    then show ?thesis unfolding find_execution_def repo_query_def by (intro stays_intros)
  qed
  show ?thesis
    unfolding get_execution_def wp_bind
  proof (rule wp_mono [OF stays_wp [OF query refl]], goal_cases)
    case (1 es v)
    show ?case
    proof (cases es)
      case (Cons e es')
      show ?thesis
        unfolding Cons list.case wp_bind by (rule wp_mono [OF wp_model_kw [OF 1]]) auto
    qed (use 1 in simp)
  qed simp
qed

end

context execution_dumps
begin

lemma wp_not_authorized:
  assumes "\<not> ctx_is_platform_admin ctx"
  shows "wp (get_and_authorize_execution E ctx xid) (\<lambda>r w'. env_rows E w' = env_rows E w \<and> (\<exists>e. r = Inl e)) (\<lambda>_ w'. env_rows E w' = env_rows E w) w"
proof -
  have denied: "\<not> can_user_view_execution ctx (env_model_dump E mode m)"
    if "env_validate E ''WorkflowExecution'' kw = Inr m" "execution_kw e kw" for mode m e kw
    using dump_fields [OF that(1)] that(2) assms by (simp add: can_user_view_execution_def execution_kw_def dget_def)
  show ?thesis
  proof (cases "xid = []")
    case False
    show ?thesis
      unfolding get_and_authorize_execution_def if_not_P [OF False] wp_bind
      by (rule wp_mono [OF wp_found_execution]) (auto split: option.split dest: denied)
  qed (simp add: get_and_authorize_execution_def)
qed

lemma wp_closed:
  assumes "\<not> ctx_is_platform_admin ctx"
  shows "wp (if_authorized E ctx xid f) (\<lambda>r w'. env_rows E w' = env_rows E w \<and> (\<exists>e. r = Inl e)) (\<lambda>_ w'. env_rows E w' = env_rows E w) w"
  unfolding if_authorized_def wp_bind by (rule wp_mono [OF wp_not_authorized [OF assms]]) auto

end

interpretation mem: execution_dumps mem_env
  by unfold_locales (simp add: mem_env_def)


subsection \<open>Cancelling\<close>

definition active_model :: "execution_status \<Rightarrow> model \<Rightarrow> bool" where
  "active_model s m \<longleftrightarrow> m ''status'' = Some (PStr (status_value s)) \<and> m ''orgId'' = Some (PStr ''GLOBAL'')"

lemma cancellable_active: "active_model s m \<Longrightarrow> cancellable m \<longleftrightarrow> s \<in> {PENDING, RUNNING}"
  unfolding active_model_def cancellable_def by (simp add: dget_def del: status_value.simps)

lemma entity_status_read: "e ''Status'' = Some (PStr (status_value s)) \<Longrightarrow> entity_status e = Inr s"
  using status_of_value [of s] by (cases s) (simp_all add: entity_status_def dget_def)

context available_sdk
begin

lemma stays_get_execution:
  assumes "no_quote xid"
  shows "stays ok (get_execution E r xid None)"
  unfolding get_execution_def find_execution_def execution_entity_to_model_def Let_def
  by (intro stays_intros stays_find_ok assms) (auto simp: partition_of_def intro: stays_intros)

lemma wp_get_active:
  assumes "in_status (env_rows E w) ''GLOBAL'' xid s" and "no_quote xid" and "repo_table r = ''Entities''"
  shows "wp (get_execution E r xid None) (\<lambda>found w'. env_rows E w' = env_rows E w \<and> (\<exists>m. found = Some m \<and> active_model s m)) (\<lambda>_ _. True) w"
proof -
  let ?T = "env_rows E w ''Entities''"
  obtain k e where row: "?T (''GLOBAL'', k) = Some e" "e ''ExecutionId'' = Some (PStr xid)" "e ''Status'' = Some (PStr (status_value s))"
    and only: "\<And>k' e'. ?T (''GLOBAL'', k') = Some e' \<Longrightarrow> e' ''ExecutionId'' = Some (PStr xid) \<Longrightarrow> k' = k"
    using assms(1) unfolding in_status_def primary_row_def by blast
  have here: "{e. has_execution ?T ''GLOBAL'' xid e} = {e}"
    using row(1,2) only by (fastforce simp: has_execution_def)
  let ?d = "deserialize_datetime_fields E e"
  have "e ''PartitionKey'' = Some (PStr ''GLOBAL'')"
    using rows_keyed [OF row(1)] by (simp add: entity_key_Some)
  then have d: "dget0 ?d ''PartitionKey'' = PStr ''GLOBAL''" "entity_status ?d = Inr s"
    using row(3) by (simp_all add: dget_def datetime_fields_def entity_status_read del: status_value.simps)
  have model: "wp (execution_entity_to_model E ?d) (\<lambda>m w'. env_rows E w' = env_rows E w \<and> active_model s m) (\<lambda>_ _. True) v"
    if "env_rows E v = env_rows E w" for v
  proof (rule wp_mono [OF wp_model_kw [OF that]], goal_cases)
    case (1 m w')
    then obtain kw where kw: "env_validate E ''WorkflowExecution'' kw = Inr m" "execution_kw ?d kw" by blast
    show ?case
      using 1 kw(2) d validate_str [OF kw(1), of "''status''"] validate_str [OF kw(1), of "''orgId''"]
      by (simp add: active_model_def execution_kw_def str_fields_def)
  qed simp
  show ?thesis
    unfolding get_execution_def wp_bind
  proof (rule wp_mono [OF wp_find_execution], goal_cases)
    case (3 es v)
    then have es: "set es = {?d}" "env_rows E v = env_rows E w"
      using here by (auto simp: partition_of_def assms(3) Let_def)
    then obtain es' where "es = ?d # es'" by (cases es) auto
    then show ?case
      by (auto intro!: wp_mono [OF model [OF es(2)]])
  qed (use assms(2) in \<open>simp_all add: partition_of_def\<close>)
qed

text \<open>A call that changes nothing leaves the execution where it is.\<close>

definition cancelled_or_same :: "'w \<Rightarrow> string \<Rightarrow> execution_status \<Rightarrow> 'w \<Rightarrow> bool" where
  "cancelled_or_same w xid s w' \<longleftrightarrow> env_rows E w' = env_rows E w
     \<or> s \<in> {PENDING, RUNNING} \<and> (\<exists>s' \<in> {s, CANCELLING}. in_status (env_rows E w') ''GLOBAL'' xid s')"

lemma wp_cancel_execution:
  assumes "ok w" and "no_quote xid" and "in_status (env_rows E w) ''GLOBAL'' xid s"
  shows "wp (cancel_execution_handler E ctx xid)
    (\<lambda>r w'. case r of Inl _ \<Rightarrow> env_rows E w' = env_rows E w
       | Inr _ \<Rightarrow> s \<in> {PENDING, RUNNING} \<and> in_status (env_rows E w') ''GLOBAL'' xid CANCELLING)
    (\<lambda>_ w'. cancelled_or_same w xid s w') w"
proof (cases "xid = []")
  case False
  let ?r = "execution_repo (Some ctx)"
  have r: "repo_table ?r = ''Entities''" by (simp add: execution_repo_def)
  have get: "wp (get_execution E ?r xid None)
      (\<lambda>found w'. ok w' \<and> env_rows E w' = env_rows E w \<and> (\<exists>m. found = Some m \<and> active_model s m)) (\<lambda>_ w'. env_rows E w' = env_rows E w) w"
    by (rule wp_mono [OF wp_conj [OF stays_wp [OF stays_get_execution [OF assms(2)] assms(1)] wp_conj [OF wp_found_execution
      wp_get_active [OF assms(3,2) r]]]]) auto
  show ?thesis
    unfolding cancel_execution_handler_def if_authorized_def get_and_authorize_execution_def if_not_P [OF False] wp_bind
  proof (rule wp_mono [OF get], goal_cases)
    case (1 found w1)
    then obtain m where m: "found = Some m" "active_model s m" and w1: "ok w1" "env_rows E w1 = env_rows E w" by auto
    have org: "str_field m ''orgId'' = Some ''GLOBAL''" "partition_of (Some ''GLOBAL'') = ''GLOBAL''"
      using m(2) by (simp_all add: active_model_def str_field_def dget_def partition_of_def)
    have upd: "wp (update_execution E ?r xid (Some ''GLOBAL'') u CANCELLING PNone None None False)
        (\<lambda>_ w'. in_status (env_rows E w') ''GLOBAL'' xid CANCELLING)
        (\<lambda>_ w'. \<exists>s' \<in> {s, CANCELLING}. in_status (env_rows E w') ''GLOBAL'' xid s') w1" for u
      using wp_update_execution [OF w1(1) r assms(2), of "Some ''GLOBAL''" s u CANCELLING PNone None None False] assms(3) w1(2) org(2)
      by simp
    show ?case
    proof (cases "can_user_view_execution ctx (env_model_dump E ''python'' m) \<and> cancellable m")
      case True
      then have s: "s \<in> {PENDING, RUNNING}" using cancellable_active [OF m(2)] by simp
      show ?thesis
        using True s by (auto simp: m(1) org(1) cancelled_or_same_def intro!: wp_mono [OF upd])
    qed (use m(1) w1(2) in auto)
  qed (simp add: cancelled_or_same_def)
qed (simp add: cancel_execution_handler_def if_authorized_def get_and_authorize_execution_def)

end

section \<open>Properties\<close>

text \<open>The requests for one execution.\<close>

datatype execution_request = ViewDetails | ViewResult | ViewLogs | ViewVariables | CancelIt

definition run_execution_request :: "'w services \<Rightarrow> exec_context \<Rightarrow> string \<Rightarrow> execution_request \<Rightarrow> ('w, string + model + pyval) py" where
  "run_execution_request S ctx execution_id req = (case req of
     ViewDetails \<Rightarrow> py_bind (get_execution_handler S ctx execution_id) (\<lambda>r. ret (map_sum id Inl r))
   | ViewResult \<Rightarrow> py_bind (get_execution_result_handler S ctx execution_id) (\<lambda>r. ret (map_sum id Inr r))
   | ViewLogs \<Rightarrow> py_bind (get_execution_logs_handler S ctx execution_id) (\<lambda>r. ret (map_sum id Inr r))
   | ViewVariables \<Rightarrow> py_bind (get_execution_variables_handler S ctx execution_id) (\<lambda>r. ret (map_sum id Inr r))
   | CancelIt \<Rightarrow> py_bind (cancel_execution_handler (sv_env S) ctx execution_id) (\<lambda>r. ret (map_sum id Inl r)))"

lemma wp_execution_request:
  assumes "execution_dumps (sv_env S)" and "\<not> ctx_is_platform_admin ctx"
  shows "wp (run_execution_request S ctx xid req) (\<lambda>r w'. env_rows (sv_env S) w' = env_rows (sv_env S) w \<and> (\<exists>e. r = Inl e))
    (\<lambda>_ w'. env_rows (sv_env S) w' = env_rows (sv_env S) w) w"
  by (cases req) (auto simp: run_execution_request_def get_execution_handler_def get_execution_result_handler_def
    get_execution_logs_handler_def get_execution_variables_handler_def cancel_execution_handler_def
    intro!: wp_mono [OF execution_dumps.wp_closed [OF assms]])

text \<open>
  C6: a user who is not an administrator gets an error for every request about one execution, the executions started by the
  same user included, and nothing is written: the check of the owner reads the field \<open>ExecutedBy\<close> of a dump whose
  field is \<open>executedBy\<close>.
\<close>

theorem users_cannot_open_executions:
  assumes "execution_dumps (sv_env S)" and "\<not> ctx_is_platform_admin ctx"
    and "run_execution_request S ctx execution_id req w = (Inr r, w')"
  shows "(\<exists>e. r = Inl e) \<and> env_rows (sv_env S) w' = env_rows (sv_env S) w"
  using wp_Inr [OF wp_execution_request [OF assms(1,2)] assms(3)] by blast

definition viewer :: "bool \<Rightarrow> exec_context" where
  "viewer admin = \<lparr>ctx_user_id = ''ann'', ctx_email = ''ann@acme.com'', ctx_name = ''Ann'', ctx_scope = ''GLOBAL'', ctx_organization = None,
     ctx_is_platform_admin = admin, ctx_is_function_key = False, ctx_execution_id = ''r1'', ctx_config = Map.empty, ctx_integration_calls = []\<rparr>"

definition ann_running :: mem where
  "ann_running = running_world\<lparr>mem_rows := [((''Entities'', (''GLOBAL'', ''execution:9_x1'')),
     [''PartitionKey'' \<mapsto> PStr ''GLOBAL'', ''RowKey'' \<mapsto> PStr ''execution:9_x1'', ''ExecutionId'' \<mapsto> PStr ''x1'',
      ''Status'' \<mapsto> PStr ''Running'', ''ExecutedBy'' \<mapsto> PStr ''ann''])]\<rparr>"

theorem users_cannot_open_executions_witness:
  "\<exists>w'. run_execution_request mem_cloud (viewer False) ''x1'' ViewLogs
      (cloud_world\<lparr>mem_rows := mem_rows ann_running\<rparr>) = (Inr (Inl ''Forbidden''), w')
    \<and> mem_view w' = mem_view (cloud_world\<lparr>mem_rows := mem_rows ann_running\<rparr>)"
proof -
  let ?w = "cloud_world\<lparr>mem_rows := mem_rows ann_running\<rparr>"
  have "case fst (run_execution_request mem_cloud (viewer False) ''x1'' ViewLogs ?w) of Inr (Inl e) \<Rightarrow> e = ''Forbidden'' | _ \<Rightarrow> False"
    by code_simp
  then have "fst (run_execution_request mem_cloud (viewer False) ''x1'' ViewLogs ?w) = Inr (Inl ''Forbidden'')"
    by (auto split: sum.splits)
  moreover have "execution_dumps (sv_env (mem_cloud :: cloud_mem services))"
    by (simp add: mem.execution_dumps_axioms)
  ultimately show ?thesis
    using users_cannot_open_executions [of mem_cloud "viewer False" "''x1''" ViewLogs ?w "Inl ''Forbidden''"]
    by (cases "run_execution_request mem_cloud (viewer False) ''x1'' ViewLogs ?w") (simp add: viewer_def)
qed

text \<open>
  C7: while the table service is available, a request to cancel an execution of the global partition succeeds only for an
  execution that is pending or running, and then its status is \<open>Cancelling\<close>; a refused request changes no row, and an
  exception leaves the status as it was or \<open>Cancelling\<close>, the latter only for an execution that was pending or running.
\<close>

theorem cancel_only_active:
  assumes "available_sdk E ok" and "ok w" and "no_quote execution_id"
    and "in_status (env_rows E w) ''GLOBAL'' execution_id s"
    and "cancel_execution_handler E ctx execution_id w = (out, w')"
  shows "case out of
      Inr (Inr _) \<Rightarrow> s \<in> {PENDING, RUNNING} \<and> in_status (env_rows E w') ''GLOBAL'' execution_id CANCELLING
    | Inr (Inl _) \<Rightarrow> env_rows E w' = env_rows E w
    | Inl _ \<Rightarrow> env_rows E w' = env_rows E w
        \<or> s \<in> {PENDING, RUNNING} \<and> (\<exists>s' \<in> {s, CANCELLING}. in_status (env_rows E w') ''GLOBAL'' execution_id s')"
  using available_sdk.wp_cancel_execution [OF assms(1-4), of ctx] assms(5)
  by (simp add: wp_def available_sdk.cancelled_or_same_def [OF assms(1)] split: sum.splits)

theorem cancel_only_active_witness:
  "case cancel_execution_handler mem_env (viewer True) ''x1'' running_world of
     (Inr (Inr _), w') \<Rightarrow> in_status (mem_view w') ''GLOBAL'' ''x1'' CANCELLING | _ \<Rightarrow> False"
proof -
  let ?ctx = "viewer True"
  let ?run = "cancel_execution_handler mem_env ?ctx ''x1'' running_world"
  have "case ?run of (Inr (Inr m), _) \<Rightarrow> True | _ \<Rightarrow> False" by code_simp
  then obtain m w' where run: "?run = (Inr (Inr m), w')" by (auto split: prod.splits sum.splits)
  have "in_status (mem_view w') ''GLOBAL'' ''x1'' CANCELLING"
    using cancel_only_active [OF mem.available_sdk_axioms _ _ _ run, of RUNNING] running_world_status
    by (simp add: running_world_def)
  then show ?thesis using run by simp
qed

end
