(* ===== verification/User_Handlers.thy ===== *)
theory User_Handlers
  imports Role_Handlers Execution_Cleanup
begin

text \<open>
  \<open>shared/handlers/permissions_handlers.py\<close>: users as administrators list, create, change and delete them, with their
  roles and forms.
\<close>

section \<open>Requests and responses\<close>

record create_user_request =
  cur_email :: string
  cur_display_name :: string
  cur_is_platform_admin :: bool
  cur_org_id :: "string option"

record update_user_request =
  uur_display_name :: "string option"
  uur_is_active :: "bool option"
  uur_is_platform_admin :: "bool option"
  uur_org_id :: "string option"

text \<open>The checks of the whole model come after those of its fields.\<close>

definition user_request :: "'w env \<Rightarrow> entity \<Rightarrow> exn + create_user_request" where
  "user_request E kw = ebind (env_validate E ''CreateUserRequest'' kw) (\<lambda>m.
     let admin = truthy (dget0 m ''isPlatformAdmin''); org = opt_str (dget0 m ''orgId'') in
     if \<not> admin \<and> \<not> opt_truthy org then Inl (validation_error ''orgId is required when isPlatformAdmin is false'')
     else if admin \<and> opt_truthy org then Inl (validation_error ''orgId must be null when isPlatformAdmin is true'')
     else Inr \<lparr>cur_email = fstr E (dget0 m ''email''), cur_display_name = fstr E (dget0 m ''displayName''),
       cur_is_platform_admin = admin, cur_org_id = org\<rparr>)"

definition user_updates :: "'w env \<Rightarrow> entity \<Rightarrow> exn + update_user_request" where
  "user_updates E kw = ebind (env_validate E ''UpdateUserRequest'' kw) (\<lambda>m.
     let admin = opt_bool (dget0 m ''isPlatformAdmin''); org = opt_str (dget0 m ''orgId'') in
     if admin = Some False \<and> \<not> opt_truthy org then Inl (validation_error ''orgId is required when setting isPlatformAdmin to false'')
     else Inr \<lparr>uur_display_name = opt_str (dget0 m ''displayName''), uur_is_active = opt_bool (dget0 m ''isActive''),
       uur_is_platform_admin = admin, uur_org_id = org\<rparr>)"

text \<open>\<open>except ValueError\<close> catches the errors of pydantic too.\<close>

definition is_value_error :: "exn \<Rightarrow> bool" where
  "is_value_error x \<longleftrightarrow> is_validation_error x \<or> (case x of ValueError _ \<Rightarrow> True | _ \<Rightarrow> False)"

definition value_error_response :: "exn \<Rightarrow> http_response" where
  "value_error_response x = error_response 400 ''ValidationError'' (exn_msg x)"

definition user_json :: "model \<Rightarrow> pyval" where
  "user_json = fields_json [''id'', ''email'', ''displayName'', ''userType'', ''isPlatformAdmin'', ''isActive'', ''lastLogin'', ''createdAt'',
     ''entraUserId'', ''lastEntraIdSync'']"

definition user_not_found :: "string \<Rightarrow> http_response" where
  "user_not_found user_id = error_response 404 ''NotFound'' (''User '' @ user_id @ '' not found'')"

definition unknown_organization :: "string \<Rightarrow> http_response" where
  "unknown_organization oid = error_response 404 ''NotFound'' (''Organization '' @ oid @ '' not found'')"

definition user_event :: "'w env \<Rightarrow> exec_context \<Rightarrow> event_action \<Rightarrow> string \<Rightarrow> (string \<times> pyval) list \<Rightarrow> ('w, string) py" where
  "user_event E ctx action user_id ds = log_user_event E action user_id user_id (ctx_user_id ctx) (display_name ctx) ds"

definition user_failure :: "'w env \<Rightarrow> exec_context \<Rightarrow> string \<Rightarrow> string \<Rightarrow> (string \<times> pyval) list \<Rightarrow> exn \<Rightarrow> ('w, http_response) py" where
  "user_failure E ctx message response ds x = py_then
     (system_log E ''user'' ''error'' (message @ '': '' @ exn_msg x) (ctx_user_id ctx) (Some (display_name ctx))
       (PDict (ds @ [(''error'', PStr (exn_msg x)), (''error_type'', PStr (exn_name x))])))
     (ret (internal_error response))"

section \<open>Reading users\<close>

definition entities_service :: "exec_context \<Rightarrow> table_service" where
  "entities_service ctx = \<lparr>svc_table = ''Entities'', svc_context = Some ctx\<rparr>"

definition relationships_of :: "exec_context \<Rightarrow> table_service" where
  "relationships_of ctx = \<lparr>svc_table = ''Relationships'', svc_context = Some ctx\<rparr>"

text \<open>The dates are left to the model to read, and the type defaults to \<open>PLATFORM\<close> here.\<close>

definition stored_user :: "'w env \<Rightarrow> pyval \<Rightarrow> pyval \<Rightarrow> entity \<Rightarrow> exn + model" where
  "stored_user E user_id email e = ebind (required e ''DisplayName'') (\<lambda>name. ebind (required e ''CreatedAt'') (\<lambda>created.
     env_validate E ''User'' [''id'' \<mapsto> user_id, ''email'' \<mapsto> email, ''displayName'' \<mapsto> name,
       ''userType'' \<mapsto> dget e ''UserType'' (PStr ''PLATFORM''), ''isPlatformAdmin'' \<mapsto> dget e ''IsPlatformAdmin'' (PBool False),
       ''isActive'' \<mapsto> dget e ''IsActive'' (PBool True), ''lastLogin'' \<mapsto> dget0 e ''LastLogin'', ''createdAt'' \<mapsto> created,
       ''entraUserId'' \<mapsto> dget0 e ''EntraUserId'', ''lastEntraIdSync'' \<mapsto> dget0 e ''LastEntraIdSync'']))"

text \<open>The rest of a row key after its second colon, if there is one.\<close>

definition key_rest :: "entity \<Rightarrow> exn + string option" where
  "key_rest e = (case e ''RowKey'' of
     None \<Rightarrow> Inl (KeyError ''RowKey'')
   | Some (PStr s) \<Rightarrow> (let parts = split_max CHR '':'' 2 s in Inr (if length parts = 3 then Some (parts ! 2) else None))
   | Some _ \<Rightarrow> Inl (AttributeError ''split''))"

definition key_rests :: "entity list \<Rightarrow> exn + string list" where
  "key_rests es = map_sum id (List.map_filter id) (map_exn key_rest es)"

text \<open>Users of other organizations are left out, and so are rows that make no user.\<close>

definition listed_user :: "'w env \<Rightarrow> string list option \<Rightarrow> entity \<Rightarrow> exn + model option" where
  "listed_user E members e = ebind (required e ''Email'') (\<lambda>email.
     if (case members of None \<Rightarrow> False | Some ms \<Rightarrow> email \<notin> PStr ` set ms) then Inr None
     else ebind (row_key_part 1 e) (\<lambda>user_id. map_sum id Some (stored_user E (PStr user_id) email e)))"

definition listed_users :: "'w env \<Rightarrow> string list option \<Rightarrow> entity list \<Rightarrow> model list" where
  "listed_users E members = List.map_filter (\<lambda>e. case listed_user E members e of Inr m \<Rightarrow> m | Inl _ \<Rightarrow> None)"

text \<open>\<open>u.lastLogin or datetime.min\<close>; \<open>datetime.min\<close> has no offset and cannot be compared with a date that has one.\<close>

definition login_key :: "model \<Rightarrow> (int \<times> bool) option" where
  "login_key m = (if truthy (dget0 m ''lastLogin'') then date_key (dget0 m ''lastLogin'') else Some (- 62135596800000000, False))"

definition latest_login_first :: "model list \<Rightarrow> exn + model list" where
  "latest_login_first ms = (let ks = map login_key ms in
     if length ms \<le> 1 \<or> (None \<notin> set ks \<and> (\<exists>aware. \<forall>k \<in> set ks. snd (the k) = aware))
     then Inr (sort_key (\<lambda>m. case login_key m of Some (t, _) \<Rightarrow> - t | None \<Rightarrow> 0) ms)
     else Inl (TypeError ''can't compare offset-naive and offset-aware datetimes''))"

definition list_users_handler :: "'w env \<Rightarrow> exec_context \<Rightarrow> ('w, http_response) py" where
  "list_users_handler E ctx = py_catch
     (py_bind (query_entities E (entities_service ctx) (Some (odata (if ctx_scope ctx = ''GLOBAL'' then users_filter
          else users_filter @ [(''UserType'', OEq, OStr ''ORG'')]))) None) (\<lambda>es.
      py_bind (if ctx_scope ctx = ''GLOBAL'' then ret None
        else py_bind (query_entities E (relationships_of ctx) (Some (odata (assignment_filter (''orgperm:'' @ ctx_scope ctx)))) None) (\<lambda>rels.
          py_bind (lift (key_rests rels)) (\<lambda>emails. ret (Some emails)))) (\<lambda>members.
      py_bind (lift (latest_login_first (listed_users E members es))) (\<lambda>us.
      ret (200, PList (map user_json us))))))
     (\<lambda>_. ret (internal_error ''Failed to list users''))"

text \<open>A user that cannot be read counts as not found.\<close>

definition user_entity :: "'w env \<Rightarrow> exec_context \<Rightarrow> string \<Rightarrow> ('w, entity option) py" where
  "user_entity E ctx user_id = py_catch (get_entity E (entities_service ctx) ''GLOBAL'' (user_key user_id)) (\<lambda>_. ret None)"

definition get_user_handler :: "'w env \<Rightarrow> exec_context \<Rightarrow> string \<Rightarrow> ('w, http_response) py" where
  "get_user_handler E ctx user_id = py_catch
     (py_bind (user_entity E ctx user_id) (\<lambda>found. case found of
        None \<Rightarrow> ret (error_response 404 ''NotFound'' ''User not found in system'')
      | Some e \<Rightarrow> py_bind (lift (ebind (required e ''Email'') (\<lambda>email. stored_user E (PStr user_id) email e))) (\<lambda>m.
          ret (200, user_json m))))
     (\<lambda>_. ret (internal_error ''Failed to retrieve user''))"

section \<open>Deprecated endpoints\<close>

definition get_user_permissions_handler :: "exec_context \<Rightarrow> string \<Rightarrow> ('w, http_response) py" where
  "get_user_permissions_handler ctx user_id = ret (200, PList [])"

definition get_org_permissions_handler :: "exec_context \<Rightarrow> string \<Rightarrow> ('w, http_response) py" where
  "get_org_permissions_handler ctx org_id = ret (200, PList [])"

definition permissions_deprecated :: http_response where
  "permissions_deprecated = error_response 501 ''NotImplemented''
     ''Org-specific permissions are deprecated. Use role-based access control instead (see /api/roles endpoints).''"

definition grant_permissions_handler :: "exec_context \<Rightarrow> ('w, http_response) py" where
  "grant_permissions_handler ctx = ret permissions_deprecated"

definition revoke_permissions_handler :: "exec_context \<Rightarrow> string \<Rightarrow> string \<Rightarrow> ('w, http_response) py" where
  "revoke_permissions_handler ctx user_id org_id = ret permissions_deprecated"

section \<open>Roles and forms of a user\<close>

text \<open>Rows of any partition, with the exact range of the prefix.\<close>

definition prefix_filter :: "string \<Rightarrow> clause list" where
  "prefix_filter p = [(''RowKey'', OGe, OStr (p @ '':'')), (''RowKey'', OLt, OStr (p @ '';''))]"

definition ids_under :: "'w env \<Rightarrow> exec_context \<Rightarrow> string \<Rightarrow> ('w, string list) py" where
  "ids_under E ctx p = py_bind (query_entities E (relationships_of ctx) (Some (odata (prefix_filter p))) None) (\<lambda>es. lift (key_rests es))"

definition get_user_roles_handler :: "'w env \<Rightarrow> exec_context \<Rightarrow> string \<Rightarrow> ('w, http_response) py" where
  "get_user_roles_handler E ctx user_id = py_catch
     (py_bind (ids_under E ctx (''userrole:'' @ user_id)) (\<lambda>role_ids. ret (200, PDict [(''roleIds'', ids_json role_ids)])))
     (\<lambda>_. ret (internal_error ''Failed to get user roles''))"

definition forms_response :: "pyval \<Rightarrow> bool \<Rightarrow> string list \<Rightarrow> http_response" where
  "forms_response user_type all_forms ids = (200, PDict [(''userType'', user_type), (''hasAccessToAllForms'', PBool all_forms),
     (''formIds'', ids_json ids)])"

text \<open>\<open>order\<close> is the order in which a set becomes a list.\<close>

definition get_user_forms_handler :: "'w env \<Rightarrow> (string set \<Rightarrow> string list) \<Rightarrow> exec_context \<Rightarrow> string \<Rightarrow> ('w, http_response) py" where
  "get_user_forms_handler E order ctx user_id = py_catch
     (py_bind (user_entity E ctx user_id) (\<lambda>found. case found of
        None \<Rightarrow> ret (user_not_found user_id)
      | Some e \<Rightarrow> let user_type = dget e ''UserType'' (PStr ''PLATFORM'') in
          if user_type = PStr ''PLATFORM'' \<and> truthy (dget e ''IsPlatformAdmin'' (PBool False)) then ret (forms_response user_type True [])
          else py_bind (ids_under E ctx (''userrole:'' @ user_id)) (\<lambda>role_ids.
            if role_ids = [] then ret (forms_response user_type False [])
            else py_bind (py_map (\<lambda>role_id. ids_under E ctx (''roleform:'' @ role_id)) role_ids) (\<lambda>forms.
              ret (forms_response user_type False (order (set (concat forms))))))))
     (\<lambda>_. ret (internal_error ''Failed to get user forms''))"

section \<open>Changing users\<close>

text \<open>The answer when an organization is named that does not exist.\<close>

definition check_org :: "'w env \<Rightarrow> exec_context \<Rightarrow> string option \<Rightarrow> ('w, http_response) py \<Rightarrow> ('w, http_response) py" where
  "check_org E ctx org_id m = (if \<not> opt_truthy org_id then m
     else py_bind (get_by_id E (organization_repo (Some ctx)) ''GLOBAL'' (''org:'' @ the org_id)) (\<lambda>org. case org of
       None \<Rightarrow> ret (unknown_organization (the org_id)) | Some _ \<Rightarrow> m))"

definition create_user_handler :: "'w env \<Rightarrow> exec_context \<Rightarrow> exn + entity \<Rightarrow> ('w, http_response) py" where
  "create_user_handler E ctx body = (let r = user_repo (Some ctx) in py_catch
     (case ebind body (user_request E) of
        Inl x \<Rightarrow> if is_value_error x then ret (value_error_response x) else raise x
      | Inr rq \<Rightarrow> py_bind (get_user E r (cur_email rq)) (\<lambda>existing.
          if \<not> Option.is_none existing
          then ret (error_response 409 ''Conflict'' (''User with email '' @ cur_email rq @ '' already exists''))
          else check_org E ctx (cur_org_id rq)
            (let ut = (if cur_is_platform_admin rq then PLATFORM else ORG) in
             py_bind (create_user E r (cur_email rq) (cur_display_name rq) ut (cur_is_platform_admin rq) None) (\<lambda>m.
             py_then (if ut = ORG \<and> opt_truthy (cur_org_id rq) then assign_user_to_org E (cur_email rq) (the (cur_org_id rq)) (ctx_user_id ctx)
               else ret ())
             (py_then (user_event E ctx Create (cur_email rq) [(''is_admin'', PBool (cur_is_platform_admin rq)), (''org_id'', of_opt (cur_org_id rq))])
               (ret (201, user_json m)))))))
     (user_failure E ctx ''Failed to create user'' ''Failed to create user'' []))"

text \<open>Users may change nothing of themselves but the name they are shown with.\<close>

definition changes_own_role :: "exec_context \<Rightarrow> string \<Rightarrow> update_user_request \<Rightarrow> bool" where
  "changes_own_role ctx user_id rq \<longleftrightarrow> ctx_user_id ctx = user_id \<and> (uur_is_platform_admin rq \<noteq> None \<or> uur_is_active rq \<noteq> None)"

definition update_user_handler :: "'w env \<Rightarrow> exec_context \<Rightarrow> string \<Rightarrow> exn + entity \<Rightarrow> ('w, http_response) py" where
  "update_user_handler E ctx user_id body = (let r = user_repo (Some ctx) in py_catch
     (case ebind body (user_updates E) of
        Inl x \<Rightarrow> if is_value_error x then ret (value_error_response x) else raise x
      | Inr rq \<Rightarrow> py_bind (get_user E r user_id) (\<lambda>existing.
          if Option.is_none existing then ret (user_not_found user_id)
          else if changes_own_role ctx user_id rq
          then ret (error_response 403 ''Forbidden'' ''You cannot change your own role or active status'')
          else check_org E ctx (uur_org_id rq)
            (py_bind (update_user E r user_id (uur_display_name rq) (uur_is_active rq) (uur_is_platform_admin rq) (uur_org_id rq)
                (ctx_user_id ctx)) (\<lambda>updated. case updated of
               None \<Rightarrow> ret (internal_error ''Failed to update user'')
             | Some m \<Rightarrow> py_then (user_event E ctx Update user_id [(''is_admin'', dget0 m ''isPlatformAdmin''),
                   (''user_type'', dget0 m ''userType''), (''is_active'', dget0 m ''isActive'')])
                 (ret (200, user_json m))))))
     (\<lambda>x. if is_value_error x then ret (value_error_response x)
       else user_failure E ctx (''Failed to update user '' @ user_id) ''Failed to update user'' [(''user_id'', PStr user_id)] x))"

definition delete_user_handler :: "'w env \<Rightarrow> exec_context \<Rightarrow> string \<Rightarrow> ('w, http_response) py" where
  "delete_user_handler E ctx user_id = (let r = user_repo (Some ctx) in
     if ctx_user_id ctx = user_id then ret (error_response 403 ''Forbidden'' ''You cannot delete your own user account'')
     else py_catch
       (py_bind (get_user E r user_id) (\<lambda>existing.
          if Option.is_none existing then ret (user_not_found user_id)
          else py_then (repo_delete E r ''GLOBAL'' (user_key user_id))
            (py_bind (get_user_org_id E user_id) (\<lambda>org.
             py_then (if opt_truthy org then remove_user_from_org E user_id (the org) else ret ())
             (py_then (user_event E ctx Delete user_id []) (ret (204, PNone)))))))
       (user_failure E ctx (''Failed to delete user '' @ user_id) ''Failed to delete user'' [(''user_id'', PStr user_id)]))"

section \<open>Lemmas\<close>

text \<open>The rows that are about one user: the account and its membership of an organization.\<close>

definition account_row :: "string \<Rightarrow> string \<Rightarrow> key \<Rightarrow> bool" where
  "account_row uid t k \<longleftrightarrow> t = ''Entities'' \<and> k = (''GLOBAL'', user_key uid)
     \<or> t = ''Relationships'' \<and> (\<exists>oid. k = (''GLOBAL'', userperm_key uid oid) \<or> k = (''GLOBAL'', orgperm_key oid uid))"

definition account_removed :: "string \<Rightarrow> tables \<Rightarrow> tables \<Rightarrow> bool" where
  "account_removed uid R R' \<longleftrightarrow> (\<forall>t k. t \<noteq> ''SystemLogs'' \<longrightarrow> R' t k \<noteq> R t k \<longrightarrow> R' t k = None \<and> account_row uid t k)"

lemma account_removed_refl [simp]: "account_removed uid R R"
  by (simp add: account_removed_def)

lemma account_removed_log: "account_removed uid R R' \<Longrightarrow> same_but_log R' R'' \<Longrightarrow> account_removed uid R R''"
  by (simp add: account_removed_def same_but_log_def)

lemma account_removed_row:
  "account_removed uid R R' \<Longrightarrow> account_row uid t k \<Longrightarrow> account_removed uid R (put_row t k None R')"
  by (auto simp: account_removed_def put_row_apply)

text \<open>What has become of the account: of an account that is gone nothing comes back.\<close>

definition account_state :: "'w env \<Rightarrow> string \<Rightarrow> tables \<Rightarrow> bool \<Rightarrow> 'w \<Rightarrow> bool" where
  "account_state E uid R gone w \<longleftrightarrow> account_removed uid R (env_rows E w)
     \<and> (gone \<longrightarrow> env_rows E w ''Entities'' (''GLOBAL'', user_key uid) = None)"

context table_sdk
begin

lemma stays_user_reads:
  "stays (\<lambda>w. env_rows E w = v) (get_user E r u)" "stays (\<lambda>w. env_rows E w = v) (get_user_org_id E u)"
proof -
  have "stays (\<lambda>w. env_rows E w = v) (get_entity E s p k)" for s p k
    by (rule staysI) (auto intro: wp_get_entity)
  then show "stays (\<lambda>w. env_rows E w = v) (get_user E r u)"
    unfolding get_user_def get_by_id_def user_entity_to_model_def by (intro stays_intros)
  show "stays (\<lambda>w. env_rows E w = v) (get_user_org_id E u)"
    unfolding get_user_org_id_def
    by (rule staysI) (auto simp: wp_bind Let_def split: list.split pyval.split intro!: wp_mono [OF wp_query_entities_reads])
qed

lemma stays_account:
  "stays (account_state E uid R gone) (get_user E r u)" "stays (account_state E uid R gone) (get_user_org_id E u)"
  "stays (account_state E uid R gone) (system_log E c l m b n ds)"
  unfolding account_state_def
  by (rule stays_pred, rule stays_user_reads)+ (rule stays_log, auto simp: same_but_log_def intro: account_removed_log)

lemma wp_account_delete:
  assumes "account_row uid (svc_table s) (q, k)" and "account_state E uid R gone w"
  shows "wp (delete_entity E s q k)
    (\<lambda>_ w'. account_state E uid R (gone \<or> svc_table s = ''Entities'' \<and> (q, k) = (''GLOBAL'', user_key uid)) w')
    (\<lambda>_. account_state E uid R gone) w"
  by (rule wp_delete_entity) (use assms in \<open>auto simp: account_state_def put_row_apply intro: account_removed_row\<close>)

lemma stays_remove_user: "stays (account_state E uid R gone) (remove_user_from_org E uid oid)"
proof -
  have "stays (account_state E uid R gone) (delete_entity E relationships_service ''GLOBAL'' k)"
    if "k \<in> {userperm_key uid oid, orgperm_key oid uid}" for k
    by (rule staysI, rule wp_mono [OF wp_account_delete])
      (use that in \<open>auto simp: account_row_def relationships_service_def\<close>)
  then show ?thesis unfolding remove_user_from_org_def by (intro stays_intros) auto
qed

lemma stays_user_event:
  assumes "\<And>c l m b n ds. stays I (system_log E c l m b n ds)"
  shows "stays I (user_event E ctx a u ds')" "stays I (user_failure E ctx m m' ds' x)"
  unfolding user_event_def log_user_event_def user_failure_def by (intro stays_intros assms)+

lemma wp_delete_user:
  assumes "ctx_user_id ctx \<noteq> uid"
  shows "wp (delete_user_handler E ctx uid) (\<lambda>r. account_state E uid (env_rows E w) (fst r = 204))
    (\<lambda>_. account_state E uid (env_rows E w) False) w"
proof -
  let ?S = "account_state E uid (env_rows E w)" and ?r = "user_repo (Some ctx)"
  have weaker: "?S gone v \<Longrightarrow> ?S False v" for gone v by (simp add: account_state_def)
  have r: "svc_table (repo_service ?r) = ''Entities''" by (simp add: repo_service_def user_repo_def)
  have rest: "wp (py_bind (get_user_org_id E uid) (\<lambda>org.
      py_then (if opt_truthy org then remove_user_from_org E uid (the org) else ret ())
      (py_then (user_event E ctx Delete uid []) (ret (204, PNone))))) (\<lambda>_. ?S True) (\<lambda>_. ?S True) v" if "?S True v" for v
    by (rule stays_wp [where I = "?S True", OF _ that]) (intro stays_intros stays_account stays_remove_user stays_user_event)
  have delete: "wp (repo_delete E ?r ''GLOBAL'' (user_key uid)) (\<lambda>_. ?S True) (\<lambda>_. ?S False) v" if "?S False v" for v
    unfolding repo_delete_def by (rule wp_mono [OF wp_account_delete]) (use that in \<open>auto simp: r account_row_def\<close>)
  have start: "?S False w" by (simp add: account_state_def)
  show ?thesis
    unfolding delete_user_handler_def Let_def if_not_P [OF assms] wp_catch wp_bind [of "get_user _ _ _"]
  proof (rule wp_mono [OF stays_wp [OF stays_account(1) start]], goal_cases)
    case (1 existing v)
    show ?case
    proof (cases "Option.is_none existing")
      case False
      show ?thesis
        unfolding if_not_P [OF False] wp_then [of "repo_delete _ _ _ _"]
      proof (rule wp_mono [OF delete [OF 1]], goal_cases)
        case (1 b v')
        show ?case
          by (rule wp_mono [OF rest [OF 1]])
            (auto dest: weaker simp: account_state_def user_failure_def intro!: wp_mono [OF stays_wp [OF stays_account(3)]])
      qed (auto simp: user_failure_def internal_error_def error_response_def intro!: wp_mono [OF stays_wp [OF stays_account(3)]])
    qed (use 1 in \<open>simp add: user_not_found_def error_response_def\<close>)
  qed (auto simp: user_failure_def internal_error_def error_response_def intro!: wp_mono [OF stays_wp [OF stays_account(3)]])
qed

end

text \<open>
  The row of one user was written anew with another name to show. The clock is read for dates, which are written in
  the format of the code.
\<close>

definition renamed_at_most :: "string \<Rightarrow> tables \<Rightarrow> tables \<Rightarrow> bool" where
  "renamed_at_most uid R R' \<longleftrightarrow> (\<forall>t k. t \<noteq> ''SystemLogs'' \<longrightarrow> R' t k \<noteq> R t k \<longrightarrow> t = ''Entities'' \<and> k = (''GLOBAL'', user_key uid)
     \<and> (\<exists>e e'. R t k = Some e \<and> R' t k = Some e' \<and> (\<forall>f. f \<notin> {''DisplayName'', ''etag''} \<longrightarrow> f \<notin> set datetime_fields \<longrightarrow>
         (\<forall>d. e f \<noteq> Some (PDate d)) \<longrightarrow> e' f = e f)))"

lemma renamed_at_most_refl [simp]: "renamed_at_most uid R R"
  by (simp add: renamed_at_most_def)

lemma renamed_at_most_log: "renamed_at_most uid R R' \<Longrightarrow> same_but_log R' R'' \<Longrightarrow> renamed_at_most uid R R''"
  by (simp add: renamed_at_most_def same_but_log_def)

text \<open>A field that is written back as it was read.\<close>

lemma written_back:
  assumes "d f = deserialize_datetime_fields E e f" and "f \<notin> set datetime_fields" and "\<And>t. e f \<noteq> Some (PDate t)"
  shows "write_row Merge (serialize_datetime_fields E d) (Some e) f = e f"
  using assms by (auto simp: write_row_def map_add_def drop_none_apply serialize_datetime_fields_def deserialize_datetime_fields_def
    split: option.splits pyval.splits)

context table_sdk
begin

lemma stays_renamed:
  "stays (\<lambda>w. renamed_at_most uid R (env_rows E w)) (get_user E r u)"
  "stays (\<lambda>w. renamed_at_most uid R (env_rows E w)) (user_entity_to_model E e)"
  "stays (\<lambda>w. renamed_at_most uid R (env_rows E w)) (system_log E c l m b n ds)"
  "stays (\<lambda>w. renamed_at_most uid R (env_rows E w)) (get_by_id E r q k)"
proof -
  have "stays (\<lambda>w. env_rows E w = v) (user_entity_to_model E e)" for v
    unfolding user_entity_to_model_def by (intro stays_intros)
  then show "stays (\<lambda>w. renamed_at_most uid R (env_rows E w)) (user_entity_to_model E e)"
    by (rule stays_pred)
  have "stays (\<lambda>w. env_rows E w = v) (get_by_id E r q k)" for v
    unfolding get_by_id_def by (rule staysI) (auto intro: wp_get_entity)
  then show "stays (\<lambda>w. renamed_at_most uid R (env_rows E w)) (get_by_id E r q k)"
    by (rule stays_pred)
qed (rule stays_pred, rule stays_user_reads, rule stays_log, rule renamed_at_most_log)

lemma wp_update_own:
  assumes "env_rows E w = R"
  shows "wp (update_user E (user_repo ctx) uid name None None org by) (\<lambda>_ w'. renamed_at_most uid R (env_rows E w'))
    (\<lambda>_ w'. renamed_at_most uid R (env_rows E w')) w"
proof -
  let ?I = "\<lambda>w. renamed_at_most uid R (env_rows E w)"
  have t: "svc_table (repo_service (user_repo ctx)) = ''Entities''" by (simp add: repo_service_def user_repo_def)
  show ?thesis
    unfolding update_user_def get_by_id_def wp_bind [of "get_entity _ _ _ _"]
  proof (rule wp_get_entity, goal_cases)
    case (1 e d w1)
    have row: "R ''Entities'' (''GLOBAL'', user_key uid) = Some e" using 1(2) assms by (simp add: t)
    let ?d = "set_if ''DisplayName'' (map_option PStr name) d"
    have d: "?d f = deserialize_datetime_fields E e f" if "f \<noteq> ''etag''" "f \<noteq> ''DisplayName''" for f
      using that 1(3) by (cases name) (simp_all add: set_if_def)
    have "entity_key e = Some (''GLOBAL'', user_key uid)" using rows_keyed [OF 1(2)] .
    then have key: "entity_key ?d = Some (''GLOBAL'', user_key uid)"
      using d [of "''PartitionKey''"] d [of "''RowKey''"]
      by (simp add: entity_key_Some deserialize_datetime_fields_def datetime_fields_def)
    have put: "renamed_at_most uid R (put_row ''Entities'' (''GLOBAL'', user_key uid)
        (Some (write_row Merge (serialize_datetime_fields E ?d) (Some e))) R)"
      using row written_back [of ?d _ E e] d by (simp add: renamed_at_most_def put_row_apply)
    have update: "wp (repo_update E (user_repo ctx) ?d ''merge'') (\<lambda>_. ?I) (\<lambda>_. ?I) w1"
      unfolding repo_update_def by (rule wp_update_entity [OF key]) (use 1(1) assms row put in \<open>auto simp: t mode_of_def\<close>)
    show ?case
      unfolding option.case Let_def change_admin_def set_if_def [of "''IsActive''"] option.map wp_bind wp_ret wp_then
      by (rule wp_mono [OF update]) (auto intro!: wp_mono [OF stays_wp [OF stays_renamed(2)]])
  qed (use assms in simp_all)
qed

lemma wp_update_self:
  assumes "ctx_user_id ctx = uid" and "env_rows E w = R"
  shows "wp (update_user_handler E ctx uid body) (\<lambda>_ w'. renamed_at_most uid R (env_rows E w')) (\<lambda>_ w'. renamed_at_most uid R (env_rows E w')) w"
proof -
  let ?I = "\<lambda>w. renamed_at_most uid R (env_rows E w)" and ?r = "user_repo (Some ctx)"
  have event: "stays ?I (user_event E ctx a u ds)" "stays ?I (user_failure E ctx m m' ds' x)" for a u ds m m' ds' x
    by (rule stays_user_event [OF stays_renamed(3)])+
  have checked: "wp (check_org E ctx org m) (\<lambda>_. ?I) (\<lambda>_. ?I) v"
    if "\<And>v'. env_rows E v' = R \<Longrightarrow> wp m (\<lambda>_. ?I) (\<lambda>_. ?I) v'" "env_rows E v = R" for org m v
    unfolding check_org_def get_by_id_def wp_bind using that by (auto intro!: wp_get_entity)
  have update: "wp (py_bind (update_user E ?r uid name None None org u) (\<lambda>updated. case updated of
        None \<Rightarrow> ret (internal_error ''Failed to update user'')
      | Some m \<Rightarrow> py_then (user_event E ctx Update uid [(''is_admin'', dget0 m ''isPlatformAdmin''),
            (''user_type'', dget0 m ''userType''), (''is_active'', dget0 m ''isActive'')]) (ret (200, user_json m))))
      (\<lambda>_. ?I) (\<lambda>_. ?I) v" if "env_rows E v = R" for name org u v
    unfolding wp_bind [of "update_user _ _ _ _ _ _ _ _"]
    by (rule wp_mono [OF wp_update_own [OF that]]) (auto split: option.split intro!: wp_mono [OF stays_wp [OF event(1)]])
  have request: "wp (py_bind (get_user E ?r uid) (\<lambda>existing. if Option.is_none existing then ret (user_not_found uid)
      else if changes_own_role ctx uid rq then ret (error_response 403 ''Forbidden'' ''You cannot change your own role or active status'')
      else check_org E ctx (uur_org_id rq) (py_bind (update_user E ?r uid (uur_display_name rq) (uur_is_active rq)
          (uur_is_platform_admin rq) (uur_org_id rq) (ctx_user_id ctx)) (\<lambda>updated. case updated of
         None \<Rightarrow> ret (internal_error ''Failed to update user'')
       | Some m \<Rightarrow> py_then (user_event E ctx Update uid [(''is_admin'', dget0 m ''isPlatformAdmin''),
             (''user_type'', dget0 m ''userType''), (''is_active'', dget0 m ''isActive'')]) (ret (200, user_json m)))))) (\<lambda>_. ?I) (\<lambda>_. ?I) w" for rq
    unfolding wp_bind [of "get_user _ _ _"]
  proof (rule wp_mono [OF stays_wp [OF stays_user_reads(1) assms(2)]], goal_cases)
    case (1 existing v)
    show ?case
    proof (cases "changes_own_role ctx uid rq")
      case False
      then have same: "uur_is_active rq = None" "uur_is_platform_admin rq = None"
        using assms(1) by (auto simp: changes_own_role_def)
      have "wp (check_org E ctx (uur_org_id rq) (py_bind (update_user E ?r uid (uur_display_name rq) (uur_is_active rq)
          (uur_is_platform_admin rq) (uur_org_id rq) (ctx_user_id ctx)) (\<lambda>updated. case updated of
         None \<Rightarrow> ret (internal_error ''Failed to update user'')
       | Some m \<Rightarrow> py_then (user_event E ctx Update uid [(''is_admin'', dget0 m ''isPlatformAdmin''),
             (''user_type'', dget0 m ''userType''), (''is_active'', dget0 m ''isActive'')]) (ret (200, user_json m))))) (\<lambda>_. ?I) (\<lambda>_. ?I) v"
        unfolding same by (rule checked [OF update 1])
      then show ?thesis using 1 False by simp
    qed (use 1 in simp)
  qed simp
  show ?thesis
    unfolding update_user_handler_def Let_def wp_catch
  proof (cases "ebind body (user_updates E)", goal_cases)
    case (1 x)
    then show ?case using assms(2) by (auto intro!: wp_mono [OF stays_wp [OF event(2)]])
  next
    case (2 rq)
    show ?case
      unfolding 2 sum.case by (rule wp_mono [OF request]) (auto intro!: wp_mono [OF stays_wp [OF event(2)]])
  qed
qed

end

section \<open>Properties\<close>


definition chief :: exec_context where
  "chief = root_context\<lparr>ctx_user_id := ''root''\<rparr>"

definition leaving_world :: mem where
  "leaving_world = staff_world\<lparr>mem_rows := ((''Relationships'', (''GLOBAL'', user_role_key ''ann'' ''ops'')),
     [''PartitionKey'' \<mapsto> PStr ''GLOBAL'', ''RowKey'' \<mapsto> PStr (user_role_key ''ann'' ''ops'')]) # mem_rows staff_world\<rparr>"




end
