(* ===== verification/Key_Handlers.thy ===== *)
theory Key_Handlers
  imports User_Handlers Config_Repository
begin

text \<open>
  \<open>shared/handlers/workflow_keys_handlers.py\<close>: the keys with which workflows are called without a user, from their creation
  over the list of one's own keys to their revocation.
\<close>

section \<open>Requests and responses\<close>

record key_request =
  kr_workflow_id :: "string option"
  kr_expires_in_days :: "int option"
  kr_description :: "string option"
  kr_disable_global_key :: bool

definition key_request_of :: "'w env \<Rightarrow> entity \<Rightarrow> exn + key_request" where
  "key_request_of E kw = map_sum id (\<lambda>m. \<lparr>kr_workflow_id = opt_str (dget0 m ''workflowId''),
       kr_expires_in_days = (case dget0 m ''expiresInDays'' of PInt n \<Rightarrow> Some n | _ \<Rightarrow> None),
       kr_description = opt_str (dget0 m ''description''), kr_disable_global_key = truthy (dget0 m ''disableGlobalKey'')\<rparr>)
     (env_validate E ''WorkflowKeyCreateRequest'' kw)"

definition mask_key :: "string \<Rightarrow> string" where
  "mask_key hashed_key = (if length hashed_key < 4 then ''****'' else ''****'' @ drop (length hashed_key - 4) hashed_key)"

definition key_datetime :: "'w env \<Rightarrow> pyval \<Rightarrow> pyval" where
  "key_datetime E v = (case v of
     PDate d \<Rightarrow> PDate d
   | PStr s \<Rightarrow> (case env_fromisoformat E s of Some d \<Rightarrow> PDate d | None \<Rightarrow> PNone)
   | _ \<Rightarrow> PNone)"

text \<open>\<open>d + timedelta(days=n)\<close>, within the years 1 to 9999.\<close>

definition add_days :: "datetime \<Rightarrow> int \<Rightarrow> exn + datetime" where
  "add_days d n = (let move = (\<lambda>t. t + n * 86400000000); t = move (case d of Naive t \<Rightarrow> t | Aware t _ \<Rightarrow> t) in
     if t < - 62135596800000000 \<or> t > 253402300799999999 then Inl (AppError ''OverflowError'' ''date value out of range'')
     else Inr (case d of Naive t \<Rightarrow> Naive (move t) | Aware t z \<Rightarrow> Aware (move t) z))"

definition key_fields :: "string list" where
  "key_fields = [''id'', ''rawKey'', ''maskedKey'', ''workflowId'', ''createdBy'', ''createdAt'', ''lastUsedAt'', ''revoked'', ''expiresAt'',
     ''description'', ''disableGlobalKey'']"

definition key_json :: "model \<Rightarrow> pyval" where
  "key_json = fields_json key_fields"

section \<open>Creation\<close>

text \<open>The key with all of its fields, and the row that stores it.\<close>

definition complete_key :: "'w env \<Rightarrow> key_request \<Rightarrow> pyval \<Rightarrow> model \<Rightarrow> exn + model" where
  "complete_key E rq expires_at k = env_validate E ''WorkflowKey'' [''id'' \<mapsto> dget0 k ''id'', ''hashedKey'' \<mapsto> dget0 k ''hashedKey'',
     ''workflowId'' \<mapsto> dget0 k ''workflowId'', ''createdBy'' \<mapsto> dget0 k ''createdBy'', ''createdAt'' \<mapsto> dget0 k ''createdAt'',
     ''lastUsedAt'' \<mapsto> dget0 k ''lastUsedAt'', ''revoked'' \<mapsto> dget0 k ''revoked'', ''revokedAt'' \<mapsto> dget0 k ''revokedAt'',
     ''revokedBy'' \<mapsto> dget0 k ''revokedBy'', ''expiresAt'' \<mapsto> expires_at, ''description'' \<mapsto> of_opt (kr_description rq),
     ''disableGlobalKey'' \<mapsto> PBool (kr_disable_global_key rq)]"

definition key_entity :: "'w env \<Rightarrow> model \<Rightarrow> exn + entity" where
  "key_entity E m = (let key_id = fstr E (dget0 m ''id'') in
     ebind (attr_isoformat E (dget0 m ''createdAt'')) (\<lambda>created.
     ebind (if truthy (dget0 m ''expiresAt'') then attr_isoformat E (dget0 m ''expiresAt'') else Inr PNone) (\<lambda>expires.
     Inr [''PartitionKey'' \<mapsto> PStr ''GLOBAL'',
       ''RowKey'' \<mapsto> PStr (if truthy (dget0 m ''workflowId'') then workflow_key_row key_id else global_key_row key_id),
       ''KeyId'' \<mapsto> dget0 m ''id'', ''HashedKey'' \<mapsto> dget0 m ''hashedKey'', ''WorkflowId'' \<mapsto> dget0 m ''workflowId'',
       ''CreatedBy'' \<mapsto> dget0 m ''createdBy'', ''CreatedAt'' \<mapsto> created, ''LastUsedAt'' \<mapsto> PNone, ''Revoked'' \<mapsto> PBool False,
       ''RevokedAt'' \<mapsto> PNone, ''RevokedBy'' \<mapsto> PNone, ''ExpiresAt'' \<mapsto> expires, ''Description'' \<mapsto> dget0 m ''description'',
       ''DisableGlobalKey'' \<mapsto> dget0 m ''disableGlobalKey''])))"

text \<open>The only time the key itself is shown.\<close>

definition created_response :: "'w env \<Rightarrow> string \<Rightarrow> model \<Rightarrow> exn + model" where
  "created_response E raw_key m = env_validate E ''WorkflowKeyResponse'' [''id'' \<mapsto> dget0 m ''id'', ''rawKey'' \<mapsto> PStr raw_key,
     ''maskedKey'' \<mapsto> PNone, ''workflowId'' \<mapsto> dget0 m ''workflowId'', ''createdBy'' \<mapsto> dget0 m ''createdBy'',
     ''createdAt'' \<mapsto> dget0 m ''createdAt'', ''lastUsedAt'' \<mapsto> PNone, ''revoked'' \<mapsto> PBool False, ''expiresAt'' \<mapsto> dget0 m ''expiresAt'',
     ''description'' \<mapsto> dget0 m ''description'', ''disableGlobalKey'' \<mapsto> dget0 m ''disableGlobalKey'']"

definition friendly_message :: "string \<Rightarrow> string" where
  "friendly_message m = (if str_in ''Field required'' m \<or> str_in ''missing'' (lower m)
     then ''Required fields are missing. Please ensure all required fields are filled in.'' else m)"

definition create_failure :: "exn \<Rightarrow> http_response" where
  "create_failure x = (if is_value_error x then error_response 400 ''ValidationError'' (friendly_message (exn_msg x))
     else error_response 500 ''InternalError'' ''Failed to create workflow key. Please try again or contact support.'')"

definition expiry :: "'w env \<Rightarrow> int option \<Rightarrow> ('w, pyval) py" where
  "expiry E days = (case days of
     Some n \<Rightarrow> if n = 0 then ret PNone else py_bind (utcnow E) (\<lambda>now. py_bind (lift (add_days now n)) (\<lambda>d. ret (PDate d)))
   | None \<Rightarrow> ret PNone)"

text \<open>A body that is \<open>null\<close> counts as empty; \<open>sha\<close> and \<open>token\<close> are those of \<open>generate_workflow_key\<close>.\<close>

definition create_workflow_key_handler :: "'w env \<Rightarrow> (string \<Rightarrow> string) \<Rightarrow> ('w, string) py \<Rightarrow> exec_context \<Rightarrow> exn + entity
    \<Rightarrow> ('w, http_response) py" where
  "create_workflow_key_handler E sha token ctx body = py_catch
     (py_bind (lift (ebind body (key_request_of E))) (\<lambda>rq.
      py_bind (expiry E (kr_expires_in_days rq)) (\<lambda>expires_at.
      py_bind (generate_workflow_key E sha token (ctx_email ctx) (kr_workflow_id rq)
          (case kr_expires_in_days rq of Some n \<Rightarrow> n | None \<Rightarrow> 0)) (\<lambda>(raw_key, k).
      py_bind (lift (complete_key E rq expires_at k)) (\<lambda>m.
      py_bind (lift (key_entity E m)) (\<lambda>e.
      py_then (create_workflow_key E global_config_repository e)
      (py_bind (lift (created_response E raw_key m)) (\<lambda>response. ret (201, key_json response)))))))))
     (\<lambda>x. ret (create_failure x))"

section \<open>Listing\<close>

text \<open>A key whose date of creation cannot be read is left out.\<close>

definition listed_key :: "'w env \<Rightarrow> entity \<Rightarrow> exn + model option" where
  "listed_key E e = ebind (required e ''CreatedAt'') (\<lambda>created. case key_datetime E created of
     PDate d \<Rightarrow> ebind (required e ''RowKey'') (\<lambda>rk. ebind (case rk of
         PStr s \<Rightarrow> (let parts = split_all CHR '':'' s in if 1 < length parts then Inr (parts ! 1) else Inl IndexError)
       | _ \<Rightarrow> Inl (AttributeError ''split'')) (\<lambda>part.
       ebind (required e ''HashedKey'') (\<lambda>hashed. ebind (case hashed of PStr s \<Rightarrow> Inr (mask_key s) | _ \<Rightarrow> Inl (TypeError ''len'')) (\<lambda>masked.
       ebind (required e ''CreatedBy'') (\<lambda>creator.
       map_sum id Some (env_validate E ''WorkflowKeyResponse'' [''id'' \<mapsto> dget e ''KeyId'' (PStr part), ''rawKey'' \<mapsto> PNone,
         ''maskedKey'' \<mapsto> PStr masked, ''workflowId'' \<mapsto> dget0 e ''WorkflowId'', ''createdBy'' \<mapsto> creator,
         ''createdAt'' \<mapsto> PDate d, ''lastUsedAt'' \<mapsto> key_datetime E (dget0 e ''LastUsedAt''),
         ''revoked'' \<mapsto> dget e ''Revoked'' (PBool False), ''expiresAt'' \<mapsto> key_datetime E (dget0 e ''ExpiresAt''),
         ''description'' \<mapsto> dget0 e ''Description'', ''disableGlobalKey'' \<mapsto> dget e ''DisableGlobalKey'' (PBool False)]))))))
   | _ \<Rightarrow> ebind (required e ''RowKey'') (\<lambda>_. Inr None))"

definition list_workflow_keys_handler :: "'w env \<Rightarrow> exec_context \<Rightarrow> (string \<Rightarrow> string option) \<Rightarrow> ('w, http_response) py" where
  "list_workflow_keys_handler E ctx params = py_catch
     (py_bind (list_workflow_keys E global_config_repository (ctx_email ctx) (params ''workflowId'')
         (lower (case params ''includeRevoked'' of Some s \<Rightarrow> s | None \<Rightarrow> ''false'') = ''true'')) (\<lambda>es.
      py_bind (lift (map_exn (listed_key E) es)) (\<lambda>ms. ret (200, PList (map key_json (List.map_filter id ms))))))
     (\<lambda>x. ret (error_response 500 ''InternalError'' (''Failed to list workflow keys: '' @ exn_msg x)))"

section \<open>Revocation\<close>

definition revoke_workflow_key_handler :: "'w env \<Rightarrow> exec_context \<Rightarrow> string option \<Rightarrow> ('w, http_response) py" where
  "revoke_workflow_key_handler E ctx route_key_id = py_catch
     (case route_key_id of
        None \<Rightarrow> ret (error_response 400 ''BadRequest'' ''keyId is required'')
      | Some key_id \<Rightarrow> if key_id = [] then ret (error_response 400 ''BadRequest'' ''keyId is required'')
          else py_bind (get_workflow_key_by_id E global_config_repository key_id) (\<lambda>found. case found of
            None \<Rightarrow> ret (error_response 404 ''NotFound'' (''Workflow key '' @ quote @ key_id @ quote @ '' not found''))
          | Some e \<Rightarrow> py_bind (lift (required e ''CreatedBy'')) (\<lambda>creator.
              if creator \<noteq> PStr (ctx_email ctx) then ret (error_response 403 ''Forbidden'' ''You can only revoke your own keys'')
              else py_bind (revoke_workflow_key E global_config_repository key_id (ctx_email ctx)) (\<lambda>success.
                if \<not> success then ret (error_response 500 ''InternalError'' ''Failed to revoke workflow key'')
                else ret (204, PNone)))))
     (\<lambda>x. ret (error_response 500 ''InternalError'' (''Failed to revoke workflow key: '' @ exn_msg x)))"

section \<open>Lemmas\<close>

text \<open>The strings of a key pass its models unchanged.\<close>

locale key_models = available_sdk E ok for E :: "'w env" and ok +
  assumes validate_key: "env_validate E m kw = Inr v \<Longrightarrow> (m, f) \<in> {(''WorkflowKey'', ''hashedKey''), (''WorkflowKey'', ''workflowId''),
      (''WorkflowKeyResponse'', ''rawKey''), (''WorkflowKeyResponse'', ''workflowId'')}
    \<Longrightarrow> kw f = Some (of_opt s) \<Longrightarrow> v f = Some (of_opt s)"

text \<open>A key with its row.\<close>

definition kept_key :: "(string \<Rightarrow> string) \<Rightarrow> string \<Rightarrow> string option \<Rightarrow> tables \<Rightarrow> bool" where
  "kept_key sha raw wid R \<longleftrightarrow> (\<exists>rk e. R ''Config'' (''GLOBAL'', rk) = Some e \<and> accepting_row (sha raw) wid rk e)"

lemma truthy_of_opt: "truthy (of_opt wid) = opt_truthy wid"
  by (cases wid) simp_all

context key_models
begin

lemma wp_created_row:
  assumes "ok w" and m: "dget0 m ''hashedKey'' = PStr (sha raw)" "dget0 m ''workflowId'' = of_opt wid"
    and e: "key_entity E m = Inr e"
  shows "wp (create_workflow_key E global_config_repository e) (\<lambda>_ w'. ok w' \<and> kept_key sha raw wid (env_rows E w')) (\<lambda>_ _. True) w"
proof -
  define rk where "rk = (if opt_truthy wid then workflow_key_row (fstr E (dget0 m ''id'')) else global_key_row (fstr E (dget0 m ''id'')))"
  have row: "e ''PartitionKey'' = Some (PStr ''GLOBAL'')" "e ''RowKey'' = Some (PStr rk)" "e ''HashedKey'' = Some (PStr (sha raw))"
    "e ''Revoked'' = Some (PBool False)" "e ''WorkflowId'' = Some (of_opt wid)"
    using e by (auto simp: m key_entity_def Let_def truthy_of_opt rk_def ebind_Inr)
  have t: "svc_table (repo_service (sr_repo global_config_repository)) = ''Config''"
    by (simp add: repo_service_def global_config_repository_def)
  let ?e = "e(''PartitionKey'' \<mapsto> PStr ''GLOBAL'')"
  have key: "entity_key ?e = Some (''GLOBAL'', rk)" using row by (simp add: entity_key_Some)
  have "accepting_row (sha raw) wid rk (stored E ?e)"
    using row by (cases wid) (auto simp: accepting_row_def rk_def stored_def serialize_datetime_fields_def drop_none_def)
  then show ?thesis
    unfolding create_workflow_key_def repo_insert_def
    by (intro wp_insert_entity_ok [OF assms(1) key]) (auto simp: t kept_key_def put_row_apply)
qed

lemma wp_create_key:
  assumes "ok w" and token: "stays ok token"
  shows "wp (create_workflow_key_handler E sha token ctx body)
    (\<lambda>r w'. fst r = 201 \<longrightarrow> ok w' \<and> (\<exists>raw wid resp. snd r = key_json resp \<and> resp ''rawKey'' = Some (PStr raw)
       \<and> resp ''workflowId'' = Some (of_opt wid) \<and> kept_key sha raw wid (env_rows E w'))) (\<lambda>_ _. False) w"
proof -
  let ?Q = "\<lambda>r w'. fst r = (201 :: int) \<longrightarrow> ok w' \<and> (\<exists>raw wid resp. snd r = key_json resp \<and> resp ''rawKey'' = Some (PStr raw)
       \<and> resp ''workflowId'' = Some (of_opt wid) \<and> kept_key sha raw wid (env_rows E w'))"
  have store: "wp (py_bind (lift (complete_key E rq expires_at k)) (\<lambda>m. py_bind (lift (key_entity E m)) (\<lambda>e.
      py_then (create_workflow_key E global_config_repository e)
      (py_bind (lift (created_response E raw m)) (\<lambda>response. ret (201, key_json response)))))) ?Q (\<lambda>_ _. True) w1"
    if "ok w1" "dget0 k ''hashedKey'' = PStr (sha raw)" "dget0 k ''workflowId'' = of_opt (kr_workflow_id rq)" for rq expires_at k raw w1
  proof (cases "complete_key E rq expires_at k")
    case (Inr m)
    have m: "dget0 m ''hashedKey'' = PStr (sha raw)" "dget0 m ''workflowId'' = of_opt (kr_workflow_id rq)"
      using validate_key [OF Inr [unfolded complete_key_def], of "''hashedKey''" "Some (sha raw)"]
        validate_key [OF Inr [unfolded complete_key_def], of "''workflowId''" "kr_workflow_id rq"] that(2,3)
      by (simp_all add: dget_def)
    show ?thesis
    proof (cases "key_entity E m")
      case (Inr e)
      show ?thesis
        unfolding \<open>complete_key E rq expires_at k = Inr m\<close> Inr wp_bind [of "lift _"] wp_lift sum.case wp_then [of "create_workflow_key _ _ _"]
      proof (rule wp_mono [OF wp_created_row [where sha = sha and raw = raw, OF that(1) m Inr]], goal_cases)
        case (1 x w2)
        show ?case
        proof (cases "created_response E raw m")
          case (Inr resp)
          have "resp ''rawKey'' = Some (PStr raw)" "resp ''workflowId'' = Some (of_opt (kr_workflow_id rq))"
            using validate_key [OF Inr [unfolded created_response_def], of "''rawKey''" "Some raw"]
              validate_key [OF Inr [unfolded created_response_def], of "''workflowId''" "kr_workflow_id rq"] m(2) by simp_all
          then show ?thesis using 1 Inr by auto
        qed simp
      qed simp
    qed (simp add: Inr)
  qed simp
  have expiry: "stays ok (expiry E days)" for days
    unfolding expiry_def by (intro stays_intros)
  have generate: "wp (generate_workflow_key E sha token email wid n)
      (\<lambda>(raw, k) w'. ok w' \<and> dget0 k ''hashedKey'' = PStr (sha raw) \<and> dget0 k ''workflowId'' = of_opt wid) (\<lambda>_ _. True) w1"
    if "ok w1" for email wid n w1
    unfolding generate_workflow_key_def wp_bind [of token] wp_bind [of "utcnow E"]
  proof (rule wp_mono [OF stays_wp [OF token that]], rule wp_utcnow_ok, assumption, goal_cases)
    case (1 raw w2 now w3)
    let ?v = "env_validate E ''WorkflowKey'' [''hashedKey'' \<mapsto> PStr (sha raw), ''workflowId'' \<mapsto> of_opt wid, ''createdBy'' \<mapsto> PStr email,
      ''createdAt'' \<mapsto> PDate now, ''lastUsedAt'' \<mapsto> PNone, ''revoked'' \<mapsto> PBool False, ''expiresAt'' \<mapsto> PNone, ''description'' \<mapsto> PNone]"
    show ?case
    proof (cases ?v)
      case (Inr k)
      have "k ''hashedKey'' = Some (PStr (sha raw))" "k ''workflowId'' = Some (of_opt wid)"
        using validate_key [OF Inr, of "''hashedKey''" "Some (sha raw)"] validate_key [OF Inr, of "''workflowId''" wid] by simp_all
      then show ?thesis using 1 Inr by (simp add: dget_def)
    qed simp
  qed simp
  have main: "wp (py_bind (lift (ebind body (key_request_of E))) (\<lambda>rq.
      py_bind (expiry E (kr_expires_in_days rq)) (\<lambda>expires_at.
      py_bind (generate_workflow_key E sha token (ctx_email ctx) (kr_workflow_id rq)
          (case kr_expires_in_days rq of Some n \<Rightarrow> n | None \<Rightarrow> 0)) (\<lambda>(raw_key, k).
      py_bind (lift (complete_key E rq expires_at k)) (\<lambda>m.
      py_bind (lift (key_entity E m)) (\<lambda>e.
      py_then (create_workflow_key E global_config_repository e)
      (py_bind (lift (created_response E raw_key m)) (\<lambda>response. ret (201, key_json response)))))))))
      ?Q (\<lambda>_ _. True) w"
  proof (cases "ebind body (key_request_of E)")
    case (Inr rq)
    show ?thesis
      unfolding Inr wp_bind [of "lift (Inr _)"] wp_lift sum.case wp_bind [of "expiry _ _"]
    proof (rule wp_mono [OF stays_wp [OF expiry assms(1)]], goal_cases)
      case (1 expires_at w1)
      show ?case
        unfolding wp_bind [of "generate_workflow_key _ _ _ _ _ _"]
        by (rule wp_mono [OF generate [OF 1]]) (auto simp only: prod.case split: prod.splits intro!: store)
    qed simp
  qed simp
  show ?thesis
    unfolding create_workflow_key_handler_def wp_catch
    by (rule wp_mono [OF main]) (auto simp: create_failure_def error_response_def)
qed

end

interpretation mem: key_models mem_env "\<lambda>w. mem_faults w = []"
  by unfold_locales (auto simp: mem_env_def)

text \<open>The row of a key by its identifier, and a row whose key was revoked by its owner.\<close>

definition key_row :: "tables \<Rightarrow> string \<Rightarrow> key \<Rightarrow> entity \<Rightarrow> bool" where
  "key_row R key_id k e \<longleftrightarrow> R ''Config'' k = Some e \<and> (k = (''GLOBAL'', workflow_key_row key_id)
     \<or> k = (''GLOBAL'', global_key_row key_id) \<and> R ''Config'' (''GLOBAL'', workflow_key_row key_id) = None)"

lemma key_row_unique: "key_row R key_id k e \<Longrightarrow> key_row R key_id k' e' \<Longrightarrow> k' = k \<and> e' = e"
  by (auto simp: key_row_def)

definition revoked_at_most :: "exec_context \<Rightarrow> string option \<Rightarrow> tables \<Rightarrow> tables \<Rightarrow> bool" where
  "revoked_at_most ctx route R R' \<longleftrightarrow> R' = R \<or> (\<exists>key_id k e e'. route = Some key_id \<and> key_row R key_id k e
     \<and> e ''CreatedBy'' = Some (PStr (ctx_email ctx)) \<and> e' ''Revoked'' = Some (PBool True) \<and> R' = put_row ''Config'' k (Some e') R)"

lemma revoked_at_most_refl [simp]: "revoked_at_most ctx route R R"
  by (simp add: revoked_at_most_def)

context table_sdk
begin

lemma wp_key_by_id:
  assumes "env_rows E w = R"
  shows "wp (get_workflow_key_by_id E global_config_repository key_id)
    (\<lambda>res w'. env_rows E w' = R \<and> (\<forall>d. res = Some d \<longrightarrow> (\<exists>k e. key_row R key_id k e \<and> entity_key d = Some k
       \<and> (\<forall>f. f \<noteq> ''etag'' \<longrightarrow> d f = deserialize_datetime_fields E e f)))) (\<lambda>_ w'. env_rows E w' = R) w"
proof -
  have t: "svc_table (repo_service (sr_repo global_config_repository)) = ''Config''"
    by (simp add: repo_service_def global_config_repository_def)
  have key: "entity_key d = Some k" if "R ''Config'' k = Some e" "\<And>f. f \<noteq> ''etag'' \<Longrightarrow> d f = deserialize_datetime_fields E e f" for d k e
    using rows_keyed [of w "''Config''" k e] assms that(1) that(2) [of "''PartitionKey''"] that(2) [of "''RowKey''"]
    by (cases k) (auto simp: entity_key_Some deserialize_datetime_fields_def datetime_fields_def)
  show ?thesis
    unfolding get_workflow_key_by_id_def get_by_id_def wp_bind
  proof (rule wp_get_entity, goal_cases)
    case (1 e d w')
    then have "key_row R key_id (''GLOBAL'', workflow_key_row key_id) e" "entity_key d = Some (''GLOBAL'', workflow_key_row key_id)"
      using key [of _ e d] assms by (simp_all add: key_row_def t)
    then show ?case using 1 assms by auto
  next
    case (2 w')
    have none: "R ''Config'' (''GLOBAL'', workflow_key_row key_id) = None" using 2(2) assms by (simp add: t)
    show ?case
      unfolding option.case
    proof (rule wp_get_entity, goal_cases)
      case (1 e d w'')
      then have "key_row R key_id (''GLOBAL'', global_key_row key_id) e" "entity_key d = Some (''GLOBAL'', global_key_row key_id)"
        using key [of _ e d] assms 2(1) none by (simp_all add: key_row_def t)
      then show ?case using 1 2(1) assms by auto
    qed (use 2(1) assms in simp_all)
  qed (use assms in simp_all)
qed

lemma wp_revoke_row:
  assumes w: "env_rows E w = R" and row: "key_row R key_id k e" "e ''CreatedBy'' = Some (PStr (ctx_email ctx))"
  shows "wp (revoke_workflow_key E global_config_repository key_id by') (\<lambda>_ w'. revoked_at_most ctx (Some key_id) R (env_rows E w'))
    (\<lambda>_ w'. revoked_at_most ctx (Some key_id) R (env_rows E w')) w"
proof -
  let ?I = "\<lambda>w'. revoked_at_most ctx (Some key_id) R (env_rows E w')"
  have t: "svc_table (repo_service (sr_repo global_config_repository)) = ''Config''"
    by (simp add: repo_service_def global_config_repository_def)
  have R: "R ''Config'' k = Some e" using row(1) by (simp add: key_row_def)
  have upd: "wp (repo_update E (sr_repo global_config_repository) (d(''Revoked'' \<mapsto> PBool True, ''RevokedAt'' \<mapsto> PStr ts,
      ''RevokedBy'' \<mapsto> PStr by')) ''merge'') (\<lambda>_. ?I) (\<lambda>_. ?I) w'"
    if "env_rows E w' = R" "entity_key d = Some k" for d ts w'
  proof -
    let ?d = "d(''Revoked'' \<mapsto> PBool True, ''RevokedAt'' \<mapsto> PStr ts, ''RevokedBy'' \<mapsto> PStr by')"
    let ?e = "write_row Merge (serialize_datetime_fields E ?d) (Some e)"
    have key: "entity_key ?d = Some k" using that(2) by (cases k) (simp add: entity_key_Some)
    have "?e ''Revoked'' = Some (PBool True)"
      by (simp add: write_row_def map_add_def drop_none_apply serialize_datetime_fields_def)
    then have "revoked_at_most ctx (Some key_id) R (put_row ''Config'' k (Some ?e) R)"
      unfolding revoked_at_most_def using row by blast
    then show ?thesis
      unfolding repo_update_def
      by (intro wp_update_entity [OF key]) (use that(1) R in \<open>auto simp: t mode_of_def\<close>)
  qed
  show ?thesis
    unfolding revoke_workflow_key_def wp_bind [of "get_workflow_key_by_id _ _ _"]
  proof (rule wp_mono [OF wp_key_by_id [OF w]], goal_cases)
    case (1 res w')
    show ?case
    proof (cases res)
      case (Some d)
      then obtain k' e' where "key_row R key_id k' e'" and k': "entity_key d = Some k'" using 1 by blast
      then have "entity_key d = Some k" using key_row_unique [OF row(1)] by simp
      with 1 show ?thesis
        unfolding Some option.case wp_bind wp_then
        by (auto simp del: fun_upd_apply intro!: wp_utcnow wp_mono [OF upd])
    qed (use 1 in simp)
  qed simp
qed

lemma wp_revoke_handler:
  assumes w: "env_rows E w = R"
  shows "wp (revoke_workflow_key_handler E ctx route) (\<lambda>_ w'. revoked_at_most ctx route R (env_rows E w')) (\<lambda>_ _. False) w"
proof -
  let ?I = "\<lambda>w'. revoked_at_most ctx route R (env_rows E w')"
  have found: "wp (py_bind (get_workflow_key_by_id E global_config_repository key_id) (\<lambda>found. case found of
      None \<Rightarrow> ret (error_response 404 ''NotFound'' (''Workflow key '' @ quote @ key_id @ quote @ '' not found''))
    | Some e \<Rightarrow> py_bind (lift (required e ''CreatedBy'')) (\<lambda>creator.
        if creator \<noteq> PStr (ctx_email ctx) then ret (error_response 403 ''Forbidden'' ''You can only revoke your own keys'')
        else py_bind (revoke_workflow_key E global_config_repository key_id (ctx_email ctx)) (\<lambda>success.
          if \<not> success then ret (error_response 500 ''InternalError'' ''Failed to revoke workflow key'')
          else ret (204, PNone))))) (\<lambda>_. ?I) (\<lambda>_. ?I) w" if route: "route = Some key_id" for key_id
    unfolding wp_bind [of "get_workflow_key_by_id _ _ _"]
  proof (rule wp_mono [OF wp_key_by_id [OF w]], goal_cases)
    case (1 res v)
    show ?case
    proof (cases res)
      case (Some d)
      then obtain k e where row: "key_row R key_id k e" "\<And>f. f \<noteq> ''etag'' \<Longrightarrow> d f = deserialize_datetime_fields E e f" using 1 by blast
      show ?thesis
      proof (cases "d ''CreatedBy'' = Some (PStr (ctx_email ctx))")
        case True
        then have "e ''CreatedBy'' = Some (PStr (ctx_email ctx))"
          using row(2) [of "''CreatedBy''"] by (auto simp: deserialize_datetime_fields_def datetime_fields_def split: option.splits pyval.splits)
        note revoke = wp_revoke_row [OF conjunct1 [OF 1] row(1) this, of "ctx_email ctx"]
        show ?thesis
          unfolding Some option.case wp_bind
          by (auto simp: required_def True route intro!: wp_mono [OF revoke])
      qed (use 1 in \<open>auto simp: Some required_def split: option.splits\<close>)
    qed (use 1 in simp)
  qed simp
  show ?thesis
    unfolding revoke_workflow_key_handler_def wp_catch
  proof (cases route, goal_cases)
    case (2 key_id)
    show ?case
    proof (cases "key_id = []")
      case False
      show ?thesis
        unfolding 2 option.case if_not_P [OF False] by (rule wp_mono [OF found [OF 2]]) (simp_all add: 2)
    qed (use w 2 in simp)
  qed (use w in simp)
qed

end

section \<open>Properties\<close>

text \<open>
  C10: a key that was created is accepted: when the answer to its creation is 201, the key it shows opens the workflow it was
  made for (or every workflow, for a key without one). The table service is available, and neither the hash nor the name
  of the workflow holds a quote.
\<close>

theorem created_key_accepted:
  assumes "key_models E ok" and "ok w" and "stays ok token"
    and "create_workflow_key_handler E sha token ctx body w = (Inr (201, v), w')"
  shows "\<exists>raw wid resp. v = key_json resp \<and> resp ''rawKey'' = Some (PStr raw) \<and> resp ''workflowId'' = Some (of_opt wid)
    \<and> (no_quote (sha raw) \<longrightarrow> no_quote (str_or wid []) \<longrightarrow>
        (\<exists>key_id w''. check_workflow_key E sha raw wid w' = (Inr (True, key_id), w'')))"
proof -
  have sdk: "available_sdk E ok" using assms(1) by (simp add: key_models_def)
  obtain raw wid resp where r: "ok w'" "v = key_json resp" "resp ''rawKey'' = Some (PStr raw)" "resp ''workflowId'' = Some (of_opt wid)"
    "kept_key sha raw wid (env_rows E w')"
    using wp_Inr [OF key_models.wp_create_key [OF assms(1-3)] assms(4)] by auto
  have "\<exists>key_id w''. check_workflow_key E sha raw wid w' = (Inr (True, key_id), w'')" if "no_quote (sha raw)" "no_quote (str_or wid [])"
    using available_sdk.wp_validate_key [OF sdk r(1) that] r(5)
    by (auto simp: wp_def check_workflow_key_def py_catch_def kept_key_def split: prod.splits sum.splits)
  then show ?thesis using r by blast
qed

definition stamp :: "string \<Rightarrow> string" where
  "stamp s = ''#'' @ s"

theorem created_key_accepted_witness:
  "\<exists>v w' raw key_id w''. create_workflow_key_handler mem_env stamp (ret ''tok'') chief (Inr [''workflowId'' \<mapsto> PStr ''sync'']) empty_world
      = (Inr (201, v), w') \<and> check_workflow_key mem_env stamp raw (Some ''sync'') w' = (Inr (True, key_id), w'')"
proof -
  let ?run = "create_workflow_key_handler mem_env stamp (ret ''tok'') chief (Inr [''workflowId'' \<mapsto> PStr ''sync'']) empty_world"
  have "case fst ?run of Inr (s, PDict kvs) \<Rightarrow> s = 201 \<and> map_of kvs ''rawKey'' = Some (PStr ''tok'')
      \<and> map_of kvs ''workflowId'' = Some (PStr ''sync'') | _ \<Rightarrow> False" by code_simp
  moreover obtain out w' where out: "?run = (out, w')" by fastforce
  ultimately obtain d where d: "out = Inr (201, d)" "case d of PDict kvs \<Rightarrow> map_of kvs ''rawKey'' = Some (PStr ''tok'')
      \<and> map_of kvs ''workflowId'' = Some (PStr ''sync'') | _ \<Rightarrow> False"
    by (cases out) (auto split: pyval.splits)
  then obtain kvs where "d = PDict kvs" and kvs: "map_of kvs ''rawKey'' = Some (PStr ''tok'')" "map_of kvs ''workflowId'' = Some (PStr ''sync'')"
    by (cases d) auto
  then have run: "?run = (Inr (201, PDict kvs), w')" using out d(1) by simp
  have token: "stays (\<lambda>w :: mem. mem_faults w = []) (ret ''tok'')" by (intro stays_intros)
  obtain raw wid resp where resp: "PDict kvs = key_json resp" "resp ''rawKey'' = Some (PStr raw)" "resp ''workflowId'' = Some (of_opt wid)"
    and check: "no_quote (stamp raw) \<longrightarrow> no_quote (str_or wid []) \<longrightarrow>
        (\<exists>key_id w''. check_workflow_key mem_env stamp raw wid w' = (Inr (True, key_id), w''))"
    using created_key_accepted [OF mem.key_models_axioms _ token run] by (auto simp: empty_world_def)
  have "raw = ''tok''" "of_opt wid = PStr ''sync''"
    using resp kvs by (auto simp: key_json_def fields_json_def key_fields_def dget_def)
  then have "raw = ''tok''" "wid = Some ''sync''" by (cases wid; simp)+
  then show ?thesis using run check by (auto simp: stamp_def)
qed

text \<open>
  C11: a key is revoked only by the one who created it, whoever asks and whatever fails: the only row that a revocation changes
  is that of the key named, when it was created by the caller, and it is then marked as revoked.
\<close>

theorem only_owner_revokes:
  assumes "table_sdk E" and "revoke_workflow_key_handler E ctx route w = (out, w')" and "env_rows E w' t k \<noteq> env_rows E w t k"
  shows "t = ''Config'' \<and> (\<exists>key_id e e'. route = Some key_id \<and> k \<in> {(''GLOBAL'', workflow_key_row key_id), (''GLOBAL'', global_key_row key_id)}
    \<and> env_rows E w t k = Some e \<and> e ''CreatedBy'' = Some (PStr (ctx_email ctx))
    \<and> env_rows E w' t k = Some e' \<and> e' ''Revoked'' = Some (PBool True))"
proof -
  have "revoked_at_most ctx route (env_rows E w) (env_rows E w')"
    using table_sdk.wp_revoke_handler [OF assms(1) refl, where w = w and ctx = ctx and route = route] assms(2) by (cases out) (auto simp: wp_def)
  then obtain key_id k' e e' where r: "route = Some key_id" "key_row (env_rows E w) key_id k' e" "e ''CreatedBy'' = Some (PStr (ctx_email ctx))"
      "e' ''Revoked'' = Some (PBool True)" "env_rows E w' = put_row ''Config'' k' (Some e') (env_rows E w)"
    using assms(3) unfolding revoked_at_most_def by auto
  have "t = ''Config'' \<and> k = k'" using assms(3) r(5) by (auto simp: put_row_apply split: if_splits)
  then show ?thesis using r by (auto simp: key_row_def put_row_apply)
qed

definition owned_key_world :: mem where
  "owned_key_world = empty_world\<lparr>mem_rows := [((''Config'', (''GLOBAL'', workflow_key_row ''k'')),
     [''PartitionKey'' \<mapsto> PStr ''GLOBAL'', ''RowKey'' \<mapsto> PStr (workflow_key_row ''k''), ''CreatedBy'' \<mapsto> PStr (ctx_email chief),
      ''Revoked'' \<mapsto> PBool False])]\<rparr>"

theorem only_owner_revokes_witness:
  "\<exists>e. mem_view (snd (revoke_workflow_key_handler mem_env chief (Some ''k'') owned_key_world)) ''Config'' (''GLOBAL'', workflow_key_row ''k'')
     = Some e \<and> e ''Revoked'' = Some (PBool True)"
proof -
  let ?run = "revoke_workflow_key_handler mem_env chief (Some ''k'') owned_key_world" and ?k = "(''GLOBAL'', workflow_key_row ''k'')"
  have "case mem_view (snd ?run) ''Config'' ?k of Some e \<Rightarrow> e ''RevokedBy'' \<noteq> None | None \<Rightarrow> False" by code_simp
  moreover have "case mem_view owned_key_world ''Config'' ?k of Some e \<Rightarrow> e ''RevokedBy'' = None | None \<Rightarrow> False" by code_simp
  ultimately have "env_rows mem_env (snd ?run) ''Config'' ?k \<noteq> env_rows mem_env owned_key_world ''Config'' ?k"
    by (auto split: option.splits)
  from only_owner_revokes [OF mem.table_sdk_axioms prod.collapse [symmetric] this] show ?thesis by auto
qed

end
