(* ===== verification/Spec2Isabelle.thy ===== *)
theory Spec2Isabelle
  imports Request_Context Form_Validation Secret_Naming Async_Executor Engine Middleware Execution_Cleanup Schedules Workspace_Files Role_Handlers Form_Handlers Execution_Handlers User_Handlers Key_Handlers
begin

text \<open>
  A verification library for the core of the Bifrost API, a multi-tenant workflow platform written in
  Python on Azure Functions. Every request is resolved to an organization scope, reads and writes rows
  of Azure Table Storage through repositories, and is checked against roles and form access levels.

  \<^bold>\<open>Layers.\<close> The theories follow the layers of \<open>src/shared\<close>:

  \<^item> \<open>Prelude\<close>: Python values (\<open>pyval\<close>: None, booleans, integers, floats, strings, dates, lists,
    dictionaries), truth, exceptions as the left part of a sum, string operations (split, find, lower, int,
    slices), and facts on the lexicographic order of row keys.
  \<^item> \<open>Runtime\<close>: the world of the code. A program is a function from a world to a result or an exception
    and the next world (\<open>py\<close>, with \<open>py_bind\<close>, \<open>py_then\<close>, \<open>raise\<close>, \<open>py_catch\<close>). What the code uses from
    outside (clock, identifiers, environment variables, JSON, base64, pydantic constructors, the table SDK,
    form files, the module-level caches of \<open>user_lookup.py\<close>) are fields of the record \<open>env\<close>; the locale
    \<open>runtime\<close> states what the clock, the caches and the string conversions promise. The predicate \<open>wp\<close> says
    what holds of every result and every exception; its rules carry the proofs of all components.
  \<^item> \<open>Table_Sdk\<close>: the promise of the table service as the locale \<open>table_sdk\<close> over a view of the tables as
    maps from keys to entities: a request that raises changes nothing, a query lists the matching rows in the
    order of their keys, inserts conflict, merges keep the other properties, deletes of absent rows are no
    error. \<open>available_sdk\<close> extends it by a service that answers. \<open>Memory_Env\<close> is a concrete world (tables as
    association lists, a counter clock, a JSON reader, injectable faults) on which both are interpreted; all
    witnesses run in it.
  \<^item> \<open>Context\<close>: \<open>shared/context.py\<close>, the execution context and its scope.
  \<^item> \<open>Table_Storage\<close>: \<open>shared/async_storage.py\<close> and \<open>repositories/base.py\<close>.
  \<^item> \<open>Scoped_Repository\<close>: \<open>repositories/scoped_repository.py\<close>, fallback from organization to GLOBAL.
  \<^item> \<open>Role_Repository\<close>: \<open>repositories/roles.py\<close>.
  \<^item> \<open>Execution_Repository\<close>: \<open>repositories/executions.py\<close>, primary rows and four kinds of index rows.
  \<^item> \<open>Form_Repository\<close>: the form part of \<open>shared/discovery.py\<close> and the reading side of
    \<open>repositories/forms_file.py\<close>.
  \<^item> \<open>Authorization\<close>: \<open>shared/authorization.py\<close>.
  \<^item> \<open>Organization_Repository\<close>, \<open>User_Repository\<close>: \<open>repositories/organizations.py\<close>, \<open>repositories/users.py\<close>.
  \<^item> \<open>User_Provisioning\<close>: \<open>shared/user_provisioning.py\<close> and \<open>shared/user_lookup.py\<close>.
  \<^item> \<open>Audit_Log\<close>: \<open>repositories/audit.py\<close> and \<open>shared/audit.py\<close>.
  \<^item> \<open>Request_Context\<close>: \<open>shared/auth.py\<close> and \<open>shared/request_context.py\<close>.
  \<^item> \<open>Cloud\<close>: the services beside the tables (blobs, a queue, Web PubSub, the attributes of the objects that
    hold them) as the record \<open>services\<close>, their promises as the locales \<open>cloud\<close> and \<open>available_cloud\<close>, and a
    concrete world in memory.
  \<^item> \<open>Blob_Storage\<close>: \<open>shared/blob_storage.py\<close>.
  \<^item> \<open>Execution_Logger\<close>: \<open>shared/webpubsub_broadcaster.py\<close> and \<open>shared/execution_logger.py\<close>, which put the
    execution repository, blobs and broadcasts together.
  \<^item> \<open>Async_Executor\<close>: \<open>shared/async_executor.py\<close>, which records and queues an execution.
  \<^item> \<open>Execution_Logs\<close>: \<open>repositories/execution_logs.py\<close>.
  \<^item> \<open>Variable_Capture\<close>, \<open>Engine\<close>: \<open>shared/engine.py\<close>. User code is a tree of its effects (\<open>user_code\<close>): it
    logs, leaves frames, changes the world, and returns or raises; what the engine finds outside (compiler,
    cache, globals of modules) is the record \<open>engine_env\<close>, with the locale \<open>engine\<close> for its laws.
  \<^item> \<open>Config_Repository\<close>: \<open>repositories/config.py\<close> and \<open>shared/workflow_keys.py\<close>; configuration as a map
    from scope and key to values (\<open>config_view\<close>), and which API keys are accepted.
  \<^item> \<open>Middleware\<close>: \<open>shared/middleware.py\<close>, the execution context of an endpoint.
  \<^item> \<open>Worker\<close>: \<open>functions/queue/worker.py\<close>, the life of an execution from its message to its final status. The
    event loop and the loader of workflows are the record \<open>host\<close>; the locale \<open>worker_host\<close> says that while the
    worker waits others keep the rows of the execution consistent (they may change its status), \<open>worker_clock\<close>
    that time does not go back. The loop that watches the task takes a number of rounds as fuel; timeout plus
    two rounds (1802 for the default) are enough.
  \<^item> \<open>Execution_Cleanup\<close>: \<open>functions/timer/execution_cleanup.py\<close>, \<open>handlers/execution_cleanup_handlers.py\<close> and
    \<open>functions/queue/poison_queue_handler.py\<close>, which end the executions the worker left behind.
  \<^item> \<open>Cron\<close>: \<open>shared/workflows/cron_parser.py\<close>; the package \<open>croniter\<close> is the record \<open>cron_lib\<close>.
  \<^item> \<open>Schedules\<close>: \<open>functions/timer/schedule_processor.py\<close> and \<open>handlers/schedules_handlers.py\<close>. The locale
    \<open>versioned_rows\<close> states what an ETag promises; schedulers that compete for a run are a list of claims with
    anything in between (\<open>contend\<close>).
  \<^item> \<open>System_Log\<close>: \<open>shared/system_logger.py\<close>, platform events.
  \<^item> \<open>Key_Vault\<close>: \<open>shared/keyvault.py\<close> and \<open>shared/config_resolver.py\<close>. The client of the vault is the record
    \<open>secret_client\<close>; the locale \<open>key_vault\<close> states its laws over a map from names to secrets, \<open>vault_maker\<close>
    that every client made is a client of this vault. \<open>entry_value\<close> is what a configuration entry stands for.
  \<^item> \<open>Secret_Handlers\<close>: \<open>handlers/secrets_handlers.py\<close> and the secrets of the SDK (\<open>src/bifrost\<close>).
  \<^item> \<open>OAuth_Provider\<close>: \<open>services/oauth_provider.py\<close>; posting and sleeping are the record \<open>oauth_http\<close>, and the
    locale \<open>token_endpoint\<close> counts them.
  \<^item> \<open>OAuth_Storage\<close>: \<open>services/oauth_storage_service.py\<close>, connections with their secrets and tokens, and the job
    that refreshes tokens, over vault, tables and providers (locale \<open>oauth_services\<close>).
  \<^item> \<open>Organization_Handlers\<close>: \<open>handlers/organizations_handlers.py\<close> and \<open>bifrost/organizations.py\<close>.
  \<^item> \<open>Config_Sdk\<close>: \<open>bifrost/config.py\<close> and \<open>handlers/org_config_handlers.py\<close>; configuration from the value a
    workflow or administrator gives to the value a workflow reads, through tables and vault.
  \<^item> \<open>File_System\<close>: trees of files, directories and links, the resolution of paths, and the calls of \<open>pathlib\<close>,
    \<open>os\<close> and \<open>shutil\<close>, each of which may fail after a part of its work (record \<open>disk\<close>, locale \<open>disk_laws\<close>).
  \<^item> \<open>Workspace_Files\<close>: \<open>shared/editor/file_operations.py\<close>, \<open>shared/editor/search.py\<close> and \<open>bifrost/files.py\<close>; the requests
    of the editor and of workflows as datatypes, and what they leave outside of their directory.
  \<^item> \<open>Role_Handlers\<close>: \<open>handlers/roles_handlers.py\<close> and \<open>bifrost/roles.py\<close>.
  \<^item> \<open>Workflow_Handlers\<close>: the execution part of \<open>handlers/workflows_handlers.py\<close>, a workflow run at once by the
    engine or queued, and what is answered to whom.
  \<^item> \<open>Data_Providers\<close>: \<open>handlers/data_providers_handlers.py\<close>.
  \<^item> \<open>Form_Files\<close>: the writing side of \<open>repositories/forms_file.py\<close> over the file system; the locale \<open>form_disk\<close> joins
    the laws of the disk and of the runtime.
  \<^item> \<open>Form_Handlers\<close>: \<open>handlers/forms_handlers.py\<close>, with forms, authorization, the engine and data providers put together.
  \<^item> \<open>Execution_Handlers\<close>: \<open>handlers/executions_handlers.py\<close>; the locale \<open>execution_dumps\<close> says that a dump of an execution
    has the fields of its model only.
  \<^item> \<open>User_Handlers\<close>: \<open>handlers/permissions_handlers.py\<close>, users with their roles and forms.
  \<^item> \<open>Key_Handlers\<close>: \<open>handlers/workflow_keys_handlers.py\<close>; the locale \<open>key_models\<close> says that the strings of a key pass its
    models unchanged.
  \<^item> \<open>Form_Validation\<close>: \<open>shared/validators.py\<close> and the validators of the form models.
  \<^item> \<open>Secret_Naming\<close>: \<open>shared/secret_naming.py\<close>.

  \<^bold>\<open>Conventions.\<close> Entities are maps from property names to values, as the dictionaries of the code; a
  pydantic model is the dictionary of its fields, built by \<open>env_validate\<close>, which may raise. Every await is a
  call that may raise and leave the world changed by other means than the tables; concurrency between
  requests is not modelled, a function runs against the world it is given. \<open>asyncio.gather\<close> runs its
  requests in an order the world chooses (\<open>env_sched\<close>), and the lemmas hold for every order. Logging of messages is left out, since it has no effect on the answers.

  \<^bold>\<open>What the lemmas show.\<close> The tables are described before and after each operation: scoped queries
  answer exactly the rows visible from the organization; creating and updating an execution keeps its primary
  row and its status index in agreement; role assignments are found again, and the ranges of row keys by which
  they are found are described exactly, with the rows of other identifiers they include; forms are only
  read in scope and executed by the users the rules name; the organization of a request is never taken from
  the header of a user without administrator rights; only the first user of an empty table becomes an
  administrator; audit logging never disturbs the request it logs; a queued execution is on record as
  pending with its message in the queue; whatever user code does, the engine answers with a result that says
  so, and cleans up the globals it set; configuration is a map that each write changes at one point; exactly
  the keys with a row of their hash that is not revoked are accepted; the worker always returns, and then its
  execution has a final status; the cleanup ends only executions that are stuck; the next run of a schedule is a
  time the timer meets, and no run is claimed by two schedulers; values of configuration are read back with the types
  they were stored with, and an inline secret is kept in the vault only; a token request is bounded in requests and
  waiting, and the job that refreshes tokens never touches the connections of organizations; no request for files
  changes anything outside of its directory, what is written is read, and hits of a search are matches; an update of a form is all or nothing; forms of other
  organizations are hidden, inside of an organization the permission of a form is asked for and never awaited; users
  who are no administrators do not see what an error of a workflow says; roles are given to fit users only;
  users are refused every look at an execution, their own included, and only active executions can be cancelled;
  users never change their own role, and with a deleted user no row goes but account and memberships;
  a key that was created is accepted, and only its creator revokes it.

  \<^bold>\<open>Not modelled.\<close> Python import machinery, git, packages, dates of files, the inside of HTTP clients, and the
  text of log messages; the check of a workflow file by compiling and importing it; closing clients and leaving their context managers. The threads in which the engine sends its broadcasts run at once, in the order of the
  log lines.
\<close>

end
